(* ===== verification/Prelude.thy ===== *)
theory Prelude
  imports Main "HOL-Library.Char_ord" "HOL-Library.List_Lexorder" "HOL-Library.Word"
    "HOL-Library.Multiset"
begin

text \<open>
  What every component shares: the result type of fallible code (an error or a panic, or a
  value), the loops of the source that stop at the first error, Rust's \<open>Ordering\<close> and its
  stable \<open>sort_by\<close>, decimal printing, and the blank-string test \<open>s.trim().is_empty()\<close>.
  Strings are byte strings (UTF-8, one \<open>char\<close> per byte), as Rust's \<open>str::len\<close> and
  byte-wise \<open>Ord\<close> see them.
\<close>

named_theorems result_simps "equations that run the result combinators"
named_theorems ok_iff "characterisations of when a fallible operation returns Ok"

section \<open>Results\<close>

text \<open>
  A fallible operation returns \<open>Inl (Err e)\<close> for \<open>Err(e)\<close>, \<open>Inl (Panic w)\<close> where the
  Rust code would panic (a failed \<open>expect\<close>, an arithmetic underflow, a slice out of range), and
  \<open>Inr x\<close> for \<open>Ok(x)\<close>. The error type is a parameter here; \<open>Errors\<close> fixes it.
\<close>

datatype (plugins only: code size) panic =
    ExpectFailed string
  | AssertFailed string
  | SubtractOverflow
  | AddOverflow
  | IndexOutOfRange
  | SliceOutOfRange

datatype (plugins only: code size) 'e failure = Err 'e | Panic panic

definition and_then :: "'f + 'a \<Rightarrow> ('a \<Rightarrow> 'f + 'b) \<Rightarrow> 'f + 'b" where
  "and_then r k = (case r of Inl f \<Rightarrow> Inl f | Inr x \<Rightarrow> k x)"

lemma and_then_simps [simp, result_simps]:
  "and_then (Inl f) k = Inl f"
  "and_then (Inr x) k = k x"
  by (simp_all add: and_then_def)

lemma and_then_ok [ok_iff]: "and_then r k = Inr y \<longleftrightarrow> (\<exists>x. r = Inr x \<and> k x = Inr y)"
  by (cases r) auto

lemma and_then_err:
  "and_then r k = Inl f \<longleftrightarrow> r = Inl f \<or> (\<exists>x. r = Inr x \<and> k x = Inl f)"
  by (cases r) auto

lemma and_then_cong [fundef_cong]:
  "r = r' \<Longrightarrow> (\<And>x. r' = Inr x \<Longrightarrow> k x = k' x) \<Longrightarrow> and_then r k = and_then r' k'"
  by (cases r') auto

text \<open>\<open>option.ok_or(..)\<close> and a guard that returns an error.\<close>

definition ok_or :: "'a option \<Rightarrow> 'f \<Rightarrow> 'f + 'a" where
  "ok_or x f = (case x of None \<Rightarrow> Inl f | Some y \<Rightarrow> Inr y)"

lemma ok_or_ok [simp, ok_iff]: "ok_or x f = Inr y \<longleftrightarrow> x = Some y"
  by (cases x) (auto simp: ok_or_def)

lemma ok_or_simps [simp, result_simps]:
  "ok_or None f = Inl f" "ok_or (Some y) f = Inr y"
  by (simp_all add: ok_or_def)

definition ensure :: "bool \<Rightarrow> 'f \<Rightarrow> 'f + unit" where
  "ensure b f = (if b then Inr () else Inl f)"

lemma ensure_simps [simp, result_simps]: "ensure True f = Inr ()" "ensure False f = Inl f"
  by (simp_all add: ensure_def)

lemma ensure_ok [simp, ok_iff]: "ensure b f = Inr u \<longleftrightarrow> b"
  by (simp add: ensure_def)

text \<open>A \<open>for\<close> loop whose body may return an error: without state, with state, and collecting.\<close>

fun try_each :: "('a \<Rightarrow> 'f + unit) \<Rightarrow> 'a list \<Rightarrow> 'f + unit" where
  "try_each f [] = Inr ()"
| "try_each f (x # xs) = and_then (f x) (\<lambda>_. try_each f xs)"

fun try_fold :: "('s \<Rightarrow> 'a \<Rightarrow> 'f + 's) \<Rightarrow> 's \<Rightarrow> 'a list \<Rightarrow> 'f + 's" where
  "try_fold f s [] = Inr s"
| "try_fold f s (x # xs) = and_then (f s x) (\<lambda>s'. try_fold f s' xs)"

fun try_map :: "('a \<Rightarrow> 'f + 'b) \<Rightarrow> 'a list \<Rightarrow> 'f + 'b list" where
  "try_map f [] = Inr []"
| "try_map f (x # xs) = and_then (f x) (\<lambda>y. and_then (try_map f xs) (\<lambda>ys. Inr (y # ys)))"

lemma try_each_cong [fundef_cong]:
  "xs = ys \<Longrightarrow> (\<And>x. x \<in> set ys \<Longrightarrow> f x = g x) \<Longrightarrow> try_each f xs = try_each g ys"
  by (induction ys arbitrary: xs) auto

lemma try_each_ok [ok_iff]: "try_each f xs = Inr u \<longleftrightarrow> (\<forall>x \<in> set xs. f x = Inr ())"
  by (induction xs) (auto simp: and_then_ok)

lemma try_each_err_mem: "try_each f xs = Inl e \<Longrightarrow> \<exists>x \<in> set xs. f x = Inl e"
  by (induction xs) (auto simp: and_then_err)

text \<open>The first failing element decides the error.\<close>

lemma try_each_first_err:
  "try_each f (xs @ y # ys) = Inl e" if "\<forall>x \<in> set xs. f x = Inr ()" and "f y = Inl e"
  using that by (induction xs) auto

lemma try_map_ok [ok_iff]:
  "try_map f xs = Inr ys \<longleftrightarrow> list_all2 (\<lambda>x y. f x = Inr y) xs ys"
  by (induction xs arbitrary: ys) (auto simp: and_then_ok list_all2_Cons1)

lemma try_map_err_mem: "try_map f xs = Inl e \<Longrightarrow> \<exists>x \<in> set xs. f x = Inl e"
  by (induction xs) (auto simp: and_then_err)

lemma try_map_total: "(\<And>x. x \<in> set xs \<Longrightarrow> f x = Inr (g x)) \<Longrightarrow> try_map f xs = Inr (map g xs)"
  by (induction xs) auto

lemma try_fold_append:
  "try_fold f s (xs @ ys) = and_then (try_fold f s xs) (\<lambda>s'. try_fold f s' ys)"
  by (induction xs arbitrary: s) (auto simp: and_then_def split: sum.splits)

text \<open>The loop invariant rule for a stateful loop.\<close>

lemma try_fold_invariant:
  assumes "try_fold f s xs = Inr t" and "I s"
    and "\<And>s x s'. x \<in> set xs \<Longrightarrow> I s \<Longrightarrow> f s x = Inr s' \<Longrightarrow> I s'"
  shows "I t"
  using assms by (induction xs arbitrary: s) (auto simp: and_then_ok)

section \<open>Ordering and the stable sort\<close>

datatype (plugins only: code size) ordering = Less | Equal | Greater

definition ord_cmp :: "'a::linorder \<Rightarrow> 'a \<Rightarrow> ordering" where
  "ord_cmp x y = (if x < y then Less else if x = y then Equal else Greater)"

definition then_with :: "ordering \<Rightarrow> ordering \<Rightarrow> ordering" where
  "then_with a b = (case a of Equal \<Rightarrow> b | _ \<Rightarrow> a)"

lemma then_with_simps [simp]:
  "then_with Less b = Less" "then_with Equal b = b" "then_with Greater b = Greater"
  by (simp_all add: then_with_def)

lemma ord_cmp_simps [simp]:
  "ord_cmp x y = Less \<longleftrightarrow> x < y" "ord_cmp x y = Equal \<longleftrightarrow> x = y"
  "ord_cmp x y = Greater \<longleftrightarrow> y < x"
  by (auto simp: ord_cmp_def)

text \<open>
  \<open>slice::sort_by\<close> is stable, and its result on a comparator that is a total preorder is the
  one stable sorted permutation, which insertion sort computes. On a comparator that is not a
  total preorder the Rust result is unspecified (or a panic); no theorem here uses it there.
\<close>

fun insert_by :: "('a \<Rightarrow> 'a \<Rightarrow> ordering) \<Rightarrow> 'a \<Rightarrow> 'a list \<Rightarrow> 'a list" where
  "insert_by c x [] = [x]"
| "insert_by c x (y # ys) = (if c x y = Greater then y # insert_by c x ys else x # y # ys)"

fun sort_by :: "('a \<Rightarrow> 'a \<Rightarrow> ordering) \<Rightarrow> 'a list \<Rightarrow> 'a list" where
  "sort_by c [] = []"
| "sort_by c (x # xs) = insert_by c x (sort_by c xs)"

definition not_greater :: "('a \<Rightarrow> 'a \<Rightarrow> ordering) \<Rightarrow> 'a \<Rightarrow> 'a \<Rightarrow> bool" where
  "not_greater c x y \<longleftrightarrow> c x y \<noteq> Greater"

definition total_preorder_on :: "'a set \<Rightarrow> ('a \<Rightarrow> 'a \<Rightarrow> ordering) \<Rightarrow> bool" where
  "total_preorder_on A c \<longleftrightarrow>
     (\<forall>x \<in> A. \<forall>y \<in> A. (c x y = Greater) = (c y x = Less)) \<and>
     (\<forall>x \<in> A. \<forall>y \<in> A. \<forall>z \<in> A. c x y \<noteq> Greater \<longrightarrow> c y z \<noteq> Greater \<longrightarrow> c x z \<noteq> Greater)"

lemma mset_insert_by [simp]: "mset (insert_by c x xs) = add_mset x (mset xs)"
  by (induction xs) auto

lemma mset_sort_by [simp]: "mset (sort_by c xs) = mset xs"
  by (induction xs) auto

lemma set_insert_by [simp]: "set (insert_by c x xs) = insert x (set xs)"
  by (induction xs) auto

lemma set_sort_by [simp]: "set (sort_by c xs) = set xs"
  by (induction xs) auto

lemma length_sort_by [simp]: "length (sort_by c xs) = length xs"
  by (metis mset_sort_by size_mset)

lemma distinct_sort_by [simp]: "distinct (sort_by c xs) = distinct xs"
  by (rule mset_eq_imp_distinct_iff) simp

lemma total_preorder_on_flip:
  "total_preorder_on A c \<Longrightarrow> x \<in> A \<Longrightarrow> y \<in> A \<Longrightarrow> (c x y = Greater) = (c y x = Less)"
  unfolding total_preorder_on_def by blast

lemma total_preorder_on_trans:
  "total_preorder_on A c \<Longrightarrow> x \<in> A \<Longrightarrow> y \<in> A \<Longrightarrow> z \<in> A \<Longrightarrow>
   c x y \<noteq> Greater \<Longrightarrow> c y z \<noteq> Greater \<Longrightarrow> c x z \<noteq> Greater"
  unfolding total_preorder_on_def by blast

lemma sorted_insert_by:
  assumes "total_preorder_on A c" "insert x (set xs) \<subseteq> A" "sorted_wrt (not_greater c) xs"
  shows "sorted_wrt (not_greater c) (insert_by c x xs)"
  using assms(2,3)
proof (induction xs)
  case Nil
  then show ?case by simp
next
  case (Cons y ys)
  show ?case
  proof (cases "c x y = Greater")
    case True
    then have "not_greater c y x"
      using total_preorder_on_flip[OF assms(1), of x y] Cons.prems by (simp add: not_greater_def)
    with True Cons show ?thesis by auto
  next
    case False
    have "not_greater c x z" if "z \<in> set ys" for z
      using total_preorder_on_trans[OF assms(1), of x y z] False Cons.prems that
      by (simp add: not_greater_def subset_iff)
    with False Cons.prems show ?thesis by (auto simp: not_greater_def)
  qed
qed

lemma sorted_sort_by:
  "total_preorder_on A c \<Longrightarrow> set xs \<subseteq> A \<Longrightarrow> sorted_wrt (not_greater c) (sort_by c xs)"
  by (induction xs) (simp_all add: sorted_insert_by)

text \<open>
  Where the comparator also never calls two different elements equal, the sorted list depends
  on the set of elements only: reordering the input changes nothing.
\<close>

definition strict_order_on :: "'a set \<Rightarrow> ('a \<Rightarrow> 'a \<Rightarrow> ordering) \<Rightarrow> bool" where
  "strict_order_on A c \<longleftrightarrow> total_preorder_on A c \<and> (\<forall>x \<in> A. \<forall>y \<in> A. c x y = Equal \<longrightarrow> x = y)"

lemma strict_order_onD:
  assumes "strict_order_on A c" "x \<in> A" "y \<in> A" "c x y \<noteq> Greater" "c y x \<noteq> Greater"
  shows "x = y"
proof -
  have "(c x y = Greater) = (c y x = Less)" "(c y x = Greater) = (c x y = Less)"
    using assms(1-3) by (simp_all add: strict_order_on_def total_preorder_on_def)
  then have "c x y = Equal" using assms(4,5) by (cases "c x y") auto
  then show ?thesis using assms(1-3) by (simp add: strict_order_on_def)
qed

lemma sorted_wrt_unique:
  assumes "strict_order_on A c" "set xs \<subseteq> A"
    and "mset xs = mset ys" "sorted_wrt (not_greater c) xs" "sorted_wrt (not_greater c) ys"
  shows "xs = ys"
  using assms(2-5)
proof (induction xs arbitrary: ys)
  case Nil
  then show ?case by simp
next
  case (Cons x xs)
  then obtain y ys' where ys: "ys = y # ys'" by (cases ys) auto
  have mem: "x \<in> set (y # ys')" "y \<in> set (x # xs)"
    using Cons.prems(2) ys by (metis list.set_intros(1) mset_eq_setD)+
  have "x = y"
  proof (rule ccontr)
    assume ne: "x \<noteq> y"
    then have "c y x \<noteq> Greater" "c x y \<noteq> Greater"
      using mem Cons.prems(3,4) ys by (auto simp: not_greater_def)
    moreover have "x \<in> A" "y \<in> A" using Cons.prems(1) mem by auto
    ultimately show False using strict_order_onD[OF assms(1)] ne by blast
  qed
  then show ?case using Cons ys by auto
qed

lemma sort_by_mset_eq:
  assumes "strict_order_on A c" "set xs \<subseteq> A" "mset xs = mset ys"
  shows "sort_by c xs = sort_by c ys"
proof (rule sorted_wrt_unique[OF assms(1)])
  have tp: "total_preorder_on A c" using assms(1) by (simp add: strict_order_on_def)
  have "set ys \<subseteq> A" using assms(2,3) by (metis mset_eq_setD)
  then show "sorted_wrt (not_greater c) (sort_by c xs)" "sorted_wrt (not_greater c) (sort_by c ys)"
    using sorted_sort_by[OF tp] assms(2) by auto
qed (use assms in auto)

lemma strict_order_on_ord_cmp: "strict_order_on A ord_cmp"
  by (auto simp: strict_order_on_def total_preorder_on_def ord_cmp_def split: if_splits)

lemma insert_by_ord_cmp: "insert_by ord_cmp x xs = insort x xs"
  by (induction xs) auto

lemma sort_by_ord_cmp: "sort_by ord_cmp xs = sort xs"
  by (induction xs) (auto simp: insert_by_ord_cmp)

end
