(* ===== verification/BTree.thy ===== *)
theory BTree
  imports Prelude
begin

text \<open>
  Rust's \<open>BTreeMap\<close> and \<open>BTreeSet\<close>. A map is its list of entries in key order, which is
  the order every iteration of the source visits them in; a set that is stored in a struct is the
  list of its elements in order. \<open>bm_ok\<close> is the representation invariant (keys strictly
  increasing). The locale \<open>ordered_map\<close> is the interface the components rely on.
\<close>

type_synonym ('k, 'v) btree_map = "('k \<times> 'v) list"
type_synonym 'a btree_set = "'a list"

definition bm_ok :: "('k::linorder, 'v) btree_map \<Rightarrow> bool" where
  "bm_ok m \<longleftrightarrow> sorted_wrt (<) (map fst m)"

definition bm_get :: "('k, 'v) btree_map \<Rightarrow> 'k \<Rightarrow> 'v option" where
  "bm_get m k = map_of m k"

definition bm_keys :: "('k, 'v) btree_map \<Rightarrow> 'k list" where
  "bm_keys m = map fst m"

definition bm_contains_key :: "('k, 'v) btree_map \<Rightarrow> 'k \<Rightarrow> bool" where
  "bm_contains_key m k \<longleftrightarrow> k \<in> fst ` set m"

fun bm_insert :: "'k::linorder \<Rightarrow> 'v \<Rightarrow> ('k, 'v) btree_map \<Rightarrow> ('k, 'v) btree_map" where
  "bm_insert k v [] = [(k, v)]"
| "bm_insert k v ((k', v') # m) =
     (if k < k' then (k, v) # (k', v') # m
      else if k = k' then (k, v) # m
      else (k', v') # bm_insert k v m)"

text \<open>\<open>retain\<close> on keys, and collecting an iterator of pairs (a later pair overwrites).\<close>

definition bm_retain :: "('k \<Rightarrow> bool) \<Rightarrow> ('k, 'v) btree_map \<Rightarrow> ('k, 'v) btree_map" where
  "bm_retain p m = filter (\<lambda>(k, v). p k) m"

definition bm_collect :: "('k::linorder \<times> 'v) list \<Rightarrow> ('k, 'v) btree_map" where
  "bm_collect kvs = foldl (\<lambda>m (k, v). bm_insert k v m) [] kvs"

text \<open>\<open>BTreeSet\<close>: collecting sorts and removes duplicates.\<close>

definition bs_collect :: "'a::linorder list \<Rightarrow> 'a btree_set" where
  "bs_collect xs = sorted_list_of_set (set xs)"

text \<open>The ordered-map interface: what clients may assume of insertion, lookup and key order.\<close>

locale ordered_map =
  fixes empty :: "'m"
    and insert_kv :: "'k::linorder \<Rightarrow> 'v \<Rightarrow> 'm \<Rightarrow> 'm"
    and lookup :: "'m \<Rightarrow> 'k \<Rightarrow> 'v option"
    and keys :: "'m \<Rightarrow> 'k list"
    and invar :: "'m \<Rightarrow> bool"
  assumes lookup_empty: "lookup empty k = None"
    and lookup_insert: "invar m \<Longrightarrow> lookup (insert_kv k v m) = (lookup m)(k \<mapsto> v)"
    and invar_empty: "invar empty"
    and invar_insert: "invar m \<Longrightarrow> invar (insert_kv k v m)"
    and keys_sorted: "invar m \<Longrightarrow> sorted_wrt (<) (keys m)"
    and keys_dom: "invar m \<Longrightarrow> set (keys m) = dom (lookup m)"
begin

definition insert_all :: "('k \<times> 'v) list \<Rightarrow> 'm \<Rightarrow> 'm" where
  "insert_all kvs m = foldl (\<lambda>m (k, v). insert_kv k v m) m kvs"

lemma invar_insert_all: "invar m \<Longrightarrow> invar (insert_all kvs m)"
  by (induction kvs arbitrary: m) (auto simp: insert_all_def invar_insert)

lemma lookup_insert_all: "invar m \<Longrightarrow> lookup (insert_all kvs m) = lookup m ++ map_of (rev kvs)"
proof (induction kvs arbitrary: m)
  case Nil
  then show ?case by (simp add: insert_all_def)
next
  case (Cons kv kvs)
  obtain k v where kv: "kv = (k, v)" by (cases kv)
  have "lookup (insert_all (kv # kvs) m) = lookup (insert_kv k v m) ++ map_of (rev kvs)"
    using Cons.IH[OF invar_insert[OF Cons.prems]] by (simp add: kv insert_all_def)
  also have "\<dots> = (lookup m)(k \<mapsto> v) ++ map_of (rev kvs)" using Cons.prems by (simp add: lookup_insert)
  finally show ?case by (simp add: kv map_add_assoc)
qed

lemma keys_determined:
  assumes "invar m" "invar m'" "dom (lookup m) = dom (lookup m')"
  shows "keys m = keys m'"
  by (rule strict_sorted_equal) (use assms keys_sorted keys_dom in auto)

end

lemma map_of_bm_insert: "map_of (bm_insert k v m) = (map_of m)(k \<mapsto> v)"
  by (induction k v m rule: bm_insert.induct) auto

lemma set_keys_bm_insert: "fst ` set (bm_insert k v m) = insert k (fst ` set m)"
  by (induction k v m rule: bm_insert.induct) auto

lemma bm_ok_insert [intro]: "bm_ok m \<Longrightarrow> bm_ok (bm_insert k v m)"
  unfolding bm_ok_def
proof (induction k v m rule: bm_insert.induct)
  case (2 k v k' v' m)
  have "\<forall>x \<in> fst ` set (bm_insert k v m). k' < x" if "\<not> k < k'" "k \<noteq> k'"
    using 2(2) that by (auto simp: set_keys_bm_insert)
  with 2 show ?case by fastforce
qed simp

lemma bm_ok_Nil [simp, intro]: "bm_ok []"
  by (simp add: bm_ok_def)

lemma bm_ok_distinct: "bm_ok m \<Longrightarrow> distinct (map fst m)"
  by (simp add: bm_ok_def strict_sorted_iff)

lemma bm_get_Nil [simp]: "bm_get [] = Map.empty"
  by (simp add: bm_get_def fun_eq_iff)

lemma dom_bm_get: "dom (bm_get m) = fst ` set m"
  by (simp add: bm_get_def[abs_def] dom_map_of_conv_image_fst)

interpretation bmap: ordered_map "[]" bm_insert bm_get bm_keys bm_ok
  by unfold_locales
    (simp_all add: bm_keys_def dom_bm_get bm_ok_insert, simp_all add: bm_get_def map_of_bm_insert
      fun_eq_iff bm_ok_def)

lemma bm_get_insert [simp]: "bm_get (bm_insert k v m) = (bm_get m)(k \<mapsto> v)"
  by (auto simp: bm_get_def map_of_bm_insert)

lemma bm_collect_eq: "bm_collect kvs = bmap.insert_all kvs []"
  by (simp add: bm_collect_def bmap.insert_all_def)

lemma bm_ok_collect [simp, intro]: "bm_ok (bm_collect kvs)"
  by (simp add: bm_collect_eq bmap.invar_insert_all)

lemma bm_get_collect: "bm_get (bm_collect kvs) = map_of (rev kvs)"
  by (simp add: bm_collect_eq bmap.lookup_insert_all)

lemma bm_get_collect_distinct:
  "distinct (map fst kvs) \<Longrightarrow> bm_get (bm_collect kvs) = map_of kvs"
  unfolding bm_get_collect by (rule map_of_inject_set[THEN iffD2]) (simp_all add: rev_map[symmetric])

lemma bm_contains_key_get: "bm_contains_key m k \<longleftrightarrow> bm_get m k \<noteq> None"
  by (simp add: bm_contains_key_def bm_get_def map_of_eq_None_iff)

lemma set_bm_keys: "set (bm_keys m) = dom (bm_get m)"
  by (simp add: bm_keys_def dom_bm_get)

lemma bm_ok_retain [intro]: "bm_ok m \<Longrightarrow> bm_ok (bm_retain p m)"
proof (induction m)
  case (Cons a m)
  then show ?case by (cases a) (auto simp: bm_ok_def bm_retain_def)
qed (simp add: bm_retain_def)

lemma bm_get_retain: "bm_get (bm_retain p m) k = (if p k then bm_get m k else None)"
  by (induction m) (auto simp: bm_retain_def bm_get_def)

text \<open>Two maps with the same lookups are the same list of entries.\<close>

lemma bm_ext:
  assumes "bm_ok m" "bm_ok m'" "\<And>k. bm_get m k = bm_get m' k"
  shows "m = m'"
proof (rule map_sorted_distinct_set_unique[of fst])
  have dist: "distinct (map fst m)" "distinct (map fst m')" using assms(1,2) bm_ok_distinct by blast+
  show "inj_on fst (set m \<union> set m')"
  proof (rule inj_onI)
    fix x y assume "x \<in> set m \<union> set m'" "y \<in> set m \<union> set m'" "fst x = fst y"
    then have "bm_get m (fst x) = Some (snd x)" "bm_get m (fst y) = Some (snd y)"
      using assms(3) dist unfolding bm_get_def by (metis Un_iff map_of_eq_Some_iff prod.collapse)+
    then show "x = y" using \<open>fst x = fst y\<close> by (simp add: prod_eq_iff)
  qed
  show "sorted (map fst m)" "distinct (map fst m)" "sorted (map fst m')" "distinct (map fst m')"
    using assms(1,2) by (simp_all add: bm_ok_def strict_sorted_iff)
  show "set m = set m'"
    using assms(3) dist unfolding bm_get_def by (metis (no_types, opaque_lifting) map_of_inject_set subset_antisym order_refl ext)
qed

lemma set_bs_collect [simp]: "set (bs_collect xs) = set xs"
  by (simp add: bs_collect_def)

lemma sorted_bs_collect [simp]: "sorted_wrt (<) (bs_collect xs)"
  by (simp add: bs_collect_def)

lemma bs_collect_cong: "set xs = set ys \<Longrightarrow> bs_collect xs = bs_collect ys"
  by (simp add: bs_collect_def)

end
