(* ===== verification/Strings.thy ===== *)
theory Strings
  imports BTree
begin

text \<open>
  What the source uses of Rust's strings: \<open>s.trim().is_empty()\<close> (Unicode white space over the
  UTF-8 bytes), the ASCII classes of the identifier grammar, and the decimal \<open>Display\<close> of an
  unsigned integer.
\<close>

definition byte_of :: "char \<Rightarrow> nat" where
  "byte_of c = of_char c"

text \<open>Bytes of the leading Unicode \<open>White_Space\<close> character, 0 if the string starts otherwise.\<close>

fun ws_len :: "nat list \<Rightarrow> nat" where
  "ws_len (a # b # c # _) =
     (if 9 \<le> a \<and> a \<le> 13 \<or> a = 32 then 1
      else if a = 194 \<and> (b = 133 \<or> b = 160) then 2
      else if a = 225 \<and> b = 154 \<and> c = 128 then 3
      else if a = 226 \<and> b = 128 \<and> (128 \<le> c \<and> c \<le> 138 \<or> c = 168 \<or> c = 169 \<or> c = 175) then 3
      else if a = 226 \<and> b = 129 \<and> c = 159 then 3
      else if a = 227 \<and> b = 128 \<and> c = 128 then 3
      else 0)"
| "ws_len [a, b] =
     (if 9 \<le> a \<and> a \<le> 13 \<or> a = 32 then 1
      else if a = 194 \<and> (b = 133 \<or> b = 160) then 2 else 0)"
| "ws_len [a] = (if 9 \<le> a \<and> a \<le> 13 \<or> a = 32 then 1 else 0)"
| "ws_len [] = 0"

function blank_bytes :: "nat list \<Rightarrow> bool" where
  "blank_bytes bs =
     (if bs = [] then True
      else if ws_len bs = 0 then False
      else blank_bytes (drop (ws_len bs) bs))"
  by pat_completeness auto
termination
  by (relation "measure length") (auto simp: length_greater_0_conv[symmetric] simp del: length_greater_0_conv)

declare blank_bytes.simps [simp del]

lemma blank_bytes_Nil [simp]: "blank_bytes []"
  by (subst blank_bytes.simps) simp

lemma blank_bytes_Cons:
  "blank_bytes (b # bs) =
     (ws_len (b # bs) \<noteq> 0 \<and> blank_bytes (drop (ws_len (b # bs)) (b # bs)))"
  by (subst blank_bytes.simps) simp

text \<open>\<open>s.trim().is_empty()\<close>: every character of the string is white space.\<close>

definition is_blank :: "string \<Rightarrow> bool" where
  "is_blank s = blank_bytes (map byte_of s)"

lemma is_blank_Nil [simp]: "is_blank []"
  by (simp add: is_blank_def)

lemma ws_len_high:
  assumes "a \<notin> {9..13} \<union> {32, 194, 225, 226, 227}"
  shows "ws_len (a # bs) = 0"
proof -
  have a: "\<not> (9 \<le> a \<and> a \<le> 13)" "a \<noteq> 32" "a \<noteq> 194" "a \<noteq> 225" "a \<noteq> 226" "a \<noteq> 227"
    using assms by simp_all
  show ?thesis
  proof (cases bs)
    case Nil
    with a show ?thesis by simp
  next
    case (Cons b cs)
    with a show ?thesis by (cases cs) simp_all
  qed
qed

lemma not_blank_head:
  assumes "byte_of c \<notin> {9..13} \<union> {32, 194, 225, 226, 227}"
  shows "\<not> is_blank (c # cs)"
  unfolding is_blank_def list.map by (subst blank_bytes_Cons) (simp add: ws_len_high[OF assms])

lemma blank_replicate_space: "is_blank (replicate n CHR '' '')"
proof (induction n)
  case (Suc n)
  have "ws_len (32 # bs) = 1" for bs by (cases bs; cases "tl bs") simp_all
  with Suc show ?case
    unfolding is_blank_def replicate_Suc list.map by (subst blank_bytes_Cons) (simp add: byte_of_def)
qed simp

text \<open>The classes of \<open>u8\<close>: \<open>is_ascii_digit\<close>, \<open>is_ascii_alphanumeric\<close>, \<open>is_ascii_hexdigit\<close>.\<close>

definition is_ascii_digit :: "char \<Rightarrow> bool" where
  "is_ascii_digit c \<longleftrightarrow> 48 \<le> byte_of c \<and> byte_of c \<le> 57"

definition is_ascii_alphanumeric :: "char \<Rightarrow> bool" where
  "is_ascii_alphanumeric c \<longleftrightarrow>
     48 \<le> byte_of c \<and> byte_of c \<le> 57 \<or> 65 \<le> byte_of c \<and> byte_of c \<le> 90 \<or>
     97 \<le> byte_of c \<and> byte_of c \<le> 122"

definition is_ascii_hexdigit :: "char \<Rightarrow> bool" where
  "is_ascii_hexdigit c \<longleftrightarrow>
     48 \<le> byte_of c \<and> byte_of c \<le> 57 \<or> 65 \<le> byte_of c \<and> byte_of c \<le> 70 \<or>
     97 \<le> byte_of c \<and> byte_of c \<le> 102"

text \<open>Decimal printing of an unsigned integer.\<close>

definition digit :: "nat \<Rightarrow> char" where
  "digit d = char_of (48 + d)"

fun show_nat :: "nat \<Rightarrow> string" where
  "show_nat n = (if n < 10 then [digit n] else show_nat (n div 10) @ [digit (n mod 10)])"

declare show_nat.simps [simp del]

lemma byte_of_digit: "d < 10 \<Longrightarrow> byte_of (digit d) = 48 + d"
  by (simp add: byte_of_def digit_def)

lemma show_nat_digits: "\<forall>c \<in> set (show_nat n). is_ascii_digit c"
proof (induction n rule: show_nat.induct)
  case (1 n)
  then show ?case
    by (subst show_nat.simps) (auto simp: is_ascii_digit_def byte_of_digit)
qed

lemma show_nat_nonempty [simp]: "show_nat n \<noteq> []"
  by (subst show_nat.simps) auto

lemma show_nat_inj: "show_nat m = show_nat n \<Longrightarrow> m = n"
proof (induction m arbitrary: n rule: show_nat.induct)
  case (1 m)
  have dig: "digit a = digit b \<Longrightarrow> a = b" if "a < 10" "b < 10" for a b
    using that byte_of_digit by (metis add_left_cancel)
  show ?case
  proof (cases "m < 10")
    case True
    have "n < 10"
    proof (rule ccontr)
      assume "\<not> n < 10"
      then have "[digit m] = show_nat (n div 10) @ [digit (n mod 10)]"
        using "1.prems" True by (simp add: show_nat.simps[of m] show_nat.simps[of n])
      then show False using show_nat_nonempty[of "n div 10"] by (cases "show_nat (n div 10)") simp_all
    qed
    with True "1.prems" dig show ?thesis by (simp add: show_nat.simps)
  next
    case False
    have big: "\<not> n < 10"
    proof
      assume "n < 10"
      then have "[digit n] = show_nat (m div 10) @ [digit (m mod 10)]"
        using "1.prems" False by (simp add: show_nat.simps[of m] show_nat.simps[of n])
      then show False using show_nat_nonempty[of "m div 10"] by (cases "show_nat (m div 10)") simp_all
    qed
    have "show_nat (m div 10) @ [digit (m mod 10)] = show_nat (n div 10) @ [digit (n mod 10)]"
      using "1.prems" False big by (simp add: show_nat.simps[of m] show_nat.simps[of n])
    then have "show_nat (m div 10) = show_nat (n div 10)" "m mod 10 = n mod 10"
      using dig[of "m mod 10" "n mod 10"] by auto
    with "1.IH"[OF False] show ?thesis by (metis div_mult_mod_eq)
  qed
qed

lemma length_show_nat: "n < 10 ^ k \<Longrightarrow> 0 < k \<Longrightarrow> length (show_nat n) \<le> k"
proof (induction n arbitrary: k rule: show_nat.induct)
  case (1 n)
  show ?case
  proof (cases "n < 10")
    case True
    with "1.prems" show ?thesis by (simp add: show_nat.simps)
  next
    case False
    then obtain j where k: "k = Suc j" "0 < j"
      using "1.prems" by (cases k; cases "k - 1") auto
    then have "n div 10 < 10 ^ j" using "1.prems"(1) by (simp add: less_mult_imp_div_less mult.commute)
    with "1.IH"[OF False, of j] k have "length (show_nat (n div 10)) \<le> j" by blast
    with False k show ?thesis by (simp add: show_nat.simps[of n])
  qed
qed

text \<open>A \<open>usize\<close> or \<open>u64\<close> prints in at most twenty characters.\<close>

lemma length_show_u64: "length (show_nat (unat (w :: 64 word))) \<le> 20"
proof (rule length_show_nat)
  have "unat w < 2 ^ 64" using unsigned_less[of w] by simp
  also have "(2::nat) ^ 64 < 10 ^ 20" by simp
  finally show "unat w < 10 ^ 20" .
qed simp

text \<open>\<open>str::parse::<u64>()\<close>: an optional plus sign, then one or more digits, below 2 to the 64.\<close>

definition digits_value :: "string \<Rightarrow> nat" where
  "digits_value s = foldl (\<lambda>n c. 10 * n + (byte_of c - 48)) 0 s"

definition parse_u64 :: "string \<Rightarrow> nat option" where
  "parse_u64 s =
     (let ds = (case s of c # cs \<Rightarrow> if c = CHR ''+'' then cs else s | [] \<Rightarrow> [])
      in if ds \<noteq> [] \<and> list_all is_ascii_digit ds \<and> digits_value ds < 2 ^ 64
         then Some (digits_value ds) else None)"

lemma digits_value_show: "digits_value (show_nat n) = n"
proof (induction n rule: show_nat.induct)
  case (1 n)
  show ?case
  proof (cases "n < 10")
    case True
    then show ?thesis by (simp add: show_nat.simps digits_value_def byte_of_digit)
  next
    case False
    then have "digits_value (show_nat n) = 10 * digits_value (show_nat (n div 10)) + n mod 10"
      by (subst show_nat.simps) (simp add: digits_value_def byte_of_digit)
    with "1.IH"[OF False] show ?thesis by simp
  qed
qed

lemma parse_show_u64: "n < 2 ^ 64 \<Longrightarrow> parse_u64 (show_nat n) = Some n"
proof -
  assume n: "n < 2 ^ 64"
  obtain c cs where s: "show_nat n = c # cs" by (cases "show_nat n") auto
  have d: "\<forall>c \<in> set (show_nat n). is_ascii_digit c" by (rule show_nat_digits)
  then have "is_ascii_digit c" using s by simp
  then have "c \<noteq> CHR ''+''" by (auto simp: is_ascii_digit_def byte_of_def)
  then have "(case show_nat n of c # cs \<Rightarrow> if c = CHR ''+'' then cs else show_nat n | [] \<Rightarrow> []) = show_nat n"
    by (simp add: s)
  moreover have "list_all is_ascii_digit (show_nat n)" using d by (simp add: list_all_iff)
  ultimately show ?thesis using n by (simp add: parse_u64_def digits_value_show Let_def)
qed

text \<open>\<open>str::rsplit_once(pat)\<close>: split at the last occurrence of a non-empty pattern.\<close>

fun is_prefix :: "string \<Rightarrow> string \<Rightarrow> bool" where
  "is_prefix [] s = True"
| "is_prefix (c # cs) [] = False"
| "is_prefix (c # cs) (d # ds) = (c = d \<and> is_prefix cs ds)"

fun rsplit_once :: "string \<Rightarrow> string \<Rightarrow> (string \<times> string) option" where
  "rsplit_once pat [] = None"
| "rsplit_once pat (c # cs) =
     (case rsplit_once pat cs of
        Some (l, r) \<Rightarrow> Some (c # l, r)
      | None \<Rightarrow> if is_prefix pat (c # cs) then Some ([], drop (length pat) (c # cs)) else None)"

lemma is_prefix_append: "is_prefix p s \<Longrightarrow> s = p @ drop (length p) s"
  by (induction p s rule: is_prefix.induct) auto

lemma rsplit_once_append: "rsplit_once pat s = Some (l, r) \<Longrightarrow> s = l @ pat @ r"
proof (induction s arbitrary: l)
  case (Cons c cs)
  then show ?case
    by (auto split: option.splits if_splits dest: is_prefix_append[of pat "c # cs"])
qed simp

end
