(* ===== verification/Errors.thy ===== *)
theory Errors
  imports Strings
begin

text \<open>
  \<open>crates/dag-ml-core/src/error.rs\<close>: the error taxonomy. The constructors of
  \<open>dag_ml_error\<close> are the variants of \<open>DagMlError\<close>. Where a variant carries a formatted message,
  the model carries one constructor per \<open>format!\<close> of the source with the values that identify
  the failure;
  the wording is not modelled.
\<close>

section \<open>Messages, one constructor per format string of a component\<close>

datatype (plugins only: code) id_reason = IdEmpty | IdTooLong | IdUnsupportedCharacters

datatype (plugins only: code) sample_list_label =
    FoldSetSampleIds
  | FoldSetTargetMissingIds
  | FoldTrainIds string
  | FoldValidationIds string
  | KFoldSamples
  | StratifiedKFoldSamples

datatype (plugins only: code) fold_msg =
    FoldSetIdEmpty
  | FoldSetNoSamples
  | FoldSetNoFolds
  | DuplicateSample sample_list_label string
  | GroupMapUnknownSample string
  | SampleMissingFromGroupMap string
  | DuplicateFoldId string
  | FoldNoValidation string
  | FoldUnknownSample string string
  | FoldOverlap string string
  | ValidationCountNotOne string nat
  | GroupLeak string string
  | KFoldTooFewSplits
  | KFoldTooManySplits nat nat
  | StratifiedTooFewSplits
  | StratifiedTooManySplits nat nat
  | StratifiedNoLabel string
  | GroupKFoldTooFewSplits
  | GroupKFoldNoGroups
  | GroupKFoldTooManySplits nat nat
  | NestedParentMismatch string string
  | InnerKFoldTooFewSplits
  | CapacityKFoldBounds
  | InnerGroupKFoldTooFewSplits
  | InnerStratifiedTooFewSplits
  | InnerStratifiedEmptyStrata
  | GroupedNeedsGroupAwareInner
  | CapacityKFoldUnresolved
  | NestedLeakage string string

datatype (plugins only: code) oof_msg =
    FoldMsg fold_msg
  | RowCountMismatch string nat nat
  | EmptyPredictionRows string
  | RaggedPredictionRows string
  | TargetNameCountMismatch string nat nat
  | NonFinitePredictions string
  | DuplicatePrediction string string
  | DuplicateOofPrediction string string
  | IncompleteInnerOof string nat nat
  | MultipleValidationPredictions string string
  | OofCoverageNotExact string nat nat
  | StackingMetadataInvalid string string
  | StackingRefitViolation string string
  | RequiredSamplesEmpty
  | RequiredSamplesDuplicates
  | MissingRequiredSample string string
  | PredictionWidthChanged string nat nat
  | TargetNamesChanged string
  | UnexpectedSample string string
  | NoBlocksSelected
  | RequestedOrderMismatch
  | PredictionsWithoutFold string string
  | UnknownPredictionFold string string
  | TrainPoolOutsideFold string string
  | FoldSamplesMismatch string string string
  | NoAttestedRelation string
  | NoIndependentUnit string
  | ConflictingIndependentUnits string
  | AggregatedRowCount string nat nat
  | AggregatedOutsideLevel string
  | DuplicateAggregatedUnits string
  | EmptyAggregatedRows string
  | RaggedAggregatedRows string
  | NonFiniteAggregated string
  | AggregatedTargetCount string nat nat

datatype (plugins only: code) selection_msg =
    MetricNameEmpty
  | CandidateIdEmpty
  | CandidateMetricNameEmpty string
  | CandidateMetricNan string string
  | RefitMemberCountZero
  | RefitOneMemberCount
  | RefitEnsembleMemberCount
  | ReuseOofUnsafe
  | ComboNeedsFinalReduction
  | SelectionFieldEmpty string
  | PolicyIdEmpty
  | RequestedRankZero
  | DecisionFieldEmpty string
  | SelectedScoreNotFinite string
  | NoRankedCandidates string
  | SelectedMismatch string
  | RankMismatch string string nat nat
  | DuplicateRanked string string
  | NoCandidates string
  | DuplicateCandidate string string
  | MissingMetric string string
  | MetricNotFinite string string
  | RequestedRankTooLarge nat nat
  | GroupIdEmpty
  | GroupWithoutCandidates string
  | UnknownGroupCandidate string string
  | MissingMetricLevel string string
  | InvalidMetricLevel string string
  | MetricLevelNotString string
  | MetricLevelMismatch string string string

datatype (plugins only: code) generation_msg =
    ChoiceLabelEmpty string
  | OverridesAndSubsequence string string
  | ActiveSubsequenceEmpty string string
  | ParamOverrideEmpty string string string
  | ParamOverrideKeyEmpty string string string
  | DimensionNameEmpty
  | DimensionWithoutChoices string
  | DuplicateChoice string string
  | TooManyDimensions
  | MaxVariantsZero
  | DimensionsNeedStrategy
  | ConstraintsNeedStrategy
  | StrategyNeedsDimension
  | DuplicateDimension string
  | ZipLengthMismatch
  | UnknownConstraintChoice string string
  | MutexTooSmall
  | MutexRepeats string string
  | PairRepeats string string string
  | OperatorChoice string string string
  | OperatorKey string string string
  | AllocationLimit nat
  | AllVariantsPruned
  | TooManyVariants nat nat
  | ConflictingOverrides string string string string string
  | SampleCount

datatype (plugins only: code) policy_msg =
    ObservationSplitUnsafe
  | GroupIdsNeedGroupSplit
  | AggregationControllerNull string
  | ReductionWeightSourceMissing
  | ReductionWeightSourceInvalid
  | CustomReductionNoController
  | ReductionControllerUnexpected string
  | VoteRegression
  | TrimFractionNotNumeric
  | TrimFractionRange
  | ThresholdNotNumeric
  | ThresholdRange
  | GroupingKeyUnsupported
  | GroupingNeedsGroupLevel
  | AggregationNoneLevel
  | AggregationWeightsMissing
  | AggregationWeightsInvalid
  | CustomAggregationNoController
  | AggregationControllerUnexpected string
  | AggregationStoresNothing
  | UnsafeFlagEmpty
  | AugmentAllPartitionsUnsafe
  | AugmentWithoutOriginUnsafe
  | AugmentWithoutGroupUnsafe
  | AugmentWithoutTargetUnsafe
  | SelectionMasksNotStored
  | ShapeFieldEmpty string string
  | ShapeFingerprintInvalid string
  | FitRowsInvalid
  | SupervisedNotFoldTrain string

datatype (plugins only: code) relation_msg =
    RelationFieldEmpty string string
  | RelationFieldInvalid string string
  | SourceSampleNeedsSource string
  | ComboNeedsDerivedUnit string
  | RelationWeightInvalid string
  | ComponentsNotCombo string
  | DuplicateObservation string
  | SharedUnitId string string string
  | MultipleTargets string
  | MultipleGroups string
  | ComboWithoutComponents string
  | ComboOriginDiffers string string string
  | ComboListsItself string
  | ComboRepeatsComponent string string
  | ComboMissingComponent string string
  | ComboComponentSample string string string string
  | RelationOutsideFoldSet string string
  | OriginOutsideFoldSet string string
  | AugmentedNeedsOrigin string
  | RelationGroupMissing string
  | OriginLeak string string string
  | FoldGroupMismatch string string string
  | UnitMissing string string string
  | UnitLeak string string string

text \<open>\<open>data.rs\<close>: labels are the strings the source builds.\<close>

datatype (plugins only: code) representation_msg =
    SelectorUnconstrained string
  | SelectorFilterNull string
  | BranchViewNeedsSources string
  | BranchViewNeedsMetadata string
  | BranchViewNeedsTags string
  | BranchViewNeedsFilter string
  | CombinationCapZero
  | CombinationBudgetZero
  | CartesianNeedsSources
  | ZipNeedsSources
  | MatchByNeedsKey
  | SampleKNeedsSeed
  | SampleKNeedsCap
  | BroadcastNeedsReference
  | BroadcastUnknownReference string
  | AggregateNotManyToOne
  | CartesianProductMode
  | CartesianProductCardinality
  | MonteCarloMode
  | MonteCarloCardinality
  | ComboLikeOutput string
  | ExpectedCardinalityZero string
  | StackFixedCardinality
  | StackPaddedCardinality
  | StackPaddedPolicy
  | StackPaddedNeedsMasks
  | ReplayUnitLevelMismatch
  | ReplayDuplicatePair string string
  | ReplayDuplicateCombo string

datatype (plugins only: code) compatibility_msg =
    FingerprintMismatchUnaffected
  | UnitCountMismatchUnaffected
  | FallbackUnaffected
  | WarningUnaffected
  | StrictNotIncompatible
  | StrictFallback
  | WarningMissing
  | AffectedCompatible
  | FallbackUndeclared
  | IncompatibleFallback
  | FixedWidthMismatch
  | CombinationCountChanged
  | LateFusionDelta

datatype (plugins only: code) data_plan_msg =
    FusionAlignmentEmpty
  | FusionAdapterEmpty
  | CustomFusionNeedsAdapter
  | InputPortRank string
  | ModelInputSchemaVersion nat
  | ModelInputNoPorts
  | ModelInputDuplicatePort string
  | StepNeedsInput string
  | StepInputNotProduced string nat string
  | StepAdapterEmpty string
  | DataPlanSchemaVersion nat
  | DataPlanNoSteps string
  | DuplicateStepOutput string string
  | DataPlanNoOutputPorts string
  | UnknownOutputReference string string string

datatype (plugins only: code) view_policy_msg =
    RefitTestViewNeedsSamples
  | AugmentedRefitNeedsTrain
  | AugmentedCvNeedsTrain
  | AugmentedCvIdsUnexpected
  | AugmentedCvIdsDuplicate
  | ViewUnsafeFlagEmpty
  | FitFullTrainUnsafe
  | FitAllObservationsUnsafe
  | FitValidationUnsafe
  | FitPredictInvalid
  | PredictPartitionInvalid
  | AugmentedValidationUnsafe
  | ExcludedRowsUnsafe

datatype (plugins only: code) binding_msg =
    BindingInputNameEmpty string
  | BindingFieldEmpty string string string
  | BindingNeedsRelationFingerprint string string
  | FeatureAxesNotObject
  | FeatureAxesEmpty
  | FeatureAxesUnknownSource string
  | FeatureAxesNoCoordinates string
  | FeatureAxesNotStrings string
  | EnvelopeFingerprintMismatch string string string
  | BindingNeedsRelations string string
  | SourceIndexNotObject string
  | SourceIndexEmpty string
  | SourceIndexEmptySource string
  | SourceIndexNotInteger string string
  | SourceIndexDuplicate string nat
  | SourceIndexKeys string

datatype (plugins only: code) cohort_msg =
    ExternalTestNeedsTargets
  | InferenceCarriesTargets
  | CohortRelationFingerprint
  | CohortSamplesNotExact
  | CohortOriginsNotExact
  | CohortFingerprintMismatch
  | CohortOverlapsFolds string
  | CohortTargetMissing string
  | CohortOverlapsRelations string
  | CohortIdsEmpty string
  | CohortIdsUnsorted string
  | EnvelopeSchemaVersion nat
  | EnvelopeV1Cohort
  | EnvelopeV2NeedsCohort
  | FingerprintNeedsRelations
  | ExternalTestNeedsRelations

datatype (plugins only: code) data_msg =
    StringEmpty string
  | StringListEmpty string
  | ListEntryEmpty string nat
  | DuplicateValue string string
  | FingerprintInvalid string
  | EmptyKey string
  | RepresentationMsg representation_msg
  | CompatibilityMsg compatibility_msg
  | DataPlanMsg data_plan_msg
  | ViewPolicyMsg view_policy_msg
  | BindingMsg binding_msg
  | CohortMsg cohort_msg

datatype (plugins only: code) training_msg =
    TrainingStringEmpty string
  | TrainingFingerprintInvalid string
  | IdentityEvidenceMissing string string
  | IdentityFingerprintMismatch string

datatype (plugins only: code) criteria_msg =
    CriterionSchemaVersion string nat
  | TokenInvalid string
  | IdNotVersioned string string
  | IdVersionSuffix string string
  | CriterionSetEmpty string
  | LossObjective
  | CriterionInputsMissing string
  | ParametersNotObject string
  | ParametersOutsideTcv1 string
  | ExecutablePayload string
  | WeightedMeanInput string
  | WeightsUndeclared string
  | MasksUndeclared string
  | CriterionFingerprintInvalid string
  | CriterionFingerprintDiffers string
  | CriterionIncompatible string string
  | GlobalReductionRequired
  | GlobalReductionForbidden
  | WeightedMeanPerUnit
  | DecomposableUndeclared
  | HostLocalNeedsKey
  | HostLocalDetached
  | RegisteredNeedsKey
  | RegisteredReplay
  | BuiltInForbidsKey
  | BuiltInReplay
  | DescriptorDiffers string
  | ImplementationLacks string string
  | LossPhases
  | LossRolePhase string
  | AttestationPhase
  | SkipNotReporting
  | MetricLevelUnsupported string
  | StoppingPhase
  | StoppingNeedsFold
  | StoppingHasFold
  | StoppingRole
  | StoppingPartition
  | StoppingIterations
  | StoppingNotFinite
  | StoppingScope
  | NoLossResolves
  | MetricNotInCatalog string
  | CriterionNotTcv1 string

datatype (plugins only: code) campaign_spec_msg =
    SplitIdEmpty
  | CampaignIdEmpty
  | ShapePlanKey string string
  | BindingKey string string
  | CampaignDuplicateView string string

datatype (plugins only: code) bundle_data_msg =
    BundleInputEmpty string
  | BundleRelationDiffers string
  | BundleOutputEmpty string
  | BundleFeatureSetEmpty string

datatype (plugins only: code) registration_msg =
    RegistryKeyTaken string
  | RegistryKeyMissing

datatype (plugins only: code) campaign_msg =
    SelectionMsg selection_msg
  | GenerationMsg generation_msg
  | PolicyMsg policy_msg
  | RelationMsg relation_msg
  | DataMsg data_msg
  | TrainingMsg training_msg
  | CriteriaMsg criteria_msg
  | CampaignMsg campaign_spec_msg
  | BundleDataMsg bundle_data_msg
  | RegistrationMsg registration_msg

type_synonym edge_label = "string \<times> string \<times> string \<times> string"

datatype (plugins only: code) graph_field =
    PortRepresentation string string
  | PortAlignmentKey string string
  | EdgeRepresentation edge_label
  | EdgeAlignmentKey edge_label

datatype (plugins only: code) edge_problem =
    InvalidAlignmentKey
  | InvalidRelationFingerprint
  | RequiredFingerprintMissing
  | NoRelationFingerprint
  | NoUnitLevel
  | NoAlignmentKey
  | EndpointUnitMismatch string
  | IncompatibleUnits
  | IncompatibleTargets
  | EndpointTargetMismatch string
  | IncompatibleAlignments string string
  | EndpointAlignmentMismatch string string string
  | BroadcastWithoutAlignment
  | KindMismatch
  | OofOnNonPrediction

datatype (plugins only: code) graph_msg =
    GraphIdEmpty
  | GraphNoNodes
  | GraphFingerprintEmpty string
  | PortNameEmpty string string
  | DuplicatePort string string string
  | PortInvalidAlignmentKey string string string
  | FieldEmpty graph_field
  | DuplicateNode string
  | InvalidStackingMetadata string
  | DuplicateEdge
  | EdgeSourceMissing string
  | EdgeTargetMissing string
  | SourcePortMissing string string
  | TargetPortMissing string string
  | EdgeProblem edge_label edge_problem
  | MultipleEdgesIntoSinglePort
  | GraphCycle

datatype (plugins only: code) controller_msg =
    OperatorSelectorEmpty string
  | SelectorValueEmpty string string
  | ControllerVersionEmpty string
  | ControllerNoPhases string
  | RequirementsNotModelInput string
  | RequirementsInvalid string
  | ControllerPortNameEmpty string string
  | ControllerDuplicatePort string string string
  | DeterministicNondeterministic string
  | InferenceOnlyTrains string
  | FitCvFitScope string
  | PredictionsNotEmitted string
  | ArtifactsNotEmitted string
  | ActiveInfluenceFitScope string
  | WeightsWithoutMechanism string
  | TrainsWithoutAggregating string
  | CustomLossNotConfigurable string
  | DifferentiableLossNotConfigurable string
  | DuplicateController string
  | RequirementsNotEncoded string

datatype (plugins only: code) planning_msg =
    EmptyVariantFingerprint string
  | UnknownController string string
  | ControllerKindMismatch string string
  | NoController string
  | AmbiguousController string
  | ConflictingOperatorKinds
  | ControllerIdNotString string
  | PlanIdEmpty
  | ShapePlanUnknownNode string
  | BindingUnknownNode string
  | InnerCvMetadataInvalid string
  | LevelsDiffer
  | ManifestKeyDiffers string string
  | GraphFingerprintDiffers
  | CampaignFingerprintDiffers
  | ControllerFingerprintDiffers
  | NodePlanKeyDiffers string string
  | NodePlansNotCovering
  | TopologicalOrderDiffers
  | NodeKindDiffers string
  | AdjacencyDiffers string
  | ManifestMissing string string
  | ManifestDiffers string string
  | PortUnsupported string string string
  | CampaignContractDiffers string
  | ForeignBinding string string
  | ParamsFingerprintDiffers string
  | InnerCvInvalid string
  | FoldSetDiffers
  | AllObservationsFit string string
  | NoVariants
  | RepeatedVariant string
  | VariantIdentity string
  | VariantOutsideGeneration string
  | SearchSpaceEmpty string
  | SearchSpaceDiffers string
  | OverrideUnknownNode string string
  | MissingNodePlan string
  | ParallelUnsafe string string
  | EdgeTargetUnplanned string
  | EdgeMustRequireOof string string
  | EdgeSourceUnplanned string
  | SourceNotEmitting string
  | TargetNotConsuming string
  | BranchViewMalformed string
  | BranchViewInvalid
  | NamedModelInput string string
  | RequirementRefused string string
  | BindingUndeclared string string
  | RepresentationNotAccepted string string
  | TypeNotAccepted string string
  | LossUnknownNode string
  | ForeignLoss string string
  | LossesNotSorted string
  | LossPhaseUnsupported string
  | LossesOverlap string
  | LossNotConfigurable string
  | LossNotCustom string
  | LossNotDifferentiable string
  | LossNeedsWeights string
  | LossNeedsMasks string
  | LossNeedsGil string
  | PruneUnknownActive string
  | PruneNothingActive
  | PruneDangling string string
  | PruneAmbiguous string string

datatype (plugins only: code) provenance_msg =
    ProvenanceSchemaVersion nat
  | ProvenancePortEmpty
  | ProvenanceFingerprint string
  | ProvenanceRepresentationPlan
  | ProvenanceReplayManifest
  | ProvenanceCompatibility
  | ProvenanceNamespaceEmpty
  | ProvenanceForeignDelta string
  | ProvenanceSchemaDiffers

datatype (plugins only: code) provider_msg =
    ViewListEmpty string
  | ViewDuplicate string string
  | ViewEntryEmpty string
  | ViewNeedsFold
  | ViewCarriesFold
  | ViewExtraKeyEmpty
  | ProvenanceMsg string provenance_msg
  | EnvelopeConflict
  | ViewRollbackMismatch
  | RequestNodeMismatch string string
  | RequestInputMismatch string string
  | NoEnvelope string string
  | ParentNotData string string
  | UnknownDataHandle nat string string
  | ParentMismatch nat
  | ParentScopeMismatch
  | CohortOutsidePredict
  | RefitNeedsRelations
  | TrainingIdsNotExact
  | ReceiptNoSamples
  | ReceiptHandleMismatch
  | ReceiptSampleIds
  | ReceiptFingerprint string
  | DuplicateRequirementKey string
  | CollidingRequirementKey string
  | EnvelopeCoverage "string list" "string list"
  | UnattestedBinding string
  | BindingNotAttested string
  | RequestCoordinates string string
  | FitCvCohortRole
  | RefitCohortRole
  | CohortNotAttested string
  | CohortInOtherPhase string
  | RefitCompanionView

datatype (plugins only: code) view_msg =
    FoldWithoutFoldSet string
  | FoldNotPresent string string
  | UnboundedView string string
  | ViewNeedsSampleIds string string
  | CvPredictionsNeedFold
  | CvPredictionsNoIds string
  | BySourceCount string
  | BySourceOutsideBinding string string
  | AugmentedCvView
  | AugmentedCvNoSamples
  | AugmentedCvNoIds
  | AugmentedCvNoRelation string
  | AugmentedCvNotChild string
  | CohortViewPartition
  | ViewHandleKind string string

datatype (plugins only: code) alignment_msg =
    AlignmentSamples
  | AlignmentRequiredSources
  | AlignmentSourceId string
  | AlignmentSourceSet
  | AlignmentDuplicateSamples string
  | AlignmentSamplesDiffer string

datatype (plugins only: code) resolution_msg =
    ImplementationMissing string
  | ImplementationDiffers string
  | NotALoss
  | NotAMetric

datatype (plugins only: code) migration_msg =
    VersionBoundaryZero string
  | MinReadableAboveCurrent string
  | MinWritableAboveCurrent string
  | MigrationVersionZero string
  | MigrationNoOp string nat
  | MigrationToFuture string nat
  | VersionBelowReadable string nat
  | VersionInFuture string nat
  | NoMigration string nat

datatype (plugins only: code) requirement_msg =
    RequirementPartition string
  | RequirementWidthZero string
  | RequirementTargetCount string
  | RequirementObservations string
  | RequirementNoSamples string
  | RequirementSampleUnits string
  | RequirementCarriesSamples string
  | RequirementNoUnits string

datatype (plugins only: code) block_record_msg =
    BlockRowsZero
  | BlockObservations
  | BlockSampleCount nat nat
  | BlockSampleUnits
  | BlockCarriesSamples
  | BlockUnitCount nat nat

datatype (plugins only: code) cache_record_msg =
    CacheFormat string
  | CachePartition
  | CacheWidthZero
  | CacheTargetCount
  | CacheBlockCount
  | CacheNamespaceCount
  | CacheNamespaceDuplicate string
  | CacheObservations
  | CacheRowsBelowSamples
  | CacheSampleUnits
  | CacheCarriesSamples
  | CacheRowsBelowUnits
  | CacheMixesLevels
  | CacheDuplicateSample string
  | CacheDuplicateUnit string
  | CacheRowCount
  | CacheBlockSamples
  | CacheBlockUnits

datatype (plugins only: code) payload_msg =
    PayloadFormat string
  | PayloadPartition
  | PayloadMixesAggregated
  | PayloadMixesSamples
  | PayloadBlockCount
  | PayloadNamespaceCount
  | PayloadObservations
  | PayloadBlockPartition
  | PayloadAggregatedPartition
  | PayloadBlockLevel
  | PayloadDuplicateSample string
  | PayloadDuplicateUnit string
  | PayloadRowCount
  | PayloadFingerprintDiffers
  | PayloadRecordDiffers string
  | PayloadBlockFingerprints

datatype (plugins only: code) payload_set_msg =
    SetDuplicateRequirement string
  | SetDuplicateCache string
  | SetBundleDiffers string
  | SetVersionDiffers nat nat
  | SetCount nat nat
  | SetMissing string
  | SetUnknown string

datatype (plugins only: code) cache_build_msg =
    NoMatchingBlocks string
  | AggregatedLevelRequired string
  | BlockOutsideScope string
  | WidthInconsistent string
  | TargetsInconsistent string
  | CacheRequirementDiffers string string

datatype (plugins only: code) cache_msg =
    CacheTextEmpty string
  | CacheFingerprintInvalid string
  | CacheDuplicateId string string
  | CacheUnitLevel string string
  | UnsupportedFormat string string
  | UnsupportedFamily string nat
  | FormatForVersion string string nat
  | PortInV1 string
  | PortEmptyInV2 string
  | PortMissingInV2 string
  | MigrationMsg migration_msg
  | RequirementMsg requirement_msg
  | BlockRecordMsg block_record_msg
  | CacheRecordMsg string cache_record_msg
  | PayloadMsg string payload_msg
  | PayloadSetMsg string payload_set_msg
  | CacheBuildMsg cache_build_msg

datatype (plugins only: code) column_msg =
    ColumnObservations
  | ColumnNoSamples
  | ColumnSampleUnits
  | ColumnCarriesSamples
  | ColumnNoUnits
  | ColumnUnitLevel
  | ColumnWidthZero
  | ColumnCount nat nat
  | ColumnLength nat nat nat
  | ColumnTargetCount nat nat
  | ColumnNotSamples
  | ColumnNotAggregated
  | ColumnAggregatedSamples

datatype (plugins only: code) column_entry_msg =
    EntryObservations
  | EntryBlockCount nat nat
  | EntryBlockLevel
  | EntryBlockPartition
  | EntryRowCount nat nat
  | EntryValueOverflow
  | EntryValueCount nat nat
  | EntryRecordDiffers

datatype (plugins only: code) materialization_msg =
    MaterializedNotPrediction string
  | MaterializedNeedsVariant string
  | MaterializedRunDiffers
  | MaterializedBundleDiffers
  | MaterializedPhaseDiffers
  | MaterializedVariantDiffers
  | MaterializedRequirementDiffers string
  | MaterializedCacheDiffers
  | MaterializedNamespaces string
  | MaterializedOwner string

datatype (plugins only: code) store_msg =
    StoreMissing string
  | StoreNotSamples string
  | StoreNotAggregated string
  | StoreKeyDiffers string string
  | StoreUnknownRequirement string
  | ColumnMsg string column_msg
  | ColumnEntryMsg string column_entry_msg
  | MaterializationMsg materialization_msg

datatype (plugins only: code) artifact_msg =
    ArtifactKindEmpty
  | ArtifactTextEmpty string
  | ArtifactTextControl string
  | ArtifactPluginVersion
  | ArtifactAbi
  | PredictorDiffers
  | EstimatorPresence
  | EstimatorDiffers
  | UriWithoutBackend
  | UriWithoutFingerprint
  | NotPortable
  | UriEmpty
  | UriControl
  | UriNotRelative
  | UriScheme
  | UriTraversal
  | HandleNotArtifact
  | HandleOwnerDiffers
  | RecordControllerDiffers
  | RecordParamsEmpty
  | ArtifactRegistered
  | ArtifactMissing
  | ArtifactNodeDiffers
  | ArtifactControllerDiffers
  | ArtifactMetadataDiffers
  | ArtifactParamsDiffer
  | ArtifactLossDiffers

datatype (plugins only: code) refit_record_msg =
    RefitArtifactIdEmpty
  | RefitKeyEmpty string
  | RefitDuplicateKey string string
  | RefitForeignData string
  | RefitUnknownData string
  | RefitForeignPrediction string
  | RefitUnknownPrediction string
  | RefitWithoutCache string

datatype (plugins only: code) native_msg =
    PipelineUnsupported
  | PipelineDimensions
  | PipelineFingerprint
  | PipelineParameters
  | PredictorUnsupported
  | PredictorFormat
  | PredictorAbi
  | PredictorDimensions
  | PredictorCapabilities
  | PredictorNotProduct
  | PredictorFingerprint
  | EstimatorUnsupported
  | EstimatorMethodBlank
  | EstimatorOwner
  | EstimatorCapabilities
  | EstimatorFingerprint
  | NativeOutsideTcv1

datatype (plugins only: code) manifest_file_msg =
    FileManifestVersion nat
  | FileManifestDuplicateId string
  | FileManifestDuplicateUri string
  | FileManifestBundleDiffers
  | FileManifestCount nat nat
  | FileManifestMissing string
  | FileManifestDiffers string

datatype (plugins only: code) bundle_msg =
    FoldStateVersion
  | FoldStateVariant
  | BundlePlanIdEmpty
  | ParentNeedsState
  | ParentNotString
  | ParentNotSha256
  | ResumeStateInvalid
  | ConformalInV1
  | RawCoverage
  | RawWithoutFingerprint string
  | RawDiffers string
  | ScoresVersionDiffers
  | ScoresPlanDiffers
  | SelectionKeyEmpty
  | DuplicateDataRequirement string
  | DuplicatePredictionRequirement string
  | CacheNeedsVariant string
  | CacheUnknownRequirement string
  | DuplicateCache string
  | BundleFlagEmpty

datatype (plugins only: code) bundle_plan_msg =
    BundlePlanDiffers
  | BundleFingerprintsDiffer
  | BundleUnknownVariant
  | SelectionLevelDiffers string
  | SelectionLevelMissing string
  | SelectionWithoutArtifact string
  | SelectionUnknown string
  | FoldEvidencePresence
  | DataRequirementCount
  | DataRequirementUnknown string
  | DataRequirementDiffers string
  | ArtifactUnknownNode string
  | ArtifactPlanController string
  | ArtifactPlanParams string
  | ArtifactPlanLoss string
  | RequirementNotAnEdge string
  | RefitRequirementMissing string
  | ReplayEnvelopeMissing string
  | ReplayEnvelopeDiffers string

datatype (plugins only: code) bundle_oof_msg =
    NeedsFoldSet string
  | RequirementFolds string
  | RequirementSamples string
  | ConcatFolds string
  | ConcatLevel string
  | ConcatSamples string
  | OofBlockWithoutFold string
  | OofBlockUnknownFold string string
  | ConcatBlockDuplicate string string
  | ConcatBlockOutside string string
  | OofBlockSamples string string
  | OofDuplicateSample string
  | OofFoldsUncovered string
  | OofSamplesUncovered string
  | OofBlockLevel string
  | OofDuplicateUnit string
  | OofUnitsUncovered string
  | ConcatInputs "string list" "string list"
  | ConcatOverlap string
  | ConcatCoverage
  | ConcatPartialCaches nat nat
  | ConcatFoldOverlap string string
  | ConcatFoldCoverage string

datatype (plugins only: code) replay_msg =
    ReplayBundleDiffers
  | ReplayPhase
  | ReplayRefitUncached nat
  | ReplayKeyEmpty
  | ReplayKeyDuplicate string
  | ReplayKeyUnknown string
  | ReplayKeyMissing string

datatype (plugins only: code) runtime_msg =
    ShapeDeltaFingerprintEmpty string
  | ShapeDeltaUnchanged string
  | ShapeDeltaMetadataKeyEmpty string
  | ProviderMsg provider_msg
  | ViewMsg view_msg
  | OutsideTcv1 string
  | LossAttestationDiffers string
  | AlignmentMsg alignment_msg
  | ResolutionMsg resolution_msg
  | CacheMsg cache_msg
  | StoreMsg store_msg
  | ArtifactMsg string artifact_msg
  | RefitRecordMsg string refit_record_msg
  | NativeMsg native_msg
  | ManifestFileMsg manifest_file_msg
  | BundleMsg string bundle_msg
  | BundlePlanMsg string bundle_plan_msg
  | BundleOofMsg string bundle_oof_msg
  | ReplayMsg replay_msg

section \<open>Structured reports\<close>

record oof_leakage_violation =
  olv_producer_node :: string
  olv_partition :: string
  olv_fold_id :: "string option"

record oof_leakage_report =
  olr_node_id :: string
  olr_violators :: "oof_leakage_violation list"
  olr_allow_train_predictions_as_features :: bool

datatype (plugins only: code) target_missing_refusal =
    UnknownSample
  | InCvUniverse
  | NoObservedTargets
  | InsufficientObservedTargets
  | EmptyValidationFold
  | EmptyTrainFold
  | ScoredResult

record target_missing_report =
  tmr_reason :: target_missing_refusal
  tmr_fold_set_id :: "string option"
  tmr_fold_id :: "string option"
  tmr_target_missing_count :: nat
  tmr_observed_count :: nat
  tmr_sample_ids :: "string list"

section \<open>The error type\<close>

datatype (plugins only: code) dag_ml_error =
    InvalidIdentifier string id_reason
  | GraphValidation graph_msg
  | ControllerValidation controller_msg
  | CampaignValidation campaign_msg
  | Planning planning_msg
  | RuntimeValidation runtime_msg
  | OofValidation oof_msg
  | OofLeakage oof_leakage_report
  | TargetMissing target_missing_report
  | Serialization string

type_synonym 'a result = "dag_ml_error failure + 'a"

abbreviation fail :: "dag_ml_error \<Rightarrow> 'a result" where
  "fail e \<equiv> Inl (Err e)"

abbreviation expect_failed :: "string \<Rightarrow> 'a result" where
  "expect_failed w \<equiv> Inl (Panic (ExpectFailed w))"

definition no_panic :: "'a result \<Rightarrow> bool" where
  "no_panic r \<longleftrightarrow> (\<forall>p. r \<noteq> Inl (Panic p))"

lemma no_panic_simps [simp]:
  "no_panic (Inr x)" "no_panic (fail e)" "\<not> no_panic (Inl (Panic p))"
  by (auto simp: no_panic_def)

lemma no_panic_and_then [intro]:
  "no_panic r \<Longrightarrow> (\<And>x. r = Inr x \<Longrightarrow> no_panic (k x)) \<Longrightarrow> no_panic (and_then r k)"
  by (cases r) (auto simp: no_panic_def)

lemma no_panic_ensure [simp]: "no_panic (ensure b (Err e))"
  by (simp add: ensure_def no_panic_def)

lemma no_panic_ok_or [simp]: "no_panic (ok_or x (Err e))"
  by (cases x) (simp_all add: no_panic_def)

lemma no_panic_try_each [intro]:
  "(\<And>x. x \<in> set xs \<Longrightarrow> no_panic (f x)) \<Longrightarrow> no_panic (try_each f xs)"
  by (induction xs) auto

lemma no_panic_try_map [intro]:
  "(\<And>x. x \<in> set xs \<Longrightarrow> no_panic (f x)) \<Longrightarrow> no_panic (try_map f xs)"
  by (induction xs) (simp_all add: no_panic_and_then)

section \<open>The taxonomy of ADR-11\<close>

definition target_missing_refusal_as_str :: "target_missing_refusal \<Rightarrow> string" where
  "target_missing_refusal_as_str r = (case r of
      UnknownSample \<Rightarrow> ''unknown_sample''
    | InCvUniverse \<Rightarrow> ''in_cv_universe''
    | NoObservedTargets \<Rightarrow> ''no_observed_targets''
    | InsufficientObservedTargets \<Rightarrow> ''insufficient_observed_targets''
    | EmptyValidationFold \<Rightarrow> ''empty_validation_fold''
    | EmptyTrainFold \<Rightarrow> ''empty_train_fold''
    | ScoredResult \<Rightarrow> ''scored_result'')"

definition taxonomy_parts :: "dag_ml_error \<Rightarrow> string \<times> string \<times> string" where
  "taxonomy_parts e = (case e of
      InvalidIdentifier _ _ \<Rightarrow> (''validation'', ''invalid_identifier'', ''error'')
    | GraphValidation _ \<Rightarrow> (''validation'', ''graph_validation'', ''error'')
    | ControllerValidation _ \<Rightarrow> (''controller'', ''controller_validation'', ''error'')
    | CampaignValidation _ \<Rightarrow> (''validation'', ''campaign_validation'', ''error'')
    | Planning _ \<Rightarrow> (''runtime'', ''planning_failed'', ''error'')
    | RuntimeValidation _ \<Rightarrow> (''runtime'', ''runtime_validation'', ''error'')
    | OofValidation _ \<Rightarrow> (''validation'', ''oof_validation'', ''error'')
    | OofLeakage _ \<Rightarrow> (''validation'', ''oof_leakage'', ''error'')
    | TargetMissing _ \<Rightarrow> (''validation'', ''target_missing_exclusion'', ''error'')
    | Serialization _ \<Rightarrow> (''compatibility'', ''serialization_error'', ''error''))"

definition category :: "dag_ml_error \<Rightarrow> string" where
  "category e = fst (taxonomy_parts e)"

definition code :: "dag_ml_error \<Rightarrow> string" where
  "code e = fst (snd (taxonomy_parts e))"

definition severity :: "dag_ml_error \<Rightarrow> string" where
  "severity e = snd (snd (taxonomy_parts e))"

definition numeric_taxonomy :: "dag_ml_error \<Rightarrow> 16 word \<times> 16 word" where
  "numeric_taxonomy e = (case e of
      InvalidIdentifier _ _ \<Rightarrow> (0, 1)
    | GraphValidation _ \<Rightarrow> (0, 2)
    | CampaignValidation _ \<Rightarrow> (0, 3)
    | OofValidation _ \<Rightarrow> (0, 4)
    | OofLeakage _ \<Rightarrow> (0, 5)
    | TargetMissing _ \<Rightarrow> (0, 6)
    | ControllerValidation _ \<Rightarrow> (3, 1)
    | Planning _ \<Rightarrow> (1, 1)
    | RuntimeValidation _ \<Rightarrow> (1, 2)
    | Serialization _ \<Rightarrow> (8, 1))"

definition error_code :: "dag_ml_error \<Rightarrow> 32 word" where
  "error_code e =
     (let (category_id, code_id) = numeric_taxonomy e
      in or (push_bit 16 (ucast category_id)) (ucast code_id))"

text \<open>The packed code keeps the category in its high half and the code in its low half.\<close>

lemma error_code_nonzero: "error_code e \<noteq> 0"
  by (cases e) (simp_all add: error_code_def numeric_taxonomy_def)

lemma error_code_unpack:
  "numeric_taxonomy e = (ucast (drop_bit 16 (error_code e)), ucast (error_code e))"
  by (cases e) (simp_all add: error_code_def numeric_taxonomy_def)

text \<open>the packed 32-bit code and the string taxonomy agree: two errors have the same numeric
  code exactly when they have the same category and code strings.\<close>

theorem error_code_eq_iff: "error_code e = error_code e' \<longleftrightarrow> (category e, code e) = (category e', code e')"
  by (cases e; cases e')
    (simp_all add: error_code_def numeric_taxonomy_def category_def code_def taxonomy_parts_def)

end
