(* ===== verification/Ids.thy ===== *)
theory Ids
  imports Errors
begin

text \<open>
  \<open>ids.rs\<close>, \<open>phase.rs\<close> and \<open>rng.rs\<close>: the identifier newtypes (one phantom-typed datatype for
  the \<open>define_id!\<close> macro, so that a \<open>SampleId\<close> is not a \<open>FoldId\<close>), the phases, and the
  deterministic seed derivation. The SHA-256 function is a parameter.
\<close>

section \<open>Identifiers\<close>

definition identifier_byte :: "char \<Rightarrow> bool" where
  "identifier_byte b \<longleftrightarrow>
     is_ascii_alphanumeric b \<or> b = CHR ''_'' \<or> b = CHR ''-'' \<or> b = CHR ''.'' \<or> b = CHR '':''"

definition validate_identifier :: "string \<Rightarrow> unit result" where
  "validate_identifier value =
     (if value = [] then fail (InvalidIdentifier value IdEmpty)
      else if 128 < length value then fail (InvalidIdentifier value IdTooLong)
      else if \<not> list_all identifier_byte value
        then fail (InvalidIdentifier value IdUnsupportedCharacters)
      else Inr ())"

datatype (plugins only: code size) 'k ident = Ident (as_str: string)

definition ident_new :: "string \<Rightarrow> 'k ident result" where
  "ident_new value = and_then (validate_identifier value) (\<lambda>_. Inr (Ident value))"

text \<open>The derived \<open>Ord\<close> of the newtype is the byte order of the string.\<close>

instantiation ident :: (type) linorder
begin

definition less_eq_ident :: "'a ident \<Rightarrow> 'a ident \<Rightarrow> bool" where
  "less_eq_ident x y \<longleftrightarrow> as_str x \<le> as_str y"

definition less_ident :: "'a ident \<Rightarrow> 'a ident \<Rightarrow> bool" where
  "less_ident x y \<longleftrightarrow> as_str x < as_str y"

instance
proof
  fix x y z :: "'a ident"
  show "x < y \<longleftrightarrow> x \<le> y \<and> \<not> y \<le> x" by (auto simp: less_eq_ident_def less_ident_def)
  show "x \<le> x" by (simp add: less_eq_ident_def)
  show "x \<le> y \<Longrightarrow> y \<le> z \<Longrightarrow> x \<le> z" by (auto simp: less_eq_ident_def)
  show "x \<le> y \<Longrightarrow> y \<le> x \<Longrightarrow> x = y" by (cases x; cases y) (simp add: less_eq_ident_def)
  show "x \<le> y \<or> y \<le> x" by (auto simp: less_eq_ident_def)
qed

end

datatype (plugins only: code size) node_k = NodeK
datatype (plugins only: code size) observation_k = ObservationK
datatype (plugins only: code size) sample_k = SampleK
datatype (plugins only: code size) fold_k = FoldK
datatype (plugins only: code size) target_k = TargetK
datatype (plugins only: code size) group_k = GroupK
datatype (plugins only: code size) controller_k = ControllerK
datatype (plugins only: code size) variant_k = VariantK

type_synonym node_id = "node_k ident"
type_synonym observation_id = "observation_k ident"
type_synonym sample_id = "sample_k ident"
type_synonym fold_id = "fold_k ident"
type_synonym target_id = "target_k ident"
type_synonym group_id = "group_k ident"
type_synonym controller_id = "controller_k ident"
type_synonym variant_id = "variant_k ident"

lemma validate_identifier_ok [ok_iff]:
  "validate_identifier s = Inr u \<longleftrightarrow>
     s \<noteq> [] \<and> length s \<le> 128 \<and> (\<forall>c \<in> set s. identifier_byte c)"
  by (simp add: validate_identifier_def list_all_iff)

lemma ident_new_ok [ok_iff]:
  "ident_new s = Inr i \<longleftrightarrow>
     i = Ident s \<and> s \<noteq> [] \<and> length s \<le> 128 \<and> (\<forall>c \<in> set s. identifier_byte c)"
  by (auto simp: ident_new_def ok_iff)

lemma no_panic_ident_new [simp]: "no_panic (ident_new s)"
  by (simp add: ident_new_def validate_identifier_def)

lemma identifier_byte_byte_of:
  "identifier_byte c \<Longrightarrow> byte_of c \<in> {45, 46, 95} \<union> {48..58} \<union> {65..90} \<union> {97..122}"
  by (auto simp: identifier_byte_def is_ascii_alphanumeric_def byte_of_def)

text \<open>An identifier is never blank, and never holds a NUL or a 255 byte.\<close>

lemma identifier_not_blank:
  assumes "\<forall>c \<in> set s. identifier_byte c" "s \<noteq> []"
  shows "\<not> is_blank s"
proof (cases s)
  case (Cons c cs)
  then have "byte_of c \<in> {45, 46, 95} \<union> {48..58} \<union> {65..90} \<union> {97..122}"
    using assms identifier_byte_byte_of by simp
  then have "byte_of c \<notin> {9..13} \<union> {32, 194, 225, 226, 227}" by auto
  then show ?thesis using not_blank_head Cons by blast
qed (use assms in simp)

lemma digit_identifier_byte: "is_ascii_digit c \<Longrightarrow> identifier_byte c"
  by (simp add: identifier_byte_def is_ascii_alphanumeric_def is_ascii_digit_def)

section \<open>Phases\<close>

datatype (plugins only: code size) phase = Compile | Plan | FitCv | Select | Refit | Predict | Explain

definition is_training :: "phase \<Rightarrow> bool" where
  "is_training p \<longleftrightarrow> p = FitCv \<or> p = Refit"

definition phase_as_str :: "phase \<Rightarrow> string" where
  "phase_as_str p = (case p of
      Compile \<Rightarrow> ''COMPILE'' | Plan \<Rightarrow> ''PLAN'' | FitCv \<Rightarrow> ''FIT_CV'' | Select \<Rightarrow> ''SELECT''
    | Refit \<Rightarrow> ''REFIT'' | Predict \<Rightarrow> ''PREDICT'' | Explain \<Rightarrow> ''EXPLAIN'')"

lemma phase_as_str_inj: "phase_as_str p = phase_as_str q \<Longrightarrow> p = q"
  by (cases p; cases q) (simp_all add: phase_as_str_def)

section \<open>Seed derivation\<close>

type_synonym bytes = "8 word list"
type_synonym digest = "bytes \<Rightarrow> bytes"

record seed_context =
  root_seed :: "64 word"
  seed_path :: "string list"

definition seed_root :: "64 word \<Rightarrow> seed_context" where
  "seed_root s = \<lparr>root_seed = s, seed_path = []\<rparr>"

definition seed_child :: "seed_context \<Rightarrow> string \<Rightarrow> seed_context" where
  "seed_child c label = c\<lparr>seed_path := seed_path c @ [label]\<rparr>"

definition as_bytes :: "string \<Rightarrow> bytes" where
  "as_bytes s = map (\<lambda>c. of_nat (byte_of c)) s"

definition to_le_bytes :: "64 word \<Rightarrow> bytes" where
  "to_le_bytes w = map (\<lambda>i. ucast (drop_bit (8 * i) w)) [0..<8]"

definition from_le_bytes :: "bytes \<Rightarrow> 64 word" where
  "from_le_bytes bs = foldr (\<lambda>b acc. or (ucast b) (push_bit 8 acc)) bs 0"

text \<open>The bytes fed to the hasher, in the order of the \<open>update\<close> calls.\<close>

definition seed_message :: "seed_context \<Rightarrow> string \<Rightarrow> bytes" where
  "seed_message c label =
     to_le_bytes (root_seed c) @ concat (map (\<lambda>part. 0 # as_bytes part) (seed_path c)) @
     [0xff] @ as_bytes label"

definition derive_u64 :: "digest \<Rightarrow> seed_context \<Rightarrow> string \<Rightarrow> 64 word" where
  "derive_u64 sha256 c label = from_le_bytes (take 8 (sha256 (seed_message c label)))"

lemma to_le_bytes_inj: "to_le_bytes a = to_le_bytes b \<Longrightarrow> a = b"
proof (rule bit_word_eqI)
  fix n assume eq: "to_le_bytes a = to_le_bytes b" and n: "n < LENGTH(64)"
  then have "n div 8 < 8" by simp
  then have "(ucast (drop_bit (8 * (n div 8)) a) :: 8 word) = ucast (drop_bit (8 * (n div 8)) b)"
    using arg_cong[OF eq, of "\<lambda>xs. xs ! (n div 8)"] by (simp add: to_le_bytes_def del: upt_rec_numeral)
  then have "bit (ucast (drop_bit (8 * (n div 8)) a) :: 8 word) (n mod 8)
      = bit (ucast (drop_bit (8 * (n div 8)) b) :: 8 word) (n mod 8)" by simp
  then show "bit a n = bit b n"
    by (simp add: bit_unsigned_iff bit_drop_bit_eq)
qed

lemma length_to_le_bytes [simp]: "length (to_le_bytes w) = 8"
  by (simp add: to_le_bytes_def)

lemma byte_of_less: "byte_of c < 256"
  by (simp add: byte_of_def)

lemma of_nat_byte_inj: "(of_nat (byte_of c) :: 8 word) = of_nat (byte_of d) \<longleftrightarrow> c = d"
proof
  assume "(of_nat (byte_of c) :: 8 word) = of_nat (byte_of d)"
  then have "unat (of_nat (byte_of c) :: 8 word) = unat (of_nat (byte_of d) :: 8 word)" by simp
  then have "byte_of c = byte_of d"
    using byte_of_less[of c] byte_of_less[of d] by (simp add: unat_of_nat)
  then show "c = d" by (simp add: byte_of_def)
qed simp

lemma as_bytes_inj: "as_bytes s = as_bytes t \<Longrightarrow> s = t"
proof (induction s arbitrary: t)
  case (Cons c s)
  then obtain d u where t: "t = d # u" by (cases t) (auto simp: as_bytes_def)
  with Cons show ?case by (simp add: as_bytes_def of_nat_byte_inj)
qed (simp add: as_bytes_def)

text \<open>
  The hashed message separates its parts: the path parts are delimited by 0 and the label by 255,
  so for parts free of both bytes no two (seed, path, label) triples give the same message.
\<close>

definition clean_part :: "string \<Rightarrow> bool" where
  "clean_part s \<longleftrightarrow> 0 \<notin> set (as_bytes s) \<and> 0xff \<notin> set (as_bytes s)"

lemma split_at_first:
  assumes "x \<notin> set xs" "x \<notin> set ys" "xs @ x # as = ys @ x # bs"
  shows "xs = ys \<and> as = bs"
  using assms
proof (induction xs arbitrary: ys)
  case Nil
  then show ?case by (cases ys) auto
next
  case (Cons z xs)
  then obtain w ys' where "ys = w # ys'" by (cases ys) auto
  then show ?case using Cons.IH[of ys'] Cons.prems by auto
qed

lemma path_bytes_inj:
  assumes "\<forall>p \<in> set ps. clean_part p" "\<forall>q \<in> set qs. clean_part q"
    and "concat (map (\<lambda>part. 0 # as_bytes part) ps) = concat (map (\<lambda>part. 0 # as_bytes part) qs)"
  shows "ps = qs"
  using assms
proof (induction ps arbitrary: qs)
  case Nil
  then show ?case by simp
next
  case (Cons p ps)
  then obtain q qs' where qs: "qs = q # qs'" by (cases qs) auto
  have hd0: "concat (map (\<lambda>part. 0 # as_bytes part) rs) = [] \<or>
      (\<exists>t. concat (map (\<lambda>part. 0 # as_bytes part) rs) = 0 # t)" for rs
    by (cases rs) auto
  let ?P = "concat (map (\<lambda>part. 0 # as_bytes part) ps)"
  let ?Q = "concat (map (\<lambda>part. 0 # as_bytes part) qs')"
  have eq: "as_bytes p @ ?P = as_bytes q @ ?Q" and cl: "0 \<notin> set (as_bytes p)" "0 \<notin> set (as_bytes q)"
    using Cons.prems qs by (auto simp: clean_part_def)
  have "as_bytes p = as_bytes q \<and> ?P = ?Q"
  proof -
    have "as_bytes p @ ?P @ [0] = as_bytes q @ ?Q @ [0]" using eq by (metis append.assoc)
    moreover obtain t where t: "?P @ [0] = 0 # t" using hd0[of ps] by auto
    moreover obtain u where u: "?Q @ [0] = 0 # u" using hd0[of qs'] by auto
    ultimately have "as_bytes p @ 0 # t = as_bytes q @ 0 # u" by simp
    then have "as_bytes p = as_bytes q" using split_at_first[OF cl] by blast
    with eq show ?thesis by simp
  qed
  then have "p = q" "ps = qs'" using as_bytes_inj Cons.IH[of qs'] Cons.prems qs by auto
  then show ?case using qs by simp
qed

lemma path_no_ff:
  assumes "\<forall>p \<in> set ps. clean_part p"
  shows "0xff \<notin> set (concat (map (\<lambda>part. 0 # as_bytes part) ps))"
  using assms by (induction ps) (simp_all add: clean_part_def)

text \<open>seed derivation separates its inputs: for path parts free of the two delimiter bytes, the
  hashed message determines the root seed, the path and the label.\<close>

theorem seed_message_inj:
  assumes "\<forall>p \<in> set (seed_path c). clean_part p" "\<forall>p \<in> set (seed_path d). clean_part p"
    and eq: "seed_message c l = seed_message d m"
  shows "root_seed c = root_seed d \<and> seed_path c = seed_path d \<and> l = m"
proof -
  let ?B = "\<lambda>c. concat (map (\<lambda>part. 0 # as_bytes part) (seed_path c))"
  have "to_le_bytes (root_seed c) @ (?B c @ 0xff # as_bytes l) =
      to_le_bytes (root_seed d) @ (?B d @ 0xff # as_bytes m)"
    using eq unfolding seed_message_def by simp
  then have le: "to_le_bytes (root_seed c) = to_le_bytes (root_seed d)"
    and rest: "?B c @ 0xff # as_bytes l = ?B d @ 0xff # as_bytes m"
    using append_eq_append_conv[of "to_le_bytes (root_seed c)" "to_le_bytes (root_seed d)"]
    by simp_all
  have "0xff \<notin> set (?B c)" "0xff \<notin> set (?B d)"
    using path_no_ff assms(1,2) by blast+
  then have "?B c = ?B d \<and> as_bytes l = as_bytes m" using rest by (rule split_at_first)
  then show ?thesis using to_le_bytes_inj[OF le] path_bytes_inj[OF assms(1,2)] as_bytes_inj by blast
qed

lemma seed_message_inj_witness:
  "root_seed (seed_root 7) = (7 :: 64 word) \<and> seed_path (seed_child (seed_root 7) ''kfold'') = [''kfold'']"
proof -
  let ?c = "seed_child (seed_root 7) ''kfold''"
  let ?d = "\<lparr>root_seed = 7, seed_path = [''kfold'']\<rparr> :: seed_context"
  have k: "clean_part ''kfold''" by code_simp
  have c: "\<forall>p \<in> set (seed_path ?c). clean_part p" and d: "\<forall>p \<in> set (seed_path ?d). clean_part p"
    using k by (simp_all add: seed_child_def seed_root_def)
  have "seed_message ?c ''s1'' = seed_message ?d ''s1''" by code_simp
  from seed_message_inj[OF c d this] show ?thesis by (simp add: seed_root_def)
qed

end
