(* ===== verification/F64.thy ===== *)
theory F64
  imports Ids
begin

text \<open>
  \<open>f64\<close> by its IEEE 754 bits: the classifications and comparisons the source uses
  (\<open>is_nan\<close>, \<open>is_finite\<close>, \<open>total_cmp\<close>, \<open>==\<close>, \<open><\<close>), as the Rust standard library defines
  them on the bit pattern. No arithmetic on floats is modelled.
\<close>

type_synonym f64 = "64 word"

definition f64_exponent :: "f64 \<Rightarrow> 64 word" where
  "f64_exponent w = and (drop_bit 52 w) 0x7ff"

definition f64_mantissa :: "f64 \<Rightarrow> 64 word" where
  "f64_mantissa w = and w 0xfffffffffffff"

definition f64_is_nan :: "f64 \<Rightarrow> bool" where
  "f64_is_nan w \<longleftrightarrow> f64_exponent w = 0x7ff \<and> f64_mantissa w \<noteq> 0"

definition f64_is_finite :: "f64 \<Rightarrow> bool" where
  "f64_is_finite w \<longleftrightarrow> f64_exponent w \<noteq> 0x7ff"

definition f64_is_zero :: "f64 \<Rightarrow> bool" where
  "f64_is_zero w \<longleftrightarrow> and w 0x7fffffffffffffff = 0"

text \<open>\<open>total_cmp\<close>: the bits as \<open>i64\<close>, the magnitude bits flipped for negative values.\<close>

definition f64_total_bits :: "f64 \<Rightarrow> 64 word" where
  "f64_total_bits w = xor w (if bit w 63 then 0x7fffffffffffffff else 0)"

definition f64_total_key :: "f64 \<Rightarrow> int" where
  "f64_total_key w = sint (f64_total_bits w)"

definition f64_total_cmp :: "f64 \<Rightarrow> f64 \<Rightarrow> ordering" where
  "f64_total_cmp a b = ord_cmp (f64_total_key a) (f64_total_key b)"

text \<open>IEEE equality and less-than: false on NaN, and \<open>-0.0 == 0.0\<close>.\<close>

definition f64_eq :: "f64 \<Rightarrow> f64 \<Rightarrow> bool" where
  "f64_eq a b \<longleftrightarrow>
     \<not> f64_is_nan a \<and> \<not> f64_is_nan b \<and> (a = b \<or> f64_is_zero a \<and> f64_is_zero b)"

definition f64_lt :: "f64 \<Rightarrow> f64 \<Rightarrow> bool" where
  "f64_lt a b \<longleftrightarrow>
     \<not> f64_is_nan a \<and> \<not> f64_is_nan b \<and> \<not> (f64_is_zero a \<and> f64_is_zero b) \<and>
     f64_total_key a < f64_total_key b"

text \<open>One representative per class of \<open>==\<close>: both zeros become the positive one. On numbers, equal
  representatives are exactly \<open>==\<close>.\<close>

definition f64_norm :: "f64 \<Rightarrow> f64" where
  "f64_norm w = (if f64_is_zero w then 0 else w)"

lemma f64_norm_eq_iff:
  "\<not> f64_is_nan a \<Longrightarrow> \<not> f64_is_nan b \<Longrightarrow> f64_norm a = f64_norm b \<longleftrightarrow> f64_eq a b"
  by (auto simp: f64_norm_def f64_eq_def f64_is_zero_def)

lemma f64_total_bits_inj: "f64_total_bits a = f64_total_bits b \<Longrightarrow> a = b"
proof -
  assume eq: "f64_total_bits a = f64_total_bits b"
  have "bit (f64_total_bits w) 63 = bit w 63" for w
    by (simp add: f64_total_bits_def bit_xor_iff bit_numeral_simps)
  with eq have "bit a 63 = bit b 63" by metis
  then have "a = xor (f64_total_bits a) (if bit a 63 then 0x7fffffffffffffff else 0)"
    "b = xor (f64_total_bits b) (if bit a 63 then 0x7fffffffffffffff else 0)"
    by (simp_all add: f64_total_bits_def xor.assoc)
  with eq show ?thesis by metis
qed

lemma f64_total_key_inj: "f64_total_key a = f64_total_key b \<longleftrightarrow> a = b"
  unfolding f64_total_key_def word_eq_iff_signed[symmetric] using f64_total_bits_inj by blast

lemma f64_total_cmp_strict: "strict_order_on A f64_total_cmp"
  using f64_total_key_inj
  by (auto simp: strict_order_on_def total_preorder_on_def f64_total_cmp_def ord_cmp_def split: if_splits)

lemma f64_is_finite_not_nan: "f64_is_finite w \<Longrightarrow> \<not> f64_is_nan w"
  by (simp add: f64_is_finite_def f64_is_nan_def)

lemma f64_eq_refl: "\<not> f64_is_nan w \<Longrightarrow> f64_eq w w"
  by (simp add: f64_eq_def)

definition f64_le :: "f64 \<Rightarrow> f64 \<Rightarrow> bool" where
  "f64_le a b \<longleftrightarrow> f64_lt a b \<or> f64_eq a b"

text \<open>\<open>n as f64\<close> for an unsigned integer: round to nearest, ties to even.\<close>

fun floor_log2 :: "nat \<Rightarrow> nat" where
  "floor_log2 n = (if n < 2 then 0 else Suc (floor_log2 (n div 2)))"

declare floor_log2.simps [simp del]

definition f64_of_nat :: "nat \<Rightarrow> f64" where
  "f64_of_nat n =
     (if n = 0 then 0
      else let e = floor_log2 n in
        if e \<le> 52 then of_nat ((1023 + e) * 2 ^ 52 + (n - 2 ^ e) * 2 ^ (52 - e))
        else let s = e - 52; q = n div 2 ^ s; r = n mod 2 ^ s; half = 2 ^ (s - 1);
                 m = (if half < r \<or> r = half \<and> odd q then q + 1 else q)
             in of_nat ((1023 + e) * 2 ^ 52 + (m - 2 ^ 52)))"

end
