(* ===== verification/Json.thy ===== *)
theory Json
  imports F64
begin

text \<open>
  \<open>serde_json::Value\<close>, the data type metadata and parameters are stored in. An object is its list
  of entries in iteration order. The three number forms are those of \<open>serde_json::Number\<close>.
\<close>

datatype (plugins only: code size) json_number = PosInt "64 word" | NegInt "64 word" | Float f64

datatype (plugins only: code size) json_value =
    JNull
  | JBool bool
  | JNumber json_number
  | JString string
  | JArray "json_value list"
  | JObject "(string \<times> json_value) list"

definition json_as_str :: "json_value \<Rightarrow> string option" where
  "json_as_str v = (case v of JString s \<Rightarrow> Some s | _ \<Rightarrow> None)"

definition json_as_object :: "json_value \<Rightarrow> (string \<times> json_value) list option" where
  "json_as_object v = (case v of JObject kvs \<Rightarrow> Some kvs | _ \<Rightarrow> None)"

definition json_as_array :: "json_value \<Rightarrow> json_value list option" where
  "json_as_array v = (case v of JArray xs \<Rightarrow> Some xs | _ \<Rightarrow> None)"

text \<open>\<open>Value::as_u64\<close>: only the unsigned form; a float is never converted.\<close>

definition json_as_u64 :: "json_value \<Rightarrow> 64 word option" where
  "json_as_u64 v = (case v of JNumber (PosInt w) \<Rightarrow> Some w | _ \<Rightarrow> None)"

text \<open>\<open>Value::as_f64\<close>: an integer converts with \<open>as f64\<close>, a negative one keeps its sign bit.\<close>

definition json_number_as_f64 :: "json_number \<Rightarrow> f64" where
  "json_number_as_f64 n = (case n of
      PosInt w \<Rightarrow> f64_of_nat (unat w)
    | NegInt w \<Rightarrow> or (push_bit 63 1) (f64_of_nat (nat (- sint w)))
    | Float f \<Rightarrow> f)"

definition json_as_f64 :: "json_value \<Rightarrow> f64 option" where
  "json_as_f64 v = (case v of JNumber n \<Rightarrow> Some (json_number_as_f64 n) | _ \<Rightarrow> None)"

definition json_is_null :: "json_value \<Rightarrow> bool" where
  "json_is_null v \<longleftrightarrow> v = JNull"

type_synonym json_map = "(string, json_value) btree_map"

text \<open>Rust's \<open>==\<close> on values: numbers of different forms differ, and two float numbers compare as
  \<open>f64\<close>, so the two zeros are equal (a \<open>Number\<close> is never NaN). Each value has one representative of
  its class; \<open>a == b\<close> is equality of the representatives. The records that hold values and are
  compared with a derived \<open>==\<close> have a representative of the same kind beside their declaration.\<close>

definition json_number_norm :: "json_number \<Rightarrow> json_number" where
  "json_number_norm n = (case n of Float f \<Rightarrow> Float (f64_norm f) | _ \<Rightarrow> n)"

fun json_norm :: "json_value \<Rightarrow> json_value" where
  "json_norm (JNumber n) = JNumber (json_number_norm n)"
| "json_norm (JArray xs) = JArray (map json_norm xs)"
| "json_norm (JObject kvs) = JObject (map (\<lambda>(k, v). (k, json_norm v)) kvs)"
| "json_norm v = v"

definition json_map_norm :: "json_map \<Rightarrow> json_map" where
  "json_map_norm m = map (\<lambda>(k, v). (k, json_norm v)) m"

lemma json_norm_idem: "json_norm (json_norm v) = json_norm v"
proof (induction v rule: json_norm.induct)
  case (3 kvs)
  then show ?case by (auto simp: split_beta)
qed (auto simp: json_number_norm_def f64_norm_def f64_is_zero_def split: json_number.splits)

lemma json_norm_signed_zero: "json_norm (JNumber (Float 0)) = json_norm (JNumber (Float (push_bit 63 1)))"
  by code_simp

end
