(* ===== verification/Fold.thy ===== *)
theory Fold
  imports Json
begin

text \<open>
  \<open>fold.rs\<close>, the fold sets: their validation (the leakage guards and OOF completeness), the
  exclusion of samples whose target is missing, and the refusal of scored target-missing samples.
\<close>

section \<open>Data\<close>

record fold_assignment =
  fold_id :: fold_id
  train_sample_ids :: "sample_id list"
  validation_sample_ids :: "sample_id list"
  fa_metadata :: json_map

datatype (plugins only: code size) fold_partition_mode = Partition | Resampled

datatype (plugins only: code size) fold_train_exclusion = Relations | FoldLocal

record fold_set =
  fs_id :: string
  sample_ids :: "sample_id list"
  folds :: "fold_assignment list"
  sample_groups :: "(sample_id, group_id) btree_map"
  partition_mode :: fold_partition_mode
  train_exclusion :: fold_train_exclusion
  target_missing_sample_ids :: "sample_id list"

definition fold_set_norm :: "fold_set \<Rightarrow> fold_set" where
  "fold_set_norm fs = fs\<lparr>folds := map (\<lambda>f. f\<lparr>fa_metadata := json_map_norm (fa_metadata f)\<rparr>) (folds fs)\<rparr>"

section \<open>Validation\<close>

abbreviation fold_err :: "fold_msg \<Rightarrow> 'a result" where
  "fold_err m \<equiv> fail (OofValidation (FoldMsg m))"

definition unique_samples :: "sample_list_label \<Rightarrow> sample_id list \<Rightarrow> sample_id set result" where
  "unique_samples label samples =
     try_fold (\<lambda>seen s. if s \<in> seen then fold_err (DuplicateSample label (as_str s))
                        else Inr (insert s seen)) {} samples"

definition target_missing_refusal ::
  "string \<Rightarrow> target_missing_refusal \<Rightarrow> string option \<Rightarrow> sample_id btree_set \<Rightarrow> nat \<times> nat
   \<Rightarrow> dag_ml_error" where
  "target_missing_refusal fold_set_id reason fold_id' samples counts =
     TargetMissing \<lparr>tmr_reason = reason, tmr_fold_set_id = Some fold_set_id, tmr_fold_id = fold_id',
       tmr_target_missing_count = fst counts, tmr_observed_count = snd counts,
       tmr_sample_ids = map as_str samples\<rparr>"

definition target_missing_error ::
  "fold_set \<Rightarrow> target_missing_refusal \<Rightarrow> string option \<Rightarrow> sample_id btree_set \<Rightarrow> dag_ml_error" where
  "target_missing_error fs reason fold_id' samples =
     (let declared = set (target_missing_sample_ids fs) \<union> set samples;
          observed_count = length (filter (\<lambda>s. s \<notin> declared) (sample_ids fs))
      in target_missing_refusal (fs_id fs) reason fold_id' samples (card declared, observed_count))"

definition validate_group_boundary :: "fold_set \<Rightarrow> fold_assignment \<Rightarrow> sample_id set \<Rightarrow> unit result" where
  "validate_group_boundary fs fld train =
     (if sample_groups fs = [] then Inr ()
      else
        let train_groups = Option.these (bm_get (sample_groups fs) ` train)
        in try_each (\<lambda>s. case bm_get (sample_groups fs) s of
              None \<Rightarrow> Inr ()
            | Some g \<Rightarrow> if g \<in> train_groups
                then fold_err (GroupLeak (as_str (fold_id fld)) (as_str g)) else Inr ())
            (validation_sample_ids fld))"

text \<open>\<open>*validation_counts.get_mut(s).expect(..) += 1\<close>.\<close>

definition bump_count :: "(sample_id, nat) btree_map \<Rightarrow> sample_id \<Rightarrow> (sample_id, nat) btree_map result"
where
  "bump_count counts s = (case bm_get counts s of
      None \<Rightarrow> expect_failed ''validation sample is in universe''
    | Some c \<Rightarrow> Inr (bm_insert s (c + 1) counts))"

definition validate_fold ::
  "fold_set \<Rightarrow> sample_id set \<Rightarrow> fold_id set \<times> (sample_id, nat) btree_map \<Rightarrow> fold_assignment
   \<Rightarrow> (fold_id set \<times> (sample_id, nat) btree_map) result" where
  "validate_fold fs universe st fld =
     (let fid = as_str (fold_id fld) in
      if fold_id fld \<in> fst st then fold_err (DuplicateFoldId fid)
      else and_then (unique_samples (FoldTrainIds fid) (train_sample_ids fld)) (\<lambda>train.
        and_then (unique_samples (FoldValidationIds fid) (validation_sample_ids fld)) (\<lambda>validation.
        if validation = {} then fold_err (FoldNoValidation fid)
        else and_then (try_each
            (\<lambda>s. ensure (s \<in> universe) (Err (OofValidation (FoldMsg (FoldUnknownSample fid (as_str s))))))
            (sorted_list_of_set (train \<union> validation))) (\<lambda>_.
        case sorted_list_of_set (train \<inter> validation) of
          s # _ \<Rightarrow> fold_err (FoldOverlap fid (as_str s))
        | [] \<Rightarrow> and_then (try_fold bump_count (snd st) (sorted_list_of_set validation)) (\<lambda>counts.
            and_then (validate_group_boundary fs fld train) (\<lambda>_.
            Inr (insert (fold_id fld) (fst st), counts)))))))"

definition validate_sample_groups :: "fold_set \<Rightarrow> sample_id set \<Rightarrow> unit result" where
  "validate_sample_groups fs universe =
     (if sample_groups fs = [] then Inr ()
      else and_then (try_each
          (\<lambda>s. ensure (s \<in> universe) (Err (OofValidation (FoldMsg (GroupMapUnknownSample (as_str s))))))
          (bm_keys (sample_groups fs))) (\<lambda>_.
        try_each
          (\<lambda>s. ensure (bm_contains_key (sample_groups fs) s)
             (Err (OofValidation (FoldMsg (SampleMissingFromGroupMap (as_str s))))))
          (sample_ids fs)))"

definition validate_counts :: "fold_set \<Rightarrow> (sample_id, nat) btree_map \<Rightarrow> unit result" where
  "validate_counts fs counts =
     (if partition_mode fs = Partition
      then try_each (\<lambda>(s, c). ensure (c = 1)
             (Err (OofValidation (FoldMsg (ValidationCountNotOne (as_str s) c))))) counts
      else Inr ())"

definition fold_set_validate :: "fold_set \<Rightarrow> unit result" where
  "fold_set_validate fs =
     (if is_blank (fs_id fs) then fold_err FoldSetIdEmpty
      else if sample_ids fs = [] then fold_err FoldSetNoSamples
      else if folds fs = [] then fold_err FoldSetNoFolds
      else and_then (unique_samples FoldSetSampleIds (sample_ids fs)) (\<lambda>universe.
        and_then (validate_sample_groups fs universe) (\<lambda>_.
        and_then (unique_samples FoldSetTargetMissingIds (target_missing_sample_ids fs))
          (\<lambda>target_missing.
        let in_universe = sorted_list_of_set (target_missing \<inter> universe) in
        if in_universe \<noteq> [] then fail (target_missing_error fs InCvUniverse None in_universe)
        else and_then (try_fold (validate_fold fs universe)
            ({}, bm_collect (map (\<lambda>s. (s, 0)) (sample_ids fs))) (folds fs)) (\<lambda>st.
        validate_counts fs (snd st))))))"

section \<open>What a valid fold set is\<close>

text \<open>The number of folds that validate a sample.\<close>

definition validation_count :: "fold_assignment list \<Rightarrow> sample_id \<Rightarrow> nat" where
  "validation_count fls s = length (filter (\<lambda>f. s \<in> set (validation_sample_ids f)) fls)"

definition fold_ok :: "fold_set \<Rightarrow> fold_assignment \<Rightarrow> bool" where
  "fold_ok fs f \<longleftrightarrow>
     distinct (train_sample_ids f) \<and> distinct (validation_sample_ids f) \<and>
     validation_sample_ids f \<noteq> [] \<and>
     set (train_sample_ids f) \<union> set (validation_sample_ids f) \<subseteq> set (sample_ids fs) \<and>
     set (train_sample_ids f) \<inter> set (validation_sample_ids f) = {} \<and>
     (\<forall>t \<in> set (train_sample_ids f). \<forall>v \<in> set (validation_sample_ids f). \<forall>g.
        bm_get (sample_groups fs) t = Some g \<longrightarrow> bm_get (sample_groups fs) v \<noteq> Some g)"

definition fold_set_wf :: "fold_set \<Rightarrow> bool" where
  "fold_set_wf fs \<longleftrightarrow>
     \<not> is_blank (fs_id fs) \<and> sample_ids fs \<noteq> [] \<and> folds fs \<noteq> [] \<and> distinct (sample_ids fs) \<and>
     (sample_groups fs \<noteq> [] \<longrightarrow> fst ` set (sample_groups fs) = set (sample_ids fs)) \<and>
     distinct (target_missing_sample_ids fs) \<and>
     set (target_missing_sample_ids fs) \<inter> set (sample_ids fs) = {} \<and>
     distinct (map fold_id (folds fs)) \<and>
     (\<forall>f \<in> set (folds fs). fold_ok fs f) \<and>
     (partition_mode fs = Partition \<longrightarrow> (\<forall>s \<in> set (sample_ids fs). validation_count (folds fs) s = 1))"


section \<open>The checks of one fold\<close>

lemma unique_from_ok:
  "try_fold (\<lambda>seen s. if s \<in> seen then fold_err (DuplicateSample label (as_str s))
             else Inr (insert s seen)) A xs = Inr S \<longleftrightarrow>
   distinct xs \<and> set xs \<inter> A = {} \<and> S = A \<union> set xs"
  by (induction xs arbitrary: A) auto

lemma unique_samples_ok [ok_iff]: "unique_samples l xs = Inr S \<longleftrightarrow> distinct xs \<and> S = set xs"
  by (simp add: unique_samples_def unique_from_ok)

lemma unique_samples_distinct [simp]: "distinct xs \<Longrightarrow> unique_samples l xs = Inr (set xs)"
  by (simp add: unique_samples_ok)

lemma no_panic_try_fold:
  "(\<And>s x. x \<in> set xs \<Longrightarrow> no_panic (f s x)) \<Longrightarrow> no_panic (try_fold f s xs)"
  by (induction xs arbitrary: s) (simp_all add: no_panic_and_then)

lemma no_panic_unique_samples [simp]: "no_panic (unique_samples l xs)"
  by (auto simp: unique_samples_def intro: no_panic_try_fold)

lemma validate_group_boundary_ok [ok_iff]:
  "validate_group_boundary fs f T = Inr u \<longleftrightarrow>
   (\<forall>t \<in> T. \<forall>v \<in> set (validation_sample_ids f). \<forall>g.
      bm_get (sample_groups fs) t = Some g \<longrightarrow> bm_get (sample_groups fs) v \<noteq> Some g)"
proof (cases "sample_groups fs = []")
  case False
  have "validate_group_boundary fs f T = Inr u \<longleftrightarrow>
    (\<forall>v \<in> set (validation_sample_ids f). \<forall>g. bm_get (sample_groups fs) v = Some g \<longrightarrow>
       g \<notin> Option.these (bm_get (sample_groups fs) ` T))"
    using False by (auto simp: validate_group_boundary_def try_each_ok split: option.splits)
  also have "\<dots> \<longleftrightarrow> (\<forall>t \<in> T. \<forall>v \<in> set (validation_sample_ids f). \<forall>g.
      bm_get (sample_groups fs) t = Some g \<longrightarrow> bm_get (sample_groups fs) v \<noteq> Some g)"
    by (auto simp: Option.these_def image_iff) (metis option.sel option.distinct(1))+
  finally show ?thesis .
qed (simp add: validate_group_boundary_def)

lemma no_panic_validate_group_boundary [simp]: "no_panic (validate_group_boundary fs f T)"
  by (auto simp: validate_group_boundary_def intro!: no_panic_try_each split: option.splits)

text \<open>The counters: one entry per sample, never missing, bumped once per listed sample.\<close>

definition counts_ok :: "fold_set \<Rightarrow> (sample_id, nat) btree_map \<Rightarrow> bool" where
  "counts_ok fs c \<longleftrightarrow> bm_ok c \<and> dom (bm_get c) = set (sample_ids fs)"

lemma bump_counts:
  assumes "counts_ok fs c" "set xs \<subseteq> set (sample_ids fs)" "distinct xs"
  shows "\<exists>c'. try_fold bump_count c xs = Inr c' \<and> counts_ok fs c' \<and>
    (\<forall>s. bm_get c' s = map_option (\<lambda>n. n + (if s \<in> set xs then 1 else 0)) (bm_get c s))"
  using assms
proof (induction xs arbitrary: c)
  case Nil
  then show ?case by (auto simp: option.map_ident)
next
  case (Cons x xs)
  then have "x \<in> dom (bm_get c)" by (simp add: counts_ok_def)
  then obtain n where n: "bm_get c x = Some n" by blast
  let ?c = "bm_insert x (n + 1) c"
  have ok: "counts_ok fs ?c" using Cons.prems n by (auto simp: counts_ok_def)
  obtain c' where c': "try_fold bump_count ?c xs = Inr c'" "counts_ok fs c'"
    "\<forall>s. bm_get c' s = map_option (\<lambda>n. n + (if s \<in> set xs then 1 else 0)) (bm_get ?c s)"
    using Cons.IH[OF ok] Cons.prems by auto
  have "try_fold bump_count c (x # xs) = Inr c'" using c'(1) n by (simp add: bump_count_def)
  moreover have "bm_get c' s = map_option (\<lambda>n. n + (if s \<in> set (x # xs) then 1 else 0)) (bm_get c s)" for s
    using c'(3) n Cons.prems(3) by (cases "s = x") auto
  ultimately show ?case using c'(2) by blast
qed

lemma validate_fold_okD:
  assumes "validate_fold fs (set (sample_ids fs)) (A, c) f = Inr st"
  shows "fold_id f \<notin> A \<and> fold_ok fs f"
proof -
  note [simp] = ok_iff
  have A: "fold_id f \<notin> A" using assms by (auto simp: validate_fold_def split: if_splits)
  then have d: "distinct (train_sample_ids f)" "distinct (validation_sample_ids f)"
    and ne: "validation_sample_ids f \<noteq> []"
    using assms by (auto simp: validate_fold_def Let_def split: if_splits)
  from assms A d ne have sub:
      "set (train_sample_ids f) \<union> set (validation_sample_ids f) \<subseteq> set (sample_ids fs)"
    and dis: "sorted_list_of_set (set (train_sample_ids f) \<inter> set (validation_sample_ids f)) = []"
    and grp: "validate_group_boundary fs f (set (train_sample_ids f)) = Inr ()"
    by (auto simp: validate_fold_def Let_def split: list.splits if_splits)
  show ?thesis using A d ne sub dis grp by (simp add: fold_ok_def)
qed

lemma validate_fold_run:
  assumes c: "counts_ok fs c" and "fold_id f \<notin> A" "fold_ok fs f"
  shows "\<exists>c'. validate_fold fs (set (sample_ids fs)) (A, c) f = Inr (insert (fold_id f) A, c') \<and>
    counts_ok fs c' \<and> (\<forall>s. bm_get c' s = map_option (\<lambda>n. n + validation_count [f] s) (bm_get c s))"
proof -
  let ?V = "sorted_list_of_set (set (validation_sample_ids f))"
  have f: "distinct (train_sample_ids f)" "distinct (validation_sample_ids f)"
    "validation_sample_ids f \<noteq> []"
    "set (train_sample_ids f) \<inter> set (validation_sample_ids f) = {}"
    "set (train_sample_ids f) \<union> set (validation_sample_ids f) \<subseteq> set (sample_ids fs)"
    "validate_group_boundary fs f (set (train_sample_ids f)) = Inr ()"
    using assms(3) by (auto simp: fold_ok_def validate_group_boundary_ok)
  obtain c' where c': "try_fold bump_count c ?V = Inr c'" "counts_ok fs c'"
    "\<forall>s. bm_get c' s = map_option (\<lambda>n. n + (if s \<in> set ?V then 1 else 0)) (bm_get c s)"
    using bump_counts[OF c, of ?V] f(5) by auto
  have each: "try_each (\<lambda>s. ensure (s \<in> set (sample_ids fs)) (Err (OofValidation (FoldMsg
      (FoldUnknownSample (as_str (fold_id f)) (as_str s))))))
    (sorted_list_of_set (set (train_sample_ids f) \<union> set (validation_sample_ids f))) = Inr ()"
    using f(5) by (auto simp: try_each_ok)
  have "validate_fold fs (set (sample_ids fs)) (A, c) f = Inr (insert (fold_id f) A, c')"
    using f each c'(1) assms(2) by (simp add: validate_fold_def Let_def)
  then show ?thesis using c'(2,3) by (auto simp: validation_count_def)
qed

lemma validation_count_Cons:
  "validation_count (f # fls) s = validation_count [f] s + validation_count fls s"
  by (simp add: validation_count_def)

lemma validate_folds_okD:
  assumes "try_fold (validate_fold fs (set (sample_ids fs))) (A, c) fls = Inr st" "counts_ok fs c"
  shows "distinct (map fold_id fls) \<and> fold_id ` set fls \<inter> A = {} \<and> (\<forall>f \<in> set fls. fold_ok fs f)"
  using assms
proof (induction fls arbitrary: A c)
  case (Cons f fls)
  then obtain st1 where st1: "validate_fold fs (set (sample_ids fs)) (A, c) f = Inr st1"
    "try_fold (validate_fold fs (set (sample_ids fs))) st1 fls = Inr st" by (auto simp: ok_iff)
  note f = validate_fold_okD[OF st1(1)]
  from validate_fold_run[OF Cons.prems(2), of f A] f st1(1) obtain c' where
    "st1 = (insert (fold_id f) A, c')" "counts_ok fs c'" by auto
  with Cons.IH st1(2) f show ?case by fastforce
qed simp

lemma validate_folds_run:
  assumes "counts_ok fs c" "distinct (map fold_id fls)" "fold_id ` set fls \<inter> A = {}"
    "\<forall>f \<in> set fls. fold_ok fs f"
  shows "\<exists>A' c'. try_fold (validate_fold fs (set (sample_ids fs))) (A, c) fls = Inr (A', c') \<and>
    counts_ok fs c' \<and> (\<forall>s. bm_get c' s = map_option (\<lambda>n. n + validation_count fls s) (bm_get c s))"
  using assms
proof (induction fls arbitrary: A c)
  case Nil
  then show ?case by (auto simp: validation_count_def option.map_ident)
next
  case (Cons f fls)
  then obtain c1 where c1: "validate_fold fs (set (sample_ids fs)) (A, c) f = Inr (insert (fold_id f) A, c1)"
    "counts_ok fs c1" "\<forall>s. bm_get c1 s = map_option (\<lambda>n. n + validation_count [f] s) (bm_get c s)"
    using validate_fold_run[of fs c f A] by auto
  obtain A' c' where c': "try_fold (validate_fold fs (set (sample_ids fs))) (insert (fold_id f) A, c1) fls
      = Inr (A', c')" "counts_ok fs c'"
    "\<forall>s. bm_get c' s = map_option (\<lambda>n. n + validation_count fls s) (bm_get c1 s)"
    using Cons.IH[OF c1(2), of "insert (fold_id f) A"] Cons.prems by auto
  have "bm_get c' s = map_option (\<lambda>n. n + validation_count (f # fls) s) (bm_get c s)" for s
    unfolding validation_count_Cons[of f fls] using c1(3) c'(3)
    by (simp add: option.map_comp comp_def add.assoc)
  with c1(1) c'(1,2) show ?case by (auto simp: ok_iff)
qed

lemma counts_ok_init: "counts_ok fs (bm_collect (map (\<lambda>s. (s, 0)) (sample_ids fs)))"
proof -
  have "map_of (rev (map (\<lambda>s. (s, 0::nat)) xs)) s = (if s \<in> set xs then Some 0 else None)"
    for xs and s :: sample_id
    by (induction xs rule: rev_induct) auto
  then show ?thesis by (auto simp: counts_ok_def bm_get_collect dom_def)
qed

lemma bm_get_counts_init:
  "bm_get (bm_collect (map (\<lambda>s. (s, 0::nat)) xs)) s = (if s \<in> set xs then Some 0 else None)"
  by (induction xs rule: rev_induct) (auto simp: bm_get_collect)

section \<open>Validation decides well-formedness\<close>

lemma validate_sample_groups_ok [ok_iff]:
  "validate_sample_groups fs (set (sample_ids fs)) = Inr u \<longleftrightarrow>
   (sample_groups fs \<noteq> [] \<longrightarrow> fst ` set (sample_groups fs) = set (sample_ids fs))"
  by (auto simp: validate_sample_groups_def ok_iff bm_keys_def bm_contains_key_def)

lemma validate_counts_ok:
  assumes "counts_ok fs c"
  shows "validate_counts fs c = Inr u \<longleftrightarrow>
    (partition_mode fs = Partition \<longrightarrow> (\<forall>s \<in> set (sample_ids fs). bm_get c s = Some 1))"
proof -
  have mem: "(s, n) \<in> set c \<longleftrightarrow> bm_get c s = Some n" for s n
    using assms bm_ok_distinct[of c] by (simp add: counts_ok_def bm_get_def)
  have dm: "s \<in> set (sample_ids fs) \<longleftrightarrow> (\<exists>n. bm_get c s = Some n)" for s
    using assms by (auto simp: counts_ok_def dom_def)
  have "(\<forall>x \<in> set c. snd x = 1) \<longleftrightarrow> (\<forall>s n. bm_get c s = Some n \<longrightarrow> n = 1)"
    unfolding mem[symmetric] by auto
  also have "\<dots> \<longleftrightarrow> (\<forall>s \<in> set (sample_ids fs). bm_get c s = Some 1)"
    unfolding Ball_def dm by (metis option.inject)
  finally show ?thesis by (auto simp: validate_counts_def try_each_ok split_beta)
qed

lemma fold_set_validate_ok [ok_iff]: "fold_set_validate fs = Inr u \<longleftrightarrow> fold_set_wf fs"
proof -
  let ?U = "set (sample_ids fs)"
  let ?c0 = "bm_collect (map (\<lambda>s. (s, 0)) (sample_ids fs))"
  have head: "fold_set_validate fs = Inr u \<longleftrightarrow>
      \<not> is_blank (fs_id fs) \<and> sample_ids fs \<noteq> [] \<and> folds fs \<noteq> [] \<and> distinct (sample_ids fs) \<and>
      (sample_groups fs \<noteq> [] \<longrightarrow> fst ` set (sample_groups fs) = ?U) \<and>
      distinct (target_missing_sample_ids fs) \<and> set (target_missing_sample_ids fs) \<inter> ?U = {} \<and>
      (\<exists>st. try_fold (validate_fold fs ?U) ({}, ?c0) (folds fs) = Inr st \<and>
        validate_counts fs (snd st) = Inr u)"
    by (simp add: fold_set_validate_def ok_iff Let_def)
  have tail: "(\<exists>st. try_fold (validate_fold fs ?U) ({}, ?c0) (folds fs) = Inr st \<and>
        validate_counts fs (snd st) = Inr u) \<longleftrightarrow>
      distinct (map fold_id (folds fs)) \<and> (\<forall>f \<in> set (folds fs). fold_ok fs f) \<and>
      (partition_mode fs = Partition \<longrightarrow> (\<forall>s \<in> ?U. validation_count (folds fs) s = 1))"
    (is "?L \<longleftrightarrow> ?F \<and> ?G \<and> ?P")
  proof (cases "?F \<and> ?G")
    case True
    obtain A' c' where c': "try_fold (validate_fold fs ?U) ({}, ?c0) (folds fs) = Inr (A', c')"
      "counts_ok fs c'"
      "\<forall>s. bm_get c' s = map_option (\<lambda>n. n + validation_count (folds fs) s) (bm_get ?c0 s)"
      using validate_folds_run[OF counts_ok_init[of fs], of "folds fs" "{}"] True by auto
    have "validate_counts fs c' = Inr u \<longleftrightarrow> ?P"
      using validate_counts_ok[OF c'(2)] c'(3) by (simp add: bm_get_counts_init)
    with c'(1) True show ?thesis by simp
  next
    case False
    then show ?thesis using validate_folds_okD[OF _ counts_ok_init[of fs], of "{}" "folds fs"] by blast
  qed
  show ?thesis unfolding head tail by (simp add: fold_set_wf_def)
qed

text \<open>C9: \<open>FoldSet::validate\<close> returns \<open>Ok\<close> exactly on the well-formed fold sets: non-empty id,
  samples and folds, no duplicates, groups total on the universe, target-missing samples outside
  it, every fold inside the universe with disjoint train and validation samples and no group on
  both sides, and in partition mode every sample validated by exactly one fold.\<close>

theorem fold_set_validate_spec: "fold_set_validate fs = Inr () \<longleftrightarrow> fold_set_wf fs"
  by (rule fold_set_validate_ok)

lemma try_fold_no_panic_inv:
  assumes "I s" "\<And>s x. x \<in> set xs \<Longrightarrow> I s \<Longrightarrow> no_panic (f s x)"
    "\<And>s x s'. x \<in> set xs \<Longrightarrow> I s \<Longrightarrow> f s x = Inr s' \<Longrightarrow> I s'"
  shows "no_panic (try_fold f s xs)"
  using assms
proof (induction xs arbitrary: s)
  case (Cons x xs)
  show ?case
    unfolding try_fold.simps
  proof (rule no_panic_and_then)
    fix s' assume "f s x = Inr s'"
    then show "no_panic (try_fold f s' xs)" using Cons by (metis list.set_intros)
  qed (use Cons.prems in simp)
qed simp

lemma no_panic_validate_fold:
  assumes c: "counts_ok fs (snd st)"
  shows "no_panic (validate_fold fs (set (sample_ids fs)) st f)"
proof -
  have bump: "no_panic (try_fold bump_count (snd st) (sorted_list_of_set V))"
    if "V \<subseteq> set (sample_ids fs)" for V
    using bump_counts[OF c, of "sorted_list_of_set V"] that finite_subset[OF that] by auto
  have tail: "no_panic (case sorted_list_of_set (T \<inter> V) of
        s # _ \<Rightarrow> fold_err (FoldOverlap fid (as_str s))
      | [] \<Rightarrow> and_then (try_fold bump_count (snd st) (sorted_list_of_set V)) (\<lambda>counts.
          and_then (validate_group_boundary fs f T) (\<lambda>_. Inr (insert (fold_id f) (fst st), counts))))"
    if "\<forall>x \<in> T \<union> V. x \<in> set (sample_ids fs)" for T V fid
    using bump[of V] that by (auto split: list.splits intro!: no_panic_and_then)
  show ?thesis
    unfolding validate_fold_def Let_def
    by (auto intro!: no_panic_and_then tail simp: ok_iff no_panic_try_each split: if_splits)
qed

lemma no_panic_fold_set_validate [simp]: "no_panic (fold_set_validate fs)"
proof -
  let ?I = "\<lambda>st. counts_ok fs (snd st)"
  have step: "?I st'" if "?I st" "validate_fold fs (set (sample_ids fs)) st f = Inr st'" for st f st'
  proof -
    obtain A c where st: "st = (A, c)" by (cases st)
    with that validate_fold_okD validate_fold_run[of fs c f A] show ?thesis by fastforce
  qed
  have folds: "no_panic (try_fold (validate_fold fs (set (sample_ids fs)))
      ({}, bm_collect (map (\<lambda>s. (s, 0)) (sample_ids fs))) (folds fs))"
    by (rule try_fold_no_panic_inv[where I = ?I])
      (auto simp: counts_ok_init no_panic_validate_fold dest: step)
  have groups: "no_panic (validate_sample_groups fs U)" for U
    by (auto simp: validate_sample_groups_def intro!: no_panic_and_then no_panic_try_each)
  have counts: "no_panic (validate_counts fs c)" for c
    by (auto simp: validate_counts_def intro!: no_panic_try_each)
  show ?thesis
    unfolding fold_set_validate_def Let_def
    by (auto intro!: no_panic_and_then groups counts simp: folds ok_iff target_missing_error_def
        target_missing_refusal_def Let_def)
qed

text \<open>\<open>FoldSet::validate\<close> never panics: the \<open>expect\<close> on the validation counters is
  unreachable, because a fold is only counted after its samples were found in the universe.\<close>

theorem fold_set_validate_no_panic: "no_panic (fold_set_validate fs)"
  by (rule no_panic_fold_set_validate)

section \<open>Excluding target-missing samples\<close>

definition narrow_fold ::
  "fold_set \<Rightarrow> sample_id btree_set \<Rightarrow> fold_assignment \<Rightarrow> fold_assignment result" where
  "narrow_fold narrowed removed f =
     (let had_train = (train_sample_ids f \<noteq> []);
          train = filter (\<lambda>s. s \<notin> set removed) (train_sample_ids f);
          validation = filter (\<lambda>s. s \<notin> set removed) (validation_sample_ids f)
      in if validation = []
         then fail (target_missing_error narrowed EmptyValidationFold (Some (as_str (fold_id f))) removed)
         else if had_train \<and> train = []
         then fail (target_missing_error narrowed EmptyTrainFold (Some (as_str (fold_id f))) removed)
         else Inr (f\<lparr>train_sample_ids := train, validation_sample_ids := validation\<rparr>))"

definition exclude_target_missing :: "fold_set \<Rightarrow> sample_id btree_set \<Rightarrow> fold_set result" where
  "exclude_target_missing fs target_missing =
     and_then (fold_set_validate fs) (\<lambda>_.
     let universe = set (sample_ids fs);
         declared = set (target_missing_sample_ids fs);
         unknown = filter (\<lambda>s. s \<notin> universe \<and> s \<notin> declared) target_missing
     in if unknown \<noteq> [] then fail (target_missing_error fs UnknownSample None unknown)
     else
       let removed = filter (\<lambda>s. s \<in> universe) target_missing in
       if removed = [] then Inr fs
       else
         let narrowed = fs\<lparr>sample_ids := filter (\<lambda>s. s \<notin> set removed) (sample_ids fs),
               sample_groups := bm_retain (\<lambda>s. s \<notin> set removed) (sample_groups fs),
               target_missing_sample_ids := bs_collect (target_missing_sample_ids fs @ removed)\<rparr>
         in if sample_ids narrowed = []
            then fail (target_missing_error narrowed NoObservedTargets None removed)
            else and_then (try_map (narrow_fold narrowed removed) (folds fs)) (\<lambda>narrowed_folds.
              let result = narrowed\<lparr>folds := narrowed_folds\<rparr>
              in and_then (fold_set_validate result) (\<lambda>_. Inr result)))"

definition refuse_scored_target_missing :: "fold_set \<Rightarrow> sample_id list \<Rightarrow> unit result" where
  "refuse_scored_target_missing fs scored =
     (if target_missing_sample_ids fs = [] then Inr ()
      else
        let offending = bs_collect (filter (\<lambda>s. s \<in> set (target_missing_sample_ids fs)) scored)
        in if offending = [] then Inr ()
           else fail (target_missing_error fs ScoredResult None offending))"

text \<open>The narrowing of a fold set by a set of removed samples, as a function.\<close>

definition without_samples :: "sample_id set \<Rightarrow> fold_assignment \<Rightarrow> fold_assignment" where
  "without_samples R f =
     f\<lparr>train_sample_ids := filter (\<lambda>s. s \<notin> R) (train_sample_ids f),
       validation_sample_ids := filter (\<lambda>s. s \<notin> R) (validation_sample_ids f)\<rparr>"

definition narrowed_fold_set :: "sample_id set \<Rightarrow> fold_set \<Rightarrow> fold_set" where
  "narrowed_fold_set R fs =
     fs\<lparr>sample_ids := filter (\<lambda>s. s \<notin> R) (sample_ids fs),
       sample_groups := bm_retain (\<lambda>s. s \<notin> R) (sample_groups fs),
       target_missing_sample_ids := sorted_list_of_set (set (target_missing_sample_ids fs) \<union> R),
       folds := map (without_samples R) (folds fs)\<rparr>"

definition keeps_folds_populated :: "sample_id set \<Rightarrow> fold_set \<Rightarrow> bool" where
  "keeps_folds_populated R fs \<longleftrightarrow>
     (\<forall>f \<in> set (folds fs). \<not> set (validation_sample_ids f) \<subseteq> R \<and>
        (train_sample_ids f \<noteq> [] \<longrightarrow> \<not> set (train_sample_ids f) \<subseteq> R))"

lemma narrow_fold_ok:
  "narrow_fold n removed f = Inr f' \<longleftrightarrow>
   f' = without_samples (set removed) f \<and> \<not> set (validation_sample_ids f) \<subseteq> set removed \<and>
   (train_sample_ids f \<noteq> [] \<longrightarrow> \<not> set (train_sample_ids f) \<subseteq> set removed)"
  by (auto simp: narrow_fold_def without_samples_def Let_def filter_empty_conv)

lemma narrow_folds_ok:
  "try_map (narrow_fold n removed) fls = Inr fls' \<longleftrightarrow>
   fls' = map (without_samples (set removed)) fls \<and>
   (\<forall>f \<in> set fls. \<not> set (validation_sample_ids f) \<subseteq> set removed \<and>
      (train_sample_ids f \<noteq> [] \<longrightarrow> \<not> set (train_sample_ids f) \<subseteq> set removed))"
  by (induction fls arbitrary: fls') (auto simp: and_then_ok narrow_fold_ok)

lemma without_samples_simps [simp]:
  "fold_id (without_samples R f) = fold_id f"
  "set (train_sample_ids (without_samples R f)) = set (train_sample_ids f) - R"
  "set (validation_sample_ids (without_samples R f)) = set (validation_sample_ids f) - R"
  by (auto simp: without_samples_def)

lemma validation_count_without:
  "s \<notin> R \<Longrightarrow> validation_count (map (without_samples R) fls) s = validation_count fls s"
  by (induction fls) (simp_all add: validation_count_def)

lemma bm_retain_Nil [simp]: "bm_retain p [] = []"
  by (simp add: bm_retain_def)

lemma sample_groups_retain_keys:
  "fst ` set (bm_retain p m) = {k \<in> fst ` set m. p k}"
  by (force simp: bm_retain_def)

text \<open>Removing samples without emptying a fold keeps every clause of well-formedness.\<close>

lemma narrowed_fold_set_wf:
  assumes wf: "fold_set_wf fs" and pop: "keeps_folds_populated R fs" and R: "R \<subseteq> set (sample_ids fs)"
  shows "fold_set_wf (narrowed_fold_set R fs)"
proof -
  obtain f where f: "f \<in> set (folds fs)" using wf by (cases "folds fs") (auto simp: fold_set_wf_def)
  then have "\<exists>s \<in> set (validation_sample_ids f). s \<notin> R" "fold_ok fs f"
    using pop wf by (auto simp: keeps_folds_populated_def fold_set_wf_def)
  then have ne: "filter (\<lambda>s. s \<notin> R) (sample_ids fs) \<noteq> []" by (auto simp: fold_ok_def filter_empty_conv)
  have ok: "fold_ok (narrowed_fold_set R fs) (without_samples R f)" if "f \<in> set (folds fs)" for f
  proof -
    have "fold_ok fs f" "\<not> set (validation_sample_ids f) \<subseteq> R"
      using wf pop that by (auto simp: keeps_folds_populated_def fold_set_wf_def)
    then show ?thesis
      by (auto simp: fold_ok_def narrowed_fold_set_def bm_get_retain without_samples_def filter_empty_conv)
  qed
  have fin: "finite R" using R finite_subset by blast
  show ?thesis
    using wf ne ok fin R unfolding fold_set_wf_def
    by (auto simp: narrowed_fold_set_def sample_groups_retain_keys comp_def validation_count_without
        distinct_map inj_on_def)
qed


lemma narrowed_fold_set_wfD:
  assumes "fold_set_wf fs" "R = set m \<inter> set (sample_ids fs)"
  shows "filter (\<lambda>s. s \<in> set (sample_ids fs)) m = [] \<longleftrightarrow> R = {}"
    and "R = {} \<Longrightarrow> keeps_folds_populated R fs"
    and "keeps_folds_populated R fs \<Longrightarrow> \<not> set (sample_ids fs) \<subseteq> R"
proof -
  show "filter (\<lambda>s. s \<in> set (sample_ids fs)) m = [] \<longleftrightarrow> R = {}"
    using assms(2) by (auto simp: filter_empty_conv)
  show "keeps_folds_populated R fs" if "R = {}"
    using assms(1) that by (auto simp: keeps_folds_populated_def fold_set_wf_def fold_ok_def)
  show "\<not> set (sample_ids fs) \<subseteq> R" if pop: "keeps_folds_populated R fs"
  proof -
    obtain f where "f \<in> set (folds fs)" using assms(1) by (cases "folds fs") (auto simp: fold_set_wf_def)
    then have "fold_ok fs f" "\<not> set (validation_sample_ids f) \<subseteq> R"
      using assms(1) pop by (auto simp: fold_set_wf_def keeps_folds_populated_def)
    then show ?thesis by (auto simp: fold_ok_def)
  qed
qed

lemma exclude_target_missing_ok [ok_iff]:
  fixes fs m defines "R \<equiv> set m \<inter> set (sample_ids fs)"
  shows "exclude_target_missing fs m = Inr fs' \<longleftrightarrow>
    fold_set_wf fs \<and> set m \<subseteq> set (sample_ids fs) \<union> set (target_missing_sample_ids fs) \<and>
    keeps_folds_populated R fs \<and> fs' = (if R = {} then fs else narrowed_fold_set R fs)"
proof (cases "fold_set_wf fs \<and> set m \<subseteq> set (sample_ids fs) \<union> set (target_missing_sample_ids fs)")
  case False
  then show ?thesis
    by (auto simp: exclude_target_missing_def ok_iff Let_def filter_empty_conv split: if_splits)
next
  case True
  let ?removed = "filter (\<lambda>s. s \<in> set (sample_ids fs)) m"
  let ?n = "fs\<lparr>sample_ids := filter (\<lambda>s. s \<notin> set ?removed) (sample_ids fs),
               sample_groups := bm_retain (\<lambda>s. s \<notin> set ?removed) (sample_groups fs),
               target_missing_sample_ids := bs_collect (target_missing_sample_ids fs @ ?removed)\<rparr>"
  have wf: "fold_set_wf fs" and v: "fold_set_validate fs = Inr ()" using True by (simp_all add: ok_iff)
  note D = narrowed_fold_set_wfD[OF wf R_def[THEN meta_eq_to_obj_eq]]
  have setR: "set ?removed = R" by (auto simp: R_def)
  have unknown: "filter (\<lambda>s. s \<notin> set (sample_ids fs) \<and> s \<notin> set (target_missing_sample_ids fs)) m = []"
    using True by (auto simp: filter_empty_conv)
  show ?thesis
  proof (cases "R = {}")
    case R: True
    have "exclude_target_missing fs m = Inr fs"
      unfolding exclude_target_missing_def v and_then_simps Let_def unknown using D(1) R by simp
    then show ?thesis using R True D(2) by auto
  next
    case False
    have n: "?n\<lparr>folds := map (without_samples R) (folds fs)\<rparr> = narrowed_fold_set R fs"
      unfolding narrowed_fold_set_def setR bs_collect_def set_append by simp
    have eq: "exclude_target_missing fs m =
       (if filter (\<lambda>s. s \<notin> R) (sample_ids fs) = []
        then fail (target_missing_error ?n NoObservedTargets None ?removed)
        else and_then (try_map (narrow_fold ?n ?removed) (folds fs)) (\<lambda>fls.
          and_then (fold_set_validate (?n\<lparr>folds := fls\<rparr>)) (\<lambda>_. Inr (?n\<lparr>folds := fls\<rparr>))))"
      unfolding exclude_target_missing_def v and_then_simps Let_def unknown using D(1) False
      unfolding setR by simp
    show ?thesis
    proof (cases "keeps_folds_populated R fs")
      case pop: True
      have "try_map (narrow_fold ?n ?removed) (folds fs) = Inr (map (without_samples R) (folds fs))"
        unfolding narrow_folds_ok setR using pop by (simp add: keeps_folds_populated_def)
      moreover have "fold_set_validate (narrowed_fold_set R fs) = Inr ()"
        using narrowed_fold_set_wf[OF wf pop] by (simp add: ok_iff R_def)
      ultimately have "exclude_target_missing fs m = Inr (narrowed_fold_set R fs)"
        using D(3)[OF pop] n unfolding eq by (auto simp: filter_empty_conv)
      then show ?thesis using pop False True by auto
    next
      case npop: False
      then have "try_map (narrow_fold ?n ?removed) (folds fs) \<noteq> Inr fls" for fls
        unfolding narrow_folds_ok setR by (simp add: keeps_folds_populated_def)
      then have "exclude_target_missing fs m \<noteq> Inr fs'"
        unfolding eq by (auto simp: and_then_ok split: if_splits)
      then show ?thesis using npop by simp
    qed
  qed
qed

text \<open>target-missing exclusion succeeds exactly when the fold set is valid, every declared id
  is known, and no fold loses all its validation samples or all its training samples; then the
  result is the given set when nothing is removed and otherwise the set narrowed by the removed
  samples everywhere: universe, groups, folds, and the target-missing declaration.\<close>

theorem exclude_target_missing_spec:
  "exclude_target_missing fs m = Inr fs' \<longleftrightarrow>
    fold_set_wf fs \<and> set m \<subseteq> set (sample_ids fs) \<union> set (target_missing_sample_ids fs) \<and>
    keeps_folds_populated (set m \<inter> set (sample_ids fs)) fs \<and>
    fs' = (if set m \<inter> set (sample_ids fs) = {} then fs
           else narrowed_fold_set (set m \<inter> set (sample_ids fs)) fs)"
  by (rule exclude_target_missing_ok)

text \<open>The excluded samples leave the universe and every fold, and are recorded.\<close>

lemma exclude_target_missing_sets:
  assumes "exclude_target_missing fs m = Inr fs'"
  shows "set (sample_ids fs') = set (sample_ids fs) - set m"
    and "set (target_missing_sample_ids fs') = set (target_missing_sample_ids fs) \<union> set m"
    and "fold_set_wf fs'"
    and "\<forall>f \<in> set (folds fs'). set (train_sample_ids f) \<inter> set m = {} \<and>
           set (validation_sample_ids f) \<inter> set m = {}"
proof -
  let ?R = "set m \<inter> set (sample_ids fs)"
  note E = assms[unfolded exclude_target_missing_ok]
  show wf: "fold_set_wf fs'"
    using E narrowed_fold_set_wf[of fs ?R] by (auto split: if_splits)
  show U: "set (sample_ids fs') = set (sample_ids fs) - set m"
    using E by (auto simp: narrowed_fold_set_def split: if_splits)
  show "set (target_missing_sample_ids fs') = set (target_missing_sample_ids fs) \<union> set m"
    using E by (auto simp: narrowed_fold_set_def split: if_splits)
  have "set (train_sample_ids f) \<union> set (validation_sample_ids f) \<subseteq> set (sample_ids fs')"
    if "f \<in> set (folds fs')" for f
    using wf that by (auto simp: fold_set_wf_def fold_ok_def)
  with U show "\<forall>f \<in> set (folds fs'). set (train_sample_ids f) \<inter> set m = {} \<and>
           set (validation_sample_ids f) \<inter> set m = {}"
    by blast
qed

text \<open>exclusion is sound and idempotent: an excluded sample is in no training or validation
  list of the result, the result is a valid fold set, and excluding the same samples again from
  the result returns it unchanged.\<close>

theorem exclude_target_missing_idempotent:
  assumes "exclude_target_missing fs m = Inr fs'"
  shows "fold_set_wf fs' \<and> exclude_target_missing fs' m = Inr fs' \<and>
    (\<forall>f \<in> set (folds fs'). set m \<inter> (set (train_sample_ids f) \<union> set (validation_sample_ids f)) = {})"
proof -
  note S = exclude_target_missing_sets[OF assms]
  have "set m \<inter> set (sample_ids fs') = {}" using S(1) by blast
  then have "exclude_target_missing fs' m = Inr fs'"
    using S(2,3) narrowed_fold_set_wfD(2)[OF S(3), of "{}" "[]"]
    unfolding exclude_target_missing_ok by auto
  then show ?thesis using S(3,4) by blast
qed

text \<open>Two folds over three samples, used to instantiate the theorems.\<close>

definition abc_folds :: fold_set where
  "abc_folds = \<lparr>fs_id = ''k'', sample_ids = [Ident ''a'', Ident ''b'', Ident ''c''],
     folds = [
       \<lparr>fold_id = Ident ''fold0'', train_sample_ids = [Ident ''b''],
        validation_sample_ids = [Ident ''a'', Ident ''c''], fa_metadata = []\<rparr>,
       \<lparr>fold_id = Ident ''fold1'', train_sample_ids = [Ident ''a'', Ident ''c''],
        validation_sample_ids = [Ident ''b''], fa_metadata = []\<rparr>],
     sample_groups = [], partition_mode = Partition, train_exclusion = Relations,
     target_missing_sample_ids = []\<rparr>"

lemma exclude_target_missing_idempotent_witness:
  "fold_set_wf (narrowed_fold_set {Ident ''c''} abc_folds) \<and>
   exclude_target_missing (narrowed_fold_set {Ident ''c''} abc_folds) [Ident ''c''] =
     Inr (narrowed_fold_set {Ident ''c''} abc_folds)"
proof -
  have "exclude_target_missing abc_folds [Ident ''c''] =
      Inr (narrowed_fold_set {Ident ''c''} abc_folds)"
    by code_simp
  from exclude_target_missing_idempotent[OF this] show ?thesis by blast
qed

text \<open>a controller result is refused exactly when one of its scored rows is a sample declared
  target-missing, and the refusal lists the offending samples in order.\<close>

theorem refuse_scored_target_missing_spec:
  "refuse_scored_target_missing fs scored =
     (let bad = set scored \<inter> set (target_missing_sample_ids fs)
      in if bad = {} then Inr ()
         else fail (target_missing_error fs ScoredResult None (sorted_list_of_set bad)))"
proof -
  have "set (filter (\<lambda>s. s \<in> set (target_missing_sample_ids fs)) scored) =
      set scored \<inter> set (target_missing_sample_ids fs)" by auto
  then show ?thesis
    by (auto simp: refuse_scored_target_missing_def bs_collect_def Let_def)
qed

end
