(* ===== verification/Splitters.thy ===== *)
theory Splitters
  imports Fold
begin

text \<open>
  \<open>fold.rs\<close>, the splitters: K-fold, stratified K-fold and group K-fold, each with its variant
  that declares target-missing samples. \<open>usize\<close> and \<open>u64\<close> fields are 64-bit words; the SHA-256
  function that orders a shuffled split is the parameter \<open>sha256\<close>. The locale \<open>splitter\<close> is the
  contract nested cross-validation and the target-missing variants rely on.
\<close>

section \<open>Shared pieces\<close>

definition ordered_samples :: "digest \<Rightarrow> sample_id list \<Rightarrow> bool \<Rightarrow> 64 word \<Rightarrow> sample_id list" where
  "ordered_samples sha256 samples shuffle seed =
     (let ordered = sort samples in
      if shuffle then
        (let context = seed_child (seed_root seed) ''kfold''
         in sort_by (\<lambda>l r. then_with
              (ord_cmp (derive_u64 sha256 context (as_str l)) (derive_u64 sha256 context (as_str r)))
              (ord_cmp l r)) ordered)
      else ordered)"

definition unwrap_or :: "'a option \<Rightarrow> 'a \<Rightarrow> 'a" where
  "unwrap_or x d = (case x of None \<Rightarrow> d | Some y \<Rightarrow> y)"

text \<open>\<open>FoldId::new(format!("fold{fold_idx}"))?\<close> and the assignment it names.\<close>

definition numbered_fold :: "nat \<Rightarrow> sample_id list \<Rightarrow> sample_id list \<Rightarrow> fold_assignment result" where
  "numbered_fold fold_idx train validation =
     and_then (ident_new (''fold'' @ show_nat fold_idx)) (\<lambda>fid.
       Inr \<lparr>fold_id = fid, train_sample_ids = train, validation_sample_ids = validation,
         fa_metadata = []\<rparr>)"

definition partition_fold_set ::
  "string \<Rightarrow> sample_id list \<Rightarrow> fold_assignment list \<Rightarrow> (sample_id, group_id) btree_map \<Rightarrow> fold_set" where
  "partition_fold_set id' samples fls groups =
     \<lparr>fs_id = id', sample_ids = samples, folds = fls, sample_groups = groups,
      partition_mode = Partition, train_exclusion = Relations, target_missing_sample_ids = []\<rparr>"

definition validated :: "fold_set \<Rightarrow> fold_set result" where
  "validated fs = and_then (fold_set_validate fs) (\<lambda>_. Inr fs)"

text \<open>The target-observed universe, and the declaration of the missing ids on the split.\<close>

definition observed_universe ::
  "string \<Rightarrow> sample_id list \<Rightarrow> sample_id btree_set \<Rightarrow> nat \<Rightarrow> (sample_id \<Rightarrow> 'u::linorder)
   \<Rightarrow> sample_id list result" where
  "observed_universe fold_set_id candidates' target_missing n_splits unit_of =
     (let candidates = set candidates';
          unknown = sorted_list_of_set (set target_missing - candidates);
          missing_count = length target_missing
      in if unknown \<noteq> []
         then fail (target_missing_refusal fold_set_id UnknownSample None unknown
                (missing_count, card (candidates - set target_missing)))
         else
           let observed = sorted_list_of_set (candidates - set target_missing) in
           if observed = []
           then fail (target_missing_refusal fold_set_id NoObservedTargets None target_missing
                  (missing_count, 0))
           else if target_missing \<noteq> [] \<and> card (unit_of ` set observed) < n_splits
           then fail (target_missing_refusal fold_set_id InsufficientObservedTargets None
                  target_missing (missing_count, length observed))
           else Inr observed)"

definition declare_target_missing :: "fold_set \<Rightarrow> sample_id btree_set \<Rightarrow> fold_set result" where
  "declare_target_missing fs target_missing =
     validated (fs\<lparr>target_missing_sample_ids := target_missing\<rparr>)"

section \<open>K-fold\<close>

record kfold_spec =
  kf_n_splits :: "64 word"
  kf_shuffle :: bool
  kf_seed :: "64 word option"

definition kfold_fold :: "nat \<Rightarrow> sample_id list \<Rightarrow> nat \<Rightarrow> fold_assignment result" where
  "kfold_fold n ordered fold_idx =
     (let validation = map snd (filter (\<lambda>(idx, s). idx mod n = fold_idx) (enumerate 0 ordered));
          train = filter (\<lambda>s. s \<notin> set validation) ordered
      in numbered_fold fold_idx train validation)"

definition kfold_split :: "digest \<Rightarrow> kfold_spec \<Rightarrow> string \<Rightarrow> sample_id list \<Rightarrow> fold_set result" where
  "kfold_split sha256 spec id' samples =
     (let n = unat (kf_n_splits spec) in
      if n < 2 then fold_err KFoldTooFewSplits
      else and_then (unique_samples KFoldSamples samples) (\<lambda>unique.
        if n > card unique then fold_err (KFoldTooManySplits n (card unique))
        else
          let ordered = ordered_samples sha256 samples (kf_shuffle spec) (unwrap_or (kf_seed spec) 0)
          in and_then (try_map (kfold_fold n ordered) [0..<n]) (\<lambda>fls.
            validated (partition_fold_set id' (ordered_samples sha256 samples False 0) fls []))))"

definition kfold_split_with_target_missing ::
  "digest \<Rightarrow> kfold_spec \<Rightarrow> string \<Rightarrow> sample_id list \<Rightarrow> sample_id btree_set \<Rightarrow> fold_set result" where
  "kfold_split_with_target_missing sha256 spec id' samples target_missing =
     and_then (unique_samples KFoldSamples samples) (\<lambda>_.
     and_then (observed_universe id' samples target_missing (unat (kf_n_splits spec)) (\<lambda>s. s))
       (\<lambda>observed.
     and_then (kfold_split sha256 spec id' observed) (\<lambda>fs.
     declare_target_missing fs target_missing)))"

section \<open>Stratified K-fold\<close>

record stratified_kfold_spec =
  skf_n_splits :: "64 word"
  skf_shuffle :: bool
  skf_seed :: "64 word option"

text \<open>\<open>map.entry(k).or_default().push(x)\<close>.\<close>

definition bm_push :: "'k::linorder \<Rightarrow> 'v \<Rightarrow> ('k, 'v list) btree_map \<Rightarrow> ('k, 'v list) btree_map" where
  "bm_push k x m = bm_insert k (unwrap_or (bm_get m k) [] @ [x]) m"

definition group_by_label ::
  "(sample_id, string) btree_map \<Rightarrow> sample_id list \<Rightarrow> (string, sample_id list) btree_map result" where
  "group_by_label strata ordered =
     try_fold (\<lambda>by_label s. case bm_get strata s of
         None \<Rightarrow> fold_err (StratifiedNoLabel (as_str s))
       | Some label \<Rightarrow> Inr (bm_push label s by_label)) [] ordered"

text \<open>The global round-robin over the class-grouped order: (fold of each sample, next position).\<close>

definition round_robin :: "nat \<Rightarrow> sample_id list \<Rightarrow> (sample_id, nat) btree_map \<times> nat" where
  "round_robin n members =
     foldl (\<lambda>(fold_of, position) s. (bm_insert s (position mod n) fold_of, position + 1)) ([], 0)
       members"

definition stratified_fold ::
  "(sample_id, nat) btree_map \<Rightarrow> sample_id list \<Rightarrow> nat \<Rightarrow> fold_assignment result" where
  "stratified_fold fold_of ordered fold_idx =
     (let validation = filter (\<lambda>s. bm_get fold_of s = Some fold_idx) ordered;
          train = filter (\<lambda>s. bm_get fold_of s \<noteq> Some fold_idx) ordered
      in numbered_fold fold_idx train validation)"

definition stratified_split ::
  "digest \<Rightarrow> stratified_kfold_spec \<Rightarrow> string \<Rightarrow> sample_id list \<Rightarrow> (sample_id, string) btree_map
   \<Rightarrow> fold_set result" where
  "stratified_split sha256 spec id' samples strata =
     (let n = unat (skf_n_splits spec) in
      if n < 2 then fold_err StratifiedTooFewSplits
      else and_then (unique_samples StratifiedKFoldSamples samples) (\<lambda>unique.
        if n > card unique then fold_err (StratifiedTooManySplits n (card unique))
        else
          let ordered = ordered_samples sha256 samples (skf_shuffle spec) (unwrap_or (skf_seed spec) 0)
          in and_then (group_by_label strata ordered) (\<lambda>by_label.
          let fold_of = fst (round_robin n (concat (map snd by_label)))
          in and_then (try_map (stratified_fold fold_of ordered) [0..<n]) (\<lambda>fls.
            validated (partition_fold_set id' (ordered_samples sha256 samples False 0) fls [])))))"

definition stratified_split_with_target_missing ::
  "digest \<Rightarrow> stratified_kfold_spec \<Rightarrow> string \<Rightarrow> sample_id list \<Rightarrow> (sample_id, string) btree_map
   \<Rightarrow> sample_id btree_set \<Rightarrow> fold_set result" where
  "stratified_split_with_target_missing sha256 spec id' samples strata target_missing =
     and_then (unique_samples StratifiedKFoldSamples samples) (\<lambda>_.
     and_then (observed_universe id' samples target_missing (unat (skf_n_splits spec)) (\<lambda>s. s))
       (\<lambda>observed.
     and_then (stratified_split sha256 spec id' observed strata) (\<lambda>fs.
     declare_target_missing fs target_missing)))"

section \<open>Group K-fold\<close>

record group_kfold_spec =
  gkf_n_splits :: "64 word"

definition collect_groups ::
  "(sample_id, group_id) btree_map \<Rightarrow> (group_id, sample_id list) btree_map" where
  "collect_groups sample_groups' = foldl (\<lambda>m (s, g). bm_push g s m) [] sample_groups'"

definition larger_group_first ::
  "group_id \<times> sample_id list \<Rightarrow> group_id \<times> sample_id list \<Rightarrow> ordering" where
  "larger_group_first l r =
     then_with (ord_cmp (length (snd r)) (length (snd l))) (ord_cmp (fst l) (fst r))"

text \<open>\<open>Iterator::min_by\<close>: the first minimal element.\<close>

definition min_by :: "('a \<Rightarrow> 'a \<Rightarrow> ordering) \<Rightarrow> 'a list \<Rightarrow> 'a option" where
  "min_by c xs = (case xs of [] \<Rightarrow> None
     | y # ys \<Rightarrow> Some (foldl (\<lambda>m x. if c m x = Greater then x else m) y ys))"

definition least_loaded :: "sample_id list list \<Rightarrow> nat option" where
  "least_loaded fold_validation =
     map_option fst (min_by (\<lambda>l r. then_with (ord_cmp (length (snd l)) (length (snd r)))
       (ord_cmp (fst l) (fst r))) (enumerate 0 fold_validation))"

definition assign_group ::
  "sample_id list list \<Rightarrow> group_id \<times> sample_id list \<Rightarrow> sample_id list list result" where
  "assign_group fold_validation grp =
     (let samples = sort (snd grp) in
      case least_loaded fold_validation of
        None \<Rightarrow> expect_failed ''at least one fold''
      | Some fold_idx \<Rightarrow>
          Inr (fold_validation[fold_idx := fold_validation ! fold_idx @ samples]))"

definition group_fold :: "sample_id list \<Rightarrow> nat \<times> sample_id list \<Rightarrow> fold_assignment result" where
  "group_fold samples indexed =
     (let validation = sort (snd indexed);
          train = filter (\<lambda>s. s \<notin> set validation) samples
      in numbered_fold (fst indexed) train validation)"

definition group_split ::
  "group_kfold_spec \<Rightarrow> string \<Rightarrow> (sample_id, group_id) btree_map \<Rightarrow> fold_set result" where
  "group_split spec id' groups_of =
     (let n = unat (gkf_n_splits spec) in
      if n < 2 then fold_err GroupKFoldTooFewSplits
      else if groups_of = [] then fold_err GroupKFoldNoGroups
      else
        let groups = collect_groups groups_of in
        if n > length groups then fold_err (GroupKFoldTooManySplits n (length groups))
        else
          let grouped = sort_by larger_group_first groups in
          and_then (try_fold assign_group (replicate n []) grouped) (\<lambda>fold_validation.
          let samples = sort (bm_keys groups_of) in
          and_then (try_map (group_fold samples) (enumerate 0 fold_validation)) (\<lambda>fls.
          validated (partition_fold_set id' samples fls groups_of))))"

text \<open>\<open>sample_groups[k]\<close> on a map panics when the key is absent.\<close>

definition bm_index :: "('k, 'v) btree_map \<Rightarrow> 'k \<Rightarrow> 'v result" where
  "bm_index m k = (case bm_get m k of None \<Rightarrow> Inl (Panic IndexOutOfRange) | Some v \<Rightarrow> Inr v)"

definition group_split_with_target_missing ::
  "group_kfold_spec \<Rightarrow> string \<Rightarrow> (sample_id, group_id) btree_map \<Rightarrow> sample_id btree_set
   \<Rightarrow> fold_set result" where
  "group_split_with_target_missing spec id' groups_of target_missing =
     and_then (observed_universe id' (bm_keys groups_of) target_missing (unat (gkf_n_splits spec))
       (\<lambda>s. the (bm_get groups_of s))) (\<lambda>observed.
     and_then (try_map (\<lambda>s. and_then (bm_index groups_of s) (\<lambda>g. Inr (s, g))) observed)
       (\<lambda>observed_groups.
     and_then (group_split spec id' (bm_collect observed_groups)) (\<lambda>fs.
     declare_target_missing fs target_missing)))"

end
