(* ===== verification/SplitterProofs.thy ===== *)
theory SplitterProofs
  imports Splitters
begin

text \<open>
  Correctness of the splitters. Each one assigns every sample a class (its fold), so one lemma,
  \<open>partition_folds_wf\<close>, gives well-formedness of all three. The locale \<open>splitter\<close> states the
  contract and derives what its clients use; it is interpreted on the three splitters.
\<close>

section \<open>Folds from a class function\<close>

definition named_fold :: "nat \<Rightarrow> sample_id list \<Rightarrow> sample_id list \<Rightarrow> fold_assignment" where
  "named_fold i train validation =
     \<lparr>fold_id = Ident (''fold'' @ show_nat i), train_sample_ids = train,
      validation_sample_ids = validation, fa_metadata = []\<rparr>"

lemma named_fold_simps [simp]:
  "fold_id (named_fold i t v) = Ident (''fold'' @ show_nat i)"
  "train_sample_ids (named_fold i t v) = t"
  "validation_sample_ids (named_fold i t v) = v"
  "fa_metadata (named_fold i t v) = []"
  by (simp_all add: named_fold_def)

lemma fold_name_ok:
  assumes "i < unat (n :: 64 word)"
  shows "ident_new (''fold'' @ show_nat i) = Inr (Ident (''fold'' @ show_nat i))"
proof -
  have "length (show_nat i) \<le> 20"
  proof (rule length_show_nat)
    have "unat n < 2 ^ LENGTH(64)" by (rule unsigned_less)
    then have "i < 2 ^ 64" using assms by simp
    also have "(2::nat) ^ 64 < 10 ^ 20" by simp
    finally show "i < 10 ^ 20" .
  qed simp
  moreover have "\<forall>c \<in> set (show_nat i). identifier_byte c"
    using show_nat_digits digit_identifier_byte by blast
  moreover have "\<forall>c \<in> set ''fold''. identifier_byte c"
    by (simp add: identifier_byte_def is_ascii_alphanumeric_def byte_of_def)
  ultimately show ?thesis by (simp add: ident_new_ok)
qed

lemma numbered_fold_ok:
  "i < unat (n :: 64 word) \<Longrightarrow> numbered_fold i t v = Inr (named_fold i t v)"
  by (simp only: numbered_fold_def fold_name_ok and_then_simps named_fold_def)

lemma length_filter_class: "c < n \<Longrightarrow> length (filter (\<lambda>i. c = i) [0..<n]) = 1"
proof -
  assume "c < n"
  then have "{i. c = i} \<inter> set [0..<n] = {c}" by auto
  then show ?thesis by (subst distinct_length_filter) simp_all
qed

lemma partition_folds_wf:
  assumes "\<not> is_blank id'" "distinct samples" "0 < n"
    and V: "\<And>i. i < n \<Longrightarrow> distinct (V i) \<and> set (V i) = {s \<in> set samples. cls s = i}"
    and T: "\<And>i. i < n \<Longrightarrow> distinct (T i) \<and> set (T i) = set samples - set (V i)"
    and cls: "\<And>s. s \<in> set samples \<Longrightarrow> cls s < n"
    and inh: "\<And>i. i < n \<Longrightarrow> \<exists>s \<in> set samples. cls s = i"
    and keys: "groups \<noteq> [] \<Longrightarrow> fst ` set groups = set samples"
    and grp: "\<And>s t g. s \<in> set samples \<Longrightarrow> t \<in> set samples \<Longrightarrow> bm_get groups s = Some g \<Longrightarrow>
        bm_get groups t = Some g \<Longrightarrow> cls s = cls t"
  shows "fold_set_wf (partition_fold_set id' samples
           (map (\<lambda>i. named_fold i (T i) (V i)) [0..<n]) groups)"
proof -
  let ?fs = "partition_fold_set id' samples (map (\<lambda>i. named_fold i (T i) (V i)) [0..<n]) groups"
  have ok: "fold_ok ?fs (named_fold i (T i) (V i))" if "i < n" for i
  proof -
    have "validation_sample_ids (named_fold i (T i) (V i)) \<noteq> []"
      using inh[OF that] V[OF that] by auto
    moreover have "bm_get groups v \<noteq> Some g" if "t \<in> set (T i)" "v \<in> set (V i)" "bm_get groups t = Some g"
      for t v g
    proof
      assume v: "bm_get groups v = Some g"
      have "t \<in> set samples" "v \<in> set samples" "cls v = i" "cls t \<noteq> i"
        using that(1,2) V[OF \<open>i < n\<close>] T[OF \<open>i < n\<close>] by auto
      then show False using grp[of t v g] that(3) v by simp
    qed
    moreover have "set (T i) \<union> set (V i) \<subseteq> set samples" "set (T i) \<inter> set (V i) = {}"
      using V[OF that] T[OF that] by auto
    ultimately show ?thesis
      using V[OF that] T[OF that] by (simp add: fold_ok_def partition_fold_set_def)
  qed
  have one: "validation_count (map (\<lambda>i. named_fold i (T i) (V i)) [0..<n]) s = 1"
    if "s \<in> set samples" for s
  proof -
    have "filter (\<lambda>i. s \<in> set (V i)) [0..<n] = filter (\<lambda>i. cls s = i) [0..<n]"
      by (rule filter_cong) (use V that in auto)
    then show ?thesis
      using length_filter_class[OF cls[OF that]] by (simp add: validation_count_def filter_map comp_def)
  qed
  have ids: "distinct (map fold_id (map (\<lambda>i. named_fold i (T i) (V i)) [0..<n]))"
    by (auto simp: distinct_map inj_on_def dest: show_nat_inj)
  have ne: "samples \<noteq> []" using inh[OF assms(3)] by auto
  show ?thesis
    using assms(1-3) ok one ids ne keys unfolding fold_set_wf_def by (simp add: partition_fold_set_def)
qed

lemma validated_ok [ok_iff]: "validated fs = Inr fs' \<longleftrightarrow> fs' = fs \<and> fold_set_wf fs"
  by (auto simp: validated_def ok_iff)

lemma mset_ordered_samples: "mset (ordered_samples h xs sh sd) = mset xs"
  by (simp add: ordered_samples_def Let_def)

lemma set_ordered_samples [simp]: "set (ordered_samples h xs sh sd) = set xs"
  by (metis mset_ordered_samples set_mset_mset)

lemma distinct_ordered_samples [simp]: "distinct (ordered_samples h xs sh sd) = distinct xs"
  by (rule mset_eq_imp_distinct_iff) (rule mset_ordered_samples)

lemma length_ordered_samples [simp]: "length (ordered_samples h xs sh sd) = length xs"
  by (metis mset_ordered_samples size_mset)

section \<open>The contract of a splitter\<close>

text \<open>
  A splitter maps a configuration, an id and an input to a fold set over the input's universe. The
  contract: a split that is returned is well-formed, in partition mode, over the whole universe,
  declares nothing missing, trains each fold on the complement of its validation samples, and
  does not fail by panicking.
\<close>

locale splitter =
  fixes split_fn :: "'c \<Rightarrow> string \<Rightarrow> 'i \<Rightarrow> fold_set result"
    and universe_of :: "'i \<Rightarrow> sample_id set"
  assumes split_wf: "split_fn c id' i = Inr fs \<Longrightarrow> fold_set_wf fs"
    and split_universe: "split_fn c id' i = Inr fs \<Longrightarrow> set (sample_ids fs) = universe_of i"
    and split_mode: "split_fn c id' i = Inr fs \<Longrightarrow>
      partition_mode fs = Partition \<and> train_exclusion fs = Relations \<and>
      target_missing_sample_ids fs = [] \<and> fs_id fs = id'"
    and split_complement: "split_fn c id' i = Inr fs \<Longrightarrow> f \<in> set (folds fs) \<Longrightarrow>
      set (train_sample_ids f) = universe_of i - set (validation_sample_ids f)"
begin

lemma validated_once:
  assumes "split_fn c id' i = Inr fs" "s \<in> universe_of i"
  shows "validation_count (folds fs) s = 1"
  using split_wf[OF assms(1)] split_universe[OF assms(1)] split_mode[OF assms(1)] assms(2)
  by (simp add: fold_set_wf_def)

lemma validation_covers:
  assumes "split_fn c id' i = Inr fs"
  shows "(\<Union>f \<in> set (folds fs). set (validation_sample_ids f)) = universe_of i"
proof
  show "(\<Union>f \<in> set (folds fs). set (validation_sample_ids f)) \<subseteq> universe_of i"
    using split_wf[OF assms] split_universe[OF assms] by (auto simp: fold_set_wf_def fold_ok_def)
next
  show "universe_of i \<subseteq> (\<Union>f \<in> set (folds fs). set (validation_sample_ids f))"
  proof
    fix s assume "s \<in> universe_of i"
    from validated_once[OF assms this] have "filter (\<lambda>f. s \<in> set (validation_sample_ids f)) (folds fs) \<noteq> []"
      by (auto simp: validation_count_def)
    then show "s \<in> (\<Union>f \<in> set (folds fs). set (validation_sample_ids f))"
      by (auto simp: filter_empty_conv)
  qed
qed

text \<open>Declaring ids outside the universe as target-missing keeps the split valid.\<close>

lemma declare_ok:
  assumes "split_fn c id' i = Inr fs"
  shows "declare_target_missing fs m = Inr fs' \<longleftrightarrow>
    fs' = fs\<lparr>target_missing_sample_ids := m\<rparr> \<and> distinct m \<and> set m \<inter> universe_of i = {}"
  using split_wf[OF assms] split_universe[OF assms]
  by (auto simp: declare_target_missing_def ok_iff fold_set_wf_def fold_ok_def)

text \<open>Splitting the observed universe and declaring the missing ids, as the variants do.\<close>

lemma split_then_declare:
  "and_then (split_fn c id' i) (\<lambda>fs. declare_target_missing fs m) = Inr fs' \<longleftrightarrow>
    (\<exists>fs. split_fn c id' i = Inr fs \<and> fs' = fs\<lparr>target_missing_sample_ids := m\<rparr> \<and>
      distinct m \<and> set m \<inter> universe_of i = {})"
  using declare_ok by (auto simp: and_then_ok)

lemma split_then_declare_wf:
  assumes "and_then (split_fn c id' i) (\<lambda>fs. declare_target_missing fs m) = Inr fs'"
  shows "fold_set_wf fs' \<and> set (sample_ids fs') = universe_of i \<and> target_missing_sample_ids fs' = m"
proof -
  obtain fs where fs: "split_fn c id' i = Inr fs" "declare_target_missing fs m = Inr fs'"
    using assms by (auto simp: and_then_ok)
  then have "fold_set_wf fs'" by (auto simp: declare_target_missing_def validated_ok)
  with fs declare_ok[OF fs(1)] split_universe[OF fs(1)] show ?thesis by auto
qed

end

section \<open>K-fold is a splitter\<close>

text \<open>The position of an element, and the elements at a residue class of positions.\<close>

definition pos :: "'a list \<Rightarrow> 'a \<Rightarrow> nat" where
  "pos xs x = length (takeWhile (\<lambda>y. y \<noteq> x) xs)"

lemma pos_append: "x \<notin> set xs \<Longrightarrow> pos (xs @ ys) x = length xs + pos ys x"
  by (induction xs) (auto simp: pos_def)

lemma pos_append_left: "x \<in> set xs \<Longrightarrow> pos (xs @ ys) x = pos xs x"
  by (simp add: pos_def)

lemma pos_Cons [simp]: "pos (y # ys) x = (if y = x then 0 else Suc (pos ys x))"
  by (simp add: pos_def)

lemma pos_nth: "distinct xs \<Longrightarrow> p < length xs \<Longrightarrow> pos xs (xs ! p) = p"
proof (induction xs arbitrary: p)
  case (Cons y ys)
  then show ?case by (cases p) auto
qed simp

lemma pos_less: "x \<in> set xs \<Longrightarrow> pos xs x < length xs"
  by (induction xs) auto

lemma nth_pos: "x \<in> set xs \<Longrightarrow> xs ! pos xs x = x"
  by (induction xs) auto

lemma residues_nths:
  "map snd (filter (\<lambda>(idx, s). idx mod n = i) (enumerate 0 xs)) = nths xs {p. p mod n = i}"
proof -
  have "map snd (filter (\<lambda>(idx, s). idx mod n = i) (zip is ys)) =
      map fst (filter (\<lambda>p. snd p mod n = i) (zip ys is))" if "length is = length ys" for "is" and ys :: "'a list"
    using that by (induction "is" ys rule: list_induct2) auto
  from this[of "[0..<length xs]" xs] show ?thesis by (simp add: enumerate_eq_zip nths_def)
qed

lemma set_residues:
  "distinct xs \<Longrightarrow> set (nths xs {p. p mod n = i}) = {s \<in> set xs. pos xs s mod n = i}"
  by (auto simp: set_nths in_set_conv_nth pos_nth)

text \<open>How many positions below \<open>len\<close> fall in a residue class: the classes differ by at most one.\<close>

lemma card_residues:
  assumes "i < n"
  shows "card {p. p < len \<and> p mod n = i} = len div n + (if i < len mod n then 1 else 0)"
proof (induction len)
  case (Suc len)
  have split: "{p. p < Suc len \<and> p mod n = i} =
      (if len mod n = i then insert len {p. p < len \<and> p mod n = i} else {p. p < len \<and> p mod n = i})"
    by (auto simp: less_Suc_eq)
  have fin: "finite {p. p < len \<and> p mod n = i}" by simp
  show ?case
  proof (cases "Suc (len mod n) = n")
    case True
    then have "Suc len mod n = 0" "Suc len div n = Suc (len div n)"
      by (simp_all add: mod_Suc div_Suc)
    moreover have "i < len mod n \<or> i = len mod n" using True assms by auto
    ultimately show ?thesis unfolding split using fin Suc.IH by auto
  next
    case False
    then have "Suc len mod n = Suc (len mod n)" "Suc len div n = len div n"
      by (simp_all add: mod_Suc div_Suc)
    then show ?thesis unfolding split using fin Suc.IH by auto
  qed
qed simp

text \<open>What K-fold computes: the samples in order, fold \<open>i\<close> validating every \<open>n\<close>-th one from \<open>i\<close>.\<close>

definition kfold_result :: "digest \<Rightarrow> kfold_spec \<Rightarrow> string \<Rightarrow> sample_id list \<Rightarrow> fold_set" where
  "kfold_result h spec id' samples =
     (let n = unat (kf_n_splits spec);
          ordered = ordered_samples h samples (kf_shuffle spec) (unwrap_or (kf_seed spec) 0);
          V = (\<lambda>i. nths ordered {p. p mod n = i})
      in partition_fold_set id' (sort samples)
           (map (\<lambda>i. named_fold i (filter (\<lambda>s. s \<notin> set (V i)) ordered) (V i)) [0..<n]) [])"

lemma kfold_result_wf:
  assumes "\<not> is_blank id'" "distinct samples" "0 < unat (kf_n_splits spec)"
    "unat (kf_n_splits spec) \<le> length samples"
  shows "fold_set_wf (kfold_result h spec id' samples)"
proof -
  let ?n = "unat (kf_n_splits spec)"
  let ?o = "ordered_samples h samples (kf_shuffle spec) (unwrap_or (kf_seed spec) 0)"
  let ?V = "\<lambda>i. nths ?o {p. p mod ?n = i}"
  have d: "distinct ?o" using assms(2) by simp
  show ?thesis unfolding kfold_result_def Let_def
  proof (rule partition_folds_wf[where cls = "\<lambda>s. pos ?o s mod ?n"])
    fix i assume i: "i < ?n"
    show "distinct (?V i) \<and> set (?V i) = {s \<in> set (sort samples). pos ?o s mod ?n = i}"
      using set_residues[OF d, of ?n i] distinct_nthsI[OF d] by simp
    show "distinct (filter (\<lambda>s. s \<notin> set (?V i)) ?o) \<and>
        set (filter (\<lambda>s. s \<notin> set (?V i)) ?o) = set (sort samples) - set (?V i)"
      using assms(2) by auto
    have "?o ! i \<in> set (sort samples)" "pos ?o (?o ! i) mod ?n = i"
      using i assms(4) d by (simp_all add: pos_nth) (metis length_ordered_samples nth_mem order_less_le_trans set_ordered_samples)
    then show "\<exists>s \<in> set (sort samples). pos ?o s mod ?n = i" by blast
  qed (use assms in auto)
qed

lemma kfold_split_ok [ok_iff]:
  "kfold_split h spec id' samples = Inr fs \<longleftrightarrow>
     2 \<le> unat (kf_n_splits spec) \<and> distinct samples \<and> unat (kf_n_splits spec) \<le> length samples \<and>
     \<not> is_blank id' \<and> fs = kfold_result h spec id' samples"
proof -
  let ?n = "unat (kf_n_splits spec)"
  let ?o = "ordered_samples h samples (kf_shuffle spec) (unwrap_or (kf_seed spec) 0)"
  have folds: "try_map (kfold_fold ?n ?o) [0..<?n] =
    Inr (map (\<lambda>i. named_fold i (filter (\<lambda>s. s \<notin> set (nths ?o {p. p mod ?n = i})) ?o)
      (nths ?o {p. p mod ?n = i})) [0..<?n])"
    by (rule try_map_total)
      (simp add: kfold_fold_def Let_def residues_nths numbered_fold_ok[where n = "kf_n_splits spec"])
  have sorted: "ordered_samples h samples False 0 = sort samples" by (simp add: ordered_samples_def)
  show ?thesis
    using kfold_result_wf[of id' samples spec h]
    by (auto simp: kfold_split_def Let_def ok_iff folds sorted distinct_card kfold_result_def
        fold_set_wf_def partition_fold_set_def)
qed


lemma kfold_result_simps [simp]:
  "fs_id (kfold_result h spec id' samples) = id'"
  "sample_ids (kfold_result h spec id' samples) = sort samples"
  "partition_mode (kfold_result h spec id' samples) = Partition"
  "train_exclusion (kfold_result h spec id' samples) = Relations"
  "target_missing_sample_ids (kfold_result h spec id' samples) = []"
  by (simp_all add: kfold_result_def partition_fold_set_def Let_def)

lemma kfold_result_folds:
  "f \<in> set (folds (kfold_result h spec id' samples)) \<Longrightarrow>
   set (train_sample_ids f) = set samples - set (validation_sample_ids f)"
  by (auto simp: kfold_result_def partition_fold_set_def Let_def)

interpretation kfold: splitter "\<lambda>(h, spec) id' samples. kfold_split h spec id' samples" set
  by unfold_locales (auto simp: kfold_split_ok kfold_result_wf kfold_result_folds)

text \<open>C34: K-fold splitting returns a fold set exactly when at least two splits are asked for, the samples
  are pairwise different, there are at least as many samples as splits, and the id is not blank, and
  fails otherwise. Whatever it returns is a well-formed fold set of the given samples with the requested
  number of folds, in which every sample is validated by exactly one fold and each fold trains on all
  the others.\<close>

theorem kfold_split_spec:
  "let admissible = 2 \<le> unat (kf_n_splits spec) \<and> distinct samples \<and>
       unat (kf_n_splits spec) \<le> length samples \<and> \<not> is_blank id'
   in case kfold_split h spec id' samples of
     Inl _ \<Rightarrow> \<not> admissible
   | Inr fs \<Rightarrow> admissible \<and> fold_set_wf fs \<and> fs_id fs = id' \<and> sample_ids fs = sort samples \<and>
       length (folds fs) = unat (kf_n_splits spec) \<and>
       list_all (\<lambda>s. validation_count (folds fs) s = 1) samples \<and>
       list_all (\<lambda>f. set (train_sample_ids f) = set samples - set (validation_sample_ids f)) (folds fs)"
proof (cases "kfold_split h spec id' samples")
  case (Inl e)
  then have "kfold_split h spec id' samples \<noteq> Inr (kfold_result h spec id' samples)" by simp
  then show ?thesis using Inl unfolding kfold_split_ok Let_def by auto
next
  case (Inr fs)
  then have fs: "fs = kfold_result h spec id' samples" and args: "2 \<le> unat (kf_n_splits spec)" "distinct samples"
    "unat (kf_n_splits spec) \<le> length samples" "\<not> is_blank id'"
    by (simp_all add: kfold_split_ok)
  have len: "length (folds fs) = unat (kf_n_splits spec)"
    by (simp add: fs kfold_result_def partition_fold_set_def Let_def)
  have "validation_count (folds fs) s = 1" if "s \<in> set samples" for s
    using kfold.validated_once[of "(h, spec)" id' samples fs] Inr that by simp
  then show ?thesis
    using Inr fs args len kfold.split_wf[of "(h, spec)" id' samples fs] kfold_result_folds
    by (auto simp: list_all_iff Let_def)
qed

text \<open>the validation sets of a K-fold split are balanced: each holds the sample count divided
  by the number of splits, rounded down, or one more.\<close>

theorem kfold_split_balanced:
  assumes "kfold_split h spec id' samples = Inr fs" "f \<in> set (folds fs)"
  shows "length (validation_sample_ids f) \<in>
    {length samples div unat (kf_n_splits spec), length samples div unat (kf_n_splits spec) + 1}"
proof -
  let ?n = "unat (kf_n_splits spec)"
  let ?o = "ordered_samples h samples (kf_shuffle spec) (unwrap_or (kf_seed spec) 0)"
  obtain i where i: "i < ?n" and f: "validation_sample_ids f = nths ?o {p. p mod ?n = i}"
    using assms by (auto simp: kfold_split_ok kfold_result_def partition_fold_set_def Let_def)
  have "length (validation_sample_ids f) = card {p. p < length samples \<and> p mod ?n = i}"
    unfolding f length_nths by simp
  then show ?thesis using card_residues[OF i] by simp
qed

lemma kfold_split_balanced_witness:
  "length (validation_sample_ids (folds abc_folds ! 0)) \<in> {3 div 2, 3 div 2 + 1}"
proof -
  have "kfold_split (\<lambda>_. []) \<lparr>kf_n_splits = 2, kf_shuffle = False, kf_seed = None\<rparr> ''k''
      [Ident ''c'', Ident ''a'', Ident ''b''] = Inr abc_folds"
    by code_simp
  from kfold_split_balanced[OF this, of "folds abc_folds ! 0"] show ?thesis
    by (simp add: abc_folds_def)
qed

section \<open>Stratified K-fold is a splitter\<close>

text \<open>All the members of a multimap, key by key.\<close>

definition bm_members :: "('k, 'v list) btree_map \<Rightarrow> 'v list" where
  "bm_members m = concat (map snd m)"

lemma bm_get_Cons: "bm_get ((k, v) # m) k' = (if k' = k then Some v else bm_get m k')"
  by (simp add: bm_get_def)

lemma bm_get_above:
  fixes k :: "'k::linorder"
  assumes "sorted_wrt (<) (k # map fst m)" "k' \<le> k"
  shows "bm_get m k' = None"
proof -
  have "\<forall>x \<in> set (map fst m). k < x" using assms(1) unfolding sorted_wrt.simps by (rule conjunct1)
  then have "k' \<notin> set (map fst m)" using assms(2) by (meson leD)
  then have "k' \<notin> fst ` set m" by simp
  then show ?thesis by (simp add: bm_get_def map_of_eq_None_iff)
qed

lemma mset_members_insert:
  "bm_ok m \<Longrightarrow> mset (bm_members (bm_insert k (unwrap_or (bm_get m k) [] @ [x]) m)) =
     add_mset x (mset (bm_members m))"
proof (induction m)
  case Nil
  then show ?case by (simp add: bm_members_def unwrap_or_def)
next
  case (Cons kv m)
  obtain k' v' where kv: "kv = (k', v')" by (cases kv)
  have sorted: "sorted_wrt (<) (k' # map fst m)" using Cons.prems kv by (simp add: bm_ok_def)
  consider "k < k'" | "k = k'" | "k' < k" by force
  then show ?case
  proof cases
    case 1
    then have "bm_get (kv # m) k = None"
      using bm_get_above[OF sorted, of k] kv by (simp add: bm_get_Cons)
    with 1 kv show ?thesis by (simp add: bm_members_def unwrap_or_def)
  next
    case 2
    with kv show ?thesis by (simp add: bm_members_def unwrap_or_def bm_get_Cons)
  next
    case 3
    then have "bm_get (kv # m) k = bm_get m k" using kv by (auto simp: bm_get_Cons)
    moreover have "bm_ok m" using Cons.prems kv by (simp add: bm_ok_def)
    ultimately show ?thesis using 3 kv Cons.IH by (auto simp: bm_members_def)
  qed
qed

lemma bm_ok_push [intro]: "bm_ok m \<Longrightarrow> bm_ok (bm_push k x m)"
  by (auto simp: bm_push_def)

lemma mset_members_push: "bm_ok m \<Longrightarrow> mset (bm_members (bm_push k x m)) = add_mset x (mset (bm_members m))"
  by (simp add: bm_push_def mset_members_insert)

lemma bm_get_push: "bm_get (bm_push k x m) k' =
    (if k' = k then Some (unwrap_or (bm_get m k) [] @ [x]) else bm_get m k')"
  by (simp add: bm_push_def)

text \<open>A pushed multimap collects, per key, the elements of that key in their order.\<close>

definition groups_by :: "('a \<Rightarrow> 'k::linorder) \<Rightarrow> 'a list \<Rightarrow> ('k, 'a list) btree_map \<Rightarrow> bool" where
  "groups_by key xs m \<longleftrightarrow> bm_ok m \<and> mset (bm_members m) = mset xs \<and>
     (\<forall>k. bm_get m k = (if k \<in> key ` set xs then Some (filter (\<lambda>x. key x = k) xs) else None))"

lemma groups_by_push:
  assumes "groups_by key xs m"
  shows "groups_by key (xs @ [x]) (bm_push (key x) x m)"
proof -
  have "filter (\<lambda>y. key y = key x) xs = []" if "key x \<notin> key ` set xs"
    using that by (metis (mono_tags, lifting) filter_False imageI)
  then have "unwrap_or (bm_get m (key x)) [] = filter (\<lambda>y. key y = key x) xs"
    using assms by (simp add: groups_by_def unwrap_or_def)
  then show ?thesis
    using assms by (auto simp: groups_by_def mset_members_push bm_get_push bm_ok_push)
qed

lemma group_by_label_aux:
  assumes "groups_by (\<lambda>s. the (bm_get strata s)) ys m"
  shows "try_fold (\<lambda>by_label s. case bm_get strata s of
         None \<Rightarrow> fold_err (StratifiedNoLabel (as_str s))
       | Some label \<Rightarrow> Inr (bm_push label s by_label)) m xs = Inr m' \<Longrightarrow>
    set xs \<subseteq> dom (bm_get strata) \<and> groups_by (\<lambda>s. the (bm_get strata s)) (ys @ xs) m'"
  using assms
proof (induction xs arbitrary: ys m)
  case (Cons x xs)
  then obtain l where l: "bm_get strata x = Some l" by (auto split: option.splits)
  then have "groups_by (\<lambda>s. the (bm_get strata s)) (ys @ [x]) (bm_push l x m)"
    using groups_by_push[OF Cons.prems(2), of x] by simp
  from Cons.IH[OF _ this] Cons.prems(1) l show ?case by auto
qed simp

lemma group_by_label_total:
  "set xs \<subseteq> dom (bm_get strata) \<Longrightarrow> \<exists>m'. try_fold (\<lambda>by_label s. case bm_get strata s of
         None \<Rightarrow> fold_err (StratifiedNoLabel (as_str s))
       | Some label \<Rightarrow> Inr (bm_push label s by_label)) m xs = Inr m'"
  by (induction xs arbitrary: m) auto

lemma groups_by_Nil: "groups_by key [] []"
  by (simp add: groups_by_def bm_members_def)

lemma group_by_label_ok:
  "group_by_label strata xs = Inr m \<Longrightarrow>
   set xs \<subseteq> dom (bm_get strata) \<and> groups_by (\<lambda>s. the (bm_get strata s)) xs m"
  using group_by_label_aux[OF groups_by_Nil] by (fastforce simp: group_by_label_def)

lemma group_by_label_ex:
  "set xs \<subseteq> dom (bm_get strata) \<Longrightarrow> \<exists>m. group_by_label strata xs = Inr m"
  by (simp add: group_by_label_def group_by_label_total)

text \<open>The round-robin gives the sample at position \<open>p\<close> the fold \<open>p mod n\<close>.\<close>

lemma round_robin_spec:
  "distinct L \<Longrightarrow> snd (round_robin n L) = length L \<and>
   (\<forall>s. bm_get (fst (round_robin n L)) s = (if s \<in> set L then Some (pos L s mod n) else None))"
proof (induction L rule: rev_induct)
  case Nil
  then show ?case by (simp add: round_robin_def)
next
  case (snoc x L)
  then have "round_robin n (L @ [x]) =
      (bm_insert x (length L mod n) (fst (round_robin n L)), length L + 1)"
    by (simp add: round_robin_def split_beta)
  then show ?case using snoc by (auto simp: pos_append pos_append_left pos_def[of "[x]" x])
qed

definition stratified_result ::
  "digest \<Rightarrow> stratified_kfold_spec \<Rightarrow> string \<Rightarrow> sample_id list \<Rightarrow> sample_id list \<Rightarrow> fold_set" where
  "stratified_result h spec id' samples L =
     (let n = unat (skf_n_splits spec);
          ordered = ordered_samples h samples (skf_shuffle spec) (unwrap_or (skf_seed spec) 0)
      in partition_fold_set id' (sort samples)
           (map (\<lambda>i. named_fold i (filter (\<lambda>s. pos L s mod n \<noteq> i) ordered)
              (filter (\<lambda>s. pos L s mod n = i) ordered)) [0..<n]) [])"

lemma stratified_result_wf:
  assumes "\<not> is_blank id'" "distinct samples" "0 < unat (skf_n_splits spec)"
    "unat (skf_n_splits spec) \<le> length samples" "mset L = mset samples"
  shows "fold_set_wf (stratified_result h spec id' samples L)"
proof -
  let ?n = "unat (skf_n_splits spec)"
  have L: "distinct L" "length L = length samples" "set L = set samples"
    using assms(2,5) mset_eq_imp_distinct_iff mset_eq_length mset_eq_setD by blast+
  show ?thesis unfolding stratified_result_def Let_def
  proof (rule partition_folds_wf[where cls = "\<lambda>s. pos L s mod ?n"])
    fix i assume i: "i < ?n"
    have "L ! i \<in> set (sort samples)" "pos L (L ! i) mod ?n = i"
      using i assms(4) L by (simp_all add: pos_nth flip: L(3))
    then show "\<exists>s \<in> set (sort samples). pos L s mod ?n = i" by blast
  qed (use assms in auto)
qed

text \<open>The class-grouped order a stratified split deals out.\<close>

definition class_order ::
  "digest \<Rightarrow> stratified_kfold_spec \<Rightarrow> sample_id list \<Rightarrow> (sample_id, string) btree_map \<Rightarrow> sample_id list"
where
  "class_order h spec samples strata =
     (case group_by_label strata
        (ordered_samples h samples (skf_shuffle spec) (unwrap_or (skf_seed spec) 0)) of
        Inl _ \<Rightarrow> [] | Inr by_label \<Rightarrow> bm_members by_label)"

lemma mset_class_order:
  assumes "set samples \<subseteq> dom (bm_get strata)"
  shows "mset (class_order h spec samples strata) = mset samples"
proof -
  let ?o = "ordered_samples h samples (skf_shuffle spec) (unwrap_or (skf_seed spec) 0)"
  obtain m where m: "group_by_label strata ?o = Inr m"
    using group_by_label_ex[of ?o strata] assms by auto
  then have "groups_by (\<lambda>s. the (bm_get strata s)) ?o m" using group_by_label_ok by blast
  then show ?thesis using m by (simp add: class_order_def groups_by_def mset_ordered_samples)
qed

lemma stratified_split_ok [ok_iff]:
  "stratified_split h spec id' samples strata = Inr fs \<longleftrightarrow>
     2 \<le> unat (skf_n_splits spec) \<and> distinct samples \<and> unat (skf_n_splits spec) \<le> length samples \<and>
     set samples \<subseteq> dom (bm_get strata) \<and> \<not> is_blank id' \<and>
     fs = stratified_result h spec id' samples (class_order h spec samples strata)"
proof -
  let ?n = "unat (skf_n_splits spec)"
  let ?o = "ordered_samples h samples (skf_shuffle spec) (unwrap_or (skf_seed spec) 0)"
  have sorted: "ordered_samples h samples False 0 = sort samples" by (simp add: ordered_samples_def)
  show ?thesis
  proof (cases "2 \<le> ?n \<and> distinct samples \<and> ?n \<le> length samples \<and> set samples \<subseteq> dom (bm_get strata)")
    case False
    then show ?thesis
      by (auto simp: stratified_split_def Let_def ok_iff distinct_card dest!: group_by_label_ok)
  next
    case True
    obtain m where m: "group_by_label strata ?o = Inr m"
      using group_by_label_ex[of ?o strata] True by auto
    let ?L = "class_order h spec samples strata"
    have L: "concat (map snd m) = ?L" using m by (simp add: class_order_def bm_members_def)
    have ms: "mset ?L = mset samples" using mset_class_order True by blast
    then have dL: "distinct ?L" "set ?L = set samples"
      using True mset_eq_imp_distinct_iff mset_eq_setD by blast+
    have get: "bm_get (fst (round_robin ?n ?L)) s = Some (pos ?L s mod ?n)" if "s \<in> set samples" for s
      using round_robin_spec[OF dL(1), of ?n] that dL(2) by simp
    have "stratified_fold (fst (round_robin ?n ?L)) ?o i =
        Inr (named_fold i (filter (\<lambda>s. pos ?L s mod ?n \<noteq> i) ?o) (filter (\<lambda>s. pos ?L s mod ?n = i) ?o))"
      if "i < ?n" for i
    proof -
      have "filter (\<lambda>s. bm_get (fst (round_robin ?n ?L)) s = Some i) ?o = filter (\<lambda>s. pos ?L s mod ?n = i) ?o"
        "filter (\<lambda>s. bm_get (fst (round_robin ?n ?L)) s \<noteq> Some i) ?o = filter (\<lambda>s. pos ?L s mod ?n \<noteq> i) ?o"
        by (rule filter_cong; simp add: get)+
      then show ?thesis
        by (simp add: stratified_fold_def Let_def numbered_fold_ok[OF that])
    qed
    then have folds: "try_map (stratified_fold (fst (round_robin ?n ?L)) ?o) [0..<?n] =
      Inr (map (\<lambda>i. named_fold i (filter (\<lambda>s. pos ?L s mod ?n \<noteq> i) ?o)
        (filter (\<lambda>s. pos ?L s mod ?n = i) ?o)) [0..<?n])"
      by (intro try_map_total) auto
    have "stratified_split h spec id' samples strata = validated (stratified_result h spec id' samples ?L)"
      using True unfolding stratified_split_def Let_def
      by (simp add: m L folds sorted distinct_card stratified_result_def Let_def)
    then show ?thesis
      using stratified_result_wf[OF _ _ _ _ ms, of id' spec h] True
      by (auto simp: ok_iff stratified_result_def fold_set_wf_def partition_fold_set_def Let_def)
  qed
qed


lemma stratified_result_simps [simp]:
  "fs_id (stratified_result h spec id' samples L) = id'"
  "sample_ids (stratified_result h spec id' samples L) = sort samples"
  "partition_mode (stratified_result h spec id' samples L) = Partition"
  "train_exclusion (stratified_result h spec id' samples L) = Relations"
  "target_missing_sample_ids (stratified_result h spec id' samples L) = []"
  "length (folds (stratified_result h spec id' samples L)) = unat (skf_n_splits spec)"
  by (simp_all add: stratified_result_def partition_fold_set_def Let_def)

lemma stratified_result_folds:
  "f \<in> set (folds (stratified_result h spec id' samples L)) \<Longrightarrow>
   set (train_sample_ids f) = set samples - set (validation_sample_ids f)"
  by (auto simp: stratified_result_def partition_fold_set_def Let_def)

lemma stratified_split_wf: "stratified_split h spec id' samples strata = Inr fs \<Longrightarrow> fold_set_wf fs"
  using stratified_result_wf[OF _ _ _ _ mset_class_order] by (auto simp: stratified_split_ok)

interpretation stratified: splitter
  "\<lambda>(h, spec) id' (samples, strata). stratified_split h spec id' samples strata" "\<lambda>i. set (fst i)"
proof (unfold_locales, goal_cases)
  case (1 c id' i fs)
  then show ?case using stratified_split_wf by (auto split: prod.splits)
qed (auto simp: stratified_split_ok stratified_result_folds)

text \<open>stratified K-fold splitting succeeds exactly when K-fold would and every sample has a
  stratum label; every sample is then validated by exactly one fold and each fold trains on all
  the others.\<close>

theorem stratified_split_spec:
  "(\<exists>fs. stratified_split h spec id' samples strata = Inr fs \<and> fold_set_wf fs \<and>
      sample_ids fs = sort samples \<and> length (folds fs) = unat (skf_n_splits spec) \<and>
      list_all (\<lambda>s. validation_count (folds fs) s = 1) samples \<and>
      list_all (\<lambda>f. set (train_sample_ids f) = set samples - set (validation_sample_ids f)) (folds fs))
   \<longleftrightarrow> 2 \<le> unat (skf_n_splits spec) \<and> distinct samples \<and>
      unat (skf_n_splits spec) \<le> length samples \<and> \<not> is_blank id' \<and>
      set samples \<subseteq> dom (bm_get strata)"
  (is "?L \<longleftrightarrow> ?R")
proof
  assume ?R
  then obtain fs where ok: "stratified_split h spec id' samples strata = Inr fs"
    and fs: "fs = stratified_result h spec id' samples (class_order h spec samples strata)"
    by (auto simp: stratified_split_ok)
  have "validation_count (folds fs) s = 1" if "s \<in> set samples" for s
    using stratified.validated_once[of "(h, spec)" id' "(samples, strata)" fs s] ok that by simp
  then show ?L using ok fs stratified_split_wf stratified_result_folds by (auto simp: list_all_iff)
qed (auto simp: stratified_split_ok)

text \<open>The members of one class are contiguous in the class-grouped order.\<close>

lemma members_segment:
  assumes "groups_by key xs m" "distinct xs" "k \<in> key ` set xs"
  shows "\<exists>us vs. bm_members m = us @ filter (\<lambda>x. key x = k) xs @ vs"
proof -
  have "bm_get m k = Some (filter (\<lambda>x. key x = k) xs)" using assms by (simp add: groups_by_def)
  then have "(k, filter (\<lambda>x. key x = k) xs) \<in> set m" by (simp add: bm_get_def map_of_SomeD)
  then obtain a b where "m = a @ (k, filter (\<lambda>x. key x = k) xs) # b" by (meson split_list)
  then show ?thesis by (auto simp: bm_members_def)
qed

lemma card_residues_from:
  assumes "i < n"
  shows "card {p. a \<le> p \<and> p < a + l \<and> p mod n = i} \<in> {l div n, l div n + 1}"
proof -
  let ?A = "{p. p < a \<and> p mod n = i}" and ?B = "{p. a \<le> p \<and> p < a + l \<and> p mod n = i}"
  have "{p. p < a + l \<and> p mod n = i} = ?A \<union> ?B" by auto
  moreover have "card (?A \<union> ?B) = card ?A + card ?B" by (rule card_Un_disjoint) auto
  ultimately have "card {p. p < a + l \<and> p mod n = i} = card ?A + card ?B" by (simp only:)
  then have eq: "(a + l) div n + (if i < (a + l) mod n then 1 else 0) =
      a div n + (if i < a mod n then 1 else 0) + card {p. a \<le> p \<and> p < a + l \<and> p mod n = i}"
    using card_residues[OF assms] by simp
  have n: "0 < n" using assms by simp
  have dv: "(a + l) div n = a div n + l div n + (a mod n + l mod n) div n"
    and md: "(a + l) mod n = (a mod n + l mod n) mod n"
    by (rule div_add1_eq) (rule mod_add_eq[symmetric])
  have lt: "a mod n < n" "l mod n < n" using n by auto
  define X where "X = card {p. a \<le> p \<and> p < a + l \<and> p mod n = i}"
  define am lm where "am = a mod n" and "lm = l mod n"
  have eq': "l div n + (am + lm) div n + (if i < (am + lm) mod n then 1 else 0) =
      X + (if i < am then 1 else 0)"
    using eq unfolding dv md X_def am_def lm_def by linarith
  have "X = l div n \<or> X = l div n + 1"
  proof (cases "am + lm < n")
    case True
    then have "(am + lm) div n = 0" "(am + lm) mod n = am + lm" by simp_all
    with eq' show ?thesis by (cases "i < am"; cases "i < am + lm") simp_all
  next
    case False
    define x where "x = am + lm - n"
    have x: "am + lm = n + x" "x < n" "x < am"
      using lt False unfolding am_def lm_def x_def by linarith+
    then have "(am + lm) div n = 1" "(am + lm) mod n = x"
      using n by (simp_all add: div_add_self1)
    with x(3) eq' show ?thesis by (cases "i < am"; cases "i < x") simp_all
  qed
  then show ?thesis by (simp add: X_def)
qed


lemma pos_segment_image:
  assumes "distinct (us @ C @ vs)"
  shows "pos (us @ C @ vs) ` {s \<in> set C. pos (us @ C @ vs) s mod n = i} =
    {p. length us \<le> p \<and> p < length us + length C \<and> p mod n = i}"
proof
  have pos: "pos (us @ C @ vs) s = length us + pos C s" if "s \<in> set C" for s
    using assms that pos_append[of s us "C @ vs"] pos_append_left[of s C vs] by auto
  show "pos (us @ C @ vs) ` {s \<in> set C. pos (us @ C @ vs) s mod n = i}
      \<subseteq> {p. length us \<le> p \<and> p < length us + length C \<and> p mod n = i}"
    using pos pos_less by fastforce
  show "{p. length us \<le> p \<and> p < length us + length C \<and> p mod n = i}
      \<subseteq> pos (us @ C @ vs) ` {s \<in> set C. pos (us @ C @ vs) s mod n = i}"
  proof
    fix p assume p: "p \<in> {p. length us \<le> p \<and> p < length us + length C \<and> p mod n = i}"
    let ?s = "C ! (p - length us)"
    have "?s \<in> set C" "pos (us @ C @ vs) ?s = p"
      using p pos[of ?s] assms by (auto simp: pos_nth)
    then show "p \<in> pos (us @ C @ vs) ` {s \<in> set C. pos (us @ C @ vs) s mod n = i}"
      using p by (intro image_eqI[of _ _ ?s]) simp_all
  qed
qed

lemma inj_on_pos: "inj_on (pos xs) (set xs)"
  by (metis inj_onI nth_pos)

text \<open>stratification works: for every label, the number of samples with that label that a fold
  validates is the label's sample count divided by the number of splits, rounded down, or one
  more, so every fold mirrors the class distribution.\<close>

theorem stratified_split_balanced:
  assumes "stratified_split h spec id' samples strata = Inr fs" "f \<in> set (folds fs)"
  shows "length (filter (\<lambda>s. bm_get strata s = Some l) (validation_sample_ids f)) \<in>
    (let c = length (filter (\<lambda>s. bm_get strata s = Some l) samples) div unat (skf_n_splits spec)
     in {c, c + 1})"
proof -
  let ?n = "unat (skf_n_splits spec)"
  let ?o = "ordered_samples h samples (skf_shuffle spec) (unwrap_or (skf_seed spec) 0)"
  let ?L = "class_order h spec samples strata"
  let ?key = "\<lambda>s. the (bm_get strata s)"
  note S = assms(1)[unfolded stratified_split_ok]
  have dom: "bm_get strata s = Some l \<longleftrightarrow> ?key s = l" if "s \<in> set samples" for s l
    using S that by (auto simp: dom_def)
  obtain i where i: "i < ?n" and f: "validation_sample_ids f = filter (\<lambda>s. pos ?L s mod ?n = i) ?o"
    using assms(2) S by (auto simp: stratified_result_def partition_fold_set_def Let_def)
  obtain m where m: "group_by_label strata ?o = Inr m" using group_by_label_ex[of ?o strata] S by auto
  then have gb: "groups_by ?key ?o m" and L: "?L = bm_members m"
    using group_by_label_ok by (auto simp: class_order_def)
  have dL: "distinct ?L" using mset_class_order[of samples strata] S mset_eq_imp_distinct_iff by blast
  let ?C = "filter (\<lambda>s. ?key s = l) ?o"
  have cnt: "length (filter (\<lambda>s. bm_get strata s = Some l) samples) = length ?C"
  proof -
    have "filter (\<lambda>s. bm_get strata s = Some l) samples = filter (\<lambda>s. ?key s = l) samples"
      by (rule filter_cong) (auto simp: dom)
    moreover have "mset (filter (\<lambda>s. ?key s = l) samples) = mset ?C"
      by (simp only: mset_filter mset_ordered_samples)
    ultimately show ?thesis by (metis size_mset)
  qed
  have "filter (\<lambda>s. bm_get strata s = Some l) (validation_sample_ids f) =
      filter (\<lambda>s. pos ?L s mod ?n = i) ?C"
    unfolding f filter_filter by (rule filter_cong) (auto simp: dom)
  then have len: "length (filter (\<lambda>s. bm_get strata s = Some l) (validation_sample_ids f)) =
      card {s \<in> set ?C. pos ?L s mod ?n = i}"
    using S distinct_card[of "filter (\<lambda>s. pos ?L s mod ?n = i) ?C"] by simp
  show ?thesis
  proof (cases "l \<in> ?key ` set ?o")
    case False
    then have "?C = []" by (metis (mono_tags, lifting) filter_False imageI)
    then show ?thesis using len cnt by simp
  next
    case True
    obtain us vs where seg: "?L = us @ ?C @ vs" using members_segment[OF gb _ True] S L by auto
    have "card {s \<in> set ?C. pos ?L s mod ?n = i} = card (pos ?L ` {s \<in> set ?C. pos ?L s mod ?n = i})"
    proof (rule card_image[symmetric])
      have "set ?L = set us \<union> (set ?C \<union> set vs)"
        using arg_cong[OF seg, of set] unfolding set_append .
      then have "{s \<in> set ?C. pos ?L s mod ?n = i} \<subseteq> set ?L" by blast
      then show "inj_on (pos ?L) {s \<in> set ?C. pos ?L s mod ?n = i}"
        by (rule inj_on_subset[OF inj_on_pos])
    qed
    also have "\<dots> = card {p. length us \<le> p \<and> p < length us + length ?C \<and> p mod ?n = i}"
      using pos_segment_image[of us ?C vs ?n i] dL unfolding seg[symmetric] by simp
    finally show ?thesis using card_residues_from[OF i] len cnt by (simp add: Let_def)
  qed
qed

definition abcd_strata :: "(sample_id, string) btree_map" where
  "abcd_strata = [(Ident ''a'', ''x''), (Ident ''b'', ''x''), (Ident ''c'', ''y''), (Ident ''d'', ''y'')]"

lemma stratified_split_balanced_witness:
  "list_all (\<lambda>f. length (filter (\<lambda>s. bm_get abcd_strata s = Some ''x'') (validation_sample_ids f)) \<in> {1, Suc 1})
    (folds (projr (stratified_split (\<lambda>_. []) \<lparr>skf_n_splits = 2, skf_shuffle = False, skf_seed = None\<rparr> ''k''
       [Ident ''a'', Ident ''b'', Ident ''c'', Ident ''d''] abcd_strata)))"
proof -
  let ?r = "stratified_split (\<lambda>_. []) \<lparr>skf_n_splits = 2, skf_shuffle = False, skf_seed = None\<rparr> ''k''
       [Ident ''a'', Ident ''b'', Ident ''c'', Ident ''d''] abcd_strata"
  have "\<not> isl ?r" by code_simp
  then have r: "?r = Inr (projr ?r)" by simp
  have "length (filter (\<lambda>s. bm_get abcd_strata s = Some ''x'') [Ident ''a'', Ident ''b'', Ident ''c'', Ident ''d'']) = 2"
    by code_simp
  with stratified_split_balanced[OF r, of _ "''x''"] show ?thesis
    unfolding list_all_iff by (auto simp: Let_def)
qed

end
