(* ===== verification/GroupSplit.thy ===== *)
theory GroupSplit
  imports SplitterProofs
begin

text \<open>
  Group K-fold is a splitter: the groups are assigned, largest first, to the least loaded fold, so
  a group never crosses folds, no fold is empty when there are enough groups, and the loads differ
  by at most the largest group.
\<close>

section \<open>The least loaded fold\<close>

lemma min_by_foldl:
  assumes "total_preorder_on A c" "insert y (set ys) \<subseteq> A"
  defines "m \<equiv> foldl (\<lambda>m x. if c m x = Greater then x else m) y ys"
  shows "m \<in> insert y (set ys) \<and> (\<forall>x \<in> insert y (set ys). c m x \<noteq> Greater)"
  using assms(2) unfolding m_def
proof (induction ys rule: rev_induct)
  case Nil
  have "c y y \<noteq> Greater" using total_preorder_on_flip[OF assms(1), of y y] Nil by auto
  then show ?case by simp
next
  case (snoc z ys)
  let ?m = "foldl (\<lambda>m x. if c m x = Greater then x else m) y ys"
  have IH: "?m \<in> insert y (set ys)" "\<forall>x \<in> insert y (set ys). c ?m x \<noteq> Greater"
    using snoc by auto
  have zz: "c z z \<noteq> Greater" using total_preorder_on_flip[OF assms(1), of z z] snoc.prems by auto
  show ?case
  proof (cases "c ?m z = Greater")
    case True
    then have "c z ?m \<noteq> Greater"
      using total_preorder_on_flip[OF assms(1), of ?m z] IH(1) snoc.prems by auto
    then have "c z x \<noteq> Greater" if "x \<in> insert y (set ys)" for x
      using total_preorder_on_trans[OF assms(1), of z ?m x] IH that snoc.prems by auto
    with True zz show ?thesis by simp
  next
    case False
    with IH show ?thesis by auto
  qed
qed

lemma min_by_Some:
  assumes "total_preorder_on A c" "set xs \<subseteq> A" "xs \<noteq> []"
  shows "\<exists>m. min_by c xs = Some m \<and> m \<in> set xs \<and> (\<forall>x \<in> set xs. c m x \<noteq> Greater)"
proof (cases xs)
  case (Cons y ys)
  then show ?thesis using min_by_foldl[OF assms(1), of y ys] assms(2) by (simp add: min_by_def)
qed (use assms in simp)

lemma total_preorder_load:
  "total_preorder_on A (\<lambda>l r. then_with (ord_cmp (length (snd l)) (length (snd r)))
     (ord_cmp (fst l) (fst r :: nat)))"
  by (auto simp: total_preorder_on_def ord_cmp_def then_with_def split: if_splits)

lemma least_loaded_Some:
  assumes "fv \<noteq> []"
  shows "\<exists>i. least_loaded fv = Some i \<and> i < length fv \<and>
    (\<forall>j < length fv. length (fv ! i) \<le> length (fv ! j))"
proof -
  let ?c = "\<lambda>l r. then_with (ord_cmp (length (snd l)) (length (snd r))) (ord_cmp (fst l) (fst r :: nat))"
  have ne: "enumerate 0 fv \<noteq> []" using assms by (simp add: enumerate_eq_zip)
  obtain i v where m: "min_by ?c (enumerate 0 fv) = Some (i, v)" "(i, v) \<in> set (enumerate 0 fv)"
    and min: "\<forall>x \<in> set (enumerate 0 fv). ?c (i, v) x \<noteq> Greater"
    using min_by_Some[OF total_preorder_load subset_UNIV ne] by auto
  have mem: "(j, w) \<in> set (enumerate 0 fv) \<longleftrightarrow> j < length fv \<and> w = fv ! j" for j w
    by (auto simp: in_set_enumerate_eq)
  have "length (fv ! i) \<le> length (fv ! j)" if j: "j < length fv" for j
  proof -
    have "?c (i, fv ! i) (j, fv ! j) \<noteq> Greater" using min[rule_format, of "(j, fv ! j)"] m(2) j by (simp add: mem)
    then show ?thesis by (auto simp: ord_cmp_def then_with_def split: if_splits)
  qed
  then show ?thesis using m by (auto simp: least_loaded_def mem)
qed

section \<open>The greedy assignment\<close>

text \<open>What holds after assigning the groups \<open>done\<close> to \<open>n\<close> folds, \<open>G\<close> bounding the group sizes.\<close>

definition assigned ::
  "nat \<Rightarrow> nat \<Rightarrow> (group_id \<times> sample_id list) list \<Rightarrow> sample_id list list \<Rightarrow> bool" where
  "assigned n G don fv \<longleftrightarrow>
     length fv = n \<and> mset (concat fv) = mset (concat (map snd don)) \<and>
     (\<forall>(g, xs) \<in> set don. \<exists>i < n. set xs \<subseteq> set (fv ! i)) \<and>
     (card {i. i < n \<and> fv ! i = []} + length don \<le> n \<or> {i. i < n \<and> fv ! i = []} = {}) \<and>
     (\<forall>i < n. \<forall>j < n. length (fv ! i) \<le> length (fv ! j) + G)"

lemma mset_concat_update:
  "i < length fv \<Longrightarrow> mset (concat (fv[i := fv ! i @ xs])) = mset (concat fv) + mset xs"
proof (induction fv arbitrary: i)
  case (Cons v fv)
  then show ?case by (cases i) auto
qed simp

lemma assign_group_step:
  assumes inv: "assigned n G don fv" and n: "0 < n" and ne: "xs \<noteq> []" and G: "length xs \<le> G"
  shows "\<exists>fv'. assign_group fv (g, xs) = Inr fv' \<and> assigned n G (don @ [(g, xs)]) fv'"
proof -
  have len: "length fv = n" "fv \<noteq> []" using inv n by (auto simp: assigned_def)
  obtain i where i: "least_loaded fv = Some i" "i < n" "\<forall>j < n. length (fv ! i) \<le> length (fv ! j)"
    using least_loaded_Some[OF len(2)] len(1) by auto
  let ?fv = "fv[i := fv ! i @ sort xs]"
  have run: "assign_group fv (g, xs) = Inr ?fv" using i(1) by (simp add: assign_group_def)
  have ms: "mset (concat ?fv) = mset (concat (map snd (don @ [(g, xs)])))"
    using inv mset_concat_update[of i fv "sort xs"] i(2) len(1) by (simp add: assigned_def)
  have grow: "set (fv ! j) \<subseteq> set (?fv ! j)" if "j < n" for j
    using that len(1) by (cases "j = i") auto
  have inv3: "\<forall>(g, xs) \<in> set don. \<exists>i < n. set xs \<subseteq> set (fv ! i)"
    using inv unfolding assigned_def by (elim conjE)
  have grp: "\<forall>(g', ys) \<in> set (don @ [(g, xs)]). \<exists>j < n. set ys \<subseteq> set (?fv ! j)"
  proof -
    have "\<exists>j < n. set ys \<subseteq> set (?fv ! j)" if mem: "(g', ys) \<in> set don" for g' ys
    proof -
      obtain j where j: "j < n" "set ys \<subseteq> set (fv ! j)"
        using bspec[OF inv3 mem] by auto
      with grow[OF j(1)] show ?thesis by (meson subset_trans)
    qed
    moreover have "set xs \<subseteq> set (?fv ! i)" using i(2) len(1) by simp
    ultimately show ?thesis using i(2) by auto
  qed
  let ?E = "{j. j < n \<and> fv ! j = []}" and ?E' = "{j. j < n \<and> ?fv ! j = []}"
  have "sort xs \<noteq> []" using ne by (metis set_sort set_empty)
  then have E': "?E' = ?E - {i}" using len(1) ne i(2) by (auto simp: nth_list_update split: if_splits)
  have "card ?E' + length (don @ [(g, xs)]) \<le> n \<or> ?E' = {}"
  proof (cases "?E = {}")
    case False
    then obtain j where "j < n" "fv ! j = []" by auto
    then have "fv ! i = []" using i(3) by fastforce
    then have "i \<in> ?E" using i(2) by simp
    moreover have "finite ?E" by simp
    ultimately have "Suc (card ?E') = card ?E" unfolding E' by (intro card_Suc_Diff1)
    then show ?thesis using inv False by (auto simp: assigned_def)
  qed (simp add: E')
  moreover have "\<forall>j < n. \<forall>k < n. length (?fv ! j) \<le> length (?fv ! k) + G"
  proof (intro allI impI)
    fix j k assume jk: "j < n" "k < n"
    have bal: "length (fv ! j) \<le> length (fv ! k) + G" using inv jk by (simp add: assigned_def)
    have "length (fv ! i) \<le> length (fv ! k)" using i(3) jk by simp
    then show "length (?fv ! j) \<le> length (?fv ! k) + G"
      using bal G len(1) jk by (cases "j = i"; cases "k = i") auto
  qed
  ultimately have "assigned n G (don @ [(g, xs)]) ?fv"
    using ms grp len(1) by (simp add: assigned_def)
  with run show ?thesis by blast
qed

lemma assign_groups:
  assumes "0 < n" "assigned n G don fv" "\<forall>(g, xs) \<in> set grps. xs \<noteq> [] \<and> length xs \<le> G"
  shows "\<exists>fv'. try_fold assign_group fv grps = Inr fv' \<and> assigned n G (don @ grps) fv'"
  using assms(2,3)
proof (induction grps arbitrary: don fv)
  case (Cons p grps)
  obtain g xs where p: "p = (g, xs)" by (cases p)
  obtain fv1 where "assign_group fv p = Inr fv1" "assigned n G (don @ [p]) fv1"
    using assign_group_step[OF Cons.prems(1) assms(1), of xs g] Cons.prems(2) p by auto
  with Cons.IH[of "don @ [p]" fv1] Cons.prems(2) show ?case by auto
qed simp

lemma assigned_init: "assigned n G [] (replicate n [])"
proof -
  have "{i. i < n \<and> replicate n ([] :: sample_id list) ! i = []} = {..<n}" by auto
  moreover have "concat (replicate n ([] :: sample_id list)) = []" by (induction n) simp_all
  ultimately show ?thesis by (simp add: assigned_def)
qed

section \<open>The groups\<close>

lemma collect_groups_aux:
  assumes "groups_by (\<lambda>s. the (bm_get G s)) ys m" "\<forall>(s, g) \<in> set kvs. bm_get G s = Some g"
  shows "groups_by (\<lambda>s. the (bm_get G s)) (ys @ map fst kvs) (foldl (\<lambda>m (s, g). bm_push g s m) m kvs)"
  using assms
proof (induction kvs arbitrary: ys m)
  case (Cons kv kvs)
  obtain s g where kv: "kv = (s, g)" by (cases kv)
  have "groups_by (\<lambda>s. the (bm_get G s)) (ys @ [s]) (bm_push g s m)"
    using groups_by_push[OF Cons.prems(1), of s] Cons.prems(2) kv by simp
  from Cons.IH[OF this] Cons.prems(2) kv show ?case by simp
qed simp

lemma collect_groups_ok:
  assumes "bm_ok G"
  shows "groups_by (\<lambda>s. the (bm_get G s)) (bm_keys G) (collect_groups G)"
proof -
  have "\<forall>(s, g) \<in> set G. bm_get G s = Some g"
    using bm_ok_distinct[OF assms] by (auto simp: bm_get_def)
  from collect_groups_aux[OF groups_by_Nil this] show ?thesis
    by (simp add: collect_groups_def bm_keys_def)
qed

lemma groups_by_entry:
  assumes "groups_by key xs m" "(k, ys) \<in> set m"
  shows "ys = filter (\<lambda>x. key x = k) xs \<and> ys \<noteq> []"
proof -
  have "distinct (map fst m)" using assms(1) bm_ok_distinct unfolding groups_by_def by blast
  then have "bm_get m k = Some ys" using assms(2) by (simp add: bm_get_def)
  then show ?thesis using assms(1) by (auto simp: groups_by_def filter_empty_conv split: if_splits)
qed


lemma distinct_concat_disjoint:
  assumes "distinct (concat xss)" "i < length xss" "j < length xss" "i \<noteq> j"
  shows "set (xss ! i) \<inter> set (xss ! j) = {}"
  using assms
proof (induction xss arbitrary: i j)
  case (Cons xs xss)
  have rest: "set xs \<inter> set (xss ! k) = {}" if "k < length xss" for k
    using Cons.prems(1) that nth_mem[OF that] by (auto simp del: nth_mem)
  show ?case
  proof (cases i)
    case 0
    then show ?thesis using Cons.prems rest[of "j - 1"] by (cases j) auto
  next
    case (Suc i')
    then show ?thesis
      using Cons.prems rest[of i'] Cons.IH[of i' "j - 1"] by (cases j) (auto simp: Int_commute)
  qed
qed simp

lemma concat_nth_mem_aux: "i < length xss \<Longrightarrow> x \<in> set (xss ! i) \<Longrightarrow> x \<in> set (concat xss)"
  using nth_mem by fastforce

text \<open>What group K-fold returns.\<close>

definition group_result ::
  "string \<Rightarrow> (sample_id, group_id) btree_map \<Rightarrow> sample_id list list \<Rightarrow> fold_set" where
  "group_result id' G fv =
     partition_fold_set id' (sort (bm_keys G))
       (map (\<lambda>i. named_fold i (filter (\<lambda>s. s \<notin> set (sort (fv ! i))) (sort (bm_keys G))) (sort (fv ! i)))
         [0..<length fv]) G"

lemma group_result_wf:
  assumes G: "bm_ok G" "G \<noteq> []" and id': "\<not> is_blank id'" and n: "0 < n"
    and fv: "assigned n K grps fv" "{i. i < n \<and> fv ! i = []} = {}"
    and ms: "mset (concat (map snd grps)) = mset (bm_keys G)"
    and grp: "\<forall>s \<in> set (bm_keys G). \<forall>t \<in> set (bm_keys G). bm_get G s = bm_get G t \<longrightarrow>
        (\<exists>(g, xs) \<in> set grps. s \<in> set xs \<and> t \<in> set xs)"
  shows "fold_set_wf (group_result id' G fv)"
proof -
  have len: "length fv = n" using fv(1) by (simp add: assigned_def)
  have mc: "mset (concat fv) = mset (bm_keys G)" using fv(1) ms by (simp add: assigned_def)
  have keys: "distinct (bm_keys G)" using bm_ok_distinct[OF G(1)] by (simp add: bm_keys_def)
  then have dc: "distinct (concat fv)" using mc mset_eq_imp_distinct_iff by blast
  have sc: "set (concat fv) = set (bm_keys G)" using mc by (rule mset_eq_setD)
  define cls where "cls s = (SOME i. i < n \<and> s \<in> set (fv ! i))" for s
  have ex: "\<exists>i. i < n \<and> s \<in> set (fv ! i)" if "s \<in> set (bm_keys G)" for s
    using that len unfolding sc[symmetric] by (auto simp: in_set_conv_nth) (metis nth_mem)
  have cls: "cls s < n \<and> s \<in> set (fv ! cls s)" if "s \<in> set (bm_keys G)" for s
    unfolding cls_def using someI_ex[OF ex[OF that]] .
  have uniq: "cls s = i" if "i < n" "s \<in> set (fv ! i)" for s i
  proof (rule ccontr)
    assume ne: "cls s \<noteq> i"
    have "s \<in> set (bm_keys G)" using concat_nth_mem_aux[of i fv s] that len unfolding sc by blast
    then show False using distinct_concat_disjoint[OF dc, of "cls s" i] cls[of s] that ne len by auto
  qed
  have V: "set (fv ! i) = {s \<in> set (bm_keys G). cls s = i}" if "i < n" for i
    using uniq[OF that] cls concat_nth_mem_aux[of i fv] that len unfolding sc by blast
  show ?thesis unfolding group_result_def len
  proof (rule partition_folds_wf[where cls = cls])
    fix i assume i: "i < n"
    have "distinct (fv ! i)" using dc i len by (simp add: distinct_concat_iff)
    then show "distinct (sort (fv ! i)) \<and>
        set (sort (fv ! i)) = {s \<in> set (sort (bm_keys G)). cls s = i}"
      using V[OF i] by simp
    show "distinct (filter (\<lambda>s. s \<notin> set (sort (fv ! i))) (sort (bm_keys G))) \<and>
        set (filter (\<lambda>s. s \<notin> set (sort (fv ! i))) (sort (bm_keys G))) =
        set (sort (bm_keys G)) - set (sort (fv ! i))" using keys by auto
    obtain s where "s \<in> set (fv ! i)" using fv(2) i by (cases "fv ! i") auto
    then show "\<exists>s \<in> set (sort (bm_keys G)). cls s = i" using V[OF i] by auto
  next
    fix s t g
    assume st: "s \<in> set (sort (bm_keys G))" "t \<in> set (sort (bm_keys G))"
      "bm_get G s = Some g" "bm_get G t = Some g"
    then have "\<exists>(g, xs) \<in> set grps. s \<in> set xs \<and> t \<in> set xs" using grp by simp
    then obtain g' xs where x: "(g', xs) \<in> set grps" "s \<in> set xs" "t \<in> set xs" by auto
    have "\<forall>(g, xs) \<in> set grps. \<exists>i < n. set xs \<subseteq> set (fv ! i)"
      using fv(1) unfolding assigned_def by (elim conjE)
    from bspec[OF this x(1)] obtain i where "i < n" "set xs \<subseteq> set (fv ! i)" by auto
    then show "cls s = cls t" using uniq x by (metis subsetD)
  qed (use keys cls id' n G in \<open>auto simp: bm_keys_def\<close>)
qed


section \<open>Group K-fold end to end\<close>

definition group_count :: "(sample_id, group_id) btree_map \<Rightarrow> nat" where
  "group_count G = card (snd ` set G)"

lemma larger_group_first_preorder: "total_preorder_on A larger_group_first"
  by (auto simp: total_preorder_on_def larger_group_first_def ord_cmp_def then_with_def split: if_splits)

lemma keys_collect_groups:
  assumes "bm_ok G"
  shows "set (bm_keys (collect_groups G)) = snd ` set G" "length (collect_groups G) = group_count G"
proof -
  have gb: "groups_by (\<lambda>s. the (bm_get G s)) (bm_keys G) (collect_groups G)"
    by (rule collect_groups_ok[OF assms])
  have "(\<lambda>s. the (bm_get G s)) ` set (bm_keys G) = snd ` set G"
  proof -
    have "the (bm_get G (fst kv)) = snd kv" if "kv \<in> set G" for kv
    proof -
      have "map_of G (fst kv) = Some (snd kv)"
        by (rule map_of_is_SomeI[OF bm_ok_distinct[OF assms]]) (use that in simp)
      then show ?thesis by (simp add: bm_get_def)
    qed
    then show ?thesis by (simp add: bm_keys_def image_image)
  qed
  moreover have "set (bm_keys (collect_groups G)) = (\<lambda>s. the (bm_get G s)) ` set (bm_keys G)"
    using gb unfolding set_bm_keys groups_by_def by (auto simp: dom_def)
  ultimately show k: "set (bm_keys (collect_groups G)) = snd ` set G" by simp
  have "distinct (bm_keys (collect_groups G))"
    using gb bm_ok_distinct by (auto simp: groups_by_def bm_keys_def)
  then have "length (bm_keys (collect_groups G)) = card (snd ` set G)"
    using k distinct_card by metis
  then show "length (collect_groups G) = group_count G" by (simp add: group_count_def bm_keys_def)
qed

lemma group_folds_total:
  assumes "length fv = unat (w :: 64 word)"
  shows "try_map (group_fold samples) (enumerate 0 fv) =
    Inr (map (\<lambda>i. named_fold i (filter (\<lambda>s. s \<notin> set (sort (fv ! i))) samples) (sort (fv ! i)))
      [0..<length fv])"
proof -
  let ?H = "\<lambda>p. named_fold (fst p) (filter (\<lambda>s. s \<notin> set (sort (snd p))) samples) (sort (snd p))"
  have A: "try_map (group_fold samples) (enumerate 0 fv) = Inr (map ?H (enumerate 0 fv))"
    by (rule try_map_total)
      (auto simp: group_fold_def Let_def in_set_enumerate_eq assms numbered_fold_ok[where n = w])
  have B: "map ?H (enumerate 0 fv) =
      map (\<lambda>i. named_fold i (filter (\<lambda>s. s \<notin> set (sort (fv ! i))) samples) (sort (fv ! i)))
        [0..<length fv]"
    by (rule nth_equalityI) (simp_all add: nth_enumerate_eq)
  show ?thesis unfolding A B ..
qed

lemma mset_concat_map_cong:
  assumes "mset xs = mset ys"
  shows "mset (concat (map f xs)) = mset (concat (map f ys))"
proof -
  have "mset (concat (map f zs)) = sum_mset (image_mset (\<lambda>x. mset (f x)) (mset zs))" for zs
    by (induction zs) simp_all
  then show ?thesis using assms by simp
qed

lemma group_split_run:
  assumes G: "bm_ok G" "G \<noteq> []" and n: "2 \<le> unat (gkf_n_splits spec)"
    "unat (gkf_n_splits spec) \<le> group_count G"
    and big: "\<forall>g. length (filter (\<lambda>s. bm_get G s = Some g) (bm_keys G)) \<le> K"
  shows "\<exists>fv. length fv = unat (gkf_n_splits spec) \<and>
    (\<forall>i < length fv. \<forall>j < length fv. length (fv ! i) \<le> length (fv ! j) + K) \<and>
    group_split spec id' G = validated (group_result id' G fv) \<and>
    (\<not> is_blank id' \<longrightarrow> fold_set_wf (group_result id' G fv))"
proof -
  let ?n = "unat (gkf_n_splits spec)"
  let ?key = "\<lambda>s. the (bm_get G s)"
  let ?grps = "sort_by larger_group_first (collect_groups G)"
  have gb: "groups_by ?key (bm_keys G) (collect_groups G)" by (rule collect_groups_ok[OF G(1)])
  have dom: "bm_get G s = Some g \<longleftrightarrow> ?key s = g" if "s \<in> set (bm_keys G)" for s g
    using that by (auto simp: set_bm_keys)
  have entry: "ys = filter (\<lambda>x. ?key x = g) (bm_keys G) \<and> ys \<noteq> []" if "(g, ys) \<in> set ?grps" for g ys
    using groups_by_entry[OF gb] that by simp
  have small: "\<forall>(g, ys) \<in> set ?grps. ys \<noteq> [] \<and> length ys \<le> K"
  proof (clarify)
    fix g ys assume "(g, ys) \<in> set ?grps"
    from entry[OF this] have ys: "ys = filter (\<lambda>x. ?key x = g) (bm_keys G)" "ys \<noteq> []" by auto
    have "filter (\<lambda>x. ?key x = g) (bm_keys G) = filter (\<lambda>s. bm_get G s = Some g) (bm_keys G)"
      by (rule filter_cong) (auto simp: dom)
    then show "ys \<noteq> [] \<and> length ys \<le> K" using ys big by metis
  qed
  have n0: "0 < ?n" using n(1) by linarith
  obtain fv where fv: "try_fold assign_group (replicate ?n []) ?grps = Inr fv"
    "assigned ?n K ([] @ ?grps) fv"
    using assign_groups[OF n0 assigned_init small] by (elim exE conjE)
  have len: "length fv = ?n" using fv(2) by (simp add: assigned_def)
  have lg: "length ?grps = group_count G" using keys_collect_groups(2)[OF G(1)] by simp
  have full: "{i. i < ?n \<and> fv ! i = []} = {}"
  proof (rule ccontr)
    assume ne: "{i. i < ?n \<and> fv ! i = []} \<noteq> {}"
    then have "card {i. i < ?n \<and> fv ! i = []} \<noteq> 0" by simp
    moreover have "card {i. i < ?n \<and> fv ! i = []} + length ?grps \<le> ?n"
      using fv(2) ne unfolding assigned_def append_Nil by (elim conjE disjE) auto
    ultimately show False using lg n(2) by linarith
  qed
  have "mset (concat (map snd ?grps)) = mset (bm_members (collect_groups G))"
    unfolding bm_members_def by (rule mset_concat_map_cong) simp
  then have ms: "mset (concat (map snd ?grps)) = mset (bm_keys G)" using gb by (simp add: groups_by_def)
  have same: "\<forall>s \<in> set (bm_keys G). \<forall>t \<in> set (bm_keys G). bm_get G s = bm_get G t \<longrightarrow>
      (\<exists>(g, xs) \<in> set ?grps. s \<in> set xs \<and> t \<in> set xs)"
  proof (intro ballI impI)
    fix s t assume st: "s \<in> set (bm_keys G)" "t \<in> set (bm_keys G)" "bm_get G s = bm_get G t"
    have "bm_get (collect_groups G) (?key s) = Some (filter (\<lambda>x. ?key x = ?key s) (bm_keys G))"
      using gb st(1) by (simp add: groups_by_def)
    then have "(?key s, filter (\<lambda>x. ?key x = ?key s) (bm_keys G)) \<in> set ?grps"
      by (simp add: bm_get_def map_of_SomeD)
    then show "\<exists>(g, xs) \<in> set ?grps. s \<in> set xs \<and> t \<in> set xs"
      using st by (intro bexI[of _ "(?key s, filter (\<lambda>x. ?key x = ?key s) (bm_keys G))"]) auto
  qed
  have run: "group_split spec id' G = validated (group_result id' G fv)"
    using n G(2) keys_collect_groups(2)[OF G(1)] fv(1) group_folds_total[OF len, of "sort (bm_keys G)"]
    by (simp add: group_split_def Let_def group_result_def)
  have wf: "fold_set_wf (group_result id' G fv)" if "\<not> is_blank id'"
    using group_result_wf[OF G that _ fv(2) full] n(1) ms same by simp
  have bal: "\<forall>i < length fv. \<forall>j < length fv. length (fv ! i) \<le> length (fv ! j) + K"
    using fv(2) len unfolding assigned_def by (elim conjE) simp
  show ?thesis using len bal run wf by blast
qed


lemma group_result_simps [simp]:
  "fs_id (group_result id' G fv) = id'"
  "sample_ids (group_result id' G fv) = sort (bm_keys G)"
  "partition_mode (group_result id' G fv) = Partition"
  "train_exclusion (group_result id' G fv) = Relations"
  "target_missing_sample_ids (group_result id' G fv) = []"
  "sample_groups (group_result id' G fv) = G"
  "length (folds (group_result id' G fv)) = length fv"
  by (simp_all add: group_result_def partition_fold_set_def)

lemma group_result_folds:
  "f \<in> set (folds (group_result id' G fv)) \<Longrightarrow>
   set (train_sample_ids f) = set (bm_keys G) - set (validation_sample_ids f)"
  by (auto simp: group_result_def partition_fold_set_def)

text \<open>The size of the largest group.\<close>

definition largest_group :: "(sample_id, group_id) btree_map \<Rightarrow> nat" where
  "largest_group G =
     Max (insert 0 ((\<lambda>g. length (filter (\<lambda>s. bm_get G s = Some g) (bm_keys G))) ` snd ` set G))"

lemma largest_group_bound: "length (filter (\<lambda>s. bm_get G s = Some g) (bm_keys G)) \<le> largest_group G"
proof (cases "g \<in> snd ` set G")
  case True
  then show ?thesis unfolding largest_group_def by (intro Max_ge) auto
next
  case False
  have "filter (\<lambda>s. bm_get G s = Some g) (bm_keys G) = []"
    using False by (auto simp: filter_empty_conv bm_get_def dest!: map_of_SomeD) (metis image_eqI snd_conv)
  then show ?thesis by simp
qed

text \<open>\<open>group_split\<close> succeeds exactly with two or more splits, enough groups and a non-blank id.\<close>

lemma group_split_ok:
  assumes "bm_ok G"
  shows "(\<exists>fs. group_split spec id' G = Inr fs) \<longleftrightarrow>
     2 \<le> unat (gkf_n_splits spec) \<and> G \<noteq> [] \<and> unat (gkf_n_splits spec) \<le> group_count G \<and>
     \<not> is_blank id'" (is "?L \<longleftrightarrow> ?R")
proof
  assume ?L
  then have pre: "2 \<le> unat (gkf_n_splits spec)" "G \<noteq> []" "unat (gkf_n_splits spec) \<le> group_count G"
    using keys_collect_groups(2)[OF assms]
    by (auto simp: group_split_def Let_def split: if_splits)
  from group_split_run[OF assms pre(2,1,3), of _ id'] largest_group_bound
  obtain fv where "group_split spec id' G = validated (group_result id' G fv)" by blast
  with \<open>?L\<close> obtain fs where "validated (group_result id' G fv) = Inr fs" by auto
  then have "\<not> is_blank id'" by (auto simp: validated_ok fold_set_wf_def)
  then show ?R using pre by blast
next
  assume R: ?R
  from group_split_run[OF assms, of spec "largest_group G" id'] R largest_group_bound
  obtain fv where "group_split spec id' G = validated (group_result id' G fv)"
    "fold_set_wf (group_result id' G fv)" by blast
  then show ?L by (simp add: validated_def ok_iff)
qed

lemma group_split_result:
  assumes "bm_ok G" "group_split spec id' G = Inr fs"
  shows "\<exists>fv. fs = group_result id' G fv \<and> fold_set_wf fs \<and> length fv = unat (gkf_n_splits spec) \<and>
    (\<forall>i < length fv. \<forall>j < length fv. length (fv ! i) \<le> length (fv ! j) + largest_group G)"
proof -
  have pre: "2 \<le> unat (gkf_n_splits spec)" "G \<noteq> []" "unat (gkf_n_splits spec) \<le> group_count G"
    using group_split_ok[OF assms(1), of spec id'] assms(2) by auto
  from group_split_run[OF assms(1) pre(2,1,3), of "largest_group G" id'] largest_group_bound
  obtain fv where fv: "length fv = unat (gkf_n_splits spec)"
    "\<forall>i < length fv. \<forall>j < length fv. length (fv ! i) \<le> length (fv ! j) + largest_group G"
    "group_split spec id' G = validated (group_result id' G fv)" by blast
  have "validated (group_result id' G fv) = Inr fs" using fv(3) assms(2) by simp
  then have "fs = group_result id' G fv" "fold_set_wf fs" by (auto simp: validated_ok)
  with fv show ?thesis by blast
qed

text \<open>
  The contract asks for a map in key order, which is the representation invariant of
  \<open>BTreeMap\<close>; the interpretation restricts the splitter to such maps.
\<close>

definition group_split_on :: "group_kfold_spec \<Rightarrow> string \<Rightarrow> (sample_id, group_id) btree_map \<Rightarrow> fold_set result"
where
  "group_split_on spec id' G =
     (if bm_ok G then group_split spec id' G else Inl (Panic (ExpectFailed ''not a BTreeMap'')))"

interpretation group: splitter group_split_on "\<lambda>G. set (bm_keys G)"
proof (unfold_locales, goal_cases)
  case (1 c id' i fs)
  then show ?case using group_split_result by (auto simp: group_split_on_def split: if_splits)
next
  case (2 c id' i fs)
  then show ?case using group_split_result by (fastforce simp: group_split_on_def split: if_splits)
next
  case (3 c id' i fs)
  then show ?case using group_split_result by (fastforce simp: group_split_on_def split: if_splits)
next
  case (4 c id' i fs f)
  then have "bm_ok i" "group_split c id' i = Inr fs" by (auto simp: group_split_on_def split: if_splits)
  from group_split_result[OF this] obtain fv where "fs = group_result id' i fv" by blast
  then show ?case using 4(2) group_result_folds by simp
qed

text \<open>C35: group K-fold never puts one group on both sides of a fold: when a split is returned, no
  group of a training sample is the group of a validation sample of the same fold, and every sample
  is validated by exactly one fold.\<close>

theorem group_split_no_group_leak:
  assumes "bm_ok G" "group_split spec id' G = Inr fs" "f \<in> set (folds fs)"
    "t \<in> set (train_sample_ids f)" "v \<in> set (validation_sample_ids f)"
  shows "bm_get G t \<noteq> bm_get G v \<and> validation_count (folds fs) v = 1"
proof -
  obtain fv where fs: "fs = group_result id' G fv" "fold_set_wf fs"
    using group_split_result[OF assms(1,2)] by auto
  then have ok: "fold_ok fs f" and G: "sample_groups fs = G" "set (sample_ids fs) = set (bm_keys G)"
    using assms(3) by (auto simp: fold_set_wf_def)
  then have mem: "t \<in> set (bm_keys G)" "v \<in> set (bm_keys G)"
    using assms(4,5) by (auto simp: fold_ok_def)
  then obtain g where "bm_get G t = Some g" by (auto simp: set_bm_keys)
  then have "bm_get G t \<noteq> bm_get G v" using ok G(1) assms(4,5) by (metis fold_ok_def)
  moreover have "validation_count (folds fs) v = 1"
    using group.validated_once[of spec id' G fs v] assms(1,2) mem by (simp add: group_split_on_def)
  ultimately show ?thesis by blast
qed

text \<open>Two groups over three samples, and their split, used to instantiate the theorems.\<close>

definition abc_groups :: "(sample_id, group_id) btree_map" where
  "abc_groups = [(Ident ''a'', Ident ''x''), (Ident ''b'', Ident ''x''), (Ident ''c'', Ident ''y'')]"

definition abc_group_folds :: fold_set where
  "abc_group_folds = \<lparr>fs_id = ''k'', sample_ids = [Ident ''a'', Ident ''b'', Ident ''c''],
     folds = [
       \<lparr>fold_id = Ident ''fold0'', train_sample_ids = [Ident ''c''],
        validation_sample_ids = [Ident ''a'', Ident ''b''], fa_metadata = []\<rparr>,
       \<lparr>fold_id = Ident ''fold1'', train_sample_ids = [Ident ''a'', Ident ''b''],
        validation_sample_ids = [Ident ''c''], fa_metadata = []\<rparr>],
     sample_groups = abc_groups, partition_mode = Partition, train_exclusion = Relations,
     target_missing_sample_ids = []\<rparr>"

lemma group_split_no_group_leak_witness:
  "bm_get abc_groups (Ident ''c'') \<noteq> bm_get abc_groups (Ident ''b'') \<and>
   validation_count (folds abc_group_folds) (Ident ''b'') = 1"
proof -
  have "group_split \<lparr>gkf_n_splits = 2\<rparr> ''k'' abc_groups = Inr abc_group_folds" "bm_ok abc_groups"
    by code_simp+
  from group_split_no_group_leak[OF this(2,1), of "folds abc_group_folds ! 0"] show ?thesis
    by (simp add: abc_group_folds_def)
qed

text \<open>group K-fold on a map of groups succeeds exactly with at least two splits, as many
  distinct groups as splits and a non-blank id; it is then well-formed, and two folds' validation
  sizes differ by at most the size of the largest group.\<close>

theorem group_split_spec:
  assumes "bm_ok G"
  shows "(\<exists>fs. group_split spec id' G = Inr fs \<and> fold_set_wf fs \<and>
      length (folds fs) = unat (gkf_n_splits spec) \<and>
      list_all (\<lambda>f. list_all (\<lambda>f'. length (validation_sample_ids f)
         \<le> length (validation_sample_ids f') + largest_group G) (folds fs)) (folds fs))
    \<longleftrightarrow> 2 \<le> unat (gkf_n_splits spec) \<and> G \<noteq> [] \<and>
      unat (gkf_n_splits spec) \<le> group_count G \<and> \<not> is_blank id'" (is "?L \<longleftrightarrow> ?R")
proof
  assume ?R
  then obtain fs where fs: "group_split spec id' G = Inr fs" using group_split_ok[OF assms] by blast
  obtain fv where fv: "fs = group_result id' G fv" "fold_set_wf fs" "length fv = unat (gkf_n_splits spec)"
    "\<forall>i < length fv. \<forall>j < length fv. length (fv ! i) \<le> length (fv ! j) + largest_group G"
    using group_split_result[OF assms fs] by blast
  have val: "\<exists>i < length fv. validation_sample_ids f = sort (fv ! i)" if "f \<in> set (folds fs)" for f
    using that fv(1) by (auto simp: group_result_def partition_fold_set_def)
  have "length (validation_sample_ids f) \<le> length (validation_sample_ids f') + largest_group G"
    if ff: "f \<in> set (folds fs)" "f' \<in> set (folds fs)" for f f'
    using val[OF ff(1)] val[OF ff(2)] fv(4) by auto
  then show ?L using fs fv by (auto simp: list_all_iff)
next
  assume ?L
  then show ?R using group_split_ok[OF assms] by blast
qed

lemma group_split_spec_witness:
  "\<exists>fs. group_split \<lparr>gkf_n_splits = 2\<rparr> ''k'' abc_groups = Inr fs \<and> fold_set_wf fs"
proof -
  have "bm_ok abc_groups" "2 \<le> group_count abc_groups" "\<not> is_blank ''k''" "abc_groups \<noteq> []" by code_simp+
  then show ?thesis using group_split_spec[of abc_groups "\<lparr>gkf_n_splits = 2\<rparr>" "''k''"] by auto
qed

end
