(* ===== verification/NestedCv.thy ===== *)
theory NestedCv
  imports GroupSplit
begin

text \<open>
  \<open>fold.rs\<close>, nested cross-validation and the target-missing variants of the splitters: the inner
  fold set of one outer fold is built from its training samples only. The facts about the inner
  split come from the \<open>splitter\<close> contract.
\<close>

section \<open>Splitting with target-missing samples\<close>

lemma observed_universe_ok [ok_iff]:
  "observed_universe id' cs m n unit_of = Inr obs \<longleftrightarrow>
     set m \<subseteq> set cs \<and> obs = sorted_list_of_set (set cs - set m) \<and> set cs - set m \<noteq> {} \<and>
     (m \<noteq> [] \<longrightarrow> n \<le> card (unit_of ` (set cs - set m)))"
  by (auto simp: observed_universe_def Let_def ok_iff sorted_list_of_set_eq_Nil_iff)

text \<open>K-fold over the target-observed samples succeeds exactly when the samples and the missing
  ids are duplicate-free, every missing id is a sample, and the observed samples can fill two or
  more splits.\<close>

theorem kfold_target_missing_spec:
  "(\<exists>fs. kfold_split_with_target_missing h spec id' samples m = Inr fs \<and> fold_set_wf fs \<and>
      set (sample_ids fs) = set samples - set m \<and> target_missing_sample_ids fs = m) \<longleftrightarrow>
   distinct samples \<and> distinct m \<and> set m \<subseteq> set samples \<and> \<not> is_blank id' \<and>
   2 \<le> unat (kf_n_splits spec) \<and> unat (kf_n_splits spec) \<le> card (set samples - set m)"
  (is "?L \<longleftrightarrow> ?R")
proof
  assume ?L
  then show ?R
    using kfold.split_then_declare[of "(h, spec)" id' "sorted_list_of_set (set samples - set m)" m]
    by (auto simp: kfold_split_with_target_missing_def ok_iff)
next
  assume R: ?R
  let ?obs = "sorted_list_of_set (set samples - set m)"
  have "set samples - set m \<noteq> {}" using R by (metis card.empty not_numeral_le_zero order_trans)
  then have obs: "observed_universe id' samples m (unat (kf_n_splits spec)) (\<lambda>s. s) = Inr ?obs"
    using R by (simp add: observed_universe_ok)
  have "\<exists>fs. and_then (kfold_split h spec id' ?obs) (\<lambda>fs. declare_target_missing fs m) = Inr fs"
    using kfold.split_then_declare[of "(h, spec)" id' ?obs m] R by (auto simp: kfold_split_ok)
  then obtain fs where fs: "and_then (kfold_split h spec id' ?obs) (\<lambda>fs. declare_target_missing fs m) = Inr fs"
    by blast
  then have "kfold_split_with_target_missing h spec id' samples m = Inr fs"
    using R obs by (simp add: kfold_split_with_target_missing_def)
  then show ?L using kfold.split_then_declare_wf[of "(h, spec)" id' ?obs m fs] fs by auto
qed

section \<open>The nested policy\<close>

record capacity_kfold_spec =
  ck_min_splits :: "64 word"
  ck_max_splits :: "64 word"
  ck_shuffle :: bool
  ck_seed :: "64 word option"

record stratified_nested_cv_spec =
  sn_splitter :: stratified_kfold_spec
  sn_strata :: "(sample_id, string) btree_map"

datatype (plugins only: code size) nested_cv_spec =
    KFold kfold_spec
  | CapacityKFold capacity_kfold_spec
  | GroupKFold group_kfold_spec
  | StratifiedKFold stratified_nested_cv_spec

record nested_fold_set =
  parent_outer_fold_id :: fold_id
  inner_fold_set :: fold_set

definition nested_cv_validate :: "nested_cv_spec \<Rightarrow> unit result" where
  "nested_cv_validate spec = (case spec of
      KFold k \<Rightarrow> if kf_n_splits k < 2 then fold_err InnerKFoldTooFewSplits else Inr ()
    | CapacityKFold c \<Rightarrow>
        if ck_min_splits c < 2 \<or> ck_max_splits c < ck_min_splits c
        then fold_err CapacityKFoldBounds else Inr ()
    | GroupKFold g \<Rightarrow> if gkf_n_splits g < 2 then fold_err InnerGroupKFoldTooFewSplits else Inr ()
    | StratifiedKFold s \<Rightarrow>
        if skf_n_splits (sn_splitter s) < 2 then fold_err InnerStratifiedTooFewSplits
        else if sn_strata s = [] \<or> list_ex (\<lambda>kv. snd kv = []) (sn_strata s)
        then fold_err InnerStratifiedEmptyStrata else Inr ())"

definition validate_inner_fold_set_within_outer :: "fold_set \<Rightarrow> fold_assignment \<Rightarrow> unit result" where
  "validate_inner_fold_set_within_outer inner outer =
     and_then (fold_set_validate inner) (\<lambda>_.
     let train = set (train_sample_ids outer);
         ensure_train = (\<lambda>s. ensure (s \<in> train)
           (Err (OofValidation (FoldMsg (NestedLeakage (as_str s) (as_str (fold_id outer)))))))
     in and_then (try_each ensure_train (sample_ids inner)) (\<lambda>_.
        try_each (\<lambda>f. try_each ensure_train (train_sample_ids f @ validation_sample_ids f))
          (folds inner)))"

definition validate_for_outer :: "nested_fold_set \<Rightarrow> fold_assignment \<Rightarrow> unit result" where
  "validate_for_outer nested outer =
     (if parent_outer_fold_id nested \<noteq> fold_id outer
      then fold_err (NestedParentMismatch (as_str (parent_outer_fold_id nested)) (as_str (fold_id outer)))
      else validate_inner_fold_set_within_outer (inner_fold_set nested) outer)"

definition inner_split ::
  "digest \<Rightarrow> nested_cv_spec \<Rightarrow> string \<Rightarrow> fold_assignment \<Rightarrow> (sample_id, group_id) btree_map
   \<Rightarrow> fold_set result" where
  "inner_split h spec inner_id outer outer_groups = (case spec of
      KFold k \<Rightarrow> kfold_split h k inner_id (train_sample_ids outer)
    | CapacityKFold _ \<Rightarrow> fold_err CapacityKFoldUnresolved
    | GroupKFold g \<Rightarrow>
        let train = set (train_sample_ids outer);
            inner_groups = bm_collect (filter (\<lambda>(s, _). s \<in> train) outer_groups)
        in group_split g inner_id inner_groups
    | StratifiedKFold s \<Rightarrow>
        let train = set (train_sample_ids outer);
            inner_strata = bm_collect (filter (\<lambda>(x, _). x \<in> train) (sn_strata s))
        in stratified_split h (sn_splitter s) inner_id (train_sample_ids outer) inner_strata)"

text \<open>\<open>FoldId::new(format!("{}.inner.{}", outer.fold_id, fold.fold_id))?\<close> on every inner fold.\<close>

definition namespace_fold :: "fold_assignment \<Rightarrow> fold_assignment \<Rightarrow> fold_assignment result" where
  "namespace_fold outer f =
     and_then (ident_new (as_str (fold_id outer) @ ''.inner.'' @ as_str (fold_id f))) (\<lambda>fid.
       Inr (f\<lparr>fold_id := fid\<rparr>))"

definition is_group_kfold :: "nested_cv_spec \<Rightarrow> bool" where
  "is_group_kfold spec = (case spec of GroupKFold _ \<Rightarrow> True | _ \<Rightarrow> False)"

definition build_nested_fold_set ::
  "digest \<Rightarrow> nested_cv_spec \<Rightarrow> fold_assignment \<Rightarrow> (sample_id, group_id) btree_map
   \<Rightarrow> nested_fold_set result" where
  "build_nested_fold_set h spec outer outer_groups =
     (if outer_groups \<noteq> [] \<and> \<not> is_group_kfold spec then fold_err GroupedNeedsGroupAwareInner
      else
        let inner_id = as_str (fold_id outer) @ ''.inner'' in
        and_then (inner_split h spec inner_id outer outer_groups) (\<lambda>inner.
        and_then (try_map (namespace_fold outer) (folds inner)) (\<lambda>fls.
        let nested = \<lparr>parent_outer_fold_id = fold_id outer, inner_fold_set = inner\<lparr>folds := fls\<rparr>\<rparr>
        in and_then (validate_for_outer nested outer) (\<lambda>_. Inr nested))))"

definition build_inner_fold_set ::
  "digest \<Rightarrow> nested_cv_spec \<Rightarrow> fold_assignment \<Rightarrow> (sample_id, group_id) btree_map \<Rightarrow> fold_set result" where
  "build_inner_fold_set h spec outer outer_groups =
     and_then (build_nested_fold_set h spec outer outer_groups) (\<lambda>n. Inr (inner_fold_set n))"

definition resolve_inner_cv :: "nested_cv_spec option \<Rightarrow> nested_cv_spec option \<Rightarrow> nested_cv_spec option" where
  "resolve_inner_cv node campaign = (case node of None \<Rightarrow> campaign | Some s \<Rightarrow> Some s)"

text \<open>\<open>FoldSet::nested_fold_set\<close>: the inner set inherits the exclusion authority and the missing ids.\<close>

definition fold_set_nested_fold_set ::
  "digest \<Rightarrow> fold_set \<Rightarrow> nested_cv_spec \<Rightarrow> fold_assignment \<Rightarrow> nested_fold_set result" where
  "fold_set_nested_fold_set h fs spec outer =
     and_then (build_nested_fold_set h spec outer (sample_groups fs)) (\<lambda>nested.
     let inner = (inner_fold_set nested)\<lparr>train_exclusion := train_exclusion fs,
           target_missing_sample_ids := target_missing_sample_ids fs\<rparr>
     in and_then (fold_set_validate inner) (\<lambda>_. Inr (nested\<lparr>inner_fold_set := inner\<rparr>)))"

section \<open>No leakage into the inner folds\<close>

lemma validate_inner_ok [ok_iff]:
  "validate_inner_fold_set_within_outer inner outer = Inr u \<longleftrightarrow>
     fold_set_wf inner \<and> set (sample_ids inner) \<subseteq> set (train_sample_ids outer)"
  by (auto simp: validate_inner_fold_set_within_outer_def ok_iff Let_def fold_set_wf_def fold_ok_def subset_iff)

lemma namespace_folds_ok:
  "try_map (namespace_fold outer) fls = Inr fls' \<Longrightarrow>
   map train_sample_ids fls' = map train_sample_ids fls \<and>
   map validation_sample_ids fls' = map validation_sample_ids fls \<and>
   map (as_str \<circ> fold_id) fls' =
     map (\<lambda>f. as_str (fold_id outer) @ ''.inner.'' @ as_str (fold_id f)) fls"
  by (induction fls arbitrary: fls') (auto simp: namespace_fold_def ok_iff and_then_ok)

lemma build_nested_okD:
  assumes "build_nested_fold_set h spec outer G = Inr n"
  shows "parent_outer_fold_id n = fold_id outer" "fold_set_wf (inner_fold_set n)"
    "set (sample_ids (inner_fold_set n)) \<subseteq> set (train_sample_ids outer)"
    "\<exists>inner. inner_split h spec (as_str (fold_id outer) @ ''.inner'') outer G = Inr inner \<and>
       sample_ids (inner_fold_set n) = sample_ids inner"
  using assms
  by (auto simp: build_nested_fold_set_def validate_for_outer_def ok_iff Let_def split: if_splits)

text \<open>C10: nested cross-validation cannot leak: for a fold of a valid fold set, every sample of the
  inner universe, and of every inner training and validation list, is a training sample of the
  outer fold; none is one of its validation samples and none is target-missing.\<close>

theorem nested_fold_set_no_leak:
  assumes "fold_set_wf fs" "outer \<in> set (folds fs)"
    and "fold_set_nested_fold_set h fs spec outer = Inr n"
    and "s \<in> set (sample_ids (inner_fold_set n)) \<or>
      (\<exists>f \<in> set (folds (inner_fold_set n)). s \<in> set (train_sample_ids f @ validation_sample_ids f))"
  shows "parent_outer_fold_id n = fold_id outer \<and> fold_set_wf (inner_fold_set n) \<and>
    s \<in> set (train_sample_ids outer) \<and> s \<notin> set (validation_sample_ids outer) \<and>
    s \<notin> set (target_missing_sample_ids fs)"
proof -
  obtain m where m: "build_nested_fold_set h spec outer (sample_groups fs) = Inr m"
    "n = m\<lparr>inner_fold_set := (inner_fold_set m)\<lparr>train_exclusion := train_exclusion fs,
       target_missing_sample_ids := target_missing_sample_ids fs\<rparr>\<rparr>"
    "fold_set_wf (inner_fold_set n)"
    using assms(3) by (auto simp: fold_set_nested_fold_set_def ok_iff Let_def)
  note B = build_nested_okD[OF m(1)]
  have n: "sample_ids (inner_fold_set n) = sample_ids (inner_fold_set m)"
    "parent_outer_fold_id n = parent_outer_fold_id m"
    unfolding m(2) by simp_all
  have ok: "fold_ok fs outer" using assms(1,2) by (simp add: fold_set_wf_def)
  have "\<forall>f\<in>set (folds (inner_fold_set n)). fold_ok (inner_fold_set n) f"
    using m(3) by (simp add: fold_set_wf_def)
  then have "s \<in> set (sample_ids (inner_fold_set n))"
    using assms(4) by (auto simp: fold_ok_def)
  then have s: "s \<in> set (train_sample_ids outer)" using B(3) n(1) by (metis subsetD)
  have "set (train_sample_ids outer) \<inter> set (validation_sample_ids outer) = {}"
    "set (train_sample_ids outer) \<subseteq> set (sample_ids fs)"
    using ok by (auto simp: fold_ok_def)
  moreover have "set (sample_ids fs) \<inter> set (target_missing_sample_ids fs) = {}"
    using assms(1) by (auto simp: fold_set_wf_def)
  ultimately show ?thesis using s B(1) n(2) m(3) by (metis disjoint_iff subsetD)
qed

text \<open>Two folds over four samples with one target-missing sample, and a two-fold inner policy.\<close>

definition outer_folds :: fold_set where
  "outer_folds = abc_folds\<lparr>sample_ids := [Ident ''a'', Ident ''b'', Ident ''c'', Ident ''d''],
     folds := [
       \<lparr>fold_id = Ident ''fold0'', train_sample_ids = [Ident ''a'', Ident ''b''],
        validation_sample_ids = [Ident ''c'', Ident ''d''], fa_metadata = []\<rparr>,
       \<lparr>fold_id = Ident ''fold1'', train_sample_ids = [Ident ''c'', Ident ''d''],
        validation_sample_ids = [Ident ''a'', Ident ''b''], fa_metadata = []\<rparr>],
     target_missing_sample_ids := [Ident ''m'']\<rparr>"

definition inner_two_fold :: nested_cv_spec where
  "inner_two_fold = KFold \<lparr>kf_n_splits = 2, kf_shuffle = False, kf_seed = None\<rparr>"

lemma nested_fold_set_no_leak_witness:
  "\<exists>n. fold_set_nested_fold_set (\<lambda>_. []) outer_folds inner_two_fold (folds outer_folds ! 0) = Inr n \<and>
     fold_set_wf (inner_fold_set n) \<and> Ident ''a'' \<notin> set (validation_sample_ids (folds outer_folds ! 0))"
proof -
  let ?r = "fold_set_nested_fold_set (\<lambda>_. []) outer_folds inner_two_fold (folds outer_folds ! 0)"
  have wf: "fold_set_wf outer_folds"
    unfolding fold_set_validate_ok[symmetric, of _ "()"] by code_simp
  have mem: "folds outer_folds ! 0 \<in> set (folds outer_folds)" by (simp add: outer_folds_def)
  have "\<not> isl ?r" by code_simp
  then have r: "?r = Inr (projr ?r)" by simp
  have "Ident ''a'' \<in> set (sample_ids (inner_fold_set (projr ?r)))" by code_simp
  from nested_fold_set_no_leak[OF wf mem r disjI1, OF this] r show ?thesis by blast
qed

text \<open>inheriting the target-missing declaration and the exclusion authority never makes the
  inner set invalid: for a fold of a valid fold set, \<open>FoldSet::nested_fold_set\<close> succeeds exactly
  when the policy's \<open>build_nested_fold_set\<close> does.\<close>

theorem nested_fold_set_inherits:
  assumes "fold_set_wf fs" "outer \<in> set (folds fs)"
  shows "fold_set_nested_fold_set h fs spec outer =
    and_then (build_nested_fold_set h spec outer (sample_groups fs)) (\<lambda>m.
      Inr (m\<lparr>inner_fold_set := (inner_fold_set m)\<lparr>train_exclusion := train_exclusion fs,
        target_missing_sample_ids := target_missing_sample_ids fs\<rparr>\<rparr>))"
proof (cases "build_nested_fold_set h spec outer (sample_groups fs)")
  case (Inr m)
  note B = build_nested_okD[OF Inr]
  let ?inner = "(inner_fold_set m)\<lparr>train_exclusion := train_exclusion fs,
      target_missing_sample_ids := target_missing_sample_ids fs\<rparr>"
  have "fold_ok fs outer" "set (target_missing_sample_ids fs) \<inter> set (sample_ids fs) = {}"
    "distinct (target_missing_sample_ids fs)"
    using assms by (auto simp: fold_set_wf_def)
  moreover have "set (sample_ids (inner_fold_set m)) \<subseteq> set (sample_ids fs)"
    using B(3) calculation(1) by (auto simp: fold_ok_def)
  ultimately have "fold_set_wf ?inner"
    using B(2) by (auto simp: fold_set_wf_def fold_ok_def)
  then have "fold_set_validate ?inner = Inr ()" by (simp add: fold_set_validate_ok)
  then show ?thesis using Inr by (simp add: fold_set_nested_fold_set_def Let_def)
qed (simp add: fold_set_nested_fold_set_def)

lemma nested_fold_set_inherits_witness:
  "fold_set_nested_fold_set (\<lambda>_. []) outer_folds inner_two_fold (folds outer_folds ! 0) =
    and_then (build_nested_fold_set (\<lambda>_. []) inner_two_fold (folds outer_folds ! 0) []) (\<lambda>m.
      Inr (m\<lparr>inner_fold_set := (inner_fold_set m)\<lparr>train_exclusion := Relations,
        target_missing_sample_ids := [Ident ''m'']\<rparr>\<rparr>))"
proof -
  have wf: "fold_set_wf outer_folds"
    unfolding fold_set_validate_ok[symmetric, of _ "()"] by code_simp
  have mem: "folds outer_folds ! 0 \<in> set (folds outer_folds)" by (simp add: outer_folds_def)
  show ?thesis
    unfolding nested_fold_set_inherits[OF wf mem] by (simp add: outer_folds_def abc_folds_def)
qed

end
