(* ===== verification/Oof.thy ===== *)
theory Oof
  imports NestedCv Json
begin

text \<open>
  \<open>oof.rs\<close>: prediction blocks, the content and coverage gates every out-of-fold prediction
  passes, the refit contract of a stacking node, and the join of prediction blocks into the
  feature matrix of a meta-model. Deserialisation by serde is a parameter.
\<close>

section \<open>Prediction blocks\<close>

datatype (plugins only: code size) prediction_partition = Train | TrainPool | Validation | Test | Final

datatype (plugins only: code size) prediction_join_key = SampleIdKey

record prediction_block =
  prediction_id :: "string option"
  producer_node :: node_id
  producer_port :: "string option"
  pb_partition :: prediction_partition
  pb_fold_id :: "fold_id option"
  pb_sample_ids :: "sample_id list"
  pb_values :: "f64 list list"
  target_names :: "string list"

abbreviation oof_err :: "oof_msg \<Rightarrow> 'a result" where
  "oof_err m \<equiv> fail (OofValidation m)"

definition validate_shape :: "prediction_block \<Rightarrow> nat result" where
  "validate_shape b =
     (let producer = as_str (producer_node b);
          width = (case pb_values b of [] \<Rightarrow> 0 | row # _ \<Rightarrow> length row)
      in if length (pb_sample_ids b) \<noteq> length (pb_values b)
         then oof_err (RowCountMismatch producer (length (pb_sample_ids b)) (length (pb_values b)))
         else if width = 0 then oof_err (EmptyPredictionRows producer)
         else if list_ex (\<lambda>row. length row \<noteq> width) (pb_values b)
         then oof_err (RaggedPredictionRows producer)
         else if target_names b \<noteq> [] \<and> length (target_names b) \<noteq> width
         then oof_err (TargetNameCountMismatch producer (length (target_names b)) width)
         else Inr width)"

text \<open>\<open>for id in ids { if !seen.insert(id) { return Err } }\<close>.\<close>

definition unique_block_samples :: "prediction_block \<Rightarrow> sample_id set result" where
  "unique_block_samples b =
     try_fold (\<lambda>seen s. if s \<in> seen
         then oof_err (DuplicatePrediction (as_str (producer_node b)) (as_str s))
         else Inr (insert s seen)) {} (pb_sample_ids b)"

definition validate_content :: "prediction_block \<Rightarrow> nat result" where
  "validate_content b =
     and_then (validate_shape b) (\<lambda>width.
       if list_ex (\<lambda>row. list_ex (\<lambda>v. \<not> f64_is_finite v) row) (pb_values b)
       then oof_err (NonFinitePredictions (as_str (producer_node b)))
       else and_then (unique_block_samples b) (\<lambda>_. Inr width))"

definition validate_complete_input ::
  "node_id \<Rightarrow> prediction_block list \<Rightarrow> sample_id list \<Rightarrow> unit result" where
  "validate_complete_input producer blocks requested =
     and_then (try_fold (\<lambda>covered b.
         and_then (validate_content b) (\<lambda>_. Inr (covered \<union> set (pb_sample_ids b)))) {} blocks)
       (\<lambda>covered. if covered \<noteq> set requested
         then oof_err (IncompleteInnerOof (as_str producer) (card (set requested - covered))
           (card (covered - set requested)))
         else Inr ())"

section \<open>Coverage of a producer\<close>

definition cover_sample ::
  "node_id \<Rightarrow> fold_partition_mode \<Rightarrow> sample_id set \<Rightarrow> sample_id \<Rightarrow> sample_id set result" where
  "cover_sample producer mode covered s =
     (if s \<in> covered \<and> mode = Partition
      then oof_err (MultipleValidationPredictions (as_str producer) (as_str s))
      else Inr (insert s covered))"

definition validate_producer_oof_coverage ::
  "node_id \<Rightarrow> prediction_block list \<Rightarrow> fold_partition_mode \<Rightarrow> sample_id set option \<Rightarrow> unit result" where
  "validate_producer_oof_coverage producer blocks mode requested_samples =
     and_then (try_fold (\<lambda>covered b.
         if pb_partition b \<noteq> Validation then Inr covered
         else and_then (validate_content b) (\<lambda>_.
           try_fold (cover_sample producer mode) covered (pb_sample_ids b))) {} blocks)
       (\<lambda>covered. case requested_samples of
           None \<Rightarrow> Inr ()
         | Some requested \<Rightarrow>
             if covered \<noteq> requested
             then oof_err (OofCoverageNotExact (as_str producer) (card (requested - covered))
               (card (covered - requested)))
             else Inr ())"

section \<open>The refit contract of a stacking node\<close>

datatype (plugins only: code size) stacking_oof_refit_policy = RequireFullCoverage | CvOnly | SkipRefitOnIncompleteOof

datatype (plugins only: code size) stacking_oof_refit_cause =
    FullCoverage
  | CvOnlyCause
  | IncompleteOofCoverage
  | PartialOofWithoutPolicy
  | MissingFoldId
  | UnknownFold
  | FoldCoverageMismatch
  | DuplicateValidationSample
  | NonValidationPartition

definition refit_cause_as_str :: "stacking_oof_refit_cause \<Rightarrow> string" where
  "refit_cause_as_str c = (case c of
      FullCoverage \<Rightarrow> ''full_coverage''
    | CvOnlyCause \<Rightarrow> ''cv_only''
    | IncompleteOofCoverage \<Rightarrow> ''incomplete_oof_coverage''
    | PartialOofWithoutPolicy \<Rightarrow> ''partial_oof_without_policy''
    | MissingFoldId \<Rightarrow> ''missing_fold_id''
    | UnknownFold \<Rightarrow> ''unknown_fold''
    | FoldCoverageMismatch \<Rightarrow> ''fold_coverage_mismatch''
    | DuplicateValidationSample \<Rightarrow> ''duplicate_validation_sample''
    | NonValidationPartition \<Rightarrow> ''non_validation_partition'')"

record stacking_oof_refit_contract =
  refit_policy :: stacking_oof_refit_policy

record refit_coverage_diagnostic =
  rcd_policy :: stacking_oof_refit_policy
  rcd_cause :: stacking_oof_refit_cause
  rcd_requested_sample_count :: nat
  rcd_covered_sample_count :: nat
  rcd_missing_sample_ids :: "sample_id list"
  rcd_extra_sample_ids :: "sample_id list"

datatype (plugins only: code size) stacking_oof_refit_decision =
    RefitAllowed (diagnostic: refit_coverage_diagnostic)
  | SkipRefit (diagnostic: refit_coverage_diagnostic)

definition should_skip_refit :: "stacking_oof_refit_decision \<Rightarrow> bool" where
  "should_skip_refit d = (case d of SkipRefit _ \<Rightarrow> True | RefitAllowed _ \<Rightarrow> False)"

text \<open>The contract of a node, read from its metadata; \<open>from_value\<close> is serde's decoder, which
  returns its error message or the contract.\<close>

definition stacking_refit_key :: string where
  "stacking_refit_key = ''stacking_oof_refit_contract''"

definition refit_contract_from_metadata ::
  "(json_value \<Rightarrow> string + stacking_oof_refit_contract) \<Rightarrow> json_map
   \<Rightarrow> stacking_oof_refit_contract result" where
  "refit_contract_from_metadata from_value metadata =
     (case bm_get metadata stacking_refit_key of
        None \<Rightarrow> Inr \<lparr>refit_policy = RequireFullCoverage\<rparr>
      | Some v \<Rightarrow>
          (case from_value v of
             Inl e \<Rightarrow> oof_err (StackingMetadataInvalid stacking_refit_key e)
           | Inr c \<Rightarrow> Inr c))"

definition stacking_refit_contract_error :: "node_id \<Rightarrow> stacking_oof_refit_cause \<Rightarrow> dag_ml_error" where
  "stacking_refit_contract_error producer cause =
     OofValidation (StackingRefitViolation (as_str producer) (refit_cause_as_str cause))"

definition validate_stacking_block_matches_fold ::
  "node_id \<Rightarrow> prediction_block \<Rightarrow> fold_assignment \<Rightarrow> unit result" where
  "validate_stacking_block_matches_fold producer b f =
     ensure (set (pb_sample_ids b) = set (validation_sample_ids f))
       (Err (stacking_refit_contract_error producer FoldCoverageMismatch))"

definition folds_by_id :: "fold_set \<Rightarrow> (fold_id, fold_assignment) btree_map" where
  "folds_by_id fs = bm_collect (map (\<lambda>f. (fold_id f, f)) (folds fs))"

definition refit_cover_block ::
  "node_id \<Rightarrow> fold_set \<Rightarrow> sample_id set \<Rightarrow> prediction_block \<Rightarrow> sample_id set result" where
  "refit_cover_block producer fs covered b =
     (if pb_partition b \<noteq> Validation
      then fail (stacking_refit_contract_error producer NonValidationPartition)
      else and_then (validate_content b) (\<lambda>_.
        and_then (ok_or (pb_fold_id b) (Err (stacking_refit_contract_error producer MissingFoldId)))
          (\<lambda>fid.
        and_then (ok_or (bm_get (folds_by_id fs) fid)
            (Err (stacking_refit_contract_error producer UnknownFold))) (\<lambda>f.
        and_then (validate_stacking_block_matches_fold producer b f) (\<lambda>_.
        try_fold (\<lambda>covered s.
            if s \<in> covered \<and> partition_mode fs = Partition
            then fail (stacking_refit_contract_error producer DuplicateValidationSample)
            else Inr (insert s covered)) covered (pb_sample_ids b))))))"

definition validate_stacking_oof_refit_contract ::
  "node_id \<Rightarrow> prediction_block list \<Rightarrow> fold_set \<Rightarrow> stacking_oof_refit_contract
   \<Rightarrow> stacking_oof_refit_decision result" where
  "validate_stacking_oof_refit_contract producer blocks fs contract =
     and_then (fold_set_validate fs) (\<lambda>_.
     let policy = refit_policy contract in
     if policy = CvOnly
     then Inr (SkipRefit \<lparr>rcd_policy = policy, rcd_cause = CvOnlyCause,
       rcd_requested_sample_count = length (sample_ids fs), rcd_covered_sample_count = 0,
       rcd_missing_sample_ids = sample_ids fs, rcd_extra_sample_ids = []\<rparr>)
     else and_then (try_fold (refit_cover_block producer fs) {} blocks) (\<lambda>covered.
       let requested = set (sample_ids fs) in
       if covered = requested
       then Inr (RefitAllowed \<lparr>rcd_policy = policy, rcd_cause = FullCoverage,
         rcd_requested_sample_count = card requested, rcd_covered_sample_count = card covered,
         rcd_missing_sample_ids = [], rcd_extra_sample_ids = []\<rparr>)
       else
         let d = \<lparr>rcd_policy = policy,
               rcd_cause = (case policy of
                   SkipRefitOnIncompleteOof \<Rightarrow> IncompleteOofCoverage
                 | RequireFullCoverage \<Rightarrow> PartialOofWithoutPolicy
                 | CvOnly \<Rightarrow> CvOnlyCause),
               rcd_requested_sample_count = card requested,
               rcd_covered_sample_count = card covered,
               rcd_missing_sample_ids = sorted_list_of_set (requested - covered),
               rcd_extra_sample_ids = sorted_list_of_set (covered - requested)\<rparr>
         in if policy = SkipRefitOnIncompleteOof then Inr (SkipRefit d)
            else fail (stacking_refit_contract_error producer (rcd_cause d))))"

section \<open>Joining predictions into features\<close>

record oof_matrix =
  om_sample_ids :: "sample_id list"
  om_columns :: "string list"
  om_values :: "f64 list list"

record prediction_join_policy =
  pjp_node_id :: node_id
  join_on :: prediction_join_key
  allow_train_predictions_as_features :: bool
  include_partitions :: "prediction_partition list"

record oof_campaign =
  oc_fold_set :: fold_set
  join_policy :: prediction_join_policy
  requested_sample_order :: "sample_id list"
  prediction_blocks :: "prediction_block list"

record producer_predictions =
  pp_width :: nat
  pp_target_names :: "string list"
  pp_by_sample :: "(sample_id, f64 list) btree_map"

text \<open>\<open>format!("{:?}", partition)\<close>, and its \<open>to_lowercase\<close>.\<close>

definition partition_debug :: "prediction_partition \<Rightarrow> string" where
  "partition_debug p = (case p of Train \<Rightarrow> ''Train'' | TrainPool \<Rightarrow> ''TrainPool''
     | Validation \<Rightarrow> ''Validation'' | Test \<Rightarrow> ''Test'' | Final \<Rightarrow> ''Final'')"

definition partition_lower :: "prediction_partition \<Rightarrow> string" where
  "partition_lower p = (case p of Train \<Rightarrow> ''train'' | TrainPool \<Rightarrow> ''trainpool''
     | Validation \<Rightarrow> ''validation'' | Test \<Rightarrow> ''test'' | Final \<Rightarrow> ''final'')"

definition validate_prediction_blocks_are_oof ::
  "prediction_join_policy \<Rightarrow> prediction_block list \<Rightarrow> unit result" where
  "validate_prediction_blocks_are_oof policy blocks =
     (if allow_train_predictions_as_features policy then Inr ()
      else
        let violators = map (\<lambda>b. \<lparr>olv_producer_node = as_str (producer_node b),
              olv_partition = partition_lower (pb_partition b),
              olv_fold_id = map_option as_str (pb_fold_id b)\<rparr>)
              (filter (\<lambda>b. pb_partition b \<noteq> Validation) blocks)
        in if violators = [] then Inr ()
           else fail (OofLeakage \<lparr>olr_node_id = as_str (pjp_node_id policy),
             olr_violators = violators,
             olr_allow_train_predictions_as_features =
               allow_train_predictions_as_features policy\<rparr>))"

definition ensure_required_samples :: "sample_id list \<Rightarrow> unit result" where
  "ensure_required_samples required =
     (if required = [] then oof_err RequiredSamplesEmpty
      else if card (set required) \<noteq> length required then oof_err RequiredSamplesDuplicates
      else Inr ())"

definition rows_by_sample :: "prediction_block \<Rightarrow> (sample_id, f64 list) btree_map result" where
  "rows_by_sample b =
     and_then (try_fold (\<lambda>(seen, by_sample) (s, values).
         if s \<in> seen
         then oof_err (DuplicatePrediction (as_str (producer_node b)) (as_str s))
         else Inr (insert s seen, bm_insert s values by_sample)) ({}, [])
         (zip (pb_sample_ids b) (pb_values b)))
       (\<lambda>(_, by_sample). Inr by_sample)"

definition extend_row ::
  "prediction_block \<Rightarrow> (sample_id, f64 list) btree_map \<Rightarrow> (sample_id, f64 list) btree_map
   \<Rightarrow> sample_id \<Rightarrow> (sample_id, f64 list) btree_map result" where
  "extend_row b by_sample rows s =
     (case bm_get by_sample s of
        None \<Rightarrow> oof_err (MissingRequiredSample (as_str (producer_node b)) (as_str s))
      | Some values \<Rightarrow>
          (case bm_get rows s of
             None \<Rightarrow> expect_failed ''required sample row exists''
           | Some row \<Rightarrow> Inr (bm_insert s (row @ values) rows)))"

definition column_names :: "prediction_block \<Rightarrow> nat \<Rightarrow> string list" where
  "column_names b width = map (\<lambda>i. as_str (producer_node b) @ ''__'' @
     (if i < length (target_names b) then target_names b ! i else ''p'' @ show_nat i)) [0..<width]"

definition join_block ::
  "sample_id list \<Rightarrow> (sample_id, f64 list) btree_map \<times> string list \<Rightarrow> prediction_block
   \<Rightarrow> ((sample_id, f64 list) btree_map \<times> string list) result" where
  "join_block required state b =
     (let (rows, columns) = state in
      and_then (validate_content b) (\<lambda>width.
      and_then (rows_by_sample b) (\<lambda>by_sample.
      and_then (try_fold (extend_row b by_sample) rows required) (\<lambda>rows.
      Inr (rows, columns @ column_names b width)))))"

definition take_row ::
  "(sample_id, f64 list) btree_map \<times> f64 list list \<Rightarrow> sample_id
   \<Rightarrow> ((sample_id, f64 list) btree_map \<times> f64 list list) result" where
  "take_row state s =
     (let (rows, out) = state in
      case bm_get rows s of
        None \<Rightarrow> expect_failed ''row exists''
      | Some row \<Rightarrow> Inr (bm_retain (\<lambda>k. k \<noteq> s) rows, out @ [row]))"

definition join_oof_features :: "prediction_block list \<Rightarrow> sample_id list \<Rightarrow> oof_matrix result" where
  "join_oof_features blocks required =
     and_then (ident_new ''prediction_join'') (\<lambda>node.
     and_then (validate_prediction_blocks_are_oof \<lparr>pjp_node_id = node, join_on = SampleIdKey,
         allow_train_predictions_as_features = False, include_partitions = [Validation]\<rparr> blocks)
       (\<lambda>_.
     if required = [] then oof_err RequiredSamplesEmpty
     else if card (set required) \<noteq> length required then oof_err RequiredSamplesDuplicates
     else
       let rows = bm_collect (map (\<lambda>s. (s, [])) required) in
       and_then (try_fold (join_block required) (rows, []) blocks) (\<lambda>(rows, columns).
       and_then (try_fold take_row (rows, []) required) (\<lambda>(_, vals).
       Inr \<lparr>om_sample_ids = required, om_columns = columns, om_values = vals\<rparr>))))"

definition effective_partitions :: "prediction_join_policy \<Rightarrow> prediction_partition set" where
  "effective_partitions policy =
     (if include_partitions policy = [] then {Validation} else set (include_partitions policy))"

definition normalized_targets :: "prediction_block \<Rightarrow> nat \<Rightarrow> string list" where
  "normalized_targets b width =
     (if target_names b = [] then map (\<lambda>i. ''p'' @ show_nat i) [0..<width] else target_names b)"

definition add_prediction ::
  "prediction_block \<Rightarrow> sample_id set \<Rightarrow> (sample_id, f64 list) btree_map \<Rightarrow> sample_id \<times> f64 list
   \<Rightarrow> (sample_id, f64 list) btree_map result" where
  "add_prediction b required by_sample sv =
     (let (s, values) = sv in
      if s \<notin> required then oof_err (UnexpectedSample (as_str (producer_node b)) (as_str s))
      else if bm_contains_key by_sample s
      then oof_err (DuplicateOofPrediction (as_str (producer_node b)) (as_str s))
      else Inr (bm_insert s values by_sample))"

definition add_block ::
  "prediction_partition set \<Rightarrow> sample_id set \<Rightarrow> (node_id, producer_predictions) btree_map
   \<Rightarrow> prediction_block \<Rightarrow> (node_id, producer_predictions) btree_map result" where
  "add_block included required producers b =
     (if pb_partition b \<notin> included then Inr producers
      else and_then (validate_content b) (\<lambda>width.
        let targets = normalized_targets b width;
            producer = unwrap_or (bm_get producers (producer_node b))
              \<lparr>pp_width = width, pp_target_names = targets, pp_by_sample = []\<rparr>
        in if pp_width producer \<noteq> width
           then oof_err (PredictionWidthChanged (as_str (producer_node b)) (pp_width producer) width)
           else if pp_target_names producer \<noteq> targets
           then oof_err (TargetNamesChanged (as_str (producer_node b)))
           else and_then (try_fold (add_prediction b required) (pp_by_sample producer)
               (zip (pb_sample_ids b) (pb_values b))) (\<lambda>by_sample.
             Inr (bm_insert (producer_node b) (producer\<lparr>pp_by_sample := by_sample\<rparr>) producers))))"

definition campaign_row ::
  "(node_id \<times> producer_predictions) list \<Rightarrow> sample_id \<Rightarrow> f64 list result" where
  "campaign_row producers s =
     and_then (try_map (\<lambda>(_, pp). ok_or (bm_get (pp_by_sample pp) s)
         (Panic (ExpectFailed ''required sample was checked''))) producers)
       (\<lambda>parts. Inr (concat parts))"

definition join_oof_campaign_features ::
  "prediction_join_policy \<Rightarrow> prediction_block list \<Rightarrow> sample_id list \<Rightarrow> oof_matrix result" where
  "join_oof_campaign_features policy blocks required_samples =
     and_then (validate_prediction_blocks_are_oof policy blocks) (\<lambda>_.
     and_then (ensure_required_samples required_samples) (\<lambda>_.
     and_then (try_fold (add_block (effective_partitions policy) (set required_samples)) [] blocks)
       (\<lambda>producers.
     if producers = [] then oof_err NoBlocksSelected
     else and_then (try_each (\<lambda>(node, pp). try_each (\<lambda>s.
           ensure (bm_contains_key (pp_by_sample pp) s)
             (Err (OofValidation (MissingRequiredSample (as_str node) (as_str s)))))
           required_samples) producers) (\<lambda>_.
       let columns = concat (map (\<lambda>(node, pp).
             map (\<lambda>target. as_str node @ ''__'' @ target) (pp_target_names pp)) producers)
       in and_then (try_map (campaign_row producers) required_samples) (\<lambda>vals.
          Inr \<lparr>om_sample_ids = required_samples, om_columns = columns, om_values = vals\<rparr>)))))"

section \<open>The campaign\<close>

definition assert_exact_partition_samples ::
  "prediction_block \<Rightarrow> sample_id list \<Rightarrow> string \<Rightarrow> unit result" where
  "assert_exact_partition_samples b expected name =
     and_then (unique_block_samples b) (\<lambda>actual.
       if actual \<noteq> set expected
       then (case pb_fold_id b of
           None \<Rightarrow> expect_failed ''fold id exists''
         | Some fid \<Rightarrow>
             oof_err (FoldSamplesMismatch (as_str (producer_node b)) (as_str fid) name))
       else Inr ())"

definition validate_block_against_folds :: "fold_set \<Rightarrow> prediction_block \<Rightarrow> unit result" where
  "validate_block_against_folds fs b =
     and_then (validate_content b) (\<lambda>_.
     case pb_fold_id b of
       None \<Rightarrow> if pb_partition b \<in> {Train, TrainPool, Validation}
         then oof_err (PredictionsWithoutFold (as_str (producer_node b)) (partition_debug (pb_partition b)))
         else Inr ()
     | Some fid \<Rightarrow>
         and_then (ok_or (bm_get (folds_by_id fs) fid)
             (Err (OofValidation (UnknownPredictionFold (as_str (producer_node b)) (as_str fid)))))
           (\<lambda>f. case pb_partition b of
               Train \<Rightarrow> assert_exact_partition_samples b (train_sample_ids f) ''train''
             | TrainPool \<Rightarrow>
                 ensure (list_all (\<lambda>s. s \<in> set (train_sample_ids f) \<union> set (validation_sample_ids f))
                     (pb_sample_ids b))
                   (Err (OofValidation (TrainPoolOutsideFold (as_str (producer_node b)) (as_str fid))))
             | Validation \<Rightarrow> assert_exact_partition_samples b (validation_sample_ids f) ''validation''
             | Test \<Rightarrow> Inr ()
             | Final \<Rightarrow> Inr ()))"

definition validate_prediction_blocks_against_folds ::
  "fold_set \<Rightarrow> prediction_block list \<Rightarrow> unit result" where
  "validate_prediction_blocks_against_folds fs blocks =
     and_then (fold_set_validate fs) (\<lambda>_. try_each (validate_block_against_folds fs) blocks)"

definition validate_requested_samples_match_fold_set :: "sample_id list \<Rightarrow> fold_set \<Rightarrow> unit result" where
  "validate_requested_samples_match_fold_set requested fs =
     and_then (ensure_required_samples requested) (\<lambda>_.
       if set requested \<noteq> set (sample_ids fs) then oof_err RequestedOrderMismatch else Inr ())"

definition validate_oof_campaign :: "oof_campaign \<Rightarrow> oof_matrix result" where
  "validate_oof_campaign c =
     and_then (fold_set_validate (oc_fold_set c)) (\<lambda>_.
     and_then (validate_requested_samples_match_fold_set (requested_sample_order c) (oc_fold_set c))
       (\<lambda>_.
     and_then (validate_prediction_blocks_against_folds (oc_fold_set c) (prediction_blocks c)) (\<lambda>_.
     join_oof_campaign_features (join_policy c) (prediction_blocks c) (requested_sample_order c))))"

end
