(* ===== verification/OofProofs.thy ===== *)
theory OofProofs
  imports Oof
begin

text \<open>
  Proofs about \<open>oof.rs\<close>: the content gate, producer coverage, the refit decision, the feature
  join, and the absence of leakage from a validated campaign.
\<close>

section \<open>The content gate\<close>

definition block_width :: "prediction_block \<Rightarrow> nat" where
  "block_width b = (case pb_values b of [] \<Rightarrow> 0 | row # _ \<Rightarrow> length row)"

definition block_ok :: "prediction_block \<Rightarrow> bool" where
  "block_ok b \<longleftrightarrow>
     length (pb_sample_ids b) = length (pb_values b) \<and> block_width b \<noteq> 0 \<and>
     (\<forall>row \<in> set (pb_values b). length row = block_width b \<and> (\<forall>v \<in> set row. f64_is_finite v)) \<and>
     (target_names b = [] \<or> length (target_names b) = block_width b) \<and>
     distinct (pb_sample_ids b)"

lemma seen_loop_ok:
  "try_fold (\<lambda>seen s. if s \<in> seen then Inl (e s) else Inr (insert s seen)) A xs = Inr B \<longleftrightarrow>
     distinct xs \<and> set xs \<inter> A = {} \<and> B = A \<union> set xs"
  by (induction xs arbitrary: A) (auto simp: and_then_ok)

lemma unique_block_samples_ok [ok_iff]:
  "unique_block_samples b = Inr A \<longleftrightarrow> distinct (pb_sample_ids b) \<and> A = set (pb_sample_ids b)"
  by (auto simp: unique_block_samples_def seen_loop_ok)

lemma validate_shape_ok [ok_iff]:
  "validate_shape b = Inr w \<longleftrightarrow>
     length (pb_sample_ids b) = length (pb_values b) \<and> block_width b \<noteq> 0 \<and>
     (\<forall>row \<in> set (pb_values b). length row = block_width b) \<and>
     (target_names b = [] \<or> length (target_names b) = block_width b) \<and> w = block_width b"
  by (auto simp: validate_shape_def Let_def block_width_def list_ex_iff)

lemma validate_content_ok [ok_iff]:
  "validate_content b = Inr w \<longleftrightarrow> block_ok b \<and> w = block_width b"
  by (auto simp: validate_content_def ok_iff block_ok_def list_ex_iff)

text \<open>\<open>PredictionBlock::validate_content\<close> accepts exactly the well-shaped blocks: one
  non-empty row per sample, all rows of the same width, target names matching it if given, every
  value finite, and no sample twice; it returns the width.\<close>

theorem validate_content_spec:
  "validate_content b = Inr w \<longleftrightarrow> block_ok b \<and> w = block_width b"
  by (rule validate_content_ok)

section \<open>Coverage of a producer\<close>

lemma cover_samples_ok:
  "try_fold (cover_sample p mode) A xs = Inr B \<longleftrightarrow>
     B = A \<union> set xs \<and> (mode = Partition \<longrightarrow> distinct xs \<and> set xs \<inter> A = {})"
  by (induction xs arbitrary: A) (auto simp: and_then_ok cover_sample_def)

abbreviation validation_blocks :: "prediction_block list \<Rightarrow> prediction_block list" where
  "validation_blocks \<equiv> filter (\<lambda>b. pb_partition b = Validation)"

lemma cover_blocks_ok:
  "try_fold (\<lambda>covered b.
         if pb_partition b \<noteq> Validation then Inr covered
         else and_then (validate_content b) (\<lambda>_.
           try_fold (cover_sample p mode) covered (pb_sample_ids b))) A bs = Inr B \<longleftrightarrow>
   (\<forall>b \<in> set (validation_blocks bs). block_ok b) \<and>
   B = A \<union> (\<Union>b \<in> set (validation_blocks bs). set (pb_sample_ids b)) \<and>
   (mode = Partition \<longrightarrow> distinct (concat (map pb_sample_ids (validation_blocks bs))) \<and>
     A \<inter> (\<Union>b \<in> set (validation_blocks bs). set (pb_sample_ids b)) = {})"
proof (induction bs arbitrary: A)
  case (Cons b bs)
  show ?case
  proof (cases "pb_partition b = Validation")
    case True
    then show ?thesis
      by (auto simp: and_then_ok ok_iff cover_samples_ok Cons block_ok_def)
  qed (simp add: Cons)
qed auto

text \<open>the coverage gate of a producer: it accepts exactly when every validation block passes
  the content gate, when in partition mode no sample is predicted twice across blocks, and when
  the predicted samples are the requested ones, if a request is given.\<close>

theorem validate_producer_oof_coverage_spec:
  "validate_producer_oof_coverage p blocks mode requested = Inr () \<longleftrightarrow>
     list_all block_ok (validation_blocks blocks) \<and>
     (mode = Resampled \<or> distinct (concat (map pb_sample_ids (validation_blocks blocks)))) \<and>
     (case requested of None \<Rightarrow> True
      | Some R \<Rightarrow> set (concat (map pb_sample_ids (validation_blocks blocks))) = R)"
  by (cases mode; cases requested)
    (auto simp: validate_producer_oof_coverage_def ok_iff cover_blocks_ok list_all_iff)

section \<open>The refit decision\<close>

lemma folds_by_id_get:
  assumes "fold_set_wf fs"
  shows "bm_get (folds_by_id fs) i = Some f \<longleftrightarrow> f \<in> set (folds fs) \<and> fold_id f = i"
proof -
  have d: "distinct (map fst (map (\<lambda>f. (fold_id f, f)) (folds fs)))"
    using assms by (simp add: fold_set_wf_def comp_def)
  show ?thesis
    unfolding folds_by_id_def bm_get_collect_distinct[OF d] map_of_eq_Some_iff[OF d] by auto
qed

lemma seen_partition_ok:
  "try_fold (\<lambda>covered s. if s \<in> covered \<and> mode = Partition then Inl (e s) else Inr (insert s covered))
       A xs = Inr B \<longleftrightarrow>
     B = A \<union> set xs \<and> (mode = Partition \<longrightarrow> distinct xs \<and> set xs \<inter> A = {})"
  by (induction xs arbitrary: A) (auto simp: and_then_ok)

definition matches_fold :: "fold_set \<Rightarrow> prediction_block \<Rightarrow> bool" where
  "matches_fold fs b \<longleftrightarrow> pb_partition b = Validation \<and> block_ok b \<and>
     (\<exists>f \<in> set (folds fs). pb_fold_id b = Some (fold_id f) \<and>
        set (pb_sample_ids b) = set (validation_sample_ids f))"

lemma refit_cover_block_ok:
  assumes "fold_set_wf fs"
  shows "refit_cover_block p fs A b = Inr B \<longleftrightarrow> matches_fold fs b \<and>
     B = A \<union> set (pb_sample_ids b) \<and>
     (partition_mode fs = Partition \<longrightarrow> set (pb_sample_ids b) \<inter> A = {})"
  by (auto simp: refit_cover_block_def ok_iff seen_partition_ok matches_fold_def
      folds_by_id_get[OF assms] validate_stacking_block_matches_fold_def block_ok_def)

lemma refit_cover_blocks_ok:
  assumes "fold_set_wf fs"
  shows "try_fold (refit_cover_block p fs) A bs = Inr B \<longleftrightarrow> list_all (matches_fold fs) bs \<and>
     B = A \<union> set (concat (map pb_sample_ids bs)) \<and>
     (partition_mode fs = Partition \<longrightarrow> distinct (concat (map pb_sample_ids bs)) \<and>
       A \<inter> set (concat (map pb_sample_ids bs)) = {})"
proof (induction bs arbitrary: A)
  case (Cons b bs)
  have "matches_fold fs b \<Longrightarrow> distinct (pb_sample_ids b)" by (simp add: matches_fold_def block_ok_def)
  then show ?case
    by (auto simp: and_then_ok refit_cover_block_ok[OF assms] Cons)
qed auto

text \<open>the refit decision: a stacking node may be refitted exactly when the fold set is valid,
  the policy is not CV-only, every block is the out-of-fold prediction of one fold for exactly its
  validation samples, no sample is predicted twice in partition mode, and together the blocks
  cover the whole universe.\<close>

theorem stacking_refit_allowed_spec:
  "(\<exists>d. validate_stacking_oof_refit_contract p blocks fs c = Inr d \<and> \<not> should_skip_refit d) \<longleftrightarrow>
     fold_set_wf fs \<and> refit_policy c \<noteq> CvOnly \<and> list_all (matches_fold fs) blocks \<and>
     (partition_mode fs = Resampled \<or> distinct (concat (map pb_sample_ids blocks))) \<and>
     set (concat (map pb_sample_ids blocks)) = set (sample_ids fs)"
proof (cases "fold_set_wf fs")
  case True
  show ?thesis
    by (cases "refit_policy c"; cases "partition_mode fs")
      (auto simp: validate_stacking_oof_refit_contract_def ok_iff fold_set_validate_ok Let_def True
        refit_cover_blocks_ok[OF True] should_skip_refit_def)
qed (auto simp: validate_stacking_oof_refit_contract_def ok_iff fold_set_validate_ok)

text \<open>under the default policy no meta-model is silently skipped: the contract check is either
  an error or permission to refit on full coverage.\<close>

theorem stacking_refit_default_never_skips:
  "refit_policy c = RequireFullCoverage \<Longrightarrow>
   (case validate_stacking_oof_refit_contract p blocks fs c of
      Inl e \<Rightarrow> True
    | Inr d \<Rightarrow> d = RefitAllowed \<lparr>rcd_policy = RequireFullCoverage, rcd_cause = FullCoverage,
        rcd_requested_sample_count = card (set (sample_ids fs)),
        rcd_covered_sample_count = card (set (sample_ids fs)),
        rcd_missing_sample_ids = [], rcd_extra_sample_ids = []\<rparr>)"
  by (auto simp: validate_stacking_oof_refit_contract_def ok_iff Let_def split: sum.splits if_splits)

text \<open>The out-of-fold blocks of one producer over \<open>abc_folds\<close>.\<close>

definition meta_block :: "fold_id \<Rightarrow> sample_id list \<Rightarrow> f64 list list \<Rightarrow> prediction_block" where
  "meta_block f ids rows = \<lparr>prediction_id = None, producer_node = Ident ''pls'', producer_port = None,
     pb_partition = Validation, pb_fold_id = Some f, pb_sample_ids = ids, pb_values = rows,
     target_names = []\<rparr>"

definition abc_blocks :: "prediction_block list" where
  "abc_blocks = [
     meta_block (Ident ''fold0'') [Ident ''a'', Ident ''c''] [[0x3ff0000000000000], [0]],
     meta_block (Ident ''fold1'') [Ident ''b''] [[0x4000000000000000]]]"

lemma stacking_refit_default_never_skips_witness:
  "\<exists>d. validate_stacking_oof_refit_contract (Ident ''pls'') abc_blocks abc_folds
      \<lparr>refit_policy = RequireFullCoverage\<rparr> = Inr d \<and> rcd_cause (diagnostic d) = FullCoverage"
proof -
  let ?r = "validate_stacking_oof_refit_contract (Ident ''pls'') abc_blocks abc_folds
      \<lparr>refit_policy = RequireFullCoverage\<rparr>"
  have "\<not> isl ?r" by code_simp
  then show ?thesis
    using stacking_refit_default_never_skips[of "\<lparr>refit_policy = RequireFullCoverage\<rparr>"
        abc_folds "Ident ''pls''" abc_blocks]
    by (auto split: sum.splits)
qed

section \<open>The feature join\<close>

definition row_of :: "prediction_block \<Rightarrow> sample_id \<Rightarrow> f64 list" where
  "row_of b s = the (map_of (zip (pb_sample_ids b) (pb_values b)) s)"

lemma rows_by_sample_loop:
  assumes "distinct (map fst svs)" "fst ` set svs \<inter> A = {}"
  shows "try_fold (\<lambda>(seen, by_sample) (s, values).
         if s \<in> seen then Inl (e s) else Inr (insert s seen, bm_insert s values by_sample)) (A, m) svs
     = Inr (A \<union> fst ` set svs, foldl (\<lambda>m (s, v). bm_insert s v m) m svs)"
  using assms by (induction svs arbitrary: A m) auto

lemma rows_by_sample_ok:
  assumes "block_ok b"
  shows "rows_by_sample b = Inr (bm_collect (zip (pb_sample_ids b) (pb_values b)))"
proof -
  have "distinct (map fst (zip (pb_sample_ids b) (pb_values b)))" using assms by (simp add: block_ok_def)
  then show ?thesis
    unfolding rows_by_sample_def bm_collect_def by (subst rows_by_sample_loop) auto
qed

lemma block_rows_get:
  assumes "block_ok b"
  shows "bm_get (bm_collect (zip (pb_sample_ids b) (pb_values b))) =
     map_of (zip (pb_sample_ids b) (pb_values b))"
proof -
  have "distinct (map fst (zip (pb_sample_ids b) (pb_values b)))"
    using assms by (simp add: block_ok_def)
  then show ?thesis by (rule bm_get_collect_distinct)
qed

lemma extend_row_loop:
  assumes "block_ok b" "distinct req" "set req \<subseteq> set (pb_sample_ids b)" "bm_ok rows"
    "set req \<subseteq> dom (bm_get rows)"
  shows "\<exists>rows'. try_fold (extend_row b (bm_collect (zip (pb_sample_ids b) (pb_values b)))) rows req =
      Inr rows' \<and> bm_ok rows' \<and>
      bm_get rows' = (\<lambda>s. if s \<in> set req then map_option (\<lambda>r. r @ row_of b s) (bm_get rows s)
        else bm_get rows s)"
  using assms(2-)
proof (induction req arbitrary: rows)
  case Nil
  then show ?case by auto
next
  case (Cons s req)
  have l: "length (pb_sample_ids b) = length (pb_values b)" using assms(1) by (simp add: block_ok_def)
  obtain r where r: "bm_get rows s = Some r" using Cons.prems by auto
  have "s \<in> dom (map_of (zip (pb_sample_ids b) (pb_values b)))"
    using Cons.prems(2) l by (simp add: dom_map_of_zip)
  then have v: "map_of (zip (pb_sample_ids b) (pb_values b)) s = Some (row_of b s)"
    by (auto simp: row_of_def)
  let ?rows = "bm_insert s (r @ row_of b s) rows"
  have step: "extend_row b (bm_collect (zip (pb_sample_ids b) (pb_values b))) rows s = Inr ?rows"
    by (simp add: extend_row_def block_rows_get[OF assms(1)] v r)
  have "distinct req" "set req \<subseteq> set (pb_sample_ids b)" "bm_ok ?rows" "set req \<subseteq> dom (bm_get ?rows)"
    using Cons.prems by auto
  from Cons.IH[OF this] obtain rows' where
    rows': "try_fold (extend_row b (bm_collect (zip (pb_sample_ids b) (pb_values b)))) ?rows req = Inr rows'"
    "bm_ok rows'"
    "bm_get rows' = (\<lambda>s'. if s' \<in> set req then map_option (\<lambda>r. r @ row_of b s') (bm_get ?rows s')
        else bm_get ?rows s')"
    by blast
  have "s \<notin> set req" using Cons.prems(1) by simp
  then have "bm_get rows' = (\<lambda>s'. if s' \<in> set (s # req) then map_option (\<lambda>r. r @ row_of b s') (bm_get rows s')
        else bm_get rows s')"
    unfolding rows'(3) by (auto simp: fun_eq_iff r)
  then show ?case using rows'(1,2) step by simp
qed

lemma extend_row_covers:
  assumes "block_ok b"
    "try_fold (extend_row b (bm_collect (zip (pb_sample_ids b) (pb_values b)))) rows req = Inr rows'"
  shows "set req \<subseteq> set (pb_sample_ids b)"
  using assms(2)
proof (induction req arbitrary: rows)
  case (Cons s req)
  then have "map_of (zip (pb_sample_ids b) (pb_values b)) s \<noteq> None"
    by (auto simp: and_then_ok extend_row_def block_rows_get[OF assms(1)] split: option.splits)
  then have "s \<in> set (pb_sample_ids b)" by (auto dest: map_of_SomeD set_zip_leftD)
  with Cons show ?case by (auto simp: and_then_ok)
qed simp

definition joinable :: "sample_id list \<Rightarrow> prediction_block \<Rightarrow> bool" where
  "joinable req b \<longleftrightarrow> block_ok b \<and> set req \<subseteq> set (pb_sample_ids b)"

lemma join_block_ok:
  assumes "distinct req" "bm_ok rows" "set req = dom (bm_get rows)"
  shows "join_block req (rows, cols) b = Inr st \<longleftrightarrow> joinable req b \<and>
     (\<exists>rows'. st = (rows', cols @ column_names b (block_width b)) \<and>
       try_fold (extend_row b (bm_collect (zip (pb_sample_ids b) (pb_values b)))) rows req = Inr rows' \<and>
       bm_ok rows' \<and> dom (bm_get rows') = set req \<and>
       (\<forall>s \<in> set req. bm_get rows' s = Some (the (bm_get rows s) @ row_of b s)))" (is "?L \<longleftrightarrow> ?R")
proof
  assume L: ?L
  then have ok: "block_ok b" by (auto simp: join_block_def ok_iff)
  obtain rows1 where f: "try_fold (extend_row b (bm_collect (zip (pb_sample_ids b) (pb_values b)))) rows req = Inr rows1"
    "st = (rows1, cols @ column_names b (block_width b))"
    using L by (auto simp: join_block_def ok_iff rows_by_sample_ok[OF ok])
  have j: "set req \<subseteq> set (pb_sample_ids b)" using extend_row_covers[OF ok f(1)] .
  from extend_row_loop[OF ok assms(1) j assms(2)] assms(3) f(1) have
    g: "bm_ok rows1" "bm_get rows1 = (\<lambda>s. if s \<in> set req then map_option (\<lambda>r. r @ row_of b s) (bm_get rows s)
        else bm_get rows s)" by auto
  have "dom (bm_get rows1) = set req" using assms(3) by (auto simp: g(2) dom_def)
  moreover have "\<forall>s \<in> set req. bm_get rows1 s = Some (the (bm_get rows s) @ row_of b s)"
    using assms(3) by (auto simp: g(2))
  ultimately show ?R using f g(1) ok j by (auto simp: joinable_def)
next
  assume R: ?R
  then have "block_ok b" by (simp add: joinable_def)
  with R show ?L by (auto simp: join_block_def ok_iff rows_by_sample_ok)
qed

lemma join_block_total:
  assumes "joinable req b" "distinct req" "bm_ok rows" "set req = dom (bm_get rows)"
  shows "\<exists>rows'. join_block req (rows, cols) b = Inr (rows', cols @ column_names b (block_width b)) \<and>
     bm_ok rows' \<and> dom (bm_get rows') = set req \<and>
     (\<forall>s \<in> set req. bm_get rows' s = Some (the (bm_get rows s) @ row_of b s))"
proof -
  have ok: "block_ok b" "set req \<subseteq> set (pb_sample_ids b)" using assms(1) by (simp_all add: joinable_def)
  obtain rows' where
    "try_fold (extend_row b (bm_collect (zip (pb_sample_ids b) (pb_values b)))) rows req = Inr rows'"
    using extend_row_loop[OF ok(1) assms(2) ok(2) assms(3)] assms(4) by auto
  then have "join_block req (rows, cols) b = Inr (rows', cols @ column_names b (block_width b))"
    using ok(1) by (auto simp: join_block_def ok_iff rows_by_sample_ok)
  then show ?thesis using join_block_ok[OF assms(2-4), of cols b] by auto
qed

lemma join_blocks_total:
  assumes "list_all (joinable req) bs" "distinct req" "bm_ok rows" "set req = dom (bm_get rows)"
  shows "\<exists>rows'. try_fold (join_block req) (rows, cols) bs =
      Inr (rows', cols @ concat (map (\<lambda>b. column_names b (block_width b)) bs)) \<and>
     dom (bm_get rows') = set req \<and>
     (\<forall>s \<in> set req. bm_get rows' s = Some (the (bm_get rows s) @ concat (map (\<lambda>b. row_of b s) bs)))"
  using assms
proof (induction bs arbitrary: rows cols)
  case Nil
  then show ?case by (auto simp: dom_def)
next
  case (Cons b bs)
  obtain rows1 where r1: "join_block req (rows, cols) b = Inr (rows1, cols @ column_names b (block_width b))"
     "bm_ok rows1" "dom (bm_get rows1) = set req"
     "\<forall>s \<in> set req. bm_get rows1 s = Some (the (bm_get rows s) @ row_of b s)"
    using join_block_total[of req b rows cols] Cons.prems by auto
  from Cons.IH[of rows1 "cols @ column_names b (block_width b)"] r1 Cons.prems obtain rows2 where
    "try_fold (join_block req) (rows1, cols @ column_names b (block_width b)) bs =
      Inr (rows2, cols @ column_names b (block_width b) @ concat (map (\<lambda>b. column_names b (block_width b)) bs))"
    "dom (bm_get rows2) = set req"
    "\<forall>s \<in> set req. bm_get rows2 s = Some (the (bm_get rows1 s) @ concat (map (\<lambda>b. row_of b s) bs))"
    by auto
  with r1 show ?case by simp
qed

lemma join_blocks_joinable:
  assumes "try_fold (join_block req) (rows, cols) bs = Inr st" "distinct req" "bm_ok rows"
    "set req = dom (bm_get rows)"
  shows "list_all (joinable req) bs"
  using assms
proof (induction bs arbitrary: rows cols)
  case (Cons b bs)
  obtain st1 where st1: "join_block req (rows, cols) b = Inr st1" "try_fold (join_block req) st1 bs = Inr st"
    using Cons.prems(1) by (auto simp: and_then_ok)
  then show ?case
    using join_block_ok[OF Cons.prems(2-4), of cols b st1] Cons.IH Cons.prems(2) by auto
qed simp

lemma take_rows_ok:
  assumes "distinct req" "set req \<subseteq> dom (bm_get rows)"
  shows "\<exists>rows'. try_fold take_row (rows, out) req = Inr (rows', out @ map (\<lambda>s. the (bm_get rows s)) req)"
  using assms
proof (induction req arbitrary: rows out)
  case (Cons s req)
  obtain r where r: "bm_get rows s = Some r" using Cons.prems(2) by auto
  let ?rows = "bm_retain (\<lambda>k. k \<noteq> s) rows"
  have get: "bm_get ?rows k = bm_get rows k" if "k \<in> set req" for k
    using that Cons.prems(1) by (auto simp: bm_get_retain)
  have "set req \<subseteq> dom (bm_get ?rows)"
  proof
    fix k assume "k \<in> set req"
    then show "k \<in> dom (bm_get ?rows)" using get Cons.prems(2) by (auto simp: domIff)
  qed
  from Cons.IH[OF _ this, of "out @ [r]"] Cons.prems(1) obtain rows' where
    "try_fold take_row (?rows, out @ [r]) req =
       Inr (rows', (out @ [r]) @ map (\<lambda>s. the (bm_get ?rows s)) req)" by auto
  moreover have "map (\<lambda>s. the (bm_get ?rows s)) req = map (\<lambda>s. the (bm_get rows s)) req"
    using get by auto
  moreover have "take_row (rows, out) s = Inr (?rows, out @ [r])" by (simp add: take_row_def r)
  ultimately show ?case using r by simp
qed simp

lemma initial_rows:
  assumes "distinct req"
  shows "bm_get (bm_collect (map (\<lambda>s. (s, [] :: f64 list)) req)) s = (if s \<in> set req then Some [] else None)"
proof -
  have "bm_get (bm_collect (map (\<lambda>s. (s, [] :: f64 list)) req)) = map_of (map (\<lambda>s. (s, [] :: f64 list)) req)"
    by (rule bm_get_collect_distinct) (simp add: comp_def assms)
  also have "\<dots> = (Some \<circ> (\<lambda>_. [] :: f64 list)) |` set req" by (rule map_of_map_restrict)
  finally show ?thesis by (simp add: restrict_map_def)
qed

definition joined_matrix :: "prediction_block list \<Rightarrow> sample_id list \<Rightarrow> oof_matrix" where
  "joined_matrix blocks req = \<lparr>om_sample_ids = req,
     om_columns = concat (map (\<lambda>b. column_names b (block_width b)) blocks),
     om_values = map (\<lambda>s. concat (map (\<lambda>b. row_of b s) blocks)) req\<rparr>"

lemma prediction_join_ident: "ident_new ''prediction_join'' = Inr (Ident ''prediction_join'')"
  by code_simp

lemma blocks_are_oof_ok:
  "validate_prediction_blocks_are_oof policy blocks = Inr u \<longleftrightarrow>
     allow_train_predictions_as_features policy \<or> (\<forall>b \<in> set blocks. pb_partition b = Validation)"
  by (auto simp: validate_prediction_blocks_are_oof_def Let_def filter_empty_conv)

text \<open>\<open>join_oof_features\<close> returns a matrix exactly when every block is a well-formed validation
  block that covers the required samples, which must be non-empty and duplicate-free; row \<open>i\<close> of the
  matrix is then the concatenation, in block order, of the blocks' rows for the \<open>i\<close>-th sample.\<close>

theorem join_oof_features_spec:
  "join_oof_features blocks req = Inr m \<longleftrightarrow>
     (list_all (\<lambda>b. pb_partition b = Validation \<and> joinable req b) blocks \<and> req \<noteq> [] \<and> distinct req \<and>
      m = joined_matrix blocks req)"
proof -
  let ?rows = "bm_collect (map (\<lambda>s. (s, [] :: f64 list)) req)"
  have card: "card (set req) = length req \<longleftrightarrow> distinct req" by (auto simp: distinct_card card_distinct)
  show ?thesis
  proof (cases "distinct req")
    case True
    have dom: "set req = dom (bm_get ?rows)" by (auto simp: initial_rows[OF True] split: if_splits)
    have "join_oof_features blocks req = Inr m \<longleftrightarrow>
      (\<forall>b \<in> set blocks. pb_partition b = Validation) \<and> req \<noteq> [] \<and>
      (\<exists>rows cols rows' vals. try_fold (join_block req) (?rows, []) blocks = Inr (rows, cols) \<and>
        try_fold take_row (rows, []) req = Inr (rows', vals) \<and>
        m = \<lparr>om_sample_ids = req, om_columns = cols, om_values = vals\<rparr>)"
      by (auto simp: join_oof_features_def prediction_join_ident ok_iff blocks_are_oof_ok card True)
    also have "(\<exists>rows cols rows' vals. try_fold (join_block req) (?rows, []) blocks = Inr (rows, cols) \<and>
        try_fold take_row (rows, []) req = Inr (rows', vals) \<and>
        m = \<lparr>om_sample_ids = req, om_columns = cols, om_values = vals\<rparr>) \<longleftrightarrow>
       list_all (joinable req) blocks \<and> m = joined_matrix blocks req" (is "?A \<longleftrightarrow> ?B")
    proof (cases "list_all (joinable req) blocks")
      case False
      then show ?thesis using join_blocks_joinable[OF _ True _ dom] by blast
    next
      case ja: True
      obtain rows where r: "try_fold (join_block req) (?rows, []) blocks =
          Inr (rows, concat (map (\<lambda>b. column_names b (block_width b)) blocks))"
        "dom (bm_get rows) = set req"
        "\<forall>s \<in> set req. bm_get rows s = Some (the (bm_get ?rows s) @ concat (map (\<lambda>b. row_of b s) blocks))"
        using join_blocks_total[OF ja True _ dom, of "[]"] by auto
      obtain rows' where t: "try_fold take_row (rows, []) req = Inr (rows', map (\<lambda>s. the (bm_get rows s)) req)"
        using take_rows_ok[OF True, of rows "[]"] r(2) by auto
      have "map (\<lambda>s. the (bm_get rows s)) req = map (\<lambda>s. concat (map (\<lambda>b. row_of b s) blocks)) req"
        using r(3) by (simp add: initial_rows[OF True])
      then show ?thesis using ja r(1) t by (auto simp: joined_matrix_def)
    qed
    finally show ?thesis using True by (auto simp: list_all_iff)
  next
    case False
    then show ?thesis
      by (auto simp: join_oof_features_def prediction_join_ident ok_iff card)
  qed
qed

section \<open>The campaign join\<close>

definition of_producer :: "node_id \<Rightarrow> prediction_block list \<Rightarrow> prediction_block list" where
  "of_producer p bs = filter (\<lambda>b. producer_node b = p) bs"

definition producer_pairs :: "prediction_block list \<Rightarrow> node_id \<Rightarrow> (sample_id \<times> f64 list) list" where
  "producer_pairs bs p = concat (map (\<lambda>b. zip (pb_sample_ids b) (pb_values b)) (of_producer p bs))"

definition block_targets :: "prediction_block \<Rightarrow> string list" where
  "block_targets b = normalized_targets b (block_width b)"

definition collected :: "prediction_block list \<Rightarrow> node_id \<Rightarrow> producer_predictions option" where
  "collected bs p = (case of_producer p bs of
      [] \<Rightarrow> None
    | b # _ \<Rightarrow> Some \<lparr>pp_width = block_width b, pp_target_names = block_targets b,
        pp_by_sample = bm_collect (producer_pairs bs p)\<rparr>)"

definition agrees :: "sample_id set \<Rightarrow> prediction_block list \<Rightarrow> prediction_block \<Rightarrow> bool" where
  "agrees R bs b \<longleftrightarrow> block_ok b \<and> set (pb_sample_ids b) \<subseteq> R \<and>
     (case of_producer (producer_node b) bs of [] \<Rightarrow> True
      | b0 # _ \<Rightarrow> block_width b0 = block_width b \<and> block_targets b0 = block_targets b) \<and>
     set (pb_sample_ids b) \<inter> fst ` set (producer_pairs bs (producer_node b)) = {}"

lemma add_predictions_ok:
  "try_fold (add_prediction b R) m svs = Inr m' \<longleftrightarrow>
     fst ` set svs \<subseteq> R \<and> distinct (map fst svs) \<and> fst ` set svs \<inter> dom (bm_get m) = {} \<and>
     m' = foldl (\<lambda>m (s, v). bm_insert s v m) m svs"
proof (induction svs arbitrary: m)
  case (Cons sv svs)
  obtain s v where sv: "sv = (s, v)" by (cases sv)
  show ?case
  proof (cases "s \<in> R \<and> bm_get m s = None")
    case True
    then have "try_fold (add_prediction b R) m (sv # svs) = try_fold (add_prediction b R) (bm_insert s v m) svs"
      by (simp add: sv add_prediction_def bm_contains_key_get)
    then have "try_fold (add_prediction b R) m (sv # svs) = Inr m' \<longleftrightarrow>
        fst ` set svs \<subseteq> R \<and> distinct (map fst svs) \<and> fst ` set svs \<inter> dom (bm_get (bm_insert s v m)) = {} \<and>
        m' = foldl (\<lambda>m (s, v). bm_insert s v m) (bm_insert s v m) svs"
      by (simp only: Cons)
    with True show ?thesis by (auto simp: sv simp del: try_fold.simps)
  next
    case False
    then show ?thesis by (auto simp: sv add_prediction_def bm_contains_key_get and_then_ok)
  qed
qed auto

lemma dom_collect_pairs: "dom (bm_get (bm_collect kvs)) = fst ` set kvs"
  unfolding bm_get_collect by (simp add: dom_map_of_conv_image_fst)

lemma collected_snoc:
  "collected (bs @ [b]) = (collected bs)(producer_node b \<mapsto>
     (unwrap_or (collected bs (producer_node b))
       \<lparr>pp_width = block_width b, pp_target_names = block_targets b, pp_by_sample = []\<rparr>)
     \<lparr>pp_by_sample := foldl (\<lambda>m (s, v). bm_insert s v m) (bm_collect (producer_pairs bs (producer_node b)))
        (zip (pb_sample_ids b) (pb_values b))\<rparr>)"
  by (auto simp: fun_eq_iff collected_def of_producer_def producer_pairs_def unwrap_or_def
      bm_collect_def split: list.splits)

lemma collected_by_sample:
  "pp_by_sample (unwrap_or (collected bs p) \<lparr>pp_width = w, pp_target_names = ts, pp_by_sample = []\<rparr>) =
     bm_collect (producer_pairs bs p)"
  by (auto simp: collected_def unwrap_or_def producer_pairs_def bm_collect_def split: list.splits)

lemma add_block_ok:
  assumes "bm_get M = collected bs" "pb_partition b \<in> included"
  shows "add_block included R M b = Inr M' \<longleftrightarrow> agrees R bs b \<and>
     M' = bm_insert (producer_node b) (the (collected (bs @ [b]) (producer_node b))) M"
proof -
  let ?p = "producer_node b"
  let ?d = "\<lparr>pp_width = block_width b, pp_target_names = block_targets b, pp_by_sample = []\<rparr>"
  let ?z = "zip (pb_sample_ids b) (pb_values b)"
  have w: "pp_width (unwrap_or (collected bs ?p) ?d) = block_width b \<and>
      pp_target_names (unwrap_or (collected bs ?p) ?d) = block_targets b \<longleftrightarrow>
      (case of_producer ?p bs of [] \<Rightarrow> True
       | b0 # _ \<Rightarrow> block_width b0 = block_width b \<and> block_targets b0 = block_targets b)"
    by (auto simp: collected_def unwrap_or_def split: list.splits)
  have z: "fst ` set ?z = set (pb_sample_ids b)" "distinct (map fst ?z) \<longleftrightarrow> distinct (pb_sample_ids b)"
    if "block_ok b"
    using that by (simp_all add: block_ok_def image_set del: set_map)
  have c: "the (collected (bs @ [b]) ?p) = (unwrap_or (collected bs ?p) ?d)
      \<lparr>pp_by_sample := foldl (\<lambda>m (s, v). bm_insert s v m) (bm_collect (producer_pairs bs ?p)) ?z\<rparr>"
    by (simp add: collected_snoc)
  have "add_block included R M b = Inr M' \<longleftrightarrow> block_ok b \<and>
      pp_width (unwrap_or (collected bs ?p) ?d) = block_width b \<and>
      pp_target_names (unwrap_or (collected bs ?p) ?d) = block_targets b \<and>
      (\<exists>m. try_fold (add_prediction b R) (bm_collect (producer_pairs bs ?p)) ?z = Inr m \<and>
        M' = bm_insert ?p ((unwrap_or (collected bs ?p) ?d)\<lparr>pp_by_sample := m\<rparr>) M)"
    by (simp add: add_block_def assms and_then_ok ok_iff Let_def block_targets_def[symmetric]
        collected_by_sample) auto
  also have "\<dots> \<longleftrightarrow> agrees R bs b \<and> M' = bm_insert ?p (the (collected (bs @ [b]) ?p)) M"
  proof (cases "block_ok b")
    case True
    then have d: "distinct (pb_sample_ids b)" by (simp add: block_ok_def)
    show ?thesis
      unfolding add_predictions_ok c agrees_def dom_collect_pairs z[OF True] w[symmetric]
      using True d by blast
  qed (simp add: agrees_def)
  finally show ?thesis .
qed

fun all_agree :: "sample_id set \<Rightarrow> prediction_block list \<Rightarrow> bool" where
  "all_agree R rev_bs = (case rev_bs of [] \<Rightarrow> True
     | b # rest \<Rightarrow> agrees R (rev rest) b \<and> all_agree R rest)"

declare all_agree.simps [simp del]

lemma all_agree_simps [simp]:
  "all_agree R []" "all_agree R (b # rest) \<longleftrightarrow> agrees R (rev rest) b \<and> all_agree R rest"
  by (simp_all add: all_agree.simps[of _ "[]"] all_agree.simps[of _ "_ # _"])

abbreviation included_blocks :: "prediction_partition set \<Rightarrow> prediction_block list \<Rightarrow> prediction_block list" where
  "included_blocks P \<equiv> filter (\<lambda>b. pb_partition b \<in> P)"

lemma add_blocks_ok:
  "(\<exists>M. try_fold (add_block P R) [] blocks = Inr M) = all_agree R (rev (included_blocks P blocks)) \<and>
   (\<forall>M. try_fold (add_block P R) [] blocks = Inr M \<longrightarrow>
      bm_ok M \<and> bm_get M = collected (included_blocks P blocks))"
proof (induction blocks rule: rev_induct)
  case Nil
  show ?case by (auto simp: collected_def of_producer_def fun_eq_iff)
next
  case (snoc b bs)
  let ?bs = "included_blocks P bs"
  show ?case
  proof (cases "pb_partition b \<in> P")
    case False
    then have "add_block P R M b = Inr M" for M by (simp add: add_block_def)
    with False snoc show ?thesis by (simp add: try_fold_append and_then_ok)
  next
    case True
    have s: "try_fold (add_block P R) [] (bs @ [b]) = Inr M' \<longleftrightarrow>
        (\<exists>M. try_fold (add_block P R) [] bs = Inr M \<and> add_block P R M b = Inr M')" for M'
      by (auto simp: try_fold_append and_then_ok)
    have step: "add_block P R M b = Inr M' \<longleftrightarrow> agrees R ?bs b \<and>
        M' = bm_insert (producer_node b) (the (collected (?bs @ [b]) (producer_node b))) M"
      if "try_fold (add_block P R) [] bs = Inr M" for M M'
      using add_block_ok[OF _ True] snoc that by blast
    have get: "(collected ?bs)(producer_node b \<mapsto> the (collected (?bs @ [b]) (producer_node b))) =
        collected (?bs @ [b])"
      by (simp add: collected_snoc)
    have 1: "(\<exists>M. try_fold (add_block P R) [] (bs @ [b]) = Inr M) =
        all_agree R (rev (included_blocks P (bs @ [b])))"
      using snoc step True unfolding s by auto
    have 2: "bm_ok M' \<and> bm_get M' = collected (included_blocks P (bs @ [b]))"
      if M': "try_fold (add_block P R) [] (bs @ [b]) = Inr M'" for M'
    proof -
      obtain M where M: "try_fold (add_block P R) [] bs = Inr M" "add_block P R M b = Inr M'"
        using M' s by blast
      have "bm_ok M" "bm_get M = collected ?bs" using snoc M(1) by blast+
      moreover have "M' = bm_insert (producer_node b) (the (collected (?bs @ [b]) (producer_node b))) M"
        using step[OF M(1)] M(2) by blast
      ultimately show ?thesis using get True by auto
    qed
    show ?thesis using 1 2 by blast
  qed
qed

end
