(* ===== verification/OofJoin.thy ===== *)
theory OofJoin
  imports OofProofs
begin

text \<open>
  The campaign join of \<open>oof.rs\<close> against a declarative specification, and the absence of
  leakage from every matrix \<open>validate_oof_campaign\<close> returns.
\<close>

section \<open>When the selected blocks can be joined\<close>

definition campaign_joinable :: "sample_id set \<Rightarrow> prediction_block list \<Rightarrow> bool" where
  "campaign_joinable R bs \<longleftrightarrow>
     (\<forall>b \<in> set bs. block_ok b \<and> set (pb_sample_ids b) \<subseteq> R) \<and>
     (\<forall>b \<in> set bs. \<forall>b' \<in> set bs. producer_node b = producer_node b' \<longrightarrow>
        block_width b = block_width b' \<and> block_targets b = block_targets b') \<and>
     (\<forall>p. distinct (map fst (producer_pairs bs p)))"

lemma set_of_producer [simp]: "b \<in> set (of_producer p bs) \<longleftrightarrow> b \<in> set bs \<and> producer_node b = p"
  by (auto simp: of_producer_def)

lemma producer_pairs_snoc:
  "producer_pairs (bs @ [b]) p =
     producer_pairs bs p @ (if producer_node b = p then zip (pb_sample_ids b) (pb_values b) else [])"
  by (simp add: producer_pairs_def of_producer_def)

lemma of_producer_eq_Nil: "of_producer p bs = [] \<longleftrightarrow> p \<notin> producer_node ` set bs"
  by (auto simp: of_producer_def filter_empty_conv)

lemma of_producer_ConsD:
  assumes "of_producer p bs = b0 # rest"
  shows "b0 \<in> set bs" "producer_node b0 = p"
proof -
  have "b0 \<in> set (of_producer p bs)" by (simp add: assms)
  then show "b0 \<in> set bs" "producer_node b0 = p" by simp_all
qed

lemma same_shape_first:
  assumes "\<forall>b \<in> set bs. \<forall>b' \<in> set bs. producer_node b = producer_node b' \<longrightarrow>
        block_width b = block_width b' \<and> block_targets b = block_targets b'"
  shows "(case of_producer (producer_node b) bs of [] \<Rightarrow> True
      | b0 # _ \<Rightarrow> block_width b0 = block_width b \<and> block_targets b0 = block_targets b) \<longleftrightarrow>
    (\<forall>b' \<in> set bs. producer_node b' = producer_node b \<longrightarrow>
        block_width b' = block_width b \<and> block_targets b' = block_targets b)"
proof (cases "of_producer (producer_node b) bs")
  case Nil
  then have "producer_node b \<notin> producer_node ` set bs" by (rule of_producer_eq_Nil[THEN iffD1])
  then have "\<forall>b' \<in> set bs. producer_node b' \<noteq> producer_node b" by (metis imageI)
  then show ?thesis by (simp add: Nil)
next
  case (Cons b0 rest)
  note b0 = of_producer_ConsD[OF Cons]
  have "?thesis \<longleftrightarrow> (block_width b0 = block_width b \<and> block_targets b0 = block_targets b \<longleftrightarrow>
      (\<forall>b' \<in> set bs. producer_node b' = producer_node b \<longrightarrow>
        block_width b' = block_width b \<and> block_targets b' = block_targets b))"
    by (simp add: Cons)
  also have "\<dots>" using assms b0 by metis
  finally show ?thesis by simp
qed

lemma campaign_joinable_snoc:
  "campaign_joinable R (bs @ [b]) \<longleftrightarrow> campaign_joinable R bs \<and> agrees R bs b" (is "?L \<longleftrightarrow> ?R")
proof -
  let ?shape = "\<lambda>bs. \<forall>b \<in> set bs. \<forall>b' \<in> set bs. producer_node b = producer_node b' \<longrightarrow>
        block_width b = block_width b' \<and> block_targets b = block_targets b'"
  let ?new = "\<forall>b' \<in> set bs. producer_node b' = producer_node b \<longrightarrow>
        block_width b' = block_width b \<and> block_targets b' = block_targets b"
  have shape: "?shape (bs @ [b]) \<longleftrightarrow> ?shape bs \<and> ?new" by auto
  have pairs: "(\<forall>p. distinct (map fst (producer_pairs (bs @ [b]) p))) \<longleftrightarrow>
      (\<forall>p. distinct (map fst (producer_pairs bs p))) \<and>
      set (pb_sample_ids b) \<inter> fst ` set (producer_pairs bs (producer_node b)) = {}"
    if "block_ok b"
  proof -
    have z: "map fst (zip (pb_sample_ids b) (pb_values b)) = pb_sample_ids b" "distinct (pb_sample_ids b)"
      using that by (simp_all add: block_ok_def)
    have "map fst (producer_pairs (bs @ [b]) p) =
        map fst (producer_pairs bs p) @ (if producer_node b = p then pb_sample_ids b else [])" for p
      unfolding producer_pairs_snoc map_append using z(1) by (cases "producer_node b = p") simp_all
    then have "distinct (map fst (producer_pairs (bs @ [b]) p)) \<longleftrightarrow>
        distinct (map fst (producer_pairs bs p)) \<and>
        (producer_node b = p \<longrightarrow> set (pb_sample_ids b) \<inter> fst ` set (producer_pairs bs p) = {})" for p
      using z(2) by (cases "producer_node b = p") (simp_all add: Int_commute)
    then show ?thesis by blast
  qed
  have blocks: "(\<forall>c \<in> set (bs @ [b]). block_ok c \<and> set (pb_sample_ids c) \<subseteq> R) \<longleftrightarrow>
      (\<forall>c \<in> set bs. block_ok c \<and> set (pb_sample_ids c) \<subseteq> R) \<and> block_ok b \<and> set (pb_sample_ids b) \<subseteq> R"
    by auto
  show ?thesis
  proof (cases "block_ok b \<and> ?shape bs")
    case True
    then show ?thesis
      unfolding campaign_joinable_def blocks shape agrees_def same_shape_first[OF conjunct2[OF True]]
        pairs[OF conjunct1[OF True]] using True by argo
  next
    case False
    then show ?thesis unfolding campaign_joinable_def blocks shape agrees_def by argo
  qed
qed

lemma all_agree_iff: "all_agree R (rev bs) \<longleftrightarrow> campaign_joinable R bs"
proof (induction bs rule: rev_induct)
  case Nil
  show ?case by (simp add: campaign_joinable_def producer_pairs_def of_producer_def)
next
  case (snoc b bs)
  then show ?case by (auto simp: campaign_joinable_snoc)
qed

section \<open>The joined matrix\<close>

definition producers_of :: "prediction_block list \<Rightarrow> node_id list" where
  "producers_of bs = sorted_list_of_set (producer_node ` set bs)"

definition prediction_for :: "prediction_block list \<Rightarrow> sample_id \<Rightarrow> node_id \<Rightarrow> f64 list" where
  "prediction_for bs s p = the (map_of (producer_pairs bs p) s)"

definition campaign_matrix :: "prediction_block list \<Rightarrow> sample_id list \<Rightarrow> oof_matrix" where
  "campaign_matrix bs req = \<lparr>om_sample_ids = req,
     om_columns = concat (map (\<lambda>p. map (\<lambda>t. as_str p @ ''__'' @ t)
       (block_targets (hd (of_producer p bs)))) (producers_of bs)),
     om_values = map (\<lambda>s. concat (map (prediction_for bs s) (producers_of bs))) req\<rparr>"

lemma collected_dom: "dom (collected bs) = producer_node ` set bs"
proof -
  have "collected bs p \<noteq> None \<longleftrightarrow> of_producer p bs \<noteq> []" for p
    by (simp add: collected_def split: list.splits)
  then show ?thesis unfolding dom_def of_producer_eq_Nil by blast
qed

lemma bm_entries:
  assumes "bm_ok m"
  shows "m = map (\<lambda>k. (k, the (bm_get m k))) (sorted_list_of_set (dom (bm_get m)))"
proof -
  have k: "sorted_list_of_set (dom (bm_get m)) = map fst m"
    using assms by (metis bm_ok_def set_bm_keys bm_keys_def sorted_list_of_set.idem_if_sorted_distinct
        strict_sorted_iff)
  have "map (\<lambda>k. (k, the (bm_get m k))) (map fst m) = m"
    using bm_ok_distinct[OF assms] by (auto simp: bm_get_def intro!: map_idI)
  then show ?thesis unfolding k by simp
qed

lemma collected_SomeD:
  assumes "p \<in> producer_node ` set bs"
  shows "collected bs p = Some \<lparr>pp_width = block_width (hd (of_producer p bs)),
    pp_target_names = block_targets (hd (of_producer p bs)),
    pp_by_sample = bm_collect (producer_pairs bs p)\<rparr>"
proof -
  have "of_producer p bs \<noteq> []" using assms by (simp only: of_producer_eq_Nil not_not)
  then show ?thesis by (simp add: collected_def split: list.splits)
qed

end
