(* ===== verification/OofLeak.thy ===== *)
theory OofLeak
  imports OofJoin
begin

text \<open>
  \<open>join_oof_campaign_features\<close> and \<open>validate_oof_campaign\<close> of \<open>oof.rs\<close>: the exact success
  condition and result, and the freedom from leakage of every matrix returned.
\<close>

section \<open>The campaign join\<close>

definition covers_required :: "prediction_block list \<Rightarrow> sample_id list \<Rightarrow> bool" where
  "covers_required bs req \<longleftrightarrow>
     (\<forall>p \<in> set (producers_of bs). set req \<subseteq> fst ` set (producer_pairs bs p))"

lemma set_producers_of [simp]: "set (producers_of bs) = producer_node ` set bs"
  by (simp add: producers_of_def)

lemma producers_entries:
  assumes "bm_ok M" "bm_get M = collected bs"
  shows "M = map (\<lambda>p. (p, the (collected bs p))) (producers_of bs)"
  using bm_entries[OF assms(1)] by (simp add: assms(2) collected_dom producers_of_def)

lemma producer_by_sample:
  assumes "p \<in> set (producers_of bs)"
  shows "pp_by_sample (the (collected bs p)) = bm_collect (producer_pairs bs p)"
    "pp_target_names (the (collected bs p)) = block_targets (hd (of_producer p bs))"
  using collected_SomeD[of p bs] assms by simp_all

lemma campaign_row_ok:
  assumes "list_all (\<lambda>p. s \<in> fst ` set (producer_pairs bs p)) (producers_of bs)"
    "campaign_joinable R bs"
  shows "campaign_row (map (\<lambda>p. (p, the (collected bs p))) (producers_of bs)) s =
     Inr (concat (map (prediction_for bs s) (producers_of bs)))"
proof -
  have "try_map (\<lambda>(_, pp). ok_or (bm_get (pp_by_sample pp) s)
         (Panic (ExpectFailed ''required sample was checked'') :: dag_ml_error failure))
       (map (\<lambda>p. (p, the (collected bs p))) ps) = Inr (map (prediction_for bs s) ps)"
    if "set ps \<subseteq> set (producers_of bs)" for ps
    using that
  proof (induction ps)
    case (Cons p ps)
    then have p: "p \<in> set (producers_of bs)" by simp
    have d: "distinct (map fst (producer_pairs bs p))" using assms(2) by (simp add: campaign_joinable_def)
    have "s \<in> fst ` set (producer_pairs bs p)" using assms(1) p unfolding list_all_iff by blast
    then obtain v where "map_of (producer_pairs bs p) s = Some v"
      by (metis map_of_eq_None_iff not_None_eq)
    then have "bm_get (pp_by_sample (the (collected bs p))) s = Some (prediction_for bs s p)"
      by (simp add: producer_by_sample[OF p] bm_get_collect_distinct[OF d] prediction_for_def)
    with Cons show ?case by simp
  qed simp
  from this[OF subset_refl] show ?thesis by (simp add: campaign_row_def)
qed

lemma join_required_ok:
  "ensure_required_samples req = Inr u \<longleftrightarrow> req \<noteq> [] \<and> distinct req"
  by (auto simp: ensure_required_samples_def distinct_card card_distinct)

lemma campaign_join_unfold:
  "join_oof_campaign_features policy blocks req = Inr m \<longleftrightarrow>
     (allow_train_predictions_as_features policy \<or> (\<forall>b \<in> set blocks. pb_partition b = Validation)) \<and>
     req \<noteq> [] \<and> distinct req \<and>
     (\<exists>P. try_fold (add_block (effective_partitions policy) (set req)) [] blocks = Inr P \<and> P \<noteq> [] \<and>
       try_each (\<lambda>(node, pp). try_each (\<lambda>s.
           ensure (bm_contains_key (pp_by_sample pp) s)
             (Err (OofValidation (MissingRequiredSample (as_str node) (as_str s))))) req) P = Inr () \<and>
       (\<exists>vals. try_map (campaign_row P) req = Inr vals \<and>
         \<lparr>om_sample_ids = req, om_columns = concat (map (\<lambda>(node, pp).
             map (\<lambda>target. as_str node @ ''__'' @ target) (pp_target_names pp)) P), om_values = vals\<rparr> = m))"
proof -
  have guard: "(if P = [] then oof_err NoBlocksSelected else r) = Inr m \<longleftrightarrow> P \<noteq> [] \<and> r = Inr m"
    for P :: "(node_id \<times> producer_predictions) list" and r :: "oof_matrix result" by simp
  have unit: "(\<exists>u. Q u) \<longleftrightarrow> Q ()" for Q :: "unit \<Rightarrow> bool" by auto
  show ?thesis
    unfolding join_oof_campaign_features_def Let_def
    by (simp only: and_then_ok blocks_are_oof_ok join_required_ok guard unit sum.inject conj_assoc)
qed

lemma campaign_join_ok:
  "join_oof_campaign_features policy blocks req = Inr m \<longleftrightarrow>
     (allow_train_predictions_as_features policy \<or> (\<forall>b \<in> set blocks. pb_partition b = Validation)) \<and>
     req \<noteq> [] \<and> distinct req \<and>
     (let bs = included_blocks (effective_partitions policy) blocks in
        bs \<noteq> [] \<and> campaign_joinable (set req) bs \<and> covers_required bs req \<and>
        m = campaign_matrix bs req)"
proof -
  let ?bs = "included_blocks (effective_partitions policy) blocks"
  let ?P = "map (\<lambda>p. (p, the (collected ?bs p))) (producers_of ?bs)"
  let ?loop = "try_fold (add_block (effective_partitions policy) (set req)) [] blocks"
  note add = add_blocks_ok[of "effective_partitions policy" "set req" blocks, unfolded all_agree_iff]
  have loop: "?loop = Inr M \<longleftrightarrow> campaign_joinable (set req) ?bs \<and> M = ?P" for M
  proof
    assume L: "?loop = Inr M"
    then have "bm_ok M" "bm_get M = collected ?bs" using add by blast+
    then show "campaign_joinable (set req) ?bs \<and> M = ?P" using producers_entries L add by blast
  next
    assume R: "campaign_joinable (set req) ?bs \<and> M = ?P"
    then obtain M' where M': "?loop = Inr M'" using add by blast
    then have "bm_ok M'" "bm_get M' = collected ?bs" using add by blast+
    then have "M' = ?P" by (rule producers_entries)
    with M' R show "?loop = Inr M" by simp
  qed
  have empty: "?P = [] \<longleftrightarrow> ?bs = []"
    by (auto simp: producers_of_def sorted_list_of_set_eq_Nil_iff filter_empty_conv)

  have check: "try_each (\<lambda>(node, pp). try_each (\<lambda>s.
           ensure (bm_contains_key (pp_by_sample pp) s)
             (Err (OofValidation (MissingRequiredSample (as_str node) (as_str s))))) req) ?P = Inr u \<longleftrightarrow>
      covers_required ?bs req" for u
    by (auto simp: ok_iff covers_required_def producer_by_sample bm_contains_key_get[unfolded domIff[symmetric]]
        dom_collect_pairs subset_iff simp del: set_producers_of)
  have vals: "try_map (campaign_row ?P) req =
      Inr (map (\<lambda>s. concat (map (prediction_for ?bs s) (producers_of ?bs))) req)"
    if "campaign_joinable (set req) ?bs" "covers_required ?bs req"
  proof (rule try_map_total)
    fix s assume "s \<in> set req"
    then have "list_all (\<lambda>p. s \<in> fst ` set (producer_pairs ?bs p)) (producers_of ?bs)"
      using that(2) unfolding covers_required_def list_all_iff by blast
    from campaign_row_ok[OF this that(1)] show
      "campaign_row ?P s = Inr (concat (map (prediction_for ?bs s) (producers_of ?bs)))" .
  qed
  have cols: "concat (map (\<lambda>(node, pp). map (\<lambda>target. as_str node @ ''__'' @ target) (pp_target_names pp)) ?P) =
      om_columns (campaign_matrix ?bs req)"
    by (simp add: campaign_matrix_def producer_by_sample comp_def cong: map_cong del: set_producers_of)
  have mat: "\<lparr>om_sample_ids = req, om_columns = om_columns (campaign_matrix ?bs req),
      om_values = map (\<lambda>s. concat (map (prediction_for ?bs s) (producers_of ?bs))) req\<rparr> = campaign_matrix ?bs req"
    by (simp add: campaign_matrix_def)
  have one: "(\<exists>P. (J \<and> P = X) \<and> Q P) \<longleftrightarrow> J \<and> Q X" for J Q and X :: "(node_id \<times> producer_predictions) list"
    by blast
  have "join_oof_campaign_features policy blocks req = Inr m \<longleftrightarrow>
      (allow_train_predictions_as_features policy \<or> (\<forall>b \<in> set blocks. pb_partition b = Validation)) \<and>
      req \<noteq> [] \<and> distinct req \<and> campaign_joinable (set req) ?bs \<and> ?P \<noteq> [] \<and>
      covers_required ?bs req \<and> (\<exists>vals. try_map (campaign_row ?P) req = Inr vals \<and>
        \<lparr>om_sample_ids = req, om_columns = om_columns (campaign_matrix ?bs req), om_values = vals\<rparr> = m)"
    unfolding campaign_join_unfold loop one check cols by (simp only: conj_assoc)
  then show ?thesis unfolding empty Let_def using vals mat by auto
qed

text \<open>the campaign join succeeds exactly when train predictions are allowed or every block is a
  validation block, the requested samples are non-empty and duplicate-free, and the blocks of the
  included partitions are non-empty, well-formed, inside the request, of one shape per producer,
  without a sample predicted twice by one producer, and complete for each producer; the matrix
  then has one column group per producer, in the order of producer ids.\<close>

theorem join_oof_campaign_features_spec:
  "join_oof_campaign_features policy blocks req = Inr m \<longleftrightarrow>
     (allow_train_predictions_as_features policy \<or>
      list_all (\<lambda>b. pb_partition b = Validation) blocks) \<and>
     req \<noteq> [] \<and> distinct req \<and>
     (let bs = included_blocks (effective_partitions policy) blocks in
        bs \<noteq> [] \<and> campaign_joinable (set req) bs \<and> covers_required bs req \<and>
        m = campaign_matrix bs req)"
  unfolding list_all_iff by (rule campaign_join_ok)

section \<open>No leakage\<close>

lemma validation_block_fold:
  assumes "validate_block_against_folds fs b = Inr u" "fold_set_wf fs" "pb_partition b = Validation"
  shows "\<exists>f \<in> set (folds fs). pb_fold_id b = Some (fold_id f) \<and>
    set (pb_sample_ids b) = set (validation_sample_ids f)"
  using assms(1,3)
  by (auto simp: validate_block_against_folds_def ok_iff folds_by_id_get[OF assms(2)]
      assert_exact_partition_samples_def split: option.splits if_splits)

lemma campaign_okD:
  assumes "validate_oof_campaign c = Inr m"
  shows "fold_set_wf (oc_fold_set c)"
    "distinct (requested_sample_order c)"
    "set (requested_sample_order c) = set (sample_ids (oc_fold_set c))"
    "\<forall>b \<in> set (prediction_blocks c). validate_block_against_folds (oc_fold_set c) b = Inr ()"
    "join_oof_campaign_features (join_policy c) (prediction_blocks c) (requested_sample_order c) = Inr m"
  using assms
  by (auto simp: validate_oof_campaign_def validate_requested_samples_match_fold_set_def ok_iff
      join_required_ok fold_set_validate_ok validate_prediction_blocks_against_folds_def split: if_splits)

text \<open>The prediction \<open>r\<close> of sample \<open>s\<close> comes from a model that was not trained on \<open>s\<close>.\<close>

definition out_of_fold :: "oof_campaign \<Rightarrow> sample_id \<Rightarrow> f64 list \<Rightarrow> bool" where
  "out_of_fold c s r \<longleftrightarrow>
     (\<exists>b \<in> set (prediction_blocks c). \<exists>f \<in> set (folds (oc_fold_set c)).
        pb_partition b = Validation \<and> pb_fold_id b = Some (fold_id f) \<and>
        (s, r) \<in> set (zip (pb_sample_ids b) (pb_values b)) \<and>
        s \<in> set (validation_sample_ids f) \<and> s \<notin> set (train_sample_ids f))"

lemma prediction_for_mem:
  assumes "s \<in> fst ` set (producer_pairs bs p)"
  shows "\<exists>b \<in> set bs. (s, prediction_for bs s p) \<in> set (zip (pb_sample_ids b) (pb_values b))"
proof -
  obtain v where v: "map_of (producer_pairs bs p) s = Some v"
    using assms by (metis map_of_eq_None_iff not_None_eq)
  then have "(s, v) \<in> set (producer_pairs bs p)" by (rule map_of_SomeD)
  with v show ?thesis by (auto simp: producer_pairs_def prediction_for_def)
qed

lemma campaign_out_of_fold:
  assumes c: "validate_oof_campaign c = Inr m"
    and no: "\<not> allow_train_predictions_as_features (join_policy c)"
    and s: "s \<in> set (requested_sample_order c)"
    and p: "p \<in> set (producers_of (prediction_blocks c))"
    and cov: "covers_required (prediction_blocks c) (requested_sample_order c)"
  shows "out_of_fold c s (prediction_for (prediction_blocks c) s p)"
proof -
  note C = campaign_okD[OF c]
  have valid: "\<forall>b \<in> set (prediction_blocks c). pb_partition b = Validation"
    using C(5) no unfolding campaign_join_ok by blast
  have "s \<in> fst ` set (producer_pairs (prediction_blocks c) p)"
    using s p cov unfolding covers_required_def by blast
  from prediction_for_mem[OF this] obtain b where b: "b \<in> set (prediction_blocks c)"
    "(s, prediction_for (prediction_blocks c) s p) \<in> set (zip (pb_sample_ids b) (pb_values b))" by blast
  obtain f where f: "f \<in> set (folds (oc_fold_set c))" "pb_fold_id b = Some (fold_id f)"
    "set (pb_sample_ids b) = set (validation_sample_ids f)"
    using validation_block_fold[OF _ C(1), of b] C(4) b(1) valid by blast
  have sv: "s \<in> set (validation_sample_ids f)" using b(2) f(3) by (auto dest: set_zip_leftD)
  have "fold_ok (oc_fold_set c) f" using C(1) f(1) by (simp add: fold_set_wf_def)
  then have "s \<notin> set (train_sample_ids f)" using sv by (auto simp: fold_ok_def)
  then show ?thesis unfolding out_of_fold_def using b f sv valid by blast
qed

lemma included_all:
  assumes "\<forall>b \<in> set blocks. pb_partition b = Validation" "included_blocks P blocks \<noteq> []"
  shows "included_blocks P blocks = blocks"
proof -
  have "Validation \<in> P" using assms by (auto simp: filter_empty_conv)
  then show ?thesis using assms(1) by simp
qed

text \<open>C1: no leakage into a meta-model: unless the policy explicitly allows train predictions, in
  every matrix \<open>validate_oof_campaign\<close> returns, the row of a sample is the concatenation of one
  prediction per producer, each from a validation block of a fold that validates the sample and
  does not train on it; the rows are exactly the samples of the fold set.\<close>

theorem validate_oof_campaign_no_leak:
  assumes "validate_oof_campaign c = Inr m"
    and "\<not> allow_train_predictions_as_features (join_policy c)"
  shows "om_sample_ids m = requested_sample_order c \<and>
    set (om_sample_ids m) = set (sample_ids (oc_fold_set c)) \<and>
    list_all2 (\<lambda>s row. \<exists>parts. row = concat parts \<and>
        length parts = card (producer_node ` set (prediction_blocks c)) \<and>
        list_all (out_of_fold c s) parts) (om_sample_ids m) (om_values m)"
proof -
  let ?bs = "prediction_blocks c" and ?req = "requested_sample_order c"
  note C = campaign_okD[OF assms(1)]
  have valid: "\<forall>b \<in> set ?bs. pb_partition b = Validation"
    and join: "included_blocks (effective_partitions (join_policy c)) ?bs \<noteq> []"
    "covers_required (included_blocks (effective_partitions (join_policy c)) ?bs) ?req"
    "m = campaign_matrix (included_blocks (effective_partitions (join_policy c)) ?bs) ?req"
    using C(5) assms(2) unfolding campaign_join_ok Let_def by blast+
  note all = included_all[OF valid join(1)]
  have cov: "covers_required ?bs ?req" and m: "m = campaign_matrix ?bs ?req"
    using join(2,3) unfolding all by simp_all
  have "out_of_fold c s (prediction_for ?bs s p)"
    if "s \<in> set ?req" "p \<in> set (producers_of ?bs)" for s p
    using campaign_out_of_fold[OF assms that cov] .
  then have parts: "\<exists>parts. concat (map (prediction_for ?bs s) (producers_of ?bs)) = concat parts \<and>
      length parts = card (producer_node ` set ?bs) \<and> list_all (out_of_fold c s) parts"
    if "s \<in> set ?req" for s
    using that by (intro exI[of _ "map (prediction_for ?bs s) (producers_of ?bs)"])
      (simp add: list_all_iff, simp add: producers_of_def)
  show ?thesis
    unfolding m list_all2_conv_all_nth using C(3) parts[OF nth_mem] by (simp add: campaign_matrix_def)
qed

text \<open>A two-fold campaign of one producer over \<open>abc_folds\<close>.\<close>

definition abc_campaign :: oof_campaign where
  "abc_campaign = \<lparr>oc_fold_set = abc_folds,
     join_policy = \<lparr>pjp_node_id = Ident ''meta'', join_on = SampleIdKey,
       allow_train_predictions_as_features = False, include_partitions = []\<rparr>,
     requested_sample_order = [Ident ''c'', Ident ''a'', Ident ''b''],
     prediction_blocks = abc_blocks\<rparr>"

lemma validate_oof_campaign_no_leak_witness:
  "om_columns (projr (validate_oof_campaign abc_campaign)) = [''pls__p0''] \<and>
   om_values (projr (validate_oof_campaign abc_campaign)) =
     [[0], [0x3ff0000000000000], [0x4000000000000000]] \<and>
   set (om_sample_ids (projr (validate_oof_campaign abc_campaign))) = set (sample_ids abc_folds)"
proof -
  let ?r = "validate_oof_campaign abc_campaign"
  have "\<not> isl ?r" "\<not> allow_train_predictions_as_features (join_policy abc_campaign)" by code_simp+
  then have "?r = Inr (projr ?r)" "\<not> allow_train_predictions_as_features (join_policy abc_campaign)" by simp_all
  note leak = validate_oof_campaign_no_leak[OF this, THEN conjunct2, THEN conjunct1]
  have "om_columns (projr ?r) = [''pls__p0'']"
    "om_values (projr ?r) = [[0], [0x3ff0000000000000], [0x4000000000000000]]" by code_simp+
  moreover have "oc_fold_set abc_campaign = abc_folds" by (simp add: abc_campaign_def)
  ultimately show ?thesis using leak by simp
qed

end
