(* ===== verification/Graph.thy ===== *)
theory Graph
  imports OofLeak
begin

text \<open>
  \<open>graph.rs\<close>: the pipeline graph, its validation, and the two traversals that schedule it
  (Kahn's algorithm one node at a time, and by levels). Serde's decoder of the stacking contract
  is the parameter \<open>from_value\<close>. Edge counts are natural numbers: a \<open>usize\<close> counter of list
  elements cannot overflow.
\<close>

section \<open>Data\<close>

datatype (plugins only: code size) entity_unit_level = PhysicalSample | SourceSample | ObservationUnit | Combo

datatype (plugins only: code size) node_kind =
    Transform | YTransform | Split | Model | Fork | MapNode | FeatureJoin | PredictionJoin
  | MixedJoin | SourceJoin | Tag | Exclude | Augmentation | Adapter | Aggregator | Generator
  | Restructure | Tuner | Subgraph | Chart

datatype (plugins only: code size) port_kind = Data | Target | Prediction | Artifact | Metric | Control

datatype (plugins only: code size) port_cardinality = One | Many | Optional

record port_spec =
  ps_name :: string
  ps_kind :: port_kind
  ps_representation :: "string option"
  ps_cardinality :: port_cardinality
  ps_unit_level :: "entity_unit_level option"
  ps_alignment_key :: "string option"
  ps_target_level :: "entity_unit_level option"
  ps_description :: string

record port_schema =
  inputs :: "port_spec list"
  outputs :: "port_spec list"

record port_ref =
  pr_node_id :: node_id
  pr_port_name :: string

record relation_contract =
  relation_fingerprint :: "string option"
  rc_required :: bool

datatype (plugins only: code size) missingness_policy = Strict | Warn | ImputeDeclared | Mask | PartialModel | PadRepresentation

record edge_contract =
  ec_kind :: port_kind
  ec_representation :: "string option"
  ec_unit_level :: "entity_unit_level option"
  ec_alignment_key :: "string option"
  ec_target_level :: "entity_unit_level option"
  ec_relation_contract :: "relation_contract option"
  allows_broadcast :: bool
  missingness :: "missingness_policy option"
  requires_oof :: bool
  requires_fold_alignment :: bool
  propagates_lineage :: bool

definition edge_contract_new :: "port_kind \<Rightarrow> string option \<Rightarrow> edge_contract" where
  "edge_contract_new k representation = \<lparr>ec_kind = k, ec_representation = representation,
     ec_unit_level = None, ec_alignment_key = None, ec_target_level = None,
     ec_relation_contract = None, allows_broadcast = False, missingness = None,
     requires_oof = False, requires_fold_alignment = False, propagates_lineage = True\<rparr>"

record edge_spec =
  edge_source :: port_ref
  edge_target :: port_ref
  contract :: edge_contract

record graph_interface =
  gi_inputs :: "port_spec list"
  gi_outputs :: "port_spec list"

record node_spec =
  node_id :: node_id
  ns_kind :: node_kind
  ns_operator :: "json_value option"
  ns_params :: json_map
  ns_ports :: port_schema
  ns_metadata :: json_map
  ns_seed_label :: "string option"

record graph_spec =
  graph_id :: string
  interface :: graph_interface
  nodes :: "node_spec list"
  edges :: "edge_spec list"
  search_space_fingerprint :: "string option"
  graph_metadata :: json_map

section \<open>Checks on ports and contracts\<close>

abbreviation graph_err :: "graph_msg \<Rightarrow> 'a result" where
  "graph_err m \<equiv> fail (GraphValidation m)"

definition option_ex :: "('a \<Rightarrow> bool) \<Rightarrow> 'a option \<Rightarrow> bool" where
  "option_ex p x = (case x of None \<Rightarrow> False | Some y \<Rightarrow> p y)"

definition is_identifier :: "string \<Rightarrow> bool" where
  "is_identifier s \<longleftrightarrow> s \<noteq> [] \<and> length s \<le> 128 \<and> list_all identifier_byte s"

definition validate_optional_non_empty :: "graph_field \<Rightarrow> string option \<Rightarrow> unit result" where
  "validate_optional_non_empty label x =
     (if option_ex is_blank x then graph_err (FieldEmpty label) else Inr ())"

definition is_sha256 :: "string \<Rightarrow> bool" where
  "is_sha256 s \<longleftrightarrow> length s = 64 \<and> list_all is_ascii_hexdigit s"

definition validate_port_contract :: "node_id \<Rightarrow> string \<Rightarrow> port_spec \<Rightarrow> unit result" where
  "validate_port_contract node direction p =
     and_then (validate_optional_non_empty (PortRepresentation direction (ps_name p)) (ps_representation p)) (\<lambda>_.
     and_then (validate_optional_non_empty (PortAlignmentKey direction (ps_name p)) (ps_alignment_key p)) (\<lambda>_.
     if option_ex (\<lambda>k. \<not> is_identifier k) (ps_alignment_key p)
     then graph_err (PortInvalidAlignmentKey direction (ps_name p) (as_str node))
     else Inr ()))"

definition validate_unique_ports :: "node_id \<Rightarrow> string \<Rightarrow> port_spec list \<Rightarrow> unit result" where
  "validate_unique_ports node direction ports =
     and_then (try_fold (\<lambda>seen p.
         if is_blank (ps_name p) then graph_err (PortNameEmpty direction (as_str node))
         else if ps_name p \<in> seen then graph_err (DuplicatePort direction (ps_name p) (as_str node))
         else and_then (validate_port_contract node direction p) (\<lambda>_. Inr (insert (ps_name p) seen)))
         {} ports) (\<lambda>_. Inr ())"

definition find_port :: "port_spec list \<Rightarrow> string \<Rightarrow> port_spec option" where
  "find_port ports name = find (\<lambda>p. ps_name p = name) ports"

definition edge_label_of :: "edge_spec \<Rightarrow> edge_label" where
  "edge_label_of e = (as_str (pr_node_id (edge_source e)), pr_port_name (edge_source e),
     as_str (pr_node_id (edge_target e)), pr_port_name (edge_target e))"

abbreviation edge_err :: "edge_spec \<Rightarrow> edge_problem \<Rightarrow> 'a result" where
  "edge_err e p \<equiv> graph_err (EdgeProblem (edge_label_of e) p)"

definition validate_relation_contract :: "edge_spec \<Rightarrow> relation_contract \<Rightarrow> unit result" where
  "validate_relation_contract e c =
     (case relation_fingerprint c of
        Some fp \<Rightarrow> if is_sha256 fp then Inr () else edge_err e InvalidRelationFingerprint
      | None \<Rightarrow> if rc_required c then edge_err e RequiredFingerprintMissing else Inr ())"

text \<open>\<open>if let (Some a), Some b) = (x, y) { if a != b { ... } }\<close>.\<close>

definition both_differ :: "'a option \<Rightarrow> 'a option \<Rightarrow> bool" where
  "both_differ x y = (case (x, y) of (Some a, Some b) \<Rightarrow> a \<noteq> b | _ \<Rightarrow> False)"

definition endpoints :: "edge_spec \<Rightarrow> port_spec \<Rightarrow> port_spec \<Rightarrow> (port_spec \<Rightarrow> 'a option) \<Rightarrow> (string \<times> 'a option) list" where
  "endpoints e sp tp get = [(''source'', get sp), (''target'', get tp)]"

definition validate_edge_unit_alignment :: "edge_spec \<Rightarrow> port_spec \<Rightarrow> port_spec \<Rightarrow> unit result" where
  "validate_edge_unit_alignment e sp tp =
     (let c = contract e; b = allows_broadcast c in
      and_then (try_each (\<lambda>(endpoint, unit).
          ensure (\<not> (both_differ unit (ec_unit_level c) \<and> \<not> b))
            (Err (GraphValidation (EdgeProblem (edge_label_of e) (EndpointUnitMismatch endpoint)))))
          (endpoints e sp tp ps_unit_level)) (\<lambda>_.
      if both_differ (ps_unit_level sp) (ps_unit_level tp) \<and> \<not> b then edge_err e IncompatibleUnits
      else if both_differ (ps_target_level sp) (ps_target_level tp) then edge_err e IncompatibleTargets
      else and_then (try_each (\<lambda>(endpoint, level).
          ensure (\<not> both_differ level (ec_target_level c))
            (Err (GraphValidation (EdgeProblem (edge_label_of e) (EndpointTargetMismatch endpoint)))))
          (endpoints e sp tp ps_target_level)) (\<lambda>_.
      if both_differ (ps_alignment_key sp) (ps_alignment_key tp) \<and> \<not> b
      then edge_err e (IncompatibleAlignments (the (ps_alignment_key sp)) (the (ps_alignment_key tp)))
      else and_then (try_each (\<lambda>(endpoint, alignment).
          ensure (\<not> (both_differ alignment (ec_alignment_key c) \<and> \<not> b))
            (Err (GraphValidation (EdgeProblem (edge_label_of e)
              (EndpointAlignmentMismatch endpoint (the alignment) (the (ec_alignment_key c)))))))
          (endpoints e sp tp ps_alignment_key)) (\<lambda>_.
      if b \<and> ec_alignment_key c = None \<and> ps_alignment_key sp = None \<and> ps_alignment_key tp = None
      then edge_err e BroadcastWithoutAlignment
      else Inr ()))))"

definition non_physical :: "entity_unit_level option \<Rightarrow> bool" where
  "non_physical u = option_ex (\<lambda>l. l \<noteq> PhysicalSample) u"

definition relation_aware_edge :: "edge_spec \<Rightarrow> port_spec \<Rightarrow> port_spec \<Rightarrow> bool" where
  "relation_aware_edge e sp tp \<longleftrightarrow>
     (let c = contract e in
        ec_relation_contract c \<noteq> None \<or> allows_broadcast c \<or> ec_alignment_key c \<noteq> None \<or>
        non_physical (ec_unit_level c) \<or> non_physical (ec_target_level c) \<or>
        non_physical (ps_unit_level sp) \<or> non_physical (ps_target_level sp) \<or>
        non_physical (ps_unit_level tp) \<or> non_physical (ps_target_level tp) \<or>
        ps_alignment_key sp \<noteq> None \<or> ps_alignment_key tp \<noteq> None)"

definition has_effective_unit_level :: "edge_spec \<Rightarrow> port_spec \<Rightarrow> port_spec \<Rightarrow> bool" where
  "has_effective_unit_level e sp tp \<longleftrightarrow>
     ec_unit_level (contract e) \<noteq> None \<or> ps_unit_level sp \<noteq> None \<or> ps_unit_level tp \<noteq> None"

definition has_effective_alignment_key :: "edge_spec \<Rightarrow> port_spec \<Rightarrow> port_spec \<Rightarrow> bool" where
  "has_effective_alignment_key e sp tp \<longleftrightarrow>
     ec_alignment_key (contract e) \<noteq> None \<or> ps_alignment_key sp \<noteq> None \<or> ps_alignment_key tp \<noteq> None"

definition validate_edge_contract :: "edge_spec \<Rightarrow> port_spec \<Rightarrow> port_spec \<Rightarrow> unit result" where
  "validate_edge_contract e sp tp =
     (let c = contract e; label = edge_label_of e in
      and_then (validate_optional_non_empty (EdgeRepresentation label) (ec_representation c)) (\<lambda>_.
      and_then (validate_optional_non_empty (EdgeAlignmentKey label) (ec_alignment_key c)) (\<lambda>_.
      if option_ex (\<lambda>k. \<not> is_identifier k) (ec_alignment_key c) then edge_err e InvalidAlignmentKey
      else and_then (case ec_relation_contract c of
            None \<Rightarrow> Inr () | Some r \<Rightarrow> validate_relation_contract e r) (\<lambda>_.
      and_then (validate_edge_unit_alignment e sp tp) (\<lambda>_.
      if relation_aware_edge e sp tp then
        (if Option.bind (ec_relation_contract c) relation_fingerprint = None
         then edge_err e NoRelationFingerprint
         else if \<not> has_effective_unit_level e sp tp then edge_err e NoUnitLevel
         else if \<not> has_effective_alignment_key e sp tp then edge_err e NoAlignmentKey
         else Inr ())
      else Inr ())))))"

section \<open>Traversals\<close>

type_synonym adjacency = "(node_id, node_id list) btree_map"
type_synonym indegrees = "(node_id, nat) btree_map"

definition bs_insert :: "'a::linorder \<Rightarrow> 'a btree_set \<Rightarrow> 'a btree_set" where
  "bs_insert x xs = (if x \<in> set xs then xs else insort x xs)"

definition zero_indegree :: "indegrees \<Rightarrow> node_id btree_set" where
  "zero_indegree indegree = bs_collect (map fst (filter (\<lambda>(_, degree). degree = 0) indegree))"

text \<open>One decrement: \<open>get_mut(next).expect("node exists")\<close>, \<open>*degree -= 1\<close>, enqueue at zero.\<close>

definition relax_next ::
  "node_id btree_set \<times> indegrees \<Rightarrow> node_id \<Rightarrow> (node_id btree_set \<times> indegrees) result" where
  "relax_next st next =
     (let (queue, indegree) = st in
      case bm_get indegree next of
        None \<Rightarrow> expect_failed ''node exists''
      | Some degree \<Rightarrow>
          if degree = 0 then Inl (Panic SubtractOverflow)
          else Inr (if degree - 1 = 0 then bs_insert next queue else queue,
                    bm_insert next (degree - 1) indegree))"

definition relax_node ::
  "adjacency \<Rightarrow> node_id btree_set \<times> indegrees \<Rightarrow> node_id \<Rightarrow> (node_id btree_set \<times> indegrees) result" where
  "relax_node adjacency st node =
     (case bm_get adjacency node of None \<Rightarrow> Inr st | Some next_nodes \<Rightarrow> try_fold relax_next st next_nodes)"

definition total_indegree :: "indegrees \<Rightarrow> nat" where
  "total_indegree indegree = (\<Sum>k \<in> fst ` set indegree. the (bm_get indegree k))"

lemma bm_get_mem: "bm_get m k = Some v \<Longrightarrow> k \<in> fst ` set m"
  by (metis bm_get_def domI dom_map_of_conv_image_fst)

lemma total_indegree_decrease:
  assumes "bm_get i k = Some d"
  shows "total_indegree (bm_insert k e i) + d = total_indegree i + e"
proof -
  let ?A = "fst ` set i - {k}"
  have k: "k \<in> fst ` set i" using assms by (rule bm_get_mem)
  then have "fst ` set i = insert k ?A" by auto
  then have i: "total_indegree i = d + (\<Sum>k \<in> ?A. the (bm_get i k))"
    unfolding total_indegree_def using assms by (metis (no_types, lifting) DiffD2 List.finite_set
        finite_Diff finite_imageI insertI1 option.sel sum.insert)
  have ins: "fst ` set (bm_insert k e i) = insert k ?A" using k by (auto simp: set_keys_bm_insert)
  have "total_indegree (bm_insert k e i) = e + (\<Sum>k' \<in> ?A. the (bm_get (bm_insert k e i) k'))"
    unfolding total_indegree_def ins by (subst sum.insert) simp_all
  also have "(\<Sum>k' \<in> ?A. the (bm_get (bm_insert k e i) k')) = (\<Sum>k' \<in> ?A. the (bm_get i k'))"
    by (rule sum.cong) auto
  finally show ?thesis using i by simp
qed

lemma length_bs_insert: "length (bs_insert x xs) \<le> Suc (length xs)"
  by (simp add: bs_insert_def)

lemma relax_next_measure:
  assumes "relax_next (q, i) n = Inr (q', i')"
  shows "total_indegree i' + length q' \<le> total_indegree i + length q"
proof -
  obtain d where d: "bm_get i n = Some d" "d \<noteq> 0" "i' = bm_insert n (d - 1) i"
    "q' = (if d - 1 = 0 then bs_insert n q else q)"
    using assms by (auto simp: relax_next_def split: option.splits if_splits)
  have "total_indegree i' + d = total_indegree i + (d - 1)"
    using total_indegree_decrease[OF d(1)] d(3) by simp
  moreover have "length q' \<le> Suc (length q)" using d(4) length_bs_insert[of n q] by simp
  ultimately show ?thesis using d(2) by linarith
qed

lemma relax_nexts_measure:
  "try_fold relax_next (q, i) ns = Inr (q', i') \<Longrightarrow>
   total_indegree i' + length q' \<le> total_indegree i + length q"
proof (induction ns arbitrary: q i)
  case (Cons n ns)
  then obtain q1 i1 where "relax_next (q, i) n = Inr (q1, i1)" "try_fold relax_next (q1, i1) ns = Inr (q', i')"
    by (auto simp: and_then_ok)
  then show ?case using Cons.IH[of q1 i1] relax_next_measure[of q i n q1 i1] by linarith
qed simp

lemma relax_node_measure:
  "relax_node a (q, i) n = Inr (q', i') \<Longrightarrow>
   total_indegree i' + length q' \<le> total_indegree i + length q"
  by (auto simp: relax_node_def dest: relax_nexts_measure split: option.splits)

lemma relax_nodes_measure:
  "try_fold (relax_node a) (q, i) ns = Inr (q', i') \<Longrightarrow>
   total_indegree i' + length q' \<le> total_indegree i + length q"
proof (induction ns arbitrary: q i)
  case (Cons n ns)
  then obtain q1 i1 where "relax_node a (q, i) n = Inr (q1, i1)" "try_fold (relax_node a) (q1, i1) ns = Inr (q', i')"
    by (auto simp: and_then_ok)
  then show ?case using Cons.IH[of q1 i1] relax_node_measure[of a q i n q1 i1] by linarith
qed simp

text \<open>The \<open>while\<close> loops. Each round removes a node from the queue, and each decrement adds at most
  one, so the sum of the indegrees and the queue length decreases.\<close>

function order_loop ::
  "adjacency \<Rightarrow> node_id btree_set \<Rightarrow> indegrees \<Rightarrow> node_id list \<Rightarrow> (node_id list \<times> indegrees) result" where
  "order_loop adjacency queue indegree order =
     (case queue of
        [] \<Rightarrow> Inr (order, indegree)
      | node # rest \<Rightarrow>
          and_then (relax_node adjacency (rest, indegree) node) (\<lambda>st.
            order_loop adjacency (fst st) (snd st) (order @ [node])))"
  by pat_completeness auto
termination
  by (relation "measure (\<lambda>(a, q, i, ns). total_indegree i + length q)")
    (auto dest: relax_node_measure)

function levels_loop ::
  "adjacency \<Rightarrow> node_id btree_set \<Rightarrow> indegrees \<Rightarrow> node_id list list \<Rightarrow> nat
   \<Rightarrow> (node_id list list \<times> nat \<times> indegrees) result" where
  "levels_loop adjacency queue indegree levels visited =
     (if queue = [] then Inr (levels, visited, indegree)
      else and_then (try_fold (relax_node adjacency) ([], indegree) queue) (\<lambda>st.
        levels_loop adjacency (fst st) (snd st) (levels @ [queue]) (visited + length queue)))"
  by pat_completeness auto
termination
proof (relation "measure (\<lambda>(a, q, i, ls, v). total_indegree i + length q)", goal_cases)
  case (2 a q i ls v st)
  obtain q' i' where st: "st = (q', i')" by (cases st)
  have "total_indegree i' + length q' \<le> total_indegree i"
    using relax_nodes_measure[of a "[]" i q q' i'] 2(2) st by simp
  with 2(1) show ?case by (simp add: st length_greater_0_conv[symmetric] del: length_greater_0_conv)
qed simp

declare order_loop.simps [simp del] levels_loop.simps [simp del]

definition topological_order_on :: "adjacency \<Rightarrow> indegrees \<Rightarrow> node_id list result" where
  "topological_order_on adjacency indegree =
     and_then (order_loop adjacency (zero_indegree indegree) indegree []) (\<lambda>(order, indegree').
       if length order = length indegree' then Inr order else graph_err GraphCycle)"

definition topological_levels_on :: "adjacency \<Rightarrow> indegrees \<Rightarrow> node_id list list result" where
  "topological_levels_on adjacency indegree =
     and_then (levels_loop adjacency (zero_indegree indegree) indegree [] 0)
       (\<lambda>(levels, visited, indegree').
       if visited = length indegree' then Inr levels else graph_err GraphCycle)"

definition ensure_acyclic :: "adjacency \<Rightarrow> indegrees \<Rightarrow> unit result" where
  "ensure_acyclic adjacency indegree =
     and_then (topological_order_on adjacency indegree) (\<lambda>_. Inr ())"


section \<open>Validation of a graph\<close>

definition interface_node :: "node_id result" where
  "interface_node = (case ident_new ''graph:interface'' of
      Inl _ \<Rightarrow> expect_failed ''static identifier is valid'' | Inr n \<Rightarrow> Inr n)"

definition check_stacking_metadata ::
  "(json_value \<Rightarrow> string + stacking_oof_refit_contract) \<Rightarrow> node_spec \<Rightarrow> unit result" where
  "check_stacking_metadata from_value n =
     (case refit_contract_from_metadata from_value (ns_metadata n) of
        Inr _ \<Rightarrow> Inr ()
      | Inl (Panic p) \<Rightarrow> Inl (Panic p)
      | Inl (Err _) \<Rightarrow> graph_err (InvalidStackingMetadata (as_str (node_id n))))"

definition insert_node ::
  "(json_value \<Rightarrow> string + stacking_oof_refit_contract) \<Rightarrow> (node_id, node_spec) btree_map \<Rightarrow> node_spec
   \<Rightarrow> (node_id, node_spec) btree_map result" where
  "insert_node from_value m n =
     (if bm_contains_key m (node_id n) then graph_err (DuplicateNode (as_str (node_id n)))
      else and_then (check_stacking_metadata from_value n) (\<lambda>_.
        and_then (validate_unique_ports (node_id n) ''input'' (inputs (ns_ports n))) (\<lambda>_.
        and_then (validate_unique_ports (node_id n) ''output'' (outputs (ns_ports n))) (\<lambda>_.
        Inr (bm_insert (node_id n) n m)))))"

definition edge_source_node :: "edge_spec \<Rightarrow> node_id" where
  "edge_source_node e = pr_node_id (edge_source e)"

definition edge_target_node :: "edge_spec \<Rightarrow> node_id" where
  "edge_target_node e = pr_node_id (edge_target e)"

type_synonym port_key = "node_id \<times> string"

definition source_key :: "edge_spec \<Rightarrow> port_key" where
  "source_key e = (pr_node_id (edge_source e), pr_port_name (edge_source e))"

definition target_key :: "edge_spec \<Rightarrow> port_key" where
  "target_key e = (pr_node_id (edge_target e), pr_port_name (edge_target e))"

text \<open>The endpoints of an edge exist and are ports of the contract's kind.\<close>

definition edge_ports :: "(node_id, node_spec) btree_map \<Rightarrow> edge_spec \<Rightarrow> (port_spec \<times> port_spec) result" where
  "edge_ports m e =
     and_then (ok_or (bm_get m (edge_source_node e))
         (Err (GraphValidation (EdgeSourceMissing (as_str (edge_source_node e)))))) (\<lambda>source.
     and_then (ok_or (bm_get m (edge_target_node e))
         (Err (GraphValidation (EdgeTargetMissing (as_str (edge_target_node e)))))) (\<lambda>target.
     and_then (ok_or (find_port (outputs (ns_ports source)) (snd (source_key e)))
         (Err (GraphValidation (SourcePortMissing (as_str (edge_source_node e)) (snd (source_key e)))))) (\<lambda>sp.
     and_then (ok_or (find_port (inputs (ns_ports target)) (snd (target_key e)))
         (Err (GraphValidation (TargetPortMissing (as_str (edge_target_node e)) (snd (target_key e)))))) (\<lambda>tp.
     if ps_kind sp \<noteq> ec_kind (contract e) \<or> ps_kind tp \<noteq> ec_kind (contract e)
     then edge_err e KindMismatch else Inr (sp, tp)))))"

text \<open>One round of the edge loop: the keys seen so far and the number of edges into each port.\<close>

type_synonym edge_checks = "(port_key \<times> port_key) set \<times> (port_key \<rightharpoonup> nat)"

definition check_edge ::
  "(node_id, node_spec) btree_map \<Rightarrow> edge_checks \<Rightarrow> edge_spec \<Rightarrow> edge_checks result" where
  "check_edge m st e =
     (let (keys, inbound) = st; key = (source_key e, target_key e) in
      if key \<in> keys then graph_err DuplicateEdge
      else and_then (edge_ports m e) (\<lambda>(sp, tp).
        let count = unwrap_or (inbound (target_key e)) 0 + 1 in
        if count > 1 \<and> (ps_cardinality tp = One \<or> ps_cardinality tp = Optional)
        then graph_err MultipleEdgesIntoSinglePort
        else and_then (validate_edge_contract e sp tp) (\<lambda>_.
          if requires_oof (contract e) \<and> ec_kind (contract e) \<noteq> Prediction
          then edge_err e OofOnNonPrediction
          else Inr (insert key keys, inbound(target_key e \<mapsto> count)))))"

text \<open>The two \<open>get_mut(..).expect(..)\<close> of an edge.\<close>

definition push_edge :: "adjacency \<times> indegrees \<Rightarrow> edge_spec \<Rightarrow> (adjacency \<times> indegrees) result" where
  "push_edge st e =
     (let (adjacency, indegree) = st in
      case bm_get adjacency (edge_source_node e) of
        None \<Rightarrow> expect_failed ''source exists''
      | Some ts \<Rightarrow>
          (case bm_get indegree (edge_target_node e) of
             None \<Rightarrow> expect_failed ''target exists''
           | Some d \<Rightarrow> Inr (bm_insert (edge_source_node e) (ts @ [edge_target_node e]) adjacency,
                            bm_insert (edge_target_node e) (d + 1) indegree)))"

definition edge_loop ::
  "(node_id, node_spec) btree_map \<Rightarrow> edge_checks \<times> (adjacency \<times> indegrees) \<Rightarrow> edge_spec
   \<Rightarrow> (edge_checks \<times> (adjacency \<times> indegrees)) result" where
  "edge_loop m st e =
     and_then (check_edge m (fst st) e) (\<lambda>chk.
     and_then (push_edge (snd st) e) (\<lambda>g. Inr (chk, g)))"

definition empty_adjacency :: "node_id list \<Rightarrow> adjacency \<times> indegrees" where
  "empty_adjacency ids = (bm_collect (map (\<lambda>k. (k, [])) ids), bm_collect (map (\<lambda>k. (k, 0)) ids))"

definition graph_validate ::
  "(json_value \<Rightarrow> string + stacking_oof_refit_contract) \<Rightarrow> graph_spec \<Rightarrow> unit result" where
  "graph_validate from_value g =
     (if is_blank (graph_id g) then graph_err GraphIdEmpty
      else if nodes g = [] then graph_err GraphNoNodes
      else if option_ex is_blank (search_space_fingerprint g)
        then graph_err (GraphFingerprintEmpty (graph_id g))
      else
        and_then interface_node (\<lambda>iface.
        and_then (validate_unique_ports iface ''interface input'' (gi_inputs (interface g))) (\<lambda>_.
        and_then (validate_unique_ports iface ''interface output'' (gi_outputs (interface g))) (\<lambda>_.
        and_then (try_fold (insert_node from_value) [] (nodes g)) (\<lambda>m.
        and_then (try_fold (edge_loop m) (({}, Map.empty), empty_adjacency (bm_keys m)) (edges g)) (\<lambda>st.
        ensure_acyclic (fst (snd st)) (snd (snd st))))))))"

text \<open>The adjacency and indegrees that the traversals rebuild from the validated graph.\<close>

definition build_adjacency :: "graph_spec \<Rightarrow> (adjacency \<times> indegrees) result" where
  "build_adjacency g = try_fold push_edge (empty_adjacency (bs_collect (map node_id (nodes g)))) (edges g)"

definition topological_order ::
  "(json_value \<Rightarrow> string + stacking_oof_refit_contract) \<Rightarrow> graph_spec \<Rightarrow> node_id list result" where
  "topological_order from_value g =
     and_then (graph_validate from_value g) (\<lambda>_.
     and_then (build_adjacency g) (\<lambda>(adjacency, indegree). topological_order_on adjacency indegree))"

definition parallel_levels ::
  "(json_value \<Rightarrow> string + stacking_oof_refit_contract) \<Rightarrow> graph_spec \<Rightarrow> node_id list list result" where
  "parallel_levels from_value g =
     and_then (graph_validate from_value g) (\<lambda>_.
     and_then (build_adjacency g) (\<lambda>(adjacency, indegree). topological_levels_on adjacency indegree))"

text \<open>\<open>Vec::dedup\<close> removes consecutive equal elements.\<close>

definition upstream_nodes :: "graph_spec \<Rightarrow> node_id \<Rightarrow> node_id list" where
  "upstream_nodes g n =
     remdups_adj (sort (map edge_source_node (filter (\<lambda>e. edge_target_node e = n) (edges g))))"

definition downstream_nodes :: "graph_spec \<Rightarrow> node_id \<Rightarrow> node_id list" where
  "downstream_nodes g n =
     remdups_adj (sort (map edge_target_node (filter (\<lambda>e. edge_source_node e = n) (edges g))))"

end
