(* ===== verification/Kahn.thy ===== *)
theory Kahn
  imports Graph
begin

text \<open>
  Kahn's algorithm of \<open>graph.rs\<close>: the loop invariants of \<open>order_loop\<close> and \<open>levels_loop\<close>, and
  their consequences: no panic, and an order exactly when the graph has no cycle.
\<close>

section \<open>The decrement loop\<close>

definition succs :: "adjacency \<Rightarrow> node_id \<Rightarrow> node_id list" where
  "succs a u = (case bm_get a u of None \<Rightarrow> [] | Some ts \<Rightarrow> ts)"

lemma relax_node_succs: "relax_node a st u = try_fold relax_next st (succs a u)"
  by (simp add: relax_node_def succs_def split: option.splits)

lemma sorted_bs_insert: "sorted_wrt (<) xs \<Longrightarrow> sorted_wrt (<) (bs_insert x xs)"
  by (auto simp: bs_insert_def strict_sorted_iff sorted_insort distinct_insort)

lemma set_bs_insert [simp]: "set (bs_insert x xs) = insert x (set xs)"
  by (auto simp: bs_insert_def set_insort_key)

text \<open>Decrementing along \<open>ys\<close> when every indegree counts its occurrences in \<open>ys\<close>: no panic, the
  rest \<open>f\<close> remains, and the nodes of \<open>ys\<close> with nothing left are enqueued.\<close>

lemma relax_nexts:
  assumes "sorted_wrt (<) q" "bm_ok i"
    and "\<forall>v \<in> N. bm_get i v = Some (f v + count_list ys v)" "set ys \<subseteq> N" "dom (bm_get i) = N"
  shows "\<exists>q' i'. try_fold relax_next (q, i) ys = Inr (q', i') \<and> sorted_wrt (<) q' \<and> bm_ok i' \<and>
     dom (bm_get i') = N \<and> (\<forall>v \<in> N. bm_get i' v = Some (f v)) \<and>
     set q' = set q \<union> {v \<in> set ys. f v = 0}"
  using assms
proof (induction ys arbitrary: q i)
  case Nil
  then show ?case by auto
next
  case (Cons y ys)
  have yN: "y \<in> N" using Cons.prems(4) by simp
  have y: "bm_get i y = Some (f y + count_list ys y + 1)"
    using Cons.prems(3) yN by simp
  let ?d = "f y + count_list ys y"
  let ?q = "if ?d = 0 then bs_insert y q else q"
  let ?i = "bm_insert y ?d i"
  have step: "relax_next (q, i) y = Inr (?q, ?i)" by (simp add: relax_next_def y)
  have "sorted_wrt (<) ?q" "bm_ok ?i" "set ys \<subseteq> N" "dom (bm_get ?i) = N"
    using Cons.prems yN by (auto simp: sorted_bs_insert)
  moreover have "\<forall>v \<in> N. bm_get ?i v = Some (f v + count_list ys v)"
    using Cons.prems(3) by (auto split: if_splits)
  ultimately obtain q' i' where r: "try_fold relax_next (?q, ?i) ys = Inr (q', i')" "sorted_wrt (<) q'"
    "bm_ok i'" "dom (bm_get i') = N" "\<forall>v \<in> N. bm_get i' v = Some (f v)"
    "set q' = set ?q \<union> {v \<in> set ys. f v = 0}"
    using Cons.IH[of ?q ?i] by blast
  have "set ?q \<union> {v \<in> set ys. f v = 0} = set q \<union> {v \<in> set (y # ys). f v = 0}"
  proof (cases "y \<in> set ys")
    case True
    then have "count_list ys y \<noteq> 0" by (simp add: count_list_0_iff)
    with True show ?thesis by auto
  next
    case False
    then have "count_list ys y = 0" by (simp add: count_list_0_iff)
    then show ?thesis by auto
  qed
  then show ?case using step r by auto
qed

section \<open>Edges inside a finite set of nodes\<close>

text \<open>\<open>closed_graph a N\<close>: every successor of a node of \<open>N\<close> is in \<open>N\<close>. \<open>open_edges a D v\<close> counts
  the edges from \<open>D\<close> into \<open>v\<close>; \<open>precedes\<close> says an order places every edge forward.\<close>

definition closed_graph :: "adjacency \<Rightarrow> node_id set \<Rightarrow> bool" where
  "closed_graph a N \<longleftrightarrow> finite N \<and> (\<forall>u \<in> N. set (succs a u) \<subseteq> N)"

definition open_edges :: "adjacency \<Rightarrow> node_id set \<Rightarrow> node_id \<Rightarrow> nat" where
  "open_edges a D v = (\<Sum>u \<in> D. count_list (succs a u) v)"

definition edge_rel :: "adjacency \<Rightarrow> node_id set \<Rightarrow> (node_id \<times> node_id) set" where
  "edge_rel a N = {(u, v). u \<in> N \<and> v \<in> set (succs a u)}"

definition forward :: "(node_id \<times> node_id) set \<Rightarrow> node_id list \<Rightarrow> bool" where
  "forward E order \<longleftrightarrow>
     (\<forall>i < length order. \<forall>u. (u, order ! i) \<in> E \<longrightarrow> u \<in> set (take i order))"

lemma open_edges_remove:
  assumes "finite D" "x \<in> D"
  shows "open_edges a D v = open_edges a (D - {x}) v + count_list (succs a x) v"
  using sum.remove[OF assms, of "\<lambda>u. count_list (succs a u) v"] by (simp add: open_edges_def)

lemma open_edges_zero:
  assumes "finite D"
  shows "open_edges a D v = 0 \<longleftrightarrow> (\<forall>u \<in> D. v \<notin> set (succs a u))"
  using assms by (simp add: open_edges_def count_list_0_iff)

lemma forward_Nil [simp]: "forward E []"
  by (simp add: forward_def)

lemma forward_snoc:
  "forward E (order @ [x]) \<longleftrightarrow> forward E order \<and> (\<forall>u. (u, x) \<in> E \<longrightarrow> u \<in> set order)"
  by (auto simp: forward_def nth_append less_Suc_eq)

lemma forward_append:
  assumes "forward E order" "\<forall>x \<in> set xs. \<forall>u. (u, x) \<in> E \<longrightarrow> u \<in> set order"
  shows "forward E (order @ xs)"
  using assms
proof (induction xs rule: rev_induct)
  case (snoc x xs)
  then have "forward E (order @ xs)" by simp
  then show ?case using forward_snoc[of E "order @ xs" x] snoc.prems(2) by auto
qed simp

lemma forward_mem:
  assumes "forward E order" "(u, v) \<in> E" "v \<in> set order"
  shows "u \<in> set order"
proof -
  obtain i where "i < length order" "order ! i = v" using assms(3) by (meson in_set_conv_nth)
  then show ?thesis using assms(1,2) by (auto simp: forward_def dest: in_set_takeD)
qed

text \<open>A forward order of all nodes excludes cycles: the positions increase along every edge.\<close>

lemma forward_acyclic:
  assumes "forward E order" "distinct order" "E \<subseteq> UNIV \<times> set order"
  shows "acyclic E"
proof -
  define pos where "pos = (\<lambda>v. THE i. i < length order \<and> order ! i = v)"
  have pos: "pos (order ! i) = i" if "i < length order" for i
    unfolding pos_def using that assms(2) by (auto simp: nth_eq_iff_index_eq)
  have "pos u < pos v" if "(u, v) \<in> E" for u v
  proof -
    have "v \<in> set order" using that assms(3) by blast
    then obtain j where j: "j < length order" "order ! j = v" by (meson in_set_conv_nth)
    then have "u \<in> set (take j order)" using assms(1) that by (auto simp: forward_def)
    then obtain i where "i < j" "order ! i = u" by (auto simp: in_set_conv_nth)
    with j pos show ?thesis by (metis order.strict_trans)
  qed
  then have "E \<subseteq> measure pos" by auto
  then show ?thesis using wf_subset[OF wf_measure] wf_acyclic by blast
qed

text \<open>In a finite set in which every element has a predecessor there is a cycle.\<close>

lemma stuck_cyclic:
  assumes "finite R" "R \<noteq> {}" "\<forall>v \<in> R. \<exists>u \<in> R. (u, v) \<in> E"
  shows "\<not> acyclic E"
proof
  assume "acyclic E"
  let ?E = "E \<inter> R \<times> R"
  have "acyclic ?E" using \<open>acyclic E\<close> acyclic_subset by blast
  moreover have "finite ?E" using assms(1) by simp
  ultimately have "wf ?E" using finite_acyclic_wf by blast
  then obtain m where "m \<in> R" "\<forall>u. (u, m) \<in> ?E \<longrightarrow> u \<notin> R"
    using assms(2) by (metis wf_eq_minimal ex_in_conv)
  then show False using assms(3) by blast
qed

section \<open>The loop invariant\<close>

text \<open>\<open>done\<close> is the list of nodes already ordered and \<open>P\<close> the nodes taken from the queue but not
  yet processed.\<close>

definition kahn_inv ::
  "adjacency \<Rightarrow> node_id set \<Rightarrow> node_id set \<Rightarrow> node_id btree_set \<Rightarrow> indegrees \<Rightarrow> node_id list \<Rightarrow> bool" where
  "kahn_inv a N P q i order \<longleftrightarrow>
     sorted_wrt (<) q \<and> bm_ok i \<and> dom (bm_get i) = N \<and> distinct order \<and> set order \<subseteq> N \<and>
     (\<forall>v \<in> N. bm_get i v = Some (open_edges a (N - set order) v)) \<and>
     set q \<inter> P = {} \<and>
     set q \<union> P = {v \<in> N - set order. open_edges a (N - set order) v = 0} \<and>
     forward (edge_rel a N) order"

lemma kahn_step:
  assumes cl: "closed_graph a N" and inv: "kahn_inv a N P q i order" and x: "x \<in> P"
  shows "\<exists>q' i'. relax_node a (q, i) x = Inr (q', i') \<and> kahn_inv a N (P - {x}) q' i' (order @ [x])"
proof -
  let ?D = "N - set order"
  let ?f = "open_edges a (?D - {x})"
  have fin: "finite ?D" using cl by (simp add: closed_graph_def)
  have ready: "set q \<union> P = {v \<in> ?D. open_edges a ?D v = 0}" and disj: "set q \<inter> P = {}"
    and fw: "forward (edge_rel a N) order"
    using inv by (simp_all add: kahn_inv_def)
  have xD: "x \<in> ?D" "open_edges a ?D x = 0" using ready x by blast+
  have xN: "x \<in> N" using xD by simp
  have split: "open_edges a ?D v = ?f v + count_list (succs a x) v" for v
    by (rule open_edges_remove[OF fin xD(1)])
  have no_pred: "v \<notin> set (succs a u)" if "v \<in> set q \<union> P" "u \<in> ?D" for u v
    using that open_edges_zero[OF fin] unfolding ready by blast
  have sub: "set (succs a x) \<subseteq> N" using cl xN by (simp add: closed_graph_def)
  have "sorted_wrt (<) q" "bm_ok i" "\<forall>v \<in> N. bm_get i v = Some (?f v + count_list (succs a x) v)"
    "dom (bm_get i) = N"
    using inv by (simp_all add: kahn_inv_def split)
  from relax_nexts[OF this(1-3) sub this(4)] obtain q' i' where
    r: "try_fold relax_next (q, i) (succs a x) = Inr (q', i')" "sorted_wrt (<) q'" "bm_ok i'"
    "dom (bm_get i') = N" "\<forall>v \<in> N. bm_get i' v = Some (?f v)"
    "set q' = set q \<union> {v \<in> set (succs a x). ?f v = 0}"
    by blast
  have D: "N - set (order @ [x]) = ?D - {x}" by auto
  have new: "v \<in> ?D - {x}" "v \<notin> P" if "v \<in> set (succs a x)" for v
  proof -
    have "v \<notin> set order"
    proof
      assume "v \<in> set order"
      then have "x \<in> set order" using forward_mem[OF fw, of x v] that xN by (simp add: edge_rel_def)
      then show False using xD by simp
    qed
    moreover have "v \<noteq> x" using no_pred[of x x] that x xD by blast
    ultimately show "v \<in> ?D - {x}" using that sub by blast
    show "v \<notin> P" using no_pred[of v x] that xD(1) by blast
  qed
  have ready': "set q' \<union> (P - {x}) = {v \<in> ?D - {x}. ?f v = 0}" (is "?L = ?R")
  proof
    show "?L \<subseteq> ?R"
    proof
      fix v assume v: "v \<in> ?L"
      show "v \<in> ?R"
      proof (cases "v \<in> set (succs a x)")
        case True
        have "?f v = 0"
        proof -
          have "v \<in> set q \<or> ?f v = 0 \<or> v \<in> P" using v r(6) by blast
          moreover have "?f v = 0" if "v \<in> set q \<union> P"
            using that ready split[of v] by (metis (mono_tags, lifting) CollectD add_is_0)
          ultimately show ?thesis by blast
        qed
        then show ?thesis using new(1)[OF True] by blast
      next
        case False
        then have "v \<in> set q \<union> P" "v \<noteq> x" using v r(6) disj x by blast+
        then have "v \<in> ?D - {x}" "open_edges a ?D v = 0" using ready by blast+
        then show ?thesis using split[of v] by simp
      qed
    qed
    show "?R \<subseteq> ?L"
    proof
      fix v assume v: "v \<in> ?R"
      show "v \<in> ?L"
      proof (cases "v \<in> set (succs a x)")
        case True
        then show ?thesis using v r(6) by blast
      next
        case False
        then have "open_edges a ?D v = 0" using split[of v] v by (simp add: count_list_0_iff)
        then have "v \<in> set q \<union> P" using v ready by blast
        then show ?thesis using v r(6) by blast
      qed
    qed
  qed
  have disj': "set q' \<inter> (P - {x}) = {}" using r(6) disj new(2) by blast
  have "u \<in> set order" if "(u, x) \<in> edge_rel a N" for u
    using that no_pred[of x u] x by (auto simp: edge_rel_def)
  then have "forward (edge_rel a N) (order @ [x])" using fw by (simp add: forward_snoc)
  moreover have "distinct (order @ [x])" "set (order @ [x]) \<subseteq> N"
    using inv xD(1) by (auto simp: kahn_inv_def)
  ultimately have "kahn_inv a N (P - {x}) q' i' (order @ [x])"
    unfolding kahn_inv_def D using r(2-5) ready' disj' by blast
  then show ?thesis using r(1) by (auto simp: relax_node_succs)
qed

lemma kahn_steps:
  assumes "closed_graph a N" "kahn_inv a N (set xs) q i order" "distinct xs"
  shows "\<exists>q' i'. try_fold (relax_node a) (q, i) xs = Inr (q', i') \<and> kahn_inv a N {} q' i' (order @ xs)"
  using assms(2,3)
proof (induction xs arbitrary: q i order)
  case (Cons x xs)
  obtain q1 i1 where 1: "relax_node a (q, i) x = Inr (q1, i1)"
    "kahn_inv a N (set (x # xs) - {x}) q1 i1 (order @ [x])"
    using kahn_step[OF assms(1) Cons.prems(1), of x] by auto
  have "set (x # xs) - {x} = set xs" using Cons.prems(2) by auto
  then obtain q2 i2 where "try_fold (relax_node a) (q1, i1) xs = Inr (q2, i2)"
    "kahn_inv a N {} q2 i2 ((order @ [x]) @ xs)"
    using Cons.IH[of q1 i1 "order @ [x]"] 1(2) Cons.prems(2) by auto
  with 1(1) show ?case by auto
qed auto

text \<open>When the queue is empty: either all nodes are ordered, or there is a cycle.\<close>

definition kahn_result :: "adjacency \<Rightarrow> node_id set \<Rightarrow> node_id list \<Rightarrow> bool" where
  "kahn_result a N order \<longleftrightarrow> distinct order \<and> set order \<subseteq> N \<and> forward (edge_rel a N) order \<and>
     (set order = N \<longleftrightarrow> acyclic (edge_rel a N))"

lemma kahn_finish:
  assumes "closed_graph a N" "kahn_inv a N {} [] i order"
  shows "kahn_result a N order" "length i = card N"
proof -
  let ?D = "N - set order"
  have fin: "finite N" using assms(1) by (simp add: closed_graph_def)
  have none: "{v \<in> ?D. open_edges a ?D v = 0} = {}" using assms(2) by (simp add: kahn_inv_def)
  have fw: "forward (edge_rel a N) order" "distinct order" "set order \<subseteq> N"
    using assms(2) by (simp_all add: kahn_inv_def)
  have "acyclic (edge_rel a N)" if "set order = N"
  proof (rule forward_acyclic[OF fw(1,2)])
    show "edge_rel a N \<subseteq> UNIV \<times> set order"
      using assms(1) that by (auto simp: edge_rel_def closed_graph_def)
  qed
  moreover have "set order = N" if ac: "acyclic (edge_rel a N)"
  proof (rule ccontr)
    assume "set order \<noteq> N"
    then have ne: "?D \<noteq> {}" using fw(3) by blast
    have "\<forall>v \<in> ?D. \<exists>u \<in> ?D. (u, v) \<in> edge_rel a N"
    proof
      fix v assume v: "v \<in> ?D"
      have "open_edges a ?D v \<noteq> 0"
      proof
        assume "open_edges a ?D v = 0"
        with v have "v \<in> {v \<in> ?D. open_edges a ?D v = 0}" by simp
        with none show False by (simp only: empty_iff)
      qed
      have "finite ?D" using fin by simp
      then obtain u where "u \<in> ?D" "v \<in> set (succs a u)"
        using open_edges_zero[of ?D a v] \<open>open_edges a ?D v \<noteq> 0\<close> by metis
      then show "\<exists>u \<in> ?D. (u, v) \<in> edge_rel a N" by (auto simp: edge_rel_def)
    qed
    then show False using stuck_cyclic[of ?D "edge_rel a N"] fin ne ac by blast
  qed
  ultimately show "kahn_result a N order" unfolding kahn_result_def using fw by blast
  have "bm_ok i" "dom (bm_get i) = N" using assms(2) by (simp_all add: kahn_inv_def)
  then show "length i = card N"
    by (metis bm_keys_def bm_ok_distinct distinct_card length_map set_bm_keys)
qed

section \<open>The loops\<close>

lemma kahn_inv_pop: "kahn_inv a N {} (x # rest) i order \<Longrightarrow> kahn_inv a N {x} rest i order"
  by (auto simp: kahn_inv_def)

lemma kahn_inv_clear: "kahn_inv a N {} q i order \<Longrightarrow> kahn_inv a N (set q) [] i order"
  by (auto simp: kahn_inv_def)

lemma order_loop_result:
  "closed_graph a N \<Longrightarrow> kahn_inv a N {} q i order \<Longrightarrow>
    \<exists>order' i'. order_loop a q i order = Inr (order', i') \<and> kahn_result a N order' \<and> length i' = card N"
proof (induction a q i order rule: order_loop.induct)
  case (1 a q i order)
  show ?case
  proof (cases q)
    case Nil
    then show ?thesis
      using kahn_finish[OF "1.prems"(1), of i order] "1.prems"(2) by (simp add: order_loop.simps)
  next
    case (Cons x rest)
    obtain q' i' where st: "relax_node a (rest, i) x = Inr (q', i')"
      "kahn_inv a N ({x} - {x}) q' i' (order @ [x])"
      using kahn_step[OF "1.prems"(1) kahn_inv_pop, of x rest i order x] "1.prems"(2) Cons by auto
    then have "\<exists>order' i''. order_loop a q' i' (order @ [x]) = Inr (order', i'') \<and>
        kahn_result a N order' \<and> length i'' = card N"
      using "1.IH"[of x rest "(q', i')"] "1.prems"(1) Cons by simp
    then show ?thesis using st(1) Cons by (subst order_loop.simps) simp
  qed
qed

text \<open>The levels so far, read from the front: each level has every predecessor in an earlier one,
  and each node of a later level has one in the level just before.\<close>

definition layered :: "(node_id \<times> node_id) set \<Rightarrow> node_id list list \<Rightarrow> bool" where
  "layered E levels \<longleftrightarrow>
     (\<forall>k < length levels. levels ! k \<noteq> [] \<and> sorted_wrt (<) (levels ! k) \<and>
       (\<forall>v \<in> set (levels ! k). (\<forall>u. (u, v) \<in> E \<longrightarrow> u \<in> set (concat (take k levels))) \<and>
         (k \<noteq> 0 \<longrightarrow> (\<exists>u \<in> set (levels ! (k - 1)). (u, v) \<in> E))))"

lemma layered_snoc:
  "layered E (levels @ [l]) \<longleftrightarrow> layered E levels \<and> l \<noteq> [] \<and> sorted_wrt (<) l \<and>
     (\<forall>v \<in> set l. (\<forall>u. (u, v) \<in> E \<longrightarrow> u \<in> set (concat levels)) \<and>
       (levels \<noteq> [] \<longrightarrow> (\<exists>u \<in> set (last levels). (u, v) \<in> E)))"
proof -
  have "(\<forall>k < length (levels @ [l]). Q k) \<longleftrightarrow> (\<forall>k < length levels. Q k) \<and> Q (length levels)" for Q
    by (auto simp: less_Suc_eq)
  then show ?thesis unfolding layered_def
    by (auto simp: nth_append last_conv_nth)
qed

text \<open>The invariant of the level loop: besides \<open>kahn_inv\<close>, every queued node has a predecessor in
  the last level.\<close>

definition level_inv ::
  "adjacency \<Rightarrow> node_id set \<Rightarrow> node_id btree_set \<Rightarrow> indegrees \<Rightarrow> node_id list list \<Rightarrow> bool" where
  "level_inv a N q i levels \<longleftrightarrow>
     kahn_inv a N {} q i (concat levels) \<and> layered (edge_rel a N) levels \<and>
     (\<forall>v \<in> set q. levels \<noteq> [] \<longrightarrow> (\<exists>u \<in> set (last levels). (u, v) \<in> edge_rel a N))"

lemma ready_preds:
  assumes "closed_graph a N" "kahn_inv a N P q i order" "v \<in> set q \<union> P" "(u, v) \<in> edge_rel a N"
  shows "u \<in> set order"
proof (rule ccontr)
  assume u: "u \<notin> set order"
  have fin: "finite (N - set order)" using assms(1) by (simp add: closed_graph_def)
  have "v \<in> {v \<in> N - set order. open_edges a (N - set order) v = 0}"
    using assms(2,3) by (simp add: kahn_inv_def)
  then have "\<forall>u \<in> N - set order. v \<notin> set (succs a u)" using open_edges_zero[OF fin] by simp
  then show False using assms(4) u by (auto simp: edge_rel_def)
qed

lemma level_step:
  assumes cl: "closed_graph a N" and inv: "level_inv a N q i levels" and ne: "q \<noteq> []"
  shows "\<exists>q' i'. try_fold (relax_node a) ([], i) q = Inr (q', i') \<and> level_inv a N q' i' (levels @ [q])"
proof -
  have k: "kahn_inv a N {} q i (concat levels)" and lay: "layered (edge_rel a N) levels"
    and last: "\<forall>v \<in> set q. levels \<noteq> [] \<longrightarrow> (\<exists>u \<in> set (last levels). (u, v) \<in> edge_rel a N)"
    using inv by (simp_all add: level_inv_def)
  have sq: "sorted_wrt (<) q" using k by (simp add: kahn_inv_def)
  then have "distinct q" by (simp add: strict_sorted_iff)
  from kahn_steps[OF cl kahn_inv_clear[OF k] this] obtain q' i' where
    st: "try_fold (relax_node a) ([], i) q = Inr (q', i')"
    "kahn_inv a N {} q' i' (concat (levels @ [q]))" by auto
  have "layered (edge_rel a N) (levels @ [q])"
    using lay ne sq last ready_preds[OF cl k] by (auto simp: layered_snoc)
  moreover have "\<exists>u \<in> set q. (u, v) \<in> edge_rel a N" if v: "v \<in> set q'" for v
  proof (rule ccontr)
    assume no: "\<not> (\<exists>u \<in> set q. (u, v) \<in> edge_rel a N)"
    have fin: "finite N" using cl by (simp add: closed_graph_def)
    have vD: "v \<in> N" "v \<notin> set (concat levels)" "v \<notin> set q"
      using st(2) v by (auto simp: kahn_inv_def)
    have "v \<notin> set (succs a u)" if u: "u \<in> N - set (concat levels)" for u
    proof
      assume "v \<in> set (succs a u)"
      then have e: "(u, v) \<in> edge_rel a N" using u by (simp add: edge_rel_def)
      then have "u \<in> set (concat (levels @ [q]))" using ready_preds[OF cl st(2)] v by simp
      then show False using u e no by auto
    qed
    then have "open_edges a (N - set (concat levels)) v = 0"
      using open_edges_zero[of "N - set (concat levels)"] fin by simp
    then have "v \<in> set q" using k vD unfolding kahn_inv_def by blast
    then show False using vD by blast
  qed
  ultimately have "level_inv a N q' i' (levels @ [q])" using st(2) by (simp add: level_inv_def)
  then show ?thesis using st(1) by blast
qed

lemma levels_loop_result:
  "closed_graph a N \<Longrightarrow> level_inv a N q i levels \<Longrightarrow> visited = length (concat levels) \<Longrightarrow>
    \<exists>levels' i'. levels_loop a q i levels visited = Inr (levels', length (concat levels'), i') \<and>
      kahn_result a N (concat levels') \<and> layered (edge_rel a N) levels' \<and> length i' = card N"
proof (induction a q i levels visited rule: levels_loop.induct)
  case (1 a q i levels visited)
  show ?case
  proof (cases "q = []")
    case True
    have "kahn_inv a N {} [] i (concat levels)" "layered (edge_rel a N) levels"
      using "1.prems"(2) True by (simp_all add: level_inv_def)
    then show ?thesis
      using kahn_finish[OF "1.prems"(1)] "1.prems"(3) True by (subst levels_loop.simps) simp
  next
    case False
    obtain q' i' where st: "try_fold (relax_node a) ([], i) q = Inr (q', i')"
      "level_inv a N q' i' (levels @ [q])"
      using level_step[OF "1.prems"(1,2) False] by blast
    have "\<exists>levels' i''. levels_loop a q' i' (levels @ [q]) (visited + length q) =
        Inr (levels', length (concat levels'), i'') \<and>
      kahn_result a N (concat levels') \<and> layered (edge_rel a N) levels' \<and> length i'' = card N"
      using "1.IH"[OF False st(1)] "1.prems"(1,3) st(2) by simp
    then show ?thesis using st(1) False by (subst levels_loop.simps) simp
  qed
qed

section \<open>The traversals from consistent indegrees\<close>

definition counts_edges :: "adjacency \<Rightarrow> indegrees \<Rightarrow> node_id set \<Rightarrow> bool" where
  "counts_edges a i N \<longleftrightarrow> closed_graph a N \<and> bm_ok i \<and> dom (bm_get i) = N \<and>
     (\<forall>v \<in> N. bm_get i v = Some (open_edges a N v))"

lemma bm_get_mem_iff:
  assumes "bm_ok m"
  shows "(k, v) \<in> set m \<longleftrightarrow> bm_get m k = Some v"
  using map_of_eq_Some_iff[OF bm_ok_distinct[OF assms]] by (simp add: bm_get_def)

lemma kahn_start:
  assumes "counts_edges a i N"
  shows "kahn_inv a N {} (zero_indegree i) i []"
proof -
  have ok: "bm_ok i" "dom (bm_get i) = N" "\<forall>v \<in> N. bm_get i v = Some (open_edges a N v)"
    using assms by (simp_all add: counts_edges_def)
  have "v \<in> set (zero_indegree i) \<longleftrightarrow> bm_get i v = Some 0" for v
    using bm_get_mem_iff[OF ok(1), of v 0] by (force simp: zero_indegree_def)
  also have "bm_get i v = Some 0 \<longleftrightarrow> v \<in> N \<and> open_edges a N v = 0" for v
    using ok(2,3) by (metis domI option.inject)
  finally have "set (zero_indegree i) = {v \<in> N. open_edges a N v = 0}" by auto
  then show ?thesis using ok by (simp add: kahn_inv_def zero_indegree_def)
qed

lemma topological_order_on_result:
  assumes "counts_edges a i N"
  shows "\<exists>order. kahn_result a N order \<and>
    topological_order_on a i = (if acyclic (edge_rel a N) then Inr order else graph_err GraphCycle)"
proof -
  have cl: "closed_graph a N" using assms by (simp add: counts_edges_def)
  obtain order i' where r: "order_loop a (zero_indegree i) i [] = Inr (order, i')"
    "kahn_result a N order" "length i' = card N"
    using order_loop_result[OF cl kahn_start[OF assms]] by blast
  have "length order = card N \<longleftrightarrow> set order = N"
  proof -
    have d: "distinct order" "set order \<subseteq> N" "finite N"
      using r(2) cl by (simp_all add: kahn_result_def closed_graph_def)
    then show ?thesis using card_subset_eq[OF d(3,2)] by (metis distinct_card)
  qed
  then show ?thesis using r by (auto simp: topological_order_on_def kahn_result_def)
qed

lemma topological_levels_on_result:
  assumes "counts_edges a i N"
  shows "\<exists>levels. kahn_result a N (concat levels) \<and> layered (edge_rel a N) levels \<and>
    topological_levels_on a i = (if acyclic (edge_rel a N) then Inr levels else graph_err GraphCycle)"
proof -
  have cl: "closed_graph a N" using assms by (simp add: counts_edges_def)
  have "level_inv a N (zero_indegree i) i []"
    using kahn_start[OF assms] by (simp add: level_inv_def layered_def)
  then obtain levels i' where r:
    "levels_loop a (zero_indegree i) i [] 0 = Inr (levels, length (concat levels), i')"
    "kahn_result a N (concat levels)" "layered (edge_rel a N) levels" "length i' = card N"
    using levels_loop_result[OF cl, of "zero_indegree i" i "[]" 0] by auto
  have "length (concat levels) = card N \<longleftrightarrow> set (concat levels) = N"
  proof -
    have d: "distinct (concat levels)" "set (concat levels) \<subseteq> N" "finite N"
      using r(2) cl by (simp_all add: kahn_result_def closed_graph_def)
    then show ?thesis using card_subset_eq[OF d(3,2)] by (metis distinct_card)
  qed
  then show ?thesis using r by (auto simp: topological_levels_on_def kahn_result_def)
qed

end
