(* ===== verification/GraphProofs.thy ===== *)
theory GraphProofs
  imports Kahn
begin

text \<open>
  Proofs about \<open>graph.rs\<close>: what \<open>GraphSpec::validate\<close> accepts, that neither validation nor the
  traversals panic, and what the traversals return.
\<close>

section \<open>Building the adjacency\<close>

definition edge_pair :: "edge_spec \<Rightarrow> node_id \<times> node_id" where
  "edge_pair e = (edge_source_node e, edge_target_node e)"

text \<open>The adjacency and the indegrees agree on the edges \<open>E\<close> over the nodes \<open>N\<close>.\<close>

definition adjacency_ok :: "node_id set \<Rightarrow> (node_id \<times> node_id) set \<Rightarrow> adjacency \<times> indegrees \<Rightarrow> bool" where
  "adjacency_ok N E g \<longleftrightarrow> counts_edges (fst g) (snd g) N \<and> dom (bm_get (fst g)) = N \<and>
     edge_rel (fst g) N = E"

lemma collect_const:
  assumes "distinct ks"
  shows "bm_get (bm_collect (map (\<lambda>k. (k, c)) ks)) = (\<lambda>k. if k \<in> set ks then Some c else None)"
proof -
  have "bm_get (bm_collect (map (\<lambda>k. (k, c)) ks)) = map_of (map (\<lambda>k. (k, c)) ks)"
    by (rule bm_get_collect_distinct) (simp add: comp_def assms)
  also have "\<dots> = (Some \<circ> (\<lambda>_. c)) |` set ks" by (rule map_of_map_restrict)
  finally show ?thesis by (simp add: restrict_map_def fun_eq_iff)
qed

lemma empty_adjacency_ok:
  assumes "distinct ids"
  shows "adjacency_ok (set ids) {} (empty_adjacency ids)"
proof -
  have "succs (fst (empty_adjacency ids)) u = []" for u
    by (simp add: succs_def empty_adjacency_def collect_const[OF assms])
  then show ?thesis
    by (auto simp: adjacency_ok_def counts_edges_def closed_graph_def edge_rel_def open_edges_def)
      (auto simp: empty_adjacency_def collect_const[OF assms] split: if_splits)
qed

lemma push_edge_ok:
  assumes "adjacency_ok N E g" "edge_source_node e \<in> N" "edge_target_node e \<in> N"
  shows "\<exists>g'. push_edge g e = Inr g' \<and> adjacency_ok N (insert (edge_pair e) E) g'"
proof -
  obtain a i where g: "g = (a, i)" by (cases g)
  let ?u = "edge_source_node e" and ?v = "edge_target_node e"
  have fin: "finite N" and cl: "\<forall>u \<in> N. set (succs a u) \<subseteq> N" and i: "bm_ok i" "dom (bm_get i) = N"
    "\<forall>v \<in> N. bm_get i v = Some (open_edges a N v)" and a: "dom (bm_get a) = N" and E: "edge_rel a N = E"
    using assms(1) by (simp_all add: adjacency_ok_def counts_edges_def closed_graph_def g)
  obtain ts where ts: "bm_get a ?u = Some ts" using a assms(2) by auto
  have d: "bm_get i ?v = Some (open_edges a N ?v)" using i assms(3) by blast
  let ?a = "bm_insert ?u (ts @ [?v]) a" and ?i = "bm_insert ?v (open_edges a N ?v + 1) i"
  have p: "push_edge g e = Inr (?a, ?i)" by (simp add: push_edge_def g ts d)
  have su: "succs ?a u = (if u = ?u then succs a ?u @ [?v] else succs a u)" for u
    by (simp add: succs_def ts)
  have open_e: "open_edges ?a N v = open_edges a N v + (if v = ?v then 1 else 0)" for v
  proof -
    have "open_edges ?a (N - {?u}) v = open_edges a (N - {?u}) v"
      unfolding open_edges_def by (rule sum.cong) (simp_all add: su)
    then show ?thesis
      by (simp add: open_edges_remove[OF fin assms(2), of ?a] open_edges_remove[OF fin assms(2), of a] su)
  qed
  have "closed_graph ?a N" using fin cl assms(3) by (simp add: closed_graph_def su)
  moreover have "edge_rel ?a N = insert (edge_pair e) E"
    using assms(2) E by (auto simp: edge_rel_def su edge_pair_def split: if_splits)
  moreover have "dom (bm_get ?a) = N" "dom (bm_get ?i) = N" using a i(2) assms(2,3) by auto
  moreover have "\<forall>v \<in> N. bm_get ?i v = Some (open_edges ?a N v)" using i(3) by (simp add: open_e)
  ultimately have "adjacency_ok N (insert (edge_pair e) E) (?a, ?i)"
    using i(1) by (simp add: adjacency_ok_def counts_edges_def bm_ok_insert)
  then show ?thesis using p by blast
qed

lemma push_edges_ok:
  assumes "adjacency_ok N E g" "\<forall>e \<in> set es. edge_source_node e \<in> N \<and> edge_target_node e \<in> N"
  shows "\<exists>g'. try_fold push_edge g es = Inr g' \<and> adjacency_ok N (edge_pair ` set es \<union> E) g'"
  using assms
proof (induction es arbitrary: g E)
  case (Cons e es)
  obtain g1 where "push_edge g e = Inr g1" "adjacency_ok N (insert (edge_pair e) E) g1"
    using push_edge_ok[OF Cons.prems(1), of e] Cons.prems(2) by auto
  then show ?case using Cons.IH[of "insert (edge_pair e) E" g1] Cons.prems(2) by auto
qed auto

section \<open>The checks of ports and nodes\<close>

definition port_ok :: "port_spec \<Rightarrow> bool" where
  "port_ok p \<longleftrightarrow> \<not> is_blank (ps_name p) \<and> \<not> option_ex is_blank (ps_representation p) \<and>
     \<not> option_ex is_blank (ps_alignment_key p) \<and> \<not> option_ex (\<lambda>k. \<not> is_identifier k) (ps_alignment_key p)"

definition ports_ok :: "port_spec list \<Rightarrow> bool" where
  "ports_ok ports \<longleftrightarrow> list_all port_ok ports \<and> distinct (map ps_name ports)"

lemma validate_port_contract_ok [ok_iff]:
  "validate_port_contract n d p = Inr u \<longleftrightarrow> \<not> option_ex is_blank (ps_representation p) \<and>
     \<not> option_ex is_blank (ps_alignment_key p) \<and> \<not> option_ex (\<lambda>k. \<not> is_identifier k) (ps_alignment_key p)"
  by (auto simp: validate_port_contract_def ok_iff validate_optional_non_empty_def split: if_splits)

lemma unique_ports_loop:
  "try_fold (\<lambda>seen p.
         if is_blank (ps_name p) then graph_err (PortNameEmpty direction (as_str node))
         else if ps_name p \<in> seen then graph_err (DuplicatePort direction (ps_name p) (as_str node))
         else and_then (validate_port_contract node direction p) (\<lambda>_. Inr (insert (ps_name p) seen)))
     A ports = Inr B \<longleftrightarrow>
   ports_ok ports \<and> ps_name ` set ports \<inter> A = {} \<and> B = A \<union> ps_name ` set ports"
  by (induction ports arbitrary: A) (auto simp: and_then_ok ok_iff ports_ok_def port_ok_def)

lemma validate_unique_ports_ok [ok_iff]:
  "validate_unique_ports n d ports = Inr u \<longleftrightarrow> ports_ok ports"
  by (auto simp: validate_unique_ports_def and_then_ok unique_ports_loop)

lemma no_panic_validate_unique_ports [simp]: "no_panic (validate_unique_ports n d ports)"
proof -
  have "no_panic (try_fold (\<lambda>seen p.
         if is_blank (ps_name p) then graph_err (PortNameEmpty d (as_str n))
         else if ps_name p \<in> seen then graph_err (DuplicatePort d (ps_name p) (as_str n))
         else and_then (validate_port_contract n d p) (\<lambda>_. Inr (insert (ps_name p) seen))) A ports)" for A
    by (induction ports arbitrary: A)
      (auto simp: validate_port_contract_def validate_optional_non_empty_def intro!: no_panic_and_then)
  then show ?thesis by (auto simp: validate_unique_ports_def intro!: no_panic_and_then)
qed

definition node_ok :: "(json_value \<Rightarrow> string + stacking_oof_refit_contract) \<Rightarrow> node_spec \<Rightarrow> bool" where
  "node_ok from_value n \<longleftrightarrow>
     (case bm_get (ns_metadata n) stacking_refit_key of None \<Rightarrow> True | Some v \<Rightarrow> \<not> isl (from_value v)) \<and>
     ports_ok (inputs (ns_ports n)) \<and> ports_ok (outputs (ns_ports n))"

lemma check_stacking_metadata_ok [ok_iff]:
  "check_stacking_metadata fv n = Inr u \<longleftrightarrow>
     (case bm_get (ns_metadata n) stacking_refit_key of None \<Rightarrow> True | Some v \<Rightarrow> \<not> isl (fv v))"
  by (auto simp: check_stacking_metadata_def refit_contract_from_metadata_def split: option.splits sum.splits)

lemma no_panic_check_stacking_metadata [simp]: "no_panic (check_stacking_metadata fv n)"
  by (auto simp: check_stacking_metadata_def refit_contract_from_metadata_def split: option.splits sum.splits)

lemma insert_nodes_ok:
  "bm_ok m \<Longrightarrow> try_fold (insert_node fv) m ns = Inr m' \<longleftrightarrow>
     list_all (node_ok fv) ns \<and> distinct (map node_id ns) \<and> node_id ` set ns \<inter> dom (bm_get m) = {} \<and>
     m' = foldl (\<lambda>m n. bm_insert (node_id n) n m) m ns"
proof (induction ns arbitrary: m)
  case (Cons n ns)
  show ?case
  proof (cases "bm_get m (node_id n) = None \<and> node_ok fv n")
    case True
    then have "insert_node fv m n = Inr (bm_insert (node_id n) n m)"
      by (auto simp: insert_node_def bm_contains_key_get ok_iff node_ok_def)
    then have "try_fold (insert_node fv) m (n # ns) = try_fold (insert_node fv) (bm_insert (node_id n) n m) ns"
      by simp
    moreover have "bm_ok (bm_insert (node_id n) n m)" using Cons.prems by blast
    ultimately have "try_fold (insert_node fv) m (n # ns) = Inr m' \<longleftrightarrow>
       list_all (node_ok fv) ns \<and> distinct (map node_id ns) \<and>
       node_id ` set ns \<inter> dom (bm_get (bm_insert (node_id n) n m)) = {} \<and>
       m' = foldl (\<lambda>m n. bm_insert (node_id n) n m) (bm_insert (node_id n) n m) ns"
      by (simp only: Cons.IH)
    with True show ?thesis by (auto simp del: try_fold.simps)
  next
    case False
    then have "\<not> (\<exists>m1. insert_node fv m n = Inr m1)"
      by (auto simp: insert_node_def bm_contains_key_get ok_iff node_ok_def split: if_splits)
    with False show ?thesis by (auto simp: and_then_ok)
  qed
qed auto

definition node_map :: "graph_spec \<Rightarrow> (node_id, node_spec) btree_map" where
  "node_map g = bm_collect (map (\<lambda>n. (node_id n, n)) (nodes g))"

lemma node_map_foldl: "foldl (\<lambda>m n. bm_insert (node_id n) n m) [] (nodes g) = node_map g"
  by (simp add: node_map_def bm_collect_def foldl_map)

lemma insert_nodes_graph:
  "try_fold (insert_node fv) [] (nodes g) = Inr m \<longleftrightarrow>
     list_all (node_ok fv) (nodes g) \<and> distinct (map node_id (nodes g)) \<and> m = node_map g"
  by (auto simp: insert_nodes_ok node_map_foldl)

lemma node_map_get:
  assumes "distinct (map node_id (nodes g))"
  shows "bm_get (node_map g) k = Some n \<longleftrightarrow> n \<in> set (nodes g) \<and> node_id n = k"
proof -
  have d: "distinct (map fst (map (\<lambda>n. (node_id n, n)) (nodes g)))" using assms by (simp add: comp_def)
  show ?thesis
    unfolding node_map_def bm_get_collect_distinct[OF d] map_of_eq_Some_iff[OF d] by auto
qed

lemma dom_node_map: "dom (bm_get (node_map g)) = node_id ` set (nodes g)"
  by (simp add: node_map_def dom_collect_pairs image_image)

section \<open>The checks of the edges\<close>

definition single_input :: "port_spec \<Rightarrow> bool" where
  "single_input p \<longleftrightarrow> ps_cardinality p = One \<or> ps_cardinality p = Optional"

definition edge_ok :: "(node_id, node_spec) btree_map \<Rightarrow> edge_spec list \<Rightarrow> edge_spec \<Rightarrow> bool" where
  "edge_ok m es e \<longleftrightarrow>
     (\<exists>sp tp. edge_ports m e = Inr (sp, tp) \<and> validate_edge_contract e sp tp = Inr () \<and>
        (requires_oof (contract e) \<longrightarrow> ec_kind (contract e) = Prediction) \<and>
        (single_input tp \<longrightarrow> length (filter (\<lambda>e'. target_key e' = target_key e) es) = 1))"

definition edges_ok :: "(node_id, node_spec) btree_map \<Rightarrow> edge_spec list \<Rightarrow> bool" where
  "edges_ok m es \<longleftrightarrow> distinct (map (\<lambda>e. (source_key e, target_key e)) es) \<and> list_all (edge_ok m es) es"

definition inbound_of :: "edge_spec list \<Rightarrow> port_key \<rightharpoonup> nat" where
  "inbound_of es k = (let n = length (filter (\<lambda>e. target_key e = k) es) in if n = 0 then None else Some n)"

lemma inbound_snoc:
  "inbound_of (es @ [e]) = (inbound_of es)(target_key e \<mapsto> unwrap_or (inbound_of es (target_key e)) 0 + 1)"
  by (auto simp: inbound_of_def Let_def unwrap_or_def fun_eq_iff)

lemma inbound_count: "unwrap_or (inbound_of es k) 0 = length (filter (\<lambda>e. target_key e = k) es)"
  by (auto simp: inbound_of_def Let_def unwrap_or_def)

lemma same_target_port:
  assumes "edge_ports m e = Inr (sp, tp)" "edge_ports m e' = Inr (sp', tp')" "target_key e = target_key e'"
  shows "tp = tp'"
  using assms by (auto simp: edge_ports_def ok_iff target_key_def edge_target_node_def split: if_splits)

definition edge_checked :: "(node_id, node_spec) btree_map \<Rightarrow> edge_spec list \<Rightarrow> edge_spec \<Rightarrow> bool" where
  "edge_checked m es e \<longleftrightarrow>
     (source_key e, target_key e) \<notin> (\<lambda>e. (source_key e, target_key e)) ` set es \<and>
     (\<exists>sp tp. edge_ports m e = Inr (sp, tp) \<and> validate_edge_contract e sp tp = Inr () \<and>
        (requires_oof (contract e) \<longrightarrow> ec_kind (contract e) = Prediction) \<and>
        (single_input tp \<longrightarrow> (\<forall>e' \<in> set es. target_key e' \<noteq> target_key e)))"

lemma check_edge_ok:
  "check_edge m ((\<lambda>e. (source_key e, target_key e)) ` set es, inbound_of es) e = Inr st \<longleftrightarrow>
     edge_checked m es e \<and>
     st = ((\<lambda>e. (source_key e, target_key e)) ` set (es @ [e]), inbound_of (es @ [e]))"
proof -
  have c: "unwrap_or (inbound_of es (target_key e)) 0 + 1 > 1 \<longleftrightarrow> (\<exists>e' \<in> set es. target_key e' = target_key e)"
    by (auto simp: inbound_count filter_empty_conv)
  show ?thesis
    unfolding check_edge_def edge_checked_def inbound_snoc
    by (simp only: Let_def prod.case c single_input_def[symmetric])
      (auto simp: and_then_ok ok_iff single_input_def split: if_splits)
qed

lemma edge_ok_snoc_new:
  "edge_ok m (es @ [e]) e \<and> (source_key e, target_key e) \<notin> (\<lambda>e. (source_key e, target_key e)) ` set es
   \<longleftrightarrow> edge_checked m es e"
  by (auto simp: edge_ok_def edge_checked_def filter_empty_conv)

lemma edge_ok_snoc_old:
  assumes "edge_checked m es e" "e' \<in> set es"
  shows "edge_ok m (es @ [e]) e' \<longleftrightarrow> edge_ok m es e'"
proof -
  obtain sp tp where e: "edge_ports m e = Inr (sp, tp)"
    "single_input tp \<longrightarrow> (\<forall>e' \<in> set es. target_key e' \<noteq> target_key e)"
    using assms(1) by (auto simp: edge_checked_def)
  have "\<not> single_input tp'" if "edge_ports m e' = Inr (sp', tp')" "target_key e = target_key e'" for sp' tp'
    using same_target_port[OF e(1) that] e(2) assms(2) that(2) by metis
  then show ?thesis unfolding edge_ok_def by (cases "target_key e = target_key e'") auto
qed

lemma edges_ok_snoc: "edges_ok m (es @ [e]) \<longleftrightarrow> edges_ok m es \<and> edge_checked m es e"
proof (cases "edge_checked m es e")
  case True
  then have new: "edge_ok m (es @ [e]) e"
    "(source_key e, target_key e) \<notin> (\<lambda>e. (source_key e, target_key e)) ` set es"
    using edge_ok_snoc_new by blast+
  have "list_all (edge_ok m (es @ [e])) es = list_all (edge_ok m es) es"
    using edge_ok_snoc_old[OF True] by (simp add: list_all_iff)
  then show ?thesis using new True by (simp add: edges_ok_def image_iff)
next
  case False
  then show ?thesis using edge_ok_snoc_new[of m es e] by (auto simp: edges_ok_def)
qed

lemma check_edges_ok:
  "try_fold (check_edge m) ({}, Map.empty) es = Inr st \<longleftrightarrow> edges_ok m es \<and>
     st = ((\<lambda>e. (source_key e, target_key e)) ` set es, inbound_of es)"
proof (induction es arbitrary: st rule: rev_induct)
  case Nil
  show ?case by (auto simp: edges_ok_def inbound_of_def fun_eq_iff)
next
  case (snoc e es)
  have "try_fold (check_edge m) ({}, Map.empty) (es @ [e]) = Inr st \<longleftrightarrow>
      edges_ok m es \<and> check_edge m ((\<lambda>e. (source_key e, target_key e)) ` set es, inbound_of es) e = Inr st"
    by (cases st) (auto simp: try_fold_append and_then_ok snoc)
  then show ?case unfolding check_edge_ok edges_ok_snoc by blast
qed

lemma edge_loop_ok:
  "try_fold (edge_loop m) (c, g) es = Inr st \<longleftrightarrow>
     try_fold (check_edge m) c es = Inr (fst st) \<and> try_fold push_edge g es = Inr (snd st)"
  by (induction es arbitrary: c g) (auto simp: and_then_ok edge_loop_def prod_eq_iff)

lemma edge_ok_endpoints:
  "edge_ok m es e \<Longrightarrow> edge_source_node e \<in> dom (bm_get m) \<and> edge_target_node e \<in> dom (bm_get m)"
  by (auto simp: edge_ok_def edge_ports_def ok_iff)

section \<open>What a valid graph is\<close>

definition graph_edges :: "graph_spec \<Rightarrow> (node_id \<times> node_id) set" where
  "graph_edges g = edge_pair ` set (edges g)"

definition graph_nodes :: "graph_spec \<Rightarrow> node_id set" where
  "graph_nodes g = node_id ` set (nodes g)"

definition graph_ok :: "(json_value \<Rightarrow> string + stacking_oof_refit_contract) \<Rightarrow> graph_spec \<Rightarrow> bool" where
  "graph_ok from_value g \<longleftrightarrow>
     \<not> is_blank (graph_id g) \<and> nodes g \<noteq> [] \<and> \<not> option_ex is_blank (search_space_fingerprint g) \<and>
     ports_ok (gi_inputs (interface g)) \<and> ports_ok (gi_outputs (interface g)) \<and>
     distinct (map node_id (nodes g)) \<and> list_all (node_ok from_value) (nodes g) \<and>
     edges_ok (node_map g) (edges g) \<and> acyclic (graph_edges g)"

lemma interface_node_ok: "interface_node = Inr (Ident ''graph:interface'')"
  by code_simp

lemma set_node_keys: "set (bm_keys (node_map g)) = graph_nodes g"
  by (simp add: set_bm_keys dom_node_map graph_nodes_def)

lemma distinct_node_keys: "distinct (bm_keys (node_map g))"
  unfolding bm_keys_def by (rule bm_ok_distinct) (simp add: node_map_def)

lemma edges_ok_endpoints:
  assumes "edges_ok (node_map g) es"
  shows "\<forall>e \<in> set es. edge_source_node e \<in> graph_nodes g \<and> edge_target_node e \<in> graph_nodes g"
  using assms edge_ok_endpoints[of "node_map g" es]
  by (auto simp: edges_ok_def list_all_iff dom_node_map graph_nodes_def)

lemma pushed_graph:
  assumes "edges_ok (node_map g) (edges g)" "distinct ids" "set ids = graph_nodes g"
  shows "\<exists>a i. try_fold push_edge (empty_adjacency ids) (edges g) = Inr (a, i) \<and>
     counts_edges a i (graph_nodes g) \<and> edge_rel a (graph_nodes g) = graph_edges g"
proof -
  have "adjacency_ok (graph_nodes g) {} (empty_adjacency ids)"
    using empty_adjacency_ok[OF assms(2)] assms(3) by simp
  from push_edges_ok[OF this edges_ok_endpoints[OF assms(1)]] show ?thesis
    by (auto simp: adjacency_ok_def graph_edges_def)
qed

lemma ensure_acyclic_ok:
  assumes "counts_edges a i N"
  shows "ensure_acyclic a i = (if acyclic (edge_rel a N) then Inr () else graph_err GraphCycle)"
  using topological_order_on_result[OF assms] by (auto simp: ensure_acyclic_def)

lemma graph_validate_ok: "graph_validate fv g = Inr () \<longleftrightarrow> graph_ok fv g"
proof -
  have loop: "(\<exists>st. try_fold (edge_loop (node_map g)) (({}, Map.empty), empty_adjacency (bm_keys (node_map g)))
        (edges g) = Inr st \<and> ensure_acyclic (fst (snd st)) (snd (snd st)) = Inr ()) \<longleftrightarrow>
      edges_ok (node_map g) (edges g) \<and> acyclic (graph_edges g)"
  proof (cases "edges_ok (node_map g) (edges g)")
    case True
    obtain a i where p: "try_fold push_edge (empty_adjacency (bm_keys (node_map g))) (edges g) = Inr (a, i)"
      "counts_edges a i (graph_nodes g)" "edge_rel a (graph_nodes g) = graph_edges g"
      using pushed_graph[OF True distinct_node_keys set_node_keys] by blast
    have "try_fold (edge_loop (node_map g)) (({}, Map.empty), empty_adjacency (bm_keys (node_map g)))
        (edges g) = Inr st \<longleftrightarrow> snd st = (a, i) \<and>
        fst st = ((\<lambda>e. (source_key e, target_key e)) ` set (edges g), inbound_of (edges g))" for st
      using True p(1) by (auto simp: edge_loop_ok check_edges_ok)
    then show ?thesis using True ensure_acyclic_ok[OF p(2)] p(3) by auto
  next
    case False
    then show ?thesis by (auto simp: edge_loop_ok check_edges_ok)
  qed
  have "graph_validate fv g = Inr () \<longleftrightarrow>
      \<not> is_blank (graph_id g) \<and> nodes g \<noteq> [] \<and> \<not> option_ex is_blank (search_space_fingerprint g) \<and>
      ports_ok (gi_inputs (interface g)) \<and> ports_ok (gi_outputs (interface g)) \<and>
      list_all (node_ok fv) (nodes g) \<and> distinct (map node_id (nodes g)) \<and>
      (\<exists>st. try_fold (edge_loop (node_map g)) (({}, Map.empty), empty_adjacency (bm_keys (node_map g)))
        (edges g) = Inr st \<and> ensure_acyclic (fst (snd st)) (snd (snd st)) = Inr ())"
    unfolding graph_validate_def interface_node_ok
    by (auto simp: and_then_ok validate_unique_ports_ok insert_nodes_graph)
  then show ?thesis unfolding loop graph_ok_def by blast
qed

section \<open>No panic\<close>

lemma no_panic_optional [simp]: "no_panic (validate_optional_non_empty l x)"
  by (simp add: validate_optional_non_empty_def)

lemma no_panic_relation_contract [simp]: "no_panic (validate_relation_contract e c)"
  by (simp add: validate_relation_contract_def split: option.splits)

lemma no_panic_endpoints [simp]:
  "no_panic (try_each (\<lambda>(p, x). ensure (P p x) (Err (h p x))) (endpoints e sp tp get))"
  by (auto intro!: no_panic_try_each)

lemma no_panic_unit_alignment [simp]: "no_panic (validate_edge_unit_alignment e sp tp)"
  unfolding validate_edge_unit_alignment_def Let_def
  by (intro no_panic_and_then no_panic_endpoints no_panic_ensure | split if_split | simp only: no_panic_simps | intro conjI impI)+

lemma no_panic_validate_edge_contract: "no_panic (validate_edge_contract e sp tp)"
proof -
  have r: "no_panic (case ec_relation_contract (contract e) of
      None \<Rightarrow> Inr () | Some r \<Rightarrow> validate_relation_contract e r)"
    by (simp split: option.splits)
  show ?thesis
    unfolding validate_edge_contract_def Let_def
    by (intro no_panic_and_then no_panic_optional no_panic_unit_alignment r | split if_split
        | simp only: no_panic_simps | intro conjI impI)+
qed

lemma no_panic_edge_ports: "no_panic (edge_ports m e)"
  unfolding edge_ports_def by (intro no_panic_and_then allI impI) auto

lemma no_panic_check_edge: "no_panic (check_edge m st e)"
  unfolding check_edge_def Let_def
  by (auto split: prod.splits intro!: no_panic_and_then no_panic_edge_ports no_panic_validate_edge_contract)

lemma check_edge_endpoints:
  "check_edge m st e = Inr st' \<Longrightarrow> edge_source_node e \<in> dom (bm_get m) \<and> edge_target_node e \<in> dom (bm_get m)"
  by (auto simp: check_edge_def Let_def edge_ports_def ok_iff split: prod.splits if_splits)

lemma no_panic_edge_loop:
  assumes "adjacency_ok (dom (bm_get m)) E g"
  shows "no_panic (try_fold (edge_loop m) (c, g) es)"
  using assms
proof (induction es arbitrary: c g E)
  case (Cons e es)
  show ?case
  proof (cases "check_edge m c e")
    case (Inl f)
    then show ?thesis using no_panic_check_edge[of m c e] by (simp add: edge_loop_def no_panic_def)
  next
    case (Inr c')
    obtain g' where g': "push_edge g e = Inr g'" "adjacency_ok (dom (bm_get m)) (insert (edge_pair e) E) g'"
      using push_edge_ok[OF Cons.prems, of e] check_edge_endpoints[OF Inr] by blast
    then show ?thesis using Inr Cons.IH by (simp add: edge_loop_def)
  qed
qed simp

lemma no_panic_insert_nodes: "no_panic (try_fold (insert_node fv) m ns)"
  by (induction ns arbitrary: m) (auto simp: insert_node_def intro!: no_panic_and_then)

lemma no_panic_graph_validate: "no_panic (graph_validate fv g)"
proof -
  have rest: "no_panic (and_then (try_fold (edge_loop m) (({}, Map.empty), empty_adjacency (bm_keys m)) (edges g))
      (\<lambda>st. ensure_acyclic (fst (snd st)) (snd (snd st))))"
    if "try_fold (insert_node fv) [] (nodes g) = Inr m" for m
  proof (rule no_panic_and_then)
    have m: "m = node_map g" using that insert_nodes_graph by blast
    have ok: "adjacency_ok (graph_nodes g) {} (empty_adjacency (bm_keys (node_map g)))"
      using empty_adjacency_ok[OF distinct_node_keys, of g] by (simp add: set_node_keys)
    then show "no_panic (try_fold (edge_loop m) (({}, Map.empty), empty_adjacency (bm_keys m)) (edges g))"
      using no_panic_edge_loop[of m] by (simp add: m dom_node_map graph_nodes_def)
    fix st assume st: "try_fold (edge_loop m) (({}, Map.empty), empty_adjacency (bm_keys m)) (edges g) = Inr st"
    then have es: "edges_ok (node_map g) (edges g)" by (auto simp: edge_loop_ok check_edges_ok m)
    from pushed_graph[OF es distinct_node_keys set_node_keys] obtain a i where
      "snd st = (a, i)" "counts_edges a i (graph_nodes g)"
      using st by (auto simp: edge_loop_ok m)
    then show "no_panic (ensure_acyclic (fst (snd st)) (snd (snd st)))"
      by (simp add: ensure_acyclic_ok)
  qed
  have "no_panic (and_then (validate_unique_ports i d1 ps) (\<lambda>_. and_then (validate_unique_ports i d2 qs) (\<lambda>_.
      and_then (try_fold (insert_node fv) [] (nodes g)) k)))"
    if "\<And>m. try_fold (insert_node fv) [] (nodes g) = Inr m \<Longrightarrow> no_panic (k m)"
    for i d1 d2 ps qs and k :: "(node_id, node_spec) btree_map \<Rightarrow> unit result"
    by (intro no_panic_and_then no_panic_insert_nodes no_panic_validate_unique_ports that)
  from this[OF rest] show ?thesis
    by (simp add: graph_validate_def interface_node_ok del: and_then_cong)
qed

section \<open>The traversals\<close>

lemma built_graph:
  assumes "graph_ok fv g"
  shows "\<exists>a i. build_adjacency g = Inr (a, i) \<and> counts_edges a i (graph_nodes g) \<and>
     edge_rel a (graph_nodes g) = graph_edges g"
  unfolding build_adjacency_def
  by (rule pushed_graph) (use assms in \<open>simp_all add: graph_ok_def graph_nodes_def bs_collect_def\<close>)

lemma topological_order_result:
  "topological_order fv g = Inr order \<Longrightarrow> graph_ok fv g \<and> distinct order \<and> set order = graph_nodes g \<and>
     forward (graph_edges g) order"
  and topological_order_total: "graph_ok fv g \<Longrightarrow> \<exists>order. topological_order fv g = Inr order"
proof -
  have "\<exists>order'. topological_order fv g = Inr order' \<and> kahn_result a (graph_nodes g) order' \<and>
      acyclic (edge_rel a (graph_nodes g)) \<and> edge_rel a (graph_nodes g) = graph_edges g"
    if "graph_ok fv g" "build_adjacency g = Inr (a, i)" "counts_edges a i (graph_nodes g)"
      "edge_rel a (graph_nodes g) = graph_edges g" for a i
  proof -
    have v: "graph_validate fv g = Inr ()" and ac: "acyclic (graph_edges g)"
      using that(1) graph_validate_ok by (auto simp: graph_ok_def)
    show ?thesis
      using topological_order_on_result[OF that(3)] that(2,4) ac by (auto simp: topological_order_def v)
  qed
  then have t: "\<exists>order'. topological_order fv g = Inr order' \<and> distinct order' \<and>
      set order' = graph_nodes g \<and> forward (graph_edges g) order'" if "graph_ok fv g"
    using that built_graph[OF that] unfolding kahn_result_def by metis
  then show "graph_ok fv g \<Longrightarrow> \<exists>order. topological_order fv g = Inr order" by blast
  have "graph_ok fv g" if "topological_order fv g = Inr order"
    using that by (auto simp: topological_order_def and_then_ok graph_validate_ok)
  then show "topological_order fv g = Inr order \<Longrightarrow> graph_ok fv g \<and> distinct order \<and>
      set order = graph_nodes g \<and> forward (graph_edges g) order"
    using t by fastforce
qed

lemma parallel_levels_result:
  "parallel_levels fv g = Inr levels \<Longrightarrow> graph_ok fv g \<and> distinct (concat levels) \<and>
     set (concat levels) = graph_nodes g \<and> layered (graph_edges g) levels"
  and parallel_levels_total: "graph_ok fv g \<Longrightarrow> \<exists>levels. parallel_levels fv g = Inr levels"
proof -
  have "\<exists>levels'. parallel_levels fv g = Inr levels' \<and> kahn_result a (graph_nodes g) (concat levels') \<and>
      layered (graph_edges g) levels' \<and> acyclic (edge_rel a (graph_nodes g))"
    if "graph_ok fv g" "build_adjacency g = Inr (a, i)" "counts_edges a i (graph_nodes g)"
      "edge_rel a (graph_nodes g) = graph_edges g" for a i
  proof -
    have v: "graph_validate fv g = Inr ()" and ac: "acyclic (graph_edges g)"
      using that(1) graph_validate_ok by (auto simp: graph_ok_def)
    show ?thesis
      using topological_levels_on_result[OF that(3)] that(2,4) ac by (auto simp: parallel_levels_def v)
  qed
  then have t: "\<exists>levels'. parallel_levels fv g = Inr levels' \<and> distinct (concat levels') \<and>
      set (concat levels') = graph_nodes g \<and> layered (graph_edges g) levels'" if "graph_ok fv g"
    using that built_graph[OF that] unfolding kahn_result_def by metis
  then show "graph_ok fv g \<Longrightarrow> \<exists>levels. parallel_levels fv g = Inr levels" by blast
  have "graph_ok fv g" if "parallel_levels fv g = Inr levels"
    using that by (auto simp: parallel_levels_def and_then_ok graph_validate_ok)
  then show "parallel_levels fv g = Inr levels \<Longrightarrow> graph_ok fv g \<and> distinct (concat levels) \<and>
      set (concat levels) = graph_nodes g \<and> layered (graph_edges g) levels"
    using t by fastforce
qed

section \<open>Properties\<close>

text \<open>C32: \<open>GraphSpec::validate\<close> accepts exactly the well-formed graphs: a non-blank id, nodes with
  distinct ids and well-formed ports and metadata, distinct edges between existing ports of the
  contract's kind that pass the contract checks, one edge at most into a single input, and no cycle.\<close>

theorem graph_validate_spec: "graph_validate fv g = Inr () \<longleftrightarrow> graph_ok fv g"
  by (rule graph_validate_ok)

text \<open>neither graph validation nor the traversals panic: the lookups of edge endpoints and the
  decrements of indegrees always succeed.\<close>

theorem graph_no_panic:
  "no_panic (graph_validate fv g) \<and> no_panic (topological_order fv g) \<and> no_panic (parallel_levels fv g)"
proof (cases "graph_ok fv g")
  case True
  then show ?thesis
    using no_panic_graph_validate topological_order_total parallel_levels_total by fastforce
next
  case False
  then have "\<exists>f. graph_validate fv g = Inl f"
    using graph_validate_ok[of fv g] by (cases "graph_validate fv g") auto
  then show ?thesis
    using no_panic_graph_validate[of fv g] by (auto simp: topological_order_def parallel_levels_def)
qed

text \<open>C33: \<open>topological_order\<close> returns an order exactly for the valid graphs; the order lists every
  node once, and each edge leads from a node to one placed later (\<open>forward\<close>).\<close>

theorem topological_order_spec:
  "(\<exists>order. topological_order fv g = Inr order \<and> distinct order \<and> set order = graph_nodes g \<and>
      forward (graph_edges g) order) \<longleftrightarrow> graph_ok fv g"
  using topological_order_result[of fv g] topological_order_total[of fv g] by blast

text \<open>\<open>parallel_levels\<close> returns levels exactly for the valid graphs. The levels hold every node
  once and are \<open>layered\<close>: non-empty and sorted, every predecessor of a node in an earlier level, and
  every node after the first level with a predecessor in the level just before, so that no node
  could be scheduled earlier.\<close>

theorem parallel_levels_spec:
  "(\<exists>levels. parallel_levels fv g = Inr levels \<and> distinct (concat levels) \<and>
      set (concat levels) = graph_nodes g \<and> layered (graph_edges g) levels) \<longleftrightarrow> graph_ok fv g"
  using parallel_levels_result[of fv g] parallel_levels_total[of fv g] by blast

text \<open>\<open>upstream_nodes\<close> lists the sources of the edges into a node, and \<open>downstream_nodes\<close> the
  targets of the edges out of it, in order and without repetition.\<close>

theorem neighbours_spec:
  "sorted_wrt (<) (upstream_nodes g n) \<and> set (upstream_nodes g n) = {u. (u, n) \<in> graph_edges g} \<and>
   sorted_wrt (<) (downstream_nodes g n) \<and> set (downstream_nodes g n) = {v. (n, v) \<in> graph_edges g}"
proof -
  have "sorted xs \<Longrightarrow> sorted_wrt (<) (remdups_adj xs)" for xs :: "node_id list"
    by (induction xs rule: remdups_adj.induct) auto
  then have "sorted_wrt (<) (remdups_adj (sort xs))" for xs :: "node_id list" by simp
  then show ?thesis
    by (auto simp: upstream_nodes_def downstream_nodes_def graph_edges_def edge_pair_def)
qed

end
