(* ===== verification/Selection.thy ===== *)
theory Selection
  imports GraphProofs
begin

text \<open>
  \<open>selection.rs\<close>: selection policies and decisions, and the ranking of scored candidates. Scores
  are \<open>f64\<close> bit patterns ordered by \<open>total_cmp\<close>.
\<close>

section \<open>Data\<close>

datatype (plugins only: code size) prediction_level = ObservationLevel | SampleLevel | TargetLevel | GroupLevel

datatype (plugins only: code size) metric_objective = Minimize | Maximize

record selection_metric =
  metric_name :: string
  objective :: metric_objective

record candidate_score =
  candidate_id :: string
  metrics :: "(string, f64) btree_map"
  cs_metadata :: json_map

datatype (plugins only: code size) evaluation_scope = OofScope | HoldoutScope | FinalScope | TrainScope | RefitScope

record evaluation_result =
  er_metric :: selection_metric
  er_partition :: prediction_partition
  er_scope :: evaluation_scope
  er_reduction_id :: "string option"
  er_unit_level :: "entity_unit_level option"

datatype (plugins only: code size) refit_strategy = RefitOne | RefitEnsemble

record refit_slot_plan =
  rsp_strategy :: refit_strategy
  rsp_selection_level :: prediction_level
  rsp_member_count :: "64 word"
  rsp_selection_metric :: selection_metric
  rsp_reduction_id :: "string option"

datatype (plugins only: code size) meta_row_domain = SampleDomain | ComboDomain

datatype (plugins only: code size) selection_protocol = Nested | Holdout | ReuseOof

datatype (plugins only: code size) meta_training_features = OofFeatures

datatype (plugins only: code size) inference_features = RefitBasePredictions

record stacking_fit_contract =
  sfc_meta_training_features :: meta_training_features
  sfc_inference_features :: inference_features
  sfc_selection_protocol :: selection_protocol
  sfc_meta_row_domain :: meta_row_domain
  sfc_final_reduction_id :: "string option"
  sfc_unsafe_allow_reuse_oof :: bool

record selection_policy =
  sp_id :: string
  sp_metric :: selection_metric
  required_metric_level :: "prediction_level option"
  require_finite :: bool
  sp_evaluation_scope :: "evaluation_scope option"
  sp_refit_slot_plan :: "refit_slot_plan option"
  sp_requested_rank :: "64 word option"
  sp_stacking_fit_contract :: "stacking_fit_contract option"
  sp_reduction_id :: "string option"

record ranked_candidate =
  rk_candidate_id :: string
  rk_score :: f64
  rk_rank :: nat

record selection_decision =
  sd_policy_id :: string
  selected_candidate_id :: string
  sd_metric_name :: string
  sd_objective :: metric_objective
  sd_metric_level :: "prediction_level option"
  sd_evaluation_scope :: "evaluation_scope option"
  sd_refit_slot_plan :: "refit_slot_plan option"
  sd_requested_rank :: "64 word option"
  sd_reduction_id :: "string option"
  selected_score :: f64
  ranked_candidates :: "ranked_candidate list"

section \<open>Validation\<close>

abbreviation sel_err :: "selection_msg \<Rightarrow> 'a result" where
  "sel_err m \<equiv> fail (CampaignValidation (SelectionMsg m))"

definition metric_validate :: "selection_metric \<Rightarrow> unit result" where
  "metric_validate m = (if is_blank (metric_name m) then sel_err MetricNameEmpty else Inr ())"

definition candidate_validate :: "candidate_score \<Rightarrow> unit result" where
  "candidate_validate c =
     (if is_blank (candidate_id c) then sel_err CandidateIdEmpty
      else try_each (\<lambda>(name, v).
        if is_blank name then sel_err (CandidateMetricNameEmpty (candidate_id c))
        else if f64_is_nan v then sel_err (CandidateMetricNan (candidate_id c) name)
        else Inr ()) (metrics c))"

definition validate_optional_id :: "string \<Rightarrow> string option \<Rightarrow> unit result" where
  "validate_optional_id label x =
     (if option_ex is_blank x then sel_err (SelectionFieldEmpty label) else Inr ())"

definition evaluation_result_validate :: "evaluation_result \<Rightarrow> unit result" where
  "evaluation_result_validate e =
     and_then (metric_validate (er_metric e)) (\<lambda>_.
       validate_optional_id ''evaluation reduction_id'' (er_reduction_id e))"

definition refit_slot_plan_validate :: "refit_slot_plan \<Rightarrow> unit result" where
  "refit_slot_plan_validate p =
     and_then (metric_validate (rsp_selection_metric p)) (\<lambda>_.
     if rsp_member_count p = 0 then sel_err RefitMemberCountZero
     else if rsp_strategy p = RefitOne \<and> rsp_member_count p \<noteq> 1 then sel_err RefitOneMemberCount
     else if rsp_strategy p = RefitEnsemble \<and> rsp_member_count p < 2 then sel_err RefitEnsembleMemberCount
     else validate_optional_id ''refit slot reduction_id'' (rsp_reduction_id p))"

definition stacking_fit_contract_validate :: "stacking_fit_contract \<Rightarrow> unit result" where
  "stacking_fit_contract_validate c =
     (if sfc_selection_protocol c = ReuseOof \<and> \<not> sfc_unsafe_allow_reuse_oof c then sel_err ReuseOofUnsafe
      else if sfc_meta_row_domain c = ComboDomain \<and> sfc_final_reduction_id c = None
      then sel_err ComboNeedsFinalReduction
      else validate_optional_id ''stacking final_reduction_id'' (sfc_final_reduction_id c))"

text \<open>\<open>if let Some(x) = field { x.validate()?; }\<close>.\<close>

definition validate_some :: "('a \<Rightarrow> unit result) \<Rightarrow> 'a option \<Rightarrow> unit result" where
  "validate_some f x = (case x of None \<Rightarrow> Inr () | Some y \<Rightarrow> f y)"

definition policy_validate :: "selection_policy \<Rightarrow> unit result" where
  "policy_validate p =
     (if is_blank (sp_id p) then sel_err PolicyIdEmpty
      else and_then (metric_validate (sp_metric p)) (\<lambda>_.
        if sp_requested_rank p = Some 0 then sel_err RequestedRankZero
        else and_then (validate_some refit_slot_plan_validate (sp_refit_slot_plan p)) (\<lambda>_.
          and_then (validate_some stacking_fit_contract_validate (sp_stacking_fit_contract p)) (\<lambda>_.
          validate_optional_id ''selection policy reduction_id'' (sp_reduction_id p)))))"

definition rank_of :: "64 word option \<Rightarrow> nat" where
  "rank_of r = unat (unwrap_or r 1)"

text \<open>\<open>rank.checked_sub(1).and_then(|index| ranked.get(index))\<close>.\<close>

definition ranked_at :: "ranked_candidate list \<Rightarrow> nat \<Rightarrow> ranked_candidate option" where
  "ranked_at xs rank = (if rank = 0 \<or> length xs < rank then None else Some (xs ! (rank - 1)))"

definition check_ranked ::
  "string \<Rightarrow> string set \<Rightarrow> nat \<times> ranked_candidate \<Rightarrow> string set result" where
  "check_ranked policy seen indexed =
     (let (idx, c) = indexed in
      if rk_rank c \<noteq> idx + 1 then sel_err (RankMismatch policy (rk_candidate_id c) (rk_rank c) (idx + 1))
      else if rk_candidate_id c \<in> seen then sel_err (DuplicateRanked policy (rk_candidate_id c))
      else Inr (insert (rk_candidate_id c) seen))"

definition check_ranking :: "string \<Rightarrow> ranked_candidate list \<Rightarrow> unit result" where
  "check_ranking policy ranked =
     and_then (try_fold (check_ranked policy) {} (enumerate 0 ranked)) (\<lambda>_. Inr ())"

definition decision_validate :: "selection_decision \<Rightarrow> unit result" where
  "decision_validate d =
     (if is_blank (sd_policy_id d) then sel_err (DecisionFieldEmpty ''policy_id'')
      else if is_blank (selected_candidate_id d) then sel_err (DecisionFieldEmpty ''selected_candidate_id'')
      else if is_blank (sd_metric_name d) then sel_err (DecisionFieldEmpty ''metric_name'')
      else if \<not> f64_is_finite (selected_score d) then sel_err (SelectedScoreNotFinite (sd_policy_id d))
      else if ranked_candidates d = [] then sel_err (NoRankedCandidates (sd_policy_id d))
      else if (case ranked_at (ranked_candidates d) (rank_of (sd_requested_rank d)) of
          None \<Rightarrow> True
        | Some c \<Rightarrow> rk_candidate_id c \<noteq> selected_candidate_id d \<or> \<not> f64_eq (rk_score c) (selected_score d))
      then sel_err (SelectedMismatch (sd_policy_id d))
      else and_then (validate_some refit_slot_plan_validate (sd_refit_slot_plan d)) (\<lambda>_.
        and_then (validate_optional_id ''selection decision reduction_id'' (sd_reduction_id d)) (\<lambda>_.
        check_ranking (sd_policy_id d) (ranked_candidates d))))"

section \<open>Ranking\<close>

text \<open>The scope and number of an HPO trial id \<open>scope:trial:n\<close>.\<close>

definition hpo_scope :: "string \<Rightarrow> bool" where
  "hpo_scope scope \<longleftrightarrow> scope = ''hpo'' \<or> is_prefix ''hpo:scope:'' scope"

definition compare_ids :: "string \<Rightarrow> string \<Rightarrow> ordering" where
  "compare_ids l r =
     (case (rsplit_once '':trial:'' l, rsplit_once '':trial:'' r) of
        (Some (left_scope, left_id), Some (right_scope, right_id)) \<Rightarrow>
          if left_scope = right_scope \<and> hpo_scope left_scope
          then (case (parse_u64 left_id, parse_u64 right_id) of
              (Some m, Some n) \<Rightarrow> then_with (ord_cmp m n) (ord_cmp l r)
            | _ \<Rightarrow> ord_cmp l r)
          else ord_cmp l r
      | _ \<Rightarrow> ord_cmp l r)"

definition compare_scores :: "metric_objective \<Rightarrow> string \<times> f64 \<Rightarrow> string \<times> f64 \<Rightarrow> ordering" where
  "compare_scores obj l r =
     then_with (case obj of Minimize \<Rightarrow> f64_total_cmp (snd l) (snd r)
       | Maximize \<Rightarrow> f64_total_cmp (snd r) (snd l))
       (compare_ids (fst l) (fst r))"

definition parse_prediction_level :: "string \<Rightarrow> prediction_level option" where
  "parse_prediction_level s =
     (if s = ''observation'' then Some ObservationLevel
      else if s = ''sample'' then Some SampleLevel
      else if s = ''target'' then Some TargetLevel
      else if s = ''group'' then Some GroupLevel
      else None)"

definition prediction_level_name :: "prediction_level \<Rightarrow> string" where
  "prediction_level_name l = (case l of ObservationLevel \<Rightarrow> ''observation'' | SampleLevel \<Rightarrow> ''sample''
     | TargetLevel \<Rightarrow> ''target'' | GroupLevel \<Rightarrow> ''group'')"

definition validate_candidate_metric_level :: "selection_policy \<Rightarrow> candidate_score \<Rightarrow> unit result" where
  "validate_candidate_metric_level p c =
     (case required_metric_level p of
        None \<Rightarrow> Inr ()
      | Some required \<Rightarrow>
          (case bm_get (cs_metadata c) ''metric_level'' of
             None \<Rightarrow> sel_err (MissingMetricLevel (candidate_id c) (prediction_level_name required))
           | Some raw \<Rightarrow>
               and_then (case raw of
                   JString v \<Rightarrow> ok_or (parse_prediction_level v)
                     (Err (CampaignValidation (SelectionMsg (InvalidMetricLevel (candidate_id c) v))))
                 | _ \<Rightarrow> sel_err (MetricLevelNotString (candidate_id c))) (\<lambda>actual.
               if actual \<noteq> required
               then sel_err (MetricLevelMismatch (candidate_id c) (prediction_level_name actual)
                 (prediction_level_name required))
               else Inr ())))"

definition score_candidate ::
  "selection_policy \<Rightarrow> string set \<times> (string \<times> f64) list \<Rightarrow> candidate_score
   \<Rightarrow> (string set \<times> (string \<times> f64) list) result" where
  "score_candidate p st c =
     (let (seen, scored) = st in
      and_then (candidate_validate c) (\<lambda>_.
      if candidate_id c \<in> seen then sel_err (DuplicateCandidate (sp_id p) (candidate_id c))
      else and_then (validate_candidate_metric_level p c) (\<lambda>_.
        and_then (ok_or (bm_get (metrics c) (metric_name (sp_metric p)))
            (Err (CampaignValidation (SelectionMsg (MissingMetric (candidate_id c) (metric_name (sp_metric p)))))))
          (\<lambda>score.
        if require_finite p \<and> \<not> f64_is_finite score
        then sel_err (MetricNotFinite (candidate_id c) (metric_name (sp_metric p)))
        else Inr (insert (candidate_id c) seen, scored @ [(candidate_id c, score)])))))"

definition rank_candidates :: "(string \<times> f64) list \<Rightarrow> ranked_candidate list" where
  "rank_candidates scored =
     map (\<lambda>(idx, (cid, score)). \<lparr>rk_candidate_id = cid, rk_score = score, rk_rank = idx + 1\<rparr>)
       (enumerate 0 scored)"

definition decision_of :: "selection_policy \<Rightarrow> ranked_candidate list \<Rightarrow> ranked_candidate \<Rightarrow> selection_decision" where
  "decision_of p ranked selected =
     \<lparr>sd_policy_id = sp_id p, selected_candidate_id = rk_candidate_id selected,
      sd_metric_name = metric_name (sp_metric p), sd_objective = objective (sp_metric p),
      sd_metric_level = required_metric_level p, sd_evaluation_scope = sp_evaluation_scope p,
      sd_refit_slot_plan = sp_refit_slot_plan p, sd_requested_rank = sp_requested_rank p,
      sd_reduction_id = sp_reduction_id p, selected_score = rk_score selected,
      ranked_candidates = ranked\<rparr>"

text \<open>\<open>rank - 1\<close> would underflow for rank 0, which policy validation refuses.\<close>

definition select_candidate :: "selection_policy \<Rightarrow> candidate_score list \<Rightarrow> selection_decision result" where
  "select_candidate p candidates =
     and_then (policy_validate p) (\<lambda>_.
     if candidates = [] then sel_err (NoCandidates (sp_id p))
     else and_then (try_fold (score_candidate p) ({}, []) candidates) (\<lambda>(_, scored).
       let ranked = rank_candidates (sort_by (compare_scores (objective (sp_metric p))) scored);
           rank = rank_of (sp_requested_rank p)
       in if rank = 0 then Inl (Panic SubtractOverflow)
          else and_then (ok_or (ranked_at ranked rank)
              (Err (CampaignValidation (SelectionMsg (RequestedRankTooLarge rank (length ranked))))))
            (\<lambda>selected.
          let decision = decision_of p ranked selected in
          and_then (decision_validate decision) (\<lambda>_. Inr decision))))"

definition index_candidate ::
  "selection_policy \<Rightarrow> (string, candidate_score) btree_map \<Rightarrow> candidate_score
   \<Rightarrow> (string, candidate_score) btree_map result" where
  "index_candidate p by_id c =
     and_then (candidate_validate c) (\<lambda>_.
     if bm_contains_key by_id (candidate_id c) then sel_err (DuplicateCandidate (sp_id p) (candidate_id c))
     else Inr (bm_insert (candidate_id c) c by_id))"

definition select_group ::
  "selection_policy \<Rightarrow> (string, candidate_score) btree_map \<Rightarrow> (string, selection_decision) btree_map
   \<Rightarrow> string \<times> string list \<Rightarrow> (string, selection_decision) btree_map result" where
  "select_group p by_id decisions grp =
     (let (group_id, ids) = grp in
      if is_blank group_id then sel_err GroupIdEmpty
      else if ids = [] then sel_err (GroupWithoutCandidates group_id)
      else and_then (try_map (\<lambda>cid. ok_or (bm_get by_id cid)
            (Err (CampaignValidation (SelectionMsg (UnknownGroupCandidate group_id cid))))) ids) (\<lambda>cs.
        and_then (select_candidate p cs) (\<lambda>d. Inr (bm_insert group_id d decisions))))"

definition select_candidate_groups ::
  "selection_policy \<Rightarrow> candidate_score list \<Rightarrow> (string, string list) btree_map
   \<Rightarrow> (string, selection_decision) btree_map result" where
  "select_candidate_groups p candidates groups =
     and_then (policy_validate p) (\<lambda>_.
     and_then (try_fold (index_candidate p) [] candidates) (\<lambda>by_id.
     try_fold (select_group p by_id) [] groups))"

end
