(* ===== verification/SelectionProofs.thy ===== *)
theory SelectionProofs
  imports Selection
begin

text \<open>
  Proofs about \<open>selection.rs\<close>: when the candidate order is a strict total order, what
  \<open>select_candidate\<close> returns, that it does not depend on the order of the candidates, and an
  example where the id order is cyclic.
\<close>

section \<open>The order on candidate ids\<close>

definition trial_number :: "string \<Rightarrow> (string \<times> nat) option" where
  "trial_number s =
     (case rsplit_once '':trial:'' s of
        None \<Rightarrow> None
      | Some (scope, n) \<Rightarrow>
          if hpo_scope scope then map_option (\<lambda>k. (scope, k)) (parse_u64 n) else None)"

lemma compare_ids_trial:
  "compare_ids l r =
     (case (trial_number l, trial_number r) of
        (Some (s, m), Some (s', n)) \<Rightarrow>
          if s = s' then then_with (ord_cmp m n) (ord_cmp l r) else ord_cmp l r
      | _ \<Rightarrow> ord_cmp l r)"
  by (auto simp: compare_ids_def trial_number_def split: option.splits prod.splits)

text \<open>Either all ids are numbered trials of one HPO scope, or none is a numbered trial.\<close>

definition uniform_ids :: "string set \<Rightarrow> bool" where
  "uniform_ids A \<longleftrightarrow>
     (\<exists>s. \<forall>i \<in> A. \<exists>n. trial_number i = Some (s, n)) \<or> (\<forall>i \<in> A. trial_number i = None)"

lemma ord_cmp_trans:
  fixes x :: "'a::linorder"
  shows "ord_cmp x y \<noteq> Greater \<Longrightarrow> ord_cmp y z \<noteq> Greater \<Longrightarrow> ord_cmp x z \<noteq> Greater"
  by auto

text \<open>A strict order on a key refined by a strict order is a strict order.\<close>

lemma strict_order_on_then_with:
  fixes k :: "'a \<Rightarrow> 'b::linorder"
  assumes "strict_order_on A c"
  shows "strict_order_on A (\<lambda>x y. then_with (ord_cmp (k x) (k y)) (c x y))"
proof -
  have tp: "total_preorder_on A c" and eq: "\<forall>x \<in> A. \<forall>y \<in> A. c x y = Equal \<longrightarrow> x = y"
    using assms by (simp_all add: strict_order_on_def)
  let ?c = "\<lambda>x y. then_with (ord_cmp (k x) (k y)) (c x y)"
  have g: "?c x y \<noteq> Greater \<longleftrightarrow> k x < k y \<or> k x = k y \<and> c x y \<noteq> Greater" for x y
    by (auto simp: ord_cmp_def)
  have "(?c x y = Greater) = (?c y x = Less)" if "x \<in> A" "y \<in> A" for x y
    using total_preorder_on_flip[OF tp that] by (auto simp: ord_cmp_def)
  moreover have "?c x z \<noteq> Greater" if "x \<in> A" "y \<in> A" "z \<in> A" "?c x y \<noteq> Greater" "?c y z \<noteq> Greater" for x y z
    using that(4,5) total_preorder_on_trans[OF tp that(1-3)] unfolding g by auto
  moreover have "x = y" if "x \<in> A" "y \<in> A" "?c x y = Equal" for x y
    using that eq by (auto simp: ord_cmp_def split: if_splits)
  ultimately show ?thesis unfolding strict_order_on_def total_preorder_on_def by blast
qed

lemma strict_order_on_cong:
  assumes "strict_order_on A c" "\<And>x y. x \<in> A \<Longrightarrow> y \<in> A \<Longrightarrow> d x y = c x y"
  shows "strict_order_on A d"
proof -
  have tp: "total_preorder_on A c" and eq: "\<forall>x \<in> A. \<forall>y \<in> A. c x y = Equal \<longrightarrow> x = y"
    using assms(1) by (simp_all add: strict_order_on_def)
  have "(d x y = Greater) = (d y x = Less)" if "x \<in> A" "y \<in> A" for x y
    unfolding assms(2)[OF that] assms(2)[OF that(2,1)] by (rule total_preorder_on_flip[OF tp that])
  moreover have "d x z \<noteq> Greater" if "x \<in> A" "y \<in> A" "z \<in> A" "d x y \<noteq> Greater" "d y z \<noteq> Greater" for x y z
    using total_preorder_on_trans[OF tp that(1-3)] that(4,5)
    unfolding assms(2)[OF that(1,2)] assms(2)[OF that(2,3)] assms(2)[OF that(1,3)] by blast
  moreover have "x = y" if "x \<in> A" "y \<in> A" "d x y = Equal" for x y
    using eq that unfolding assms(2)[OF that(1,2)] by blast
  ultimately show ?thesis unfolding strict_order_on_def total_preorder_on_def by blast
qed

lemma compare_ids_strict:
  assumes "uniform_ids A"
  shows "strict_order_on A compare_ids"
proof -
  have base: "strict_order_on A ord_cmp" by (rule strict_order_on_ord_cmp)
  consider s where "\<forall>i \<in> A. \<exists>n. trial_number i = Some (s, n)" | "\<forall>i \<in> A. trial_number i = None"
    using assms by (auto simp: uniform_ids_def)
  then show ?thesis
  proof cases
    case 1
    show ?thesis
    proof (rule strict_order_on_cong[OF strict_order_on_then_with[OF base, of "\<lambda>i. snd (the (trial_number i))"]])
      fix x y assume "x \<in> A" "y \<in> A"
      then obtain m n where "trial_number x = Some (s, m)" "trial_number y = Some (s, n)" using 1 by blast
      then show "compare_ids x y =
          then_with (ord_cmp (snd (the (trial_number x))) (snd (the (trial_number y)))) (ord_cmp x y)"
        by (simp add: compare_ids_trial)
    qed
  next
    case 2
    show ?thesis
      by (rule strict_order_on_cong[OF base]) (use 2 in \<open>simp add: compare_ids_trial\<close>)
  qed
qed

lemma strict_order_on_inv_image:
  assumes "strict_order_on (f ` A) c" "inj_on f A"
  shows "strict_order_on A (\<lambda>x y. c (f x) (f y))"
  using assms(1) inj_onD[OF assms(2)]
  unfolding strict_order_on_def total_preorder_on_def by simp metis

lemma compare_scores_strict:
  assumes "uniform_ids (fst ` A)" "inj_on fst A"
  shows "strict_order_on A (compare_scores obj)"
proof -
  have ids: "strict_order_on A (\<lambda>x y. compare_ids (fst x) (fst y))"
    by (rule strict_order_on_inv_image[OF compare_ids_strict[OF assms(1)] assms(2)])
  define k where "k = (\<lambda>x :: string \<times> f64. case obj of Minimize \<Rightarrow> f64_total_key (snd x)
      | Maximize \<Rightarrow> - f64_total_key (snd x))"
  have "strict_order_on A (\<lambda>x y. then_with (ord_cmp (k x) (k y)) (compare_ids (fst x) (fst y)))"
    by (rule strict_order_on_then_with[OF ids])
  moreover have "compare_scores obj x y = then_with (ord_cmp (k x) (k y)) (compare_ids (fst x) (fst y))" for x y
    by (cases obj) (auto simp: compare_scores_def k_def f64_total_cmp_def ord_cmp_def)
  ultimately show ?thesis by (rule strict_order_on_cong)
qed

text \<open>C37: the order that breaks ties between candidates of equal score is not transitive: numbered
  trials of one scope compare by number, but a trial whose suffix is not a number compares with
  them by bytes, so trial 9 precedes 10, 10 precedes 5x, and 5x precedes 9. The result of the sort
  on such ids is unspecified.\<close>

theorem compare_scores_cycle:
  "compare_scores Minimize (''hpo:trial:9'', 0) (''hpo:trial:10'', 0) = Less \<and>
   compare_scores Minimize (''hpo:trial:10'', 0) (''hpo:trial:5x'', 0) = Less \<and>
   compare_scores Minimize (''hpo:trial:5x'', 0) (''hpo:trial:9'', 0) = Less"
  by (simp add: compare_scores_def f64_total_cmp_def compare_ids_def hpo_scope_def parse_u64_def
      digits_value_def is_ascii_digit_def byte_of_def ord_cmp_def)

section \<open>Scoring the candidates\<close>

definition score_of :: "selection_policy \<Rightarrow> candidate_score \<Rightarrow> string \<times> f64" where
  "score_of p c = (candidate_id c, the (bm_get (metrics c) (metric_name (sp_metric p))))"

definition candidate_ok :: "selection_policy \<Rightarrow> candidate_score \<Rightarrow> bool" where
  "candidate_ok p c \<longleftrightarrow>
     candidate_validate c = Inr () \<and> validate_candidate_metric_level p c = Inr () \<and>
     (case bm_get (metrics c) (metric_name (sp_metric p)) of
        None \<Rightarrow> False | Some s \<Rightarrow> require_finite p \<longrightarrow> f64_is_finite s)"

lemma score_candidate_ok:
  "score_candidate p (seen, scored) c = Inr st \<longleftrightarrow>
     candidate_ok p c \<and> candidate_id c \<notin> seen \<and>
     st = (insert (candidate_id c) seen, scored @ [score_of p c])"
  by (auto simp: score_candidate_def candidate_ok_def score_of_def ok_iff split: option.splits if_splits)

lemma score_candidates_ok:
  "try_fold (score_candidate p) (seen, scored) cs = Inr st \<longleftrightarrow>
     list_all (candidate_ok p) cs \<and> distinct (map candidate_id cs) \<and> candidate_id ` set cs \<inter> seen = {} \<and>
     st = (candidate_id ` set cs \<union> seen, scored @ map (score_of p) cs)"
  by (induction cs arbitrary: seen scored) (auto simp: and_then_ok score_candidate_ok)

section \<open>The decision\<close>

definition ranking :: "selection_policy \<Rightarrow> candidate_score list \<Rightarrow> (string \<times> f64) list" where
  "ranking p cs = sort_by (compare_scores (objective (sp_metric p))) (map (score_of p) cs)"

lemma length_ranking [simp]: "length (ranking p cs) = length cs"
  by (simp add: ranking_def)

lemma mset_ranking: "mset (ranking p cs) = mset (map (score_of p) cs)"
  by (simp add: ranking_def)

lemma rank_candidates_nth:
  "i < length xs \<Longrightarrow> rank_candidates xs ! i =
     \<lparr>rk_candidate_id = fst (xs ! i), rk_score = snd (xs ! i), rk_rank = i + 1\<rparr>"
  by (simp add: rank_candidates_def nth_enumerate_eq split: prod.split)

lemma length_rank_candidates [simp]: "length (rank_candidates xs) = length xs"
  by (simp add: rank_candidates_def)

lemma rank_candidates_ids: "map rk_candidate_id (rank_candidates xs) = map fst xs"
  by (rule nth_equalityI) (simp_all add: rank_candidates_nth)

lemma check_ranked_loop:
  assumes "\<forall>i < length xs. rk_rank (xs ! i) = n + i + 1" "distinct (map rk_candidate_id xs)"
    "rk_candidate_id ` set xs \<inter> seen = {}"
  shows "\<exists>s. try_fold (check_ranked q) seen (enumerate n xs) = Inr s"
  using assms
proof (induction xs arbitrary: n seen)
  case (Cons x xs)
  have "rk_rank x = n + 1" using Cons.prems(1) by auto
  then have "check_ranked q seen (n, x) = Inr (insert (rk_candidate_id x) seen)"
    using Cons.prems(3) by (simp add: check_ranked_def)
  moreover have "\<forall>i < length xs. rk_rank (xs ! i) = Suc n + i + 1" using Cons.prems(1) by fastforce
  ultimately show ?case
    using Cons.IH[of "Suc n" "insert (rk_candidate_id x) seen"] Cons.prems(2,3) by auto
qed simp

definition policy_ok :: "selection_policy \<Rightarrow> bool" where
  "policy_ok p \<longleftrightarrow> policy_validate p = Inr ()"

lemma policy_okD:
  assumes "policy_ok p"
  shows "\<not> is_blank (sp_id p)" "\<not> is_blank (metric_name (sp_metric p))" "rank_of (sp_requested_rank p) \<noteq> 0"
    "validate_some refit_slot_plan_validate (sp_refit_slot_plan p) = Inr ()"
    "\<not> option_ex is_blank (sp_reduction_id p)"
  using assms
  by (auto simp: policy_ok_def policy_validate_def ok_iff metric_validate_def validate_optional_id_def
      rank_of_def unwrap_or_def unat_eq_0 split: if_splits option.splits)

text \<open>The decision for the candidate at the requested rank.\<close>

definition ranked_decision :: "selection_policy \<Rightarrow> candidate_score list \<Rightarrow> selection_decision" where
  "ranked_decision p cs =
     (let ranked = rank_candidates (ranking p cs)
      in decision_of p ranked (ranked ! (rank_of (sp_requested_rank p) - 1)))"

lemma decision_of_valid:
  assumes "\<not> is_blank (sp_id p)" "\<not> is_blank (metric_name (sp_metric p))"
    "validate_some refit_slot_plan_validate (sp_refit_slot_plan p) = Inr ()"
    "\<not> option_ex is_blank (sp_reduction_id p)"
    "ranked_at rk (rank_of (sp_requested_rank p)) = Some c"
    "check_ranking (sp_id p) rk = Inr ()"
    "rk \<noteq> []" "\<not> is_blank (rk_candidate_id c)"
  shows "decision_validate (decision_of p rk c) = Inr () \<longleftrightarrow> f64_is_finite (rk_score c)"
proof (cases "f64_is_finite (rk_score c)")
  case True
  then have eq: "f64_eq (rk_score c) (rk_score c)"
    using f64_eq_refl f64_is_finite_not_nan by blast
  have red: "validate_optional_id ''selection decision reduction_id'' (sp_reduction_id p) = Inr ()"
    using assms(4) by (simp only: validate_optional_id_def if_False)
  show ?thesis
    unfolding decision_validate_def decision_of_def selection_decision.simps
    by (simp only: assms(1,2,3,5,6,7,8) red True eq if_False if_True option.case simp_thms and_then_simps)
next
  case False
  show ?thesis
    unfolding decision_validate_def decision_of_def selection_decision.simps
    by (simp only: assms(1,2,8) False if_False if_True simp_thms sum.distinct)
qed

lemma ranked_decision_valid:
  assumes p: "policy_ok p" and cs: "list_all (candidate_ok p) cs" "distinct (map candidate_id cs)"
    and r: "rank_of (sp_requested_rank p) \<le> length cs"
  shows "decision_validate (ranked_decision p cs) = Inr () \<longleftrightarrow>
    f64_is_finite (snd (ranking p cs ! (rank_of (sp_requested_rank p) - 1)))"
proof -
  let ?i = "rank_of (sp_requested_rank p) - 1" and ?rk = "rank_candidates (ranking p cs)"
  note P = policy_okD[OF p]
  have i: "?i < length (ranking p cs)" using r P(3) by simp
  have "ranking p cs ! ?i \<in> set (ranking p cs)" using i by simp
  then have "ranking p cs ! ?i \<in> set (map (score_of p) cs)" by (metis mset_ranking mset_eq_setD)
  then obtain c where c: "c \<in> set cs" "ranking p cs ! ?i = score_of p c" by auto
  then have "candidate_validate c = Inr ()" using cs(1) by (auto simp: list_all_iff candidate_ok_def)
  then have blank: "\<not> is_blank (fst (ranking p cs ! ?i))"
    unfolding c(2) by (auto simp: candidate_validate_def score_of_def split: if_splits)
  have nth: "?rk ! ?i = \<lparr>rk_candidate_id = fst (ranking p cs ! ?i), rk_score = snd (ranking p cs ! ?i),
      rk_rank = ?i + 1\<rparr>"
    by (rule rank_candidates_nth[OF i])
  have at: "ranked_at ?rk (rank_of (sp_requested_rank p)) = Some (?rk ! ?i)"
    using r P(3) by (simp add: ranked_at_def)
  have ne: "?rk \<noteq> []" using i by (metis length_0_conv length_rank_candidates not_less0)
  have "distinct (map fst (ranking p cs))"
  proof -
    have "image_mset fst (mset (ranking p cs)) = image_mset fst (mset (map (score_of p) cs))"
      by (simp only: mset_ranking)
    then have "mset (map fst (ranking p cs)) = mset (map candidate_id cs)"
      by (simp add: image_mset.compositionality comp_def score_of_def)
    then show ?thesis using cs(2) by (metis mset_eq_imp_distinct_iff)
  qed
  then obtain s where "try_fold (check_ranked (sp_id p)) {} (enumerate 0 ?rk) = Inr s"
    using check_ranked_loop[of ?rk 0 "{}" "sp_id p"] by (auto simp: rank_candidates_ids rank_candidates_nth)
  then have loop: "check_ranking (sp_id p) ?rk = Inr ()" by (simp add: check_ranking_def)
  have d: "ranked_decision p cs = decision_of p ?rk (?rk ! ?i)" by (simp only: ranked_decision_def Let_def)
  have "rk_candidate_id (?rk ! ?i) = fst (ranking p cs ! ?i)" "rk_score (?rk ! ?i) = snd (ranking p cs ! ?i)"
    unfolding nth by simp_all
  then show ?thesis unfolding d using decision_of_valid[OF P(1,2,4,5) at loop ne] blank by simp
qed

lemma select_candidate_ok:
  "select_candidate p cs = Inr d \<longleftrightarrow>
     policy_ok p \<and> cs \<noteq> [] \<and> list_all (candidate_ok p) cs \<and> distinct (map candidate_id cs) \<and>
     rank_of (sp_requested_rank p) \<le> length cs \<and>
     f64_is_finite (snd (ranking p cs ! (rank_of (sp_requested_rank p) - 1))) \<and>
     d = ranked_decision p cs"
proof (cases "policy_ok p \<and> cs \<noteq> [] \<and> list_all (candidate_ok p) cs \<and> distinct (map candidate_id cs)")
  case True
  have pol: "policy_validate p = Inr ()" using True by (simp add: policy_ok_def)
  have score: "try_fold (score_candidate p) ({}, []) cs = Inr (candidate_id ` set cs, map (score_of p) cs)"
    using True by (simp add: score_candidates_ok)
  have r0: "rank_of (sp_requested_rank p) \<noteq> 0" using True policy_okD by blast
  have "select_candidate p cs = Inr d \<longleftrightarrow> rank_of (sp_requested_rank p) \<le> length cs \<and>
      decision_validate (ranked_decision p cs) = Inr () \<and> d = ranked_decision p cs"
    using True r0
    by (auto simp: select_candidate_def pol score Let_def ok_iff ranked_at_def ranked_decision_def
        ranking_def[symmetric])
  then show ?thesis using True ranked_decision_valid by blast
next
  case False
  then show ?thesis
    by (auto simp: select_candidate_def policy_ok_def ok_iff score_candidates_ok split: if_splits)
qed

section \<open>What a selection promises\<close>

text \<open>The order of a ranking, stated on its entries: the better score first (\<open>total_cmp\<close> on the bits),
  then numbered trials of one scope by number and all other ids by bytes.\<close>

definition better_score :: "metric_objective \<Rightarrow> f64 \<Rightarrow> f64 \<Rightarrow> bool" where
  "better_score obj a b = (case obj of Minimize \<Rightarrow> f64_total_key a < f64_total_key b
     | Maximize \<Rightarrow> f64_total_key b < f64_total_key a)"

definition id_before :: "string \<Rightarrow> string \<Rightarrow> bool" where
  "id_before i j \<longleftrightarrow> (case (trial_number i, trial_number j) of
      (Some (s, m), Some (t, n)) \<Rightarrow> if s = t \<and> m \<noteq> n then m < n else i < j
    | _ \<Rightarrow> i < j)"

definition ranks_before :: "metric_objective \<Rightarrow> ranked_candidate \<Rightarrow> ranked_candidate \<Rightarrow> bool" where
  "ranks_before obj l r \<longleftrightarrow> better_score obj (rk_score l) (rk_score r) \<or>
     rk_score l = rk_score r \<and> id_before (rk_candidate_id l) (rk_candidate_id r)"

lemma compare_ids_before: "compare_ids i j \<noteq> Greater \<longleftrightarrow> i = j \<or> id_before i j"
proof -
  have "ord_cmp i j \<noteq> Greater \<longleftrightarrow> i = j \<or> i < j" by (auto simp: ord_cmp_def)
  then show ?thesis
    by (auto simp: compare_ids_trial id_before_def ord_cmp_def[of "_ :: nat"] split: option.split)
qed

lemma compare_scores_before:
  "compare_scores obj l r \<noteq> Greater \<longleftrightarrow>
     better_score obj (snd l) (snd r) \<or> snd l = snd r \<and> (fst l = fst r \<or> id_before (fst l) (fst r))"
  unfolding compare_ids_before[symmetric]
  by (cases obj) (auto simp: compare_scores_def better_score_def f64_total_cmp_def ord_cmp_def f64_total_key_inj)

lemma scores_strict:
  assumes "uniform_ids (candidate_id ` set cs)" "distinct (map candidate_id cs)"
  shows "strict_order_on (score_of p ` set cs) (compare_scores obj)"
proof (rule compare_scores_strict)
  show "uniform_ids (fst ` score_of p ` set cs)" using assms(1) by (simp add: score_of_def image_image)
  show "inj_on fst (score_of p ` set cs)"
    using assms(2) by (auto simp: inj_on_def score_of_def distinct_map)
qed

lemma ranking_sorted:
  assumes "uniform_ids (candidate_id ` set cs)" "distinct (map candidate_id cs)"
  shows "sorted_wrt (not_greater (compare_scores (objective (sp_metric p)))) (ranking p cs)"
  unfolding ranking_def
  by (rule sorted_sort_by[where A = "score_of p ` set cs"])
    (use scores_strict[OF assms] in \<open>auto simp: strict_order_on_def\<close>)

abbreviation scored_entry :: "ranked_candidate \<Rightarrow> string \<times> f64" where
  "scored_entry r \<equiv> (rk_candidate_id r, rk_score r)"

lemma ranks_before_sorted:
  assumes "distinct (map rk_candidate_id rs)"
  shows "sorted_wrt (ranks_before obj) rs \<longleftrightarrow> sorted_wrt (not_greater (compare_scores obj)) (map scored_entry rs)"
  using assms by (induction rs) (auto simp: not_greater_def compare_scores_before ranks_before_def)

lemma scored_rank_candidates: "map scored_entry (rank_candidates xs) = xs"
  by (rule nth_equalityI) (simp_all add: rank_candidates_nth)

lemma ranks_rank_candidates: "map rk_rank (rank_candidates xs) = map Suc [0..<length xs]"
  by (rule nth_equalityI) (simp_all add: rank_candidates_nth)

lemma rank_candidates_scored:
  assumes "map rk_rank rs = map Suc [0..<length rs]"
  shows "rank_candidates (map scored_entry rs) = rs"
proof (rule nth_equalityI)
  fix i assume "i < length (rank_candidates (map scored_entry rs))"
  then have i: "i < length rs" by simp
  then have "rk_rank (rs ! i) = i + 1" using arg_cong[OF assms, of "\<lambda>xs. xs ! i"] by simp
  then show "rank_candidates (map scored_entry rs) ! i = rs ! i" using i by (simp add: rank_candidates_nth)
qed simp

text \<open>A list of ranked candidates is the ranking exactly when it lists the scored candidates in order and
  numbers them from 1.\<close>

lemma ranking_unique:
  assumes "uniform_ids (candidate_id ` set cs)" "distinct (map candidate_id cs)"
  shows "rs = rank_candidates (ranking p cs) \<longleftrightarrow>
    mset (map scored_entry rs) = mset (map (score_of p) cs) \<and> map rk_rank rs = map Suc [0..<length cs] \<and>
    sorted_wrt (ranks_before (objective (sp_metric p))) rs"
proof -
  let ?c = "compare_scores (objective (sp_metric p))"
  have ids: "distinct (map rk_candidate_id rs)" if "mset (map scored_entry rs) = mset (map (score_of p) cs)" for rs
  proof -
    have "image_mset fst (mset (map scored_entry rs)) = image_mset fst (mset (map (score_of p) cs))"
      using that by simp
    then have "mset (map rk_candidate_id rs) = mset (map candidate_id cs)"
      by (simp add: image_mset.compositionality comp_def score_of_def)
    then show ?thesis using assms(2) by (metis mset_eq_imp_distinct_iff)
  qed
  have len: "length rs = length cs" if "mset (map scored_entry rs) = mset (map (score_of p) cs)" for rs
    using that by (metis length_map size_mset)
  show ?thesis
  proof
    assume rs: "rs = rank_candidates (ranking p cs)"
    have entries: "map scored_entry rs = ranking p cs" unfolding rs by (rule scored_rank_candidates)
    have m: "mset (map scored_entry rs) = mset (map (score_of p) cs)" unfolding entries by (rule mset_ranking)
    have "sorted_wrt (ranks_before (objective (sp_metric p))) rs"
      unfolding ranks_before_sorted[OF ids[OF m]] entries by (rule ranking_sorted[OF assms])
    then show "mset (map scored_entry rs) = mset (map (score_of p) cs) \<and> map rk_rank rs = map Suc [0..<length cs] \<and>
        sorted_wrt (ranks_before (objective (sp_metric p))) rs"
      using m ranks_rank_candidates[of "ranking p cs"] unfolding rs by simp
  next
    assume r: "mset (map scored_entry rs) = mset (map (score_of p) cs) \<and> map rk_rank rs = map Suc [0..<length cs] \<and>
        sorted_wrt (ranks_before (objective (sp_metric p))) rs"
    have set: "set (map scored_entry rs) = score_of p ` set cs" using r mset_eq_setD[of "map scored_entry rs" "map (score_of p) cs"] by simp
    have sorted: "sorted_wrt (not_greater ?c) (map scored_entry rs)"
      using r ranks_before_sorted[OF ids] by blast
    have "map scored_entry rs = ranking p cs"
      by (rule sorted_wrt_unique[OF scores_strict[OF assms, of p]])
        (use r set sorted ranking_sorted[OF assms] in \<open>simp_all add: mset_ranking\<close>)
    then show "rs = rank_candidates (ranking p cs)" using rank_candidates_scored[of rs] r len[of rs] by simp
  qed
qed

text \<open>C36: for candidates whose ids are numbered trials of one HPO scope, or none of which is a numbered
  trial (on a mixture the order of the ids need not be transitive, and the sort of the source is
  unspecified), \<open>select_candidate\<close> succeeds exactly when the policy validates, there is a candidate,
  every candidate validates, reports the required level and carries the metric (finite where the policy
  asks for it), the ids are distinct, the requested rank exists and the score found there is finite. The
  decision then lists every candidate with its score once, in strict order of score (the smallest first
  for a minimized metric, the largest first for a maximized one) and then of id, numbered from 1, selects
  the entry at the requested rank (the first by default), and copies the rest from the policy.\<close>

theorem select_candidate_spec:
  assumes "uniform_ids (candidate_id ` set cs)"
  shows "select_candidate p cs = Inr d \<longleftrightarrow>
    policy_ok p \<and> cs \<noteq> [] \<and> list_all (candidate_ok p) cs \<and> distinct (map candidate_id cs) \<and>
    mset (map (\<lambda>r. (rk_candidate_id r, rk_score r)) (ranked_candidates d)) = mset (map (score_of p) cs) \<and>
    map rk_rank (ranked_candidates d) = map Suc [0..<length cs] \<and>
    sorted_wrt (ranks_before (objective (sp_metric p))) (ranked_candidates d) \<and>
    (let rank = (case sp_requested_rank p of None \<Rightarrow> 1 | Some r \<Rightarrow> unat r);
         chosen = ranked_candidates d ! (rank - 1) in
     rank \<le> length cs \<and> f64_is_finite (rk_score chosen) \<and>
     d = \<lparr>sd_policy_id = sp_id p, selected_candidate_id = rk_candidate_id chosen,
       sd_metric_name = metric_name (sp_metric p), sd_objective = objective (sp_metric p),
       sd_metric_level = required_metric_level p, sd_evaluation_scope = sp_evaluation_scope p,
       sd_refit_slot_plan = sp_refit_slot_plan p, sd_requested_rank = sp_requested_rank p,
       sd_reduction_id = sp_reduction_id p, selected_score = rk_score chosen,
       ranked_candidates = ranked_candidates d\<rparr>)"
proof (cases "distinct (map candidate_id cs)")
  case True
  let ?rk = "rank_candidates (ranking p cs)" and ?r = "rank_of (sp_requested_rank p)"
  have rank: "(case sp_requested_rank p of None \<Rightarrow> 1 | Some r \<Rightarrow> unat r) = ?r"
    by (simp add: rank_of_def unwrap_or_def split: option.split)
  have nth: "rk_score (?rk ! (?r - 1)) = snd (ranking p cs ! (?r - 1))" if "policy_ok p" "?r \<le> length cs"
    using that policy_okD(3)[OF that(1)] by (simp add: rank_candidates_nth)
  have dec: "d = ranked_decision p cs \<longleftrightarrow> ranked_candidates d = ?rk \<and>
      d = decision_of p (ranked_candidates d) (ranked_candidates d ! (?r - 1))"
    by (auto simp: ranked_decision_def Let_def decision_of_def)
  have ranked: "ranked_candidates d = ?rk \<longleftrightarrow>
      mset (map scored_entry (ranked_candidates d)) = mset (map (score_of p) cs) \<and>
      map rk_rank (ranked_candidates d) = map Suc [0..<length cs] \<and>
      sorted_wrt (ranks_before (objective (sp_metric p))) (ranked_candidates d)"
    by (rule ranking_unique[OF assms True])
  let ?ok = "policy_ok p \<and> cs \<noteq> [] \<and> list_all (candidate_ok p) cs \<and> distinct (map candidate_id cs)"
    and ?d = "decision_of p (ranked_candidates d) (ranked_candidates d ! (?r - 1))"
  have "select_candidate p cs = Inr d \<longleftrightarrow> ?ok \<and> ranked_candidates d = ?rk \<and>
      ?r \<le> length cs \<and> f64_is_finite (rk_score (ranked_candidates d ! (?r - 1))) \<and> d = ?d"
    unfolding select_candidate_ok dec using nth by auto
  then show ?thesis
    unfolding rank Let_def decision_of_def[symmetric] ranked by (simp only: conj_assoc)
next
  case False
  then show ?thesis unfolding select_candidate_ok by blast
qed

text \<open>the decision does not depend on the order in which the candidates are listed, when their
  ids are numbered trials of one HPO scope or none of them is a numbered trial.\<close>

theorem select_candidate_permutation:
  assumes "mset cs = mset cs'" and "uniform_ids (candidate_id ` set cs)"
  shows "select_candidate p cs = Inr d \<longleftrightarrow> select_candidate p cs' = Inr d"
proof (cases "distinct (map candidate_id cs)")
  case True
  have set: "set cs = set cs'" by (rule mset_eq_setD[OF assms(1)])
  have len: "length cs = length cs'" using assms(1) by (metis size_mset)
  have "mset (map candidate_id cs) = mset (map candidate_id cs')" using assms(1) by simp
  then have dist: "distinct (map candidate_id cs')" using True mset_eq_imp_distinct_iff by blast
  have "ranking p cs = ranking p cs'"
    unfolding ranking_def
    by (rule sort_by_mset_eq[OF scores_strict[where p = p, OF assms(2) True]]) (use assms(1) in simp_all)
  then have rk: "ranking p cs = ranking p cs'" "ranked_decision p cs = ranked_decision p cs'"
    by (simp_all only: ranked_decision_def)
  have ne: "(cs \<noteq> []) = (cs' \<noteq> [])" using len by (metis length_0_conv)
  have ok: "list_all (candidate_ok p) cs = list_all (candidate_ok p) cs'"
    using set by (simp add: list_all_iff)
  show ?thesis unfolding select_candidate_ok rk ne ok len using True dist by argo
next
  case False
  have "mset (map candidate_id cs) = mset (map candidate_id cs')" using assms(1) by simp
  then have "\<not> distinct (map candidate_id cs')" using False mset_eq_imp_distinct_iff by blast
  then show ?thesis unfolding select_candidate_ok using False by argo
qed

text \<open>A score is at least as good as another under an objective: \<open>total_cmp\<close> on the bits.\<close>

definition at_least_as_good :: "metric_objective \<Rightarrow> f64 \<Rightarrow> f64 \<Rightarrow> bool" where
  "at_least_as_good obj a b = (case obj of Minimize \<Rightarrow> f64_total_key a \<le> f64_total_key b
     | Maximize \<Rightarrow> f64_total_key b \<le> f64_total_key a)"

lemma not_greater_at_least_as_good:
  "not_greater (compare_scores obj) l r \<Longrightarrow> at_least_as_good obj (snd l) (snd r)"
  by (cases obj) (auto simp: not_greater_def compare_scores_def at_least_as_good_def f64_total_cmp_def
      ord_cmp_def then_with_def split: if_splits)

text \<open>with no requested rank, the selected candidate is one of the candidates, its score is the
  metric it reports, and no candidate reports a better one.\<close>

theorem select_candidate_optimal:
  assumes "select_candidate p cs = Inr d" and "uniform_ids (candidate_id ` set cs)"
    and "sp_requested_rank p = None"
  shows "(\<exists>c \<in> set cs. candidate_id c = selected_candidate_id d \<and>
      bm_get (metrics c) (metric_name (sp_metric p)) = Some (selected_score d)) \<and>
    list_all (\<lambda>c. pred_option (at_least_as_good (objective (sp_metric p)) (selected_score d))
      (bm_get (metrics c) (metric_name (sp_metric p)))) cs"
proof -
  note D = assms(1)[unfolded select_candidate_ok]
  have r: "rank_of (sp_requested_rank p) = 1" by (simp add: assms(3) rank_of_def unwrap_or_def)
  have "ranking p cs \<noteq> []" using D by (metis length_0_conv length_ranking)
  then obtain b bs where rk: "ranking p cs = b # bs" by (cases "ranking p cs") auto
  have d: "d = ranked_decision p cs" using D by blast
  have "0 < length (ranking p cs)" by (simp only: rk list.size)
  then have sel: "selected_candidate_id d = fst b" "selected_score d = snd b"
    unfolding d ranked_decision_def Let_def r decision_of_def selection_decision.simps
    by (simp_all add: rank_candidates_nth rk)
  have rks: "set (ranking p cs) = score_of p ` set cs" using mset_eq_setD[OF mset_ranking[of p cs]] by simp
  have got: "\<exists>s. bm_get (metrics c) (metric_name (sp_metric p)) = Some s \<and> score_of p c = (candidate_id c, s)"
    if "c \<in> set cs" for c
    using that D by (auto simp: list_all_iff candidate_ok_def score_of_def split: option.splits)
  have "b \<in> score_of p ` set cs" using rks rk by auto
  then obtain c where c: "c \<in> set cs" "b = score_of p c" by blast
  then have ex: "\<exists>c \<in> set cs. candidate_id c = selected_candidate_id d \<and>
      bm_get (metrics c) (metric_name (sp_metric p)) = Some (selected_score d)"
    using got[OF c(1)] sel by auto
  have "at_least_as_good (objective (sp_metric p)) (snd b) (snd x)" if "x \<in> set (ranking p cs)" for x
  proof (cases "x = b")
    case True
    then show ?thesis by (simp add: at_least_as_good_def split: metric_objective.split)
  next
    case False
    then have "x \<in> set bs" using that rk by simp
    moreover have "sorted_wrt (not_greater (compare_scores (objective (sp_metric p)))) (b # bs)"
      using ranking_sorted[OF assms(2), of p] D unfolding rk by blast
    ultimately show ?thesis by (auto intro: not_greater_at_least_as_good)
  qed
  then have "at_least_as_good (objective (sp_metric p)) (selected_score d) (snd (score_of p c))"
    if "c \<in> set cs" for c
    using that rks sel by auto
  then have "list_all (\<lambda>c. pred_option (at_least_as_good (objective (sp_metric p)) (selected_score d))
      (bm_get (metrics c) (metric_name (sp_metric p)))) cs"
    unfolding list_all_iff using got by fastforce
  with ex show ?thesis by blast
qed

subsection \<open>Witnesses\<close>

definition demo_policy :: selection_policy where
  "demo_policy = \<lparr>sp_id = ''select'', sp_metric = \<lparr>metric_name = ''rmse'', objective = Minimize\<rparr>,
     required_metric_level = None, require_finite = True, sp_evaluation_scope = None,
     sp_refit_slot_plan = None, sp_requested_rank = None, sp_stacking_fit_contract = None,
     sp_reduction_id = None\<rparr>"

definition demo_candidate :: "string \<Rightarrow> f64 \<Rightarrow> candidate_score" where
  "demo_candidate i s = \<lparr>candidate_id = i, metrics = [(''rmse'', s)], cs_metadata = []\<rparr>"

definition demo_candidates :: "candidate_score list" where
  "demo_candidates = [demo_candidate ''b'' 2, demo_candidate ''a'' 1]"

lemma not_blank_demo:
  "\<not> is_blank ''select''" "\<not> is_blank ''rmse''" "\<not> is_blank ''a''" "\<not> is_blank ''b''"
  by (rule not_blank_head, simp add: byte_of_def)+

lemma demo_uniform: "uniform_ids (candidate_id ` set demo_candidates)"
  by (simp add: uniform_ids_def demo_candidates_def demo_candidate_def trial_number_def)

lemma demo_total_keys: "f64_total_key 1 = 1" "f64_total_key 2 = 2"
  by (simp_all add: f64_total_key_def f64_total_bits_def bit_1_iff bit_numeral_simps)

lemma demo_scores: "map (score_of demo_policy) demo_candidates = [(''b'', 2), (''a'', 1)]"
  by (simp add: demo_policy_def demo_candidates_def demo_candidate_def score_of_def bm_get_def)

lemma demo_ranking: "ranking demo_policy demo_candidates = [(''a'', 1), (''b'', 2)]"
proof -
  have "compare_scores Minimize (''b'', 2) (''a'', 1) = Greater"
    unfolding compare_scores_def snd_conv metric_objective.case f64_total_cmp_def demo_total_keys
    by (simp add: ord_cmp_def)
  moreover have "objective (sp_metric demo_policy) = Minimize" by (simp add: demo_policy_def)
  ultimately show ?thesis unfolding ranking_def demo_scores by simp
qed

lemma demo_floats:
  "\<not> f64_is_nan 1" "\<not> f64_is_nan 2" "f64_is_finite 1" "f64_is_finite 2"
  by (simp_all add: f64_is_nan_def f64_is_finite_def f64_exponent_def)

lemma demo_policy_ok: "policy_ok demo_policy"
  unfolding policy_ok_def policy_validate_def demo_policy_def selection_policy.simps
  by (simp add: not_blank_demo metric_validate_def validate_some_def validate_optional_id_def option_ex_def)

lemma demo_candidates_ok: "list_all (candidate_ok demo_policy) demo_candidates"
proof -
  have ok: "candidate_ok demo_policy (demo_candidate i s)"
    if "\<not> is_blank i" "\<not> f64_is_nan s" "f64_is_finite s" for i s
    using that not_blank_demo
    by (simp add: candidate_ok_def demo_candidate_def demo_policy_def candidate_validate_def
        validate_candidate_metric_level_def bm_get_def)
  show ?thesis unfolding demo_candidates_def by (simp add: ok not_blank_demo demo_floats)
qed

lemma demo_select: "select_candidate demo_policy demo_candidates = Inr (ranked_decision demo_policy demo_candidates)"
proof -
  have r: "rank_of (sp_requested_rank demo_policy) = 1" by (simp add: demo_policy_def rank_of_def unwrap_or_def)
  have "demo_candidates \<noteq> []" "distinct (map candidate_id demo_candidates)" "length demo_candidates = 2"
    by (simp_all add: demo_candidates_def demo_candidate_def)
  then show ?thesis
    unfolding select_candidate_ok demo_ranking r using demo_policy_ok demo_candidates_ok demo_floats by simp
qed

theorem select_candidate_spec_witness:
  "\<exists>d. select_candidate demo_policy demo_candidates = Inr d \<and> map rk_rank (ranked_candidates d) = [1, 2] \<and>
     mset (map (\<lambda>r. (rk_candidate_id r, rk_score r)) (ranked_candidates d)) = {#(''b'', 2), (''a'', 1)#} \<and>
     sorted_wrt (ranks_before Minimize) (ranked_candidates d)"
proof -
  let ?d = "ranked_decision demo_policy demo_candidates"
  have "length demo_candidates = 2" "objective (sp_metric demo_policy) = Minimize"
    by (simp_all add: demo_candidates_def demo_policy_def)
  then show ?thesis
    using select_candidate_spec[OF demo_uniform, of demo_policy ?d] demo_select demo_scores
    by (intro exI[of _ ?d]) (simp add: numeral_eq_Suc upt_rec)
qed

theorem select_candidate_permutation_witness:
  "select_candidate demo_policy demo_candidates = Inr (ranked_decision demo_policy demo_candidates) \<and>
   select_candidate demo_policy (rev demo_candidates) = Inr (ranked_decision demo_policy demo_candidates)"
  using select_candidate_permutation[of demo_candidates "rev demo_candidates", OF _ demo_uniform]
    demo_select by simp

theorem select_candidate_optimal_witness:
  "\<exists>c \<in> set demo_candidates.
     candidate_id c = selected_candidate_id (ranked_decision demo_policy demo_candidates)"
  using select_candidate_optimal[OF demo_select demo_uniform]
  by (auto simp: demo_policy_def)

end
