(* ===== verification/Generation.thy ===== *)
theory Generation
  imports SelectionProofs
begin

text \<open>
  \<open>generation.rs\<close>: generation specs (dimensions of choices, constraints), their enumeration into
  variant plans, the effective parameters of a node under a variant, operator variant models and
  the seeded random subset. The bytes the derived \<open>Serialize\<close> implementations produce for a map of
  choices (\<open>to_vec\<close>) and the SHA-256 function are parameters.
\<close>

section \<open>Data\<close>

datatype (plugins only: code size) generation_strategy = NoStrategy | Cartesian | Zip

record choice_ref =
  cr_dimension :: string
  cr_label :: string

record generation_constraints =
  mutex :: "choice_ref list list"
  requires :: "(choice_ref \<times> choice_ref) list"
  exclude :: "(choice_ref \<times> choice_ref) list"

definition constraints_is_empty :: "generation_constraints \<Rightarrow> bool" where
  "constraints_is_empty c \<longleftrightarrow> mutex c = [] \<and> requires c = [] \<and> exclude c = []"

record generation_param_override =
  po_node_id :: node_id
  po_params :: json_map

record generation_choice =
  gc_label :: string
  gc_value :: json_value
  param_overrides :: "generation_param_override list"
  active_subsequence :: "string option"

record generation_dimension =
  gd_name :: string
  gd_choices :: "generation_choice list"

record generation_spec =
  strategy :: generation_strategy
  dimensions :: "generation_dimension list"
  max_variants :: "nat option"
  gs_constraints :: generation_constraints

definition no_constraints :: generation_constraints where
  "no_constraints = \<lparr>mutex = [], requires = [], exclude = []\<rparr>"

definition default_generation_spec :: generation_spec where
  "default_generation_spec =
     \<lparr>strategy = NoStrategy, dimensions = [], max_variants = Some 1, gs_constraints = no_constraints\<rparr>"

record operator_variant_model =
  generator_id :: node_id
  ov_dimension :: generation_dimension
  active_nodes :: "(string, node_id btree_set) btree_map"
  variant_labels :: "(string, string) btree_map"

type_synonym choice_map = "(string, generation_choice) btree_map"

record variant_plan =
  vp_variant_id :: variant_id
  vp_choices :: choice_map
  vp_fingerprint :: string
  vp_seed :: "64 word option"

text \<open>The derived \<open>==\<close> of choices and variants.\<close>

definition choice_norm :: "generation_choice \<Rightarrow> generation_choice" where
  "choice_norm c = c\<lparr>gc_value := json_norm (gc_value c),
     param_overrides := map (\<lambda>ov. ov\<lparr>po_params := json_map_norm (po_params ov)\<rparr>) (param_overrides c)\<rparr>"

definition variant_norm :: "variant_plan \<Rightarrow> variant_plan" where
  "variant_norm v = v\<lparr>vp_choices := map (\<lambda>(k, c). (k, choice_norm c)) (vp_choices v)\<rparr>"

section \<open>Validation\<close>

abbreviation gen_err :: "generation_msg \<Rightarrow> 'a result" where
  "gen_err m \<equiv> fail (CampaignValidation (GenerationMsg m))"

definition override_validate :: "string \<Rightarrow> string \<Rightarrow> generation_param_override \<Rightarrow> unit result" where
  "override_validate dim label ov =
     (if po_params ov = [] then gen_err (ParamOverrideEmpty label dim (as_str (po_node_id ov)))
      else try_each (\<lambda>key. if is_blank key
          then gen_err (ParamOverrideKeyEmpty label dim (as_str (po_node_id ov))) else Inr ())
        (bm_keys (po_params ov)))"

definition choice_validate :: "string \<Rightarrow> generation_choice \<Rightarrow> unit result" where
  "choice_validate dim c =
     (if is_blank (gc_label c) then gen_err (ChoiceLabelEmpty dim)
      else if param_overrides c \<noteq> [] \<and> active_subsequence c \<noteq> None
      then gen_err (OverridesAndSubsequence (gc_label c) dim)
      else if option_ex is_blank (active_subsequence c)
      then gen_err (ActiveSubsequenceEmpty (gc_label c) dim)
      else try_each (override_validate dim (gc_label c)) (param_overrides c))"

definition insert_choice_label ::
  "generation_dimension \<Rightarrow> string set \<Rightarrow> generation_choice \<Rightarrow> string set result" where
  "insert_choice_label d labels c =
     and_then (choice_validate (gd_name d) c) (\<lambda>_.
     if gc_label c \<in> labels then gen_err (DuplicateChoice (gd_name d) (gc_label c))
     else Inr (insert (gc_label c) labels))"

definition dimension_validate :: "generation_dimension \<Rightarrow> unit result" where
  "dimension_validate d =
     (if is_blank (gd_name d) then gen_err DimensionNameEmpty
      else if gd_choices d = [] then gen_err (DimensionWithoutChoices (gd_name d))
      else and_then (try_fold (insert_choice_label d) {} (gd_choices d)) (\<lambda>_. Inr ()))"

definition valid_refs :: "generation_dimension list \<Rightarrow> (string \<times> string) set" where
  "valid_refs ds = (\<Union>d \<in> set ds. (\<lambda>c. (gd_name d, gc_label c)) ` set (gd_choices d))"

definition check_ref :: "(string \<times> string) set \<Rightarrow> choice_ref \<Rightarrow> unit result" where
  "check_ref valid r =
     (if (cr_dimension r, cr_label r) \<notin> valid
      then gen_err (UnknownConstraintChoice (cr_dimension r) (cr_label r)) else Inr ())"

definition check_mutex_ref ::
  "(string \<times> string) set \<Rightarrow> (string \<times> string) set \<Rightarrow> choice_ref \<Rightarrow> (string \<times> string) set result" where
  "check_mutex_ref valid seen r =
     and_then (check_ref valid r) (\<lambda>_.
     if (cr_dimension r, cr_label r) \<in> seen
     then gen_err (MutexRepeats (cr_dimension r) (cr_label r))
     else Inr (insert (cr_dimension r, cr_label r) seen))"

definition check_mutex_group :: "(string \<times> string) set \<Rightarrow> choice_ref list \<Rightarrow> unit result" where
  "check_mutex_group valid grp =
     (if length grp < 2 then gen_err MutexTooSmall
      else and_then (try_fold (check_mutex_ref valid) {} grp) (\<lambda>_. Inr ()))"

definition check_pair ::
  "(string \<times> string) set \<Rightarrow> string \<Rightarrow> choice_ref \<times> choice_ref \<Rightarrow> unit result" where
  "check_pair valid group_label pair =
     (let (left, right) = pair in
      and_then (check_ref valid left) (\<lambda>_.
      and_then (check_ref valid right) (\<lambda>_.
      if left = right then gen_err (PairRepeats group_label (cr_dimension left) (cr_label left))
      else Inr ())))"

definition validate_constraints :: "generation_spec \<Rightarrow> unit result" where
  "validate_constraints s =
     (let c = gs_constraints s; valid = valid_refs (dimensions s) in
      if constraints_is_empty c then Inr ()
      else and_then (try_each (check_mutex_group valid) (mutex c)) (\<lambda>_.
        and_then (try_each (check_pair valid ''requires'') (requires c)) (\<lambda>_.
        try_each (check_pair valid ''exclude'') (exclude c))))"

definition insert_dimension_name :: "string set \<Rightarrow> generation_dimension \<Rightarrow> string set result" where
  "insert_dimension_name names d =
     and_then (dimension_validate d) (\<lambda>_.
     if gd_name d \<in> names then gen_err (DuplicateDimension (gd_name d))
     else Inr (insert (gd_name d) names))"

text \<open>\<open>dimensions[0].choices.len()\<close>; the index is out of range on an empty list.\<close>

definition first_choice_count :: "generation_spec \<Rightarrow> nat result" where
  "first_choice_count s =
     (case dimensions s of [] \<Rightarrow> Inl (Panic IndexOutOfRange) | d # _ \<Rightarrow> Inr (length (gd_choices d)))"

definition generation_validate :: "generation_spec \<Rightarrow> unit result" where
  "generation_validate s =
     (if 256 < length (dimensions s) then gen_err TooManyDimensions
      else if max_variants s = Some 0 then gen_err MaxVariantsZero
      else if strategy s = NoStrategy
      then if dimensions s \<noteq> [] then gen_err DimensionsNeedStrategy
        else if \<not> constraints_is_empty (gs_constraints s) then gen_err ConstraintsNeedStrategy
        else Inr ()
      else if dimensions s = [] then gen_err StrategyNeedsDimension
      else and_then (try_fold insert_dimension_name {} (dimensions s)) (\<lambda>_.
        and_then (if strategy s = Zip
          then and_then (first_choice_count s) (\<lambda>expected.
            if list_ex (\<lambda>d. length (gd_choices d) \<noteq> expected) (dimensions s)
            then gen_err ZipLengthMismatch else Inr ())
          else Inr ()) (\<lambda>_.
        validate_constraints s)))"

section \<open>Operator variant models\<close>

definition check_operator_choice ::
  "operator_variant_model \<Rightarrow> string set \<Rightarrow> generation_choice \<Rightarrow> string set result" where
  "check_operator_choice m seen c =
     (let err = (\<lambda>what. gen_err (OperatorChoice (as_str (generator_id m)) (gc_label c) what)) in
      if param_overrides c \<noteq> [] then err ''param_overrides''
      else case active_subsequence c of
        None \<Rightarrow> err ''missing active_subsequence''
      | Some sub \<Rightarrow>
          if sub \<in> seen then gen_err (OperatorKey (as_str (generator_id m)) sub ''duplicate'')
          else (case bm_get (active_nodes m) sub of
              None \<Rightarrow> err ''no active-node set''
            | Some active \<Rightarrow> if active = [] then err ''empty active-node set'' else Inr (insert sub seen)))"

definition check_variant_label :: "operator_variant_model \<Rightarrow> string \<Rightarrow> unit result" where
  "check_variant_label m sub =
     (case bm_get (variant_labels m) sub of
        None \<Rightarrow> gen_err (OperatorKey (as_str (generator_id m)) sub ''no variant_label'')
      | Some label \<Rightarrow>
          if length label \<noteq> 64 \<or> \<not> list_all is_ascii_hexdigit label
          then gen_err (OperatorKey (as_str (generator_id m)) sub ''label is not sha256'') else Inr ())"

definition check_stray_key :: "operator_variant_model \<Rightarrow> string \<Rightarrow> string set \<Rightarrow> string \<Rightarrow> unit result" where
  "check_stray_key m what subs key =
     (if key \<notin> subs then gen_err (OperatorKey (as_str (generator_id m)) key what) else Inr ())"

definition operator_validate :: "operator_variant_model \<Rightarrow> unit result" where
  "operator_validate m =
     and_then (dimension_validate (ov_dimension m)) (\<lambda>_.
     and_then (try_fold (check_operator_choice m) {} (gd_choices (ov_dimension m))) (\<lambda>subs.
     and_then (try_each (check_stray_key m ''stray active-node set'' subs) (bm_keys (active_nodes m))) (\<lambda>_.
     if variant_labels m \<noteq> []
     then and_then (try_each (check_variant_label m) (sorted_list_of_set subs)) (\<lambda>_.
       try_each (check_stray_key m ''stray variant_label'' subs) (bm_keys (variant_labels m)))
     else Inr ())))"

definition operator_generation_spec :: "operator_variant_model \<Rightarrow> generation_spec" where
  "operator_generation_spec m =
     \<lparr>strategy = Cartesian, dimensions = [ov_dimension m],
      max_variants = Some (length (gd_choices (ov_dimension m))), gs_constraints = no_constraints\<rparr>"

section \<open>Variant plans\<close>

text \<open>One parameter of one override: its owner is recorded, a second owner is a conflict.\<close>

type_synonym owners = "node_id \<times> string \<Rightarrow> string option"
type_synonym node_overrides = "(node_id, json_map) btree_map"

definition add_param ::
  "variant_plan \<Rightarrow> string \<Rightarrow> string \<Rightarrow> node_id \<Rightarrow> owners \<times> node_overrides \<Rightarrow> string \<times> json_value
   \<Rightarrow> (owners \<times> node_overrides) result" where
  "add_param v dim label node st kv =
     (let (owners, overrides) = st; (key, value) = kv in
      case owners (node, key) of
        Some previous \<Rightarrow>
          gen_err (ConflictingOverrides (as_str (vp_variant_id v)) (as_str node) key previous
            (dim @ '':'' @ label))
      | None \<Rightarrow> Inr (owners((node, key) \<mapsto> dim @ '':'' @ label),
          bm_insert node (bm_insert key value (unwrap_or (bm_get overrides node) [])) overrides))"

definition add_override ::
  "variant_plan \<Rightarrow> string \<Rightarrow> string \<Rightarrow> owners \<times> node_overrides \<Rightarrow> generation_param_override
   \<Rightarrow> (owners \<times> node_overrides) result" where
  "add_override v dim label st ov = try_fold (add_param v dim label (po_node_id ov)) st (po_params ov)"

definition add_choice ::
  "variant_plan \<Rightarrow> owners \<times> node_overrides \<Rightarrow> string \<times> generation_choice
   \<Rightarrow> (owners \<times> node_overrides) result" where
  "add_choice v st entry =
     (let (dim, c) = entry in try_fold (add_override v dim (gc_label c)) st (param_overrides c))"

definition param_overrides_by_node :: "variant_plan \<Rightarrow> node_overrides result" where
  "param_overrides_by_node v =
     and_then (try_fold (add_choice v) (Map.empty, []) (vp_choices v)) (\<lambda>st. Inr (snd st))"

definition variant_validate :: "variant_plan \<Rightarrow> unit result" where
  "variant_validate v =
     (if is_blank (vp_fingerprint v)
      then fail (Planning (EmptyVariantFingerprint (as_str (vp_variant_id v))))
      else and_then (try_each (\<lambda>(dim, c). choice_validate dim c) (vp_choices v)) (\<lambda>_.
        and_then (param_overrides_by_node v) (\<lambda>_. Inr ())))"

text \<open>\<open>params.extend(overrides)\<close>.\<close>

definition bm_extend :: "('k::linorder, 'v) btree_map \<Rightarrow> ('k \<times> 'v) list \<Rightarrow> ('k, 'v) btree_map" where
  "bm_extend m kvs = foldl (\<lambda>m (k, v). bm_insert k v m) m kvs"

definition effective_params_for_node :: "variant_plan \<Rightarrow> node_id \<Rightarrow> json_map \<Rightarrow> json_map result" where
  "effective_params_for_node v node base =
     and_then (param_overrides_by_node v) (\<lambda>by_node.
       Inr (case bm_get by_node node of None \<Rightarrow> base | Some ovs \<Rightarrow> bm_extend base ovs))"

definition param_override_targets :: "variant_plan \<Rightarrow> node_id btree_set result" where
  "param_override_targets v = and_then (param_overrides_by_node v) (\<lambda>by_node. Inr (bm_keys by_node))"

section \<open>Enumeration\<close>

definition ref_present :: "choice_map \<Rightarrow> choice_ref \<Rightarrow> bool" where
  "ref_present choices r = option_ex (\<lambda>c. gc_label c = cr_label r) (bm_get choices (cr_dimension r))"

definition constraints_satisfied :: "(choice_ref \<Rightarrow> bool) \<Rightarrow> generation_constraints \<Rightarrow> bool" where
  "constraints_satisfied present c \<longleftrightarrow>
     \<not> list_ex (\<lambda>grp. list_all present grp) (mutex c) \<and>
     \<not> list_ex (\<lambda>(left, right). present left \<and> \<not> present right) (requires c) \<and>
     \<not> list_ex (\<lambda>(left, right). present left \<and> present right) (exclude c)"

definition satisfies_constraints :: "choice_map \<Rightarrow> generation_constraints \<Rightarrow> bool" where
  "satisfies_constraints choices c = constraints_satisfied (ref_present choices) c"

text \<open>One pass of the product loop: every existing map extended by every choice of the dimension.\<close>

definition extend_choices :: "choice_map list \<Rightarrow> generation_dimension \<Rightarrow> choice_map list" where
  "extend_choices variants d =
     concat (map (\<lambda>existing. map (\<lambda>c. bm_insert (gd_name d) c existing) (gd_choices d)) variants)"

definition cartesian_choices :: "generation_dimension list \<Rightarrow> choice_map list" where
  "cartesian_choices ds = foldl extend_choices [[]] ds"

definition choice_at :: "nat \<Rightarrow> generation_dimension \<Rightarrow> (string \<times> generation_choice) result" where
  "choice_at idx d =
     (if idx < length (gd_choices d) then Inr (gd_name d, gd_choices d ! idx)
      else Inl (Panic IndexOutOfRange))"

definition zip_choices :: "generation_dimension list \<Rightarrow> choice_map list result" where
  "zip_choices ds =
     (let len = (case ds of [] \<Rightarrow> 0 | d # _ \<Rightarrow> length (gd_choices d)) in
      try_map (\<lambda>idx. and_then (try_map (choice_at idx) ds) (\<lambda>kvs. Inr (bm_collect kvs))) [0..<len])"

definition checked_mul :: "nat \<Rightarrow> nat \<Rightarrow> nat option" where
  "checked_mul m n = (if m * n < 2 ^ 64 then Some (m * n) else None)"

definition product_cardinality :: "generation_dimension list \<Rightarrow> nat option" where
  "product_cardinality ds =
     foldl (\<lambda>n d. Option.bind n (\<lambda>k. checked_mul k (length (gd_choices d)))) (Some 1) ds"

definition cardinality :: "generation_spec \<Rightarrow> nat option result" where
  "cardinality s = (case strategy s of
      NoStrategy \<Rightarrow> Inr (Some 1)
    | Zip \<Rightarrow> and_then (first_choice_count s) (\<lambda>n. Inr (Some n))
    | Cartesian \<Rightarrow> Inr (product_cardinality (dimensions s)))"

definition allocation_limit :: "generation_spec \<Rightarrow> nat" where
  "allocation_limit s =
     (if constraints_is_empty (gs_constraints s) then min (unwrap_or (max_variants s) 10000) 10000
      else 10000)"

definition product_choices :: "generation_spec \<Rightarrow> choice_map list result" where
  "product_choices s = (case strategy s of
      NoStrategy \<Rightarrow> Inr [[]]
    | Cartesian \<Rightarrow> Inr (cartesian_choices (dimensions s))
    | Zip \<Rightarrow> zip_choices (dimensions s))"

definition prune :: "generation_constraints \<Rightarrow> choice_map list \<Rightarrow> choice_map list result" where
  "prune c variants =
     (if constraints_is_empty c then Inr variants
      else let kept = filter (\<lambda>choices. satisfies_constraints choices c) variants in
        if kept = [] then gen_err AllVariantsPruned else Inr kept)"

text \<open>The parameters of the enumeration: the serialised bytes of a map of choices, and SHA-256.\<close>

type_synonym serialize_choices = "choice_map \<Rightarrow> bytes result"

definition hex_digit :: "8 word \<Rightarrow> char" where
  "hex_digit w = ''0123456789abcdef'' ! unat w"

definition bytes_to_hex :: "bytes \<Rightarrow> string" where
  "bytes_to_hex bs = concat (map (\<lambda>b. [hex_digit (drop_bit 4 b), hex_digit (and b 15)]) bs)"

definition stable_json_fingerprint :: "('a \<Rightarrow> bytes result) \<Rightarrow> digest \<Rightarrow> 'a \<Rightarrow> string result" where
  "stable_json_fingerprint to_vec sha256 x = and_then (to_vec x) (\<lambda>json. Inr (bytes_to_hex (sha256 json)))"

definition generation_spec_fingerprint ::
  "(generation_spec \<Rightarrow> bytes result) \<Rightarrow> digest \<Rightarrow> generation_spec \<Rightarrow> string result" where
  "generation_spec_fingerprint to_vec sha256 s =
     and_then (generation_validate s) (\<lambda>_. stable_json_fingerprint to_vec sha256 s)"

definition variant_from_choices ::
  "serialize_choices \<Rightarrow> digest \<Rightarrow> 64 word option \<Rightarrow> choice_map \<Rightarrow> variant_plan result" where
  "variant_from_choices to_vec sha256 root choices =
     and_then (stable_json_fingerprint to_vec sha256 choices) (\<lambda>fingerprint.
     and_then (if choices = [] then Inr ''base''
        else if length fingerprint < 16 then Inl (Panic SliceOutOfRange)
        else Inr (take 16 fingerprint)) (\<lambda>suffix.
     and_then (ident_new (''variant:'' @ suffix)) (\<lambda>variant_id.
     let seed = map_option (\<lambda>s. derive_u64 sha256
           (seed_child (seed_root s) (''variant:'' @ as_str variant_id)) ''variant'') root;
         variant = \<lparr>vp_variant_id = variant_id, vp_choices = choices, vp_fingerprint = fingerprint,
           vp_seed = seed\<rparr>
     in and_then (variant_validate variant) (\<lambda>_. Inr variant))))"

definition enumerate_variants ::
  "serialize_choices \<Rightarrow> digest \<Rightarrow> generation_spec \<Rightarrow> 64 word option \<Rightarrow> variant_plan list result" where
  "enumerate_variants to_vec sha256 s root =
     and_then (generation_validate s) (\<lambda>_.
     and_then (cardinality s) (\<lambda>n.
     if option_ex (\<lambda>k. k \<le> allocation_limit s) n
     then and_then (product_choices s) (\<lambda>variants.
       and_then (prune (gs_constraints s) variants) (\<lambda>kept.
       if option_ex (\<lambda>limit. limit < length kept) (max_variants s)
       then gen_err (TooManyVariants (length kept) (unwrap_or (max_variants s) 0))
       else try_map (variant_from_choices to_vec sha256 root) kept))
     else gen_err (AllocationLimit (allocation_limit s))))"

section \<open>The seeded random subset\<close>

definition sample_key :: "digest \<Rightarrow> 64 word \<Rightarrow> variant_plan \<Rightarrow> 64 word \<times> variant_id" where
  "sample_key sha256 root v =
     (derive_u64 sha256 (seed_child (seed_root root) ''generation:random-subset'')
        (as_str (vp_variant_id v)), vp_variant_id v)"

definition compare_samples :: "digest \<Rightarrow> 64 word \<Rightarrow> variant_plan \<Rightarrow> variant_plan \<Rightarrow> ordering" where
  "compare_samples sha256 root v w =
     (let (a, i) = sample_key sha256 root v; (b, j) = sample_key sha256 root w in
      then_with (ord_cmp a b) (ord_cmp i j))"

definition sample_generation_variants ::
  "serialize_choices \<Rightarrow> digest \<Rightarrow> generation_spec \<Rightarrow> 64 word \<Rightarrow> nat \<Rightarrow> variant_plan list result" where
  "sample_generation_variants to_vec sha256 s root wanted =
     and_then (enumerate_variants to_vec sha256 s (Some root)) (\<lambda>variants.
     if wanted = 0 \<or> length variants < wanted then gen_err SampleCount
     else Inr (take wanted (sort_by (compare_samples sha256 root) variants)))"

end
