(* ===== verification/GenerationProofs.thy ===== *)
theory GenerationProofs
  imports Generation
begin

text \<open>
  Proofs about \<open>generation.rs\<close>: what validation guarantees, the enumerated products against the
  list product of the library, the variants an enumeration returns, and panic freedom.
\<close>

section \<open>What validation guarantees\<close>

lemma insert_labels_ok:
  "try_fold (insert_choice_label d) labels cs = Inr st \<longleftrightarrow>
     list_all (\<lambda>c. choice_validate (gd_name d) c = Inr ()) cs \<and> distinct (map gc_label cs) \<and>
     gc_label ` set cs \<inter> labels = {} \<and> st = gc_label ` set cs \<union> labels"
  by (induction cs arbitrary: labels) (auto simp: insert_choice_label_def and_then_ok)

definition dimension_ok :: "generation_dimension \<Rightarrow> bool" where
  "dimension_ok d \<longleftrightarrow> \<not> is_blank (gd_name d) \<and> gd_choices d \<noteq> [] \<and>
     list_all (\<lambda>c. choice_validate (gd_name d) c = Inr ()) (gd_choices d) \<and>
     distinct (map gc_label (gd_choices d))"

lemma dimension_validate_ok: "dimension_validate d = Inr u \<longleftrightarrow> dimension_ok d"
  by (simp add: dimension_validate_def dimension_ok_def and_then_ok insert_labels_ok)

lemma insert_names_ok:
  "try_fold insert_dimension_name names ds = Inr st \<longleftrightarrow>
     list_all dimension_ok ds \<and> distinct (map gd_name ds) \<and>
     gd_name ` set ds \<inter> names = {} \<and> st = gd_name ` set ds \<union> names"
  by (induction ds arbitrary: names) (auto simp: insert_dimension_name_def and_then_ok dimension_validate_ok)

lemma generation_validate_ok:
  assumes "generation_validate s = Inr ()"
  shows "max_variants s \<noteq> Some 0"
    and "strategy s = NoStrategy \<Longrightarrow> dimensions s = [] \<and> constraints_is_empty (gs_constraints s)"
    and "strategy s \<noteq> NoStrategy \<Longrightarrow> dimensions s \<noteq> [] \<and> list_all dimension_ok (dimensions s) \<and>
      distinct (map gd_name (dimensions s))"
    and "strategy s = Zip \<Longrightarrow>
      list_all (\<lambda>d. length (gd_choices d) = length (gd_choices (hd (dimensions s)))) (dimensions s)"
proof -
  note V = assms[unfolded generation_validate_def]
  show "max_variants s \<noteq> Some 0" using V by (simp split: if_splits)
  show "strategy s = NoStrategy \<Longrightarrow> dimensions s = [] \<and> constraints_is_empty (gs_constraints s)"
    using V by (simp split: if_splits)
  show "strategy s \<noteq> NoStrategy \<Longrightarrow> dimensions s \<noteq> [] \<and> list_all dimension_ok (dimensions s) \<and>
      distinct (map gd_name (dimensions s))"
    using V by (simp add: and_then_ok insert_names_ok split: if_splits)
  show "list_all (\<lambda>d. length (gd_choices d) = length (gd_choices (hd (dimensions s)))) (dimensions s)"
    if z: "strategy s = Zip"
  proof -
    obtain d ds where ds: "dimensions s = d # ds"
      using V z by (cases "dimensions s") (simp_all split: if_splits)
    then show ?thesis
      using V z by (simp add: and_then_ok insert_names_ok first_choice_count_def list_ex_iff list_all_iff
          split: if_splits)
  qed
qed

lemma dimension_ok_choices: "dimension_ok d \<Longrightarrow> gd_choices d \<noteq> [] \<and> distinct (gd_choices d)"
  by (auto simp: dimension_ok_def distinct_map)

section \<open>The products\<close>

lemma concat_concat_map: "concat (concat (map f xs)) = concat (map (\<lambda>x. concat (f x)) xs)"
  by (induction xs) simp_all

lemma product_lists_nonempty: "\<forall>xs \<in> set xss. xs \<noteq> [] \<Longrightarrow> product_lists xss \<noteq> []"
proof (induction xss)
  case (Cons xs xss)
  then show ?case by (cases xs) simp_all
qed simp

lemma product_lists_snoc:
  "product_lists (xss @ [ys]) = concat (map (\<lambda>xs. map (\<lambda>y. xs @ [y]) ys) (product_lists xss))"
proof (induction xss)
  case Nil
  then show ?case by (induction ys) simp_all
next
  case (Cons zs xss)
  then show ?case by (simp add: map_concat comp_def concat_concat_map)
qed

lemma bm_collect_snoc: "bm_collect (kvs @ [(k, v)]) = bm_insert k v (bm_collect kvs)"
  by (simp add: bm_collect_def)

text \<open>The choice map of one choice per dimension.\<close>

definition choice_map_of :: "generation_dimension list \<Rightarrow> generation_choice list \<Rightarrow> choice_map" where
  "choice_map_of ds cs = bm_collect (zip (map gd_name ds) cs)"

lemma choice_map_of_snoc:
  "length cs = length ds \<Longrightarrow>
   choice_map_of (ds @ [d]) (cs @ [c]) = bm_insert (gd_name d) c (choice_map_of ds cs)"
  by (simp add: choice_map_of_def zip_append bm_collect_snoc)

lemma cartesian_choices_eq:
  "cartesian_choices ds = map (choice_map_of ds) (product_lists (map gd_choices ds))"
proof (induction ds rule: rev_induct)
  case Nil
  then show ?case by (simp add: cartesian_choices_def choice_map_of_def bm_collect_def)
next
  case (snoc d ds)
  have len: "length cs = length ds" if "cs \<in> set (product_lists (map gd_choices ds))" for cs
    using in_set_product_lists_length[OF that] by simp
  have "cartesian_choices (ds @ [d]) = extend_choices (cartesian_choices ds) d"
    by (simp add: cartesian_choices_def)
  also have "\<dots> = concat (map (\<lambda>cs. map (\<lambda>c. bm_insert (gd_name d) c (choice_map_of ds cs)) (gd_choices d))
      (product_lists (map gd_choices ds)))"
    by (simp add: snoc extend_choices_def comp_def)
  also have "\<dots> = concat (map (\<lambda>cs. map (\<lambda>c. choice_map_of (ds @ [d]) (cs @ [c])) (gd_choices d))
      (product_lists (map gd_choices ds)))"
    using len by (intro arg_cong[where f = concat] map_cong) (simp_all add: choice_map_of_snoc)
  also have "\<dots> = map (choice_map_of (ds @ [d])) (product_lists (map gd_choices (ds @ [d])))"
    by (simp add: product_lists_snoc map_concat comp_def)
  finally show ?case .
qed

text \<open>The cartesian product loop of \<open>cartesian_choices\<close> is the list product of the dimensions'
  choices, in lexicographic order, each list of choices collected under the dimension names.\<close>

lemma cartesian_choices_spec:
  "cartesian_choices ds =
     map (\<lambda>cs. bm_collect (zip (map gd_name ds) cs)) (product_lists (map gd_choices ds))"
  by (simp add: cartesian_choices_eq choice_map_of_def[abs_def])

definition zip_rows :: "generation_dimension list \<Rightarrow> generation_choice list list" where
  "zip_rows ds = (case ds of [] \<Rightarrow> []
     | d # _ \<Rightarrow> map (\<lambda>i. map (\<lambda>d. gd_choices d ! i) ds) [0..<length (gd_choices d)])"

lemma zip_choices_eq:
  assumes "list_all (\<lambda>d. length (gd_choices d) = length (gd_choices (hd ds))) ds"
  shows "zip_choices ds = Inr (map (choice_map_of ds) (zip_rows ds))"
proof (cases ds)
  case Nil
  then show ?thesis by (simp add: zip_choices_def zip_rows_def)
next
  case (Cons d ds')
  have "and_then (try_map (choice_at i) ds) (\<lambda>kvs. Inr (bm_collect kvs)) =
      (Inr (choice_map_of ds (map (\<lambda>d. gd_choices d ! i) ds)) :: choice_map result)"
    if "i < length (gd_choices d)" for i
  proof -
    have "try_map (choice_at i) ds = Inr (map (\<lambda>d. (gd_name d, gd_choices d ! i)) ds)"
      by (rule try_map_total) (use that assms Cons in \<open>auto simp: choice_at_def list_all_iff\<close>)
    moreover have "zip (map gd_name ds) (map (\<lambda>d. gd_choices d ! i) ds) =
        map (\<lambda>d. (gd_name d, gd_choices d ! i)) ds"
      by (simp add: zip_map_map zip_same_conv_map)
    ultimately show ?thesis by (simp add: choice_map_of_def)
  qed
  then have "try_map (\<lambda>idx. and_then (try_map (choice_at idx) ds) (\<lambda>kvs. Inr (bm_collect kvs)))
      [0..<length (gd_choices d)] =
      (Inr (map (\<lambda>i. choice_map_of ds (map (\<lambda>d. gd_choices d ! i) ds)) [0..<length (gd_choices d)])
        :: choice_map list result)"
    by (intro try_map_total) simp
  then show ?thesis by (simp add: zip_choices_def zip_rows_def Cons comp_def)
qed

lemma choice_map_of_get:
  assumes "distinct (map gd_name ds)" "length cs = length ds"
  shows "bm_get (choice_map_of ds cs) = map_of (zip (map gd_name ds) cs)"
  unfolding choice_map_of_def by (rule bm_get_collect_distinct) (use assms in simp)

lemma choice_map_of_inj:
  assumes "distinct (map gd_name ds)" "length cs = length ds" "length cs' = length ds"
    "choice_map_of ds cs = choice_map_of ds cs'"
  shows "cs = cs'"
proof -
  have "map_of (zip (map gd_name ds) cs) = map_of (zip (map gd_name ds) cs')"
    using choice_map_of_get[OF assms(1)] assms(2-4) by metis
  then show ?thesis using map_of_zip_inject[of cs "map gd_name ds" cs'] assms by auto
qed

section \<open>All combinations of a spec\<close>

definition rows :: "generation_spec \<Rightarrow> generation_choice list list" where
  "rows s = (case strategy s of NoStrategy \<Rightarrow> [[]]
     | Cartesian \<Rightarrow> product_lists (map gd_choices (dimensions s))
     | Zip \<Rightarrow> zip_rows (dimensions s))"

definition all_choices :: "generation_spec \<Rightarrow> choice_map list" where
  "all_choices s = map (choice_map_of (dimensions s)) (rows s)"

lemma product_choices_eq:
  assumes "generation_validate s = Inr ()"
  shows "product_choices s = Inr (all_choices s)"
  using generation_validate_ok[OF assms]
  by (cases "strategy s") (simp_all add: product_choices_def all_choices_def rows_def cartesian_choices_eq
      zip_choices_eq choice_map_of_def bm_collect_def)

lemma row_length:
  assumes "generation_validate s = Inr ()" "cs \<in> set (rows s)"
  shows "length cs = length (dimensions s)"
  using assms(2) generation_validate_ok[OF assms(1)] in_set_product_lists_length
  by (cases "strategy s") (fastforce simp: rows_def zip_rows_def split: list.splits)+

lemma distinct_rows:
  assumes "generation_validate s = Inr ()"
  shows "distinct (rows s)"
proof (cases "strategy s")
  case NoStrategy
  then show ?thesis by (simp add: rows_def)
next
  case Cartesian
  then have "list_all dimension_ok (dimensions s)" using generation_validate_ok(3)[OF assms] by simp
  then show ?thesis
    using Cartesian dimension_ok_choices by (auto simp: rows_def list_all_iff intro!: distinct_product_lists)
next
  case Zip
  then obtain d ds where ds: "dimensions s = d # ds"
    using generation_validate_ok(3)[OF assms] by (cases "dimensions s") auto
  have d: "distinct (gd_choices d)"
    using Zip generation_validate_ok(3)[OF assms] ds dimension_ok_choices by auto
  have "inj_on (\<lambda>i. map (\<lambda>d. gd_choices d ! i) (d # ds)) (set [0..<length (gd_choices d)])"
    using d by (auto simp: inj_on_def nth_eq_iff_index_eq)
  then show ?thesis using Zip ds by (simp add: rows_def zip_rows_def distinct_map)
qed

lemma distinct_all_choices:
  assumes "generation_validate s = Inr ()"
  shows "distinct (all_choices s)"
proof -
  have names: "distinct (map gd_name (dimensions s))"
    using generation_validate_ok[OF assms] by (cases "strategy s") auto
  have "inj_on (choice_map_of (dimensions s)) (set (rows s))"
    using choice_map_of_inj[OF names] row_length[OF assms] by (auto simp: inj_on_def)
  then show ?thesis using distinct_rows[OF assms] by (simp add: all_choices_def distinct_map)
qed

lemma all_choices_nonempty:
  assumes "generation_validate s = Inr ()"
  shows "all_choices s \<noteq> []"
proof (cases "strategy s")
  case Cartesian
  then have "\<forall>xs \<in> set (map gd_choices (dimensions s)). xs \<noteq> []"
    using generation_validate_ok(3)[OF assms] dimension_ok_choices by (auto simp: list_all_iff)
  then have "product_lists (map gd_choices (dimensions s)) \<noteq> []" by (rule product_lists_nonempty)
  then show ?thesis using Cartesian by (simp add: all_choices_def rows_def)
next
  case Zip
  then obtain d ds where "dimensions s = d # ds" "gd_choices d \<noteq> []"
    using generation_validate_ok(3)[OF assms] dimension_ok_choices by (cases "dimensions s") auto
  then show ?thesis using Zip by (simp add: all_choices_def rows_def zip_rows_def)
qed (simp add: all_choices_def rows_def)

section \<open>Enumeration\<close>

lemma product_cardinality_none:
  "foldl (\<lambda>n d. Option.bind n (\<lambda>k. checked_mul k (length (gd_choices d)))) None ds = None"
  by (induction ds) simp_all

lemma product_cardinality_from:
  assumes "\<forall>d \<in> set ds. gd_choices d \<noteq> []" "k < 2 ^ 64"
  shows "foldl (\<lambda>n d. Option.bind n (\<lambda>k. checked_mul k (length (gd_choices d)))) (Some k) ds =
    (let p = k * foldr (*) (map (\<lambda>d. length (gd_choices d)) ds) 1 in if p < 2 ^ 64 then Some p else None)"
  using assms
proof (induction ds arbitrary: k)
  case (Cons d ds)
  let ?m = "length (gd_choices d)" and ?p = "foldr (*) (map (\<lambda>d. length (gd_choices d)) ds) (1::nat)"
  have pos: "0 < ?p" using Cons.prems(1) by (induction ds) auto
  show ?case
  proof (cases "k * ?m < 2 ^ 64")
    case True
    then show ?thesis
      using Cons.IH[of "k * ?m"] Cons.prems(1) by (simp add: checked_mul_def Let_def mult.assoc)
  next
    case False
    have "?m \<le> ?m * ?p" using pos by (cases ?p) simp_all
    then have "k * ?m \<le> k * (?m * ?p)" by (rule mult_le_mono2)
    then have "\<not> k * (?m * ?p) < 2 ^ 64" using False by linarith
    moreover have "checked_mul k ?m = None" using False by (simp add: checked_mul_def)
    ultimately show ?thesis by (simp add: product_cardinality_none Let_def)
  qed
qed simp

text \<open>The overflow-checked cardinality is compared with the limit exactly as the length of the
  product would be.\<close>

lemma cardinality_ok:
  assumes "generation_validate s = Inr ()" "limit \<le> 10000"
  shows "\<exists>n. cardinality s = Inr n \<and> (option_ex (\<lambda>k. k \<le> limit) n \<longleftrightarrow> length (all_choices s) \<le> limit)"
proof (cases "strategy s")
  case NoStrategy
  then show ?thesis by (simp add: cardinality_def all_choices_def rows_def option_ex_def)
next
  case Zip
  then obtain d ds where "dimensions s = d # ds"
    using generation_validate_ok(3)[OF assms(1)] by (cases "dimensions s") auto
  then show ?thesis
    using Zip by (simp add: cardinality_def first_choice_count_def all_choices_def rows_def zip_rows_def option_ex_def)
next
  case Cartesian
  define p where "p = foldr (*) (map (\<lambda>d. length (gd_choices d)) (dimensions s)) (1::nat)"
  have "\<forall>d \<in> set (dimensions s). gd_choices d \<noteq> []"
    using Cartesian generation_validate_ok(3)[OF assms(1)] dimension_ok_choices by (auto simp: list_all_iff)
  then have "product_cardinality (dimensions s) = (if p < 2 ^ 64 then Some p else None)"
    unfolding product_cardinality_def p_def by (subst product_cardinality_from) (simp_all add: Let_def)
  moreover have "length (all_choices s) = p"
    using Cartesian by (simp add: all_choices_def rows_def length_product_lists p_def comp_def)
  moreover have "p \<le> limit \<Longrightarrow> p < 2 ^ 64" using assms(2) by simp
  ultimately show ?thesis using Cartesian by (auto simp: cardinality_def option_ex_def)
qed

lemma allocation_limit_le: "allocation_limit s \<le> 10000"
  by (simp add: allocation_limit_def)

text \<open>The combinations that the constraints keep.\<close>

definition survivors :: "generation_spec \<Rightarrow> choice_map list" where
  "survivors s = filter (\<lambda>m. satisfies_constraints m (gs_constraints s)) (all_choices s)"

lemma no_constraints_satisfied: "constraints_is_empty c \<Longrightarrow> satisfies_constraints m c"
  by (simp add: constraints_is_empty_def satisfies_constraints_def constraints_satisfied_def)

lemma prune_ok:
  assumes "generation_validate s = Inr ()"
  shows "prune (gs_constraints s) (all_choices s) =
    (if survivors s = [] then gen_err AllVariantsPruned else Inr (survivors s))"
  using all_choices_nonempty[OF assms] no_constraints_satisfied[of "gs_constraints s"]
  by (simp add: prune_def survivors_def Let_def)

lemma enumerate_variants_unfold:
  assumes "generation_validate s = Inr ()"
  shows "enumerate_variants to_vec sha256 s root =
    (if length (all_choices s) \<le> allocation_limit s
     then if survivors s = [] then gen_err AllVariantsPruned
       else if option_ex (\<lambda>limit. limit < length (survivors s)) (max_variants s)
       then gen_err (TooManyVariants (length (survivors s)) (unwrap_or (max_variants s) 0))
       else try_map (variant_from_choices to_vec sha256 root) (survivors s)
     else gen_err (AllocationLimit (allocation_limit s)))"
proof -
  obtain n where n: "cardinality s = Inr n"
    "option_ex (\<lambda>k. k \<le> allocation_limit s) n \<longleftrightarrow> length (all_choices s) \<le> allocation_limit s"
    using cardinality_ok[OF assms allocation_limit_le] by blast
  show ?thesis
    unfolding enumerate_variants_def assms n(1) and_then_simps n(2) product_choices_eq[OF assms] prune_ok[OF assms]
    by (cases "survivors s = []") simp_all
qed

text \<open>C39: \<open>enumerate_variants\<close> succeeds exactly when the spec validates, the unpruned product is
  within the allocation limit, the constraints keep at least one and at most \<open>max_variants\<close>
  combinations, and each of them makes a variant; the variants are then those, in product order.\<close>

theorem enumerate_variants_spec:
  "enumerate_variants to_vec sha256 s root = Inr vs \<longleftrightarrow>
     generation_validate s = Inr () \<and> length (all_choices s) \<le> allocation_limit s \<and>
     survivors s \<noteq> [] \<and> \<not> option_ex (\<lambda>limit. limit < length (survivors s)) (max_variants s) \<and>
     list_all2 (\<lambda>m v. variant_from_choices to_vec sha256 root m = Inr v) (survivors s) vs"
proof (cases "generation_validate s")
  case (Inr u)
  then show ?thesis by (simp add: enumerate_variants_unfold try_map_ok)
qed (simp add: enumerate_variants_def)

lemma variant_from_choices_ok:
  "variant_from_choices to_vec sha256 root m = Inr v \<Longrightarrow>
   vp_choices v = m \<and> variant_validate v = Inr ()"
  by (auto simp: variant_from_choices_def and_then_ok Let_def)

lemma enumerate_choices:
  assumes "enumerate_variants to_vec sha256 s root = Inr vs"
  shows "generation_validate s = Inr ()" "map vp_choices vs = survivors s"
    "list_all (\<lambda>v. variant_validate v = Inr ()) vs"
proof -
  have val: "generation_validate s = Inr ()"
    using assms by (cases "generation_validate s") (simp_all add: enumerate_variants_def)
  have each: "list_all2 (\<lambda>m v. variant_from_choices to_vec sha256 root m = Inr v) (survivors s) vs"
    using assms by (simp add: enumerate_variants_unfold[OF val] try_map_ok split: if_splits)
  then have "list_all2 (\<lambda>m v. vp_choices v = m \<and> variant_validate v = Inr ()) (survivors s) vs"
    by (rule list.rel_mono_strong) (rule variant_from_choices_ok)
  then show "map vp_choices vs = survivors s" "list_all (\<lambda>v. variant_validate v = Inr ()) vs"
    by (auto simp: list_all2_conv_all_nth list_all_length intro: nth_equalityI)
  show "generation_validate s = Inr ()" by (rule val)
qed

text \<open>A choice map makes one choice in every dimension and no other.\<close>

definition one_choice_each :: "generation_dimension list \<Rightarrow> choice_map \<Rightarrow> bool" where
  "one_choice_each ds m \<longleftrightarrow> bm_ok m \<and> dom (bm_get m) = gd_name ` set ds \<and>
     list_all (\<lambda>d. option_ex (\<lambda>c. c \<in> set (gd_choices d)) (bm_get m (gd_name d))) ds"

lemma product_lists_mem:
  "cs \<in> set (product_lists xss) \<longleftrightarrow> list_all2 (\<lambda>c xs. c \<in> set xs) cs xss"
  by (simp add: product_lists_set)

lemma one_choice_each_iff:
  assumes "distinct (map gd_name ds)"
  shows "one_choice_each ds m \<longleftrightarrow> m \<in> choice_map_of ds ` set (product_lists (map gd_choices ds))"
proof
  assume m: "one_choice_each ds m"
  let ?cs = "map (\<lambda>d. the (bm_get m (gd_name d))) ds"
  have mem: "list_all (\<lambda>d. bm_get m (gd_name d) = Some (the (bm_get m (gd_name d))) \<and>
      the (bm_get m (gd_name d)) \<in> set (gd_choices d)) ds"
    using m by (auto simp: one_choice_each_def list_all_iff option_ex_def split: option.splits)
  have eq: "bm_get m k = bm_get (choice_map_of ds ?cs) k" for k
  proof (cases "k \<in> gd_name ` set ds")
    case True
    then obtain d where d: "d \<in> set ds" "k = gd_name d" by blast
    have "map_of (zip (map gd_name ds) ?cs) (gd_name d) = Some (the (bm_get m (gd_name d)))"
      using d(1) assms by (intro map_of_is_SomeI) (auto simp: zip_map_map zip_same_conv_map comp_def)
    then show ?thesis using d mem assms by (simp add: choice_map_of_get list_all_iff)
  next
    case False
    then have "bm_get m k = None" using m by (auto simp: one_choice_each_def)
    moreover have "map_of (zip (map gd_name ds) ?cs) k = None"
      using False by (auto simp: map_of_eq_None_iff zip_map_map zip_same_conv_map)
    ultimately show ?thesis unfolding choice_map_of_get[OF assms length_map] by (rule trans[OF _ sym])
  qed
  have "bm_ok m" "bm_ok (choice_map_of ds ?cs)"
    using m by (simp_all add: one_choice_each_def choice_map_of_def)
  then have "m = choice_map_of ds ?cs" by (rule bm_ext) (rule eq)
  moreover have "?cs \<in> set (product_lists (map gd_choices ds))"
    using mem by (auto simp: product_lists_mem list_all2_conv_all_nth list_all_length)
  ultimately show "m \<in> choice_map_of ds ` set (product_lists (map gd_choices ds))" by blast
next
  assume "m \<in> choice_map_of ds ` set (product_lists (map gd_choices ds))"
  then obtain cs where cs: "m = choice_map_of ds cs" "length cs = length ds"
    "\<forall>i < length ds. cs ! i \<in> set (gd_choices (ds ! i))"
    by (auto simp: product_lists_mem list_all2_conv_all_nth)
  have get: "bm_get m (gd_name (ds ! i)) = Some (cs ! i)" if "i < length ds" for i
  proof -
    have "distinct (map fst (zip (map gd_name ds) cs))" using assms cs(2) by simp
    moreover have "(gd_name (ds ! i), cs ! i) \<in> set (zip (map gd_name ds) cs)"
      using that cs(2) by (force simp: set_zip)
    ultimately show ?thesis unfolding cs(1) choice_map_of_get[OF assms cs(2)] by (rule map_of_is_SomeI)
  qed
  have "dom (bm_get m) = gd_name ` set ds"
    using cs(2) by (simp add: cs(1) choice_map_of_get[OF assms cs(2)])
  moreover have "bm_ok m" by (simp add: cs(1) choice_map_of_def)
  ultimately show "one_choice_each ds m"
    unfolding one_choice_each_def list_all_length using get cs(3) by (simp add: option_ex_def)
qed

text \<open>C40: a Cartesian enumeration returns every choice map that makes one choice in each dimension
  and satisfies the constraints, and returns it once.\<close>

theorem cartesian_enumeration_complete:
  assumes "enumerate_variants to_vec sha256 s root = Inr vs" and "strategy s = Cartesian"
  shows "distinct (map vp_choices vs) \<and>
    set (map vp_choices vs) =
      {m. one_choice_each (dimensions s) m \<and> satisfies_constraints m (gs_constraints s)}"
proof -
  note E = enumerate_choices[OF assms(1)]
  have names: "distinct (map gd_name (dimensions s))"
    using generation_validate_ok(3)[OF E(1)] assms(2) by simp
  have "set (all_choices s) = {m. one_choice_each (dimensions s) m}"
    using one_choice_each_iff[OF names] assms(2) by (auto simp: all_choices_def rows_def)
  then show ?thesis
    using distinct_all_choices[OF E(1)] by (auto simp: E(2) survivors_def)
qed

end
