(* ===== verification/VariantProofs.thy ===== *)
theory VariantProofs
  imports GenerationProofs
begin

text \<open>
  Proofs about single variants: the parameter overrides of a variant and when they conflict, the
  effective parameters of a node, when \<open>variant_from_choices\<close> succeeds, panic freedom of the
  enumeration, the seeded random subset, and operator variant models.
\<close>

section \<open>Parameter overrides\<close>

type_synonym override_entry = "(node_id \<times> string) \<times> json_value"

text \<open>The overrides of a variant, flattened in the order the three nested loops visit them.\<close>

definition override_params :: "generation_param_override \<Rightarrow> override_entry list" where
  "override_params ov = map (\<lambda>(key, value). ((po_node_id ov, key), value)) (po_params ov)"

definition choice_overrides :: "string \<times> generation_choice \<Rightarrow> override_entry list" where
  "choice_overrides entry = concat (map override_params (param_overrides (snd entry)))"

definition override_entries :: "variant_plan \<Rightarrow> override_entry list" where
  "override_entries v = concat (map choice_overrides (vp_choices v))"

definition by_node_get :: "node_overrides \<Rightarrow> node_id \<times> string \<Rightarrow> json_value option" where
  "by_node_get m nk = (case bm_get m (fst nk) of None \<Rightarrow> None | Some ps \<Rightarrow> bm_get ps (snd nk))"

text \<open>The loop state after the entries \<open>es\<close>.\<close>

definition owns :: "override_entry list \<Rightarrow> owners \<times> node_overrides \<Rightarrow> bool" where
  "owns es st \<longleftrightarrow> dom (fst st) = fst ` set es \<and> distinct (map fst es) \<and>
     by_node_get (snd st) = map_of es \<and>
     (\<forall>n ps. bm_get (snd st) n = Some ps \<longrightarrow> bm_ok ps \<and> ps \<noteq> [])"

text \<open>A loop body that adds the entries of its item, or fails when one of them is taken.\<close>

definition adds :: "(owners \<times> node_overrides \<Rightarrow> 'a \<Rightarrow> (owners \<times> node_overrides) result)
    \<Rightarrow> ('a \<Rightarrow> override_entry list) \<Rightarrow> bool" where
  "adds f entries \<longleftrightarrow> (\<forall>st es a. owns es st \<longrightarrow>
     (if distinct (map fst (es @ entries a)) then \<exists>st'. f st a = Inr st' \<and> owns (es @ entries a) st'
      else \<exists>e. f st a = fail e))"

lemma adds_try_fold:
  assumes "adds f entries"
  shows "adds (try_fold f) (\<lambda>xs. concat (map entries xs))"
proof -
  have "if distinct (map fst (es @ concat (map entries xs)))
      then \<exists>st'. try_fold f st xs = Inr st' \<and> owns (es @ concat (map entries xs)) st'
      else \<exists>e. try_fold f st xs = fail e" if "owns es st" for st es xs
    using that
  proof (induction xs arbitrary: st es)
    case Nil
    then show ?case by (simp add: owns_def)
  next
    case (Cons x xs)
    have step: "if distinct (map fst (es @ entries x))
        then \<exists>st'. f st x = Inr st' \<and> owns (es @ entries x) st' else \<exists>e. f st x = fail e"
      using assms Cons.prems unfolding adds_def by blast
    show ?case
    proof (cases "distinct (map fst (es @ entries x))")
      case True
      then obtain st' where st': "f st x = Inr st'" "owns (es @ entries x) st'" using step by auto
      show ?thesis
        using Cons.IH[OF st'(2)]
        by (simp only: st'(1) and_then_simps list.map concat.simps append_assoc try_fold.simps)
    next
      case False
      then obtain e where e: "f st x = fail e" using step by (simp only: if_False) blast
      have "\<not> distinct (map fst (es @ concat (map entries (x # xs))))" using False by auto
      then show ?thesis by (simp add: e)
    qed
  qed
  then show ?thesis unfolding adds_def by blast
qed

lemma adds_add_param: "adds (add_param v dim label node) (\<lambda>kv. [((node, fst kv), snd kv)])"
  unfolding adds_def
proof (intro allI impI)
  fix st es and kv :: "string \<times> json_value"
  assume own: "owns es st"
  obtain ow m where st: "st = (ow, m)" by (cases st)
  obtain key x where kv: "kv = (key, x)" by (cases kv)
  show "if distinct (map fst (es @ [((node, fst kv), snd kv)]))
    then \<exists>st'. add_param v dim label node st kv = Inr st' \<and> owns (es @ [((node, fst kv), snd kv)]) st'
    else \<exists>e. add_param v dim label node st kv = fail e"
  proof (cases "ow (node, key)")
    case None
    then have free: "(node, key) \<notin> fst ` set es"
      using own unfolding owns_def st fst_conv by (metis domIff)
    let ?ps = "unwrap_or (bm_get m node) []"
    let ?m = "bm_insert node (bm_insert key x ?ps) m"
    have ps: "bm_ok ?ps" using own by (cases "bm_get m node") (auto simp: owns_def st unwrap_or_def)
    have old: "by_node_get m = map_of es" using own by (simp add: owns_def st)
    have "by_node_get ?m nk = map_of (es @ [((node, key), x)]) nk" for nk
    proof (cases "fst nk = node")
      case True
      have "bm_get ?ps (snd nk) = map_of es nk"
        unfolding old[symmetric] by_node_get_def True by (cases "bm_get m node") (simp_all add: unwrap_or_def)
      then have "by_node_get ?m nk = (if snd nk = key then Some x else map_of es nk)"
        using True by (simp add: by_node_get_def)
      moreover have "map_of es (node, key) = None" using free by (simp add: map_of_eq_None_iff)
      ultimately show ?thesis using True by (cases nk) (auto simp: map_add_def split: option.split)
    next
      case False
      then have "by_node_get ?m nk = by_node_get m nk" by (simp add: by_node_get_def)
      then show ?thesis using False old by (cases nk) (auto simp: map_add_def split: option.split)
    qed
    then have get: "by_node_get ?m = map_of (es @ [((node, key), x)])" by (rule ext)
    have ne: "bm_insert k y ps' \<noteq> []" for k :: string and y :: json_value and ps'
      by (cases ps') (auto split: if_splits)
    have "owns (es @ [((node, key), x)]) (ow((node, key) \<mapsto> dim @ '':'' @ label), ?m)"
      using own free get ps ne unfolding owns_def st fst_conv snd_conv
      by (auto simp del: map_of_append)
    moreover have "distinct (map fst (es @ [((node, key), x)]))" using own free by (simp add: owns_def)
    ultimately show ?thesis using None by (simp add: add_param_def st kv)
  next
    case (Some p)
    then have "(node, key) \<in> fst ` set es" using own unfolding owns_def st fst_conv by (metis domI)
    then show ?thesis using Some by (auto simp: add_param_def st kv image_iff)
  qed
qed

lemma adds_add_override: "adds (add_override v dim label) override_params"
proof -
  have loop: "adds (try_fold (add_param v dim label node)) (\<lambda>kvs. concat (map (\<lambda>kv. [((node, fst kv), snd kv)]) kvs))"
    for node by (rule adds_try_fold[OF adds_add_param])
  have eq: "concat (map (\<lambda>kv. [((po_node_id ov, fst kv), snd kv)]) (po_params ov)) = override_params ov" for ov
    by (simp add: override_params_def concat_map_singleton case_prod_unfold)
  show ?thesis
    unfolding adds_def add_override_def eq[symmetric] using loop[unfolded adds_def] by blast
qed

lemma adds_add_choice: "adds (add_choice v) choice_overrides"
proof -
  have "adds (try_fold (add_override v dim label)) (\<lambda>ovs. concat (map override_params ovs))" for dim label
    by (rule adds_try_fold[OF adds_add_override])
  then show ?thesis unfolding adds_def add_choice_def choice_overrides_def case_prod_unfold Let_def
    by blast
qed

lemma param_overrides_cases:
  "if distinct (map fst (override_entries v))
   then \<exists>m. param_overrides_by_node v = Inr m \<and> by_node_get m = map_of (override_entries v) \<and>
     (\<forall>n ps. bm_get m n = Some ps \<longrightarrow> bm_ok ps \<and> ps \<noteq> [])
   else \<exists>e. param_overrides_by_node v = fail e"
proof -
  have start: "owns [] (Map.empty, [])" by (simp add: owns_def by_node_get_def fun_eq_iff)
  have "adds (try_fold (add_choice v)) (\<lambda>xs. concat (map choice_overrides xs))"
    by (rule adds_try_fold[OF adds_add_choice])
  then have "if distinct (map fst (override_entries v))
      then \<exists>st. try_fold (add_choice v) (Map.empty, []) (vp_choices v) = Inr st \<and> owns (override_entries v) st
      else \<exists>e. try_fold (add_choice v) (Map.empty, []) (vp_choices v) = fail e"
    using start unfolding adds_def override_entries_def by (metis append_Nil)
  then show ?thesis
    unfolding param_overrides_by_node_def by (auto simp: owns_def split: if_splits)
qed

lemma bm_get_extend: "bm_get (bm_extend m kvs) = bm_get m ++ map_of (rev kvs)"
proof (induction kvs arbitrary: m)
  case (Cons kv kvs)
  have "bm_extend m (kv # kvs) = bm_extend (bm_insert (fst kv) (snd kv) m) kvs"
    by (simp add: bm_extend_def case_prod_unfold)
  then have "bm_get (bm_extend m (kv # kvs)) = bm_get (bm_insert (fst kv) (snd kv) m) ++ map_of (rev kvs)"
    by (simp only: Cons.IH)
  then show ?case by (cases kv) (simp add: map_add_assoc)
qed (simp add: bm_extend_def)

lemma map_of_rev_distinct: "distinct (map fst kvs) \<Longrightarrow> map_of (rev kvs) = map_of kvs"
  by (rule map_of_inject_set[THEN iffD2]) (simp_all add: rev_map[symmetric])

text \<open>the effective parameters of a node exist exactly when no parameter of a node is overridden
  twice by the variant's choices; they are then the base parameters with the node's overrides put
  over them, and otherwise the result is an error value.\<close>

theorem effective_params_spec:
  "case effective_params_for_node v node base of
     Inr params \<Rightarrow> distinct (map fst (override_entries v)) \<and>
       bm_get params = bm_get base ++ (\<lambda>key. map_of (override_entries v) (node, key))
   | Inl f \<Rightarrow> \<not> distinct (map fst (override_entries v)) \<and> (\<exists>e. f = Err e)"
proof (cases "distinct (map fst (override_entries v))")
  case False
  then obtain e where "param_overrides_by_node v = fail e" using param_overrides_cases[of v] by auto
  then show ?thesis using False by (simp add: effective_params_for_node_def)
next
  case True
  then obtain m where m: "param_overrides_by_node v = Inr m" "by_node_get m = map_of (override_entries v)"
    "\<forall>n ps. bm_get m n = Some ps \<longrightarrow> bm_ok ps \<and> ps \<noteq> []"
    using param_overrides_cases[of v] by auto
  have get: "map_of (override_entries v) (node, key) =
      (case bm_get m node of None \<Rightarrow> None | Some ps \<Rightarrow> bm_get ps key)" for key
    unfolding m(2)[symmetric] by (simp add: by_node_get_def split: option.split)
  show ?thesis
  proof (cases "bm_get m node")
    case None
    then show ?thesis using True m(1) get by (simp add: effective_params_for_node_def map_add_def)
  next
    case (Some ps)
    then have "distinct (map fst ps)" using m(3) bm_ok_distinct by blast
    then have "map_of (rev ps) = bm_get ps" by (simp only: map_of_rev_distinct bm_get_def[abs_def])
    then have "bm_get (bm_extend base ps) = bm_get base ++ bm_get ps" by (simp only: bm_get_extend)
    then show ?thesis using True m(1) get Some by (simp add: effective_params_for_node_def)
  qed
qed

lemma variant_validate_ok:
  "variant_validate v = Inr () \<longleftrightarrow> \<not> is_blank (vp_fingerprint v) \<and>
     list_all (\<lambda>(dim, c). choice_validate dim c = Inr ()) (vp_choices v) \<and>
     distinct (map fst (override_entries v))"
  using param_overrides_cases[of v]
  by (auto simp: variant_validate_def and_then_ok try_each_ok list_all_iff split: if_splits)

section \<open>Making a variant\<close>

lemma length_bytes_to_hex [simp]: "length (bytes_to_hex bs) = 2 * length bs"
  by (induction bs) (simp_all add: bytes_to_hex_def)

lemma hex_digit_char: "unat w < 16 \<Longrightarrow> is_ascii_hexdigit (hex_digit w)"
proof -
  assume "unat w < 16"
  then have "unat w \<in> {0, 1, 2, 3, 4, 5, 6, 7, 8, 9, 10, 11, 12, 13, 14, 15}"
    by simp presburger
  then show ?thesis by (auto simp: hex_digit_def is_ascii_hexdigit_def byte_of_def)
qed

lemma nibble_less: "unat (drop_bit 4 (b :: 8 word)) < 16" "unat (and b 15) < 16"
proof -
  have "unat (drop_bit 4 b) = unat b div 16" by (subst unat_drop_bit_eq) (simp add: drop_bit_eq_div)
  moreover have "unat b < 256" using unsigned_less[of b, where 'a = nat] by simp
  ultimately show "unat (drop_bit 4 b) < 16" by simp
  have "and b 15 = take_bit 4 b" by (simp add: take_bit_eq_mask mask_eq_decr_exp)
  then have "unat (and b 15) = take_bit 4 (unat b)" by (simp add: unsigned_take_bit_eq)
  then show "unat (and b 15) < 16" using take_bit_nat_less_exp[of 4 "unat b"] by simp
qed

lemma bytes_to_hex_digits: "\<forall>c \<in> set (bytes_to_hex bs). is_ascii_hexdigit c"
  using nibble_less by (auto simp: bytes_to_hex_def intro!: hex_digit_char)

lemma hexdigit_identifier_byte: "is_ascii_hexdigit c \<Longrightarrow> identifier_byte c"
  by (auto simp: is_ascii_hexdigit_def identifier_byte_def is_ascii_alphanumeric_def)

lemma hexdigit_not_blank: "is_ascii_hexdigit c \<Longrightarrow> \<not> is_blank (c # cs)"
  by (rule not_blank_head) (auto simp: is_ascii_hexdigit_def)

definition variant_suffix :: "choice_map \<Rightarrow> string \<Rightarrow> string" where
  "variant_suffix m fingerprint = (if m = [] then ''base'' else take 16 fingerprint)"

lemma variant_prefix_bytes: "list_all identifier_byte ''variant:base''"
  by (simp add: identifier_byte_def is_ascii_alphanumeric_def byte_of_def)

lemma variant_id_ok:
  "ident_new (''variant:'' @ variant_suffix m (bytes_to_hex bs)) =
     Inr (Ident (''variant:'' @ variant_suffix m (bytes_to_hex bs)))"
proof -
  have "list_all identifier_byte (take 16 (bytes_to_hex bs))"
    using bytes_to_hex_digits hexdigit_identifier_byte by (auto simp: list_all_iff dest: in_set_takeD)
  then have "list_all identifier_byte (''variant:'' @ variant_suffix m (bytes_to_hex bs))"
    using variant_prefix_bytes by (simp add: variant_suffix_def)
  moreover have "length (''variant:'' @ variant_suffix m (bytes_to_hex bs)) \<le> 128"
    by (simp add: variant_suffix_def min.coboundedI2)
  ultimately show ?thesis
    unfolding ident_new_def validate_identifier_def by simp
qed

text \<open>The variant made of a choice map whose serialised bytes are \<open>json\<close>.\<close>

definition variant_of :: "digest \<Rightarrow> 64 word option \<Rightarrow> choice_map \<Rightarrow> bytes \<Rightarrow> variant_plan" where
  "variant_of sha256 root m json =
     (let fingerprint = bytes_to_hex (sha256 json);
          vid = Ident (''variant:'' @ variant_suffix m fingerprint)
      in \<lparr>vp_variant_id = vid, vp_choices = m, vp_fingerprint = fingerprint,
          vp_seed = map_option (\<lambda>s. derive_u64 sha256
            (seed_child (seed_root s) (''variant:'' @ as_str vid)) ''variant'') root\<rparr>)"

definition choice_overrides_distinct :: "choice_map \<Rightarrow> bool" where
  "choice_overrides_distinct m \<longleftrightarrow> distinct (map fst (concat (map choice_overrides m)))"

lemma variant_from_choices_eq:
  assumes "\<And>bs. 8 \<le> length (sha256 bs)"
  shows "variant_from_choices to_vec sha256 root m =
    and_then (to_vec m) (\<lambda>json. and_then (variant_validate (variant_of sha256 root m json))
      (\<lambda>_. Inr (variant_of sha256 root m json)))"
proof -
  have suffix: "(if m = [] then Inr ''base'' else if length (bytes_to_hex (sha256 json)) < 16
      then Inl (Panic SliceOutOfRange) else Inr (take 16 (bytes_to_hex (sha256 json)))) =
      (Inr (variant_suffix m (bytes_to_hex (sha256 json))) :: string result)" for json
    using assms[of json] by (simp add: variant_suffix_def)
  show ?thesis
    unfolding variant_from_choices_def stable_json_fingerprint_def
    by (cases "to_vec m") (simp_all only: and_then_simps suffix variant_id_ok variant_of_def Let_def ident.sel)
qed

lemma variant_of_valid:
  assumes "\<And>bs. 8 \<le> length (sha256 bs)"
  shows "variant_validate (variant_of sha256 root m json) = Inr () \<longleftrightarrow>
    list_all (\<lambda>(dim, c). choice_validate dim c = Inr ()) m \<and> choice_overrides_distinct m"
proof -
  obtain c cs where c: "bytes_to_hex (sha256 json) = c # cs"
    using assms[of json] by (cases "bytes_to_hex (sha256 json)") (auto dest: arg_cong[where f = length])
  then have "is_ascii_hexdigit c" using bytes_to_hex_digits by (metis list.set_intros(1))
  then have "\<not> is_blank (bytes_to_hex (sha256 json))" unfolding c by (rule hexdigit_not_blank)
  then show ?thesis
    by (simp add: variant_validate_ok variant_of_def Let_def override_entries_def choice_overrides_distinct_def)
qed

lemma choice_map_choices_valid:
  assumes "generation_validate s = Inr ()" "m \<in> set (all_choices s)"
  shows "list_all (\<lambda>(dim, c). choice_validate dim c = Inr ()) m"
proof -
  have row: "list_all2 (\<lambda>d c. dimension_ok d \<and> c \<in> set (gd_choices d)) (dimensions s) cs"
    if mem: "cs \<in> set (rows s)" for cs
  proof (cases "strategy s")
    case NoStrategy
    then show ?thesis using that generation_validate_ok(2)[OF assms(1)] by (simp add: rows_def)
  next
    case Cartesian
    then show ?thesis
      using that generation_validate_ok(3)[OF assms(1)]
      by (auto simp: rows_def product_lists_mem list_all2_conv_all_nth list_all_length)
  next
    case Zip
    then obtain d ds where ds: "dimensions s = d # ds"
      using generation_validate_ok(3)[OF assms(1)] by (cases "dimensions s") auto
    then obtain i where i: "i < length (gd_choices d)" "cs = map (\<lambda>d. gd_choices d ! i) (dimensions s)"
      using mem Zip by (auto simp: rows_def zip_rows_def ds)
    have "\<forall>e \<in> set (dimensions s). dimension_ok e \<and> length (gd_choices e) = length (gd_choices d)"
      using Zip generation_validate_ok(3,4)[OF assms(1)] ds by (simp add: list_all_iff)
    then show ?thesis
      unfolding i(2) list_all2_map2 using i(1) by (auto intro!: list.rel_refl_strong)
  qed
  obtain cs where cs: "cs \<in> set (rows s)" "m = choice_map_of (dimensions s) cs"
    using assms(2) by (auto simp: all_choices_def)
  have "set (bm_collect kvs) \<subseteq> set kvs" for kvs :: "(string \<times> generation_choice) list"
  proof (induction kvs rule: rev_induct)
    case (snoc kv kvs)
    have "set (bm_insert k v m') \<subseteq> insert (k, v) (set m')" for k :: string and v :: generation_choice and m'
      by (induction k v m' rule: bm_insert.induct) auto
    then show ?case using snoc by (cases kv) (fastforce simp: bm_collect_snoc)
  qed (simp add: bm_collect_def)
  then have "set m \<subseteq> set (zip (map gd_name (dimensions s)) cs)" unfolding cs(2) choice_map_of_def by blast
  then show ?thesis
    using row[OF cs(1)] by (fastforce simp: list_all_iff list_all2_conv_all_nth set_zip dimension_ok_def)
qed

text \<open>for a digest of at least eight bytes and a serialisation that does not fail, a validated
  spec within the limits whose surviving combinations override no parameter twice enumerates to
  one variant per surviving combination.\<close>

theorem enumerate_variants_total:
  assumes "\<And>bs. 8 \<le> length (sha256 bs)" and "\<And>m. to_vec m = Inr (json m)"
    and "generation_validate s = Inr ()" and "length (all_choices s) \<le> allocation_limit s"
    and "survivors s \<noteq> []" and "pred_option (\<lambda>limit. length (survivors s) \<le> limit) (max_variants s)"
    and "list_all choice_overrides_distinct (survivors s)"
  shows "enumerate_variants to_vec sha256 s root =
    Inr (map (\<lambda>m. variant_of sha256 root m (json m)) (survivors s))"
proof -
  have "variant_from_choices to_vec sha256 root m = Inr (variant_of sha256 root m (json m))"
    if "m \<in> set (survivors s)" for m
  proof -
    have "m \<in> set (all_choices s)" using that by (simp add: survivors_def)
    then have "variant_validate (variant_of sha256 root m (json m)) = Inr ()"
      using choice_map_choices_valid[OF assms(3)] assms(7) that
      by (simp add: variant_of_valid[OF assms(1)] list_all_iff)
    then show ?thesis by (simp add: variant_from_choices_eq[OF assms(1)] assms(2))
  qed
  then have "try_map (variant_from_choices to_vec sha256 root) (survivors s) =
      Inr (map (\<lambda>m. variant_of sha256 root m (json m)) (survivors s))"
    by (rule try_map_total)
  moreover have "\<not> option_ex (\<lambda>limit. limit < length (survivors s)) (max_variants s)"
    using assms(6) by (cases "max_variants s") (simp_all add: option_ex_def)
  ultimately show ?thesis unfolding enumerate_variants_unfold[OF assms(3)] using assms(4,5) by simp
qed

section \<open>Panic freedom\<close>

lemma no_panic_choice_validate [simp]: "no_panic (choice_validate dim c)"
  by (auto simp: choice_validate_def override_validate_def intro!: no_panic_try_each)

lemma no_panic_dimension_validate [simp]: "no_panic (dimension_validate d)"
  by (auto simp: dimension_validate_def insert_choice_label_def intro!: no_panic_and_then no_panic_try_fold)

lemma no_panic_validate_constraints [simp]: "no_panic (validate_constraints s)"
  by (auto simp: validate_constraints_def Let_def check_mutex_group_def check_mutex_ref_def check_ref_def
      check_pair_def intro!: no_panic_and_then no_panic_try_each no_panic_try_fold split: prod.splits)

lemma no_panic_generation_validate: "no_panic (generation_validate s)"
proof -
  have "no_panic (try_fold insert_dimension_name {} (dimensions s))"
    by (auto simp: insert_dimension_name_def intro!: no_panic_and_then no_panic_try_fold)
  moreover have "no_panic (first_choice_count s)" if "dimensions s \<noteq> []"
    using that by (simp add: first_choice_count_def split: list.split)
  ultimately show ?thesis
    by (auto simp: generation_validate_def intro!: no_panic_and_then)
qed

lemma no_panic_param_overrides: "no_panic (param_overrides_by_node v)"
  using param_overrides_cases[of v] by (auto split: if_splits)

lemma no_panic_variant_validate: "no_panic (variant_validate v)"
  by (auto simp: variant_validate_def intro!: no_panic_and_then no_panic_try_each no_panic_param_overrides
      split: prod.splits)

text \<open>enumeration never panics (no index, slice or \<open>expect\<close> failure), for a digest of at least
  eight bytes and a serialisation that does not panic.\<close>

theorem enumerate_variants_no_panic:
  assumes "\<And>bs. 8 \<le> length (sha256 bs)" and "\<And>m. no_panic (to_vec m)"
  shows "no_panic (enumerate_variants to_vec sha256 s root)"
proof (cases "generation_validate s")
  case (Inl f)
  then show ?thesis
    using no_panic_generation_validate[of s] by (simp add: enumerate_variants_def no_panic_def)
next
  case (Inr u)
  have "no_panic (variant_from_choices to_vec sha256 root m)" for m
    unfolding variant_from_choices_eq[OF assms(1)]
    by (intro no_panic_and_then assms(2) no_panic_variant_validate no_panic_simps)
  then have "no_panic (try_map (variant_from_choices to_vec sha256 root) (survivors s))"
    by (intro no_panic_try_map)
  then show ?thesis using Inr by (simp add: enumerate_variants_unfold)
qed

section \<open>The random subset\<close>

lemma compare_samples_not_greater:
  "not_greater (compare_samples sha256 root) v w \<longleftrightarrow>
     fst (sample_key sha256 root v) < fst (sample_key sha256 root w) \<or>
     fst (sample_key sha256 root v) = fst (sample_key sha256 root w) \<and>
     snd (sample_key sha256 root v) \<le> snd (sample_key sha256 root w)"
  by (cases "sample_key sha256 root v"; cases "sample_key sha256 root w")
    (auto simp: not_greater_def compare_samples_def ord_cmp_def then_with_def split: if_splits)

lemma compare_samples_preorder: "total_preorder_on A (compare_samples sha256 root)"
proof -
  have "compare_samples sha256 root v w = Greater \<longleftrightarrow> compare_samples sha256 root w v = Less" for v w
    by (cases "sample_key sha256 root v"; cases "sample_key sha256 root w")
      (auto simp: compare_samples_def ord_cmp_def then_with_def split: if_splits)
  moreover have "not_greater (compare_samples sha256 root) u w"
    if "not_greater (compare_samples sha256 root) u v" "not_greater (compare_samples sha256 root) v w" for u v w
    using that unfolding compare_samples_not_greater by auto
  ultimately show ?thesis unfolding total_preorder_on_def not_greater_def by blast
qed

text \<open>a successful sample of \<open>n\<close> variants are \<open>n\<close> of the enumerated variants (as a multiset),
  and no variant left out has a smaller seed-derived key than one that was taken.\<close>

theorem sample_generation_variants_spec:
  assumes "sample_generation_variants to_vec sha256 s root n = Inr ws"
  shows "\<exists>vs rest. enumerate_variants to_vec sha256 s (Some root) = Inr vs \<and> 0 < n \<and> length ws = n \<and>
    mset ws + mset rest = mset vs \<and>
    sorted_wrt (not_greater (compare_samples sha256 root)) (ws @ rest)"
proof -
  obtain vs where vs: "enumerate_variants to_vec sha256 s (Some root) = Inr vs"
    and n: "0 < n" "n \<le> length vs"
    and ws: "ws = take n (sort_by (compare_samples sha256 root) vs)"
    using assms by (auto simp: sample_generation_variants_def and_then_ok split: if_splits)
  let ?sorted = "sort_by (compare_samples sha256 root) vs"
  have "ws @ drop n ?sorted = ?sorted" by (simp add: ws)
  moreover have "sorted_wrt (not_greater (compare_samples sha256 root)) ?sorted"
    by (rule sorted_sort_by[OF compare_samples_preorder[of "set vs"]]) simp
  moreover have "mset ws + mset (drop n ?sorted) = mset vs"
    by (metis calculation(1) mset_append mset_sort_by)
  ultimately show ?thesis using vs n ws by (intro exI[of _ vs] exI[of _ "drop n ?sorted"]) simp
qed

end
