(* ===== verification/OperatorProofs.thy ===== *)
theory OperatorProofs
  imports VariantProofs
begin

text \<open>
  Operator variant models: validation as a bijection between choices and active-node sets, the
  enumeration of a model, and the witnesses of the theorems on generation.
\<close>

section \<open>Validation\<close>

definition operator_choice_ok :: "operator_variant_model \<Rightarrow> generation_choice \<Rightarrow> bool" where
  "operator_choice_ok m c \<longleftrightarrow> param_overrides c = [] \<and>
     (case active_subsequence c of None \<Rightarrow> False
      | Some sub \<Rightarrow> option_ex (\<lambda>ns. ns \<noteq> []) (bm_get (active_nodes m) sub))"

definition subsequence :: "generation_choice \<Rightarrow> string" where
  "subsequence c = the (active_subsequence c)"

definition subsequences :: "operator_variant_model \<Rightarrow> string list" where
  "subsequences m = map subsequence (gd_choices (ov_dimension m))"

lemma check_operator_choice_ok:
  "check_operator_choice m seen c = Inr st \<longleftrightarrow>
     operator_choice_ok m c \<and> subsequence c \<notin> seen \<and> st = insert (subsequence c) seen"
  by (auto simp: check_operator_choice_def operator_choice_ok_def subsequence_def option_ex_def Let_def
      split: option.splits if_splits)

lemma check_operator_choices_ok:
  "try_fold (check_operator_choice m) seen cs = Inr st \<longleftrightarrow>
     list_all (operator_choice_ok m) cs \<and> distinct (map subsequence cs) \<and>
     subsequence ` set cs \<inter> seen = {} \<and> st = subsequence ` set cs \<union> seen"
  by (induction cs arbitrary: seen) (auto simp: and_then_ok check_operator_choice_ok)

lemma check_stray_key_ok: "check_stray_key m what subs key = Inr u \<longleftrightarrow> key \<in> subs"
  by (simp add: check_stray_key_def)

lemma check_variant_label_ok:
  "check_variant_label m sub = Inr u \<longleftrightarrow>
     option_ex (\<lambda>l. length l = 64 \<and> list_all is_ascii_hexdigit l) (bm_get (variant_labels m) sub)"
  by (auto simp: check_variant_label_def option_ex_def split: option.splits)

lemma option_ex_not_None: "option_ex p x \<Longrightarrow> x \<noteq> None"
  by (cases x) (simp_all add: option_ex_def)

text \<open>The keys of a map are exactly \<open>ks\<close>, and every entry satisfies \<open>p\<close>.\<close>

definition keyed_by :: "string list \<Rightarrow> ('v \<Rightarrow> bool) \<Rightarrow> (string, 'v) btree_map \<Rightarrow> bool" where
  "keyed_by ks p m \<longleftrightarrow> set (bm_keys m) = set ks \<and> list_all (\<lambda>k. option_ex p (bm_get m k)) ks"

lemma keyed_by_iff:
  "keyed_by ks p m \<longleftrightarrow> set (bm_keys m) \<subseteq> set ks \<and> list_all (\<lambda>k. option_ex p (bm_get m k)) ks"
proof -
  have "set ks \<subseteq> set (bm_keys m)" if "list_all (\<lambda>k. option_ex p (bm_get m k)) ks"
    using that option_ex_not_None by (force simp: list_all_iff set_bm_keys)
  then show ?thesis by (auto simp: keyed_by_def)
qed

text \<open>an operator variant model validates exactly when its dimension does, every choice selects a
  sub-sequence and overrides nothing, the sub-sequences are distinct and are exactly the keys of
  the non-empty active-node sets, and, unless there are no labels, exactly the keys of labels that
  are 64 hexadecimal digits.\<close>

theorem operator_validate_spec:
  "operator_validate m = Inr () \<longleftrightarrow>
     dimension_ok (ov_dimension m) \<and>
     list_all (\<lambda>c. param_overrides c = [] \<and> active_subsequence c \<noteq> None) (gd_choices (ov_dimension m)) \<and>
     distinct (subsequences m) \<and> keyed_by (subsequences m) (\<lambda>ns. ns \<noteq> []) (active_nodes m) \<and>
     (variant_labels m = [] \<or>
      keyed_by (subsequences m) (\<lambda>l. length l = 64 \<and> list_all is_ascii_hexdigit l) (variant_labels m))"
proof -
  let ?cs = "gd_choices (ov_dimension m)" and ?S = "subsequence ` set (gd_choices (ov_dimension m))"
  have S: "?S = set (subsequences m)" by (simp add: subsequences_def)
  have choices: "list_all (operator_choice_ok m) ?cs \<longleftrightarrow>
      list_all (\<lambda>c. param_overrides c = [] \<and> active_subsequence c \<noteq> None) ?cs \<and>
      list_all (\<lambda>k. option_ex (\<lambda>ns. ns \<noteq> []) (bm_get (active_nodes m) k)) (subsequences m)"
    by (auto simp: list_all_iff operator_choice_ok_def subsequences_def subsequence_def split: option.splits)
  show ?thesis
    unfolding operator_validate_def and_then_ok dimension_validate_ok check_operator_choices_ok keyed_by_iff choices
    by (auto simp: try_each_ok check_stray_key_ok check_variant_label_ok and_then_ok S list_all_iff
        subsequences_def[symmetric] subset_iff)
qed

section \<open>Enumeration of a model\<close>

lemma operator_spec_valid:
  assumes "dimension_ok (ov_dimension m)"
  shows "generation_validate (operator_generation_spec m) = Inr ()"
proof -
  have "dimension_validate (ov_dimension m) = Inr ()" using assms by (simp add: dimension_validate_ok)
  then have "try_fold insert_dimension_name {} [ov_dimension m] = Inr {gd_name (ov_dimension m)}"
    by (simp add: insert_dimension_name_def)
  moreover have "gd_choices (ov_dimension m) \<noteq> []" using assms by (simp add: dimension_ok_def)
  ultimately show ?thesis
    by (simp add: generation_validate_def validate_constraints_def operator_generation_spec_def
        no_constraints_def constraints_is_empty_def)
qed

text \<open>the generation spec of a valid operator model validates, and keeps exactly one combination
  per operator choice, in the order of the choices.\<close>

theorem operator_spec_survivors:
  assumes "operator_validate m = Inr ()"
  shows "generation_validate (operator_generation_spec m) = Inr () \<and>
    survivors (operator_generation_spec m) =
      map (\<lambda>c. [(gd_name (ov_dimension m), c)]) (gd_choices (ov_dimension m))"
proof -
  let ?s = "operator_generation_spec m" and ?d = "ov_dimension m"
  obtain subs where "dimension_validate ?d = Inr ()"
    using assms by (auto simp: operator_validate_def and_then_ok)
  then have d: "dimension_ok ?d" by (simp add: dimension_validate_ok)
  have "constraints_is_empty (gs_constraints ?s)"
    by (simp add: operator_generation_spec_def no_constraints_def constraints_is_empty_def)
  then have all: "survivors ?s = all_choices ?s"
    by (simp add: survivors_def no_constraints_satisfied)
  have "generation_validate ?s = Inr ()" using d by (rule operator_spec_valid)
  moreover have "all_choices ?s = map (\<lambda>c. [(gd_name ?d, c)]) (gd_choices ?d)"
    by (simp add: all_choices_def rows_def operator_generation_spec_def choice_map_of_def bm_collect_def
        map_concat comp_def concat_map_singleton)
  ultimately show ?thesis using all by simp
qed

section \<open>Witnesses\<close>

definition demo_choice :: "string \<Rightarrow> generation_choice" where
  "demo_choice l = \<lparr>gc_label = l, gc_value = JNull, param_overrides = [], active_subsequence = Some l\<rparr>"

definition demo_dimension :: generation_dimension where
  "demo_dimension = \<lparr>gd_name = ''select'', gd_choices = [demo_choice ''a'', demo_choice ''b'']\<rparr>"

definition demo_model :: operator_variant_model where
  "demo_model = \<lparr>generator_id = Ident ''gen'', ov_dimension = demo_dimension,
     active_nodes = [(''a'', [Ident ''n1'']), (''b'', [Ident ''n2''])], variant_labels = []\<rparr>"

lemma demo_dimension_ok: "dimension_ok demo_dimension"
  by (simp add: dimension_ok_def demo_dimension_def demo_choice_def choice_validate_def not_blank_demo
      option_ex_def)

lemma demo_model_valid: "operator_validate demo_model = Inr ()"
  using demo_dimension_ok
  by (simp add: operator_validate_spec keyed_by_def subsequences_def subsequence_def demo_model_def
      bm_keys_def bm_get_def option_ex_def) (simp add: demo_dimension_def demo_choice_def subsequence_def)

theorem operator_spec_survivors_witness:
  "length (survivors (operator_generation_spec demo_model)) = 2"
  using operator_spec_survivors[OF demo_model_valid] by (simp add: demo_model_def demo_dimension_def)

definition demo_sha :: digest where
  "demo_sha bs = replicate 32 0"

definition demo_bytes :: "choice_map \<Rightarrow> bytes" where
  "demo_bytes m = []"

abbreviation demo_spec :: generation_spec where
  "demo_spec \<equiv> operator_generation_spec demo_model"

lemma demo_survivors:
  "generation_validate demo_spec = Inr ()"
  "survivors demo_spec = [[(''select'', demo_choice ''a'')], [(''select'', demo_choice ''b'')]]"
  "all_choices demo_spec = survivors demo_spec"
proof -
  show "generation_validate demo_spec = Inr ()"
    by (rule operator_spec_valid) (simp add: demo_dimension_ok demo_model_def)
  show "all_choices demo_spec = survivors demo_spec"
    "survivors demo_spec = [[(''select'', demo_choice ''a'')], [(''select'', demo_choice ''b'')]]"
    by (simp_all add: survivors_def no_constraints_satisfied all_choices_def rows_def operator_generation_spec_def
        choice_map_of_def bm_collect_def demo_model_def demo_dimension_def constraints_is_empty_def no_constraints_def)
qed

lemma demo_enumerate:
  "\<exists>vs. enumerate_variants (\<lambda>m. Inr (demo_bytes m)) demo_sha demo_spec (Some 7) = Inr vs \<and> length vs = 2"
proof -
  have each: "variant_from_choices (\<lambda>m. Inr (demo_bytes m)) demo_sha (Some 7) m =
      Inr (variant_of demo_sha (Some 7) m (demo_bytes m))" if "m \<in> set (survivors demo_spec)" for m
  proof -
    have "m \<in> set (all_choices demo_spec)" using that demo_survivors(3) by simp
    moreover have "choice_overrides_distinct m"
      using that unfolding demo_survivors(2)
      by (auto simp: choice_overrides_distinct_def choice_overrides_def demo_choice_def)
    ultimately have "variant_validate (variant_of demo_sha (Some 7) m (demo_bytes m)) = Inr ()"
      using choice_map_choices_valid[OF demo_survivors(1)] by (simp add: variant_of_valid demo_sha_def)
    then show ?thesis by (simp add: variant_from_choices_eq demo_sha_def)
  qed
  have "try_map (variant_from_choices (\<lambda>m. Inr (demo_bytes m)) demo_sha (Some 7)) (survivors demo_spec) =
      Inr (map (\<lambda>m. variant_of demo_sha (Some 7) m (demo_bytes m)) (survivors demo_spec))"
    by (rule try_map_total) (rule each)
  then show ?thesis
    unfolding enumerate_variants_unfold[OF demo_survivors(1)] demo_survivors(3) demo_survivors(2)
    by (simp add: allocation_limit_def operator_generation_spec_def demo_model_def demo_dimension_def
        no_constraints_def constraints_is_empty_def unwrap_or_def option_ex_def)
qed

theorem cartesian_enumeration_complete_witness:
  "\<exists>vs. enumerate_variants (\<lambda>m. Inr (demo_bytes m)) demo_sha demo_spec (Some 7) = Inr vs \<and>
     distinct (map vp_choices vs)"
proof -
  obtain vs where vs: "enumerate_variants (\<lambda>m. Inr (demo_bytes m)) demo_sha demo_spec (Some 7) = Inr vs"
    using demo_enumerate by blast
  have "strategy demo_spec = Cartesian" by (simp add: operator_generation_spec_def)
  from cartesian_enumeration_complete[OF vs this] vs show ?thesis by blast
qed

theorem enumerate_variants_total_witness:
  "enumerate_variants (\<lambda>m. Inr (demo_bytes m)) demo_sha demo_spec None =
     Inr (map (\<lambda>m. variant_of demo_sha None m (demo_bytes m)) (survivors demo_spec))"
proof (rule enumerate_variants_total[OF _ _ demo_survivors(1)])
  show "length (all_choices demo_spec) \<le> allocation_limit demo_spec" "survivors demo_spec \<noteq> []"
    "pred_option (\<lambda>limit. length (survivors demo_spec) \<le> limit) (max_variants demo_spec)"
    "list_all choice_overrides_distinct (survivors demo_spec)"
    unfolding demo_survivors(3) demo_survivors(2)
    by (simp_all add: allocation_limit_def operator_generation_spec_def demo_model_def demo_dimension_def
        no_constraints_def constraints_is_empty_def unwrap_or_def choice_overrides_distinct_def
        choice_overrides_def demo_choice_def)
qed (simp_all add: demo_sha_def)

theorem enumerate_variants_no_panic_witness:
  "no_panic (enumerate_variants (\<lambda>m. Inr (demo_bytes m)) demo_sha demo_spec (Some 1))"
  by (rule enumerate_variants_no_panic) (simp_all add: demo_sha_def)

theorem sample_generation_variants_spec_witness:
  "\<exists>ws vs. sample_generation_variants (\<lambda>m. Inr (demo_bytes m)) demo_sha demo_spec 7 1 = Inr ws \<and>
     length ws = 1 \<and> mset ws \<subseteq># mset vs"
proof -
  obtain vs where "enumerate_variants (\<lambda>m. Inr (demo_bytes m)) demo_sha demo_spec (Some 7) = Inr vs" "length vs = 2"
    using demo_enumerate by blast
  then have "sample_generation_variants (\<lambda>m. Inr (demo_bytes m)) demo_sha demo_spec 7 1 =
      Inr (take 1 (sort_by (compare_samples demo_sha 7) vs))"
    by (auto simp: sample_generation_variants_def)
  then obtain ws where ws: "sample_generation_variants (\<lambda>m. Inr (demo_bytes m)) demo_sha demo_spec 7 1 = Inr ws"
    by blast
  from sample_generation_variants_spec[OF this] obtain vs' rest
    where "length ws = 1" "mset ws + mset rest = mset vs'" by blast
  then have "length ws = 1" "mset ws \<subseteq># mset vs'" by (metis, metis mset_subset_eq_add_left)
  with ws show ?thesis by blast
qed

end
