(* ===== verification/Policy.thy ===== *)
theory Policy
  imports OperatorProofs
begin

text \<open>
  \<open>policy.rs\<close>: the split-leakage, aggregation, reduction, augmentation, feature-selection and
  shape policies and their validation. The statistical grouping key is in \<open>Relations\<close>, with the
  relations it reads.
\<close>

abbreviation pol_err :: "policy_msg \<Rightarrow> 'a result" where
  "pol_err m \<equiv> fail (CampaignValidation (PolicyMsg m))"

section \<open>Split units\<close>

datatype (plugins only: code size) split_unit = SplitPhysicalSample | SplitObservation | SplitSample | SplitTarget | SplitGroup

record leakage_unit_policy =
  lp_split_unit :: split_unit
  forbid_origin_cross_fold :: bool
  allow_observation_split_with_shared_target :: bool
  require_group_ids :: bool
  lp_unsafe_flags :: "string btree_set"

definition default_leakage_unit_policy :: leakage_unit_policy where
  "default_leakage_unit_policy =
     \<lparr>lp_split_unit = SplitPhysicalSample, forbid_origin_cross_fold = True,
      allow_observation_split_with_shared_target = False, require_group_ids = False,
      lp_unsafe_flags = []\<rparr>"

definition leakage_policy_validate :: "leakage_unit_policy \<Rightarrow> unit result" where
  "leakage_policy_validate p =
     (if lp_split_unit p = SplitObservation \<and> \<not> allow_observation_split_with_shared_target p
      then pol_err ObservationSplitUnsafe
      else if require_group_ids p \<and> lp_split_unit p \<noteq> SplitGroup then pol_err GroupIdsNeedGroupSplit
      else Inr ())"

section \<open>Aggregation and reduction\<close>

datatype (plugins only: code size) fit_influence_policy =
    AutoInfluence | UniformRows | EqualSampleInfluence | ResampleEqualized | BackendLossWeight
  | ScorerOnly | StrictWeightSupport

datatype (plugins only: code size) aggregation_method =
    AggNone | AggMean | AggWeightedMean | AggMedian | AggVote | AggRobustMean | AggExcludeOutliers
  | AggCustomController

datatype (plugins only: code size) aggregation_weights = NoWeights | QualityWeights | RepetitionCount | ControllerEmitted

record aggregation_controller_spec =
  ac_controller_id :: controller_id
  ac_params :: json_value

definition aggregation_controller_validate :: "aggregation_controller_spec \<Rightarrow> unit result" where
  "aggregation_controller_validate c =
     (if json_is_null (ac_params c) then pol_err (AggregationControllerNull (as_str (ac_controller_id c)))
      else Inr ())"

datatype (plugins only: code size) reduction_role = ScoreRole | PersistRole | FoldEnsembleRole | MetaFeatureRole | FinalOutputRole

datatype (plugins only: code size) reduction_axis = UnitAxis | FoldAxis | ModelAxis | MetricAxis

datatype (plugins only: code size) reduction_method =
  RedMean | RedWeightedMean | RedMedian | RedVote | RedRobustMean | RedExcludeOutliers | RedCustom

text \<open>\<open>impl From<AggregationMethod> for ReductionMethod\<close>.\<close>

definition reduction_method_from :: "aggregation_method \<Rightarrow> reduction_method" where
  "reduction_method_from m = (case m of
      AggNone \<Rightarrow> RedMean | AggMean \<Rightarrow> RedMean | AggWeightedMean \<Rightarrow> RedWeightedMean
    | AggMedian \<Rightarrow> RedMedian | AggVote \<Rightarrow> RedVote | AggRobustMean \<Rightarrow> RedRobustMean
    | AggExcludeOutliers \<Rightarrow> RedExcludeOutliers | AggCustomController \<Rightarrow> RedCustom)"

datatype (plugins only: code size) reduction_task_compatibility = AnyTask | RegressionTask | ClassificationTask

record reduction_plan =
  rp_role :: reduction_role
  rp_axis :: reduction_axis
  input_unit_level :: entity_unit_level
  output_unit_level :: entity_unit_level
  rp_method :: reduction_method
  weight_source :: aggregation_weights
  task_compatibility :: reduction_task_compatibility
  rp_custom_controller :: "aggregation_controller_spec option"
  rp_params :: json_map

definition default_reduction_plan :: reduction_plan where
  "default_reduction_plan =
     \<lparr>rp_role = FinalOutputRole, rp_axis = UnitAxis, input_unit_level = ObservationUnit,
      output_unit_level = PhysicalSample, rp_method = RedMean, weight_source = NoWeights,
      task_compatibility = AnyTask, rp_custom_controller = None, rp_params = []\<rparr>"

text \<open>The literals \<open>0.0\<close>, \<open>0.5\<close> and \<open>1.0\<close>.\<close>

definition f64_zero :: f64 where "f64_zero = 0"
definition f64_half :: f64 where "f64_half = 0x3fe0000000000000"
definition f64_one :: f64 where "f64_one = 0x3ff0000000000000"

definition validate_trim_fraction :: "json_value option \<Rightarrow> unit result" where
  "validate_trim_fraction value =
     (case value of None \<Rightarrow> Inr ()
      | Some v \<Rightarrow> (case json_as_f64 v of
          None \<Rightarrow> pol_err TrimFractionNotNumeric
        | Some x \<Rightarrow> if f64_is_finite x \<and> f64_le f64_zero x \<and> f64_lt x f64_half then Inr ()
            else pol_err TrimFractionRange))"

definition validate_outlier_threshold :: "json_value option \<Rightarrow> unit result" where
  "validate_outlier_threshold value =
     (case value of None \<Rightarrow> Inr ()
      | Some v \<Rightarrow> (case json_as_f64 v of
          None \<Rightarrow> pol_err ThresholdNotNumeric
        | Some x \<Rightarrow> if f64_is_finite x \<and> f64_lt f64_zero x \<and> f64_lt x f64_one then Inr ()
            else pol_err ThresholdRange))"

definition reduction_plan_validate :: "reduction_plan \<Rightarrow> unit result" where
  "reduction_plan_validate p =
     (if rp_method p = RedWeightedMean \<and> weight_source p = NoWeights
      then pol_err ReductionWeightSourceMissing
      else if rp_method p \<noteq> RedWeightedMean \<and> rp_method p \<noteq> RedCustom \<and> weight_source p \<noteq> NoWeights
      then pol_err ReductionWeightSourceInvalid
      else and_then (case rp_custom_controller p of
          Some c \<Rightarrow> if rp_method p = RedCustom then aggregation_controller_validate c
            else pol_err (ReductionControllerUnexpected (as_str (ac_controller_id c)))
        | None \<Rightarrow> if rp_method p = RedCustom then pol_err CustomReductionNoController else Inr ()) (\<lambda>_.
      if rp_method p = RedVote \<and> task_compatibility p = RegressionTask then pol_err VoteRegression
      else and_then (validate_trim_fraction (bm_get (rp_params p) ''trim_fraction'')) (\<lambda>_.
        validate_outlier_threshold (bm_get (rp_params p) ''threshold''))))"

text \<open>\<open>AggregationGroupingKey\<close>, whose one variant carries a metadata key.\<close>

datatype (plugins only: code size) aggregation_grouping_key = RelationMetadata (grouping_metadata_key: string)

definition grouping_key_validate :: "aggregation_grouping_key \<Rightarrow> unit result" where
  "grouping_key_validate k =
     (case k of RelationMetadata key \<Rightarrow>
        if key = ''independent_unit_id'' then Inr () else pol_err GroupingKeyUnsupported)"

record aggregation_policy =
  grouping_key :: "aggregation_grouping_key option"
  aggregation_level :: prediction_level
  ap_method :: aggregation_method
  weights :: aggregation_weights
  ap_custom_controller :: "aggregation_controller_spec option"
  emit_parallel_metrics :: bool
  selection_metric_level :: prediction_level
  store_raw_predictions :: bool
  store_aggregated_predictions :: bool

definition default_aggregation_policy :: aggregation_policy where
  "default_aggregation_policy =
     \<lparr>grouping_key = None, aggregation_level = SampleLevel, ap_method = AggMean, weights = NoWeights,
      ap_custom_controller = None, emit_parallel_metrics = True, selection_metric_level = SampleLevel,
      store_raw_predictions = True, store_aggregated_predictions = True\<rparr>"

definition aggregation_policy_validate :: "aggregation_policy \<Rightarrow> unit result" where
  "aggregation_policy_validate p =
     and_then (case grouping_key p of
        None \<Rightarrow> Inr ()
      | Some key \<Rightarrow> and_then (grouping_key_validate key) (\<lambda>_.
          if aggregation_level p \<noteq> GroupLevel then pol_err GroupingNeedsGroupLevel else Inr ())) (\<lambda>_.
      if ap_method p = AggNone \<and> aggregation_level p \<noteq> ObservationLevel then pol_err AggregationNoneLevel
      else if ap_method p = AggWeightedMean \<and> weights p = NoWeights then pol_err AggregationWeightsMissing
      else if ap_method p \<noteq> AggWeightedMean \<and> ap_method p \<noteq> AggCustomController \<and> weights p \<noteq> NoWeights
      then pol_err AggregationWeightsInvalid
      else and_then (case ap_custom_controller p of
          Some c \<Rightarrow> if ap_method p = AggCustomController then aggregation_controller_validate c
            else pol_err (AggregationControllerUnexpected (as_str (ac_controller_id c)))
        | None \<Rightarrow> if ap_method p = AggCustomController then pol_err CustomAggregationNoController
            else Inr ()) (\<lambda>_.
      if \<not> store_raw_predictions p \<and> \<not> store_aggregated_predictions p
      then pol_err AggregationStoresNothing else Inr ()))"

section \<open>Augmentation and feature selection\<close>

datatype (plugins only: code size) granularity = GranObservation | GranSample | GranTarget | GranGroup

datatype (plugins only: code size) fit_boundary = FitFoldTrain | FitFoldValidation | FitFullTrain | FitAllObservations | FitPredict

datatype (plugins only: code size) augmentation_scope = NoAugmentation | TrainOnly | AllPartitions

record augmentation_policy =
  sample_scope :: augmentation_scope
  feature_scope :: augmentation_scope
  require_origin_id :: bool
  inherit_group :: bool
  inherit_target :: bool
  au_unsafe_flags :: "string btree_set"

definition allow_all_partitions :: string where
  "allow_all_partitions = ''allow_sample_augmentation_all_partitions''"
definition allow_without_origin :: string where
  "allow_without_origin = ''allow_sample_augmentation_without_origin''"
definition allow_without_group_inheritance :: string where
  "allow_without_group_inheritance = ''allow_sample_augmentation_without_group_inheritance''"
definition allow_without_target_inheritance :: string where
  "allow_without_target_inheritance = ''allow_sample_augmentation_without_target_inheritance''"

definition default_augmentation_policy :: augmentation_policy where
  "default_augmentation_policy =
     \<lparr>sample_scope = TrainOnly, feature_scope = TrainOnly, require_origin_id = True,
      inherit_group = True, inherit_target = True, au_unsafe_flags = []\<rparr>"

definition augmentation_policy_validate :: "augmentation_policy \<Rightarrow> unit result" where
  "augmentation_policy_validate p =
     and_then (try_each (\<lambda>flag. if is_blank flag then pol_err UnsafeFlagEmpty else Inr ())
       (au_unsafe_flags p)) (\<lambda>_.
     if sample_scope p = AllPartitions \<and> allow_all_partitions \<notin> set (au_unsafe_flags p)
     then pol_err AugmentAllPartitionsUnsafe
     else if sample_scope p \<noteq> NoAugmentation
     then if \<not> require_origin_id p \<and> allow_without_origin \<notin> set (au_unsafe_flags p)
       then pol_err AugmentWithoutOriginUnsafe
       else if \<not> inherit_group p \<and> allow_without_group_inheritance \<notin> set (au_unsafe_flags p)
       then pol_err AugmentWithoutGroupUnsafe
       else if \<not> inherit_target p \<and> allow_without_target_inheritance \<notin> set (au_unsafe_flags p)
       then pol_err AugmentWithoutTargetUnsafe
       else Inr ()
     else Inr ())"

datatype (plugins only: code size) feature_selection_scope = NoSelection | Unsupervised | SupervisedFoldTrain

record feature_selection_policy =
  fsp_scope :: feature_selection_scope
  store_masks :: bool
  allow_schema_mismatch_on_join :: bool

definition default_feature_selection_policy :: feature_selection_policy where
  "default_feature_selection_policy =
     \<lparr>fsp_scope = NoSelection, store_masks = True, allow_schema_mismatch_on_join = False\<rparr>"

definition feature_selection_validate :: "feature_selection_policy \<Rightarrow> unit result" where
  "feature_selection_validate p =
     (if fsp_scope p = SupervisedFoldTrain \<and> \<not> store_masks p then pol_err SelectionMasksNotStored
      else Inr ())"

section \<open>Shape plans and deltas\<close>

record data_model_shape_plan =
  sh_node_id :: node_id
  input_granularity :: granularity
  target_granularity :: granularity
  fit_rows :: fit_boundary
  predict_rows :: fit_boundary
  feature_namespace :: "string option"
  feature_schema_fingerprint :: "string option"
  target_space :: string
  sh_aggregation_policy :: aggregation_policy
  sh_augmentation_policy :: augmentation_policy
  sh_selection_policy :: feature_selection_policy

text \<open>The derived \<open>==\<close> of a shape plan: only the parameters of a custom aggregation hold values.\<close>

definition aggregation_policy_norm :: "aggregation_policy \<Rightarrow> aggregation_policy" where
  "aggregation_policy_norm p = p\<lparr>ap_custom_controller :=
     map_option (\<lambda>c. c\<lparr>ac_params := json_norm (ac_params c)\<rparr>) (ap_custom_controller p)\<rparr>"

definition shape_plan_norm :: "data_model_shape_plan \<Rightarrow> data_model_shape_plan" where
  "shape_plan_norm p = p\<lparr>sh_aggregation_policy := aggregation_policy_norm (sh_aggregation_policy p)\<rparr>"

definition is_hex_fingerprint :: "string \<Rightarrow> bool" where
  "is_hex_fingerprint v \<longleftrightarrow> length v = 64 \<and>
     list_all (\<lambda>c. is_ascii_digit c \<or> 97 \<le> byte_of c \<and> byte_of c \<le> 102) v"

definition shape_plan_validate :: "data_model_shape_plan \<Rightarrow> unit result" where
  "shape_plan_validate p =
     (let node = as_str (sh_node_id p) in
      if is_blank (target_space p) then pol_err (ShapeFieldEmpty node ''target_space'')
      else if option_ex is_blank (feature_namespace p) then pol_err (ShapeFieldEmpty node ''feature_namespace'')
      else if option_ex (\<lambda>f. \<not> is_hex_fingerprint f) (feature_schema_fingerprint p)
      then pol_err (ShapeFingerprintInvalid node)
      else and_then (aggregation_policy_validate (sh_aggregation_policy p)) (\<lambda>_.
        and_then (augmentation_policy_validate (sh_augmentation_policy p)) (\<lambda>_.
        and_then (feature_selection_validate (sh_selection_policy p)) (\<lambda>_.
        if fit_rows p = FitFoldValidation \<or> fit_rows p = FitPredict then pol_err FitRowsInvalid
        else if fsp_scope (sh_selection_policy p) = SupervisedFoldTrain \<and> fit_rows p \<noteq> FitFoldTrain
        then pol_err (SupervisedNotFoldTrain node)
        else Inr ()))))"

datatype (plugins only: code size) shape_delta_kind = RowDelta | FeatureDelta | TargetDelta | PredictionDelta

record shape_delta =
  sd_node_id :: node_id
  sd_kind :: shape_delta_kind
  before_fingerprint :: string
  after_fingerprint :: string
  sd_metadata :: json_map

definition shape_delta_validate :: "shape_delta \<Rightarrow> unit result" where
  "shape_delta_validate d =
     (let node = as_str (sd_node_id d) in
      if is_blank (before_fingerprint d) \<or> is_blank (after_fingerprint d)
      then fail (RuntimeValidation (ShapeDeltaFingerprintEmpty node))
      else if before_fingerprint d = after_fingerprint d
      then fail (RuntimeValidation (ShapeDeltaUnchanged node))
      else try_each (\<lambda>key. if is_blank key
          then fail (RuntimeValidation (ShapeDeltaMetadataKeyEmpty node)) else Inr ())
        (bm_keys (sd_metadata d)))"

section \<open>What validation guarantees\<close>

text \<open>A reduction that is well configured: weights exactly for the methods that take them, a custom
  controller with parameters exactly for the custom method, no vote on regression.\<close>

definition weights_fit :: "reduction_method \<Rightarrow> aggregation_weights \<Rightarrow> bool" where
  "weights_fit m w \<longleftrightarrow>
     (case m of RedWeightedMean \<Rightarrow> w \<noteq> NoWeights | RedCustom \<Rightarrow> True | _ \<Rightarrow> w = NoWeights)"

definition controller_fits :: "reduction_method \<Rightarrow> aggregation_controller_spec option \<Rightarrow> bool" where
  "controller_fits m c \<longleftrightarrow>
     (if m = RedCustom then option_ex (\<lambda>s. \<not> json_is_null (ac_params s)) c else c = None)"

lemma reduction_plan_validate_ok:
  "reduction_plan_validate p = Inr u \<longleftrightarrow>
     weights_fit (rp_method p) (weight_source p) \<and> controller_fits (rp_method p) (rp_custom_controller p) \<and>
     \<not> (rp_method p = RedVote \<and> task_compatibility p = RegressionTask) \<and>
     validate_trim_fraction (bm_get (rp_params p) ''trim_fraction'') = Inr () \<and>
     validate_outlier_threshold (bm_get (rp_params p) ''threshold'') = Inr ()"
  by (cases "rp_method p"; cases "rp_custom_controller p")
    (auto simp: reduction_plan_validate_def weights_fit_def controller_fits_def and_then_ok option_ex_def
      aggregation_controller_validate_def)

lemma aggregation_policy_validate_ok:
  "aggregation_policy_validate p = Inr u \<longleftrightarrow>
     \<not> option_ex (\<lambda>k. k \<noteq> RelationMetadata ''independent_unit_id'' \<or> aggregation_level p \<noteq> GroupLevel)
       (grouping_key p) \<and>
     (ap_method p = AggNone \<longrightarrow> aggregation_level p = ObservationLevel) \<and>
     weights_fit (reduction_method_from (ap_method p)) (weights p) \<and>
     controller_fits (reduction_method_from (ap_method p)) (ap_custom_controller p) \<and>
     (store_raw_predictions p \<or> store_aggregated_predictions p)"
  by (cases "ap_method p"; cases "ap_custom_controller p"; cases "grouping_key p")
    (auto simp: aggregation_policy_validate_def weights_fit_def controller_fits_def and_then_ok option_ex_def
      aggregation_controller_validate_def grouping_key_validate_def reduction_method_from_def
      split: aggregation_grouping_key.split)

text \<open>an aggregation policy validates exactly when a grouping key is the supported one at group
  level, method none stays at observation level, weights and custom controller fit the method (as
  for the reduction method it converts to), and some predictions are stored.\<close>

theorem aggregation_policy_validate_spec:
  "aggregation_policy_validate p = Inr () \<longleftrightarrow>
     \<not> option_ex (\<lambda>k. k \<noteq> RelationMetadata ''independent_unit_id'' \<or> aggregation_level p \<noteq> GroupLevel)
       (grouping_key p) \<and>
     (ap_method p = AggNone \<longrightarrow> aggregation_level p = ObservationLevel) \<and>
     weights_fit (reduction_method_from (ap_method p)) (weights p) \<and>
     controller_fits (reduction_method_from (ap_method p)) (ap_custom_controller p) \<and>
     (store_raw_predictions p \<or> store_aggregated_predictions p)"
  by (rule aggregation_policy_validate_ok)

text \<open>Augmenting samples is safe, or each unsafe choice carries its flag.\<close>

definition augmentation_ok :: "augmentation_policy \<Rightarrow> bool" where
  "augmentation_ok p \<longleftrightarrow> \<not> list_ex is_blank (au_unsafe_flags p) \<and>
     (let flagged = (\<lambda>safe flag. safe \<or> flag \<in> set (au_unsafe_flags p)) in
      flagged (sample_scope p \<noteq> AllPartitions) allow_all_partitions \<and>
      (sample_scope p = NoAugmentation \<or>
       flagged (require_origin_id p) allow_without_origin \<and>
       flagged (inherit_group p) allow_without_group_inheritance \<and>
       flagged (inherit_target p) allow_without_target_inheritance))"

lemma augmentation_policy_validate_ok: "augmentation_policy_validate p = Inr u \<longleftrightarrow> augmentation_ok p"
  by (cases "sample_scope p")
    (auto simp: augmentation_policy_validate_def augmentation_ok_def and_then_ok try_each_ok list_ex_iff Let_def
      split: if_splits)

text \<open>Supervised selection stores its masks and is fitted on the training rows of the fold.\<close>

definition supervised_selection_safe :: "data_model_shape_plan \<Rightarrow> bool" where
  "supervised_selection_safe p \<longleftrightarrow> (fsp_scope (sh_selection_policy p) = SupervisedFoldTrain \<longrightarrow>
     store_masks (sh_selection_policy p) \<and> fit_rows p = FitFoldTrain)"

text \<open>a shape plan validates exactly when its names are present and its fingerprint is a lowercase
  SHA-256, its aggregation policy validates, sample augmentation is safe or flagged unsafe, its fit
  rows are neither validation nor predict rows, and supervised feature selection stores its masks
  and fits on fold-train rows only.\<close>

theorem shape_plan_validate_spec:
  "shape_plan_validate p = Inr () \<longleftrightarrow>
     \<not> is_blank (target_space p) \<and> \<not> option_ex is_blank (feature_namespace p) \<and>
     pred_option is_hex_fingerprint (feature_schema_fingerprint p) \<and>
     aggregation_policy_validate (sh_aggregation_policy p) = Inr () \<and>
     augmentation_ok (sh_augmentation_policy p) \<and>
     fit_rows p \<noteq> FitFoldValidation \<and> fit_rows p \<noteq> FitPredict \<and>
     supervised_selection_safe p"
proof -
  have fp: "option_ex (\<lambda>f. \<not> is_hex_fingerprint f) x \<longleftrightarrow> \<not> pred_option is_hex_fingerprint x" for x
    by (cases x) (simp_all add: option_ex_def)
  have sel: "feature_selection_validate s = Inr u \<longleftrightarrow> (fsp_scope s = SupervisedFoldTrain \<longrightarrow> store_masks s)" for s u
    by (simp add: feature_selection_validate_def)
  show ?thesis
    by (cases "is_blank (target_space p)"; cases "option_ex is_blank (feature_namespace p)")
      (auto simp: shape_plan_validate_def Let_def and_then_ok augmentation_policy_validate_ok fp sel
        supervised_selection_safe_def)
qed

end
