(* ===== verification/Relations.thy ===== *)
theory Relations
  imports Policy
begin

text \<open>
  \<open>relation.rs\<close>: the relations between observations, samples, targets and groups, their
  validation, the leakage check of a fold set against them, and the lookups by sample; and the
  statistical grouping index of \<open>policy.rs\<close>, which reads the metadata of relations.
\<close>

section \<open>Data\<close>

datatype (plugins only: code size) fold_partition = TrainPartition | ValidationPartition

record sample_relation =
  sr_unit_level :: entity_unit_level
  sr_unit_id :: "string option"
  sr_observation_id :: observation_id
  sr_sample_id :: sample_id
  sr_source_id :: "string option"
  sr_rep_id :: "string option"
  sr_target_id :: "target_id option"
  sr_group_id :: "group_id option"
  origin_sample_id :: "sample_id option"
  derived_unit_id :: "string option"
  component_observation_ids :: "observation_id list"
  sample_influence_weight :: "f64 option"
  quality_flag :: "string option"
  is_augmented :: bool
  excluded :: bool
  sr_metadata :: json_map
  sr_tags :: "string list"

type_synonym sample_relation_set = "sample_relation list"

text \<open>The derived \<open>==\<close>, for records whose weight is a number.\<close>

definition relation_norm :: "sample_relation \<Rightarrow> sample_relation" where
  "relation_norm r = r\<lparr>sr_metadata := json_map_norm (sr_metadata r),
     sample_influence_weight := map_option f64_norm (sample_influence_weight r)\<rparr>"

definition sample_relation_new :: "observation_id \<Rightarrow> sample_id \<Rightarrow> sample_relation" where
  "sample_relation_new obs sid =
     \<lparr>sr_unit_level = ObservationUnit, sr_unit_id = None, sr_observation_id = obs, sr_sample_id = sid,
      sr_source_id = None, sr_rep_id = None, sr_target_id = None, sr_group_id = None,
      origin_sample_id = None, derived_unit_id = None, component_observation_ids = [],
      sample_influence_weight = None, quality_flag = None, is_augmented = False, excluded = False,
      sr_metadata = [], sr_tags = []\<rparr>"

abbreviation rel_err :: "relation_msg \<Rightarrow> 'a result" where
  "rel_err m \<equiv> fail (CampaignValidation (RelationMsg m))"

section \<open>Validation of one relation\<close>

definition non_empty_optional ::
  "string \<Rightarrow> observation_id \<Rightarrow> string option \<Rightarrow> string option result" where
  "non_empty_optional field obs value =
     (case value of
        Some v \<Rightarrow> if is_blank v then rel_err (RelationFieldEmpty (as_str obs) field) else Inr (Some v)
      | None \<Rightarrow> Inr None)"

definition validate_optional_identifier ::
  "string \<Rightarrow> observation_id \<Rightarrow> string option \<Rightarrow> unit result" where
  "validate_optional_identifier field obs value =
     and_then (non_empty_optional field obs value) (\<lambda>v. case v of
        None \<Rightarrow> Inr ()
      | Some s \<Rightarrow> if 128 < length s \<or> \<not> list_all identifier_byte s
          then rel_err (RelationFieldInvalid (as_str obs) field) else Inr ())"

definition effective_unit_id :: "sample_relation \<Rightarrow> string result" where
  "effective_unit_id r =
     (let obs = sr_observation_id r in
      and_then (non_empty_optional ''unit_id'' obs (sr_unit_id r)) (\<lambda>unit_id.
      case unit_id of
        Some u \<Rightarrow> Inr u
      | None \<Rightarrow> (case sr_unit_level r of
          PhysicalSample \<Rightarrow> Inr (as_str (sr_sample_id r))
        | SourceSample \<Rightarrow> and_then (non_empty_optional ''source_id'' obs (sr_source_id r)) (\<lambda>v.
            and_then (ok_or v (Err (CampaignValidation (RelationMsg (SourceSampleNeedsSource (as_str obs))))))
              (\<lambda>source. Inr (as_str (sr_sample_id r) @ ''::'' @ source)))
        | ObservationUnit \<Rightarrow> Inr (as_str obs)
        | Combo \<Rightarrow> and_then (non_empty_optional ''derived_unit_id'' obs (derived_unit_id r)) (\<lambda>v.
            ok_or v (Err (CampaignValidation (RelationMsg (ComboNeedsDerivedUnit (as_str obs)))))))))"

definition relation_validate :: "sample_relation \<Rightarrow> unit result" where
  "relation_validate r =
     (let obs = sr_observation_id r in
      and_then (non_empty_optional ''unit_id'' obs (sr_unit_id r)) (\<lambda>_.
      and_then (non_empty_optional ''source_id'' obs (sr_source_id r)) (\<lambda>_.
      and_then (non_empty_optional ''derived_unit_id'' obs (derived_unit_id r)) (\<lambda>_.
      and_then (non_empty_optional ''quality_flag'' obs (quality_flag r)) (\<lambda>_.
      and_then (validate_optional_identifier ''rep_id'' obs (sr_rep_id r)) (\<lambda>_.
      if option_ex (\<lambda>w. \<not> f64_is_finite w \<or> f64_le w f64_zero) (sample_influence_weight r)
      then rel_err (RelationWeightInvalid (as_str obs))
      else if sr_unit_level r \<noteq> Combo \<and> component_observation_ids r \<noteq> []
      then rel_err (ComponentsNotCombo (as_str obs))
      else and_then (effective_unit_id r) (\<lambda>_. Inr ())))))))"

section \<open>Validation of a relation set\<close>

text \<open>The local sets and maps of the loop; only lookups are made in them.\<close>

record relation_state =
  rs_observations :: "observation_id set"
  rs_observation_samples :: "observation_id \<Rightarrow> sample_id option"
  rs_unit_ids :: "string \<Rightarrow> observation_id option"
  rs_sample_targets :: "sample_id \<Rightarrow> target_id option"
  rs_sample_groups :: "sample_id \<Rightarrow> group_id option"

definition empty_relation_state :: relation_state where
  "empty_relation_state = \<lparr>rs_observations = {}, rs_observation_samples = Map.empty,
     rs_unit_ids = Map.empty, rs_sample_targets = Map.empty, rs_sample_groups = Map.empty\<rparr>"

text \<open>A sample's target (or group): the first one seen is kept, a different one is an error.\<close>

definition assign_unit ::
  "dag_ml_error \<Rightarrow> 's \<Rightarrow> 'u option \<Rightarrow> ('s \<Rightarrow> 'u option) \<Rightarrow> ('s \<Rightarrow> 'u option) result" where
  "assign_unit err s unit m =
     (case unit of
        None \<Rightarrow> Inr m
      | Some u \<Rightarrow> (case m s of
            Some previous \<Rightarrow> if previous \<noteq> u then fail err else Inr m
          | None \<Rightarrow> Inr (m(s \<mapsto> u))))"

definition relation_step :: "relation_state \<Rightarrow> sample_relation \<Rightarrow> relation_state result" where
  "relation_step st r =
     (let obs = sr_observation_id r; sid = sr_sample_id r in
      and_then (relation_validate r) (\<lambda>_.
      if obs \<in> rs_observations st then rel_err (DuplicateObservation (as_str obs))
      else and_then (effective_unit_id r) (\<lambda>u.
        case rs_unit_ids st u of
          Some previous \<Rightarrow> rel_err (SharedUnitId (as_str previous) (as_str obs) u)
        | None \<Rightarrow>
            and_then (assign_unit (CampaignValidation (RelationMsg (MultipleTargets (as_str sid)))) sid
              (sr_target_id r) (rs_sample_targets st)) (\<lambda>targets.
            and_then (assign_unit (CampaignValidation (RelationMsg (MultipleGroups (as_str sid)))) sid
              (sr_group_id r) (rs_sample_groups st)) (\<lambda>groups.
            Inr \<lparr>rs_observations = insert obs (rs_observations st),
                 rs_observation_samples = (rs_observation_samples st)(obs \<mapsto> sid),
                 rs_unit_ids = (rs_unit_ids st)(u \<mapsto> obs),
                 rs_sample_targets = targets, rs_sample_groups = groups\<rparr>)))))"

definition check_component ::
  "(observation_id \<Rightarrow> sample_id option) \<Rightarrow> sample_relation \<Rightarrow> observation_id set \<Rightarrow> observation_id
   \<Rightarrow> observation_id set result" where
  "check_component samples r seen part_obs =
     (let obs = as_str (sr_observation_id r) in
      if part_obs = sr_observation_id r then rel_err (ComboListsItself obs)
      else if part_obs \<in> seen then rel_err (ComboRepeatsComponent obs (as_str part_obs))
      else (case samples part_obs of
          None \<Rightarrow> rel_err (ComboMissingComponent obs (as_str part_obs))
        | Some s \<Rightarrow> if s \<noteq> sr_sample_id r
            then rel_err (ComboComponentSample obs (as_str part_obs) (as_str s) (as_str (sr_sample_id r)))
            else Inr (insert part_obs seen)))"

definition validate_combo_record ::
  "(observation_id \<Rightarrow> sample_id option) \<Rightarrow> sample_relation \<Rightarrow> unit result" where
  "validate_combo_record samples r =
     (let obs = as_str (sr_observation_id r) in
      if sr_unit_level r \<noteq> Combo then Inr ()
      else if component_observation_ids r = [] then rel_err (ComboWithoutComponents obs)
      else if derived_unit_id r = None then rel_err (ComboNeedsDerivedUnit obs)
      else and_then (case origin_sample_id r of
          Some origin \<Rightarrow> if origin \<noteq> sr_sample_id r
            then rel_err (ComboOriginDiffers obs (as_str origin) (as_str (sr_sample_id r))) else Inr ()
        | None \<Rightarrow> Inr ()) (\<lambda>_.
      and_then (try_fold (check_component samples r) {} (component_observation_ids r)) (\<lambda>_. Inr ())))"

definition relations_validate :: "sample_relation_set \<Rightarrow> unit result" where
  "relations_validate rs =
     and_then (try_fold relation_step empty_relation_state rs) (\<lambda>st.
       try_each (validate_combo_record (rs_observation_samples st)) rs)"

section \<open>Lookups\<close>

definition sample_for_observation :: "sample_relation_set \<Rightarrow> observation_id \<Rightarrow> sample_id option" where
  "sample_for_observation rs obs = map_option sr_sample_id (find (\<lambda>r. sr_observation_id r = obs) rs)"

definition target_for_sample :: "sample_relation_set \<Rightarrow> sample_id \<Rightarrow> target_id option" where
  "target_for_sample rs sid = Option.bind (find (\<lambda>r. sr_sample_id r = sid) rs) sr_target_id"

definition group_for_sample :: "sample_relation_set \<Rightarrow> sample_id \<Rightarrow> group_id option" where
  "group_for_sample rs sid = Option.bind (find (\<lambda>r. sr_sample_id r = sid) rs) sr_group_id"

definition observation_count_for_sample :: "sample_relation_set \<Rightarrow> sample_id \<Rightarrow> nat" where
  "observation_count_for_sample rs sid = length (filter (\<lambda>r. sr_sample_id r = sid) rs)"

definition excluded_sample_ids :: "sample_relation_set \<Rightarrow> sample_id btree_set" where
  "excluded_sample_ids rs = bs_collect (map sr_sample_id (filter excluded rs))"

definition units_of :: "(sample_relation \<Rightarrow> 'u option) \<Rightarrow> sample_relation_set \<Rightarrow> (sample_id, 'u) btree_map" where
  "units_of unit rs =
     bm_collect (List.map_filter (\<lambda>r. map_option (\<lambda>u. (sr_sample_id r, u)) (unit r)) rs)"

definition sample_targets :: "sample_relation_set \<Rightarrow> (sample_id, target_id) btree_map" where
  "sample_targets rs = units_of sr_target_id rs"

definition relation_sample_groups :: "sample_relation_set \<Rightarrow> (sample_id, group_id) btree_map" where
  "relation_sample_groups rs = units_of sr_group_id rs"

section \<open>The leakage check against a fold set\<close>

definition check_relation_in_fold_set ::
  "fold_set \<Rightarrow> leakage_unit_policy \<Rightarrow> sample_relation \<Rightarrow> unit result" where
  "check_relation_in_fold_set fs p r =
     (let obs = as_str (sr_observation_id r);
          known = (\<lambda>s. s \<in> set (sample_ids fs) \<or> s \<in> set (target_missing_sample_ids fs)) in
      if \<not> known (sr_sample_id r) then rel_err (RelationOutsideFoldSet obs (as_str (sr_sample_id r)))
      else and_then (case origin_sample_id r of
          Some origin \<Rightarrow> if \<not> known origin then rel_err (OriginOutsideFoldSet obs (as_str origin)) else Inr ()
        | None \<Rightarrow> Inr ()) (\<lambda>_.
      if forbid_origin_cross_fold p \<and> is_augmented r \<and> origin_sample_id r = None \<and>
          allow_without_origin \<notin> set (lp_unsafe_flags p)
      then rel_err (AugmentedNeedsOrigin obs)
      else if require_group_ids p \<and> sr_group_id r = None then rel_err (RelationGroupMissing obs)
      else Inr ()))"

definition validate_fold_set_groups_match_relations ::
  "fold_set \<Rightarrow> (sample_id, group_id) btree_map \<Rightarrow> unit result" where
  "validate_fold_set_groups_match_relations fs sample_to_group =
     try_each (\<lambda>(sid, fold_group). case bm_get sample_to_group sid of
         None \<Rightarrow> Inr ()
       | Some relation_group \<Rightarrow> if relation_group \<noteq> fold_group
           then rel_err (FoldGroupMismatch (as_str sid) (as_str relation_group) (as_str fold_group))
           else Inr ())
       (sample_groups fs)"

type_synonym partitions = "(sample_id, fold_partition) btree_map"

definition fold_partitions :: "fold_assignment \<Rightarrow> partitions" where
  "fold_partitions f =
     bm_collect (map (\<lambda>s. (s, TrainPartition)) (train_sample_ids f) @
       map (\<lambda>s. (s, ValidationPartition)) (validation_sample_ids f))"

definition check_origin :: "string \<Rightarrow> partitions \<Rightarrow> sample_relation \<Rightarrow> unit result" where
  "check_origin fid parts r =
     (case origin_sample_id r of
        None \<Rightarrow> Inr ()
      | Some origin \<Rightarrow> (case (bm_get parts (sr_sample_id r), bm_get parts origin) of
            (Some sample_part, Some origin_part) \<Rightarrow>
              if sample_part \<noteq> origin_part
              then rel_err (OriginLeak fid (as_str origin) (as_str (sr_sample_id r))) else Inr ()
          | _ \<Rightarrow> Inr ()))"

definition check_unit_partition ::
  "string \<Rightarrow> string \<Rightarrow> (sample_id, 'k ident) btree_map \<Rightarrow> ('k ident \<Rightarrow> fold_partition option)
   \<Rightarrow> sample_id \<times> fold_partition \<Rightarrow> ('k ident \<Rightarrow> fold_partition option) result" where
  "check_unit_partition fid label units seen entry =
     (let (sid, part) = entry in
      case bm_get units sid of
        None \<Rightarrow> rel_err (UnitMissing fid (as_str sid) label)
      | Some unit \<Rightarrow> (case seen unit of
            Some previous \<Rightarrow> if previous \<noteq> part then rel_err (UnitLeak fid label (as_str unit))
              else Inr (seen(unit \<mapsto> part))
          | None \<Rightarrow> Inr (seen(unit \<mapsto> part))))"

definition validate_unit_partitions ::
  "string \<Rightarrow> string \<Rightarrow> partitions \<Rightarrow> (sample_id, 'k ident) btree_map \<Rightarrow> unit result" where
  "validate_unit_partitions fid label parts units =
     and_then (try_fold (check_unit_partition fid label units) Map.empty parts) (\<lambda>_. Inr ())"

definition check_relations_in_fold ::
  "sample_relation_set \<Rightarrow> leakage_unit_policy \<Rightarrow> fold_assignment \<Rightarrow> unit result" where
  "check_relations_in_fold rs p f =
     (let parts = fold_partitions f; fid = as_str (fold_id f) in
      and_then (if forbid_origin_cross_fold p then try_each (check_origin fid parts) rs else Inr ()) (\<lambda>_.
      case lp_split_unit p of
        SplitTarget \<Rightarrow> validate_unit_partitions fid ''target'' parts (sample_targets rs)
      | SplitGroup \<Rightarrow> validate_unit_partitions fid ''group'' parts (relation_sample_groups rs)
      | _ \<Rightarrow> Inr ()))"

definition validate_against_fold_set ::
  "sample_relation_set \<Rightarrow> fold_set \<Rightarrow> leakage_unit_policy \<Rightarrow> unit result" where
  "validate_against_fold_set rs fs p =
     and_then (relations_validate rs) (\<lambda>_.
     and_then (fold_set_validate fs) (\<lambda>_.
     and_then (leakage_policy_validate p) (\<lambda>_.
     and_then (try_each (check_relation_in_fold_set fs p) rs) (\<lambda>_.
     and_then (validate_fold_set_groups_match_relations fs (relation_sample_groups rs)) (\<lambda>_.
     try_each (check_relations_in_fold rs p) (folds fs))))))"

section \<open>The canonical order of the fingerprint\<close>

definition compare_canonical ::
  "string \<times> sample_relation \<Rightarrow> string \<times> sample_relation \<Rightarrow> ordering" where
  "compare_canonical l r =
     then_with (ord_cmp (fst l) (fst r))
       (then_with (ord_cmp (as_str (sr_observation_id (snd l))) (as_str (sr_observation_id (snd r))))
         (ord_cmp (as_str (sr_sample_id (snd l))) (as_str (sr_sample_id (snd r)))))"

text \<open>The canonical records: each relation with its effective unit id, sorted; their bytes and the
  digest are parameters.\<close>

definition canonical_records :: "sample_relation_set \<Rightarrow> (string \<times> sample_relation) list result" where
  "canonical_records rs =
     and_then (try_map (\<lambda>r. and_then (effective_unit_id r) (\<lambda>u. Inr (u, r))) rs) (\<lambda>recs.
       Inr (sort_by compare_canonical recs))"

definition relations_fingerprint ::
  "((string \<times> sample_relation) list \<Rightarrow> bytes result) \<Rightarrow> digest \<Rightarrow> sample_relation_set \<Rightarrow> string result" where
  "relations_fingerprint to_vec sha256 rs =
     and_then (relations_validate rs) (\<lambda>_.
     and_then (canonical_records rs) (stable_json_fingerprint to_vec sha256))"

section \<open>The statistical grouping index\<close>

type_synonym group_index = "string \<times> (sample_id, sample_relation list) btree_map"

definition index_record ::
  "(sample_id, sample_relation list) btree_map \<Rightarrow> sample_relation
   \<Rightarrow> (sample_id, sample_relation list) btree_map" where
  "index_record m r = bm_insert (sr_sample_id r) (unwrap_or (bm_get m (sr_sample_id r)) [] @ [r]) m"

definition grouping_index :: "aggregation_grouping_key \<Rightarrow> sample_relation_set \<Rightarrow> group_index result" where
  "grouping_index key rs =
     and_then (grouping_key_validate key) (\<lambda>_.
       Inr (grouping_metadata_key key, foldl index_record [] rs))"

definition independent_unit :: "sample_id \<Rightarrow> string \<Rightarrow> string option \<Rightarrow> sample_relation \<Rightarrow> string option result" where
  "independent_unit sid key found r =
     and_then (ok_or (case Option.bind (bm_get (sr_metadata r) key) json_as_str of
          Some v \<Rightarrow> if is_blank v then None else Some v | None \<Rightarrow> None)
        (Err (OofValidation (NoIndependentUnit (as_str sid))))) (\<lambda>v.
     if option_ex (\<lambda>previous. previous \<noteq> v) found
     then fail (OofValidation (ConflictingIndependentUnits (as_str sid)))
     else Inr (Some v))"

definition index_group_for_sample :: "group_index \<Rightarrow> sample_id \<Rightarrow> group_id result" where
  "index_group_for_sample idx sid =
     and_then (ok_or (bm_get (snd idx) sid) (Err (OofValidation (NoAttestedRelation (as_str sid))))) (\<lambda>records.
     and_then (try_fold (independent_unit sid (fst idx)) None records) (\<lambda>found.
     case found of
       None \<Rightarrow> expect_failed ''indexed sample has at least one relation''
     | Some v \<Rightarrow> ident_new v))"

definition grouping_key_group_for_sample ::
  "aggregation_grouping_key \<Rightarrow> sample_relation_set \<Rightarrow> sample_id \<Rightarrow> group_id result" where
  "grouping_key_group_for_sample key rs sid =
     and_then (grouping_index key rs) (\<lambda>idx. index_group_for_sample idx sid)"

end
