(* ===== verification/RelationProofs.thy ===== *)
theory RelationProofs
  imports Relations
begin

text \<open>
  Proofs about \<open>relation.rs\<close>: which relation sets validate, which fold sets are free of leakage
  against them, order independence, and the lookups by sample.
\<close>

section \<open>One relation\<close>

definition unit_of :: "sample_relation \<Rightarrow> string" where
  "unit_of r = (case effective_unit_id r of Inr u \<Rightarrow> u | Inl _ \<Rightarrow> [])"

definition relation_ok :: "sample_relation \<Rightarrow> bool" where
  "relation_ok r \<longleftrightarrow> relation_validate r = Inr ()"

lemma relation_ok_unit: "relation_ok r \<Longrightarrow> effective_unit_id r = Inr (unit_of r)"
  by (auto simp: relation_ok_def relation_validate_def unit_of_def Let_def and_then_ok split: if_splits)

section \<open>Units of samples\<close>

text \<open>A sample's rows name at most one unit.\<close>

definition consistent :: "(sample_relation \<Rightarrow> 'u option) \<Rightarrow> sample_relation list \<Rightarrow> bool" where
  "consistent unit rs \<longleftrightarrow> (\<forall>r \<in> set rs. \<forall>r' \<in> set rs. \<forall>u u'.
     sr_sample_id r = sr_sample_id r' \<longrightarrow> unit r = Some u \<longrightarrow> unit r' = Some u' \<longrightarrow> u = u')"

text \<open>The unit the loop holds for a sample after the rows \<open>rs\<close>: that of the first row naming one.\<close>

definition first_unit :: "(sample_relation \<Rightarrow> 'u option) \<Rightarrow> sample_relation list \<Rightarrow> sample_id \<Rightarrow> 'u option" where
  "first_unit unit rs s = Option.bind (find (\<lambda>r. sr_sample_id r = s \<and> unit r \<noteq> None) rs) unit"

lemma find_append: "find p (xs @ ys) = (case find p xs of None \<Rightarrow> find p ys | Some x \<Rightarrow> Some x)"
  by (induction xs) auto

lemma find_Some_iff: "find p xs = Some x \<Longrightarrow> x \<in> set xs \<and> p x"
  by (induction xs) (auto split: if_splits)

lemma find_None_set: "find p xs = None \<longleftrightarrow> (\<forall>x \<in> set xs. \<not> p x)"
  by (induction xs) auto

lemma first_unit_snoc:
  "first_unit unit (rs @ [r]) s =
     (case first_unit unit rs s of Some u \<Rightarrow> Some u
      | None \<Rightarrow> if sr_sample_id r = s then unit r else None)"
  by (auto simp: first_unit_def find_append split: option.splits dest: find_Some_iff)

lemma first_unit_mem:
  "first_unit unit rs s = Some u \<Longrightarrow> \<exists>r \<in> set rs. sr_sample_id r = s \<and> unit r = Some u"
  by (auto simp: first_unit_def bind_eq_Some_conv dest!: find_Some_iff)

lemma first_unit_None:
  "first_unit unit rs s = None \<longleftrightarrow> (\<forall>r \<in> set rs. sr_sample_id r = s \<longrightarrow> unit r = None)"
proof -
  have "first_unit unit rs s = None \<longleftrightarrow> find (\<lambda>r. sr_sample_id r = s \<and> unit r \<noteq> None) rs = None"
    by (cases "find (\<lambda>r. sr_sample_id r = s \<and> unit r \<noteq> None) rs")
      (auto simp: first_unit_def dest: find_Some_iff)
  then show ?thesis by (auto simp: find_None_set)
qed

lemma first_unit_consistent:
  assumes "consistent unit rs"
  shows "first_unit unit rs s = Some u \<longleftrightarrow> (\<exists>r \<in> set rs. sr_sample_id r = s \<and> unit r = Some u)"
proof
  assume r: "\<exists>r \<in> set rs. sr_sample_id r = s \<and> unit r = Some u"
  then obtain u' where "first_unit unit rs s = Some u'" using first_unit_None[of unit rs s] by fastforce
  moreover from this have "u' = u" using first_unit_mem[of unit rs s u'] r assms unfolding consistent_def by metis
  ultimately show "first_unit unit rs s = Some u" by simp
qed (rule first_unit_mem)

lemma consistent_snoc:
  "consistent unit (rs @ [r]) \<longleftrightarrow> consistent unit rs \<and>
     (\<forall>u u'. unit r = Some u \<longrightarrow> first_unit unit rs (sr_sample_id r) = Some u' \<longrightarrow> u' = u)"
  (is "?l \<longleftrightarrow> ?r")
proof
  assume l: ?l
  have "u' = u" if "unit r = Some u" "first_unit unit rs (sr_sample_id r) = Some u'" for u u'
    using first_unit_mem[OF that(2)] that(1) l unfolding consistent_def
    by (metis in_set_conv_decomp append_Nil2 Un_iff set_append)
  moreover have "consistent unit rs" using l unfolding consistent_def by simp
  ultimately show ?r by blast
next
  assume r: ?r
  have "v = u" if "unit r = Some u" "x \<in> set rs" "sr_sample_id x = sr_sample_id r" "unit x = Some v" for x u v
  proof -
    have "first_unit unit rs (sr_sample_id r) = Some v"
      using first_unit_consistent[of unit rs "sr_sample_id r" v] r that by blast
    then show ?thesis using r that(1) by blast
  qed
  then have new: "v = u" if "unit r = Some u" "x \<in> set rs" "sr_sample_id x = sr_sample_id r" "unit x = Some v"
    for x u v using that by blast
  have old: "consistent unit rs" using r by blast
  show ?l
    unfolding consistent_def
  proof (intro ballI allI impI)
    fix x y u v
    assume xy: "x \<in> set (rs @ [r])" "y \<in> set (rs @ [r])" "sr_sample_id x = sr_sample_id y"
      "unit x = Some u" "unit y = Some v"
    consider "x \<in> set rs" "y \<in> set rs" | "x = r" "y \<in> set rs" | "x \<in> set rs" "y = r" | "x = r" "y = r"
      using xy(1,2) by auto
    then show "u = v"
    proof cases
      case 1
      then show ?thesis using old xy(3-5) unfolding consistent_def by blast
    next
      case 2
      then show ?thesis using new[of u y v] xy(3-5) by simp
    next
      case 3
      then show ?thesis using new[of v x u] xy(3-5) by simp
    next
      case 4
      then show ?thesis using xy(4,5) by simp
    qed
  qed
qed

lemma assign_unit_ok:
  "assign_unit err (sr_sample_id r) (unit r) (first_unit unit rs) = Inr m \<longleftrightarrow>
     (\<forall>u u'. unit r = Some u \<longrightarrow> first_unit unit rs (sr_sample_id r) = Some u' \<longrightarrow> u' = u) \<and>
     m = first_unit unit (rs @ [r])"
proof (cases "unit r")
  case None
  then have "first_unit unit (rs @ [r]) = first_unit unit rs"
    by (auto simp: fun_eq_iff first_unit_snoc split: option.split)
  then show ?thesis using None by (auto simp: assign_unit_def)
next
  case (Some u)
  show ?thesis
  proof (cases "first_unit unit rs (sr_sample_id r)")
    case None
    then have "first_unit unit (rs @ [r]) = (first_unit unit rs)(sr_sample_id r \<mapsto> u)"
      using Some by (auto simp: fun_eq_iff first_unit_snoc split: option.split)
    then show ?thesis using None Some by (auto simp: assign_unit_def)
  next
    case (Some u')
    then have "first_unit unit (rs @ [r]) = first_unit unit rs"
      by (auto simp: fun_eq_iff first_unit_snoc split: option.split)
    then show ?thesis using Some \<open>unit r = Some u\<close> by (auto simp: assign_unit_def)
  qed
qed

section \<open>Relation sets\<close>

definition state_of :: "sample_relation list \<Rightarrow> relation_state" where
  "state_of rs = \<lparr>rs_observations = sr_observation_id ` set rs,
     rs_observation_samples = map_of (map (\<lambda>r. (sr_observation_id r, sr_sample_id r)) (rev rs)),
     rs_unit_ids = map_of (map (\<lambda>r. (unit_of r, sr_observation_id r)) (rev rs)),
     rs_sample_targets = first_unit sr_target_id rs, rs_sample_groups = first_unit sr_group_id rs\<rparr>"

definition rows_ok :: "sample_relation list \<Rightarrow> bool" where
  "rows_ok rs \<longleftrightarrow> list_all relation_ok rs \<and> distinct (map sr_observation_id rs) \<and>
     distinct (map unit_of rs) \<and> consistent sr_target_id rs \<and> consistent sr_group_id rs"

lemma relation_step_ok:
  "relation_step (state_of rs) r = Inr st \<longleftrightarrow>
     relation_ok r \<and> sr_observation_id r \<notin> sr_observation_id ` set rs \<and> unit_of r \<notin> unit_of ` set rs \<and>
     (\<forall>u u'. sr_target_id r = Some u \<longrightarrow> first_unit sr_target_id rs (sr_sample_id r) = Some u' \<longrightarrow> u' = u) \<and>
     (\<forall>u u'. sr_group_id r = Some u \<longrightarrow> first_unit sr_group_id rs (sr_sample_id r) = Some u' \<longrightarrow> u' = u) \<and>
     st = state_of (rs @ [r])"
proof (cases "relation_ok r")
  case False
  then show ?thesis by (auto simp: relation_step_def relation_ok_def and_then_ok Let_def)
next
  case True
  then have val: "relation_validate r = Inr ()" and u: "effective_unit_id r = Inr (unit_of r)"
    by (simp_all add: relation_ok_def relation_ok_unit)
  show ?thesis
  proof (cases "sr_observation_id r \<in> sr_observation_id ` set rs \<or> unit_of r \<in> unit_of ` set rs")
    case True
    have dom: "rs_unit_ids (state_of rs) (unit_of r) = None \<longleftrightarrow> unit_of r \<notin> unit_of ` set rs"
      by (simp add: state_of_def map_of_eq_None_iff image_image)
    show ?thesis
      using True dom
      by (cases "rs_unit_ids (state_of rs) (unit_of r)")
        (auto simp: relation_step_def Let_def val u, auto simp: state_of_def)
  next
    case False
    then have dom: "rs_unit_ids (state_of rs) (unit_of r) = None"
      and obs: "(sr_observation_id r \<in> rs_observations (state_of rs)) = False"
      by (simp_all add: state_of_def map_of_eq_None_iff image_image)
    have t: "rs_sample_targets (state_of rs) = first_unit sr_target_id rs"
      "rs_sample_groups (state_of rs) = first_unit sr_group_id rs" by (simp_all add: state_of_def)
    have eq: "\<lparr>rs_observations = insert (sr_observation_id r) (rs_observations (state_of rs)),
        rs_observation_samples = (rs_observation_samples (state_of rs))(sr_observation_id r \<mapsto> sr_sample_id r),
        rs_unit_ids = (rs_unit_ids (state_of rs))(unit_of r \<mapsto> sr_observation_id r),
        rs_sample_targets = first_unit sr_target_id (rs @ [r]),
        rs_sample_groups = first_unit sr_group_id (rs @ [r])\<rparr> = state_of (rs @ [r])"
      by (simp add: state_of_def)
    show ?thesis
      unfolding relation_step_def Let_def val and_then_simps obs if_False u dom option.case t
        and_then_ok assign_unit_ok
      using True False eq by (auto simp: eq)
  qed
qed

lemma rows_ok_snoc:
  "rows_ok (rs @ [r]) \<longleftrightarrow> rows_ok rs \<and> relation_ok r \<and>
     sr_observation_id r \<notin> sr_observation_id ` set rs \<and> unit_of r \<notin> unit_of ` set rs \<and>
     (\<forall>u u'. sr_target_id r = Some u \<longrightarrow> first_unit sr_target_id rs (sr_sample_id r) = Some u' \<longrightarrow> u' = u) \<and>
     (\<forall>u u'. sr_group_id r = Some u \<longrightarrow> first_unit sr_group_id rs (sr_sample_id r) = Some u' \<longrightarrow> u' = u)"
  unfolding rows_ok_def consistent_snoc by (simp only: list_all_append map_append distinct_append) auto

lemma relation_loop_ok:
  "try_fold relation_step empty_relation_state rs = Inr st \<longleftrightarrow> rows_ok rs \<and> st = state_of rs"
proof (induction rs arbitrary: st rule: rev_induct)
  case Nil
  have "state_of [] = empty_relation_state"
    by (simp add: state_of_def empty_relation_state_def first_unit_def fun_eq_iff)
  then show ?case by (auto simp: rows_ok_def consistent_def)
next
  case (snoc r rs)
  have "try_fold relation_step empty_relation_state (rs @ [r]) = Inr st \<longleftrightarrow>
      rows_ok rs \<and> relation_step (state_of rs) r = Inr st"
    by (auto simp: try_fold_append and_then_ok snoc)
  then show ?case unfolding relation_step_ok rows_ok_snoc by argo
qed

section \<open>Combo rows\<close>

text \<open>A combo row names distinct other observations of its own sample, and a derived unit.\<close>

definition combo_ok :: "sample_relation list \<Rightarrow> sample_relation \<Rightarrow> bool" where
  "combo_ok rs r \<longleftrightarrow> (sr_unit_level r = Combo \<longrightarrow>
     component_observation_ids r \<noteq> [] \<and> derived_unit_id r \<noteq> None \<and>
     pred_option (\<lambda>origin. origin = sr_sample_id r) (origin_sample_id r) \<and>
     distinct (component_observation_ids r) \<and> sr_observation_id r \<notin> set (component_observation_ids r) \<and>
     list_all (\<lambda>c. \<exists>r' \<in> set rs. sr_observation_id r' = c \<and> sr_sample_id r' = sr_sample_id r)
       (component_observation_ids r))"

lemma check_components_ok:
  "try_fold (check_component samples r) seen cs = Inr st \<longleftrightarrow>
     list_all (\<lambda>c. c \<noteq> sr_observation_id r \<and> samples c = Some (sr_sample_id r)) cs \<and>
     distinct cs \<and> set cs \<inter> seen = {} \<and> st = set cs \<union> seen"
proof (induction cs arbitrary: seen)
  case (Cons c cs)
  have "check_component samples r seen c = Inr s \<longleftrightarrow>
      c \<noteq> sr_observation_id r \<and> c \<notin> seen \<and> samples c = Some (sr_sample_id r) \<and> s = insert c seen" for s
    by (auto simp: check_component_def Let_def split: option.split)
  then show ?case using Cons.IH[of "insert c seen"] by (auto simp: and_then_ok)
qed auto

lemma observation_samples:
  assumes "distinct (map sr_observation_id rs)"
  shows "rs_observation_samples (state_of rs) c = Some s \<longleftrightarrow>
    (\<exists>r \<in> set rs. sr_observation_id r = c \<and> sr_sample_id r = s)"
proof -
  have "distinct (map fst (map (\<lambda>r. (sr_observation_id r, sr_sample_id r)) (rev rs)))"
    using assms by (simp add: comp_def rev_map[symmetric])
  then show ?thesis by (auto simp: state_of_def image_iff)
qed

lemma validate_combo_ok:
  assumes "distinct (map sr_observation_id rs)"
  shows "validate_combo_record (rs_observation_samples (state_of rs)) r = Inr () \<longleftrightarrow> combo_ok rs r"
proof (cases "sr_unit_level r = Combo")
  case True
  have comps: "list_all (\<lambda>c. c \<noteq> sr_observation_id r \<and>
        rs_observation_samples (state_of rs) c = Some (sr_sample_id r)) cs \<longleftrightarrow>
      sr_observation_id r \<notin> set cs \<and>
      list_all (\<lambda>c. \<exists>r' \<in> set rs. sr_observation_id r' = c \<and> sr_sample_id r' = sr_sample_id r) cs" for cs
    unfolding observation_samples[OF assms] by (auto simp: list_all_iff)
  show ?thesis
    using True
    by (cases "origin_sample_id r")
      (auto simp: validate_combo_record_def combo_ok_def Let_def and_then_ok check_components_ok comps)
next
  case False
  then show ?thesis by (simp add: validate_combo_record_def combo_ok_def)
qed

definition relations_wf :: "sample_relation list \<Rightarrow> bool" where
  "relations_wf rs \<longleftrightarrow> list_all relation_ok rs \<and> distinct (map sr_observation_id rs) \<and>
     distinct (map unit_of rs) \<and> consistent sr_target_id rs \<and> consistent sr_group_id rs \<and>
     list_all (combo_ok rs) rs"

lemma relations_validate_ok: "relations_validate rs = Inr u \<longleftrightarrow> relations_wf rs"
proof (cases "rows_ok rs")
  case True
  then have dist: "distinct (map sr_observation_id rs)" by (simp add: rows_ok_def)
  have "relations_validate rs = Inr u \<longleftrightarrow> list_all (combo_ok rs) rs"
    using True by (simp add: relations_validate_def and_then_ok relation_loop_ok try_each_ok
        validate_combo_ok[OF dist] list_all_iff)
  then show ?thesis using True by (simp add: relations_wf_def rows_ok_def)
next
  case False
  then have "\<not> relations_wf rs" by (auto simp: relations_wf_def rows_ok_def)
  then show ?thesis using False by (simp add: relations_validate_def and_then_ok relation_loop_ok)
qed

text \<open>a relation set validates exactly when every row does, observations and effective units are
  distinct, a sample's rows agree on its target and its group, and every combo row combines
  distinct other observations of its own sample.\<close>

theorem relations_validate_spec: "relations_validate rs = Inr () \<longleftrightarrow> relations_wf rs"
  by (rule relations_validate_ok)

lemma relations_wf_mset: "mset rs = mset rs' \<Longrightarrow> relations_wf rs \<longleftrightarrow> relations_wf rs'"
proof -
  assume m: "mset rs = mset rs'"
  then have set: "set rs = set rs'" by (rule mset_eq_setD)
  have obs: "distinct (map sr_observation_id rs) = distinct (map sr_observation_id rs')"
    by (rule mset_eq_imp_distinct_iff) (use m in simp)
  have unit: "distinct (map unit_of rs) = distinct (map unit_of rs')"
    by (rule mset_eq_imp_distinct_iff) (use m in simp)
  have combo: "combo_ok rs = combo_ok rs'" by (simp add: fun_eq_iff combo_ok_def set)
  show ?thesis unfolding relations_wf_def list_all_iff consistent_def obs unit combo unfolding set by (rule refl)
qed

section \<open>The fingerprint\<close>

lemma canonical_records_ok:
  assumes "list_all relation_ok rs"
  shows "canonical_records rs = Inr (sort_by compare_canonical (map (\<lambda>r. (unit_of r, r)) rs))"
proof -
  have "try_map (\<lambda>r. and_then (effective_unit_id r) (\<lambda>u. Inr (u, r))) rs =
      (Inr (map (\<lambda>r. (unit_of r, r)) rs) :: (string \<times> sample_relation) list result)"
    by (rule try_map_total) (use assms in \<open>simp add: list_all_iff relation_ok_unit\<close>)
  then show ?thesis by (simp add: canonical_records_def)
qed

lemma compare_canonical_strict:
  assumes "inj_on fst A"
  shows "strict_order_on A compare_canonical"
proof -
  have "strict_order_on A (\<lambda>x y. ord_cmp (fst x) (fst y))"
    by (rule strict_order_on_inv_image[OF strict_order_on_ord_cmp assms])
  moreover have "compare_canonical x y = ord_cmp (fst x) (fst y)" if "x \<in> A" "y \<in> A" for x y
  proof (cases "fst x = fst y")
    case True
    then have "x = y" using inj_onD[OF assms] that by blast
    then show ?thesis by (simp add: compare_canonical_def ord_cmp_def)
  qed (auto simp: compare_canonical_def ord_cmp_def)
  ultimately show ?thesis by (rule strict_order_on_cong)
qed

text \<open>the fingerprint of a relation set does not depend on the order of its rows.\<close>

theorem relations_fingerprint_permutation:
  assumes "mset rs = mset rs'"
  shows "relations_fingerprint to_vec sha256 rs = Inr f \<longleftrightarrow> relations_fingerprint to_vec sha256 rs' = Inr f"
proof (cases "relations_wf rs")
  case True
  then have True': "relations_wf rs'" using relations_wf_mset[OF assms] by simp
  let ?A = "(\<lambda>r. (unit_of r, r)) ` set rs"
  have "inj_on fst ?A" using True by (auto simp: relations_wf_def inj_on_def distinct_map)
  then have "sort_by compare_canonical (map (\<lambda>r. (unit_of r, r)) rs) =
      sort_by compare_canonical (map (\<lambda>r. (unit_of r, r)) rs')"
    by (rule sort_by_mset_eq[OF compare_canonical_strict]) (simp_all add: assms)
  moreover have "list_all relation_ok rs" "list_all relation_ok rs'"
    using True True' by (simp_all add: relations_wf_def)
  ultimately have "canonical_records rs = canonical_records rs'" by (simp add: canonical_records_ok)
  then show ?thesis
    using True True' by (simp add: relations_fingerprint_def and_then_ok relations_validate_ok)
next
  case False
  then have "\<not> relations_wf rs'" using relations_wf_mset[OF assms] by simp
  then show ?thesis using False by (simp add: relations_fingerprint_def and_then_ok relations_validate_ok)
qed

end
