(* ===== verification/RelationLeak.thy ===== *)
theory RelationLeak
  imports RelationProofs
begin

text \<open>
  The leakage check of \<open>relation.rs\<close>: \<open>validate_against_fold_set\<close> accepts exactly the fold sets
  that keep every origin, and every target or group where the policy splits by it, on one side of
  each fold.
\<close>

section \<open>The unit maps\<close>

lemma units_of_get:
  assumes "consistent unit rs"
  shows "bm_get (units_of unit rs) s = Some u \<longleftrightarrow> (\<exists>r \<in> set rs. sr_sample_id r = s \<and> unit r = Some u)"
proof -
  let ?kvs = "List.map_filter (\<lambda>r. map_option (\<lambda>u. (sr_sample_id r, u)) (unit r)) rs"
  have mem: "(s, u) \<in> set ?kvs \<longleftrightarrow> (\<exists>r \<in> set rs. sr_sample_id r = s \<and> unit r = Some u)" for s u
    by (auto simp: map_filter_def image_iff)
  have get: "bm_get (units_of unit rs) s = map_of (rev ?kvs) s" for s
    by (simp add: units_of_def bm_get_collect)
  show ?thesis
  proof
    assume "bm_get (units_of unit rs) s = Some u"
    then have "(s, u) \<in> set (rev ?kvs)" unfolding get by (rule map_of_SomeD)
    then show "\<exists>r \<in> set rs. sr_sample_id r = s \<and> unit r = Some u" using mem by simp
  next
    assume r: "\<exists>r \<in> set rs. sr_sample_id r = s \<and> unit r = Some u"
    then have "s \<in> fst ` set (rev ?kvs)" using mem by force
    then obtain u' where u': "map_of (rev ?kvs) s = Some u'" by (metis map_of_eq_None_iff option.exhaust)
    then have "(s, u') \<in> set (rev ?kvs)" by (rule map_of_SomeD)
    then have "\<exists>r \<in> set rs. sr_sample_id r = s \<and> unit r = Some u'" using mem by simp
    then have "u' = u" using r assms unfolding consistent_def by metis
    then show "bm_get (units_of unit rs) s = Some u" using u' get by simp
  qed
qed

section \<open>The two sides of a fold\<close>

lemma fold_partitions_get:
  assumes "set (train_sample_ids f) \<inter> set (validation_sample_ids f) = {}"
  shows "bm_get (fold_partitions f) s = Some p \<longleftrightarrow>
    (p = TrainPartition \<and> s \<in> set (train_sample_ids f)) \<or>
    (p = ValidationPartition \<and> s \<in> set (validation_sample_ids f))"
proof -
  have const: "map_of (map (\<lambda>s. (s, q)) xs) s = (if s \<in> set xs then Some q else None)"
    for q :: fold_partition and xs s by (induction xs) auto
  have "bm_get (fold_partitions f) s =
      (if s \<in> set (validation_sample_ids f) then Some ValidationPartition
       else if s \<in> set (train_sample_ids f) then Some TrainPartition else None)"
    by (simp add: fold_partitions_def bm_get_collect rev_map const map_add_def)
  then show ?thesis using assms by auto
qed

lemma bm_entry_iff: "bm_ok m \<Longrightarrow> (k, v) \<in> set m \<longleftrightarrow> bm_get m k = Some v"
  by (simp add: bm_get_def bm_ok_distinct)

lemma fold_partitions_mem:
  assumes "set (train_sample_ids f) \<inter> set (validation_sample_ids f) = {}"
  shows "(s, p) \<in> set (fold_partitions f) \<longleftrightarrow>
    (p = TrainPartition \<and> s \<in> set (train_sample_ids f)) \<or>
    (p = ValidationPartition \<and> s \<in> set (validation_sample_ids f))"
  using bm_entry_iff[of "fold_partitions f" s p] fold_partitions_get[OF assms]
  by (simp add: fold_partitions_def)

text \<open>Two samples on the two sides of a fold.\<close>

definition across :: "fold_assignment \<Rightarrow> sample_id \<Rightarrow> sample_id \<Rightarrow> bool" where
  "across f s s' \<longleftrightarrow>
     s \<in> set (train_sample_ids f) \<and> s' \<in> set (validation_sample_ids f) \<or>
     s' \<in> set (train_sample_ids f) \<and> s \<in> set (validation_sample_ids f)"

lemma check_origin_ok:
  assumes "set (train_sample_ids f) \<inter> set (validation_sample_ids f) = {}"
  shows "check_origin fid (fold_partitions f) r = Inr () \<longleftrightarrow>
    \<not> option_ex (across f (sr_sample_id r)) (origin_sample_id r)"
proof (cases "origin_sample_id r")
  case (Some origin)
  let ?P = "bm_get (fold_partitions f)"
  have "(case (?P (sr_sample_id r), ?P origin) of (Some p, Some q) \<Rightarrow> p = q | _ \<Rightarrow> True) \<longleftrightarrow>
      \<not> across f (sr_sample_id r) origin"
  proof (cases "?P (sr_sample_id r)")
    case None
    then have "sr_sample_id r \<notin> set (train_sample_ids f) \<union> set (validation_sample_ids f)"
      using fold_partitions_get[OF assms, of "sr_sample_id r"] by auto
    then show ?thesis using None by (auto simp: across_def)
  next
    case (Some p)
    note p = this
    show ?thesis
    proof (cases "?P origin")
      case None
      then have "origin \<notin> set (train_sample_ids f) \<union> set (validation_sample_ids f)"
        using fold_partitions_get[OF assms, of origin] by auto
      then show ?thesis using None p by (auto simp: across_def)
    next
      case (Some q)
      then show ?thesis
        using p assms fold_partitions_get[OF assms, of "sr_sample_id r" p] fold_partitions_get[OF assms, of origin q]
        by (cases p; cases q) (auto simp: across_def)
    qed
  qed
  then show ?thesis
    using Some by (auto simp: check_origin_def option_ex_def split: option.splits)
qed (simp add: check_origin_def option_ex_def)

section \<open>Units on one side\<close>

definition one_sided :: "(sample_id \<Rightarrow> 'u option) \<Rightarrow> (sample_id \<times> fold_partition) list \<Rightarrow> bool" where
  "one_sided units es \<longleftrightarrow> (\<forall>(s, p) \<in> set es. units s \<noteq> None) \<and>
     (\<forall>(s, p) \<in> set es. \<forall>(s', p') \<in> set es. units s = units s' \<longrightarrow> p = p')"

definition seen_of ::
  "(sample_id \<Rightarrow> 'u option) \<Rightarrow> (sample_id \<times> fold_partition) list \<Rightarrow> 'u \<Rightarrow> fold_partition option" where
  "seen_of units es = map_of (rev (map (\<lambda>(s, p). (the (units s), p)) es))"

lemma seen_of_mem: "seen_of units es u = Some p \<Longrightarrow> \<exists>s. (s, p) \<in> set es \<and> the (units s) = u"
  unfolding seen_of_def by (drule map_of_SomeD) auto

lemma seen_of_None: "seen_of units es u = None \<longleftrightarrow> (\<forall>(s, p) \<in> set es. the (units s) \<noteq> u)"
  by (auto simp: seen_of_def map_of_eq_None_iff split_beta image_iff)

lemma one_sided_snoc:
  "one_sided units (es @ [(s, p)]) \<longleftrightarrow> one_sided units es \<and> units s \<noteq> None \<and>
     (\<forall>q. seen_of units es (the (units s)) = Some q \<longrightarrow> q = p)"
  (is "?l \<longleftrightarrow> ?r")
proof
  assume l: ?l
  have "q = p" if q: "seen_of units es (the (units s)) = Some q" for q
  proof -
    obtain s' where "(s', q) \<in> set es" "the (units s') = the (units s)" using seen_of_mem[OF q] by blast
    moreover from this have "units s' \<noteq> None" "units s \<noteq> None" using l by (auto simp: one_sided_def)
    ultimately show ?thesis using l by (auto simp: one_sided_def)
  qed
  then show ?r using l by (auto simp: one_sided_def)
next
  assume r: ?r
  have "p' = p" if mem: "(s', p') \<in> set es" and eq: "units s' = units s" for s' p'
  proof -
    obtain q where q: "seen_of units es (the (units s)) = Some q"
      using mem eq seen_of_None[of units es "the (units s)"] by (cases "seen_of units es (the (units s))") auto
    obtain s'' where "(s'', q) \<in> set es" "the (units s'') = the (units s)" using seen_of_mem[OF q] by blast
    moreover from this have "units s'' = units s" using r by (auto simp: one_sided_def)
    ultimately have "q = p'" using r mem eq by (fastforce simp: one_sided_def)
    then show ?thesis using r q by blast
  qed
  then show ?l using r by (fastforce simp: one_sided_def)
qed

lemma check_unit_partitions_ok:
  "try_fold (check_unit_partition fid label units) Map.empty es = Inr m \<longleftrightarrow>
     one_sided (bm_get units) es \<and> m = seen_of (bm_get units) es"
proof (induction es arbitrary: m rule: rev_induct)
  case Nil
  then show ?case by (auto simp: one_sided_def seen_of_def)
next
  case (snoc e es)
  obtain s p where e: "e = (s, p)" by (cases e)
  have "try_fold (check_unit_partition fid label units) Map.empty (es @ [e]) = Inr m \<longleftrightarrow>
      one_sided (bm_get units) es \<and> check_unit_partition fid label units (seen_of (bm_get units) es) e = Inr m"
    by (auto simp: try_fold_append and_then_ok snoc)
  moreover have "check_unit_partition fid label units (seen_of (bm_get units) es) e = Inr m \<longleftrightarrow>
      bm_get units s \<noteq> None \<and> (\<forall>q. seen_of (bm_get units) es (the (bm_get units s)) = Some q \<longrightarrow> q = p) \<and>
      m = seen_of (bm_get units) (es @ [e])"
    by (auto simp: check_unit_partition_def e seen_of_def split: option.split)
  ultimately show ?case unfolding e one_sided_snoc by blast
qed

definition split_by :: "(sample_id \<Rightarrow> 'u option) \<Rightarrow> fold_assignment \<Rightarrow> bool" where
  "split_by units f \<longleftrightarrow>
     (\<forall>s \<in> set (train_sample_ids f) \<union> set (validation_sample_ids f). units s \<noteq> None) \<and>
     (\<forall>t \<in> set (train_sample_ids f). \<forall>v \<in> set (validation_sample_ids f). units t \<noteq> units v)"

lemma validate_unit_partitions_ok:
  assumes "set (train_sample_ids f) \<inter> set (validation_sample_ids f) = {}"
  shows "validate_unit_partitions fid label (fold_partitions f) units = Inr () \<longleftrightarrow> split_by (bm_get units) f"
proof -
  note mem = fold_partitions_mem[OF assms]
  have "one_sided (bm_get units) (fold_partitions f) \<longleftrightarrow> split_by (bm_get units) f"
  proof
    assume l: "one_sided (bm_get units) (fold_partitions f)"
    have "bm_get units s \<noteq> None" if "(s, p) \<in> set (fold_partitions f)" for s p
      using l that by (auto simp: one_sided_def)
    moreover have "p = q" if "(s, p) \<in> set (fold_partitions f)" "(s', q) \<in> set (fold_partitions f)"
      "bm_get units s = bm_get units s'" for s p s' q
      using l that by (fastforce simp: one_sided_def)
    ultimately show "split_by (bm_get units) f" unfolding split_by_def mem by blast
  next
    assume r: "split_by (bm_get units) f"
    have "bm_get units s \<noteq> None" if "(s, p) \<in> set (fold_partitions f)" for s p
      using r that unfolding split_by_def mem by blast
    moreover have "p = q" if "(s, p) \<in> set (fold_partitions f)" "(s', q) \<in> set (fold_partitions f)"
      "bm_get units s = bm_get units s'" for s p s' q
      using r that unfolding split_by_def mem by (cases p; cases q) metis+
    ultimately show "one_sided (bm_get units) (fold_partitions f)" by (auto simp: one_sided_def)
  qed
  then show ?thesis by (simp add: validate_unit_partitions_def and_then_ok check_unit_partitions_ok)
qed

section \<open>The check\<close>

definition row_in_fold_set :: "fold_set \<Rightarrow> leakage_unit_policy \<Rightarrow> sample_relation \<Rightarrow> bool" where
  "row_in_fold_set fs p r \<longleftrightarrow>
     sr_sample_id r \<in> set (sample_ids fs) \<union> set (target_missing_sample_ids fs) \<and>
     pred_option (\<lambda>s. s \<in> set (sample_ids fs) \<union> set (target_missing_sample_ids fs)) (origin_sample_id r) \<and>
     \<not> (forbid_origin_cross_fold p \<and> is_augmented r \<and> origin_sample_id r = None \<and>
        allow_without_origin \<notin> set (lp_unsafe_flags p)) \<and>
     \<not> (require_group_ids p \<and> sr_group_id r = None)"

lemma check_relation_in_fold_set_ok:
  "check_relation_in_fold_set fs p r = Inr () \<longleftrightarrow> row_in_fold_set fs p r"
  by (cases "origin_sample_id r") (auto simp: check_relation_in_fold_set_def row_in_fold_set_def Let_def)

definition groups_agree :: "fold_set \<Rightarrow> sample_relation list \<Rightarrow> bool" where
  "groups_agree fs rs \<longleftrightarrow> list_all (\<lambda>(s, g). pred_option (\<lambda>g'. g' = g) (bm_get (relation_sample_groups rs) s))
     (sample_groups fs)"

lemma groups_match_ok:
  "validate_fold_set_groups_match_relations fs (relation_sample_groups rs) = Inr u \<longleftrightarrow> groups_agree fs rs"
proof -
  have "(case bm_get m s of None \<Rightarrow> Inr () | Some g' \<Rightarrow> if g' \<noteq> g then rel_err (e g') else Inr ()) = (Inr () :: unit result)
      \<longleftrightarrow> pred_option (\<lambda>g'. g' = g) (bm_get m s)" for m :: "(sample_id, group_id) btree_map" and s g e
    by (cases "bm_get m s") simp_all
  then show ?thesis
    by (simp add: validate_fold_set_groups_match_relations_def groups_agree_def try_each_ok list_all_iff split_beta)
qed

definition no_leak_in_fold :: "sample_relation list \<Rightarrow> leakage_unit_policy \<Rightarrow> fold_assignment \<Rightarrow> bool" where
  "no_leak_in_fold rs p f \<longleftrightarrow>
     (forbid_origin_cross_fold p \<longrightarrow>
       list_all (\<lambda>r. \<not> option_ex (across f (sr_sample_id r)) (origin_sample_id r)) rs) \<and>
     (case lp_split_unit p of
        SplitTarget \<Rightarrow> split_by (bm_get (sample_targets rs)) f
      | SplitGroup \<Rightarrow> split_by (bm_get (relation_sample_groups rs)) f
      | _ \<Rightarrow> True)"

lemma check_relations_in_fold_ok:
  assumes "set (train_sample_ids f) \<inter> set (validation_sample_ids f) = {}"
  shows "check_relations_in_fold rs p f = Inr () \<longleftrightarrow> no_leak_in_fold rs p f"
  by (cases "lp_split_unit p")
    (simp_all add: check_relations_in_fold_def no_leak_in_fold_def Let_def and_then_ok try_each_ok
      check_origin_ok[OF assms] validate_unit_partitions_ok[OF assms] list_all_iff)

lemma leakage_policy_ok:
  "leakage_policy_validate p = Inr u \<longleftrightarrow>
     (lp_split_unit p = SplitObservation \<longrightarrow> allow_observation_split_with_shared_target p) \<and>
     (require_group_ids p \<longrightarrow> lp_split_unit p = SplitGroup)"
  by (auto simp: leakage_policy_validate_def)

lemma validate_against_fold_set_ok:
  "validate_against_fold_set rs fs p = Inr u \<longleftrightarrow>
     relations_wf rs \<and> fold_set_wf fs \<and> leakage_policy_validate p = Inr () \<and>
     list_all (row_in_fold_set fs p) rs \<and> groups_agree fs rs \<and> list_all (no_leak_in_fold rs p) (folds fs)"
proof (cases "fold_set_wf fs")
  case True
  then have "\<forall>f \<in> set (folds fs). check_relations_in_fold rs p f = Inr () \<longleftrightarrow> no_leak_in_fold rs p f"
    by (auto simp: fold_set_wf_def fold_ok_def intro!: check_relations_in_fold_ok)
  then show ?thesis
    using True by (auto simp: validate_against_fold_set_def and_then_ok relations_validate_ok fold_set_validate_ok
        try_each_ok check_relation_in_fold_set_ok groups_match_ok list_all_iff)
next
  case False
  then show ?thesis by (simp add: validate_against_fold_set_def and_then_ok fold_set_validate_ok)
qed

text \<open>C25: \<open>validate_against_fold_set\<close> accepts exactly when the relations, the fold set and the policy
  are valid, every row and origin is a known sample, fold-set groups agree with the relations, and
  no fold has an origin, or a target or group where the policy splits by it, on both sides.\<close>

theorem validate_against_fold_set_spec:
  "validate_against_fold_set rs fs p = Inr () \<longleftrightarrow>
     relations_wf rs \<and> fold_set_wf fs \<and> leakage_policy_validate p = Inr () \<and>
     list_all (row_in_fold_set fs p) rs \<and> groups_agree fs rs \<and> list_all (no_leak_in_fold rs p) (folds fs)"
  by (rule validate_against_fold_set_ok)

text \<open>C26: after the check, two rows whose samples are on the two sides of a fold never share a group
  when the policy splits by group and never share a target when it splits by target. When origins may
  not cross folds, neither row is the origin of the other, and the two share no origin that is itself a
  training or validation sample of the fold. (An origin outside the fold is not compared at all.)\<close>

theorem validated_relations_no_leak:
  assumes "validate_against_fold_set rs fs p = Inr ()" and "f \<in> set (folds fs)"
    and "r \<in> set rs" "r' \<in> set rs" "across f (sr_sample_id r) (sr_sample_id r')"
  shows "(lp_split_unit p = SplitGroup \<longrightarrow> sr_group_id r = None \<or> sr_group_id r \<noteq> sr_group_id r') \<and>
    (lp_split_unit p = SplitTarget \<longrightarrow> sr_target_id r = None \<or> sr_target_id r \<noteq> sr_target_id r') \<and>
    (forbid_origin_cross_fold p \<longrightarrow>
       origin_sample_id r \<noteq> Some (sr_sample_id r') \<and> origin_sample_id r' \<noteq> Some (sr_sample_id r) \<and>
       (\<forall>origin \<in> set (train_sample_ids f) \<union> set (validation_sample_ids f).
          \<not> (origin_sample_id r = Some origin \<and> origin_sample_id r' = Some origin)))"
proof -
  note V = assms(1)[unfolded validate_against_fold_set_ok]
  have leak: "no_leak_in_fold rs p f" using V assms(2) by (simp add: list_all_iff)
  have cons: "consistent sr_target_id rs" "consistent sr_group_id rs" using V by (simp_all add: relations_wf_def)
  have group: "bm_get (relation_sample_groups rs) (sr_sample_id x) = Some g" if "x \<in> set rs" "sr_group_id x = Some g" for x g
    unfolding relation_sample_groups_def units_of_get[OF cons(2)] using that by blast
  have target: "bm_get (sample_targets rs) (sr_sample_id x) = Some g" if "x \<in> set rs" "sr_target_id x = Some g" for x g
    unfolding sample_targets_def units_of_get[OF cons(1)] using that by blast
  have split: "units (sr_sample_id r) \<noteq> units (sr_sample_id r')" if "split_by units f" for units :: "sample_id \<Rightarrow> 'u option"
    using that assms(5) unfolding split_by_def across_def by metis
  have "sr_group_id r = None \<or> sr_group_id r \<noteq> sr_group_id r'" if u: "lp_split_unit p = SplitGroup"
  proof (rule ccontr)
    assume "\<not> ?thesis"
    then obtain g where "sr_group_id r = Some g" "sr_group_id r' = Some g" by (cases "sr_group_id r") auto
    then show False
      using split[of "bm_get (relation_sample_groups rs)"] group assms(3,4) leak u by (auto simp: no_leak_in_fold_def)
  qed
  moreover have "sr_target_id r = None \<or> sr_target_id r \<noteq> sr_target_id r'" if u: "lp_split_unit p = SplitTarget"
  proof (rule ccontr)
    assume "\<not> ?thesis"
    then obtain g where "sr_target_id r = Some g" "sr_target_id r' = Some g" by (cases "sr_target_id r") auto
    then show False
      using split[of "bm_get (sample_targets rs)"] target assms(3,4) leak u by (auto simp: no_leak_in_fold_def)
  qed
  moreover have "\<not> across f (sr_sample_id x) s" if "forbid_origin_cross_fold p" "x \<in> set rs" "origin_sample_id x = Some s" for x s
    using leak that by (auto simp: no_leak_in_fold_def list_all_iff option_ex_def)
  moreover have "across f (sr_sample_id r') (sr_sample_id r)" using assms(5) by (auto simp: across_def)
  moreover have "across f (sr_sample_id r) s \<or> across f (sr_sample_id r') s"
    if "s \<in> set (train_sample_ids f) \<union> set (validation_sample_ids f)" for s
    using that assms(5) by (auto simp: across_def)
  ultimately show ?thesis using assms(3,4,5) by blast
qed

end
