(* ===== verification/RelationGroups.thy ===== *)
theory RelationGroups
  imports RelationLeak
begin

text \<open>
  The statistical grouping of samples, the lookups that read a sample's first row only, and the
  witnesses of the theorems on relations.
\<close>

section \<open>Statistical groups\<close>

definition rows_of :: "sample_relation list \<Rightarrow> sample_id \<Rightarrow> sample_relation list" where
  "rows_of rs s = filter (\<lambda>r. sr_sample_id r = s) rs"

lemma index_get:
  "bm_get (foldl index_record [] rs) s = (if rows_of rs s = [] then None else Some (rows_of rs s))"
proof (induction rs rule: rev_induct)
  case (snoc r rs)
  then show ?case
    by (cases "sr_sample_id r = s") (auto simp: index_record_def rows_of_def unwrap_or_def split: option.split)
qed (simp add: rows_of_def)

text \<open>The usable value of the key in a row.\<close>

definition unit_value :: "string \<Rightarrow> sample_relation \<Rightarrow> string option" where
  "unit_value key r = (case Option.bind (bm_get (sr_metadata r) key) json_as_str of
     None \<Rightarrow> None | Some v \<Rightarrow> if is_blank v then None else Some v)"

lemma independent_unit_ok:
  "independent_unit sid key found r = Inr st \<longleftrightarrow>
     (\<exists>v. unit_value key r = Some v \<and> pred_option (\<lambda>w. w = v) found \<and> st = Some v)"
  by (cases found)
    (auto simp: independent_unit_def unit_value_def and_then_ok option_ex_def split: option.splits if_splits)

lemma independent_units_ok:
  "try_fold (independent_unit sid key) (Some v) rs = Inr st \<longleftrightarrow>
     list_all (\<lambda>r. unit_value key r = Some v) rs \<and> st = Some v"
  by (induction rs) (auto simp: and_then_ok independent_unit_ok)

lemma independent_units_start:
  assumes "rs \<noteq> []"
  shows "try_fold (independent_unit sid key) None rs = Inr st \<longleftrightarrow>
    (\<exists>v. list_all (\<lambda>r. unit_value key r = Some v) rs \<and> st = Some v)"
  using assms by (cases rs) (auto simp: and_then_ok independent_unit_ok independent_units_ok)

text \<open>a sample has a statistical group exactly when the key is the supported one, the sample has
  rows, all of them carry the same non-blank string under the key, and it is a valid identifier.\<close>

theorem grouping_key_group_for_sample_spec:
  "grouping_key_group_for_sample key rs sid = Inr g \<longleftrightarrow>
     grouping_metadata_key key = ''independent_unit_id'' \<and> rows_of rs sid \<noteq> [] \<and>
     list_all (\<lambda>r. unit_value ''independent_unit_id'' r = Some (as_str g)) (rows_of rs sid) \<and>
     validate_identifier (as_str g) = Inr ()"
proof -
  obtain k where k: "key = RelationMetadata k" by (cases key)
  show ?thesis
  proof (cases "rows_of rs sid = [] \<or> k \<noteq> ''independent_unit_id''")
    case True
    then show ?thesis
      by (auto simp: k grouping_key_group_for_sample_def grouping_index_def grouping_key_validate_def
          index_group_for_sample_def and_then_ok index_get)
  next
    case False
    then have idx: "grouping_index key rs = Inr (''independent_unit_id'', foldl index_record [] rs)"
      by (simp add: k grouping_index_def grouping_key_validate_def)
    have "grouping_key_group_for_sample key rs sid = Inr g \<longleftrightarrow>
        (\<exists>v. list_all (\<lambda>r. unit_value ''independent_unit_id'' r = Some v) (rows_of rs sid) \<and> ident_new v = Inr g)"
      using False by (auto simp: grouping_key_group_for_sample_def idx index_group_for_sample_def and_then_ok
          index_get independent_units_start)
    also have "\<dots> \<longleftrightarrow> list_all (\<lambda>r. unit_value ''independent_unit_id'' r = Some (as_str g)) (rows_of rs sid) \<and>
        validate_identifier (as_str g) = Inr ()"
      by (cases g) (auto simp: ident_new_def and_then_ok)
    finally show ?thesis using False by (simp add: k)
  qed
qed

lemma no_panic_independent_units:
  assumes "rs \<noteq> []"
  shows "no_panic (try_fold (independent_unit sid key) None rs) \<and>
    try_fold (independent_unit sid key) None rs \<noteq> Inr None"
proof -
  have "no_panic (independent_unit sid key f r)" for f r
    by (auto simp: independent_unit_def intro!: no_panic_and_then)
  then have "no_panic (try_fold (independent_unit sid key) None rs)" by (intro no_panic_try_fold)
  then show ?thesis using independent_units_start[OF assms] by auto
qed

text \<open>looking up a statistical group never panics: the \<open>expect\<close> on an indexed sample without
  relations is unreachable.\<close>

theorem grouping_key_no_panic: "no_panic (grouping_key_group_for_sample key rs sid)"
proof -
  have "no_panic (index_group_for_sample (k, foldl index_record [] rs) sid)" for k
  proof (cases "rows_of rs sid = []")
    case True
    then show ?thesis by (simp add: index_group_for_sample_def index_get)
  next
    case False
    note E = no_panic_independent_units[OF False, of sid k]
    show ?thesis
    proof (cases "try_fold (independent_unit sid k) None (rows_of rs sid)")
      case (Inl f)
      then show ?thesis using E False by (simp add: index_group_for_sample_def index_get no_panic_def)
    next
      case (Inr found)
      then show ?thesis
        using E False by (cases found) (simp_all add: index_group_for_sample_def index_get)
    qed
  qed
  moreover have "no_panic (grouping_key_validate key)"
    by (simp add: grouping_key_validate_def split: aggregation_grouping_key.split)
  ultimately show ?thesis
    by (cases "grouping_key_validate key")
      (simp_all add: grouping_key_group_for_sample_def grouping_index_def no_panic_def)
qed

section \<open>Witnesses\<close>

definition demo_row :: "string \<Rightarrow> string \<Rightarrow> target_id option \<Rightarrow> sample_relation" where
  "demo_row obs s t = (sample_relation_new (Ident obs) (Ident s))
     \<lparr>sr_target_id := t, sr_group_id := Some (Ident s)\<rparr>"

lemma demo_row_ok: "relation_ok (demo_row obs s t)" and demo_row_unit: "unit_of (demo_row obs s t) = obs"
  by (simp_all add: relation_ok_def relation_validate_def demo_row_def sample_relation_new_def Let_def
      non_empty_optional_def validate_optional_identifier_def option_ex_def effective_unit_id_def unit_of_def)

lemma demo_row_sel:
  "sr_observation_id (demo_row obs s t) = Ident obs" "sr_sample_id (demo_row obs s t) = Ident s"
  "sr_target_id (demo_row obs s t) = t" "sr_group_id (demo_row obs s t) = Some (Ident s)"
  "sr_unit_level (demo_row obs s t) = ObservationUnit" "origin_sample_id (demo_row obs s t) = None"
  "is_augmented (demo_row obs s t) = False"
  by (simp_all add: demo_row_def sample_relation_new_def)

text \<open>Two rows of one sample; only the second names the target.\<close>

definition demo_late_target :: "sample_relation list" where
  "demo_late_target = [demo_row ''o1'' ''a'' None, demo_row ''o2'' ''a'' (Some (Ident ''t''))]"

text \<open>C27: on this valid relation set the sample has a target for the splitters and the leakage check
  (\<open>sample_targets\<close>), while \<open>target_for_sample\<close>, which the aggregation reads, finds none: it looks at
  the sample's first row only.\<close>

theorem target_for_sample_misses_target:
  "relations_validate demo_late_target = Inr () \<and>
   bm_get (sample_targets demo_late_target) (Ident ''a'') = Some (Ident ''t'') \<and>
   target_for_sample demo_late_target (Ident ''a'') = None"
proof -
  have cons: "consistent sr_target_id demo_late_target" "consistent sr_group_id demo_late_target"
    by (auto simp: consistent_def demo_late_target_def demo_row_sel)
  have "relations_wf demo_late_target"
    using cons demo_row_ok
    by (simp add: relations_wf_def demo_late_target_def demo_row_sel demo_row_unit combo_ok_def)
  then have "relations_validate demo_late_target = Inr ()" by (simp only: relations_validate_ok)
  moreover have "bm_get (sample_targets demo_late_target) (Ident ''a'') = Some (Ident ''t'')"
    unfolding sample_targets_def units_of_get[OF cons(1)] by (simp add: demo_late_target_def demo_row_sel)
  moreover have "target_for_sample demo_late_target (Ident ''a'') = None"
    by (simp add: target_for_sample_def demo_late_target_def demo_row_sel)
  ultimately show ?thesis by blast
qed

definition demo_relations :: "sample_relation list" where
  "demo_relations = [demo_row ''o1'' ''a'' None, demo_row ''o2'' ''b'' None]"

definition demo_fold_a :: fold_assignment where
  "demo_fold_a = \<lparr>fold_id = Ident ''f0'', train_sample_ids = [Ident ''b''],
     validation_sample_ids = [Ident ''a''], fa_metadata = []\<rparr>"

definition demo_folds :: fold_set where
  "demo_folds = \<lparr>fs_id = ''select'', sample_ids = [Ident ''a'', Ident ''b''],
     folds = [demo_fold_a, \<lparr>fold_id = Ident ''f1'', train_sample_ids = [Ident ''a''],
        validation_sample_ids = [Ident ''b''], fa_metadata = []\<rparr>],
     sample_groups = [], partition_mode = Partition, train_exclusion = Relations,
     target_missing_sample_ids = []\<rparr>"

definition demo_leak_policy :: leakage_unit_policy where
  "demo_leak_policy = \<lparr>lp_split_unit = SplitGroup, forbid_origin_cross_fold = True,
     allow_observation_split_with_shared_target = False, require_group_ids = True, lp_unsafe_flags = []\<rparr>"

lemma demo_relations_wf: "relations_wf demo_relations"
  using demo_row_ok
  by (simp add: relations_wf_def demo_relations_def demo_row_sel demo_row_unit combo_ok_def consistent_def)

lemma demo_folds_wf: "fold_set_wf demo_folds"
  by (simp add: fold_set_wf_def demo_folds_def demo_fold_a_def fold_ok_def validation_count_def not_blank_demo)

lemma demo_validates: "validate_against_fold_set demo_relations demo_folds demo_leak_policy = Inr ()"
proof -
  have cons: "consistent sr_group_id demo_relations" using demo_relations_wf by (simp add: relations_wf_def)
  have get: "bm_get (relation_sample_groups demo_relations) (Ident s) = Some (Ident s)" if "s = ''a'' \<or> s = ''b''" for s
    unfolding relation_sample_groups_def units_of_get[OF cons] using that
    by (auto simp: demo_relations_def demo_row_sel)
  have "list_all (no_leak_in_fold demo_relations demo_leak_policy) (folds demo_folds)"
    using get[of "''a''"] get[of "''b''"]
    by (simp add: no_leak_in_fold_def demo_leak_policy_def split_by_def demo_folds_def demo_fold_a_def
        demo_relations_def demo_row_sel option_ex_def)
  moreover have "leakage_policy_validate demo_leak_policy = Inr ()"
    by (simp add: leakage_policy_validate_def demo_leak_policy_def)
  moreover have "list_all (row_in_fold_set demo_folds demo_leak_policy) demo_relations"
    by (simp add: row_in_fold_set_def demo_folds_def demo_relations_def demo_row_sel demo_leak_policy_def)
  moreover have "groups_agree demo_folds demo_relations" by (simp add: groups_agree_def demo_folds_def)
  ultimately show ?thesis
    unfolding validate_against_fold_set_ok using demo_relations_wf demo_folds_wf by blast
qed

theorem validated_relations_no_leak_witness:
  "sr_group_id (demo_row ''o2'' ''b'' None) \<noteq> sr_group_id (demo_row ''o1'' ''a'' None)"
proof -
  have "demo_fold_a \<in> set (folds demo_folds)" by (simp add: demo_folds_def)
  moreover have "demo_row ''o2'' ''b'' None \<in> set demo_relations" "demo_row ''o1'' ''a'' None \<in> set demo_relations"
    by (simp_all add: demo_relations_def)
  moreover have "across demo_fold_a (sr_sample_id (demo_row ''o2'' ''b'' None)) (sr_sample_id (demo_row ''o1'' ''a'' None))"
    by (simp add: across_def demo_row_sel demo_fold_a_def)
  ultimately have "lp_split_unit demo_leak_policy = SplitGroup \<longrightarrow> sr_group_id (demo_row ''o2'' ''b'' None) = None \<or>
      sr_group_id (demo_row ''o2'' ''b'' None) \<noteq> sr_group_id (demo_row ''o1'' ''a'' None)"
    using validated_relations_no_leak[OF demo_validates] by blast
  then show ?thesis by (simp add: demo_leak_policy_def demo_row_sel)
qed

theorem relations_fingerprint_permutation_witness:
  "\<exists>f. relations_fingerprint (\<lambda>_. Inr []) demo_sha demo_relations = Inr f \<and>
     relations_fingerprint (\<lambda>_. Inr []) demo_sha (rev demo_relations) = Inr f"
proof -
  have "list_all relation_ok demo_relations" using demo_relations_wf by (simp add: relations_wf_def)
  then have "relations_fingerprint (\<lambda>_. Inr []) demo_sha demo_relations = Inr (bytes_to_hex (demo_sha []))"
    using demo_relations_wf
    by (simp add: relations_fingerprint_def and_then_ok relations_validate_ok canonical_records_ok
        stable_json_fingerprint_def)
  then show ?thesis
    using relations_fingerprint_permutation[of demo_relations "rev demo_relations"] by fastforce
qed

end
