(* ===== verification/Utf8.thy ===== *)
theory Utf8
  imports RelationGroups
begin

text \<open>
  UTF-8 as the Rust standard library treats it: \<open>str::from_utf8\<close> with the position and length
  its error reports, \<open>is_char_boundary\<close>, slicing (which panics off a boundary),
  \<open>chars().next()\<close>, \<open>char::from_u32\<close> and \<open>String::push\<close>. Strings are their bytes.
\<close>

section \<open>Decoding one character\<close>

definition continuation :: "char \<Rightarrow> bool" where
  "continuation c \<longleftrightarrow> 128 \<le> byte_of c \<and> byte_of c < 192"

text \<open>The first character of a byte sequence: its length, or \<open>Utf8Error::error_len\<close>.\<close>

datatype (plugins only: code size) utf8_head = Utf8Char nat | Utf8Error "nat option"

definition utf8_width :: "nat \<Rightarrow> nat" where
  "utf8_width b =
     (if b < 128 then 1 else if 194 \<le> b \<and> b \<le> 223 then 2 else if 224 \<le> b \<and> b \<le> 239 then 3
      else if 240 \<le> b \<and> b \<le> 244 then 4 else 0)"

text \<open>The second byte excludes overlong forms, surrogates and values above \<open>0x10FFFF\<close>.\<close>

definition second_byte_ok :: "nat \<Rightarrow> nat \<Rightarrow> bool" where
  "second_byte_ok a b \<longleftrightarrow>
     (if a = 224 then 160 \<le> b \<and> b \<le> 191
      else if a = 237 then 128 \<le> b \<and> b \<le> 159
      else if a = 240 then 144 \<le> b \<and> b \<le> 191
      else if a = 244 then 128 \<le> b \<and> b \<le> 143
      else 128 \<le> b \<and> b \<le> 191)"

fun utf8_tail :: "nat \<Rightarrow> nat \<Rightarrow> string \<Rightarrow> utf8_head" where
  "utf8_tail width seen s =
     (if width \<le> seen then Utf8Char width
      else case s of
        [] \<Rightarrow> Utf8Error None
      | c # rest \<Rightarrow> if continuation c then utf8_tail width (seen + 1) rest else Utf8Error (Some seen))"

declare utf8_tail.simps [simp del]

definition utf8_first :: "string \<Rightarrow> utf8_head" where
  "utf8_first s =
     (case s of
        [] \<Rightarrow> Utf8Error None
      | a # rest \<Rightarrow>
          let w = utf8_width (byte_of a) in
          if w = 1 then Utf8Char 1
          else if w = 0 then Utf8Error (Some 1)
          else (case rest of
              [] \<Rightarrow> Utf8Error None
            | b # rest' \<Rightarrow> if second_byte_ok (byte_of a) (byte_of b) then utf8_tail w 2 rest'
                else Utf8Error (Some 1)))"

lemma utf8_tail_char:
  assumes "utf8_tail w k s = Utf8Char n"
  shows "n = w \<and> w - k \<le> length s \<and> list_all continuation (take (w - k) s)"
  using assms
proof (induction w k s rule: utf8_tail.induct)
  case (1 w k s)
  show ?case
  proof (cases "w \<le> k")
    case True
    with "1.prems" show ?thesis by (simp add: utf8_tail.simps)
  next
    case False
    then obtain c rest where s: "s = c # rest" "continuation c" "utf8_tail w (k + 1) rest = Utf8Char n"
      using "1.prems" by (simp add: utf8_tail.simps[of w k] split: list.splits if_splits)
    have "w - k = Suc (w - (k + 1))" using False by simp
    then show ?thesis using "1.IH"[OF False s(1,2,3)] s(1,2) by simp
  qed
qed

lemma utf8_tail_append: "utf8_tail w k s = Utf8Char n \<Longrightarrow> utf8_tail w k (s @ t) = Utf8Char n"
proof (induction w k s rule: utf8_tail.induct)
  case (1 w k s)
  show ?case
  proof (cases "w \<le> k")
    case True
    with "1.prems" show ?thesis by (simp add: utf8_tail.simps)
  next
    case False
    then obtain c rest where s: "s = c # rest" "continuation c" "utf8_tail w (k + 1) rest = Utf8Char n"
      using "1.prems" by (simp add: utf8_tail.simps[of w k] split: list.splits if_splits)
    show ?thesis using "1.IH"[OF False s(1,2,3)] s(1,2) False by (simp add: utf8_tail.simps[of w k])
  qed
qed

lemma utf8_first_append: "utf8_first s = Utf8Char n \<Longrightarrow> utf8_first (s @ t) = Utf8Char n"
  unfolding utf8_first_def Let_def
  by (auto split: list.splits if_splits simp: utf8_tail_append)

lemma second_byte_range: "second_byte_ok a b \<Longrightarrow> 128 \<le> b \<and> b < 192"
  unfolding second_byte_ok_def by (simp split: if_splits)

lemma utf8_first_char:
  assumes "utf8_first s = Utf8Char n"
  shows "0 < n \<and> n \<le> length s \<and> n = utf8_width (byte_of (hd s)) \<and> s \<noteq> [] \<and>
    list_all continuation (take (n - 1) (tl s))"
proof (cases s)
  case Nil
  with assms show ?thesis by (simp add: utf8_first_def)
next
  case (Cons a rest)
  let ?w = "utf8_width (byte_of a)"
  show ?thesis
  proof (cases "?w = 1")
    case True
    with assms Cons show ?thesis by (simp add: utf8_first_def)
  next
    case False
    then obtain b rest' where r: "rest = b # rest'" "second_byte_ok (byte_of a) (byte_of b)"
        "utf8_tail ?w 2 rest' = Utf8Char n" "?w \<noteq> 0"
      using assms Cons by (simp add: utf8_first_def Let_def split: list.splits if_splits)
    have t: "n = ?w" "?w - 2 \<le> length rest'" "list_all continuation (take (?w - 2) rest')"
      using utf8_tail_char[OF r(3)] by simp_all
    obtain k where k: "?w = Suc (Suc k)" using False r(4) by (metis One_nat_def not0_implies_Suc)
    have "take (?w - 1) rest = b # take (?w - 2) rest'" using k r(1) by simp
    moreover have "continuation b" using second_byte_range[OF r(2)] by (simp add: continuation_def)
    ultimately show ?thesis using t r Cons k by simp
  qed
qed

section \<open>Validation\<close>

function utf8_scan :: "nat \<Rightarrow> string \<Rightarrow> (nat \<times> nat option) option" where
  "utf8_scan at s =
     (if s = [] then None
      else case utf8_first s of
        Utf8Char n \<Rightarrow> utf8_scan (at + n) (drop n s)
      | Utf8Error l \<Rightarrow> Some (at, l))"
  by pat_completeness auto
termination
  by (relation "measure (length \<circ> snd)") (auto dest!: utf8_first_char)

declare utf8_scan.simps [simp del]

text \<open>\<open>str::from_utf8\<close>: the string, or \<open>valid_up_to\<close> and \<open>error_len\<close>.\<close>

definition from_utf8 :: "bytes \<Rightarrow> (nat \<times> nat option) + string" where
  "from_utf8 bs =
     (let s = map (\<lambda>b. char_of (unat b)) bs
      in case utf8_scan 0 s of None \<Rightarrow> Inr s | Some e \<Rightarrow> Inl e)"

definition valid_utf8 :: "string \<Rightarrow> bool" where
  "valid_utf8 s \<longleftrightarrow> utf8_scan 0 s = None"

lemma utf8_scan_pos: "utf8_scan at s = None \<longleftrightarrow> utf8_scan at' s = None"
proof (induction at s arbitrary: at' rule: utf8_scan.induct)
  case (1 at s)
  show ?case
  proof (cases "s = []")
    case False
    show ?thesis
    proof (cases "utf8_first s")
      case (Utf8Char n)
      with False "1.IH"[OF False Utf8Char] show ?thesis
        by (simp add: utf8_scan.simps[of at] utf8_scan.simps[of at'])
    qed (simp add: utf8_scan.simps[of at] utf8_scan.simps[of at'] False)
  qed (simp add: utf8_scan.simps)
qed

lemma valid_utf8_Nil [simp]: "valid_utf8 []"
  by (simp add: valid_utf8_def utf8_scan.simps)

lemma valid_utf8_step:
  "s \<noteq> [] \<Longrightarrow> valid_utf8 s \<longleftrightarrow> (\<exists>n. utf8_first s = Utf8Char n \<and> valid_utf8 (drop n s))"
  unfolding valid_utf8_def
  by (subst utf8_scan.simps) (cases "utf8_first s"; simp; rule utf8_scan_pos)

lemma valid_utf8_ascii: "byte_of c < 128 \<Longrightarrow> valid_utf8 (c # s) \<longleftrightarrow> valid_utf8 s"
  by (subst valid_utf8_step) (simp_all add: utf8_first_def utf8_width_def)

lemma valid_utf8_not_continuation: "valid_utf8 (c # s) \<Longrightarrow> \<not> continuation c"
proof
  assume v: "valid_utf8 (c # s)" and c: "continuation c"
  obtain n where "utf8_first (c # s) = Utf8Char n" using v by (subst (asm) valid_utf8_step) auto
  then have "0 < utf8_width (byte_of c)" using utf8_first_char by fastforce
  then show False using c by (simp add: utf8_width_def continuation_def split: if_splits)
qed

text \<open>Validity is closed under concatenation, and a valid suffix leaves a valid prefix.\<close>

lemma valid_utf8_append: "valid_utf8 s \<Longrightarrow> valid_utf8 t \<Longrightarrow> valid_utf8 (s @ t)"
proof (induction "length s" arbitrary: s rule: less_induct)
  case less
  show ?case
  proof (cases "s = []")
    case False
    then obtain n where n: "utf8_first s = Utf8Char n" "valid_utf8 (drop n s)"
      using less.prems(1) by (auto simp: valid_utf8_step)
    have len: "0 < n" "n \<le> length s" using utf8_first_char[OF n(1)] by simp_all
    then have "valid_utf8 (drop n s @ t)" using less False n(2) by simp
    moreover have "drop n (s @ t) = drop n s @ t" using len by simp
    ultimately show ?thesis
      using False utf8_first_append[OF n(1)] by (subst valid_utf8_step) auto
  qed (simp add: less.prems)
qed

section \<open>Slicing and characters\<close>

definition is_char_boundary :: "string \<Rightarrow> nat \<Rightarrow> bool" where
  "is_char_boundary s i \<longleftrightarrow>
     i = 0 \<or> i = length s \<or> i < length s \<and> \<not> continuation (s ! i)"

text \<open>\<open>&s[a..b]\<close> and \<open>s[a..].chars().next()\<close> with \<open>len_utf8\<close> of the character found.\<close>

definition str_slice :: "string \<Rightarrow> nat \<Rightarrow> nat \<Rightarrow> 'e failure + string" where
  "str_slice s a b =
     (if a \<le> b \<and> is_char_boundary s a \<and> is_char_boundary s b
      then Inr (take (b - a) (drop a s)) else Inl (Panic SliceOutOfRange))"

definition char_len_at :: "string \<Rightarrow> nat \<Rightarrow> 'e failure + nat" where
  "char_len_at s a =
     (if a \<le> length s \<and> is_char_boundary s a
      then case drop a s of
          [] \<Rightarrow> Inl (Panic (ExpectFailed ''offset is on a valid UTF-8 boundary''))
        | c # _ \<Rightarrow> Inr (if byte_of c < 128 then 1 else if byte_of c < 224 then 2
            else if byte_of c < 240 then 3 else 4)
      else Inl (Panic SliceOutOfRange))"

text \<open>A position of a valid string where a character begins, or its end.\<close>

definition char_start :: "string \<Rightarrow> nat \<Rightarrow> bool" where
  "char_start s i \<longleftrightarrow> i \<le> length s \<and> valid_utf8 (drop i s)"

lemma char_start_boundary: "char_start s i \<Longrightarrow> is_char_boundary s i"
proof (cases "i < length s")
  case True
  assume "char_start s i"
  then have "valid_utf8 (s ! i # drop (Suc i) s)" using True by (simp add: char_start_def Cons_nth_drop_Suc)
  with True show ?thesis using valid_utf8_not_continuation by (auto simp: is_char_boundary_def)
qed (simp add: char_start_def is_char_boundary_def)

lemma char_start_0: "char_start s 0 \<longleftrightarrow> valid_utf8 s"
  by (simp add: char_start_def)

lemma char_start_ascii:
  "char_start s i \<Longrightarrow> i < length s \<Longrightarrow> byte_of (s ! i) < 128 \<Longrightarrow> char_start s (Suc i)"
  unfolding char_start_def using Cons_nth_drop_Suc[of i s] valid_utf8_ascii[of "s ! i" "drop (Suc i) s"] by auto

lemma char_len_at_ok:
  assumes "char_start s i" "i < length s"
  shows "\<exists>n. char_len_at s i = Inr n \<and> 0 < n \<and> char_start s (i + n)"
proof -
  have split: "drop i s = s ! i # drop (Suc i) s" using assms(2) by (simp add: Cons_nth_drop_Suc)
  then have ne: "drop i s \<noteq> []" by simp
  then obtain n where n: "utf8_first (drop i s) = Utf8Char n" "valid_utf8 (drop n (drop i s))"
    using assms(1) by (auto simp: char_start_def valid_utf8_step)
  have f: "0 < n" "n \<le> length (drop i s)" "n = utf8_width (byte_of (s ! i))"
    using utf8_first_char[OF n(1)] split by simp_all
  have "(if byte_of (s ! i) < 128 then 1 else if byte_of (s ! i) < 224 then 2
      else if byte_of (s ! i) < 240 then 3 else 4) = n"
    using f(1,3) by (simp add: utf8_width_def split: if_splits)
  then have "char_len_at s i = Inr n"
    using split assms char_start_boundary[OF assms(1)] by (simp add: char_len_at_def)
  moreover have "char_start s (i + n)" using n(2) f(2) assms(2) by (simp add: char_start_def add.commute)
  ultimately show ?thesis using f(1) by blast
qed

lemma str_slice_ok:
  "char_start s a \<Longrightarrow> char_start s b \<Longrightarrow> a \<le> b \<Longrightarrow> str_slice s a b = Inr (take (b - a) (drop a s))"
  by (simp add: str_slice_def char_start_boundary)

text \<open>\<open>char::from_u32\<close> (the scalar values) and the bytes \<open>String::push\<close> appends.\<close>

definition from_u32 :: "nat \<Rightarrow> nat option" where
  "from_u32 n = (if n < 0x110000 \<and> \<not> (0xd800 \<le> n \<and> n < 0xe000) then Some n else None)"

definition encode_utf8 :: "nat \<Rightarrow> string" where
  "encode_utf8 n =
     (if n < 0x80 then [char_of n]
      else if n < 0x800 then [char_of (0xc0 + n div 64), char_of (0x80 + n mod 64)]
      else if n < 0x10000 then
        [char_of (0xe0 + n div 4096), char_of (0x80 + n div 64 mod 64), char_of (0x80 + n mod 64)]
      else [char_of (0xf0 + n div 262144), char_of (0x80 + n div 4096 mod 64),
        char_of (0x80 + n div 64 mod 64), char_of (0x80 + n mod 64)])"

text \<open>\<open>str::is_ascii\<close>.\<close>

definition is_ascii :: "string \<Rightarrow> bool" where
  "is_ascii s \<longleftrightarrow> list_all (\<lambda>c. byte_of c < 128) s"

lemma valid_utf8_is_ascii: "is_ascii s \<Longrightarrow> valid_utf8 s"
  by (induction s) (simp_all add: is_ascii_def valid_utf8_ascii)

end
