(* ===== verification/Decimal.thy ===== *)
theory Decimal
  imports Utf8
begin

text \<open>
  The decimal conversions of the Rust standard library: \<open>Display\<close> and \<open>parse\<close> of \<open>i64\<close> and
  \<open>u64\<close>, and \<open>parse::<f64>()\<close> on decimal literals, which rounds the exact value to the nearest
  binary64, ties to even, with gradual underflow and overflow to infinity.
\<close>

section \<open>Signed and unsigned integers\<close>

definition show_i64 :: "64 word \<Rightarrow> string" where
  "show_i64 w = (if sint w < 0 then CHR ''-'' # show_nat (nat (- sint w)) else show_nat (nat (sint w)))"

definition show_u64 :: "64 word \<Rightarrow> string" where
  "show_u64 w = show_nat (unat w)"

definition parse_i64 :: "string \<Rightarrow> 64 word option" where
  "parse_i64 s =
     (let (negative, ds) = (case s of
          c # cs \<Rightarrow> if c = CHR ''-'' then (True, cs) else if c = CHR ''+'' then (False, cs) else (False, s)
        | [] \<Rightarrow> (False, []))
      in if ds \<noteq> [] \<and> list_all is_ascii_digit ds \<and>
            (if negative then digits_value ds \<le> 2 ^ 63 else digits_value ds < 2 ^ 63)
         then Some (if negative then - of_nat (digits_value ds) else of_nat (digits_value ds))
         else None)"

lemma not_digit_chars [simp]:
  "\<not> is_ascii_digit CHR ''-''" "\<not> is_ascii_digit CHR ''+''" "\<not> is_ascii_digit CHR ''.''"
  "\<not> is_ascii_digit CHR ''e''" "\<not> is_ascii_digit CHR ''E''"
  by (simp_all add: is_ascii_digit_def byte_of_def)

lemma list_all_show_nat [simp]: "list_all is_ascii_digit (show_nat n)"
  using show_nat_digits by (simp add: list_all_iff)

lemma show_nat_head: "\<exists>c cs. show_nat n = c # cs \<and> is_ascii_digit c"
  using list_all_show_nat[of n] by (cases "show_nat n") auto

text \<open>The decimal text of an integer determines it, across both types.\<close>

definition integer_text :: "int \<Rightarrow> string" where
  "integer_text i = (if i < 0 then CHR ''-'' # show_nat (nat (- i)) else show_nat (nat i))"

lemma integer_text_inj: "integer_text i = integer_text j \<Longrightarrow> i = j"
proof -
  assume eq: "integer_text i = integer_text j"
  obtain c cs where c: "show_nat (nat i) = c # cs" "is_ascii_digit c" using show_nat_head by blast
  obtain d ds where d: "show_nat (nat j) = d # ds" "is_ascii_digit d" using show_nat_head by blast
  have "c \<noteq> CHR ''-''" "d \<noteq> CHR ''-''" using c(2) d(2) not_digit_chars(1) by metis+
  then have "(i < 0) = (j < 0)" using eq c(1) d(1) by (auto simp: integer_text_def split: if_splits)
  with eq have "nat (if i < 0 then - i else i) = nat (if j < 0 then - j else j)"
    using show_nat_inj by (auto simp: integer_text_def split: if_splits)
  with \<open>(i < 0) = (j < 0)\<close> show "i = j" by (auto split: if_splits)
qed

lemma show_i64_text: "show_i64 w = integer_text (sint w)"
  by (simp add: show_i64_def integer_text_def)

lemma show_u64_text: "show_u64 w = integer_text (uint w)"
  by (simp add: show_u64_def integer_text_def)

section \<open>Decimal to binary64\<close>

text \<open>The quotient of two naturals rounded to the nearest integer, ties to even.\<close>

definition round_half_even :: "nat \<Rightarrow> nat \<Rightarrow> nat" where
  "round_half_even n d =
     (let q = n div d; r = n mod d
      in if d < 2 * r \<or> 2 * r = d \<and> odd q then q + 1 else q)"

text \<open>\<open>floor(log2(n / d))\<close> for positive \<open>n\<close> and \<open>d\<close>.\<close>

definition ratio_exponent :: "nat \<Rightarrow> nat \<Rightarrow> int" where
  "ratio_exponent n d =
     (let k = int (floor_log2 n) - int (floor_log2 d)
      in if (if 0 \<le> k then d * 2 ^ nat k \<le> n else d \<le> n * 2 ^ nat (- k)) then k else k - 1)"

definition f64_infinity :: f64 where
  "f64_infinity = 0x7ff0000000000000"

definition f64_of_ratio :: "nat \<Rightarrow> nat \<Rightarrow> f64" where
  "f64_of_ratio n d =
     (if n = 0 then 0
      else let e = max (ratio_exponent n d) (- 1022);
               s = 52 - e;
               m = (if 0 \<le> s then round_half_even (n * 2 ^ nat s) d
                    else round_half_even n (d * 2 ^ nat (- s)));
               bits = nat (e + 1022) * 2 ^ 52 + m
           in if 1023 < e \<or> 0x7ff0000000000000 \<le> bits then f64_infinity else of_nat bits)"

text \<open>
  \<open>parse::<f64>()\<close> on \<open>[+-] digits [. digits] [(e|E) [+-] digits]\<close>; other texts (\<open>inf\<close>,
  \<open>nan\<close>, a point without digits) are not literals the parser passes on.
\<close>

definition split_exponent :: "string \<Rightarrow> string \<times> string option" where
  "split_exponent s =
     (let m = takeWhile (\<lambda>c. c \<noteq> CHR ''e'' \<and> c \<noteq> CHR ''E'') s;
          r = drop (length m) s
      in (m, case r of [] \<Rightarrow> None | _ # x \<Rightarrow> Some x))"

definition split_point :: "string \<Rightarrow> string \<times> string" where
  "split_point s =
     (let i = takeWhile (\<lambda>c. c \<noteq> CHR ''.'') s; r = drop (length i) s
      in (i, case r of [] \<Rightarrow> [] | _ # f \<Rightarrow> f))"

definition split_sign :: "string \<Rightarrow> bool \<times> string" where
  "split_sign s = (case s of
      c # cs \<Rightarrow> if c = CHR ''-'' then (True, cs) else if c = CHR ''+'' then (False, cs) else (False, s)
    | [] \<Rightarrow> (False, []))"

definition decimal_f64 :: "bool \<Rightarrow> nat \<Rightarrow> int \<Rightarrow> f64" where
  "decimal_f64 negative m e =
     (let w = (if 0 \<le> e then f64_of_ratio (m * 10 ^ nat e) 1 else f64_of_ratio m (10 ^ nat (- e)))
      in if negative then or (push_bit 63 1) w else w)"

definition parse_f64 :: "string \<Rightarrow> f64 option" where
  "parse_f64 s =
     (let (negative, body) = split_sign s;
          (mantissa, exponent) = split_exponent body;
          (whole, fraction) = split_point mantissa;
          digits = whole @ fraction;
          (negative_exponent, exponent_digits) = (case exponent of
              None \<Rightarrow> (False, ''0'') | Some x \<Rightarrow> split_sign x)
      in if digits \<noteq> [] \<and> list_all is_ascii_digit digits \<and>
            exponent_digits \<noteq> [] \<and> list_all is_ascii_digit exponent_digits
         then Some (decimal_f64 negative (digits_value digits)
           ((if negative_exponent then - int (digits_value exponent_digits)
             else int (digits_value exponent_digits)) - int (length fraction)))
         else None)"

text \<open>Exact, halfway and subnormal values.\<close>

lemmas f64_of_ratio_eval =
  f64_of_ratio_def ratio_exponent_def round_half_even_def floor_log2.simps Let_def max_def
  f64_infinity_def

lemma f64_of_ratio_vectors:
  "f64_of_ratio 1 1 = 0x3ff0000000000000"
  "f64_of_ratio 3 2 = 0x3ff8000000000000"
  "f64_of_ratio 1 10 = 0x3fb999999999999a"
  "f64_of_ratio 9007199254740993 1 = 0x4340000000000000"
  by (simp_all add: f64_of_ratio_eval)

end
