(* ===== verification/Canonical.thy ===== *)
theory Canonical
  imports Decimal
begin

text \<open>
  \<open>crates/dag-ml-core/src/canonical.rs\<close>, the encoder: typed canonical items (TCV1), their binary
  grammar, the domain-separated preimage and its fingerprints. Unicode normalization (\<open>nfc\<close>) and
  SHA-256 are parameters.
\<close>

section \<open>Values and errors\<close>

datatype (plugins only: code size) canonical_integer = Signed "64 word" | Unsigned "64 word"

definition decimal :: "canonical_integer \<Rightarrow> string" where
  "decimal i = (case i of Signed w \<Rightarrow> show_i64 w | Unsigned w \<Rightarrow> show_u64 w)"

datatype (plugins only: code size) typed_value =
    TNull
  | TBool bool
  | TInteger canonical_integer
  | TBinary64 f64
  | TString string
  | TArray "typed_value list"
  | TObject "(string \<times> typed_value) list"

datatype (plugins only: code size) tcv1_error =
    InvalidUtf8 nat "nat option"
  | InvalidJson nat string
  | DuplicateObjectKey string nat
  | NfcKeyCollision string string nat
  | IntegerOutOfRange nat string
  | Binary64OutOfRange nat
  | NestingTooDeep
  | LengthOverflow
  | NonFiniteBinary64
  | ExpectedObject
  | MissingObjectKey string
  | AmbiguousObjectKey string

type_synonym 'a tcv1 = "tcv1_error failure + 'a"

abbreviation tcv1_err :: "tcv1_error \<Rightarrow> 'a tcv1" where
  "tcv1_err e \<equiv> Inl (Err e)"

definition max_nesting_depth :: nat where
  "max_nesting_depth = 128"

text \<open>The bytes of \<open>DAGML-TCV1\<close> and a zero byte.\<close>

definition tcv1_prefix :: bytes where
  "tcv1_prefix = as_bytes ''DAGML-TCV1'' @ [0]"

definition normalize :: "(string \<Rightarrow> string) \<Rightarrow> string \<Rightarrow> string" where
  "normalize nfc s = (if is_ascii s then s else nfc s)"

section \<open>The encoder\<close>

definition to_be_bytes :: "64 word \<Rightarrow> bytes" where
  "to_be_bytes w = rev (to_le_bytes w)"

definition encode_length :: "nat \<Rightarrow> bytes \<Rightarrow> bytes tcv1" where
  "encode_length n out =
     (if n < 2 ^ 64 then Inr (out @ to_be_bytes (of_nat n)) else tcv1_err LengthOverflow)"

text \<open>A tag byte.\<close>

definition tag_byte :: "char \<Rightarrow> 8 word" where
  "tag_byte c = of_nat (byte_of c)"

definition encode_normalized_string :: "bytes \<Rightarrow> bytes \<Rightarrow> bytes tcv1" where
  "encode_normalized_string payload out =
     and_then (encode_length (length payload) (out @ [tag_byte CHR ''S''])) (\<lambda>out. Inr (out @ payload))"

definition encode_string :: "(string \<Rightarrow> string) \<Rightarrow> string \<Rightarrow> bytes \<Rightarrow> bytes tcv1" where
  "encode_string nfc s out = encode_normalized_string (as_bytes (normalize nfc s)) out"

text \<open>The loop of \<open>encode_object\<close> that rejects equal normalized keys, on \<open>normalized_keys\<close> and
  \<open>sorted\<close>.\<close>

definition collect_entry ::
  "(string \<Rightarrow> string) \<Rightarrow> (string \<rightharpoonup> string) \<times> (string \<times> typed_value) list \<Rightarrow> string \<times> typed_value
   \<Rightarrow> ((string \<rightharpoonup> string) \<times> (string \<times> typed_value) list) tcv1" where
  "collect_entry nfc st kv =
     (let (seen, pairs) = st; (key, value) = kv; normalized = normalize nfc key in
      case seen normalized of
        Some first \<Rightarrow>
          if first = key then tcv1_err (DuplicateObjectKey key 0)
          else tcv1_err (NfcKeyCollision first key 0)
      | None \<Rightarrow> Inr (seen(normalized \<mapsto> key), pairs @ [(normalized, value)]))"

definition compare_keys :: "string \<times> typed_value \<Rightarrow> string \<times> typed_value \<Rightarrow> ordering" where
  "compare_keys l r = ord_cmp (as_bytes (fst l)) (as_bytes (fst r))"

definition sorted_entries ::
  "(string \<Rightarrow> string) \<Rightarrow> (string \<times> typed_value) list \<Rightarrow> (string \<times> typed_value) list tcv1" where
  "sorted_entries nfc entries =
     and_then (try_fold (collect_entry nfc) (Map.empty, []) entries)
       (\<lambda>(_, pairs). Inr (sort_by compare_keys pairs))"

lemma try_fold_cong [fundef_cong]:
  "xs = ys \<Longrightarrow> s = t \<Longrightarrow> (\<And>s x. x \<in> set ys \<Longrightarrow> f s x = g s x) \<Longrightarrow> try_fold f s xs = try_fold g t ys"
  by (induction ys arbitrary: xs s t) (auto intro!: arg_cong2[of _ _ _ _ and_then])

lemma sorted_entries_values:
  assumes "sorted_entries nfc entries = Inr pairs" "kv \<in> set pairs"
  shows "snd kv \<in> snd ` set entries"
proof -
  have "\<And>st. try_fold (collect_entry nfc) st entries = Inr st' \<Longrightarrow>
      snd ` set (snd st') \<subseteq> snd ` set (snd st) \<union> snd ` set entries" for st'
  proof (induction entries)
    case (Cons kv entries)
    obtain st1 where st1: "collect_entry nfc st kv = Inr st1" "try_fold (collect_entry nfc) st1 entries = Inr st'"
      using Cons.prems by (auto simp: and_then_ok)
    have "snd ` set (snd st1) \<subseteq> insert (snd kv) (snd ` set (snd st))"
      using st1(1) by (cases st; cases kv) (auto simp: collect_entry_def Let_def split: option.splits if_splits)
    with Cons.IH[OF st1(2)] show ?case by auto
  qed simp
  then show ?thesis
    using assms by (fastforce simp: sorted_entries_def and_then_ok)
qed

function encode_value :: "(string \<Rightarrow> string) \<Rightarrow> typed_value \<Rightarrow> bytes \<Rightarrow> nat \<Rightarrow> bytes tcv1"
  and encode_object ::
    "(string \<Rightarrow> string) \<Rightarrow> (string \<times> typed_value) list \<Rightarrow> bytes \<Rightarrow> nat \<Rightarrow> bytes tcv1" where
  "encode_value nfc value out depth =
     (if depth > max_nesting_depth then tcv1_err NestingTooDeep
      else case value of
        TNull \<Rightarrow> Inr (out @ [tag_byte CHR ''N''])
      | TBool b \<Rightarrow> Inr (out @ [tag_byte (if b then CHR ''T'' else CHR ''F'')])
      | TInteger i \<Rightarrow>
          and_then (encode_length (length (as_bytes (decimal i))) (out @ [tag_byte CHR ''I'']))
            (\<lambda>out. Inr (out @ as_bytes (decimal i)))
      | TBinary64 w \<Rightarrow>
          if \<not> f64_is_finite w then tcv1_err NonFiniteBinary64
          else Inr (out @ [tag_byte CHR ''D''] @ to_be_bytes (if f64_is_zero w then 0 else w))
      | TString s \<Rightarrow> encode_string nfc s out
      | TArray items \<Rightarrow>
          and_then (encode_length (length items) (out @ [tag_byte CHR ''A'']))
            (\<lambda>out. try_fold (\<lambda>out v. encode_value nfc v out (depth + 1)) out items)
      | TObject entries \<Rightarrow> encode_object nfc entries out depth)"
| "encode_object nfc entries out depth =
     and_then (encode_length (length entries) (out @ [tag_byte CHR ''O''])) (\<lambda>out.
     and_then (sorted_entries nfc entries) (\<lambda>pairs.
     try_fold (\<lambda>out (key, v). and_then (encode_normalized_string (as_bytes key) out)
       (\<lambda>out. encode_value nfc v out (depth + 1))) out pairs))"
  by pat_completeness auto

lemma size_entry_value:
  "(k, v) \<in> set entries \<Longrightarrow> size v \<le> size_list (size_prod (\<lambda>_. 0) size) entries"
  by (induction entries) auto

lemma size_element: "v \<in> set items \<Longrightarrow> size v \<le> size_list size items"
  by (induction items) auto

lemma size_sorted_entry:
  assumes "sorted_entries nfc entries = Inr pairs" "(k, v) \<in> set pairs"
  shows "size v \<le> size_list (size_prod (\<lambda>_. 0) size) entries"
  using sorted_entries_values[OF assms] size_entry_value by fastforce

termination encode_value
proof (relation "measure (case_sum (\<lambda>(_, v, _, _). 2 * size v)
    (\<lambda>(_, kvs, _, _). 2 * size_list (size_prod (\<lambda>_. 0) size) kvs + 1))")
qed (auto dest: size_element size_sorted_entry)

declare encode_value.simps [simp del] encode_object.simps [simp del]

text \<open>\<open>tcv1_encode\<close>, \<open>tcv1_preimage\<close>, \<open>tcv1_sha256\<close>.\<close>

definition tcv1_encode :: "(string \<Rightarrow> string) \<Rightarrow> typed_value \<Rightarrow> bytes tcv1" where
  "tcv1_encode nfc v = encode_value nfc v [] 0"

definition tcv1_preimage :: "(string \<Rightarrow> string) \<Rightarrow> typed_value \<Rightarrow> bytes tcv1" where
  "tcv1_preimage nfc v = encode_value nfc v tcv1_prefix 0"

definition sha256_hex :: "digest \<Rightarrow> bytes \<Rightarrow> string" where
  "sha256_hex sha256 preimage = bytes_to_hex (sha256 preimage)"

definition tcv1_sha256 :: "digest \<Rightarrow> (string \<Rightarrow> string) \<Rightarrow> typed_value \<Rightarrow> string tcv1" where
  "tcv1_sha256 sha256 nfc v = and_then (tcv1_preimage nfc v) (\<lambda>preimage. Inr (sha256_hex sha256 preimage))"

definition typed_fingerprint :: "digest \<Rightarrow> (string \<Rightarrow> string) \<Rightarrow> typed_value \<Rightarrow> string tcv1" where
  "typed_fingerprint sha256 nfc v = tcv1_sha256 sha256 nfc v"

definition fingerprint_without ::
  "digest \<Rightarrow> (string \<Rightarrow> string) \<Rightarrow> typed_value \<Rightarrow> string \<Rightarrow> string tcv1" where
  "fingerprint_without sha256 nfc v key =
     (case v of
        TObject entries \<Rightarrow>
          let normalized_key = normalize nfc key;
              removed = length (filter (\<lambda>(k, _). normalize nfc k = normalized_key) entries);
              filtered = filter (\<lambda>(k, _). normalize nfc k \<noteq> normalized_key) entries
          in if removed = 0 then tcv1_err (MissingObjectKey normalized_key)
             else if removed = 1 then
               and_then (encode_object nfc filtered tcv1_prefix 0)
                 (\<lambda>preimage. Inr (sha256_hex sha256 preimage))
             else tcv1_err (AmbiguousObjectKey normalized_key)
      | _ \<Rightarrow> tcv1_err ExpectedObject)"

section \<open>Structured items\<close>

text \<open>\<open>validate_typed_serde_value\<close> and its \<open>convert\<close>; a \<open>serde_json\<close> number is an integer or a
  finite binary64, so its \<open>expect\<close> cannot fail.\<close>

fun convert :: "json_value \<Rightarrow> typed_value" where
  "convert JNull = TNull"
| "convert (JBool b) = TBool b"
| "convert (JNumber n) =
     (case n of
        PosInt w \<Rightarrow> TInteger (Unsigned w)
      | NegInt w \<Rightarrow> TInteger (Signed w)
      | Float w \<Rightarrow> TBinary64 w)"
| "convert (JString s) = TString s"
| "convert (JArray vs) = TArray (map convert vs)"
| "convert (JObject kvs) = TObject (map (\<lambda>(k, v). (k, convert v)) kvs)"

definition validate_typed_serde_value :: "(string \<Rightarrow> string) \<Rightarrow> json_value \<Rightarrow> unit tcv1" where
  "validate_typed_serde_value nfc v = and_then (tcv1_encode nfc (convert v)) (\<lambda>_. Inr ())"

end
