(* ===== verification/CanonicalProofs.thy ===== *)
theory CanonicalProofs
  imports Canonical
begin

text \<open>
  What the TCV1 encoder computes: the bytes of the value's canonical form, which determine the form,
  and exactly the well-formed values encode.
\<close>

section \<open>The canonical form and its bytes\<close>

text \<open>
  Two values stand for the same document when they have the same form: integers by value, zeros of
  either sign, texts up to normalization, and objects up to the order of their entries.
\<close>

datatype (plugins only: code size) tcv1_form =
    FNull
  | FBool bool
  | FInteger int
  | FBinary64 f64
  | FString string
  | FArray "tcv1_form list"
  | FObject "(string \<times> tcv1_form) list"

definition integer_value :: "canonical_integer \<Rightarrow> int" where
  "integer_value i = (case i of Signed w \<Rightarrow> sint w | Unsigned w \<Rightarrow> uint w)"

definition compare_fst :: "string \<times> 'a \<Rightarrow> string \<times> 'a \<Rightarrow> ordering" where
  "compare_fst l r = ord_cmp (as_bytes (fst l)) (as_bytes (fst r))"

fun form :: "(string \<Rightarrow> string) \<Rightarrow> typed_value \<Rightarrow> tcv1_form" where
  "form nfc TNull = FNull"
| "form nfc (TBool b) = FBool b"
| "form nfc (TInteger i) = FInteger (integer_value i)"
| "form nfc (TBinary64 w) = FBinary64 (if f64_is_zero w then 0 else w)"
| "form nfc (TString s) = FString (normalize nfc s)"
| "form nfc (TArray vs) = FArray (map (form nfc) vs)"
| "form nfc (TObject kvs) =
     FObject (sort_by compare_fst (map (\<lambda>(k, v). (normalize nfc k, form nfc v)) kvs))"

definition length_bytes :: "nat \<Rightarrow> bytes" where
  "length_bytes n = to_be_bytes (of_nat n)"

definition text_bytes :: "string \<Rightarrow> bytes" where
  "text_bytes s = tag_byte CHR ''S'' # length_bytes (length s) @ as_bytes s"

fun form_bytes :: "tcv1_form \<Rightarrow> bytes" where
  "form_bytes FNull = [tag_byte CHR ''N'']"
| "form_bytes (FBool b) = [tag_byte (if b then CHR ''T'' else CHR ''F'')]"
| "form_bytes (FInteger i) =
     tag_byte CHR ''I'' # length_bytes (length (integer_text i)) @ as_bytes (integer_text i)"
| "form_bytes (FBinary64 w) = tag_byte CHR ''D'' # to_be_bytes w"
| "form_bytes (FString s) = text_bytes s"
| "form_bytes (FArray fs) =
     tag_byte CHR ''A'' # length_bytes (length fs) @ concat (map form_bytes fs)"
| "form_bytes (FObject kfs) =
     tag_byte CHR ''O'' # length_bytes (length kfs) @
       concat (map (\<lambda>(k, f). text_bytes k @ form_bytes f) kfs)"

text \<open>The values the encoder accepts below \<open>depth\<close> enclosing containers.\<close>

fun tcv1_wf :: "(string \<Rightarrow> string) \<Rightarrow> nat \<Rightarrow> typed_value \<Rightarrow> bool" where
  "tcv1_wf nfc d TNull = (d \<le> max_nesting_depth)"
| "tcv1_wf nfc d (TBool b) = (d \<le> max_nesting_depth)"
| "tcv1_wf nfc d (TInteger i) = (d \<le> max_nesting_depth)"
| "tcv1_wf nfc d (TBinary64 w) = (d \<le> max_nesting_depth \<and> f64_is_finite w)"
| "tcv1_wf nfc d (TString s) = (d \<le> max_nesting_depth \<and> length (normalize nfc s) < 2 ^ 64)"
| "tcv1_wf nfc d (TArray vs) =
     (d \<le> max_nesting_depth \<and> length vs < 2 ^ 64 \<and> list_all (tcv1_wf nfc (d + 1)) vs)"
| "tcv1_wf nfc d (TObject kvs) =
     (d \<le> max_nesting_depth \<and> length kvs < 2 ^ 64 \<and>
      distinct (map (\<lambda>(k, _). normalize nfc k) kvs) \<and>
      list_all (\<lambda>(k, v). length (normalize nfc k) < 2 ^ 64 \<and> tcv1_wf nfc (d + 1) v) kvs)"

section \<open>Writers\<close>

text \<open>A writer appends to its output whatever the output is.\<close>

lemma length_as_bytes [simp]: "length (as_bytes s) = length s"
  by (simp add: as_bytes_def)

lemma length_to_be_bytes [simp]: "length (to_be_bytes w) = 8"
  by (simp add: to_be_bytes_def)

lemma length_length_bytes [simp]: "length (length_bytes n) = 8"
  by (simp add: length_bytes_def)

lemma to_be_bytes_inj: "to_be_bytes a = to_be_bytes b \<longleftrightarrow> a = b"
  using to_le_bytes_inj by (auto simp: to_be_bytes_def)

lemma length_bytes_inj:
  assumes "m < 2 ^ 64" "n < 2 ^ 64"
  shows "length_bytes m = length_bytes n \<longleftrightarrow> m = n"
proof
  assume "length_bytes m = length_bytes n"
  then have "unat (of_nat m :: 64 word) = unat (of_nat n :: 64 word)"
    by (simp add: length_bytes_def to_be_bytes_inj)
  with assms show "m = n" by (simp add: unat_of_nat)
qed simp

lemma encode_length_eq:
  "encode_length n out = (if n < 2 ^ 64 then Inr (out @ length_bytes n) else tcv1_err LengthOverflow)"
  by (simp add: encode_length_def length_bytes_def)

lemma try_fold_writes:
  assumes "\<And>out x. x \<in> set xs \<Longrightarrow> ok x \<Longrightarrow> f out x = Inr (out @ g x)"
    and "\<And>out x. x \<in> set xs \<Longrightarrow> \<not> ok x \<Longrightarrow> \<exists>e. f out x = tcv1_err e"
  shows "list_all ok xs \<Longrightarrow> try_fold f out xs = Inr (out @ concat (map g xs))"
    and "\<not> list_all ok xs \<Longrightarrow> \<exists>e. try_fold f out xs = tcv1_err e"
  using assms
proof (induction xs arbitrary: out)
  case (Cons x xs)
  {
    case 1
    with Cons.IH(1)[of "out @ g x"] show ?case by simp
  next
    case 2
    show ?case
    proof (cases "ok x")
      case True
      then have "f out x = Inr (out @ g x)" using 2 by simp
      with True 2 Cons.IH(2)[of "out @ g x"] show ?thesis by simp
    next
      case False
      with 2 have "\<exists>e. f out x = tcv1_err e" by simp
      then show ?thesis by auto
    qed
  }
qed simp_all

section \<open>The loop over the keys of an object\<close>

lemma collect_entries:
  "try_fold (collect_entry nfc) (seen, pairs) kvs = Inr (seen', pairs') \<Longrightarrow>
     distinct (map (\<lambda>(k, _). normalize nfc k) kvs) \<and>
     (\<forall>(k, _) \<in> set kvs. seen (normalize nfc k) = None) \<and>
     pairs' = pairs @ map (\<lambda>(k, v). (normalize nfc k, v)) kvs"
proof (induction kvs arbitrary: seen pairs)
  case (Cons kv kvs)
  obtain k v where kv: "kv = (k, v)" by (cases kv)
  obtain st where st: "collect_entry nfc (seen, pairs) kv = Inr st"
      "try_fold (collect_entry nfc) st kvs = Inr (seen', pairs')"
    using Cons.prems by (auto simp: and_then_ok)
  then have none: "seen (normalize nfc k) = None"
    and st_eq: "st = (seen(normalize nfc k \<mapsto> k), pairs @ [(normalize nfc k, v)])"
    by (auto simp: kv collect_entry_def Let_def split: option.splits if_splits)
  show ?case
    using Cons.IH[OF st(2)[unfolded st_eq]] none by (auto simp: kv split: if_splits)
qed simp

lemma collect_entry_fresh:
  "seen (normalize nfc k) = None \<Longrightarrow>
   collect_entry nfc (seen, pairs) (k, v) =
     Inr (seen(normalize nfc k \<mapsto> k), pairs @ [(normalize nfc k, v)])"
  by (simp add: collect_entry_def Let_def)

lemma collect_entries_ok:
  assumes "distinct (map (\<lambda>(k, _). normalize nfc k) kvs)"
    and "\<forall>(k, _) \<in> set kvs. seen (normalize nfc k) = None"
  shows "\<exists>st. try_fold (collect_entry nfc) (seen, pairs) kvs = Inr st"
  using assms
proof (induction kvs arbitrary: seen pairs)
  case (Cons kv kvs)
  obtain k v where kv: "kv = (k, v)" by (cases kv)
  have "\<forall>(k', _) \<in> set kvs. (seen(normalize nfc k \<mapsto> k)) (normalize nfc k') = None"
    using Cons.prems by (force simp: kv)
  then have "\<exists>st. try_fold (collect_entry nfc)
      (seen(normalize nfc k \<mapsto> k), pairs @ [(normalize nfc k, v)]) kvs = Inr st"
    using Cons.IH Cons.prems(1) by (simp add: kv)
  moreover have "seen (normalize nfc k) = None" using Cons.prems(2) by (simp add: kv)
  ultimately show ?case by (simp add: kv collect_entry_fresh)
qed simp

lemma collect_entry_err: "collect_entry nfc st kv = Inl e \<Longrightarrow> \<exists>e'. e = Err e'"
  by (cases st; cases kv) (auto simp: collect_entry_def Let_def split: option.splits if_splits)

lemma collect_entries_err:
  "try_fold (collect_entry nfc) st kvs = Inl e \<Longrightarrow> \<exists>e'. e = Err e'"
  by (induction kvs arbitrary: st) (auto simp: and_then_err dest: collect_entry_err)

definition normalized_pairs ::
  "(string \<Rightarrow> string) \<Rightarrow> (string \<times> typed_value) list \<Rightarrow> (string \<times> typed_value) list" where
  "normalized_pairs nfc kvs = sort_by compare_keys (map (\<lambda>(k, v). (normalize nfc k, v)) kvs)"

lemma sorted_entries_ok:
  assumes "distinct (map (\<lambda>(k, _). normalize nfc k) kvs)"
  shows "sorted_entries nfc kvs = Inr (normalized_pairs nfc kvs)"
proof -
  obtain seen' pairs' where "try_fold (collect_entry nfc) (Map.empty, []) kvs = Inr (seen', pairs')"
    using collect_entries_ok[OF assms, of Map.empty "[]"] by auto
  with collect_entries[OF this] show ?thesis by (simp add: sorted_entries_def normalized_pairs_def)
qed

lemma sorted_entries_err:
  assumes "\<not> distinct (map (\<lambda>(k, _). normalize nfc k) kvs)"
  shows "\<exists>e. sorted_entries nfc kvs = tcv1_err e"
proof (cases "try_fold (collect_entry nfc) (Map.empty, []) kvs")
  case (Inl e)
  with collect_entries_err[OF this] show ?thesis by (auto simp: sorted_entries_def)
next
  case (Inr st)
  with collect_entries[of nfc Map.empty "[]" kvs "fst st" "snd st"] assms show ?thesis by simp
qed

text \<open>Sorting by key commutes with a change of the values.\<close>

lemma insert_by_map:
  assumes "\<And>x y. c' (f x) (f y) = c x y"
  shows "insert_by c' (f x) (map f xs) = map f (insert_by c x xs)"
  by (induction xs) (simp_all add: assms)

lemma sort_by_map:
  assumes "\<And>x y. c' (f x) (f y) = c x y"
  shows "sort_by c' (map f xs) = map f (sort_by c xs)"
  by (induction xs) (simp_all add: insert_by_map[of c' f c, OF assms])

lemma form_object:
  "form nfc (TObject kvs) = FObject (map (\<lambda>(k, v). (k, form nfc v)) (normalized_pairs nfc kvs))"
proof -
  have "map (\<lambda>(k, v). (normalize nfc k, form nfc v)) kvs =
      map (\<lambda>(k, v). (k, form nfc v)) (map (\<lambda>(k, v). (normalize nfc k, v)) kvs)"
    by (simp add: case_prod_unfold)
  then show ?thesis unfolding form.simps normalized_pairs_def
    by (subst sort_by_map[of compare_fst "\<lambda>(k, v). (k, form nfc v)" compare_keys, symmetric])
      (auto simp: compare_fst_def compare_keys_def case_prod_unfold comp_def)
qed


section \<open>The encoder writes the bytes of the form\<close>

definition writes :: "bool \<Rightarrow> bytes \<Rightarrow> (bytes \<Rightarrow> bytes tcv1) \<Rightarrow> bool" where
  "writes ok bs w \<longleftrightarrow> (\<forall>out. if ok then w out = Inr (out @ bs) else \<exists>e. w out = tcv1_err e)"

lemma writes_fold:
  assumes "\<And>x. x \<in> set xs \<Longrightarrow> writes (ok x) (g x) (\<lambda>out. f out x)"
  shows "writes (list_all ok xs) (concat (map g xs)) (\<lambda>out. try_fold f out xs)"
  unfolding writes_def
proof
  fix out
  show "if list_all ok xs then try_fold f out xs = Inr (out @ concat (map g xs))
      else \<exists>e. try_fold f out xs = tcv1_err e"
    using try_fold_writes[of xs ok f g out] assms by (simp add: writes_def)
qed

lemma writes_cong: "writes ok bs w \<Longrightarrow> ok = ok' \<Longrightarrow> bs = bs' \<Longrightarrow> writes ok' bs' w"
  by simp

lemma writes_then:
  assumes "writes ok bs w" "writes ok' bs' w'"
  shows "writes (ok \<and> ok') (bs @ bs') (\<lambda>out. and_then (w out) w')"
  unfolding writes_def
proof
  fix out
  show "if ok \<and> ok' then and_then (w out) w' = Inr (out @ bs @ bs')
      else \<exists>e. and_then (w out) w' = tcv1_err e"
    using assms by (cases ok; cases ok') (auto simp: writes_def dest!: spec[of _ out])
qed

lemma writes_length: "writes (n < 2 ^ 64) (tag # length_bytes n) (\<lambda>out. encode_length n (out @ [tag]))"
  by (simp add: writes_def encode_length_eq)

lemma writes_text:
  "writes (length s < 2 ^ 64) (text_bytes s) (encode_normalized_string (as_bytes s))"
  by (simp add: writes_def encode_normalized_string_def encode_length_eq text_bytes_def)

lemma length_integer_text: "length (decimal i) < 2 ^ 64"
proof -
  have "length (decimal i) \<le> 21"
  proof (cases i)
    case (Signed w)
    have "nat (- sint w) < 10 ^ 20" "nat (sint w) < 10 ^ 20"
      using sint_lt[of w] sint_ge[of w] by simp_all
    then show ?thesis
      using length_show_nat[of "nat (- sint w)" 20] length_show_nat[of "nat (sint w)" 20]
      by (simp add: Signed decimal_def show_i64_def)
  next
    case (Unsigned w)
    then show ?thesis using length_show_u64[of w] by (simp add: decimal_def show_u64_def)
  qed
  then show ?thesis by simp
qed

lemma decimal_text: "decimal i = integer_text (integer_value i)"
  by (cases i) (simp_all add: decimal_def integer_value_def show_i64_text show_u64_text)

definition object_wf :: "(string \<Rightarrow> string) \<Rightarrow> nat \<Rightarrow> (string \<times> typed_value) list \<Rightarrow> bool" where
  "object_wf nfc d kvs \<longleftrightarrow>
     length kvs < 2 ^ 64 \<and> distinct (map (\<lambda>(k, _). normalize nfc k) kvs) \<and>
     list_all (\<lambda>(k, v). length (normalize nfc k) < 2 ^ 64 \<and> tcv1_wf nfc (d + 1) v) kvs"

lemma list_all_normalized_pairs:
  "list_all (\<lambda>(k, v). length k < 2 ^ 64 \<and> P v) (normalized_pairs nfc kvs) =
   list_all (\<lambda>(k, v). length (normalize nfc k) < 2 ^ 64 \<and> P v) kvs"
  by (auto simp: list_all_iff normalized_pairs_def)

lemma length_normalized_pairs [simp]: "length (normalized_pairs nfc kvs) = length kvs"
  by (simp add: normalized_pairs_def)

lemma writes_object:
  assumes "\<And>k v. (k, v) \<in> set kvs \<Longrightarrow>
     writes (tcv1_wf nfc (d + 1) v) (form_bytes (form nfc v)) (\<lambda>out. encode_value nfc v out (d + 1))"
  shows "writes (object_wf nfc d kvs) (form_bytes (form nfc (TObject kvs)))
     (\<lambda>out. encode_object nfc kvs out d)"
proof (cases "distinct (map (\<lambda>(k, _). normalize nfc k) kvs)")
  case True
  let ?ok = "\<lambda>(k, v). length k < 2 ^ 64 \<and> tcv1_wf nfc (d + 1) v"
  let ?bytes = "\<lambda>(k, v). text_bytes k @ form_bytes (form nfc v)"
  let ?put = "\<lambda>out (k, v). and_then (encode_normalized_string (as_bytes k) out)
      (\<lambda>out. encode_value nfc v out (d + 1))"
  have w: "writes (?ok kv) (?bytes kv) (\<lambda>out. ?put out kv)" if kv: "kv \<in> set (normalized_pairs nfc kvs)" for kv
  proof -
    obtain k v where kv_eq: "kv = (k, v)" by (cases kv)
    obtain k' where "(k', v) \<in> set kvs" using kv by (auto simp: kv_eq normalized_pairs_def)
    from writes_then[OF writes_text assms[OF this], of k] show ?thesis by (simp add: kv_eq)
  qed
  have "writes (length kvs < 2 ^ 64 \<and> list_all ?ok (normalized_pairs nfc kvs))
     ((tag_byte CHR ''O'' # length_bytes (length kvs)) @ concat (map ?bytes (normalized_pairs nfc kvs)))
     (\<lambda>out. and_then (encode_length (length kvs) (out @ [tag_byte CHR ''O'']))
       (\<lambda>out. try_fold ?put out (normalized_pairs nfc kvs)))"
    by (rule writes_then[OF writes_length writes_fold]) (rule w)
  then have "writes (length kvs < 2 ^ 64 \<and> list_all ?ok (normalized_pairs nfc kvs))
     ((tag_byte CHR ''O'' # length_bytes (length kvs)) @ concat (map ?bytes (normalized_pairs nfc kvs)))
     (\<lambda>out. encode_object nfc kvs out d)"
    by (simp add: encode_object.simps sorted_entries_ok[OF True])
  then show ?thesis
  proof (rule writes_cong)
    show "(length kvs < 2 ^ 64 \<and> list_all ?ok (normalized_pairs nfc kvs)) = object_wf nfc d kvs"
      unfolding object_wf_def list_all_normalized_pairs using True by simp
    show "(tag_byte CHR ''O'' # length_bytes (length kvs)) @ concat (map ?bytes (normalized_pairs nfc kvs))
        = form_bytes (form nfc (TObject kvs))"
      unfolding form_object form_bytes.simps by (simp add: comp_def case_prod_unfold)
  qed
next
  case False
  then obtain e where "sorted_entries nfc kvs = tcv1_err e" using sorted_entries_err by blast
  then show ?thesis
    using False by (simp add: writes_def object_wf_def encode_object.simps encode_length_eq)
qed

lemma writes_value:
  "writes (tcv1_wf nfc d v) (form_bytes (form nfc v)) (\<lambda>out. encode_value nfc v out d)"
proof (induction v arbitrary: d)
  case (TInteger i)
  show ?case
    using length_integer_text[of i]
    by (simp add: writes_def encode_value.simps encode_length_eq decimal_text)
next
  case (TString s)
  show ?case
    using writes_text[of "normalize nfc s"]
    by (simp add: writes_def encode_value.simps encode_string_def)
next
  case (TArray vs)
  have "writes (length vs < 2 ^ 64 \<and> list_all (tcv1_wf nfc (d + 1)) vs)
     ((tag_byte CHR ''A'' # length_bytes (length vs)) @ concat (map (\<lambda>v. form_bytes (form nfc v)) vs))
     (\<lambda>out. and_then (encode_length (length vs) (out @ [tag_byte CHR ''A'']))
       (\<lambda>out. try_fold (\<lambda>out v. encode_value nfc v out (d + 1)) out vs))"
    by (rule writes_then[OF writes_length writes_fold]) (rule TArray)
  then show ?case by (simp add: writes_def encode_value.simps comp_def)
next
  case (TObject kvs)
  have "writes (object_wf nfc d kvs) (form_bytes (form nfc (TObject kvs)))
     (\<lambda>out. encode_object nfc kvs out d)"
    by (rule writes_object, rule TObject) (auto simp: prod_set_defs)
  then show ?case by (simp add: writes_def encode_value.simps object_wf_def)
qed (auto simp: writes_def encode_value.simps)


text \<open>The encoder returns exactly the bytes of the form, exactly for well-formed values.\<close>

lemma encode_value_ok [ok_iff]:
  "encode_value nfc v out d = Inr bs \<longleftrightarrow> tcv1_wf nfc d v \<and> bs = out @ form_bytes (form nfc v)"
  using writes_value[of nfc d v] by (cases "tcv1_wf nfc d v") (auto simp: writes_def dest: spec[of _ out])

lemma encode_value_err: "encode_value nfc v out d = Inl e \<Longrightarrow> \<exists>e'. e = Err e'"
  using writes_value[of nfc d v] by (auto simp: writes_def dest!: spec[of _ out] split: if_splits)

lemma encode_object_ok [ok_iff]:
  "encode_object nfc kvs out d = Inr bs \<longleftrightarrow>
     object_wf nfc d kvs \<and> bs = out @ form_bytes (form nfc (TObject kvs))"
  using writes_object[of kvs nfc d, OF writes_value]
  by (cases "object_wf nfc d kvs") (auto simp: writes_def dest: spec[of _ out])

section \<open>The bytes determine the form\<close>

fun form_sized :: "tcv1_form \<Rightarrow> bool" where
  "form_sized (FString s) = (length s < 2 ^ 64)"
| "form_sized (FInteger i) = (length (integer_text i) < 2 ^ 64)"
| "form_sized (FArray fs) = (length fs < 2 ^ 64 \<and> list_all form_sized fs)"
| "form_sized (FObject kfs) =
     (length kfs < 2 ^ 64 \<and> list_all (\<lambda>(k, f). length k < 2 ^ 64 \<and> form_sized f) kfs)"
| "form_sized f = True"

lemma form_sized_wf: "tcv1_wf nfc d v \<Longrightarrow> form_sized (form nfc v)"
proof (induction v arbitrary: d)
  case (TInteger i)
  then show ?case using length_integer_text[of i] by (simp add: decimal_text)
next
  case (TArray vs)
  then show ?case by (simp add: list_all_iff) blast
next
  case (TObject kvs)
  have "form_sized (form nfc v) \<and> length (normalize nfc k) < 2 ^ 64" if "(k, v) \<in> set kvs" for k v
    using TObject.IH[OF that] TObject.prems that by (fastforce simp: list_all_iff prod_set_defs)
  then show ?case using TObject.prems by (auto simp: list_all_iff)
qed simp_all

lemma length_prefix_split:
  assumes "length_bytes m @ as_bytes xs @ r = length_bytes n @ as_bytes ys @ s"
    and "m = length xs" "n = length ys" "m < 2 ^ 64" "n < 2 ^ 64"
  shows "xs = ys \<and> r = s"
proof -
  have "length_bytes m = length_bytes n" "as_bytes xs @ r = as_bytes ys @ s"
    using assms(1) by (simp_all add: append_eq_append_conv)
  moreover from this have "length xs = length ys"
    using assms length_bytes_inj by metis
  ultimately show ?thesis using as_bytes_inj by (simp add: append_eq_append_conv)
qed

lemma text_bytes_split:
  "text_bytes xs @ r = text_bytes ys @ s \<Longrightarrow> length xs < 2 ^ 64 \<Longrightarrow> length ys < 2 ^ 64 \<Longrightarrow>
   xs = ys \<and> r = s"
  using length_prefix_split[of "length xs" xs r "length ys" ys s] by (simp add: text_bytes_def)

text \<open>A code that splits off its own words splits off lists of the same length.\<close>

lemma concat_split:
  assumes "\<And>x y r s. x \<in> set xs \<Longrightarrow> y \<in> set ys \<Longrightarrow> enc x @ r = enc y @ s \<Longrightarrow> x = y \<and> r = s"
    and "length xs = length ys" "concat (map enc xs) @ r = concat (map enc ys) @ s"
  shows "xs = ys \<and> r = s"
  using assms(2,3,1)
proof (induction xs ys rule: list_induct2)
  case (Cons x xs y ys)
  have xy: "x = y \<and> concat (map enc xs) @ r = concat (map enc ys) @ s"
    by (rule Cons.prems(2)) (use Cons.prems(1) in simp_all)
  have "xs = ys \<and> r = s"
    by (rule Cons.IH[OF conjunct2[OF xy]], rule Cons.prems(2)) simp_all
  with xy show ?case by simp
qed simp

lemma counted_split:
  assumes "\<And>x y r s. x \<in> set xs \<Longrightarrow> y \<in> set ys \<Longrightarrow> enc x @ r = enc y @ s \<Longrightarrow> x = y \<and> r = s"
    and "length_bytes (length xs) @ concat (map enc xs) @ r = length_bytes (length ys) @ concat (map enc ys) @ s"
    and "length xs < 2 ^ 64" "length ys < 2 ^ 64"
  shows "xs = ys \<and> r = s"
proof -
  have "length_bytes (length xs) = length_bytes (length ys)"
    and c: "concat (map enc xs) @ r = concat (map enc ys) @ s"
    using assms(2) by (simp_all add: append_eq_append_conv)
  then have "length xs = length ys" using length_bytes_inj[OF assms(3,4)] by simp
  from concat_split[OF assms(1) this c] show ?thesis by blast
qed

text \<open>The tag byte tells the constructor.\<close>

definition form_tag :: "tcv1_form \<Rightarrow> char" where
  "form_tag f = (case f of
      FNull \<Rightarrow> CHR ''N'' | FBool b \<Rightarrow> if b then CHR ''T'' else CHR ''F'' | FInteger _ \<Rightarrow> CHR ''I''
    | FBinary64 _ \<Rightarrow> CHR ''D'' | FString _ \<Rightarrow> CHR ''S'' | FArray _ \<Rightarrow> CHR ''A'' | FObject _ \<Rightarrow> CHR ''O'')"

lemma tag_byte_inj: "tag_byte c = tag_byte d \<longleftrightarrow> c = d"
  by (simp add: tag_byte_def of_nat_byte_inj)

lemma form_bytes_tag: "\<exists>rest. form_bytes f = tag_byte (form_tag f) # rest"
  by (cases f) (simp_all add: form_tag_def text_bytes_def)

lemma form_bytes_split:
  "form_sized f \<Longrightarrow> form_sized g \<Longrightarrow> form_bytes f @ r = form_bytes g @ s \<Longrightarrow> f = g \<and> r = s"
proof (induction f arbitrary: g r s)
  case FNull
  then have "form_tag g = form_tag FNull" using form_bytes_tag[of g] by (auto simp: tag_byte_inj form_tag_def)
  then show ?case using FNull by (cases g) (simp_all add: form_tag_def split: if_splits)
next
  case (FBool b)
  then have "form_tag g = form_tag (FBool b)" using form_bytes_tag[of g] by (auto simp: tag_byte_inj form_tag_def)
  then show ?case using FBool by (cases g) (simp_all add: form_tag_def split: if_splits)
next
  case (FInteger i)
  then have "form_tag g = form_tag (FInteger i)" using form_bytes_tag[of g] by (auto simp: tag_byte_inj form_tag_def)
  then obtain j where g: "g = FInteger j" by (cases g) (simp_all add: form_tag_def split: if_splits)
  with FInteger show ?case
    using length_prefix_split[of _ "integer_text i" r _ "integer_text j" s] integer_text_inj by auto
next
  case (FBinary64 w)
  then have "form_tag g = form_tag (FBinary64 w)" using form_bytes_tag[of g] by (auto simp: tag_byte_inj form_tag_def)
  then obtain u where g: "g = FBinary64 u" by (cases g) (simp_all add: form_tag_def split: if_splits)
  with FBinary64 show ?case by (simp add: append_eq_append_conv to_be_bytes_inj)
next
  case (FString t)
  then have "form_tag g = form_tag (FString t)"
    using form_bytes_tag[of g] by (auto simp: tag_byte_inj form_tag_def text_bytes_def)
  then obtain u where g: "g = FString u" by (cases g) (simp_all add: form_tag_def split: if_splits)
  with FString text_bytes_split[of t r u s] show ?case by simp
next
  case (FArray fs)
  then have "form_tag g = form_tag (FArray fs)" using form_bytes_tag[of g] by (auto simp: tag_byte_inj form_tag_def)
  then obtain gs where g: "g = FArray gs" by (cases g) (simp_all add: form_tag_def split: if_splits)
  have "fs = gs \<and> r = s"
  proof (rule counted_split)
    show "x = y \<and> r = s"
      if "x \<in> set fs" "y \<in> set gs" "form_bytes x @ r = form_bytes y @ s" for x y r s
      using FArray.IH[OF that(1) _ _ that(3)] FArray.prems(1,2) that(1,2) g by (simp add: list_all_iff)
  qed (use FArray.prems g in simp_all)
  with g show ?case by simp
next
  case (FObject kfs)
  then have "form_tag g = form_tag (FObject kfs)" using form_bytes_tag[of g] by (auto simp: tag_byte_inj form_tag_def)
  then obtain kgs where g: "g = FObject kgs" by (cases g) (simp_all add: form_tag_def split: if_splits)
  let ?enc = "\<lambda>(k, f). text_bytes k @ form_bytes f"
  have "kfs = kgs \<and> r = s"
  proof (rule counted_split)
    fix x y r s
    assume xy: "x \<in> set kfs" "y \<in> set kgs" "?enc x @ r = ?enc y @ s"
    obtain k f l h where p: "x = (k, f)" "y = (l, h)" by (cases x; cases y)
    have sized: "length k < 2 ^ 64" "form_sized f" "length l < 2 ^ 64" "form_sized h"
      using FObject.prems(1,2) xy p g by (auto simp: list_all_iff)
    have "k = l \<and> form_bytes f @ r = form_bytes h @ s"
      using text_bytes_split[of k "form_bytes f @ r" l "form_bytes h @ s"] xy(3) p sized by simp
    moreover have "f = h \<and> r = s" if "form_bytes f @ r = form_bytes h @ s"
      by (rule FObject.IH[OF xy(1), of f]) (use p sized that in \<open>auto simp: prod_set_defs\<close>)
    ultimately show "x = y \<and> r = s" using p by simp
  qed (use FObject.prems g in simp_all)
  with g show ?case by simp
qed

lemma form_bytes_inj:
  "form_sized f \<Longrightarrow> form_sized g \<Longrightarrow> form_bytes f = form_bytes g \<Longrightarrow> f = g"
  using form_bytes_split[of f g "[]" "[]"] by simp


section \<open>Properties of the encoding\<close>

text \<open>\<open>tcv1_encode\<close> succeeds exactly on the values within the nesting limit, with finite
  numbers, distinct normalized keys and lengths that fit \<open>u64\<close>, and its result is the byte grammar
  of the value's canonical form.\<close>

theorem tcv1_encode_spec:
  "tcv1_encode nfc v = Inr bs \<longleftrightarrow> tcv1_wf nfc 0 v \<and> bs = form_bytes (form nfc v)"
  by (simp add: tcv1_encode_def encode_value_ok)

lemma tcv1_preimage_ok [ok_iff]:
  "tcv1_preimage nfc v = Inr bs \<longleftrightarrow> tcv1_wf nfc 0 v \<and> bs = tcv1_prefix @ form_bytes (form nfc v)"
  by (simp add: tcv1_preimage_def encode_value_ok)

text \<open>C28: the hashed preimage is injective on documents: two values that encode have the same
  preimage exactly when they have the same canonical form (same integers, same numbers up to the
  sign of zero, same normalized texts, same entries in any order). Nothing else collides before
  SHA-256.\<close>

theorem tcv1_preimage_inj:
  assumes "tcv1_preimage nfc v = Inr a" "tcv1_preimage nfc w = Inr b"
  shows "a = b \<longleftrightarrow> form nfc v = form nfc w"
  using assms form_bytes_inj[OF form_sized_wf form_sized_wf, of nfc 0 v nfc 0 w]
  by (auto simp: tcv1_preimage_ok)

lemma tcv1_preimage_inj_witness:
  "tcv1_preimage id (TArray [TNull, TBool True]) = Inr (tcv1_prefix @ form_bytes (FArray [FNull, FBool True]))
   \<and> tcv1_preimage id (TArray [TNull]) = Inr (tcv1_prefix @ form_bytes (FArray [FNull]))
   \<and> tcv1_prefix @ form_bytes (FArray [FNull, FBool True]) \<noteq> tcv1_prefix @ form_bytes (FArray [FNull])"
proof -
  have ok: "tcv1_preimage id (TArray [TNull, TBool True]) = Inr (tcv1_prefix @ form_bytes (FArray [FNull, FBool True]))"
    "tcv1_preimage id (TArray [TNull]) = Inr (tcv1_prefix @ form_bytes (FArray [FNull]))"
    by (simp_all add: tcv1_preimage_ok max_nesting_depth_def)
  with tcv1_preimage_inj[OF ok] show ?thesis by simp
qed


text \<open>The order in which an object lists its entries does not matter.\<close>

lemma normalized_pairs_mset:
  assumes "mset kvs = mset kvs'" "distinct (map (\<lambda>(k, _). normalize nfc k) kvs)"
  shows "normalized_pairs nfc kvs = normalized_pairs nfc kvs'"
  unfolding normalized_pairs_def
proof (rule sort_by_mset_eq)
  let ?ps = "map (\<lambda>(k, v). (normalize nfc k, v)) kvs"
  have "distinct (map fst ?ps)" using assms(2) by (simp add: comp_def case_prod_unfold)
  then have "inj_on fst (set ?ps)" using distinct_map by blast
  then have "inj_on (\<lambda>p. as_bytes (fst p)) (set ?ps)"
    by (rule comp_inj_on[of _ _ as_bytes, unfolded comp_def]) (auto intro: inj_onI as_bytes_inj)
  from strict_order_on_inv_image[OF strict_order_on_ord_cmp this]
  show "strict_order_on (set ?ps) compare_keys" by (simp add: compare_keys_def[abs_def])
  show "mset ?ps = mset (map (\<lambda>(k, v). (normalize nfc k, v)) kvs')" using assms(1) by simp
qed simp

lemma object_wf_mset: "mset kvs = mset kvs' \<Longrightarrow> object_wf nfc d kvs = object_wf nfc d kvs'"
proof -
  assume m: "mset kvs = mset kvs'"
  then have "mset (map (\<lambda>(k, _). normalize nfc k) kvs) = mset (map (\<lambda>(k, _). normalize nfc k) kvs')"
    by simp
  then have "distinct (map (\<lambda>(k, _). normalize nfc k) kvs) = distinct (map (\<lambda>(k, _). normalize nfc k) kvs')"
    by (rule mset_eq_imp_distinct_iff)
  with m show ?thesis
    using mset_eq_setD[OF m] mset_eq_length[OF m] by (simp add: object_wf_def list_all_iff)
qed

text \<open>an object encodes to the same bytes whatever the order of its entries: reordering them
  changes neither whether it encodes nor the fingerprint.\<close>

theorem tcv1_object_order:
  assumes "mset kvs = mset kvs'" "tcv1_sha256 sha256 nfc (TObject kvs) = Inr fp"
  shows "tcv1_sha256 sha256 nfc (TObject kvs') = Inr fp"
proof -
  have wf: "tcv1_wf nfc 0 (TObject kvs)" using assms(2) by (auto simp: tcv1_sha256_def and_then_ok tcv1_preimage_ok)
  then have ok: "object_wf nfc 0 kvs" by (simp add: object_wf_def)
  then have "object_wf nfc 0 kvs'" using object_wf_mset[OF assms(1)] by simp
  then have "tcv1_wf nfc 0 (TObject kvs')" by (simp add: object_wf_def max_nesting_depth_def)
  moreover have "distinct (map (\<lambda>(k, _). normalize nfc k) kvs)" using ok by (simp add: object_wf_def)
  then have "form nfc (TObject kvs) = form nfc (TObject kvs')"
    unfolding form_object by (simp only: normalized_pairs_mset[OF assms(1)])
  ultimately have "tcv1_preimage nfc (TObject kvs') = tcv1_preimage nfc (TObject kvs)"
    using wf by (metis tcv1_preimage_ok)
  with assms(2) show ?thesis by (simp add: tcv1_sha256_def)
qed

lemma tcv1_object_order_witness:
  "\<exists>fp. tcv1_sha256 id id (TObject [(''z'', TNull), (''a'', TBool True)]) = Inr fp \<and>
     tcv1_sha256 id id (TObject [(''a'', TBool True), (''z'', TNull)]) = Inr fp"
proof -
  let ?kvs = "[(''z'', TNull), (''a'', TBool True)]"
  have "\<exists>fp. tcv1_sha256 id id (TObject ?kvs) = Inr fp"
    by (auto simp: tcv1_sha256_def and_then_ok tcv1_preimage_ok max_nesting_depth_def normalize_def)
  then obtain fp where fp: "tcv1_sha256 id id (TObject ?kvs) = Inr fp" ..
  have "mset ?kvs = mset [(''a'', TBool True), (''z'', TNull)]" by simp
  from tcv1_object_order[OF this fp] fp show ?thesis by blast
qed

text \<open>\<open>fingerprint_without\<close> succeeds exactly when the value is an object with exactly one entry
  under the normalized key whose other entries encode, and is then the fingerprint of the object
  without that entry.\<close>

theorem fingerprint_without_spec:
  "fingerprint_without sha256 nfc v key = Inr fp \<longleftrightarrow>
     (\<exists>kvs before k x after. v = TObject kvs \<and> kvs = before @ (k, x) # after \<and>
        normalize nfc k = normalize nfc key \<and>
        list_all (\<lambda>(k, _). normalize nfc k \<noteq> normalize nfc key) (before @ after) \<and>
        typed_fingerprint sha256 nfc (TObject (before @ after)) = Inr fp)"
  (is "_ = ?rhs")
proof
  let ?p = "\<lambda>(k, _). normalize nfc k = normalize nfc key"
  let ?q = "\<lambda>(k, _). normalize nfc k \<noteq> normalize nfc key"
  have same: "typed_fingerprint sha256 nfc (TObject kvs) =
      and_then (encode_object nfc kvs tcv1_prefix 0) (\<lambda>preimage. Inr (sha256_hex sha256 preimage))" for kvs
    by (simp add: typed_fingerprint_def tcv1_sha256_def tcv1_preimage_def encode_value.simps)
  {
    assume ok: "fingerprint_without sha256 nfc v key = Inr fp"
    then obtain kvs where v: "v = TObject kvs" by (cases v) (simp_all add: fingerprint_without_def)
    with ok have one: "length (filter ?p kvs) = 1"
      and fp: "typed_fingerprint sha256 nfc (TObject (filter ?q kvs)) = Inr fp"
      by (simp_all add: fingerprint_without_def Let_def same split: if_splits)
    from one obtain kx where "filter ?p kvs = [kx]" by (auto simp: length_Suc_conv)
    from filter_eq_ConsD[OF this] obtain before after where
      s: "kvs = before @ kx # after" "\<forall>u \<in> set before. \<not> ?p u" "?p kx" "[] = filter ?p after" by blast
    have "\<forall>u \<in> set after. \<not> ?p u" using s(4) by (metis filter_empty_conv)
    with s(2) have all: "list_all ?q (before @ after)" by (auto simp: list_all_iff case_prod_unfold)
    have "filter ?q kvs = before @ after"
      using all s(1,3) by (simp add: list_all_iff case_prod_unfold filter_id_conv)
    with fp v s(1,3) all show ?rhs by (cases kx) auto
  }
  {
    assume ?rhs
    then obtain kvs before k x after where r: "v = TObject kvs" "kvs = before @ (k, x) # after"
      "normalize nfc k = normalize nfc key" "list_all ?q (before @ after)"
      "typed_fingerprint sha256 nfc (TObject (before @ after)) = Inr fp" by blast
    have "filter ?q kvs = before @ after" "filter ?p kvs = [(k, x)]"
      using r(2,3,4) by (simp_all add: list_all_iff case_prod_unfold filter_id_conv filter_empty_conv)
    with r(1,5) show "fingerprint_without sha256 nfc v key = Inr fp"
      by (simp add: fingerprint_without_def Let_def same)
  }
qed

end
