(* ===== verification/CanonicalParser.thy ===== *)
theory CanonicalParser
  imports CanonicalProofs
begin

text \<open>
  \<open>crates/dag-ml-core/src/canonical.rs\<close>, the strict JSON parser: a recursive descent over the bytes
  of a UTF-8 string with an offset and a budget of structural elements. The offset only grows, which
  is why the mutually recursive value, array and object parsers terminate.
\<close>

section \<open>State and scanning\<close>

record parser =
  offset :: nat
  remaining_nodes :: nat

type_synonym 'a parse = "('a \<times> parser) tcv1"

definition parser_new :: parser where
  "parser_new = \<lparr>offset = 0, remaining_nodes = 2 ^ 64 - 1\<rparr>"

definition advance :: "nat \<Rightarrow> parser \<Rightarrow> parser" where
  "advance n st = st\<lparr>offset := offset st + n\<rparr>"

definition peek :: "string \<Rightarrow> parser \<Rightarrow> char option" where
  "peek inp st = (if offset st < length inp then Some (inp ! offset st) else None)"

definition invalid :: "parser \<Rightarrow> string \<Rightarrow> 'a tcv1" where
  "invalid st message = tcv1_err (InvalidJson (offset st) message)"

definition take_node :: "parser \<Rightarrow> parser" where
  "take_node st = st\<lparr>remaining_nodes := remaining_nodes st - 1\<rparr>"

lemma take_node_simps [simp]:
  "offset (take_node st) = offset st" "remaining_nodes (take_node st) = remaining_nodes st - 1"
  by (simp_all add: take_node_def)

lemma offset_advance [simp]: "offset (advance n st) = offset st + n"
  "remaining_nodes (advance n st) = remaining_nodes st"
  by (simp_all add: advance_def)

lemma peek_Some: "peek inp st = Some c \<longleftrightarrow> offset st < length inp \<and> inp ! offset st = c"
  by (auto simp: peek_def)

text \<open>\<open>while matches!(self.peek(), Some(..)) { self.offset += 1 }\<close>.\<close>

function skip_while :: "(char \<Rightarrow> bool) \<Rightarrow> string \<Rightarrow> parser \<Rightarrow> parser" where
  "skip_while p inp st =
     (case peek inp st of
        Some c \<Rightarrow> if p c then skip_while p inp (advance 1 st) else st
      | None \<Rightarrow> st)"
  by pat_completeness auto
termination
  by (relation "measure (\<lambda>(_, inp, st). length inp - offset st)") (auto simp: peek_Some)

declare skip_while.simps [simp del]

definition skip_whitespace :: "string \<Rightarrow> parser \<Rightarrow> parser" where
  "skip_whitespace = skip_while (\<lambda>c. c \<in> {CHR '' '', CHR 0x0A, CHR 0x0D, CHR 0x09})"

definition skip_digits :: "string \<Rightarrow> parser \<Rightarrow> parser" where
  "skip_digits = skip_while is_ascii_digit"

definition consume_if :: "string \<Rightarrow> char \<Rightarrow> parser \<Rightarrow> bool \<times> parser" where
  "consume_if inp expected st =
     (if peek inp st = Some expected then (True, advance 1 st) else (False, st))"

definition expect :: "string \<Rightarrow> char \<Rightarrow> string \<Rightarrow> parser \<Rightarrow> parser tcv1" where
  "expect inp expected message st =
     (let (found, st') = consume_if inp expected st in if found then Inr st' else invalid st' message)"

definition consume_literal :: "string \<Rightarrow> string \<Rightarrow> parser \<Rightarrow> parser tcv1" where
  "consume_literal inp literal st =
     (if offset st + length literal \<le> length inp \<and>
         take (length literal) (drop (offset st) inp) = literal
      then Inr (advance (length literal) st) else invalid st ''invalid JSON literal'')"

section \<open>Numbers\<close>

text \<open>The digits after a point or an exponent mark: at least one.\<close>

definition require_digits :: "string \<Rightarrow> string \<Rightarrow> parser \<Rightarrow> parser tcv1" where
  "require_digits inp message st =
     (if option_ex is_ascii_digit (peek inp st)
      then Inr (skip_digits inp st) else invalid st message)"

definition integer_part :: "string \<Rightarrow> parser \<Rightarrow> parser tcv1" where
  "integer_part inp st =
     (case peek inp st of
        Some c \<Rightarrow>
          if c = CHR ''0'' then
            (let st = advance 1 st
             in if option_ex is_ascii_digit (peek inp st) then invalid st ''leading zero in JSON number''
                else Inr st)
          else if is_ascii_digit c then Inr (skip_digits inp (advance 1 st))
          else invalid st ''expected integer digits''
      | None \<Rightarrow> invalid st ''expected integer digits'')"

definition fraction_part :: "string \<Rightarrow> parser \<Rightarrow> (bool \<times> parser) tcv1" where
  "fraction_part inp st =
     (let (point, st) = consume_if inp CHR ''.'' st
      in if point then and_then (require_digits inp ''expected digit after decimal point'' st)
           (\<lambda>st. Inr (True, st))
         else Inr (False, st))"

definition exponent_part :: "string \<Rightarrow> bool \<Rightarrow> parser \<Rightarrow> (bool \<times> parser) tcv1" where
  "exponent_part inp binary64 st =
     (if option_ex (\<lambda>c. c = CHR ''e'' \<or> c = CHR ''E'') (peek inp st) then
        (let st = advance 1 st;
             st = (if option_ex (\<lambda>c. c = CHR ''+'' \<or> c = CHR ''-'') (peek inp st) then advance 1 st else st)
         in and_then (require_digits inp ''expected exponent digits'' st) (\<lambda>st. Inr (True, st)))
      else Inr (binary64, st))"

definition number_value :: "nat \<Rightarrow> bool \<Rightarrow> bool \<Rightarrow> string \<Rightarrow> typed_value tcv1" where
  "number_value start negative binary64 token =
     (if binary64 then
        (case parse_f64 token of
           None \<Rightarrow> tcv1_err (Binary64OutOfRange start)
         | Some w \<Rightarrow> if f64_is_finite w then Inr (TBinary64 w) else tcv1_err (Binary64OutOfRange start))
      else if negative then
        (case parse_i64 token of
           None \<Rightarrow> tcv1_err (IntegerOutOfRange start ''i64'')
         | Some w \<Rightarrow> Inr (TInteger (Signed w)))
      else
        (case parse_u64 token of
           None \<Rightarrow> tcv1_err (IntegerOutOfRange start ''u64'')
         | Some n \<Rightarrow> Inr (TInteger (Unsigned (of_nat n)))))"

definition parse_number :: "string \<Rightarrow> parser \<Rightarrow> typed_value parse" where
  "parse_number inp st =
     (let start = offset st; (negative, st) = consume_if inp CHR ''-'' st
      in and_then (integer_part inp st) (\<lambda>st.
         and_then (fraction_part inp st) (\<lambda>(binary64, st).
         and_then (exponent_part inp binary64 st) (\<lambda>(binary64, st).
         and_then (str_slice inp start (offset st)) (\<lambda>token.
         and_then (number_value start negative binary64 token) (\<lambda>v. Inr (v, st)))))))"

section \<open>Strings\<close>

definition hex_digit_value :: "char \<Rightarrow> 16 word option" where
  "hex_digit_value c =
     (if is_ascii_digit c then Some (of_nat (byte_of c - 48))
      else if 97 \<le> byte_of c \<and> byte_of c \<le> 102 then Some (of_nat (byte_of c - 97 + 10))
      else if 65 \<le> byte_of c \<and> byte_of c \<le> 70 then Some (of_nat (byte_of c - 65 + 10))
      else None)"

primrec hex_digits :: "nat \<Rightarrow> string \<Rightarrow> 16 word \<Rightarrow> parser \<Rightarrow> (16 word) parse" where
  "hex_digits 0 inp value st = Inr (value, st)"
| "hex_digits (Suc n) inp value st =
     (case Option.bind (peek inp st) hex_digit_value of
        None \<Rightarrow> invalid st ''invalid hexadecimal digit in Unicode escape''
      | Some d \<Rightarrow> hex_digits n inp (or (push_bit 4 value) d) (advance 1 st))"

definition parse_hex_quad :: "string \<Rightarrow> parser \<Rightarrow> (16 word) parse" where
  "parse_hex_quad inp st =
     (if length inp < offset st + 4 then invalid st ''incomplete Unicode escape''
      else hex_digits 4 inp 0 st)"

definition push_scalar :: "string \<Rightarrow> nat \<Rightarrow> string tcv1" where
  "push_scalar out scalar =
     (case from_u32 scalar of
        None \<Rightarrow> Inl (Panic (ExpectFailed ''validated Unicode scalar value''))
      | Some n \<Rightarrow> Inr (out @ encode_utf8 n))"

definition parse_unicode_escape :: "string \<Rightarrow> string \<Rightarrow> parser \<Rightarrow> string parse" where
  "parse_unicode_escape inp out st =
     (let first_offset = offset st
      in and_then (parse_hex_quad inp st) (\<lambda>(first, st).
         let first = unat first in
         if 0xd800 \<le> first \<and> first \<le> 0xdbff then
           if peek inp st \<noteq> Some CHR 0x5C \<or> peek inp (advance 1 st) \<noteq> Some CHR ''u''
           then tcv1_err (InvalidJson first_offset ''high surrogate is not followed by a low surrogate'')
           else
             let st = advance 2 st; low_offset = offset st
             in and_then (parse_hex_quad inp st) (\<lambda>(low, st).
                let low = unat low in
                if \<not> (0xdc00 \<le> low \<and> low \<le> 0xdfff)
                then tcv1_err (InvalidJson low_offset ''high surrogate is not followed by a low surrogate'')
                else and_then (push_scalar out (0x10000 + (first - 0xd800) * 1024 + (low - 0xdc00)))
                  (\<lambda>out. Inr (out, st)))
         else if 0xdc00 \<le> first \<and> first \<le> 0xdfff
         then tcv1_err (InvalidJson first_offset ''isolated low surrogate in JSON string'')
         else and_then (push_scalar out first) (\<lambda>out. Inr (out, st))))"

definition parse_escape :: "string \<Rightarrow> string \<Rightarrow> parser \<Rightarrow> string parse" where
  "parse_escape inp out st =
     (case peek inp st of
        None \<Rightarrow> invalid st ''unterminated JSON string escape''
      | Some c \<Rightarrow>
          if c = CHR 0x22 then Inr (out @ [CHR 0x22], advance 1 st)
          else if c = CHR 0x5C then Inr (out @ [CHR 0x5C], advance 1 st)
          else if c = CHR ''/'' then Inr (out @ [CHR ''/''], advance 1 st)
          else if c = CHR ''b'' then Inr (out @ [CHR 0x08], advance 1 st)
          else if c = CHR ''f'' then Inr (out @ [CHR 0x0C], advance 1 st)
          else if c = CHR ''n'' then Inr (out @ [CHR 0x0A], advance 1 st)
          else if c = CHR ''r'' then Inr (out @ [CHR 0x0D], advance 1 st)
          else if c = CHR ''t'' then Inr (out @ [CHR 0x09], advance 1 st)
          else if c = CHR ''u'' then parse_unicode_escape inp out (advance 1 st)
          else invalid st ''invalid JSON string escape'')"

text \<open>Progress: what is parsed lies behind the offset, and the budget is not touched.\<close>

definition progress :: "nat \<Rightarrow> parser \<Rightarrow> 'a parse \<Rightarrow> bool" where
  "progress n st r \<longleftrightarrow> (\<forall>x st'. r = Inr (x, st') \<longrightarrow>
     offset st + n \<le> offset st' \<and> remaining_nodes st' = remaining_nodes st)"

lemma hex_digits_ok:
  "hex_digits n inp v st = Inr (w, st') \<Longrightarrow>
     st' = advance n st \<and> (offset st \<le> length inp \<longrightarrow> offset st + n \<le> length inp) \<and>
     (\<forall>i < n. byte_of (inp ! (offset st + i)) < 128)"
proof (induction n arbitrary: v st)
  case 0
  then show ?case by (simp add: advance_def)
next
  case (Suc n)
  then obtain c d where c: "peek inp st = Some c" "hex_digit_value c = Some d"
      "hex_digits n inp (or (push_bit 4 v) d) (advance 1 st) = Inr (w, st')"
    by (auto split: option.splits simp: invalid_def bind_eq_Some_conv)
  have "byte_of c < 128" using c(2) by (auto simp: hex_digit_value_def is_ascii_digit_def split: if_splits)
  moreover have "offset st < length inp" "inp ! offset st = c" using c(1) by (simp_all add: peek_Some)
  ultimately show ?case
    using Suc.IH[OF c(3)] by (auto simp: advance_def less_Suc_eq_0_disj)
qed


lemma progress_simps [simp]:
  "progress n st (Inl e)" "progress n st (invalid st' m)"
  "progress n st (Inr (x, st')) \<longleftrightarrow> offset st + n \<le> offset st' \<and> remaining_nodes st' = remaining_nodes st"
  by (simp_all add: progress_def invalid_def)

lemma progress_weaken: "progress n st r \<Longrightarrow> m \<le> n \<Longrightarrow> progress m st r"
  unfolding progress_def by force

lemma progress_advance: "progress n (advance k st) r \<Longrightarrow> progress (n + k) st r"
  by (auto simp: progress_def)

lemma progress_advance0: "progress 0 (advance k st) r \<Longrightarrow> progress 0 st r"
  by (auto simp: progress_def)

lemma progress_then:
  "progress 0 st r \<Longrightarrow> (\<And>x st'. r = Inr (x, st') \<Longrightarrow> progress 0 st' (f (x, st'))) \<Longrightarrow>
   progress 0 st (and_then r f)"
  by (cases r) (fastforce simp: progress_def)+

lemma progress_bind: "(\<And>x. r = Inr x \<Longrightarrow> progress n st (f x)) \<Longrightarrow> progress n st (and_then r f)"
  by (cases r) simp_all

lemma parse_hex_quad_progress: "progress 0 st (parse_hex_quad inp st)"
  by (auto simp: progress_def parse_hex_quad_def invalid_def dest!: hex_digits_ok split: if_splits)

lemma push_scalar_progress: "progress 0 st (and_then (push_scalar out n) (\<lambda>out. Inr (out, st)))"
  by (rule progress_bind) simp

lemma parse_unicode_escape_progress: "progress 0 st (parse_unicode_escape inp out st)"
  unfolding parse_unicode_escape_def Let_def
proof (rule progress_then[OF parse_hex_quad_progress], unfold prod.case, goal_cases)
  case (1 first st1)
  have "progress 0 st1 (and_then (parse_hex_quad inp (advance 2 st1)) f)"
    if "\<And>x st'. progress 0 st' (f (x, st'))" for f :: "16 word \<times> parser \<Rightarrow> string parse"
    using progress_advance[of 0 2 st1, OF progress_then[OF parse_hex_quad_progress that]]
    by (rule progress_weaken) simp
  then show ?case by (simp add: push_scalar_progress)
qed

lemma parse_escape_progress: "progress 0 st (parse_escape inp out st)"
  using progress_weaken[OF progress_advance[OF parse_unicode_escape_progress[of "advance 1 st" inp out]], of 0]
  by (simp add: parse_escape_def split: option.splits)

function string_loop :: "string \<Rightarrow> nat \<Rightarrow> string \<Rightarrow> parser \<Rightarrow> string parse" where
  "string_loop inp chunk_start out st =
     (case peek inp st of
        None \<Rightarrow> invalid st ''unterminated JSON string''
      | Some c \<Rightarrow>
          if c = CHR 0x22 then
            and_then (str_slice inp chunk_start (offset st)) (\<lambda>chunk. Inr (out @ chunk, advance 1 st))
          else if c = CHR 0x5C then
            and_then (str_slice inp chunk_start (offset st)) (\<lambda>chunk.
            and_then (parse_escape inp (out @ chunk) (advance 1 st)) (\<lambda>(out, st).
            string_loop inp (offset st) out st))
          else if byte_of c < 32 then invalid st ''unescaped control character in JSON string''
          else if byte_of c < 128 then string_loop inp chunk_start out (advance 1 st)
          else and_then (char_len_at inp (offset st)) (\<lambda>n. string_loop inp chunk_start out (advance n st)))"
  by pat_completeness auto

lemma char_len_pos: "char_len_at inp i = Inr n \<Longrightarrow> 0 < n"
  by (auto simp: char_len_at_def split: if_splits list.splits)

termination string_loop
proof (relation "measure (\<lambda>(inp, _, _, st). length inp - offset st)")
  fix inp :: string and c out st chunk
  fix x :: "string \<times> parser" and out' st'
  assume "peek inp st = Some c" "parse_escape inp (out @ chunk) (advance 1 st) = Inr x" "(out', st') = x"
  moreover from this have "offset (advance 1 st) \<le> offset st'"
    using parse_escape_progress[of "advance 1 st" inp "out @ chunk"] by (auto simp: progress_def)
  ultimately show "((inp, offset st', out', st'), inp, chunk_start, out, st)
      \<in> measure (\<lambda>(inp, _, _, st). length inp - offset st)" for chunk_start
    by (auto simp: peek_Some)
qed (auto simp: peek_Some dest: char_len_pos)

declare string_loop.simps [simp del]

definition parse_string :: "string \<Rightarrow> parser \<Rightarrow> string parse" where
  "parse_string inp st = (let st = advance 1 st in string_loop inp (offset st) [] st)"


lemma string_loop_progress: "progress 0 st (string_loop inp chunk_start out st)"
proof (induction inp chunk_start out st rule: string_loop.induct)
  case (1 inp chunk_start out st)
  show ?case
  proof (cases "peek inp st")
    case None
    then show ?thesis by (simp add: string_loop.simps)
  next
    case (Some c)
    consider (quote) "c = CHR 0x22" | (escape) "c \<noteq> CHR 0x22" "c = CHR 0x5C"
      | (control) "c \<noteq> CHR 0x22" "c \<noteq> CHR 0x5C" "byte_of c < 32"
      | (ascii) "c \<noteq> CHR 0x22" "c \<noteq> CHR 0x5C" "\<not> byte_of c < 32" "byte_of c < 128"
      | (wide) "c \<noteq> CHR 0x22" "c \<noteq> CHR 0x5C" "\<not> byte_of c < 32" "\<not> byte_of c < 128" by blast
    then show ?thesis
    proof cases
      case quote
      have "progress 0 st (and_then (str_slice inp chunk_start (offset st))
          (\<lambda>chunk. Inr (out @ chunk, advance 1 st)))" by (rule progress_bind) simp
      with quote Some show ?thesis by (simp add: string_loop.simps)
    next
      case escape
      have "progress 0 (advance 1 st) (and_then (parse_escape inp (out @ chunk) (advance 1 st))
          (\<lambda>(out, st). string_loop inp (offset st) out st))"
        if "(str_slice inp chunk_start (offset st) :: string tcv1) = Inr chunk" for chunk
        by (rule progress_then[OF parse_escape_progress]) (use "1.IH"(1)[OF Some escape that] in auto)
      then have "progress 0 st (and_then (str_slice inp chunk_start (offset st)) (\<lambda>chunk.
          and_then (parse_escape inp (out @ chunk) (advance 1 st)) (\<lambda>(out, st).
          string_loop inp (offset st) out st)))"
        by (rule progress_bind[OF progress_advance0])
      with escape Some show ?thesis by (simp add: string_loop.simps)
    next
      case ascii
      from progress_advance0[OF "1.IH"(2)[OF Some ascii]] ascii Some
      show ?thesis by (simp add: string_loop.simps)
    next
      case wide
      have "progress 0 st (and_then (char_len_at inp (offset st))
          (\<lambda>n. string_loop inp chunk_start out (advance n st)))"
        by (rule progress_bind, rule progress_advance0, rule "1.IH"(3)[OF Some wide])
      with wide Some show ?thesis by (simp add: string_loop.simps)
    qed (simp_all add: Some string_loop.simps)
  qed
qed

lemma parse_string_progress: "progress 1 st (parse_string inp st)"
  using progress_advance[OF string_loop_progress[of "advance 1 st"]] by (simp add: parse_string_def Let_def)

lemma skip_while_offset:
  "offset st \<le> offset (skip_while p inp st) \<and> remaining_nodes (skip_while p inp st) = remaining_nodes st"
proof (induction p inp st rule: skip_while.induct)
  case (1 p inp st)
  show ?case
  proof (cases "peek inp st")
    case (Some c)
    with 1 show ?thesis by (cases "p c") (simp_all add: skip_while.simps[of p inp st])
  qed (simp add: skip_while.simps)
qed

lemma skip_offset [simp]:
  "offset st \<le> offset (skip_whitespace inp st)" "offset st \<le> offset (skip_digits inp st)"
  "remaining_nodes (skip_whitespace inp st) = remaining_nodes st"
  "remaining_nodes (skip_digits inp st) = remaining_nodes st"
  by (simp_all add: skip_whitespace_def skip_digits_def skip_while_offset)

text \<open>Parsers that return no value of their own.\<close>

definition moves :: "parser \<Rightarrow> parser \<Rightarrow> bool" where
  "moves st st' \<longleftrightarrow> offset st \<le> offset st' \<and> remaining_nodes st' = remaining_nodes st"

lemma moves_refl [simp]: "moves st st"
  by (simp add: moves_def)

lemma moves_trans: "moves st st1 \<Longrightarrow> moves st1 st2 \<Longrightarrow> moves st st2"
  by (simp add: moves_def)

lemma moves_skip: "moves st (advance n st)" "moves st (skip_whitespace inp st)" "moves st (skip_digits inp st)"
  by (simp_all add: moves_def)

lemma moves_parts:
  "require_digits inp m st = Inr st' \<Longrightarrow> moves st st'"
  "integer_part inp st = Inr st' \<Longrightarrow> moves st st'"
  "fraction_part inp st = Inr (b, st') \<Longrightarrow> moves st st'"
  "exponent_part inp b st = Inr (b', st') \<Longrightarrow> moves st st'"
  "expect inp c m st = Inr st' \<Longrightarrow> moves st st'"
  "consume_literal inp l st = Inr st' \<Longrightarrow> moves st st'"
  "consume_if inp c st = (found, st') \<Longrightarrow> moves st st'"
proof -
  have digits: "moves st st'" if "require_digits inp m st = Inr st'" for m st st'
    using that by (auto simp: require_digits_def invalid_def moves_skip split: if_splits)
  then show "require_digits inp m st = Inr st' \<Longrightarrow> moves st st'" .
  have if1: "moves st st'" if "consume_if inp c st = (found, st')" for c found st st'
    using that by (auto simp: consume_if_def moves_skip split: if_splits)
  then show "consume_if inp c st = (found, st') \<Longrightarrow> moves st st'" .
  show "integer_part inp st = Inr st' \<Longrightarrow> moves st st'"
    using moves_trans[OF moves_skip(1) moves_skip(3)]
    by (auto simp: integer_part_def Let_def invalid_def moves_skip split: option.splits if_splits)
  show "fraction_part inp st = Inr (b, st') \<Longrightarrow> moves st st'"
    using moves_trans[OF if1 digits]
    by (auto simp: fraction_part_def Let_def and_then_ok split: prod.splits if_splits intro: if1)
  show "exponent_part inp b st = Inr (b', st') \<Longrightarrow> moves st st'"
    using moves_trans[OF moves_skip(1) moves_trans[OF moves_skip(1) digits]]
      moves_trans[OF moves_skip(1) digits]
    by (auto simp: exponent_part_def Let_def and_then_ok split: if_splits)
  show "expect inp c m st = Inr st' \<Longrightarrow> moves st st'"
    by (auto simp: expect_def invalid_def split: prod.splits if_splits intro: if1)
  show "consume_literal inp l st = Inr st' \<Longrightarrow> moves st st'"
    by (auto simp: consume_literal_def invalid_def moves_skip split: if_splits)
qed

lemma parse_number_progress: "progress 0 st (parse_number inp st)"
proof -
  have "moves st st'" if "parse_number inp st = Inr (v, st')" for v st'
  proof -
    obtain neg st1 where s1: "consume_if inp CHR ''-'' st = (neg, st1)" by force
    with that obtain st2 b st3 b' where "integer_part inp st1 = Inr st2"
      "fraction_part inp st2 = Inr (b, st3)" "exponent_part inp b st3 = Inr (b', st')"
      by (auto simp: parse_number_def Let_def and_then_ok)
    with s1 show ?thesis by (blast intro: moves_trans moves_parts)
  qed
  then show ?thesis by (simp add: progress_def moves_def)
qed

section \<open>Values\<close>

function parse_value :: "(string \<Rightarrow> string) \<Rightarrow> string \<Rightarrow> nat \<Rightarrow> parser \<Rightarrow> typed_value parse"
  and array_loop ::
    "(string \<Rightarrow> string) \<Rightarrow> string \<Rightarrow> nat \<Rightarrow> typed_value list \<Rightarrow> parser \<Rightarrow> typed_value parse"
  and object_loop ::
    "(string \<Rightarrow> string) \<Rightarrow> string \<Rightarrow> nat \<Rightarrow> (string \<times> typed_value) list \<Rightarrow> (string \<rightharpoonup> nat) \<Rightarrow> parser
     \<Rightarrow> typed_value parse" where
  "parse_value nfc inp depth st =
     (if remaining_nodes st = 0 then invalid st ''JSON value exceeds its structural element budget''
      else if depth > max_nesting_depth then tcv1_err NestingTooDeep
      else
        let st = skip_whitespace inp (take_node st)
        in case peek inp st of
          None \<Rightarrow> invalid st ''unexpected end of input''
        | Some c \<Rightarrow>
            if c = CHR ''n'' then
              and_then (consume_literal inp ''null'' st) (\<lambda>st. Inr (TNull, st))
            else if c = CHR ''f'' then
              and_then (consume_literal inp ''false'' st) (\<lambda>st. Inr (TBool False, st))
            else if c = CHR ''t'' then
              and_then (consume_literal inp ''true'' st) (\<lambda>st. Inr (TBool True, st))
            else if c = CHR 0x22 then
              and_then (parse_string inp st) (\<lambda>(s, st). Inr (TString s, st))
            else if c = CHR ''['' then
              (let (close, st) = consume_if inp CHR '']'' (skip_whitespace inp (advance 1 st))
               in if close then Inr (TArray [], st) else array_loop nfc inp depth [] st)
            else if c = CHR 0x7B then
              (let (close, st) = consume_if inp CHR 0x7D (skip_whitespace inp (advance 1 st))
               in if close then Inr (TObject [], st) else object_loop nfc inp depth [] Map.empty st)
            else if c = CHR ''-'' \<or> is_ascii_digit c then parse_number inp st
            else invalid st ''expected a JSON value'')"
| "array_loop nfc inp depth items st =
     and_then (parse_value nfc inp (depth + 1) st) (\<lambda>(v, st).
     let st = skip_whitespace inp st
     in case peek inp st of
          None \<Rightarrow> invalid st ''unterminated array''
        | Some c \<Rightarrow>
            if c = CHR '','' then array_loop nfc inp depth (items @ [v]) (advance 1 st)
            else if c = CHR '']'' then Inr (TArray (items @ [v]), advance 1 st)
            else invalid st ''expected `,` or `]` in array'')"
| "object_loop nfc inp depth entries keys st =
     (let st = skip_whitespace inp st
      in if peek inp st \<noteq> Some CHR 0x22 then invalid st ''expected a string object key''
         else
           let key_offset = offset st
           in and_then (parse_string inp st) (\<lambda>(key, st).
              let normalized = normalize nfc key
              in case keys normalized of
                Some first_index \<Rightarrow>
                  if first_index < length entries then
                    let first = fst (entries ! first_index)
                    in if first = key then tcv1_err (DuplicateObjectKey key key_offset)
                       else tcv1_err (NfcKeyCollision first key key_offset)
                  else Inl (Panic IndexOutOfRange)
              | None \<Rightarrow>
                  and_then (expect inp CHR '':'' ''expected `:` after object key'' (skip_whitespace inp st))
                    (\<lambda>st. and_then (parse_value nfc inp (depth + 1) st) (\<lambda>(v, st).
                     let st = skip_whitespace inp st
                     in case peek inp st of
                          None \<Rightarrow> invalid st ''unterminated object''
                        | Some c \<Rightarrow>
                            if c = CHR '','' then
                              object_loop nfc inp depth (entries @ [(key, v)])
                                (keys(normalized \<mapsto> length entries)) (advance 1 st)
                            else if c = CHR 0x7D then Inr (TObject (entries @ [(key, v)]), advance 1 st)
                            else invalid st ''expected `,` or `}` in object''))))"
  by pat_completeness auto


text \<open>Every sub-parser that returns leaves the offset at or behind where it started; with it the
  remaining input decreases along every recursive call.\<close>

definition onward :: "parser \<Rightarrow> 'a parse \<Rightarrow> bool" where
  "onward st r \<longleftrightarrow> (\<forall>x st'. r = Inr (x, st') \<longrightarrow> offset st \<le> offset st')"

lemma onward_simps [simp]:
  "onward st (Inl e)" "onward st (invalid st' m)"
  "onward st (Inr (x, st')) \<longleftrightarrow> offset st \<le> offset st'"
  by (simp_all add: onward_def invalid_def)

lemma onward_bind: "(\<And>x. r = Inr x \<Longrightarrow> onward st (f x)) \<Longrightarrow> onward st (and_then r f)"
  by (cases r) simp_all

lemma onward_trans: "onward st1 r \<Longrightarrow> offset st \<le> offset st1 \<Longrightarrow> onward st r"
  by (auto simp: onward_def)

lemma onward_then:
  "onward st r \<Longrightarrow> (\<And>x st'. r = Inr (x, st') \<Longrightarrow> onward st' (f (x, st'))) \<Longrightarrow>
   onward st (and_then r f)"
  by (cases r) (fastforce simp: onward_def)+

lemma onward_progress: "progress n st r \<Longrightarrow> onward st r"
  by (auto simp: progress_def onward_def)

lemma onward_parts:
  "offset st \<le> offset st1 \<Longrightarrow> onward st (and_then (consume_literal inp l st1) (\<lambda>st. Inr (v, st)))"
  "offset st \<le> offset st1 \<Longrightarrow> onward st (and_then (parse_string inp st1) (\<lambda>(s, st). Inr (f s, st)))"
  "offset st \<le> offset st1 \<Longrightarrow> onward st (parse_number inp st1)"
proof -
  assume le: "offset st \<le> offset st1"
  show "onward st (and_then (consume_literal inp l st1) (\<lambda>st. Inr (v, st)))"
  proof (rule onward_bind)
    fix st2 assume "consume_literal inp l st1 = Inr st2"
    from moves_parts(6)[OF this] le show "onward st (Inr (v, st2))" by (simp add: moves_def)
  qed
  have "onward st1 (and_then (parse_string inp st1) (\<lambda>(s, st). Inr (f s, st)))"
    by (rule onward_then[OF onward_progress[OF parse_string_progress]]) simp
  then show "onward st (and_then (parse_string inp st1) (\<lambda>(s, st). Inr (f s, st)))"
    using le by (rule onward_trans)
  show "onward st (parse_number inp st1)"
    using onward_progress[OF parse_number_progress] le by (rule onward_trans)
qed

lemma onward_container:
  assumes "\<And>st'. consume_if inp c (skip_whitespace inp (advance 1 st1)) = (False, st') \<Longrightarrow> onward st' (k st')"
    and "offset st \<le> offset st1"
  shows "onward st (let (close, st') = consume_if inp c (skip_whitespace inp (advance 1 st1))
      in if close then Inr (v, st') else k st')"
proof -
  obtain close st' where c: "consume_if inp c (skip_whitespace inp (advance 1 st1)) = (close, st')" by force
  then have "moves (advance 1 st1) st'" by (blast intro: moves_trans moves_skip moves_parts(7))
  then have "offset st \<le> offset st'" using assms(2) by (simp add: moves_def)
  with c assms(1)[of st'] show ?thesis by (cases close) (auto intro: onward_trans)
qed

lemma values_onward:
  "parse_value_array_loop_object_loop_dom (Inl (nfc, inp, depth, st)) \<Longrightarrow>
     onward st (parse_value nfc inp depth st)"
  "parse_value_array_loop_object_loop_dom (Inr (Inl (nfc, inp, depth, items, st))) \<Longrightarrow>
     onward st (array_loop nfc inp depth items st)"
  "parse_value_array_loop_object_loop_dom (Inr (Inr (nfc, inp, depth, entries, keys, st))) \<Longrightarrow>
     onward st (object_loop nfc inp depth entries keys st)"
proof (induction nfc inp depth st and nfc inp depth items st and nfc inp depth entries keys st
    rule: parse_value_array_loop_object_loop.pinduct)
  case (1 nfc inp depth st)
  define st1 where "st1 = skip_whitespace inp (take_node st)"
  have le: "offset st \<le> offset st1"
    using skip_offset(1)[of "take_node st" inp] by (simp add: st1_def)
  show ?case
  proof (cases "remaining_nodes st = 0 \<or> max_nesting_depth < depth \<or> peek inp st1 = None")
    case True
    then show ?thesis
      by (elim disjE) (simp_all add: parse_value.psimps[OF 1(1)] Let_def st1_def[symmetric])
  next
    case False
    then obtain c where c: "remaining_nodes st \<noteq> 0" "\<not> max_nesting_depth < depth" "peek inp st1 = Some c" by blast
    have "c = CHR ''['' \<Longrightarrow> onward st (let (close, st) = consume_if inp CHR '']'' (skip_whitespace inp (advance 1 st1))
               in if close then Inr (TArray [], st) else array_loop nfc inp depth [] st)"
      by (rule onward_container[OF _ le]) (use c in \<open>simp add: "1.IH"(1)[OF c(1,2) st1_def c(3)]\<close>)
    moreover have "c = CHR 0x7B \<Longrightarrow> onward st (let (close, st) = consume_if inp CHR 0x7D (skip_whitespace inp (advance 1 st1))
               in if close then Inr (TObject [], st) else object_loop nfc inp depth [] Map.empty st)"
      by (rule onward_container[OF _ le]) (use c in \<open>simp add: "1.IH"(2)[OF c(1,2) st1_def c(3)]\<close>)
    ultimately show ?thesis
      using c by (simp add: parse_value.psimps[OF 1(1)] Let_def[of "skip_whitespace inp _"] st1_def[symmetric] onward_parts[OF le])
  qed
next
  case (2 nfc inp depth items st)
  show ?case
    unfolding array_loop.psimps[OF 2(1)]
  proof (rule onward_then[OF "2.IH"(1)], unfold prod.case, goal_cases)
    case (1 v st1)
    have "onward st1 (array_loop nfc inp depth (items @ [v]) (advance 1 (skip_whitespace inp st1)))"
      if "peek inp (skip_whitespace inp st1) = Some CHR '',''"
      by (rule onward_trans[OF "2.IH"(2)[OF 1 refl refl that refl]]) (simp add: le_SucI)
    then show ?case using skip_offset(1)[of st1 inp] by (simp add: Let_def le_SucI split: option.splits)
  qed
next
  case (3 nfc inp depth entries keys st)
  define st0 where "st0 = skip_whitespace inp st"
  show ?case
  proof (cases "peek inp st0 = Some CHR 0x22")
    case False
    then show ?thesis by (simp add: object_loop.psimps[OF 3(1)] st0_def)
  next
    case True
    then have nq: "\<not> peek inp st0 \<noteq> Some CHR 0x22" by simp
    have "onward st0 (object_loop nfc inp depth entries keys st)"
      unfolding object_loop.psimps[OF 3(1)] Let_def st0_def[symmetric] if_not_P[OF nq]
    proof (rule onward_then[OF onward_progress[OF parse_string_progress]], unfold prod.case, goal_cases)
      case (1 key st1)
      show ?case
      proof (cases "keys (normalize nfc key)")
        case None
        have "onward st1 (and_then (parse_value nfc inp (depth + 1) st2) (\<lambda>(v, st).
            case peek inp (skip_whitespace inp st) of
              None \<Rightarrow> invalid (skip_whitespace inp st) ''unterminated object''
            | Some c \<Rightarrow>
                if c = CHR '','' then
                  object_loop nfc inp depth (entries @ [(key, v)])
                    (keys(normalize nfc key \<mapsto> length entries)) (advance 1 (skip_whitespace inp st))
                else if c = CHR 0x7D then
                  Inr (TObject (entries @ [(key, v)]), advance 1 (skip_whitespace inp st))
                else invalid (skip_whitespace inp st) ''expected `,` or `}` in object''))"
          if st2: "expect inp CHR '':'' ''expected `:` after object key'' (skip_whitespace inp st1) = Inr st2" for st2
        proof -
          note IH = "3.IH"(1)[OF st0_def nq refl 1 refl refl None st2]
          have le: "offset st1 \<le> offset st2"
            using moves_trans[OF moves_skip(2) moves_parts(5)[OF st2]] by (simp add: moves_def)
          show ?thesis
          proof (rule onward_trans[OF onward_then[OF IH] le], unfold prod.case, goal_cases)
            case (1 v st3)
            note step = "3.IH"(2)[OF st0_def nq refl \<open>parse_string inp st0 = Inr (key, st1)\<close> refl refl None st2 1 refl refl]
            have "onward st3 (object_loop nfc inp depth (entries @ [(key, v)])
                (keys(normalize nfc key \<mapsto> length entries)) (advance 1 (skip_whitespace inp st3)))"
              if "peek inp (skip_whitespace inp st3) = Some CHR '',''"
              by (rule onward_trans[OF step[OF that refl]]) (simp add: le_SucI)
            then show ?case using skip_offset(1)[of st3 inp] by (simp add: Let_def le_SucI split: option.splits)
          qed
        qed
        with None show ?thesis by (simp add: onward_bind)
      qed simp
    qed
    then show ?thesis by (rule onward_trans) (simp add: st0_def)
  qed
qed


lemma open_step:
  assumes "(b, st') = consume_if inp c (skip_whitespace inp (advance (Suc 0) (skip_whitespace inp (take_node st))))"
  shows "offset st < offset st'"
  using moves_trans[OF moves_skip(2) moves_parts(7)[OF assms[symmetric]]]
    skip_offset(1)[of "take_node st" inp] by (simp add: moves_def)

lemma key_step:
  assumes "parse_string inp (skip_whitespace inp st) = Inr (key, st1)"
    and "expect inp c m (skip_whitespace inp st1) = Inr st2"
  shows "offset st < offset st2"
proof -
  have "offset st1 \<le> offset st2"
    using moves_trans[OF moves_skip(2) moves_parts(5)[OF assms(2)]] by (simp add: moves_def)
  moreover have "offset (skip_whitespace inp st) + 1 \<le> offset st1"
    using assms(1) parse_string_progress[of "skip_whitespace inp st" inp] by (simp add: progress_def)
  ultimately show ?thesis using skip_offset(1)[of st inp] by linarith
qed

lemma separator_step: "peek inp (skip_whitespace inp st) = Some c \<Longrightarrow>
    offset st \<le> offset (skip_whitespace inp st) \<and> offset (skip_whitespace inp st) < length inp \<and>
    offset st < length inp"
  using skip_offset(1)[of st inp] unfolding peek_Some by linarith

lemma values_onward_ok:
  "parse_value_array_loop_object_loop_dom (Inl (nfc, inp, depth, st)) \<Longrightarrow>
     parse_value nfc inp depth st = Inr (v, st') \<Longrightarrow> offset st \<le> offset st'"
  using values_onward(1) by (auto simp: onward_def)

termination parse_value
proof (relation "measure (case_sum (\<lambda>(_, inp, _, st). 2 * (length inp - offset st))
    (case_sum (\<lambda>(_, inp, _, _, st). 2 * (length inp - offset st) + 1)
      (\<lambda>(_, inp, _, _, _, st). 2 * (length inp - offset st) + 1)))", goal_cases)
  case (2 nfc inp depth st st1 c x xb y)
  then have "offset st < offset y" "offset st < length inp"
    using open_step[of xb y inp "CHR '']''" st] separator_step[of inp "take_node st"] by simp_all
  then show ?case by simp
next
  case (3 nfc inp depth st st1 c x xb y)
  then have "offset st < offset y" "offset st < length inp"
    using open_step[of xb y inp "CHR 0x7D" st] separator_step[of inp "take_node st"] by simp_all
  then show ?case by simp
next
  case (5 nfc inp depth items st x v y st2 c)
  then have "offset st \<le> offset y" using values_onward_ok by metis
  moreover have "offset y \<le> offset st2" "offset st2 < length inp" using 5 separator_step[of inp y] by simp_all
  ultimately have "offset st \<le> offset st2" by linarith
  with \<open>offset st2 < length inp\<close> show ?case by simp
next
  case (6 nfc inp depth entries keys st st0 ko x key y nk st2)
  then have "offset st < offset st2" using key_step by metis
  moreover have "offset st < length inp" using 6 separator_step[of inp st] by simp
  ultimately show ?case by simp
next
  case (7 nfc inp depth entries keys st st0 ko x key y nk st2 z v w st3 c)
  then have "offset st < offset st2" using key_step by metis
  moreover have "offset st2 \<le> offset w" using 7 values_onward_ok by metis
  moreover have "offset w \<le> offset st3" "offset st3 < length inp" using 7 separator_step[of inp w] by simp_all
  ultimately have "offset st < offset st3" by linarith
  with \<open>offset st3 < length inp\<close> show ?case by simp
qed simp_all

declare parse_value.simps [simp del] array_loop.simps [simp del] object_loop.simps [simp del]


section \<open>Entry points\<close>

text \<open>The document and nothing but white space behind it.\<close>

definition parse_document :: "(string \<Rightarrow> string) \<Rightarrow> string \<Rightarrow> parser \<Rightarrow> typed_value tcv1" where
  "parse_document nfc inp st =
     and_then (parse_value nfc inp 0 st) (\<lambda>(v, st).
     let st = skip_whitespace inp st
     in if offset st \<noteq> length inp then invalid st ''trailing data after the JSON value'' else Inr v)"

definition parse_typed_json :: "(string \<Rightarrow> string) \<Rightarrow> string \<Rightarrow> typed_value tcv1" where
  "parse_typed_json nfc inp = parse_document nfc inp parser_new"

definition parse_bounded_typed_json :: "(string \<Rightarrow> string) \<Rightarrow> string \<Rightarrow> 64 word \<Rightarrow> typed_value tcv1" where
  "parse_bounded_typed_json nfc inp max_nodes =
     parse_document nfc inp (parser_new\<lparr>remaining_nodes := unat max_nodes\<rparr>)"

definition parse_typed_json_bytes :: "(string \<Rightarrow> string) \<Rightarrow> bytes \<Rightarrow> typed_value tcv1" where
  "parse_typed_json_bytes nfc bs =
     (case from_utf8 bs of
        Inl (valid_up_to, error_len) \<Rightarrow> tcv1_err (InvalidUtf8 valid_up_to error_len)
      | Inr inp \<Rightarrow> parse_typed_json nfc inp)"

section \<open>External contracts\<close>

text \<open>
  \<open>validate_external_container_shapes\<close>: the raw document and the re-serialised typed value agree on
  which parts are objects and arrays. \<open>serde_json\<close> objects are looked up by key.
\<close>

datatype (plugins only: code size) shape_error = NeedsObject string | NeedsArray string | WrongContainer string

definition json_get :: "(string \<times> json_value) list \<Rightarrow> string \<Rightarrow> json_value option" where
  "json_get kvs k = map_of kvs k"

fun enumerated_pairs :: "nat \<Rightarrow> 'a list \<Rightarrow> 'b list \<Rightarrow> (nat \<times> 'a \<times> 'b) list" where
  "enumerated_pairs i (x # xs) (y # ys) = (i, x, y) # enumerated_pairs (Suc i) xs ys"
| "enumerated_pairs i _ _ = []"

lemma enumerated_pairs_mem: "(i, x, y) \<in> set (enumerated_pairs j xs ys) \<Longrightarrow> x \<in> set xs"
  by (induction j xs ys rule: enumerated_pairs.induct) auto

lemma json_object_size: "(k, v) \<in> set kvs \<Longrightarrow> size v < size (JObject kvs)"
  by (induction kvs) auto

lemma json_array_size: "v \<in> set vs \<Longrightarrow> size v < size (JArray vs)"
  by (induction vs) auto

function validate_external_container_shapes ::
  "json_value \<Rightarrow> json_value \<Rightarrow> string \<Rightarrow> shape_error + unit" where
  "validate_external_container_shapes raw typed path =
     (case (raw, typed) of
        (JObject raw, JObject typed) \<Rightarrow>
          try_each (\<lambda>(key, raw_value). case json_get typed key of
              Some typed_value \<Rightarrow>
                validate_external_container_shapes raw_value typed_value (path @ ''.'' @ key)
            | None \<Rightarrow> Inr ()) raw
      | (JArray raw, JArray typed) \<Rightarrow>
          try_each (\<lambda>(index, raw_value, typed_value).
            validate_external_container_shapes raw_value typed_value (path @ ''['' @ show_nat index @ '']''))
            (enumerated_pairs 0 raw typed)
      | (_, JObject _) \<Rightarrow> Inl (NeedsObject path)
      | (_, JArray _) \<Rightarrow> Inl (NeedsArray path)
      | (JObject _, _) \<Rightarrow> Inl (WrongContainer path)
      | (JArray _, _) \<Rightarrow> Inl (WrongContainer path)
      | _ \<Rightarrow> Inr ())"
  by pat_completeness auto
termination
proof (relation "measure (\<lambda>(raw, _, _). size raw)")
qed (use enumerated_pairs_mem json_object_size json_array_size in \<open>fastforce\<close>)+

declare validate_external_container_shapes.simps [simp del]

text \<open>What the boundary reports through the caller's \<open>shape_error\<close>, and the decoding of a contract:
  serde's \<open>from_str\<close>, \<open>from_value\<close> and \<open>to_value\<close> are parameters.\<close>

datatype (plugins only: code size) boundary_error =
    NotStrictDocument string tcv1_error
  | NotStrictValue string tcv1_error
  | ShapeMismatch shape_error

definition map_error :: "('e \<Rightarrow> 'f) \<Rightarrow> 'e failure + 'a \<Rightarrow> 'f failure + 'a" where
  "map_error f r = (case r of Inl (Err e) \<Rightarrow> Inl (Err (f e)) | Inl (Panic p) \<Rightarrow> Inl (Panic p) | Inr x \<Rightarrow> Inr x)"

definition deserialize_external_value ::
  "(string \<Rightarrow> string) \<Rightarrow> (json_value \<Rightarrow> 'a result) \<Rightarrow> ('a \<Rightarrow> json_value result) \<Rightarrow> json_value \<Rightarrow> string
   \<Rightarrow> (boundary_error \<Rightarrow> dag_ml_error) \<Rightarrow> 'a result" where
  "deserialize_external_value nfc from_value to_value raw label shape_error =
     and_then (map_error (\<lambda>e. shape_error (NotStrictValue label e)) (validate_typed_serde_value nfc raw)) (\<lambda>_.
     and_then (from_value raw) (\<lambda>value.
     and_then (to_value value) (\<lambda>typed.
     case validate_external_container_shapes raw typed label of
       Inl e \<Rightarrow> fail (shape_error (ShapeMismatch e))
     | Inr _ \<Rightarrow> Inr value)))"

definition deserialize_external_contract ::
  "(string \<Rightarrow> string) \<Rightarrow> (string \<Rightarrow> json_value result) \<Rightarrow> (json_value \<Rightarrow> 'a result)
   \<Rightarrow> ('a \<Rightarrow> json_value result) \<Rightarrow> string \<Rightarrow> string \<Rightarrow> (boundary_error \<Rightarrow> dag_ml_error) \<Rightarrow> 'a result" where
  "deserialize_external_contract nfc from_str from_value to_value json label shape_error =
     and_then (map_error (\<lambda>e. shape_error (NotStrictDocument label e)) (parse_typed_json nfc json)) (\<lambda>_.
     and_then (from_str json) (\<lambda>raw.
     deserialize_external_value nfc from_value to_value raw label shape_error))"

end
