(* ===== verification/CanonicalReads.thy ===== *)
theory CanonicalReads
  imports CanonicalParser
begin

text \<open>
  The successful runs of the strict parser as an inductive relation, and what they guarantee: the
  parsed value is within the encoder's domain, the budget of structural elements counts exactly the
  value's nodes.
\<close>

section \<open>Successful runs\<close>

text \<open>A value begins: the budget and the depth allow it, and a character follows the white space.\<close>

definition enters :: "string \<Rightarrow> nat \<Rightarrow> parser \<Rightarrow> char \<Rightarrow> parser \<Rightarrow> bool" where
  "enters inp d st c st1 \<longleftrightarrow>
     remaining_nodes st \<noteq> 0 \<and> d \<le> max_nesting_depth \<and>
     st1 = skip_whitespace inp (take_node st) \<and> peek inp st1 = Some c"

definition parse_leaf :: "string \<Rightarrow> char \<Rightarrow> parser \<Rightarrow> typed_value parse" where
  "parse_leaf inp c st =
     (if c = CHR ''n'' then and_then (consume_literal inp ''null'' st) (\<lambda>st. Inr (TNull, st))
      else if c = CHR ''f'' then and_then (consume_literal inp ''false'' st) (\<lambda>st. Inr (TBool False, st))
      else if c = CHR ''t'' then and_then (consume_literal inp ''true'' st) (\<lambda>st. Inr (TBool True, st))
      else if c = CHR 0x22 then and_then (parse_string inp st) (\<lambda>(s, st). Inr (TString s, st))
      else if c = CHR ''-'' \<or> is_ascii_digit c then parse_number inp st
      else invalid st ''expected a JSON value'')"

definition opens :: "string \<Rightarrow> char \<Rightarrow> parser \<Rightarrow> bool \<times> parser" where
  "opens inp c st = consume_if inp c (skip_whitespace inp (advance 1 st))"

definition read_key :: "string \<Rightarrow> parser \<Rightarrow> (string \<times> parser) tcv1" where
  "read_key inp st =
     (let st = skip_whitespace inp st
      in if peek inp st \<noteq> Some CHR 0x22 then invalid st ''expected a string object key''
         else parse_string inp st)"

definition after_key :: "string \<Rightarrow> parser \<Rightarrow> parser tcv1" where
  "after_key inp st = expect inp CHR '':'' ''expected `:` after object key'' (skip_whitespace inp st)"

inductive reads_value :: "(string \<Rightarrow> string) \<Rightarrow> string \<Rightarrow> nat \<Rightarrow> parser \<Rightarrow> typed_value \<Rightarrow> parser \<Rightarrow> bool"
  and reads_items :: "(string \<Rightarrow> string) \<Rightarrow> string \<Rightarrow> nat \<Rightarrow> parser \<Rightarrow> typed_value list \<Rightarrow> parser \<Rightarrow> bool"
  and reads_entries ::
    "(string \<Rightarrow> string) \<Rightarrow> string \<Rightarrow> nat \<Rightarrow> string set \<Rightarrow> parser \<Rightarrow> (string \<times> typed_value) list \<Rightarrow> parser \<Rightarrow> bool"
  for nfc inp where
  leaf: "enters inp d st c st1 \<Longrightarrow> c \<noteq> CHR ''['' \<Longrightarrow> c \<noteq> CHR 0x7B \<Longrightarrow> parse_leaf inp c st1 = Inr (v, st') \<Longrightarrow>
    reads_value nfc inp d st v st'"
| empty_array: "enters inp d st CHR ''['' st1 \<Longrightarrow> opens inp CHR '']'' st1 = (True, st') \<Longrightarrow>
    reads_value nfc inp d st (TArray []) st'"
| array: "enters inp d st CHR ''['' st1 \<Longrightarrow> opens inp CHR '']'' st1 = (False, st2) \<Longrightarrow>
    reads_items nfc inp d st2 vs st' \<Longrightarrow> reads_value nfc inp d st (TArray vs) st'"
| empty_object: "enters inp d st CHR 0x7B st1 \<Longrightarrow> opens inp CHR 0x7D st1 = (True, st') \<Longrightarrow>
    reads_value nfc inp d st (TObject []) st'"
| object: "enters inp d st CHR 0x7B st1 \<Longrightarrow> opens inp CHR 0x7D st1 = (False, st2) \<Longrightarrow>
    reads_entries nfc inp d {} st2 kvs st' \<Longrightarrow> reads_value nfc inp d st (TObject kvs) st'"
| last_item: "reads_value nfc inp (d + 1) st v st1 \<Longrightarrow> peek inp (skip_whitespace inp st1) = Some CHR '']'' \<Longrightarrow>
    reads_items nfc inp d st [v] (advance 1 (skip_whitespace inp st1))"
| more_items: "reads_value nfc inp (d + 1) st v st1 \<Longrightarrow> peek inp (skip_whitespace inp st1) = Some CHR '','' \<Longrightarrow>
    reads_items nfc inp d (advance 1 (skip_whitespace inp st1)) vs st' \<Longrightarrow>
    reads_items nfc inp d st (v # vs) st'"
| last_entry: "read_key inp st = Inr (key, st1) \<Longrightarrow> normalize nfc key \<notin> seen \<Longrightarrow> after_key inp st1 = Inr st2 \<Longrightarrow>
    reads_value nfc inp (d + 1) st2 v st3 \<Longrightarrow> peek inp (skip_whitespace inp st3) = Some CHR 0x7D \<Longrightarrow>
    reads_entries nfc inp d seen st [(key, v)] (advance 1 (skip_whitespace inp st3))"
| more_entries: "read_key inp st = Inr (key, st1) \<Longrightarrow> normalize nfc key \<notin> seen \<Longrightarrow> after_key inp st1 = Inr st2 \<Longrightarrow>
    reads_value nfc inp (d + 1) st2 v st3 \<Longrightarrow> peek inp (skip_whitespace inp st3) = Some CHR '','' \<Longrightarrow>
    reads_entries nfc inp d (insert (normalize nfc key) seen) (advance 1 (skip_whitespace inp st3)) kvs st' \<Longrightarrow>
    reads_entries nfc inp d seen st ((key, v) # kvs) st'"

text \<open>The parser's equations in these terms.\<close>

lemma parse_value_eq:
  "parse_value nfc inp d st =
     (if remaining_nodes st = 0 then invalid st ''JSON value exceeds its structural element budget''
      else if d > max_nesting_depth then tcv1_err NestingTooDeep
      else
        let st1 = skip_whitespace inp (take_node st)
        in case peek inp st1 of
          None \<Rightarrow> invalid st1 ''unexpected end of input''
        | Some c \<Rightarrow>
            if c = CHR ''['' then
              (let (close, st2) = opens inp CHR '']'' st1
               in if close then Inr (TArray [], st2) else array_loop nfc inp d [] st2)
            else if c = CHR 0x7B then
              (let (close, st2) = opens inp CHR 0x7D st1
               in if close then Inr (TObject [], st2) else object_loop nfc inp d [] Map.empty st2)
            else parse_leaf inp c st1)"
proof -
  have "\<And>c. c = CHR ''['' \<Longrightarrow> c \<noteq> CHR ''n'' \<and> c \<noteq> CHR ''f'' \<and> c \<noteq> CHR ''t'' \<and> c \<noteq> CHR 0x22"
    "\<And>c. c = CHR 0x7B \<Longrightarrow> c \<noteq> CHR ''n'' \<and> c \<noteq> CHR ''f'' \<and> c \<noteq> CHR ''t'' \<and> c \<noteq> CHR 0x22" by simp_all
  then show ?thesis
    by (subst parse_value.simps) (simp add: opens_def parse_leaf_def Let_def split: option.split)
qed

lemma object_loop_eq:
  "object_loop nfc inp d entries keys st =
     and_then (read_key inp st) (\<lambda>(key, st1).
       case keys (normalize nfc key) of
         Some i \<Rightarrow>
           if i < length entries then
             if fst (entries ! i) = key then tcv1_err (DuplicateObjectKey key (offset (skip_whitespace inp st)))
             else tcv1_err (NfcKeyCollision (fst (entries ! i)) key (offset (skip_whitespace inp st)))
           else Inl (Panic IndexOutOfRange)
       | None \<Rightarrow> and_then (after_key inp st1) (\<lambda>st2. and_then (parse_value nfc inp (d + 1) st2) (\<lambda>(v, st3).
           case peek inp (skip_whitespace inp st3) of
             None \<Rightarrow> invalid (skip_whitespace inp st3) ''unterminated object''
           | Some c \<Rightarrow>
               if c = CHR '','' then
                 object_loop nfc inp d (entries @ [(key, v)]) (keys(normalize nfc key \<mapsto> length entries))
                   (advance 1 (skip_whitespace inp st3))
               else if c = CHR 0x7D then
                 Inr (TObject (entries @ [(key, v)]), advance 1 (skip_whitespace inp st3))
               else invalid (skip_whitespace inp st3) ''expected `,` or `}` in object'')))"
  by (subst object_loop.simps, unfold read_key_def after_key_def Let_def) (simp add: invalid_def)

lemma array_loop_eq:
  "array_loop nfc inp d items st =
     and_then (parse_value nfc inp (d + 1) st) (\<lambda>(v, st1).
       case peek inp (skip_whitespace inp st1) of
         None \<Rightarrow> invalid (skip_whitespace inp st1) ''unterminated array''
       | Some c \<Rightarrow>
           if c = CHR '','' then array_loop nfc inp d (items @ [v]) (advance 1 (skip_whitespace inp st1))
           else if c = CHR '']'' then Inr (TArray (items @ [v]), advance 1 (skip_whitespace inp st1))
           else invalid (skip_whitespace inp st1) ''expected `,` or `]` in array'')"
  by (subst array_loop.simps) (simp add: Let_def)


section \<open>The parser succeeds exactly along these runs\<close>

definition keys_agree ::
  "(string \<Rightarrow> string) \<Rightarrow> (string \<times> typed_value) list \<Rightarrow> (string \<rightharpoonup> nat) \<Rightarrow> bool" where
  "keys_agree nfc entries keys \<longleftrightarrow>
     dom keys = (\<lambda>(k, _). normalize nfc k) ` set entries \<and> (\<forall>i \<in> ran keys. i < length entries)"

lemma keys_agree_empty [simp]: "keys_agree nfc [] Map.empty"
  by (simp add: keys_agree_def)

lemma keys_agree_step:
  "keys_agree nfc entries keys \<Longrightarrow> keys (normalize nfc key) = None \<Longrightarrow>
   keys_agree nfc (entries @ [(key, v)]) (keys(normalize nfc key \<mapsto> length entries))"
  by (auto simp: keys_agree_def less_Suc_eq)

abbreviation taken :: "(string \<Rightarrow> string) \<Rightarrow> (string \<times> typed_value) list \<Rightarrow> string set" where
  "taken nfc entries \<equiv> (\<lambda>(k, _). normalize nfc k) ` set entries"

lemma object_loop_okE:
  assumes "object_loop nfc inp d entries keys st = Inr (v, st')"
  obtains key st1 st2 w st3 c where "read_key inp st = Inr (key, st1)" "keys (normalize nfc key) = None"
    "after_key inp st1 = Inr st2" "parse_value nfc inp (d + 1) st2 = Inr (w, st3)"
    "peek inp (skip_whitespace inp st3) = Some c"
proof -
  obtain key st1 where k: "read_key inp st = Inr (key, st1)"
    using assms unfolding object_loop_eq[of nfc inp d entries] and_then_ok by auto
  have n: "keys (normalize nfc key) = None"
    using assms k unfolding object_loop_eq[of nfc inp d entries] by (auto split: option.splits if_splits)
  obtain st2 where a: "after_key inp st1 = Inr st2"
    using assms k n unfolding object_loop_eq[of nfc inp d entries] by (cases "after_key inp st1") simp_all
  obtain w st3 where p: "parse_value nfc inp (d + 1) st2 = Inr (w, st3)"
    using assms k n a unfolding object_loop_eq[of nfc inp d entries]
    by (cases "parse_value nfc inp (d + 1) st2") auto
  obtain c where "peek inp (skip_whitespace inp st3) = Some c"
    using assms k n a p unfolding object_loop_eq[of nfc inp d entries]
    by (cases "peek inp (skip_whitespace inp st3)") (simp_all add: invalid_def)
  with k n a p show thesis by (rule that)
qed

lemma parse_reads:
  "parse_value nfc inp d st = Inr (v, st') \<Longrightarrow> reads_value nfc inp d st v st'"
  "array_loop nfc inp d items st = Inr (v, st') \<Longrightarrow>
     \<exists>vs. v = TArray (items @ vs) \<and> reads_items nfc inp d st vs st'"
  "object_loop nfc inp d entries keys st = Inr (v, st') \<Longrightarrow> dom keys = taken nfc entries \<Longrightarrow>
     \<exists>kvs. v = TObject (entries @ kvs) \<and> reads_entries nfc inp d (taken nfc entries) st kvs st'"
proof (induction nfc inp d st and nfc inp d items st and nfc inp d entries keys st
    arbitrary: v st' and v st' and v st' rule: parse_value_array_loop_object_loop.induct)
  case (1 nfc inp d st)
  then obtain st1 c where e: "enters inp d st c st1" and st1: "st1 = skip_whitespace inp (take_node st)"
    unfolding enters_def parse_value_eq[of nfc inp d st]
    by (auto simp: Let_def invalid_def split: if_splits option.splits)
  have en: "remaining_nodes st \<noteq> 0" "\<not> max_nesting_depth < d" "peek inp st1 = Some c"
    using e unfolding enters_def by auto
  consider "c = CHR ''[''" | "c = CHR 0x7B" | "c \<noteq> CHR ''[''" "c \<noteq> CHR 0x7B" by blast
  then show ?case
  proof cases
    case c: 1
    obtain close st2 where o: "opens inp CHR '']'' st1 = (close, st2)" by force
    show ?thesis
    proof (cases close)
      case True
      with "1.prems" en c o have "v = TArray []" "st2 = st'" by (simp_all add: parse_value_eq Let_def flip: st1)
      with e c o True show ?thesis by (auto intro: empty_array)
    next
      case False
      with "1.prems" en c o have l: "array_loop nfc inp d [] st2 = Inr (v, st')"
        by (simp add: parse_value_eq Let_def flip: st1)
      have "\<exists>vs. v = TArray ([] @ vs) \<and> reads_items nfc inp d st2 vs st'"
        by (rule "1.IH"(1)[OF en(1,2) st1 en(3) _ _ _ _ c refl o[unfolded opens_def, symmetric] False l])
          (simp_all add: c)
      with e c o False show ?thesis by (auto intro: array)
    qed
  next
    case c: 2
    obtain close st2 where o: "opens inp CHR 0x7D st1 = (close, st2)" by force
    show ?thesis
    proof (cases close)
      case True
      with "1.prems" en c o have "v = TObject []" "st2 = st'" by (simp_all add: parse_value_eq Let_def flip: st1)
      with e c o True show ?thesis by (auto intro: empty_object)
    next
      case False
      with "1.prems" en c o have l: "object_loop nfc inp d [] Map.empty st2 = Inr (v, st')"
        by (simp add: parse_value_eq Let_def flip: st1)
      have "\<exists>kvs. v = TObject ([] @ kvs) \<and> reads_entries nfc inp d (taken nfc []) st2 kvs st'"
        by (rule "1.IH"(2)[OF en(1,2) st1 en(3) _ _ _ _ _ c refl o[unfolded opens_def, symmetric] False l])
          (simp_all add: c)
      with e c o False show ?thesis by (auto intro: object)
    qed
  next
    case 3
    with "1.prems" en have "parse_leaf inp c st1 = Inr (v, st')" by (simp add: parse_value_eq Let_def flip: st1)
    with e 3 show ?thesis by (auto intro: leaf)
  qed
next
  case (2 nfc inp d items st)
  then obtain w st1 c where w: "parse_value nfc inp (d + 1) st = Inr (w, st1)"
      "peek inp (skip_whitespace inp st1) = Some c"
    by (auto simp: array_loop_eq[of nfc inp d items] and_then_ok invalid_def split: option.splits)
  note r = "2.IH"(1)[OF w(1)]
  show ?case
  proof (cases "c = CHR '',''")
    case True
    with 2(3) w have "array_loop nfc inp d (items @ [w]) (advance 1 (skip_whitespace inp st1)) = Inr (v, st')"
      by (simp add: array_loop_eq[of nfc inp d items])
    from "2.IH"(2)[OF w(1) refl refl w(2) True this] r w(2) True show ?thesis
      by (auto intro: more_items[simplified])
  next
    case False
    with 2(3) w have "c = CHR '']''" "v = TArray (items @ [w])" "st' = advance 1 (skip_whitespace inp st1)"
      by (auto simp: array_loop_eq[of nfc inp d items] invalid_def split: if_splits)
    with r w(2) show ?thesis by (auto intro: last_item[simplified])
  qed
next
  case (3 nfc inp d entries keys st)
  from 3(3) obtain key st1 st2 w st3 c where k: "read_key inp st = Inr (key, st1)" "keys (normalize nfc key) = None"
      "after_key inp st1 = Inr st2" "parse_value nfc inp (d + 1) st2 = Inr (w, st3)"
      "peek inp (skip_whitespace inp st3) = Some c"
    by (rule object_loop_okE)
  have q: "\<not> peek inp (skip_whitespace inp st) \<noteq> Some CHR 0x22" "parse_string inp (skip_whitespace inp st) = Inr (key, st1)"
    using k(1) by (auto simp: read_key_def Let_def invalid_def split: if_splits)
  note r = "3.IH"(1)[OF refl q(1) refl q(2) refl refl k(2) k(3)[unfolded after_key_def] k(4)]
  have fresh: "normalize nfc key \<notin> taken nfc entries" using k(2) 3(4) by blast
  show ?case
  proof (cases "c = CHR '',''")
    case True
    let ?entries = "entries @ [(key, w)]"
    have l: "object_loop nfc inp d ?entries (keys(normalize nfc key \<mapsto> length entries))
        (advance 1 (skip_whitespace inp st3)) = Inr (v, st')"
      using 3(3) k True by (simp add: object_loop_eq[of nfc inp d entries])
    have "dom (keys(normalize nfc key \<mapsto> length entries)) = taken nfc ?entries" using 3(4) by auto
    from "3.IH"(2)[OF refl q(1) refl q(2) refl refl k(2) k(3)[unfolded after_key_def] k(4) refl refl k(5) True l this]
    obtain kvs where "v = TObject (?entries @ kvs)"
      "reads_entries nfc inp d (taken nfc ?entries) (advance 1 (skip_whitespace inp st3)) kvs st'" by blast
    moreover have "taken nfc ?entries = insert (normalize nfc key) (taken nfc entries)" by simp
    ultimately show ?thesis using k True r fresh by (auto intro: more_entries[simplified])
  next
    case False
    with 3(3) k have "c = CHR 0x7D" "v = TObject (entries @ [(key, w)])" "st' = advance 1 (skip_whitespace inp st3)"
      by (auto simp: object_loop_eq[of nfc inp d entries] invalid_def split: if_splits)
    with r k fresh show ?thesis by (auto intro: last_entry[simplified])
  qed
qed


lemma parse_value_enters:
  assumes "enters inp d st c st1"
  shows "parse_value nfc inp d st =
     (if c = CHR ''['' then
        (let (close, st2) = opens inp CHR '']'' st1
         in if close then Inr (TArray [], st2) else array_loop nfc inp d [] st2)
      else if c = CHR 0x7B then
        (let (close, st2) = opens inp CHR 0x7D st1
         in if close then Inr (TObject [], st2) else object_loop nfc inp d [] Map.empty st2)
      else parse_leaf inp c st1)"
proof -
  have "remaining_nodes st \<noteq> 0" "\<not> max_nesting_depth < d" "st1 = skip_whitespace inp (take_node st)"
    "peek inp (skip_whitespace inp (take_node st)) = Some c"
    using assms unfolding enters_def by auto
  then show ?thesis by (subst parse_value_eq) (simp add: Let_def)
qed

lemma reads_parse:
  "reads_value nfc inp d st v st' \<Longrightarrow> parse_value nfc inp d st = Inr (v, st')"
  "reads_items nfc inp d st vs st' \<Longrightarrow> array_loop nfc inp d items st = Inr (TArray (items @ vs), st')"
  "reads_entries nfc inp d seen st kvs st' \<Longrightarrow> dom keys = seen \<Longrightarrow>
     object_loop nfc inp d entries keys st = Inr (TObject (entries @ kvs), st')"
proof (induction arbitrary: and items and entries keys rule: reads_value_reads_items_reads_entries.inducts)
  case (leaf d st c st1 v st')
  then show ?case by (simp add: parse_value_enters)
next
  case (last_item d st v st1)
  then show ?case by (simp add: array_loop_eq)
next
  case (more_items d st v st1 vs st')
  then show ?case by (simp add: array_loop_eq[of nfc inp d items st])
next
  case (last_entry st key st1 seen st2 d v st3)
  then have "keys (normalize nfc key) = None" by blast
  with last_entry show ?case by (simp add: object_loop_eq)
next
  case (more_entries st key st1 seen st2 d v st3 kvs st')
  then have "keys (normalize nfc key) = None" by blast
  moreover have "dom (keys(normalize nfc key \<mapsto> length entries)) = insert (normalize nfc key) seen"
    using more_entries.prems by simp
  ultimately show ?case
    using more_entries by (simp add: object_loop_eq[of nfc inp d entries keys st])
qed (simp_all add: parse_value_enters)

lemma parse_value_reads [ok_iff]:
  "parse_value nfc inp d st = Inr (v, st') \<longleftrightarrow> reads_value nfc inp d st v st'"
  using parse_reads(1) reads_parse(1) by blast

section \<open>Parsed values are within the encoder's domain\<close>

text \<open>The domain of the encoder without its limits on lengths.\<close>

fun strict_value :: "(string \<Rightarrow> string) \<Rightarrow> nat \<Rightarrow> typed_value \<Rightarrow> bool" where
  "strict_value nfc d (TBinary64 w) = (d \<le> max_nesting_depth \<and> f64_is_finite w)"
| "strict_value nfc d (TArray vs) = (d \<le> max_nesting_depth \<and> list_all (strict_value nfc (d + 1)) vs)"
| "strict_value nfc d (TObject kvs) =
     (d \<le> max_nesting_depth \<and> distinct (map (\<lambda>(k, _). normalize nfc k) kvs) \<and>
      list_all (\<lambda>(_, v). strict_value nfc (d + 1) v) kvs)"
| "strict_value nfc d _ = (d \<le> max_nesting_depth)"

lemma number_value_strict:
  "number_value start negative binary64 token = Inr v \<Longrightarrow> d \<le> max_nesting_depth \<Longrightarrow> strict_value nfc d v"
  by (auto simp: number_value_def split: if_splits option.splits)

lemma parse_leaf_strict:
  assumes "parse_leaf inp c st = Inr (v, st')" "d \<le> max_nesting_depth"
  shows "strict_value nfc d v"
proof (cases "c \<in> {CHR ''n'', CHR ''f'', CHR ''t'', CHR 0x22}")
  case True
  with assms show ?thesis by (auto simp: parse_leaf_def and_then_ok)
next
  case False
  with assms(1) have "parse_number inp st = Inr (v, st')"
    by (simp add: parse_leaf_def invalid_def split: if_splits)
  then obtain neg b token where "number_value (offset st) neg b token = Inr v"
    by (auto simp: parse_number_def and_then_ok Let_def split: prod.splits)
  with number_value_strict assms(2) show ?thesis by blast
qed

lemma reads_strict:
  "reads_value nfc inp d st v st' \<Longrightarrow> strict_value nfc d v"
  "reads_items nfc inp d st vs st' \<Longrightarrow> list_all (strict_value nfc (d + 1)) vs"
  "reads_entries nfc inp d seen st kvs st' \<Longrightarrow>
     distinct (map (\<lambda>(k, _). normalize nfc k) kvs) \<and> taken nfc kvs \<inter> seen = {} \<and>
     list_all (\<lambda>(_, v). strict_value nfc (d + 1) v) kvs"
proof (induction rule: reads_value_reads_items_reads_entries.inducts)
  case (leaf d st c st1 v st')
  then show ?case using parse_leaf_strict by (auto simp: enters_def)
next
  case (more_entries st key st1 seen st2 d v st3 kvs st')
  then show ?case by (auto simp: image_iff)
qed (auto simp: enters_def)

end
