(* ===== verification/CanonicalBudget.thy ===== *)
theory CanonicalBudget
  imports CanonicalReads
begin

text \<open>
  The budget of structural elements: only \<open>parse_value\<close> looks at it, one unit per value, so a
  bounded parse is the unbounded one for the documents with few enough values.
\<close>

section \<open>Everything below a value ignores the budget\<close>

definition with_budget :: "nat \<Rightarrow> parser \<Rightarrow> parser" where
  "with_budget r st = st\<lparr>remaining_nodes := r\<rparr>"

definition rebudget :: "nat \<Rightarrow> 'a parse \<Rightarrow> 'a parse" where
  "rebudget r res = and_then res (\<lambda>(x, st). Inr (x, with_budget r st))"

definition rebudget_state :: "nat \<Rightarrow> parser tcv1 \<Rightarrow> parser tcv1" where
  "rebudget_state r res = and_then res (\<lambda>st. Inr (with_budget r st))"

lemma with_budget_simps [simp]:
  "offset (with_budget r st) = offset st" "remaining_nodes (with_budget r st) = r"
  "peek inp (with_budget r st) = peek inp st"
  "with_budget r (with_budget s st) = with_budget r st"
  "invalid (with_budget r st) m = invalid st m"
  by (simp_all add: with_budget_def peek_def invalid_def)

lemma advance_with_budget [simp]: "advance n (with_budget r st) = with_budget r (advance n st)"
  by (simp add: advance_def with_budget_def)

lemma rebudget_simps [simp]:
  "rebudget r (Inl e) = Inl e" "rebudget r (Inr (x, st)) = Inr (x, with_budget r st)"
  "rebudget r (invalid st m) = invalid st m"
  "rebudget_state r (Inl e) = Inl e" "rebudget_state r (Inr st) = Inr (with_budget r st)"
  "rebudget_state r (invalid st m) = invalid st m"
  by (simp_all add: rebudget_def rebudget_state_def invalid_def)

lemma rebudget_and_then:
  "rebudget r (and_then m f) = and_then m (\<lambda>x. rebudget r (f x))"
  by (cases m) simp_all

lemma and_then_rebudget:
  "and_then (rebudget r m) f = and_then m (\<lambda>(x, st). f (x, with_budget r st))"
  "and_then (rebudget_state r n) g = and_then n (\<lambda>st. g (with_budget r st))"
  by (simp_all add: and_then_def rebudget_def rebudget_state_def split: sum.split prod.split)

lemma skip_while_budget: "skip_while p inp (with_budget r st) = with_budget r (skip_while p inp st)"
proof (induction p inp st rule: skip_while.induct)
  case (1 p inp st)
  show ?case
  proof (cases "peek inp st")
    case (Some c)
    with 1 show ?thesis
      by (cases "p c") (simp_all add: skip_while.simps[of p inp st] skip_while.simps[of p inp "with_budget r st"])
  qed (simp add: skip_while.simps)
qed

lemma skip_budget [simp]:
  "skip_whitespace inp (with_budget r st) = with_budget r (skip_whitespace inp st)"
  "skip_digits inp (with_budget r st) = with_budget r (skip_digits inp st)"
  by (simp_all add: skip_whitespace_def skip_digits_def skip_while_budget)

lemma consume_if_budget [simp]:
  "consume_if inp c (with_budget r st) = (let (b, st') = consume_if inp c st in (b, with_budget r st'))"
  by (simp add: consume_if_def)

lemma state_budget [simp]:
  "consume_literal inp l (with_budget r st) = rebudget_state r (consume_literal inp l st)"
  "expect inp c m (with_budget r st) = rebudget_state r (expect inp c m st)"
  "require_digits inp m (with_budget r st) = rebudget_state r (require_digits inp m st)"
  "integer_part inp (with_budget r st) = rebudget_state r (integer_part inp st)"
  by (simp_all add: consume_literal_def expect_def require_digits_def integer_part_def consume_if_def
      Let_def split: option.splits)

lemma number_budget:
  "fraction_part inp (with_budget r st) = rebudget r (fraction_part inp st)"
  "exponent_part inp b (with_budget r st) = rebudget r (exponent_part inp b st)"
  by (simp_all add: fraction_part_def exponent_part_def consume_if_def Let_def and_then_rebudget
      rebudget_and_then)

lemma parse_number_budget: "parse_number inp (with_budget r st) = rebudget r (parse_number inp st)"
  by (simp add: parse_number_def Let_def number_budget rebudget_and_then and_then_rebudget
      case_prod_unfold)

lemma hex_digits_budget: "hex_digits n inp v (with_budget r st) = rebudget r (hex_digits n inp v st)"
  by (induction n arbitrary: v st) (simp_all split: option.split)

lemma parse_hex_quad_budget: "parse_hex_quad inp (with_budget r st) = rebudget r (parse_hex_quad inp st)"
  by (simp add: parse_hex_quad_def hex_digits_budget)

lemma parse_unicode_escape_budget:
  "parse_unicode_escape inp out (with_budget r st) = rebudget r (parse_unicode_escape inp out st)"
  unfolding parse_unicode_escape_def Let_def parse_hex_quad_budget with_budget_simps
    and_then_rebudget rebudget_and_then
proof (rule arg_cong[where f = "and_then _"], rule ext, unfold case_prod_unfold)
qed (simp add: parse_hex_quad_budget and_then_rebudget rebudget_and_then case_prod_unfold
    if_distrib[of "rebudget r"] cong: if_cong)


lemma parse_escape_budget: "parse_escape inp out (with_budget r st) = rebudget r (parse_escape inp out st)"
  by (simp add: parse_escape_def parse_unicode_escape_budget split: option.split)

lemma string_loop_budget:
  "string_loop inp chunk out (with_budget r st) = rebudget r (string_loop inp chunk out st)"
proof (induction inp chunk out st rule: string_loop.induct)
  case (1 inp chunk out st)
  show ?case
  proof (cases "peek inp st")
    case None
    then show ?thesis by (simp add: string_loop.simps)
  next
    case (Some c)
    consider (quote) "c = CHR 0x22" | (escape) "c \<noteq> CHR 0x22" "c = CHR 0x5C"
      | (control) "c \<noteq> CHR 0x22" "c \<noteq> CHR 0x5C" "byte_of c < 32"
      | (ascii) "c \<noteq> CHR 0x22" "c \<noteq> CHR 0x5C" "\<not> byte_of c < 32" "byte_of c < 128"
      | (wide) "c \<noteq> CHR 0x22" "c \<noteq> CHR 0x5C" "\<not> byte_of c < 32" "\<not> byte_of c < 128" by blast
    then show ?thesis
    proof cases
      case quote
      with Some show ?thesis by (simp add: string_loop.simps[of inp chunk out] rebudget_and_then)
    next
      case escape
      have "and_then (str_slice inp chunk (offset st)) (\<lambda>s. and_then (parse_escape inp (out @ s) (advance 1 st))
            (\<lambda>(out, st). string_loop inp (offset st) out (with_budget r st)))
          = and_then (str_slice inp chunk (offset st)) (\<lambda>s. and_then (parse_escape inp (out @ s) (advance 1 st))
            (\<lambda>(out, st). rebudget r (string_loop inp (offset st) out st)))"
        by (intro and_then_cong refl, unfold case_prod_unfold, rule "1.IH"(1)[OF Some escape], assumption, assumption)
          simp
      with escape Some show ?thesis
        by (simp add: string_loop.simps[of inp chunk out] rebudget_and_then parse_escape_budget
            and_then_rebudget case_prod_unfold)
    next
      case control
      with Some show ?thesis by (simp add: string_loop.simps[of inp chunk out])
    next
      case ascii
      with Some "1.IH"(2)[OF Some ascii] show ?thesis by (simp add: string_loop.simps[of inp chunk out])
    next
      case wide
      have "and_then (char_len_at inp (offset st)) (\<lambda>n. string_loop inp chunk out (with_budget r (advance n st)))
          = and_then (char_len_at inp (offset st)) (\<lambda>n. rebudget r (string_loop inp chunk out (advance n st)))"
        by (intro and_then_cong refl "1.IH"(3)[OF Some wide])
      with wide Some show ?thesis by (simp add: string_loop.simps[of inp chunk out] rebudget_and_then)
    qed
  qed
qed

lemma parse_string_budget: "parse_string inp (with_budget r st) = rebudget r (parse_string inp st)"
  by (simp add: parse_string_def Let_def string_loop_budget)

lemma parse_leaf_budget: "parse_leaf inp c (with_budget r st) = rebudget r (parse_leaf inp c st)"
  by (simp add: parse_leaf_def rebudget_and_then and_then_rebudget parse_string_budget
      parse_number_budget case_prod_unfold)

lemma opens_budget: "opens inp c (with_budget r st) = (let (b, st') = opens inp c st in (b, with_budget r st'))"
  by (simp add: opens_def)

lemma key_budget:
  "read_key inp (with_budget r st) = rebudget r (read_key inp st)"
  "after_key inp (with_budget r st) = rebudget_state r (after_key inp st)"
  by (simp_all add: read_key_def after_key_def Let_def parse_string_budget)

section \<open>The budget counts the nodes of the value\<close>

fun typed_nodes :: "typed_value \<Rightarrow> nat" where
  "typed_nodes (TArray vs) = 1 + sum_list (map typed_nodes vs)"
| "typed_nodes (TObject kvs) = 1 + sum_list (map (\<lambda>(_, v). typed_nodes v) kvs)"
| "typed_nodes _ = 1"

lemma enters_budget:
  assumes "enters inp d st c st1" "0 < r"
  shows "enters inp d (with_budget r st) c (with_budget (r - 1) st1)"
proof -
  have take: "take_node (with_budget r st) = with_budget (r - 1) (take_node st)"
    by (simp add: take_node_def with_budget_def)
  from assms show ?thesis unfolding enters_def take by (auto simp: enters_def)
qed

lemma enters_remaining: "enters inp d st c st1 \<Longrightarrow> remaining_nodes st = Suc (remaining_nodes st1)"
  by (auto simp: enters_def)

lemma parse_leaf_nodes:
  assumes "parse_leaf inp c st = Inr (v, st')"
  shows "typed_nodes v = 1 \<and> remaining_nodes st' = remaining_nodes st"
proof (cases "c \<in> {CHR ''n'', CHR ''f'', CHR ''t'', CHR 0x22}")
  case True
  with assms parse_string_progress[of st inp] show ?thesis
    by (auto simp: parse_leaf_def and_then_ok progress_def moves_def dest!: moves_parts(6))
next
  case False
  with assms have n: "parse_number inp st = Inr (v, st')"
    by (simp add: parse_leaf_def invalid_def split: if_splits)
  then obtain neg b token where "number_value (offset st) neg b token = Inr v"
    by (auto simp: parse_number_def and_then_ok Let_def split: prod.splits)
  then have "typed_nodes v = 1" by (auto simp: number_value_def split: if_splits option.splits)
  with n parse_number_progress[of st inp] show ?thesis by (simp add: progress_def)
qed

lemma opens_remaining: "opens inp c st = (b, st') \<Longrightarrow> remaining_nodes st' = remaining_nodes st"
  by (auto simp: opens_def consume_if_def split: if_splits)

lemma key_remaining:
  "read_key inp st = Inr (key, st1) \<Longrightarrow> remaining_nodes st1 = remaining_nodes st"
  "after_key inp st = Inr st1 \<Longrightarrow> remaining_nodes st1 = remaining_nodes st"
  using parse_string_progress[of "skip_whitespace inp st" inp] moves_parts(5)
  by (fastforce simp: read_key_def after_key_def Let_def progress_def moves_def invalid_def split: if_splits)+

abbreviation entry_nodes :: "(string \<times> typed_value) list \<Rightarrow> nat" where
  "entry_nodes kvs \<equiv> sum_list (map (\<lambda>(_, v). typed_nodes v) kvs)"

lemma reads_nodes:
  "reads_value nfc inp d st v st' \<Longrightarrow> remaining_nodes st = remaining_nodes st' + typed_nodes v"
  "reads_items nfc inp d st vs st' \<Longrightarrow> remaining_nodes st = remaining_nodes st' + sum_list (map typed_nodes vs)"
  "reads_entries nfc inp d seen st kvs st' \<Longrightarrow> remaining_nodes st = remaining_nodes st' + entry_nodes kvs"
proof (induction rule: reads_value_reads_items_reads_entries.inducts)
  case (leaf d st c st1 v st')
  then show ?case using parse_leaf_nodes by (simp add: enters_remaining)
qed (simp_all add: enters_remaining opens_remaining key_remaining)

lemma reads_budget:
  "reads_value nfc inp d st v st' \<Longrightarrow> typed_nodes v \<le> r \<Longrightarrow>
     reads_value nfc inp d (with_budget r st) v (with_budget (r - typed_nodes v) st')"
  "reads_items nfc inp d st vs st' \<Longrightarrow> sum_list (map typed_nodes vs) \<le> r \<Longrightarrow>
     reads_items nfc inp d (with_budget r st) vs (with_budget (r - sum_list (map typed_nodes vs)) st')"
  "reads_entries nfc inp d seen st kvs st' \<Longrightarrow> entry_nodes kvs \<le> r \<Longrightarrow>
     reads_entries nfc inp d seen (with_budget r st) kvs (with_budget (r - entry_nodes kvs) st')"
proof (induction arbitrary: r and r and r rule: reads_value_reads_items_reads_entries.inducts)
  case (leaf d st c st1 v st')
  then have "typed_nodes v = 1" using parse_leaf_nodes by blast
  with leaf show ?case
    using enters_budget[OF leaf(1), of r] by (auto intro!: reads_value_reads_items_reads_entries.leaf simp: parse_leaf_budget)
next
  case (empty_array d st st1 st')
  then show ?case
    using enters_budget[OF empty_array(1), of r]
    by (auto intro!: reads_value_reads_items_reads_entries.empty_array simp: opens_budget)
next
  case (array d st st1 st2 vs st')
  have "opens inp CHR '']'' (with_budget (r - 1) st1) = (False, with_budget (r - 1) st2)"
    using array(2) by (simp add: opens_budget)
  moreover have "reads_items nfc inp d (with_budget (r - 1) st2) vs (with_budget (r - 1 - sum_list (map typed_nodes vs)) st')"
    using array(4)[of "r - 1"] array.prems by simp
  ultimately show ?case
    using reads_value_reads_items_reads_entries.array[OF enters_budget[OF array(1), of r]] array.prems by simp
next
  case (empty_object d st st1 st')
  then show ?case
    using enters_budget[OF empty_object(1), of r]
    by (auto intro!: reads_value_reads_items_reads_entries.empty_object simp: opens_budget)
next
  case (object d st st1 st2 kvs st')
  have "opens inp CHR 0x7D (with_budget (r - 1) st1) = (False, with_budget (r - 1) st2)"
    using object(2) by (simp add: opens_budget)
  moreover have "reads_entries nfc inp d {} (with_budget (r - 1) st2) kvs (with_budget (r - 1 - entry_nodes kvs) st')"
    using object(4)[of "r - 1"] object.prems by simp
  ultimately show ?case
    using reads_value_reads_items_reads_entries.object[OF enters_budget[OF object(1), of r]] object.prems by simp
next
  case (last_item d st v st1)
  then show ?case
    using reads_value_reads_items_reads_entries.last_item[of nfc inp d "with_budget r st" v "with_budget (r - typed_nodes v) st1"]
    by simp
next
  case (more_items d st v st1 vs st')
  have "reads_items nfc inp d (with_budget (r - typed_nodes v) (advance 1 (skip_whitespace inp st1))) vs
      (with_budget (r - typed_nodes v - sum_list (map typed_nodes vs)) st')"
    using more_items(5)[of "r - typed_nodes v"] more_items.prems by simp
  then show ?case
    using reads_value_reads_items_reads_entries.more_items[OF more_items(2)[of r]] more_items(3) more_items.prems
    by simp
next
  case (last_entry st key st1 seen st2 d v st3)
  then show ?case
    using reads_value_reads_items_reads_entries.last_entry[of inp "with_budget r st" key "with_budget r st1" nfc seen
        "with_budget r st2" d v "with_budget (r - typed_nodes v) st3"]
    by (simp add: key_budget)
next
  case (more_entries st key st1 seen st2 d v st3 kvs st')
  have "reads_entries nfc inp d (insert (normalize nfc key) seen)
      (with_budget (r - typed_nodes v) (advance 1 (skip_whitespace inp st3))) kvs
      (with_budget (r - typed_nodes v - entry_nodes kvs) st')"
    using more_entries(8)[of "r - typed_nodes v"] more_entries.prems by simp
  then show ?case
    using reads_value_reads_items_reads_entries.more_entries[of inp "with_budget r st" key "with_budget r st1" nfc seen
        "with_budget r st2" d v "with_budget (r - typed_nodes v) st3" kvs "with_budget (r - typed_nodes v - entry_nodes kvs) st'"]
      more_entries(5)[of r] more_entries(1-3,6) more_entries.prems
    by (simp add: key_budget)
qed

end
