(* ===== verification/CanonicalSafety.thy ===== *)
theory CanonicalSafety
  imports CanonicalBudget
begin

text \<open>
  The strict parser never panics on a UTF-8 string: its offset always stands where a character
  begins, so every slice is on a boundary, and every escaped scalar value is one.
\<close>

section \<open>Sound results\<close>

definition panic_free :: "'e failure + 'a \<Rightarrow> bool" where
  "panic_free r \<longleftrightarrow> (\<forall>p. r \<noteq> Inl (Panic p))"

definition sound :: "string \<Rightarrow> 'a parse \<Rightarrow> bool" where
  "sound inp r \<longleftrightarrow> panic_free r \<and> (\<forall>x st'. r = Inr (x, st') \<longrightarrow> char_start inp (offset st'))"

definition sound_state :: "string \<Rightarrow> parser tcv1 \<Rightarrow> bool" where
  "sound_state inp r \<longleftrightarrow> panic_free r \<and> (\<forall>st'. r = Inr st' \<longrightarrow> char_start inp (offset st'))"

abbreviation at_char :: "string \<Rightarrow> parser \<Rightarrow> bool" where
  "at_char inp st \<equiv> char_start inp (offset st)"

lemma panic_free_simps [simp]:
  "panic_free (Inr x)" "panic_free (Inl (Err e))" "\<not> panic_free (Inl (Panic p))"
  "panic_free (invalid st m)"
  by (simp_all add: panic_free_def invalid_def)

lemma panic_free_bind: "panic_free m \<Longrightarrow> (\<And>x. m = Inr x \<Longrightarrow> panic_free (f x)) \<Longrightarrow> panic_free (and_then m f)"
  by (cases m) (simp_all add: panic_free_def)

lemma sound_simps [simp]:
  "sound inp (Inr (x, st)) \<longleftrightarrow> at_char inp st" "sound inp (Inl (Err e))" "sound inp (invalid st m)"
  "sound_state inp (Inr st) \<longleftrightarrow> at_char inp st" "sound_state inp (invalid st m)"
  by (simp_all add: sound_def sound_state_def panic_free_def invalid_def)

lemma sound_bind: "panic_free m \<Longrightarrow> (\<And>x. m = Inr x \<Longrightarrow> sound inp (f x)) \<Longrightarrow> sound inp (and_then m f)"
  by (cases m) (simp_all add: panic_free_def sound_def)

lemma sound_then:
  "sound inp m \<Longrightarrow> (\<And>x st. m = Inr (x, st) \<Longrightarrow> at_char inp st \<Longrightarrow> sound inp (f (x, st))) \<Longrightarrow>
   sound inp (and_then m f)"
  by (cases m) (auto simp: sound_def panic_free_def)

lemma sound_state_then:
  "sound_state inp m \<Longrightarrow> (\<And>st. m = Inr st \<Longrightarrow> at_char inp st \<Longrightarrow> sound inp (f st)) \<Longrightarrow>
   sound inp (and_then m f)"
  by (cases m) (auto simp: sound_def sound_state_def panic_free_def)

lemma sound_stateD: "sound_state inp m \<Longrightarrow> m = Inr st \<Longrightarrow> at_char inp st"
  by (simp add: sound_state_def)

section \<open>Scanning keeps the offset on a boundary\<close>

lemma at_char_ascii: "at_char inp st \<Longrightarrow> peek inp st = Some c \<Longrightarrow> byte_of c < 128 \<Longrightarrow> at_char inp (advance 1 st)"
  using char_start_ascii by (auto simp: peek_Some)

lemma at_char_skip_while:
  "(\<And>c. p c \<Longrightarrow> byte_of c < 128) \<Longrightarrow> at_char inp st \<Longrightarrow> at_char inp (skip_while p inp st)"
proof (induction p inp st rule: skip_while.induct)
  case (1 p inp st)
  show ?case
  proof (cases "peek inp st")
    case (Some c)
    show ?thesis
    proof (cases "p c")
      case True
      with 1 Some at_char_ascii[OF 1(3) Some] show ?thesis by (simp add: skip_while.simps[of p inp st])
    qed (use 1 Some in \<open>simp add: skip_while.simps[of p inp st]\<close>)
  qed (use 1 in \<open>simp add: skip_while.simps[of p inp st]\<close>)
qed

lemma is_ascii_digit_byte: "is_ascii_digit c \<Longrightarrow> byte_of c < 128"
  by (simp add: is_ascii_digit_def)

lemma at_char_skip [simp, intro]:
  "at_char inp st \<Longrightarrow> at_char inp (skip_whitespace inp st)"
  "at_char inp st \<Longrightarrow> at_char inp (skip_digits inp st)"
  by (auto simp: skip_whitespace_def skip_digits_def is_ascii_digit_byte intro!: at_char_skip_while)
    (auto simp: byte_of_def)

lemma at_char_take [simp]: "at_char inp (take_node st) = at_char inp st"
  by simp

lemma at_char_consume_if:
  "at_char inp st \<Longrightarrow> byte_of c < 128 \<Longrightarrow> consume_if inp c st = (b, st') \<Longrightarrow> at_char inp st'"
  using at_char_ascii by (auto simp: consume_if_def split: if_splits)

lemma valid_utf8_ascii_append: "is_ascii l \<Longrightarrow> valid_utf8 (l @ s) = valid_utf8 s"
  by (induction l) (simp_all add: is_ascii_def valid_utf8_ascii)

lemma sound_consume_literal: "at_char inp st \<Longrightarrow> is_ascii l \<Longrightarrow> sound_state inp (consume_literal inp l st)"
proof -
  assume a: "at_char inp st" "is_ascii l"
  have "at_char inp (advance (length l) st)"
    if "offset st + length l \<le> length inp" "take (length l) (drop (offset st) inp) = l"
  proof -
    have "drop (offset st) inp = l @ drop (offset st + length l) inp"
      using that(2) append_take_drop_id[of "length l" "drop (offset st) inp"] by (simp add: add.commute)
    with a that(1) show ?thesis using valid_utf8_ascii_append[of l] by (simp add: char_start_def)
  qed
  then show ?thesis by (simp add: consume_literal_def)
qed

lemma sound_expect: "at_char inp st \<Longrightarrow> byte_of c < 128 \<Longrightarrow> sound_state inp (expect inp c m st)"
  by (auto simp: expect_def split: prod.split intro: at_char_consume_if)

lemma sound_require_digits: "at_char inp st \<Longrightarrow> sound_state inp (require_digits inp m st)"
  by (simp add: require_digits_def)

lemma sound_integer_part: "at_char inp st \<Longrightarrow> sound_state inp (integer_part inp st)"
  using at_char_ascii[of inp st] is_ascii_digit_byte
  by (auto simp: integer_part_def Let_def byte_of_def split: option.split)

lemma sound_fraction_part: "at_char inp st \<Longrightarrow> sound inp (fraction_part inp st)"
  unfolding fraction_part_def Let_def
  by (auto split: prod.split dest: at_char_consume_if[of inp st "CHR ''.''"] simp: byte_of_def
      intro!: sound_state_then[OF sound_require_digits])

lemma sound_exponent_part: "at_char inp st \<Longrightarrow> sound inp (exponent_part inp b st)"
proof -
  assume a: "at_char inp st"
  have sign: "at_char inp (if option_ex (\<lambda>c. c = CHR ''+'' \<or> c = CHR ''-'') (peek inp st1)
      then advance 1 st1 else st1)" if "at_char inp st1" for st1
    using at_char_ascii[OF that] that by (cases "peek inp st1") (auto simp: option_ex_def byte_of_def)
  show ?thesis
  proof (cases "option_ex (\<lambda>c. c = CHR ''e'' \<or> c = CHR ''E'') (peek inp st)")
    case True
    then have "at_char inp (advance 1 st)"
      using at_char_ascii[OF a] by (cases "peek inp st") (auto simp: option_ex_def byte_of_def)
    then show ?thesis unfolding exponent_part_def Let_def if_P[OF True]
      by (intro sound_state_then[OF sound_require_digits[OF sign]]) simp_all
  qed (simp add: exponent_part_def a)
qed

lemma panic_free_number_value: "panic_free (number_value s n b token)"
  by (auto simp: number_value_def split: option.split)

lemma sound_parse_number: "at_char inp st \<Longrightarrow> sound inp (parse_number inp st)"
proof -
  assume a: "at_char inp st"
  obtain neg st1 where s1: "consume_if inp CHR ''-'' st = (neg, st1)" by force
  have a1: "at_char inp st1" using at_char_consume_if[OF a _ s1] by (simp add: byte_of_def)
  show ?thesis
    unfolding parse_number_def Let_def s1 prod.case
  proof (rule sound_state_then[OF sound_integer_part[OF a1]], goal_cases)
    case i: (1 st2)
    show ?case
    proof (rule sound_then[OF sound_fraction_part[OF i(2)]], unfold prod.case, goal_cases)
      case f: (1 b st3)
      show ?case
      proof (rule sound_then[OF sound_exponent_part[OF f(2)]], unfold prod.case, goal_cases)
        case e: (1 b' st4)
        have "moves st st4"
          using s1 i(1) f(1) e(1) by (blast intro: moves_trans moves_parts)
        then have "(str_slice inp (offset st) (offset st4) :: string tcv1) =
            Inr (take (offset st4 - offset st) (drop (offset st) inp))" (is "_ = Inr ?token")
          using str_slice_ok[OF a e(2)] by (simp add: moves_def)
        moreover have "sound inp (and_then (number_value (offset st) neg b' ?token) (\<lambda>v. Inr (v, st4)))"
          by (rule sound_bind[OF panic_free_number_value]) (simp add: e(2))
        ultimately show ?case by simp
      qed
    qed
  qed
qed

section \<open>Strings\<close>

lemma sound_hex_digits: "at_char inp st \<Longrightarrow> sound inp (hex_digits n inp v st)"
proof (induction n arbitrary: v st)
  case (Suc n)
  show ?case
  proof (cases "Option.bind (peek inp st) hex_digit_value")
    case (Some d)
    then obtain c where c: "peek inp st = Some c" "hex_digit_value c = Some d" by (auto simp: bind_eq_Some_conv)
    then have "byte_of c < 128" by (auto simp: hex_digit_value_def is_ascii_digit_def split: if_splits)
    with Suc.IH[OF at_char_ascii[OF Suc.prems c(1)]] Some show ?thesis by simp
  qed simp
qed simp

lemma sound_parse_hex_quad: "at_char inp st \<Longrightarrow> sound inp (parse_hex_quad inp st)"
  by (simp add: parse_hex_quad_def sound_hex_digits)

lemma panic_free_push_scalar:
  "n < 0x110000 \<Longrightarrow> \<not> (0xd800 \<le> n \<and> n < 0xe000) \<Longrightarrow> panic_free (push_scalar out n)"
  by (simp add: push_scalar_def from_u32_def)

lemma sound_push_scalar:
  "n < 0x110000 \<Longrightarrow> \<not> (0xd800 \<le> n \<and> n < 0xe000) \<Longrightarrow> at_char inp st \<Longrightarrow>
   sound inp (and_then (push_scalar out n) (\<lambda>out. Inr (out, st)))"
  by (rule sound_bind[OF panic_free_push_scalar]) simp_all

lemma sound_parse_unicode_escape: "at_char inp st \<Longrightarrow> sound inp (parse_unicode_escape inp out st)"
  unfolding parse_unicode_escape_def Let_def
proof (rule sound_then[OF sound_parse_hex_quad], assumption, unfold prod.case, goal_cases)
  case (1 first st1)
  have lt: "unat w < 0x10000" for w :: "16 word" using unsigned_less[of w] by simp
  show ?case
  proof (cases "0xd800 \<le> unat first \<and> unat first \<le> 0xdbff")
    case high: True
    show ?thesis
    proof (cases "peek inp st1 \<noteq> Some CHR 0x5C \<or> peek inp (advance 1 st1) \<noteq> Some CHR ''u''")
      case False
      have "at_char inp (advance 1 (advance 1 st1))"
        using at_char_ascii[OF at_char_ascii[OF 1(3)], of "CHR 0x5C" "CHR ''u''"] False by (simp add: byte_of_def)
      then have a2: "at_char inp (advance 2 st1)" by (simp add: numeral_2_eq_2)
      show ?thesis
        unfolding if_P[OF high] if_not_P[OF False]
      proof (rule sound_then[OF sound_parse_hex_quad[OF a2]], unfold prod.case, goal_cases)
        case (1 low st2)
        show ?case
        proof (cases "0xdc00 \<le> unat low \<and> unat low \<le> 0xdfff")
          case True
          have "0x10000 + (unat first - 0xd800) * 1024 + (unat low - 0xdc00) < 0x110000"
            using high True by linarith
          with True 1(2) show ?thesis by (simp add: sound_push_scalar)
        qed simp
      qed
    qed (simp add: high)
  next
    case False
    then show ?thesis
    proof (cases "0xdc00 \<le> unat first \<and> unat first \<le> 0xdfff")
      case nl: False
      have "sound inp (and_then (push_scalar out (unat first)) (\<lambda>out. Inr (out, st1)))"
        by (rule sound_push_scalar) (use False nl lt[of first] 1(3) in auto)
      then show ?thesis unfolding if_not_P[OF False] if_not_P[OF nl] .
    qed auto
  qed
qed

lemma sound_parse_escape: "at_char inp st \<Longrightarrow> sound inp (parse_escape inp out st)"
proof -
  assume a: "at_char inp st"
  show ?thesis
  proof (cases "peek inp st")
    case (Some c)
    have "byte_of c < 128 \<Longrightarrow> at_char inp (advance 1 st)" by (rule at_char_ascii[OF a Some])
    then show ?thesis
      by (auto simp: parse_escape_def Some byte_of_def intro!: sound_parse_unicode_escape[unfolded offset_advance])
  qed (simp add: parse_escape_def)
qed


lemma sound_string_loop:
  "at_char inp st \<Longrightarrow> char_start inp chunk \<Longrightarrow> chunk \<le> offset st \<Longrightarrow> sound inp (string_loop inp chunk out st)"
proof (induction inp chunk out st rule: string_loop.induct)
  case (1 inp chunk out st)
  show ?case
  proof (cases "peek inp st")
    case None
    then show ?thesis by (simp add: string_loop.simps)
  next
    case (Some c)
    have slice: "(str_slice inp chunk (offset st) :: string tcv1) = Inr (take (offset st - chunk) (drop chunk inp))"
      using str_slice_ok "1.prems" by blast
    have step: "byte_of c < 128 \<Longrightarrow> at_char inp (advance 1 st)" by (rule at_char_ascii[OF "1.prems"(1) Some])
    consider (quote) "c = CHR 0x22" | (escape) "c \<noteq> CHR 0x22" "c = CHR 0x5C"
      | (control) "c \<noteq> CHR 0x22" "c \<noteq> CHR 0x5C" "byte_of c < 32"
      | (ascii) "c \<noteq> CHR 0x22" "c \<noteq> CHR 0x5C" "\<not> byte_of c < 32" "byte_of c < 128"
      | (wide) "c \<noteq> CHR 0x22" "c \<noteq> CHR 0x5C" "\<not> byte_of c < 32" "\<not> byte_of c < 128" by blast
    then show ?thesis
    proof cases
      case quote
      with Some step slice show ?thesis
        by (simp add: string_loop.simps[of inp chunk out] byte_of_def)
    next
      case escape
      then have a: "at_char inp (advance 1 st)" using step by (simp add: byte_of_def)
      have "sound inp (and_then (parse_escape inp (out @ take (offset st - chunk) (drop chunk inp)) (advance 1 st))
          (\<lambda>(out, st). string_loop inp (offset st) out st))"
        by (rule sound_then[OF sound_parse_escape[OF a]])
          (simp add: "1.IH"(1)[OF Some escape slice _ refl])
      with escape Some slice show ?thesis by (simp add: string_loop.simps[of inp chunk out])
    next
      case control
      with Some show ?thesis by (simp add: string_loop.simps[of inp chunk out])
    next
      case ascii
      with "1.IH"(2)[OF Some ascii] step[OF ascii(4)] "1.prems" Some show ?thesis
        by (simp add: string_loop.simps[of inp chunk out])
    next
      case wide
      have "offset st < length inp" using Some by (simp add: peek_Some)
      from char_len_at_ok[OF "1.prems"(1) this] obtain n where
        n: "(char_len_at inp (offset st) :: nat tcv1) = Inr n" "char_start inp (offset st + n)" by blast
      with "1.IH"(3)[OF Some wide n(1)] "1.prems" wide Some show ?thesis
        by (simp add: string_loop.simps[of inp chunk out])
    qed
  qed
qed

lemma sound_parse_string: "at_char inp st \<Longrightarrow> peek inp st = Some CHR 0x22 \<Longrightarrow> sound inp (parse_string inp st)"
proof -
  assume a: "at_char inp st" "peek inp st = Some CHR 0x22"
  have "at_char inp (advance 1 st)" by (rule at_char_ascii[OF a]) (simp add: byte_of_def)
  then show ?thesis by (simp add: parse_string_def Let_def sound_string_loop)
qed

section \<open>Values\<close>

lemma sound_parse_leaf: "at_char inp st \<Longrightarrow> peek inp st = Some c \<Longrightarrow> sound inp (parse_leaf inp c st)"
proof -
  assume a: "at_char inp st" "peek inp st = Some c"
  have lit: "sound inp (and_then (consume_literal inp l st) (\<lambda>st. Inr (v, st)))" if "is_ascii l" for l v
    by (rule sound_state_then[OF sound_consume_literal[OF a(1) that]]) simp
  have str: "c = CHR 0x22 \<Longrightarrow> sound inp (and_then (parse_string inp st) (\<lambda>(s, st). Inr (TString s, st)))"
    using a by (intro sound_then[OF sound_parse_string]) auto
  show ?thesis
    using str sound_parse_number[OF a(1)]
    by (auto simp: parse_leaf_def is_ascii_def byte_of_def intro!: lit)
qed

lemma at_char_opens: "at_char inp st \<Longrightarrow> peek inp st = Some c \<Longrightarrow> byte_of c < 128 \<Longrightarrow> byte_of d < 128 \<Longrightarrow>
    opens inp d st = (b, st') \<Longrightarrow> at_char inp st'"
  unfolding opens_def using at_char_consume_if[OF at_char_skip(1)[OF at_char_ascii]] by metis

lemma sound_read_key: "at_char inp st \<Longrightarrow> sound inp (read_key inp st)"
  by (auto simp: read_key_def Let_def intro!: sound_parse_string)

lemma sound_after_key: "at_char inp st \<Longrightarrow> sound_state inp (after_key inp st)"
  unfolding after_key_def by (rule sound_expect) (auto simp: byte_of_def)

lemma sound_values:
  "at_char inp st \<Longrightarrow> sound inp (parse_value nfc inp d st)"
  "at_char inp st \<Longrightarrow> sound inp (array_loop nfc inp d items st)"
  "at_char inp st \<Longrightarrow> keys_agree nfc entries keys \<Longrightarrow> sound inp (object_loop nfc inp d entries keys st)"
proof (induction nfc inp d st and nfc inp d items st and nfc inp d entries keys st
    rule: parse_value_array_loop_object_loop.induct)
  case (1 nfc inp d st)
  define st1 where "st1 = skip_whitespace inp (take_node st)"
  have a1: "at_char inp st1" using "1.prems" by (auto simp: st1_def)
  show ?case
  proof (cases "remaining_nodes st = 0 \<or> max_nesting_depth < d \<or> peek inp st1 = None")
    case True
    then show ?thesis
      unfolding parse_value_eq[of nfc inp d st] Let_def st1_def[symmetric] by auto
  next
    case False
    then obtain c where c: "remaining_nodes st \<noteq> 0" "\<not> max_nesting_depth < d" "peek inp st1 = Some c" by blast
    then have e: "enters inp d st c st1" by (simp add: enters_def st1_def)
    consider "c = CHR ''[''" | "c = CHR 0x7B" | "c \<noteq> CHR ''[''" "c \<noteq> CHR 0x7B" by blast
    then show ?thesis
    proof cases
      case b: 1
      obtain close st2 where o: "opens inp CHR '']'' st1 = (close, st2)" by force
      have a2: "at_char inp st2" using at_char_opens[OF a1 c(3) _ _ o] b by (simp add: byte_of_def)
      have "sound inp (array_loop nfc inp d [] st2)" if "\<not> close"
        by (rule "1.IH"(1)[OF c(1,2) st1_def c(3) _ _ _ _ b refl o[unfolded opens_def, symmetric] that a2])
          (simp_all add: b)
      with a2 o b show ?thesis by (simp add: parse_value_enters[OF e])
    next
      case b: 2
      obtain close st2 where o: "opens inp CHR 0x7D st1 = (close, st2)" by force
      have a2: "at_char inp st2" using at_char_opens[OF a1 c(3) _ _ o] b by (simp add: byte_of_def)
      have "sound inp (object_loop nfc inp d [] Map.empty st2)" if "\<not> close"
        by (rule "1.IH"(2)[OF c(1,2) st1_def c(3) _ _ _ _ _ b refl o[unfolded opens_def, symmetric] that a2])
          (simp_all add: b)
      with a2 o b show ?thesis by (simp add: parse_value_enters[OF e])
    next
      case 3
      with sound_parse_leaf[OF a1 c(3)] show ?thesis by (simp add: parse_value_enters[OF e])
    qed
  qed
next
  case (2 nfc inp d items st)
  show ?case
    unfolding array_loop_eq[of nfc inp d items st]
  proof (rule sound_then[OF "2.IH"(1)[OF "2.prems"]], unfold prod.case, goal_cases)
    case v: (1 v st1)
    show ?case
    proof (cases "peek inp (skip_whitespace inp st1)")
      case (Some c)
      have a: "byte_of c < 128 \<Longrightarrow> at_char inp (advance 1 (skip_whitespace inp st1))"
        by (rule at_char_ascii[OF at_char_skip(1)[OF v(2)] Some])
      have "sound inp (array_loop nfc inp d (items @ [v]) (advance 1 (skip_whitespace inp st1)))" if "c = CHR '',''"
        by (rule "2.IH"(2)[OF v(1) refl refl Some that a]) (simp add: that byte_of_def)
      with Some a show ?thesis by (simp add: byte_of_def)
    qed simp
  qed
next
  case (3 nfc inp d entries keys st)
  show ?case
    unfolding object_loop_eq[of nfc inp d entries keys st]
  proof (rule sound_then[OF sound_read_key[OF "3.prems"(1)]], unfold prod.case, goal_cases)
    case k: (1 key st1)
    have q: "\<not> peek inp (skip_whitespace inp st) \<noteq> Some CHR 0x22" "parse_string inp (skip_whitespace inp st) = Inr (key, st1)"
      using k(1) by (auto simp: read_key_def Let_def invalid_def split: if_splits)
    show ?case
    proof (cases "keys (normalize nfc key)")
      case (Some i)
      then have "i < length entries" using "3.prems"(2) by (auto simp: keys_agree_def ran_def)
      with Some show ?thesis by simp
    next
      case None
      show ?thesis
        unfolding None option.case
      proof (rule sound_state_then[OF sound_after_key[OF k(2)]], goal_cases)
        case a: (1 st2)
        note IH = "3.IH"(1)[OF refl q(1) refl q(2) refl refl None a(1)[unfolded after_key_def] a(2)]
        show ?case
        proof (rule sound_then[OF IH], unfold prod.case, goal_cases)
          case v: (1 v st3)
          show ?case
          proof (cases "peek inp (skip_whitespace inp st3)")
            case (Some c)
            have b: "byte_of c < 128 \<Longrightarrow> at_char inp (advance 1 (skip_whitespace inp st3))"
              by (rule at_char_ascii[OF at_char_skip(1)[OF v(2)] Some])
            have "sound inp (object_loop nfc inp d (entries @ [(key, v)]) (keys(normalize nfc key \<mapsto> length entries))
                (advance 1 (skip_whitespace inp st3)))" if "c = CHR '',''"
              by (rule "3.IH"(2)[OF refl q(1) refl q(2) refl refl None a(1)[unfolded after_key_def] v(1) refl refl Some
                    that b keys_agree_step[OF "3.prems"(2) None]])
                (simp add: that byte_of_def)
            with Some b show ?thesis by (simp add: byte_of_def)
          qed simp
        qed
      qed
    qed
  qed
qed

lemma panic_free_document: "valid_utf8 inp \<Longrightarrow> offset st = 0 \<Longrightarrow> panic_free (parse_document nfc inp st)"
proof -
  assume "valid_utf8 inp" "offset st = 0"
  then have "sound inp (parse_value nfc inp 0 st)" by (intro sound_values) (simp add: char_start_def)
  then show ?thesis unfolding parse_document_def sound_def
    by (cases "parse_value nfc inp 0 st") (auto simp: Let_def panic_free_def invalid_def split: if_splits)
qed

lemma from_utf8_valid: "from_utf8 bs = Inr s \<Longrightarrow> valid_utf8 s"
  by (auto simp: from_utf8_def valid_utf8_def Let_def split: option.splits)


section \<open>Properties of the strict parser\<close>

text \<open>C29: \<open>parse_typed_json_bytes\<close> never panics, whatever bytes it is given: invalid UTF-8 is
  reported, and on valid UTF-8 every slice falls on a character boundary, every accepted escape is a
  Unicode scalar value and every index into the entries is in range.\<close>

theorem parse_typed_json_bytes_no_panic: "panic_free (parse_typed_json_bytes nfc bs)"
  using panic_free_document[OF from_utf8_valid]
  by (auto simp: parse_typed_json_bytes_def parse_typed_json_def parser_new_def split: sum.split)

text \<open>a parse bounded by \<open>max_nodes\<close> structural elements returns a value exactly when the
  unbounded parse returns it and it has at most that many nodes.\<close>

theorem parse_bounded_typed_json_spec:
  "parse_bounded_typed_json nfc inp max_nodes = Inr v \<longleftrightarrow>
     parse_typed_json nfc inp = Inr v \<and> typed_nodes v \<le> unat max_nodes"
proof -
  have full: "parser_new = with_budget (2 ^ 64 - 1) parser_new"
    and limited: "parser_new\<lparr>remaining_nodes := unat max_nodes\<rparr> = with_budget (unat max_nodes) parser_new"
    by (simp_all add: parser_new_def with_budget_def)
  have document: "parse_document nfc inp (with_budget r parser_new) = Inr v \<longleftrightarrow>
      (\<exists>st'. reads_value nfc inp 0 (with_budget r parser_new) v st' \<and> offset (skip_whitespace inp st') = length inp)"
    for r by (auto simp: parse_document_def and_then_ok parse_value_reads Let_def invalid_def split: if_splits)
  have transfer: "\<exists>st'. reads_value nfc inp 0 (with_budget r' parser_new) v st' \<and> offset (skip_whitespace inp st') = length inp"
    if "reads_value nfc inp 0 (with_budget r parser_new) v st'" "offset (skip_whitespace inp st') = length inp"
      "typed_nodes v \<le> r'" for r r' st'
    using reads_budget(1)[OF that(1,3)] that(2) by (intro exI[of _ "with_budget (r' - typed_nodes v) st'"]) simp
  have le: "unat max_nodes \<le> 2 ^ 64 - 1"
    using unsigned_less[of max_nodes, where 'a = nat] by simp
  have count: "typed_nodes v \<le> r" if "reads_value nfc inp 0 (with_budget r parser_new) v st'" for r st'
    using reads_nodes(1)[OF that] by simp
  show ?thesis
    unfolding parse_bounded_typed_json_def parse_typed_json_def limited
    by (subst (2) full, unfold document) (use transfer count le order_trans in blast)
qed

text \<open>A value in the strict domain encodes, unless a length does not fit \<open>u64\<close>.\<close>

definition only_length_error :: "'a tcv1 \<Rightarrow> bool" where
  "only_length_error r \<longleftrightarrow> r = tcv1_err LengthOverflow \<or> (\<exists>x. r = Inr x)"

lemma only_length_bind:
  "only_length_error m \<Longrightarrow> (\<And>x. m = Inr x \<Longrightarrow> only_length_error (f x)) \<Longrightarrow> only_length_error (and_then m f)"
  by (cases m) (auto simp: only_length_error_def)

lemma only_length_simps [simp]: "only_length_error (Inr x)" "only_length_error (encode_length n out)"
  by (simp_all add: only_length_error_def encode_length_def)

lemma only_length_fold:
  "(\<And>s x. x \<in> set xs \<Longrightarrow> only_length_error (f s x)) \<Longrightarrow> only_length_error (try_fold f s xs)"
  by (induction xs arbitrary: s) (auto intro: only_length_bind)

lemma only_length_text: "only_length_error (encode_normalized_string p out)"
  by (auto simp: encode_normalized_string_def intro!: only_length_bind)

lemma only_length_object:
  assumes "distinct (map (\<lambda>(k, _). normalize nfc k) kvs)"
    and "\<And>k v out. (k, v) \<in> set kvs \<Longrightarrow> only_length_error (encode_value nfc v out (d + 1))"
  shows "only_length_error (encode_object nfc kvs out d)"
  unfolding encode_object.simps sorted_entries_ok[OF assms(1)] and_then_simps
proof (rule only_length_bind[OF only_length_simps(2)], rule only_length_fold)
  fix s kv assume "kv \<in> set (normalized_pairs nfc kvs)"
  then obtain k k' v where "kv = (k, v)" "(k', v) \<in> set kvs" by (auto simp: normalized_pairs_def)
  then show "only_length_error (case kv of (key, v) \<Rightarrow> and_then (encode_normalized_string (as_bytes key) s)
      (\<lambda>out. encode_value nfc v out (d + 1)))"
    using assms(2) by (auto intro!: only_length_bind only_length_text)
qed

lemma strict_encodes: "strict_value nfc d v \<Longrightarrow> only_length_error (encode_value nfc v out d)"
proof (induction v arbitrary: d out)
  case (TInteger i)
  then show ?case by (auto simp: encode_value.simps intro!: only_length_bind)
next
  case (TString s)
  then show ?case by (simp add: encode_value.simps encode_string_def only_length_text)
next
  case (TArray vs)
  then show ?case
    by (auto simp: encode_value.simps list_all_iff intro!: only_length_bind only_length_fold)
next
  case (TObject kvs)
  have "only_length_error (encode_object nfc kvs out d)"
  proof (rule only_length_object)
    show "only_length_error (encode_value nfc v out (d + 1))" if "(k, v) \<in> set kvs" for k v out
      by (rule TObject.IH[OF that]) (use TObject.prems that in \<open>auto simp: prod_set_defs list_all_iff\<close>)
  qed (use TObject.prems in simp)
  then show ?case using TObject.prems by (simp add: encode_value.simps)
qed (simp_all add: encode_value.simps)

text \<open>what the strict parser returns is a value of the encoder's domain: nested at most 128
  levels, with finite numbers and no two keys of an object equal after normalization. The encoder
  can refuse it only for a length beyond \<open>u64\<close>.\<close>

theorem parse_typed_json_strict:
  assumes "parse_typed_json nfc inp = Inr v"
  shows "strict_value nfc 0 v \<and> only_length_error (tcv1_encode nfc v)"
proof -
  obtain st where "reads_value nfc inp 0 parser_new v st"
    using assms by (auto simp: parse_typed_json_def parse_document_def and_then_ok parse_value_reads Let_def
        invalid_def split: if_splits)
  then have "strict_value nfc 0 v" by (rule reads_strict)
  with strict_encodes show ?thesis by (simp add: tcv1_encode_def)
qed

lemma parse_typed_json_strict_witness:
  "parse_typed_json id ''{}'' = Inr (TObject []) \<and> strict_value id 0 (TObject []) \<and>
     only_length_error (tcv1_encode id (TObject []))"
proof -
  have "parse_typed_json id ''{}'' = Inr (TObject [])"
    by (simp add: parse_typed_json_def parse_document_def parser_new_def parse_value.simps max_nesting_depth_def
        skip_whitespace_def skip_while.simps peek_def consume_if_def advance_def take_node_def Let_def)
  with parse_typed_json_strict[OF this] show ?thesis by blast
qed

end
