(* ===== verification/Checks.thy ===== *)
theory Checks
  imports CanonicalSafety
begin

text \<open>
  The validators shared by \<open>data.rs\<close> and the runtime: a guard that refuses, a sequence of checks
  that stops at the first error, non-empty strings and lists, unique strings, lowercase SHA-256
  digests, and the keys of a metadata map. Labels are the strings the source builds.
\<close>

section \<open>Sequences of checks\<close>

definition reject_if :: "bool \<Rightarrow> 'f \<Rightarrow> 'f + unit" where
  "reject_if b f = (if b then Inl f else Inr ())"

definition checks :: "('f + unit) list \<Rightarrow> 'f + unit" where
  "checks cs = try_each (\<lambda>c. c) cs"

lemma reject_if_simps [simp]: "reject_if True f = Inl f" "reject_if False f = Inr ()"
  by (simp_all add: reject_if_def)

lemma reject_if_ok [simp, ok_iff]: "reject_if b f = Inr u \<longleftrightarrow> \<not> b"
  by (simp add: reject_if_def)

lemma reject_if_err [simp]: "reject_if b f = Inl g \<longleftrightarrow> b \<and> f = g"
  by (simp add: reject_if_def)

lemma checks_simps [simp]:
  "checks [] = Inr ()"
  "checks (c # cs) = and_then c (\<lambda>_. checks cs)"
  by (simp_all add: checks_def)

lemma no_panic_reject_if [simp]: "no_panic (reject_if b (Err e))"
  by (simp add: reject_if_def)

lemma no_panic_checks: "(\<And>c. c \<in> set cs \<Longrightarrow> no_panic c) \<Longrightarrow> no_panic (checks cs)"
  by (induction cs) (simp_all add: no_panic_and_then)

text \<open>An optional part of a record: nothing to check when it is absent.\<close>

definition check_option :: "('a \<Rightarrow> 'f + unit) \<Rightarrow> 'a option \<Rightarrow> 'f + unit" where
  "check_option f x = (case x of None \<Rightarrow> Inr () | Some y \<Rightarrow> f y)"

lemma check_option_simps [simp]: "check_option f None = Inr ()" "check_option f (Some x) = f x"
  by (simp_all add: check_option_def)

lemma check_option_ok [ok_iff]: "check_option f x = Inr u \<longleftrightarrow> (\<forall>y. x = Some y \<longrightarrow> f y = Inr ())"
  by (cases x) auto

lemma no_panic_check_option: "(\<And>y. no_panic (f y)) \<Longrightarrow> no_panic (check_option f x)"
  by (cases x) simp_all

text \<open>\<open>for value in values { if !seen.insert(key(value)) { return Err(..) } }\<close>.\<close>

definition check_unique :: "('a \<Rightarrow> 'k) \<Rightarrow> ('a \<Rightarrow> 'f) \<Rightarrow> 'a list \<Rightarrow> 'f + unit" where
  "check_unique key err xs =
     and_then (try_fold (\<lambda>seen x. if key x \<in> seen then Inl (err x) else Inr (insert (key x) seen)) {} xs)
       (\<lambda>_. Inr ())"

lemma try_fold_unique:
  "try_fold (\<lambda>seen x. if key x \<in> seen then Inl (err x) else Inr (insert (key x) seen)) s xs = Inr t \<longleftrightarrow>
     distinct (map key xs) \<and> key ` set xs \<inter> s = {} \<and> t = s \<union> key ` set xs"
  by (induction xs arbitrary: s t) (auto split: if_splits)

lemma check_unique_ok [ok_iff]: "check_unique key err xs = Inr u \<longleftrightarrow> distinct (map key xs)"
  by (auto simp: check_unique_def and_then_ok try_fold_unique)

lemma no_panic_check_unique [simp]: "no_panic (check_unique key (\<lambda>x. Err (e x)) xs)"
proof -
  have "no_panic (try_fold (\<lambda>seen x. if key x \<in> seen then fail (e x) else Inr (insert (key x) seen)) s xs)"
    for s
  proof (induction xs arbitrary: s)
    case (Cons x xs)
    then show ?case by (cases "key x \<in> s") simp_all
  qed simp
  then show ?thesis unfolding check_unique_def by (intro no_panic_and_then) simp_all
qed

section \<open>Strings and digests\<close>

abbreviation data_error :: "data_msg \<Rightarrow> dag_ml_error failure" where
  "data_error m \<equiv> Err (CampaignValidation (DataMsg m))"

definition validate_fingerprint :: "string \<Rightarrow> string \<Rightarrow> unit result" where
  "validate_fingerprint label value = reject_if (\<not> is_hex_fingerprint value) (data_error (FingerprintInvalid label))"

definition validate_non_empty :: "string \<Rightarrow> string \<Rightarrow> unit result" where
  "validate_non_empty label value = reject_if (is_blank value) (data_error (StringEmpty label))"

definition validate_optional_string :: "string \<Rightarrow> string option \<Rightarrow> unit result" where
  "validate_optional_string label value = check_option (validate_non_empty label) value"

definition validate_string_list_entries :: "string \<Rightarrow> string list \<Rightarrow> unit result" where
  "validate_string_list_entries label xs =
     try_each (\<lambda>(index, value). reject_if (is_blank value) (data_error (ListEntryEmpty label index)))
       (enumerate 0 xs)"

definition validate_non_empty_list :: "string \<Rightarrow> string list \<Rightarrow> unit result" where
  "validate_non_empty_list label xs =
     (if xs = [] then Inl (data_error (StringListEmpty label)) else validate_string_list_entries label xs)"

definition validate_unique_strings :: "string \<Rightarrow> string list \<Rightarrow> unit result" where
  "validate_unique_strings label xs = check_unique (\<lambda>x. x) (\<lambda>x. data_error (DuplicateValue label x)) xs"

text \<open>\<open>for key in map.keys() { if key.trim().is_empty() { .. } }\<close>.\<close>

definition validate_keys :: "string \<Rightarrow> (string, 'v) btree_map \<Rightarrow> unit result" where
  "validate_keys label m = try_each (\<lambda>k. reject_if (is_blank k) (data_error (EmptyKey label))) (bm_keys m)"

lemma validate_fingerprint_ok [ok_iff]: "validate_fingerprint l s = Inr u \<longleftrightarrow> is_hex_fingerprint s"
  by (simp add: validate_fingerprint_def)

lemma validate_non_empty_ok [ok_iff]: "validate_non_empty l s = Inr u \<longleftrightarrow> \<not> is_blank s"
  by (simp add: validate_non_empty_def)

lemma validate_optional_string_ok [ok_iff]:
  "validate_optional_string l x = Inr u \<longleftrightarrow> (\<forall>s. x = Some s \<longrightarrow> \<not> is_blank s)"
  by (simp add: validate_optional_string_def ok_iff)

lemma validate_string_list_entries_ok [ok_iff]:
  "validate_string_list_entries l xs = Inr u \<longleftrightarrow> (\<forall>s \<in> set xs. \<not> is_blank s)"
proof -
  have "(\<forall>p \<in> set (enumerate 0 xs). \<not> is_blank (snd p)) \<longleftrightarrow> (\<forall>s \<in> set (map snd (enumerate 0 xs)). \<not> is_blank s)"
    by (simp only: set_map ball_simps)
  then show ?thesis by (simp add: validate_string_list_entries_def ok_iff case_prod_beta)
qed

lemma validate_non_empty_list_ok [ok_iff]:
  "validate_non_empty_list l xs = Inr u \<longleftrightarrow> xs \<noteq> [] \<and> (\<forall>s \<in> set xs. \<not> is_blank s)"
  by (simp add: validate_non_empty_list_def ok_iff)

lemma validate_unique_strings_ok [ok_iff]: "validate_unique_strings l xs = Inr u \<longleftrightarrow> distinct xs"
  by (simp add: validate_unique_strings_def ok_iff)

lemma validate_keys_ok [ok_iff]: "validate_keys l m = Inr u \<longleftrightarrow> (\<forall>k \<in> set (bm_keys m). \<not> is_blank k)"
  by (simp add: validate_keys_def ok_iff)

lemma no_panic_validators [simp]:
  "no_panic (validate_fingerprint l s)" "no_panic (validate_non_empty l s)"
  "no_panic (validate_optional_string l x)" "no_panic (validate_string_list_entries l xs)"
  "no_panic (validate_non_empty_list l xs)" "no_panic (validate_unique_strings l xs)"
  "no_panic (validate_keys l m)"
proof -
  show entries: "no_panic (validate_string_list_entries l xs)" for xs
    unfolding validate_string_list_entries_def by (rule no_panic_try_each) (simp add: case_prod_beta)
  show "no_panic (validate_non_empty_list l xs)"
    using entries by (simp add: validate_non_empty_list_def)
  show "no_panic (validate_keys l m)" unfolding validate_keys_def by (rule no_panic_try_each) simp
qed (simp_all add: validate_fingerprint_def validate_non_empty_def validate_optional_string_def
  no_panic_check_option validate_unique_strings_def)

text \<open>The hexadecimal rendering of 32 bytes is a fingerprint.\<close>

lemma lower_hex_hex_digit:
  "unat w < 16 \<Longrightarrow> is_ascii_digit (hex_digit w) \<or> 97 \<le> byte_of (hex_digit w) \<and> byte_of (hex_digit w) \<le> 102"
proof -
  assume "unat w < 16"
  then have "unat w \<in> {0, 1, 2, 3, 4, 5, 6, 7, 8, 9, 10, 11, 12, 13, 14, 15}"
    by simp presburger
  then show ?thesis by (auto simp: hex_digit_def is_ascii_digit_def byte_of_def)
qed

lemma is_hex_fingerprint_bytes_to_hex: "length bs = 32 \<Longrightarrow> is_hex_fingerprint (bytes_to_hex bs)"
proof -
  have "\<forall>c \<in> set (bytes_to_hex bs). is_ascii_digit c \<or> 97 \<le> byte_of c \<and> byte_of c \<le> 102"
    using lower_hex_hex_digit nibble_less unfolding bytes_to_hex_def by fastforce
  moreover assume "length bs = 32"
  ultimately show ?thesis by (simp add: is_hex_fingerprint_def list_all_iff)
qed

text \<open>A fingerprint is never blank.\<close>

lemma fingerprint_not_blank: "is_hex_fingerprint s \<Longrightarrow> \<not> is_blank s"
proof -
  assume fp: "is_hex_fingerprint s"
  then have "s \<noteq> []" by (auto simp: is_hex_fingerprint_def)
  moreover have "\<forall>c \<in> set s. identifier_byte c"
    using fp by (auto simp: is_hex_fingerprint_def list_all_iff identifier_byte_def
      is_ascii_alphanumeric_def is_ascii_digit_def)
  ultimately show ?thesis by (rule identifier_not_blank[rotated])
qed

end
