(* ===== verification/Representation.thy ===== *)
theory Representation
  imports Checks
begin

text \<open>
  \<open>data.rs\<close>, first part: data-view selectors and branch views, combination and representation
  plans, the train/predict compatibility report and the replay manifest, each with its
  validation. The affected-unit counters are \<open>u64\<close> and their sum saturates; other \<open>usize\<close>
  fields are natural numbers, since they are only compared.
\<close>

abbreviation data_err :: "data_msg \<Rightarrow> 'a result" where
  "data_err m \<equiv> Inl (data_error m)"

abbreviation refuse :: "bool \<Rightarrow> data_msg \<Rightarrow> unit result" where
  "refuse b m \<equiv> reject_if b (data_error m)"

section \<open>Selectors and branch views\<close>

datatype (plugins only: code size) branch_view_mode = Separation | BySource | ByMetadata | ByTag | ByFilter

record data_view_selector =
  sel_source_ids :: "string list"
  sel_metadata :: json_map
  sel_tags :: "string list"
  sel_filter :: "json_value option"

definition selector_validate :: "string \<Rightarrow> data_view_selector \<Rightarrow> unit result" where
  "selector_validate label s = checks [
     refuse (sel_source_ids s = [] \<and> sel_metadata s = [] \<and> sel_tags s = [] \<and> sel_filter s = None)
       (RepresentationMsg (SelectorUnconstrained label)),
     validate_string_list_entries (label @ '' selector source_ids'') (sel_source_ids s),
     validate_unique_strings (label @ '' selector source_ids'') (sel_source_ids s),
     validate_string_list_entries (label @ '' selector tags'') (sel_tags s),
     validate_unique_strings (label @ '' selector tags'') (sel_tags s),
     validate_keys (label @ '' selector'') (sel_metadata s),
     refuse (sel_filter s = Some JNull) (RepresentationMsg (SelectorFilterNull label))]"

record branch_view_plan =
  bv_view_id :: string
  bv_branch_id :: string
  bv_mode :: branch_view_mode
  bv_selector :: data_view_selector
  bv_allow_overlap :: bool
  bv_metadata :: json_map

definition branch_view_mode_check :: "branch_view_plan \<Rightarrow> unit result" where
  "branch_view_mode_check p =
     (let id = bv_view_id p; s = bv_selector p in
      case bv_mode p of
        BySource \<Rightarrow> refuse (sel_source_ids s = []) (RepresentationMsg (BranchViewNeedsSources id))
      | ByMetadata \<Rightarrow> refuse (sel_metadata s = []) (RepresentationMsg (BranchViewNeedsMetadata id))
      | ByTag \<Rightarrow> refuse (sel_tags s = []) (RepresentationMsg (BranchViewNeedsTags id))
      | ByFilter \<Rightarrow> refuse (sel_filter s = None) (RepresentationMsg (BranchViewNeedsFilter id))
      | Separation \<Rightarrow> Inr ())"

definition branch_view_validate :: "branch_view_plan \<Rightarrow> unit result" where
  "branch_view_validate p = checks [
     validate_non_empty ''branch view plan view_id'' (bv_view_id p),
     validate_non_empty ''branch view plan branch_id'' (bv_branch_id p),
     selector_validate (''branch view `'' @ bv_view_id p @ ''`'') (bv_selector p),
     branch_view_mode_check p,
     validate_keys (''branch view `'' @ bv_view_id p @ ''` metadata'') (bv_metadata p)]"

section \<open>Combination plans\<close>

datatype (plugins only: code size) combination_mode = CombCartesian | CombZip | MatchBy | SampleKMode | ReferenceBroadcast

datatype (plugins only: code size) missing_source_policy =
    MissStrict | MissWarn | DropIncomplete | MissImputeDeclared | MissMask | MissPartialModel | MissPad

datatype (plugins only: code size) representation_cardinality = OneToOne | OneToMany | ManyToOne | ManyToMany | BoundedMany

record combination_plan =
  cp_mode :: combination_mode
  cp_source_ids :: "string list"
  cp_unit_ids :: "string list"
  match_key :: "string option"
  reference_source_id :: "string option"
  cp_seed :: "64 word option"
  cap :: "nat option"
  budget :: "nat option"
  cp_missing_source_policy :: "missing_source_policy option"
  cp_metadata :: json_map

definition combination_mode_check :: "combination_plan \<Rightarrow> unit result" where
  "combination_mode_check p = (case cp_mode p of
      CombCartesian \<Rightarrow> refuse (length (cp_source_ids p) < 2) (RepresentationMsg CartesianNeedsSources)
    | CombZip \<Rightarrow> refuse (length (cp_source_ids p) < 2) (RepresentationMsg ZipNeedsSources)
    | MatchBy \<Rightarrow> refuse (match_key p = None) (RepresentationMsg MatchByNeedsKey)
    | SampleKMode \<Rightarrow> checks [refuse (cp_seed p = None) (RepresentationMsg SampleKNeedsSeed),
        refuse (cap p = None) (RepresentationMsg SampleKNeedsCap)]
    | ReferenceBroadcast \<Rightarrow> (case reference_source_id p of
          None \<Rightarrow> data_err (RepresentationMsg BroadcastNeedsReference)
        | Some reference \<Rightarrow> refuse (cp_source_ids p \<noteq> [] \<and> reference \<notin> set (cp_source_ids p))
            (RepresentationMsg (BroadcastUnknownReference reference))))"

definition combination_plan_validate :: "combination_plan \<Rightarrow> unit result" where
  "combination_plan_validate p = checks [
     validate_string_list_entries ''combination plan component_source_ids'' (cp_source_ids p),
     validate_unique_strings ''combination plan component_source_ids'' (cp_source_ids p),
     validate_string_list_entries ''combination plan component_unit_ids'' (cp_unit_ids p),
     validate_unique_strings ''combination plan component_unit_ids'' (cp_unit_ids p),
     validate_optional_string ''combination plan match_key'' (match_key p),
     validate_optional_string ''combination plan reference_source_id'' (reference_source_id p),
     refuse (cap p = Some 0) (RepresentationMsg CombinationCapZero),
     refuse (budget p = Some 0) (RepresentationMsg CombinationBudgetZero),
     combination_mode_check p,
     validate_keys ''combination plan metadata'' (cp_metadata p)]"

section \<open>Representation plans\<close>

record aggregate_representation =
  ar_input_unit_level :: entity_unit_level
  ar_output_unit_level :: entity_unit_level
  reducer_id :: "string option"
  ar_method :: "string option"
  ar_cardinality :: representation_cardinality

record product_representation =
  pr_combination_plan :: combination_plan
  pr_output_unit_level :: entity_unit_level
  pr_cardinality :: representation_cardinality
  preserve_provenance :: bool

record stack_fixed_representation =
  sf_output_unit_level :: entity_unit_level
  sf_cardinality :: representation_cardinality
  sf_expected_cardinality :: nat
  sf_source_ids :: "string list"

record stack_padded_masked_representation =
  sp_output_unit_level :: entity_unit_level
  sp_cardinality :: representation_cardinality
  sp_expected_cardinality :: nat
  sp_missing_source_policy :: missing_source_policy
  requires_missing_masks :: bool
  sp_source_ids :: "string list"

text \<open>\<open>CartesianProductRepresentation\<close> and \<open>MonteCarloCartesianRepresentation\<close> have the same
  fields; the constructor tells them apart.\<close>

datatype (plugins only: code size) representation_plan =
    Aggregate aggregate_representation
  | CartesianProduct product_representation
  | MonteCarloCartesian product_representation
  | StackFixed stack_fixed_representation
  | StackPaddedMasked stack_padded_masked_representation

text \<open>The derived \<open>==\<close>: only a combination plan holds values.\<close>

definition product_norm :: "product_representation \<Rightarrow> product_representation" where
  "product_norm r = r\<lparr>pr_combination_plan :=
     (pr_combination_plan r)\<lparr>cp_metadata := json_map_norm (cp_metadata (pr_combination_plan r))\<rparr>\<rparr>"

definition representation_norm :: "representation_plan \<Rightarrow> representation_plan" where
  "representation_norm p = (case p of
      CartesianProduct r \<Rightarrow> CartesianProduct (product_norm r)
    | MonteCarloCartesian r \<Rightarrow> MonteCarloCartesian (product_norm r)
    | _ \<Rightarrow> p)"

definition validate_combo_like_output :: "string \<Rightarrow> entity_unit_level \<Rightarrow> unit result" where
  "validate_combo_like_output label level =
     refuse (level \<noteq> Combo \<and> level \<noteq> ObservationUnit) (RepresentationMsg (ComboLikeOutput label))"

definition aggregate_validate :: "aggregate_representation \<Rightarrow> unit result" where
  "aggregate_validate a = checks [
     validate_optional_string ''aggregate representation reducer_id'' (reducer_id a),
     validate_optional_string ''aggregate representation method'' (ar_method a),
     refuse (ar_cardinality a \<noteq> ManyToOne) (RepresentationMsg AggregateNotManyToOne)]"

definition cartesian_product_validate :: "product_representation \<Rightarrow> unit result" where
  "cartesian_product_validate r = checks [
     combination_plan_validate (pr_combination_plan r),
     refuse (cp_mode (pr_combination_plan r) \<noteq> CombCartesian) (RepresentationMsg CartesianProductMode),
     validate_combo_like_output ''cartesian_product'' (pr_output_unit_level r),
     refuse (pr_cardinality r \<noteq> ManyToMany) (RepresentationMsg CartesianProductCardinality)]"

definition monte_carlo_validate :: "product_representation \<Rightarrow> unit result" where
  "monte_carlo_validate r = checks [
     combination_plan_validate (pr_combination_plan r),
     refuse (cp_mode (pr_combination_plan r) \<noteq> SampleKMode) (RepresentationMsg MonteCarloMode),
     validate_combo_like_output ''monte_carlo_cartesian'' (pr_output_unit_level r),
     refuse (pr_cardinality r \<noteq> BoundedMany) (RepresentationMsg MonteCarloCardinality)]"

definition stack_fixed_validate :: "stack_fixed_representation \<Rightarrow> unit result" where
  "stack_fixed_validate r = checks [
     refuse (sf_expected_cardinality r = 0) (RepresentationMsg (ExpectedCardinalityZero ''stack_fixed'')),
     refuse (sf_cardinality r \<noteq> OneToMany) (RepresentationMsg StackFixedCardinality),
     validate_string_list_entries ''stack_fixed representation component_source_ids'' (sf_source_ids r),
     validate_unique_strings ''stack_fixed representation component_source_ids'' (sf_source_ids r)]"

definition stack_padded_masked_validate :: "stack_padded_masked_representation \<Rightarrow> unit result" where
  "stack_padded_masked_validate r = checks [
     refuse (sp_expected_cardinality r = 0) (RepresentationMsg (ExpectedCardinalityZero ''stack_padded_masked'')),
     refuse (sp_cardinality r \<noteq> BoundedMany) (RepresentationMsg StackPaddedCardinality),
     refuse (sp_missing_source_policy r \<noteq> MissMask \<and> sp_missing_source_policy r \<noteq> MissPad)
       (RepresentationMsg StackPaddedPolicy),
     refuse (\<not> requires_missing_masks r) (RepresentationMsg StackPaddedNeedsMasks),
     validate_string_list_entries ''stack_padded_masked representation component_source_ids'' (sp_source_ids r),
     validate_unique_strings ''stack_padded_masked representation component_source_ids'' (sp_source_ids r)]"

definition representation_plan_validate :: "representation_plan \<Rightarrow> unit result" where
  "representation_plan_validate p = (case p of
      Aggregate a \<Rightarrow> aggregate_validate a
    | CartesianProduct r \<Rightarrow> cartesian_product_validate r
    | MonteCarloCartesian r \<Rightarrow> monte_carlo_validate r
    | StackFixed r \<Rightarrow> stack_fixed_validate r
    | StackPaddedMasked r \<Rightarrow> stack_padded_masked_validate r)"

definition output_unit_level :: "representation_plan \<Rightarrow> entity_unit_level" where
  "output_unit_level p = (case p of
      Aggregate a \<Rightarrow> ar_output_unit_level a
    | CartesianProduct r \<Rightarrow> pr_output_unit_level r
    | MonteCarloCartesian r \<Rightarrow> pr_output_unit_level r
    | StackFixed r \<Rightarrow> sf_output_unit_level r
    | StackPaddedMasked r \<Rightarrow> sp_output_unit_level r)"

section \<open>Train/predict compatibility\<close>

datatype (plugins only: code size) compatibility_severity = SevInfo | SevWarning | SevError

datatype (plugins only: code size) compatibility_outcome = Compatible | CompatibleWithFallback | Incompatible

record compatibility_report =
  cr_policy :: missing_source_policy
  outcome :: compatibility_outcome
  fallback_used :: "string option"
  warning_severity :: "compatibility_severity option"
  affected_source_count :: "64 word"
  affected_repetition_count :: "64 word"
  affected_sample_count :: "64 word"
  train_relation_fingerprint :: "string option"
  predict_relation_fingerprint :: "string option"
  train_unit_count :: "64 word option"
  predict_unit_count :: "64 word option"
  fixed_width_required :: bool
  final_reducer_stabilizes_output :: bool
  cartesian_combo_count_changed :: bool
  late_fusion_branch_delta :: bool
  cr_messages :: "string list"
  cr_metadata :: json_map

definition saturating_add :: "64 word \<Rightarrow> 64 word \<Rightarrow> 64 word" where
  "saturating_add a b = (if a + b < a then - 1 else a + b)"

definition affected_total :: "compatibility_report \<Rightarrow> 64 word" where
  "affected_total r = saturating_add
     (saturating_add (affected_source_count r) (affected_repetition_count r)) (affected_sample_count r)"

definition relation_fingerprint_changed :: "compatibility_report \<Rightarrow> bool" where
  "relation_fingerprint_changed r \<longleftrightarrow>
     both_differ (train_relation_fingerprint r) (predict_relation_fingerprint r)"

definition unit_count_changed :: "compatibility_report \<Rightarrow> bool" where
  "unit_count_changed r \<longleftrightarrow> both_differ (train_unit_count r) (predict_unit_count r)"

definition allows_fixed_width_fallback :: "compatibility_report \<Rightarrow> bool" where
  "allows_fixed_width_fallback r \<longleftrightarrow>
     cr_policy r = MissMask \<or> cr_policy r = MissPad \<or>
     option_ex (\<lambda>f. f = ''mask'' \<or> f = ''pad'') (fallback_used r)"

definition allows_late_fusion_delta :: "compatibility_report \<Rightarrow> bool" where
  "allows_late_fusion_delta r \<longleftrightarrow>
     cr_policy r \<in> {DropIncomplete, MissImputeDeclared, MissMask, MissPartialModel, MissPad} \<or>
     option_ex (\<lambda>f. f \<in> {''drop_incomplete'', ''impute_declared'', ''mask'', ''partial_model'', ''pad''})
       (fallback_used r)"

definition affected_check :: "compatibility_report \<Rightarrow> unit result" where
  "affected_check r =
     (if affected_total r = 0 then checks [
        refuse (relation_fingerprint_changed r) (CompatibilityMsg FingerprintMismatchUnaffected),
        refuse (unit_count_changed r) (CompatibilityMsg UnitCountMismatchUnaffected),
        refuse (outcome r = CompatibleWithFallback) (CompatibilityMsg FallbackUnaffected),
        refuse (warning_severity r \<noteq> None) (CompatibilityMsg WarningUnaffected)]
      else if cr_policy r = MissStrict then checks [
        refuse (outcome r \<noteq> Incompatible) (CompatibilityMsg StrictNotIncompatible),
        refuse (fallback_used r \<noteq> None) (CompatibilityMsg StrictFallback)]
      else checks [
        refuse (warning_severity r = None) (CompatibilityMsg WarningMissing),
        refuse (outcome r = Compatible) (CompatibilityMsg AffectedCompatible),
        refuse (outcome r = CompatibleWithFallback \<and> fallback_used r = None)
          (CompatibilityMsg FallbackUndeclared)])"

text \<open>The last three checks: an incompatible report returns \<open>Ok\<close> at the first one that applies.\<close>

definition delta_check :: "compatibility_report \<Rightarrow> unit result" where
  "delta_check r =
     (if fixed_width_required r \<and> unit_count_changed r \<and> \<not> allows_fixed_width_fallback r
      then refuse (outcome r \<noteq> Incompatible) (CompatibilityMsg FixedWidthMismatch)
      else if cartesian_combo_count_changed r \<and> \<not> final_reducer_stabilizes_output r
      then refuse (outcome r \<noteq> Incompatible) (CompatibilityMsg CombinationCountChanged)
      else if late_fusion_branch_delta r \<and> \<not> allows_late_fusion_delta r
      then refuse (outcome r \<noteq> Incompatible) (CompatibilityMsg LateFusionDelta)
      else Inr ())"

definition compatibility_report_validate :: "compatibility_report \<Rightarrow> unit result" where
  "compatibility_report_validate r = checks [
     validate_optional_string ''representation compatibility fallback_used'' (fallback_used r),
     check_option (validate_fingerprint ''representation compatibility train relation'')
       (train_relation_fingerprint r),
     check_option (validate_fingerprint ''representation compatibility predict relation'')
       (predict_relation_fingerprint r),
     validate_string_list_entries ''representation compatibility messages'' (cr_messages r),
     validate_keys ''representation compatibility metadata'' (cr_metadata r),
     affected_check r,
     refuse (outcome r = Incompatible \<and> fallback_used r \<noteq> None) (CompatibilityMsg IncompatibleFallback),
     delta_check r]"

section \<open>Replay manifests\<close>

record observation_mapping =
  om_physical_sample_id :: string
  om_source_id :: string
  om_observation_ids :: "string list"

definition observation_mapping_validate :: "observation_mapping \<Rightarrow> unit result" where
  "observation_mapping_validate m = checks [
     validate_non_empty ''representation sample observation mapping physical_sample_id''
       (om_physical_sample_id m),
     validate_non_empty ''representation sample observation mapping source_id'' (om_source_id m),
     validate_non_empty_list ''representation sample observation mapping observation_ids''
       (om_observation_ids m),
     validate_unique_strings ''representation sample observation mapping observation_ids''
       (om_observation_ids m)]"

record combo_selection_record =
  combo_unit_id :: string
  cs_physical_sample_id :: string
  cs_component_observation_ids :: "string list"
  cs_seed :: "64 word option"

definition combo_selection_validate :: "combo_selection_record \<Rightarrow> unit result" where
  "combo_selection_validate c = checks [
     validate_non_empty ''representation combo selection combo_unit_id'' (combo_unit_id c),
     validate_non_empty ''representation combo selection physical_sample_id'' (cs_physical_sample_id c),
     validate_non_empty_list ''representation combo selection component_observation_ids''
       (cs_component_observation_ids c),
     validate_unique_strings ''representation combo selection component_observation_ids''
       (cs_component_observation_ids c)]"

record replay_manifest =
  rm_manifest_id :: string
  rm_representation_plan :: representation_plan
  rm_combination_plan :: "combination_plan option"
  rm_output_unit_level :: entity_unit_level
  rm_output_representation :: "string option"
  rm_relation_fingerprint :: "string option"
  rm_feature_schema_fingerprint :: "string option"
  final_reduction_id :: "string option"
  sample_observation_mapping :: "observation_mapping list"
  combo_selection :: "combo_selection_record list"
  qc_policy_refs :: "string list"
  outlier_policy_refs :: "string list"
  rm_missing_source_policy :: "missing_source_policy option"
  missing_repetition_policy :: "missing_source_policy option"
  prediction_representation :: "string option"
  final_output_unit_level :: "entity_unit_level option"
  train_compatibility :: "compatibility_report option"
  predict_compatibility :: "compatibility_report option"
  rm_metadata :: json_map

text \<open>A loop that validates each entry before it looks for an earlier one with the same key.\<close>

definition check_each_unique ::
  "('a \<Rightarrow> 'f + unit) \<Rightarrow> ('a \<Rightarrow> 'k) \<Rightarrow> ('a \<Rightarrow> 'f) \<Rightarrow> 'a list \<Rightarrow> 'f + unit" where
  "check_each_unique check key err xs =
     and_then (try_fold (\<lambda>seen x. and_then (check x) (\<lambda>_.
       if key x \<in> seen then Inl (err x) else Inr (insert (key x) seen))) {} xs) (\<lambda>_. Inr ())"

definition replay_manifest_validate :: "replay_manifest \<Rightarrow> unit result" where
  "replay_manifest_validate m = checks [
     validate_non_empty ''representation replay manifest_id'' (rm_manifest_id m),
     representation_plan_validate (rm_representation_plan m),
     check_option combination_plan_validate (rm_combination_plan m),
     refuse (rm_output_unit_level m \<noteq> output_unit_level (rm_representation_plan m))
       (RepresentationMsg ReplayUnitLevelMismatch),
     validate_optional_string ''representation replay output_representation'' (rm_output_representation m),
     validate_optional_string ''representation replay final_reduction_id'' (final_reduction_id m),
     validate_string_list_entries ''representation replay qc_policy_refs'' (qc_policy_refs m),
     validate_unique_strings ''representation replay qc_policy_refs'' (qc_policy_refs m),
     validate_string_list_entries ''representation replay outlier_policy_refs'' (outlier_policy_refs m),
     validate_unique_strings ''representation replay outlier_policy_refs'' (outlier_policy_refs m),
     validate_optional_string ''representation replay prediction_representation''
       (prediction_representation m),
     check_each_unique observation_mapping_validate (\<lambda>x. (om_physical_sample_id x, om_source_id x))
       (\<lambda>x. data_error (RepresentationMsg (ReplayDuplicatePair (om_physical_sample_id x) (om_source_id x))))
       (sample_observation_mapping m),
     check_each_unique combo_selection_validate combo_unit_id
       (\<lambda>x. data_error (RepresentationMsg (ReplayDuplicateCombo (combo_unit_id x)))) (combo_selection m),
     check_option compatibility_report_validate (train_compatibility m),
     check_option compatibility_report_validate (predict_compatibility m),
     check_option (validate_fingerprint ''representation replay relation'') (rm_relation_fingerprint m),
     check_option (validate_fingerprint ''representation replay feature schema'')
       (rm_feature_schema_fingerprint m),
     validate_keys ''representation replay metadata'' (rm_metadata m)]"

section \<open>Lemmas\<close>

lemma check_each_unique_fold:
  "try_fold (\<lambda>seen x. and_then (check x) (\<lambda>_.
       if key x \<in> seen then Inl (err x) else Inr (insert (key x) seen))) s xs = Inr t \<longleftrightarrow>
     (\<forall>x \<in> set xs. check x = Inr ()) \<and> distinct (map key xs) \<and> key ` set xs \<inter> s = {} \<and>
     t = s \<union> key ` set xs"
  by (induction xs arbitrary: s t) (auto simp: and_then_ok split: if_splits)

lemma check_each_unique_ok [ok_iff]:
  "check_each_unique check key err xs = Inr u \<longleftrightarrow>
     (\<forall>x \<in> set xs. check x = Inr ()) \<and> distinct (map key xs)"
  by (auto simp: check_each_unique_def and_then_ok check_each_unique_fold)

lemma saturating_add_unat: "unat (saturating_add a b) = min (unat a + unat b) (2 ^ 64 - 1)"
proof (cases "unat a + unat b < 2 ^ 64")
  case True
  then have "unat (a + b) = unat a + unat b" by (simp add: unat_add_lem[symmetric])
  moreover have "\<not> a + b < a" using calculation by (simp add: word_less_nat_alt)
  ultimately show ?thesis using True by (simp add: saturating_add_def)
next
  case False
  have bounds: "unat a < 2 ^ 64" "unat b < 2 ^ 64"
    using unsigned_less[of a, where 'a = nat] unsigned_less[of b, where 'a = nat] by simp_all
  then have "unat (a + b) = unat a + unat b - 2 ^ 64"
    using False by (simp add: unat_word_ariths(1) mod_if)
  then have "a + b < a" using bounds False by (simp add: word_less_nat_alt)
  then have "unat (saturating_add a b) = unat (- 1 :: 64 word)" by (simp add: saturating_add_def)
  also have "\<dots> = 2 ^ 64 - 1" by (simp add: unsigned_minus_1_eq_mask mask_eq_exp_minus_1)
  finally show ?thesis using False by simp
qed

lemma saturating_add_zero: "saturating_add a b = 0 \<longleftrightarrow> a = 0 \<and> b = 0"
proof -
  have "saturating_add a b = 0 \<longleftrightarrow> unat (saturating_add a b) = 0" by (simp add: unat_eq_zero)
  also have "\<dots> \<longleftrightarrow> unat a + unat b = 0" unfolding saturating_add_unat by (auto simp: min_def)
  finally show ?thesis by (simp add: unat_eq_zero)
qed

lemma affected_total_zero:
  "affected_total r = 0 \<longleftrightarrow>
     affected_source_count r = 0 \<and> affected_repetition_count r = 0 \<and> affected_sample_count r = 0"
  by (simp add: affected_total_def saturating_add_zero)

end
