(* ===== verification/DataPlan.thy ===== *)
theory DataPlan
  imports Representation
begin

text \<open>
  \<open>data.rs\<close>, second part: what a model's input ports accept, the data plan (steps whose inputs
  must have been produced), and the view policy that decides which rows a fit and a prediction may
  read.
\<close>

section \<open>Model inputs\<close>

datatype (plugins only: code size) fusion_mode = SingleSource | ConcatenateFeatures | StackSamples | DictBySource | CustomFusion

record fusion_policy =
  fu_mode :: fusion_mode
  fu_alignment :: "string option"
  fu_adapter_id :: "string option"
  fu_representation_plan :: "representation_plan option"
  fu_params :: json_map

definition fusion_policy_validate :: "fusion_policy \<Rightarrow> unit result" where
  "fusion_policy_validate p = checks [
     refuse (option_ex is_blank (fu_alignment p)) (DataPlanMsg FusionAlignmentEmpty),
     refuse (option_ex is_blank (fu_adapter_id p)) (DataPlanMsg FusionAdapterEmpty),
     refuse (fu_mode p = CustomFusion \<and> fu_adapter_id p = None) (DataPlanMsg CustomFusionNeedsAdapter),
     check_option representation_plan_validate (fu_representation_plan p),
     validate_keys ''model input fusion policy'' (fu_params p)]"

record model_input_port =
  mi_name :: string
  accepted_representations :: "string list"
  accepted_types :: "string list"
  rank :: "nat option"
  multi_source :: bool
  mi_optional :: bool
  mi_metadata :: json_map

definition model_input_port_validate :: "model_input_port \<Rightarrow> unit result" where
  "model_input_port_validate p = checks [
     validate_non_empty ''model input port name'' (mi_name p),
     validate_non_empty_list ''model input port accepted_representations'' (accepted_representations p),
     validate_non_empty_list ''model input port accepted_types'' (accepted_types p),
     validate_unique_strings ''model input port accepted_representations'' (accepted_representations p),
     validate_unique_strings ''model input port accepted_types'' (accepted_types p),
     refuse (option_ex (\<lambda>r. 16 < r) (rank p)) (DataPlanMsg (InputPortRank (mi_name p))),
     validate_keys (''model input port `'' @ mi_name p @ ''`'') (mi_metadata p)]"

record model_input_spec =
  ms_schema_version :: nat
  ms_ports :: "model_input_port list"
  default_fusion :: "fusion_policy option"
  ms_fit_influence_policy :: "fit_influence_policy option"
  ms_metadata :: json_map

definition fusion_norm :: "fusion_policy \<Rightarrow> fusion_policy" where
  "fusion_norm p = p\<lparr>fu_representation_plan := map_option representation_norm (fu_representation_plan p),
     fu_params := json_map_norm (fu_params p)\<rparr>"

definition model_input_norm :: "model_input_spec \<Rightarrow> model_input_spec" where
  "model_input_norm s = s\<lparr>ms_ports := map (\<lambda>p. p\<lparr>mi_metadata := json_map_norm (mi_metadata p)\<rparr>) (ms_ports s),
     default_fusion := map_option fusion_norm (default_fusion s), ms_metadata := json_map_norm (ms_metadata s)\<rparr>"

definition model_input_spec_schema_version :: nat where
  "model_input_spec_schema_version = 1"

definition model_input_spec_validate :: "model_input_spec \<Rightarrow> unit result" where
  "model_input_spec_validate s = checks [
     refuse (ms_schema_version s \<noteq> model_input_spec_schema_version)
       (DataPlanMsg (ModelInputSchemaVersion (ms_schema_version s))),
     refuse (ms_ports s = []) (DataPlanMsg ModelInputNoPorts),
     check_each_unique model_input_port_validate mi_name
       (\<lambda>p. data_error (DataPlanMsg (ModelInputDuplicatePort (mi_name p)))) (ms_ports s),
     check_option fusion_policy_validate (default_fusion s),
     validate_keys ''model input spec'' (ms_metadata s)]"

section \<open>Data plans\<close>

datatype (plugins only: code size) step_kind = Materialize | Adapt | Align | Join | Collate

record data_plan_step =
  step_kind :: step_kind
  step_inputs :: "string list"
  step_output :: string
  step_adapter_id :: "string option"
  step_params :: json_map

definition step_input_check :: "data_plan_step \<Rightarrow> string set \<Rightarrow> nat \<times> string \<Rightarrow> unit result" where
  "step_input_check s previous = (\<lambda>(index, input). checks [
     validate_non_empty ''data plan step input'' input,
     refuse (step_kind s \<noteq> Materialize \<and> input \<notin> previous)
       (DataPlanMsg (StepInputNotProduced (step_output s) index input))])"

definition data_plan_step_validate :: "data_plan_step \<Rightarrow> string set \<Rightarrow> unit result" where
  "data_plan_step_validate s previous = checks [
     validate_non_empty ''data plan step output'' (step_output s),
     refuse (step_kind s \<noteq> Materialize \<and> step_inputs s = []) (DataPlanMsg (StepNeedsInput (step_output s))),
     try_each (step_input_check s previous) (enumerate 0 (step_inputs s)),
     refuse (option_ex is_blank (step_adapter_id s)) (DataPlanMsg (StepAdapterEmpty (step_output s))),
     validate_keys (''data plan step `'' @ step_output s @ ''`'') (step_params s)]"

record data_plan =
  dp_schema_version :: nat
  dp_id :: string
  dp_steps :: "data_plan_step list"
  output_ports :: "(string, string) btree_map"
  dp_warnings :: "string list"
  requires_user_choice :: "string list"
  dp_metadata :: json_map

definition data_plan_schema_version :: nat where
  "data_plan_schema_version = 1"

definition data_plan_add_step :: "data_plan \<Rightarrow> string set \<Rightarrow> data_plan_step \<Rightarrow> string set result" where
  "data_plan_add_step p produced s =
     and_then (data_plan_step_validate s produced) (\<lambda>_.
     if step_output s \<in> produced then data_err (DataPlanMsg (DuplicateStepOutput (dp_id p) (step_output s)))
     else Inr (insert (step_output s) produced))"

definition output_port_check :: "data_plan \<Rightarrow> string set \<Rightarrow> string \<times> string \<Rightarrow> unit result" where
  "output_port_check p produced = (\<lambda>(port_name, output). checks [
     validate_non_empty ''data plan output port'' port_name,
     validate_non_empty ''data plan output reference'' output,
     refuse (output \<notin> produced) (DataPlanMsg (UnknownOutputReference (dp_id p) port_name output))])"

definition data_plan_validate :: "data_plan \<Rightarrow> unit result" where
  "data_plan_validate p = checks [
     refuse (dp_schema_version p \<noteq> data_plan_schema_version)
       (DataPlanMsg (DataPlanSchemaVersion (dp_schema_version p))),
     validate_non_empty ''data plan id'' (dp_id p),
     refuse (dp_steps p = []) (DataPlanMsg (DataPlanNoSteps (dp_id p))),
     and_then (try_fold (data_plan_add_step p) {} (dp_steps p)) (\<lambda>produced. checks [
       refuse (output_ports p = []) (DataPlanMsg (DataPlanNoOutputPorts (dp_id p))),
       try_each (output_port_check p produced) (output_ports p)]),
     validate_string_list_entries ''data plan warnings'' (dp_warnings p),
     validate_string_list_entries ''data plan requires_user_choice'' (requires_user_choice p),
     validate_keys (''data plan `'' @ dp_id p @ ''`'') (dp_metadata p)]"

section \<open>View policies\<close>

datatype (plugins only: code size) request_partition =
    FoldTrainRows | FoldValidationRows | FullTrainRows | AllObservationRows | PredictRows

record data_view_policy =
  vp_fit_partition :: request_partition
  vp_predict_partition :: request_partition
  include_augmented_train :: bool
  include_refit_test_view :: bool
  include_augmented_refit_predictions :: bool
  include_augmented_cv_train_predictions :: bool
  augmented_cv_ids_by_fold :: "(fold_id, sample_id list) btree_map"
  include_augmented_validation :: bool
  include_excluded :: bool
  require_sample_ids :: bool
  vp_unsafe_flags :: "string btree_set"

definition default_data_view_policy :: data_view_policy where
  "default_data_view_policy =
     \<lparr>vp_fit_partition = FoldTrainRows, vp_predict_partition = FoldValidationRows,
      include_augmented_train = True, include_refit_test_view = False,
      include_augmented_refit_predictions = False, include_augmented_cv_train_predictions = False,
      augmented_cv_ids_by_fold = [], include_augmented_validation = False, include_excluded = False,
      require_sample_ids = True, vp_unsafe_flags = []\<rparr>"

definition allow_fit_cv_full_train_view :: string where
  "allow_fit_cv_full_train_view = ''allow_fit_cv_full_train_view''"

definition allow_fit_cv_all_observations_view :: string where
  "allow_fit_cv_all_observations_view = ''allow_fit_cv_all_observations_view''"

definition allow_fit_cv_validation_view :: string where
  "allow_fit_cv_validation_view = ''allow_fit_cv_validation_view''"

definition allow_augmented_validation_view :: string where
  "allow_augmented_validation_view = ''allow_augmented_validation_view''"

definition allow_excluded_rows :: string where
  "allow_excluded_rows = ''allow_excluded_rows''"

definition has_flag :: "data_view_policy \<Rightarrow> string \<Rightarrow> bool" where
  "has_flag p flag \<longleftrightarrow> flag \<in> set (vp_unsafe_flags p)"

definition fit_partition_check :: "data_view_policy \<Rightarrow> unit result" where
  "fit_partition_check p = (case vp_fit_partition p of
      FoldTrainRows \<Rightarrow> Inr ()
    | FullTrainRows \<Rightarrow> refuse (\<not> has_flag p allow_fit_cv_full_train_view) (ViewPolicyMsg FitFullTrainUnsafe)
    | AllObservationRows \<Rightarrow>
        refuse (\<not> has_flag p allow_fit_cv_all_observations_view) (ViewPolicyMsg FitAllObservationsUnsafe)
    | FoldValidationRows \<Rightarrow>
        refuse (\<not> has_flag p allow_fit_cv_validation_view) (ViewPolicyMsg FitValidationUnsafe)
    | PredictRows \<Rightarrow> data_err (ViewPolicyMsg FitPredictInvalid))"

definition predict_partition_check :: "data_view_policy \<Rightarrow> unit result" where
  "predict_partition_check p = (case vp_predict_partition p of
      FoldValidationRows \<Rightarrow> Inr ()
    | PredictRows \<Rightarrow> Inr ()
    | _ \<Rightarrow> data_err (ViewPolicyMsg PredictPartitionInvalid))"

definition data_view_policy_validate :: "data_view_policy \<Rightarrow> unit result" where
  "data_view_policy_validate p = checks [
     refuse (include_refit_test_view p \<and> \<not> require_sample_ids p) (ViewPolicyMsg RefitTestViewNeedsSamples),
     refuse (include_augmented_refit_predictions p \<and> \<not> include_augmented_train p)
       (ViewPolicyMsg AugmentedRefitNeedsTrain),
     refuse (include_augmented_cv_train_predictions p \<and> \<not> include_augmented_train p)
       (ViewPolicyMsg AugmentedCvNeedsTrain),
     refuse (\<not> include_augmented_cv_train_predictions p \<and> augmented_cv_ids_by_fold p \<noteq> [])
       (ViewPolicyMsg AugmentedCvIdsUnexpected),
     try_each (\<lambda>(_, ids). refuse (length ids \<noteq> card (set ids)) (ViewPolicyMsg AugmentedCvIdsDuplicate))
       (augmented_cv_ids_by_fold p),
     try_each (\<lambda>flag. refuse (is_blank flag) (ViewPolicyMsg ViewUnsafeFlagEmpty)) (vp_unsafe_flags p),
     fit_partition_check p,
     predict_partition_check p,
     refuse (include_augmented_validation p \<and> \<not> has_flag p allow_augmented_validation_view)
       (ViewPolicyMsg AugmentedValidationUnsafe),
     refuse (include_excluded p \<and> \<not> has_flag p allow_excluded_rows) (ViewPolicyMsg ExcludedRowsUnsafe)]"

section \<open>What validation guarantees\<close>

text \<open>Running a plan: a step other than materialize reads outputs that exist, and every step adds
  its own.\<close>

fun runnable :: "string set \<Rightarrow> data_plan_step list \<Rightarrow> bool" where
  "runnable produced [] = True"
| "runnable produced (s # ss) =
     ((step_kind s = Materialize \<or> step_inputs s \<noteq> [] \<and> set (step_inputs s) \<subseteq> produced) \<and>
      step_output s \<notin> produced \<and> runnable (insert (step_output s) produced) ss)"

lemma set_enumerate_inputs: "(\<forall>(i, x) \<in> set (enumerate 0 xs). P x) \<longleftrightarrow> (\<forall>x \<in> set xs. P x)"
proof -
  have "(\<forall>p \<in> set (enumerate 0 xs). P (snd p)) \<longleftrightarrow> (\<forall>x \<in> set (map snd (enumerate 0 xs)). P x)"
    by (simp only: set_map ball_simps)
  then show ?thesis by (simp add: case_prod_beta)
qed

lemma step_inputs_ok:
  "(\<forall>x \<in> set (enumerate 0 (step_inputs s)). step_input_check s previous x = Inr ()) \<longleftrightarrow>
     (\<forall>i \<in> set (step_inputs s). \<not> is_blank i \<and> (step_kind s = Materialize \<or> i \<in> previous))"
proof -
  have "step_input_check s previous x = Inr () \<longleftrightarrow>
      \<not> is_blank (snd x) \<and> (step_kind s = Materialize \<or> snd x \<in> previous)" for x
    by (auto simp: step_input_check_def ok_iff case_prod_beta)
  then show ?thesis
    using set_enumerate_inputs[of "step_inputs s"
      "\<lambda>i. \<not> is_blank i \<and> (step_kind s = Materialize \<or> i \<in> previous)"]
    by (simp add: case_prod_beta)
qed

definition step_fields_ok :: "data_plan_step \<Rightarrow> bool" where
  "step_fields_ok s \<longleftrightarrow> \<not> is_blank (step_output s) \<and> (\<forall>i \<in> set (step_inputs s). \<not> is_blank i) \<and>
     \<not> option_ex is_blank (step_adapter_id s) \<and> (\<forall>k \<in> set (bm_keys (step_params s)). \<not> is_blank k)"

lemma data_plan_step_validate_ok:
  "data_plan_step_validate s previous = Inr () \<longleftrightarrow> step_fields_ok s \<and>
     (step_kind s = Materialize \<or> step_inputs s \<noteq> [] \<and> set (step_inputs s) \<subseteq> previous)"
  by (auto simp: data_plan_step_validate_def and_then_ok try_each_ok step_inputs_ok
    validate_non_empty_ok validate_keys_ok step_fields_ok_def)

lemma data_plan_fold_ok:
  "try_fold (data_plan_add_step p) produced ss = Inr t \<longleftrightarrow>
     (\<forall>s \<in> set ss. step_fields_ok s) \<and> runnable produced ss \<and> t = produced \<union> step_output ` set ss"
proof (induction ss arbitrary: produced t)
  case Nil
  then show ?case by auto
next
  case (Cons s ss)
  have "data_plan_add_step p produced s = Inr t \<longleftrightarrow> data_plan_step_validate s produced = Inr () \<and>
      step_output s \<notin> produced \<and> t = insert (step_output s) produced" for t
    by (auto simp: data_plan_add_step_def and_then_ok)
  then show ?case
    by (auto simp: and_then_ok Cons.IH data_plan_step_validate_ok)
qed

lemma runnable_distinct: "runnable produced ss \<Longrightarrow> distinct (map step_output ss) \<and> step_output ` set ss \<inter> produced = {}"
  by (induction produced ss rule: runnable.induct) auto

end
