(* ===== verification/Cohort.thy ===== *)
theory Cohort
  imports DataPlan
begin

text \<open>
  \<open>data.rs\<close>, third part: the predict cohorts (a relation authority outside the cross-validation
  universe, with its fingerprint), and the external data-plan envelope that carries one from V2
  on. The bytes of the canonical relation records and of a cohort, and SHA-256, are the
  parameters gathered in \<open>hashing\<close>.
\<close>

section \<open>Predict cohorts\<close>

datatype (plugins only: code size) cohort_role = ExternalTest | Inference

text \<open>The fields the fingerprint covers; the cohort adds the fingerprint itself.\<close>

record cohort_content =
  pc_role :: cohort_role
  physical_sample_ids :: "sample_id list"
  origin_sample_ids :: "sample_id list"
  pc_target_names :: "string list"
  pc_relation_fingerprint :: string
  pc_relations :: sample_relation_set
  pc_data_content_fingerprint :: string
  pc_target_content_fingerprint :: "string option"

record predict_cohort = cohort_content +
  cohort_fingerprint :: string

definition cohort_norm :: "predict_cohort \<Rightarrow> predict_cohort" where
  "cohort_norm c = c\<lparr>pc_relations := map relation_norm (pc_relations c)\<rparr>"

record hashing =
  relation_bytes :: "(string \<times> sample_relation) list \<Rightarrow> bytes result"
  cohort_bytes :: "cohort_content \<Rightarrow> bytes result"
  sha256_of :: digest

definition relation_fingerprint_of :: "hashing \<Rightarrow> sample_relation_set \<Rightarrow> string result" where
  "relation_fingerprint_of h rs = relations_fingerprint (relation_bytes h) (sha256_of h) rs"

text \<open>A record's origin, itself when it has none.\<close>

definition effective_origin :: "sample_relation \<Rightarrow> sample_id" where
  "effective_origin r = unwrap_or (origin_sample_id r) (sr_sample_id r)"

definition relation_samples :: "sample_relation_set \<Rightarrow> sample_id btree_set" where
  "relation_samples rs = bs_collect (map sr_sample_id rs)"

definition relation_origins :: "sample_relation_set \<Rightarrow> sample_id btree_set" where
  "relation_origins rs = bs_collect (map effective_origin rs)"

definition validate_sorted_unique_sample_ids :: "string \<Rightarrow> sample_id list \<Rightarrow> unit result" where
  "validate_sorted_unique_sample_ids label ids =
     (if ids = [] then data_err (CohortMsg (CohortIdsEmpty label))
      else try_each (\<lambda>(a, b). refuse (b \<le> a) (CohortMsg (CohortIdsUnsorted label))) (zip ids (tl ids)))"

definition role_check :: "cohort_role \<Rightarrow> string option \<Rightarrow> unit result" where
  "role_check role target = (case role of
      ExternalTest \<Rightarrow> refuse (target = None) (CohortMsg ExternalTestNeedsTargets)
    | Inference \<Rightarrow> refuse (target \<noteq> None) (CohortMsg InferenceCarriesTargets))"

definition validate_members :: "hashing \<Rightarrow> 'a cohort_content_scheme \<Rightarrow> unit result" where
  "validate_members h c = checks [
     validate_sorted_unique_sample_ids ''predict cohort physical_sample_ids'' (physical_sample_ids c),
     validate_sorted_unique_sample_ids ''predict cohort origin_sample_ids'' (origin_sample_ids c),
     validate_non_empty_list ''predict cohort target_names'' (pc_target_names c),
     validate_unique_strings ''predict cohort target_names'' (pc_target_names c),
     validate_fingerprint ''predict cohort relation'' (pc_relation_fingerprint c),
     validate_fingerprint ''predict cohort data content'' (pc_data_content_fingerprint c),
     check_option (validate_fingerprint ''predict cohort target content'') (pc_target_content_fingerprint c),
     role_check (pc_role c) (pc_target_content_fingerprint c),
     relations_validate (pc_relations c),
     and_then (relation_fingerprint_of h (pc_relations c)) (\<lambda>fp.
       refuse (pc_relation_fingerprint c \<noteq> fp) (CohortMsg CohortRelationFingerprint)),
     refuse (relation_samples (pc_relations c) \<noteq> bs_collect (physical_sample_ids c))
       (CohortMsg CohortSamplesNotExact),
     refuse (relation_origins (pc_relations c) \<noteq> bs_collect (origin_sample_ids c))
       (CohortMsg CohortOriginsNotExact)]"

definition cohort_fingerprint_of :: "hashing \<Rightarrow> 'a cohort_content_scheme \<Rightarrow> string result" where
  "cohort_fingerprint_of h c =
     and_then (validate_members h c) (\<lambda>_.
       stable_json_fingerprint (cohort_bytes h) (sha256_of h) (cohort_content.truncate c))"

definition from_relations ::
  "hashing \<Rightarrow> cohort_role \<Rightarrow> sample_relation_set \<Rightarrow> string list \<Rightarrow> string \<Rightarrow> string option
   \<Rightarrow> predict_cohort result" where
  "from_relations h role rs names data_fp target_fp =
     and_then (relations_validate rs) (\<lambda>_.
     and_then (relation_fingerprint_of h rs) (\<lambda>relation_fp.
     let c = \<lparr>pc_role = role, physical_sample_ids = relation_samples rs,
         origin_sample_ids = relation_origins rs, pc_target_names = names,
         pc_relation_fingerprint = relation_fp, pc_relations = rs,
         pc_data_content_fingerprint = data_fp, pc_target_content_fingerprint = target_fp,
         cohort_fingerprint = []\<rparr> in
     and_then (validate_members h c) (\<lambda>_.
     and_then (cohort_fingerprint_of h c) (\<lambda>fp. Inr (c\<lparr>cohort_fingerprint := fp\<rparr>)))))"

definition cohort_validate :: "hashing \<Rightarrow> predict_cohort \<Rightarrow> unit result" where
  "cohort_validate h c = checks [
     validate_members h c,
     validate_fingerprint ''predict cohort'' (cohort_fingerprint c),
     and_then (cohort_fingerprint_of h c) (\<lambda>fp.
       refuse (cohort_fingerprint c \<noteq> fp) (CohortMsg CohortFingerprintMismatch))]"

text \<open>Physical and origin identities in the order the loops chain them.\<close>

definition cohort_identities :: "'a cohort_content_scheme \<Rightarrow> sample_id list" where
  "cohort_identities c = physical_sample_ids c @ origin_sample_ids c"

definition refuse_target_missing :: "predict_cohort \<Rightarrow> fold_set \<Rightarrow> unit result" where
  "refuse_target_missing c fs =
     (if pc_role c = Inference then Inr ()
      else case find (\<lambda>s. s \<in> set (target_missing_sample_ids fs)) (cohort_identities c) of
          Some s \<Rightarrow> data_err (CohortMsg (CohortTargetMissing (as_str s)))
        | None \<Rightarrow> Inr ())"

definition validate_against_cv_fold_set :: "hashing \<Rightarrow> predict_cohort \<Rightarrow> fold_set \<Rightarrow> unit result" where
  "validate_against_cv_fold_set h c fs =
     and_then (cohort_validate h c) (\<lambda>_.
     and_then (fold_set_validate fs) (\<lambda>_.
     if pc_role c = Inference then Inr ()
     else and_then (refuse_target_missing c fs) (\<lambda>_.
       try_each (\<lambda>s. refuse (s \<in> set (sample_ids fs)) (CohortMsg (CohortOverlapsFolds (as_str s))))
         (cohort_identities c))))"

text \<open>The identity closure of the CV relations: every sample and every origin.\<close>

definition identity_closure :: "sample_relation_set \<Rightarrow> sample_id set" where
  "identity_closure rs = (\<Union>r \<in> set rs. insert (sr_sample_id r) (set_option (origin_sample_id r)))"

definition validate_against_cv_relations ::
  "hashing \<Rightarrow> predict_cohort \<Rightarrow> sample_relation_set \<Rightarrow> unit result" where
  "validate_against_cv_relations h c cv =
     and_then (cohort_validate h c) (\<lambda>_.
     and_then (relations_validate cv) (\<lambda>_.
     if pc_role c = Inference then Inr ()
     else try_each (\<lambda>s. refuse (s \<in> identity_closure cv) (CohortMsg (CohortOverlapsRelations (as_str s))))
       (cohort_identities c)))"

section \<open>The external data-plan envelope\<close>

record envelope =
  en_schema_version :: nat
  en_schema_fingerprint :: string
  en_plan_fingerprint :: string
  en_relation_fingerprint :: "string option"
  en_data_content_fingerprint :: "string option"
  en_target_content_fingerprint :: "string option"
  coordinator_relations :: "sample_relation_set option"
  en_predict_cohort :: "predict_cohort option"

definition envelope_norm :: "envelope \<Rightarrow> envelope" where
  "envelope_norm e = e\<lparr>coordinator_relations := map_option (map relation_norm) (coordinator_relations e),
     en_predict_cohort := map_option cohort_norm (en_predict_cohort e)\<rparr>"

definition envelope_v1 :: nat where
  "envelope_v1 = 1"

definition envelope_v2 :: nat where
  "envelope_v2 = 2"

definition envelope_version_check :: "envelope \<Rightarrow> unit result" where
  "envelope_version_check e = checks [
     refuse (en_schema_version e \<noteq> envelope_v1 \<and> en_schema_version e \<noteq> envelope_v2)
       (CohortMsg (EnvelopeSchemaVersion (en_schema_version e))),
     refuse (en_schema_version e = envelope_v1 \<and> en_predict_cohort e \<noteq> None) (CohortMsg EnvelopeV1Cohort),
     refuse (en_schema_version e = envelope_v2 \<and> en_predict_cohort e = None)
       (CohortMsg EnvelopeV2NeedsCohort)]"

definition envelope_cohort_check :: "hashing \<Rightarrow> envelope \<Rightarrow> predict_cohort \<Rightarrow> unit result" where
  "envelope_cohort_check h e c =
     and_then (cohort_validate h c) (\<lambda>_.
     if pc_role c = ExternalTest
     then and_then (ok_or (coordinator_relations e) (data_error (CohortMsg ExternalTestNeedsRelations)))
       (\<lambda>cv. validate_against_cv_relations h c cv)
     else Inr ())"

definition envelope_validate :: "hashing \<Rightarrow> envelope \<Rightarrow> unit result" where
  "envelope_validate h e = checks [
     envelope_version_check e,
     validate_fingerprint ''schema'' (en_schema_fingerprint e),
     validate_fingerprint ''plan'' (en_plan_fingerprint e),
     check_option (\<lambda>fp. checks [validate_fingerprint ''relation'' fp,
         refuse (coordinator_relations e = None) (CohortMsg FingerprintNeedsRelations)])
       (en_relation_fingerprint e),
     check_option (validate_fingerprint ''data content'') (en_data_content_fingerprint e),
     check_option (validate_fingerprint ''target content'') (en_target_content_fingerprint e),
     check_option relations_validate (coordinator_relations e),
     check_option (envelope_cohort_check h e) (en_predict_cohort e)]"

section \<open>Lemmas\<close>

lemma sorted_windows: "(\<forall>(a, b) \<in> set (zip xs (tl xs)). a < b) \<longleftrightarrow> sorted_wrt (<) (xs :: 'a :: linorder list)"
proof (induction xs)
  case (Cons x xs)
  show ?case
  proof (cases xs)
    case (Cons y ys)
    have "sorted_wrt (<) (x # xs) \<longleftrightarrow> x < y \<and> sorted_wrt (<) xs"
      unfolding Cons by (auto intro: less_trans)
    then show ?thesis using Cons.IH Cons by simp
  qed simp
qed simp

lemma validate_sorted_unique_ok [ok_iff]:
  "validate_sorted_unique_sample_ids l ids = Inr u \<longleftrightarrow> ids \<noteq> [] \<and> sorted_wrt (<) ids"
proof -
  have "(\<forall>p \<in> set (zip ids (tl ids)). \<not> snd p \<le> fst p) \<longleftrightarrow> sorted_wrt (<) ids"
    unfolding sorted_windows[symmetric] by (auto simp: not_le)
  then show ?thesis
    by (simp add: validate_sorted_unique_sample_ids_def try_each_ok case_prod_beta)
qed

lemma role_check_ok [ok_iff]: "role_check role t = Inr u \<longleftrightarrow> (role = ExternalTest \<longleftrightarrow> t \<noteq> None)"
  by (cases role) (auto simp: role_check_def)

lemma bs_collect_sorted: "sorted_wrt (<) xs \<Longrightarrow> bs_collect xs = xs"
  by (simp add: bs_collect_def strict_sorted_iff sorted_list_of_set.idem_if_sorted_distinct)

lemma relation_samples_sorted [simp]:
  "sorted_wrt (<) (relation_samples rs)" "sorted_wrt (<) (relation_origins rs)"
  by (simp_all add: relation_samples_def relation_origins_def)

lemma set_relation_samples [simp]:
  "set (relation_samples rs) = sr_sample_id ` set rs" "set (relation_origins rs) = effective_origin ` set rs"
  by (simp_all add: relation_samples_def relation_origins_def)

text \<open>What a valid cohort is: its lists are exactly the sorted samples and origins of its relations.\<close>

definition cohort_members_ok :: "hashing \<Rightarrow> 'a cohort_content_scheme \<Rightarrow> bool" where
  "cohort_members_ok h c \<longleftrightarrow>
     pc_relations c \<noteq> [] \<and> relations_validate (pc_relations c) = Inr () \<and>
     physical_sample_ids c = relation_samples (pc_relations c) \<and>
     origin_sample_ids c = relation_origins (pc_relations c) \<and>
     relation_fingerprint_of h (pc_relations c) = Inr (pc_relation_fingerprint c) \<and>
     is_hex_fingerprint (pc_relation_fingerprint c) \<and> is_hex_fingerprint (pc_data_content_fingerprint c) \<and>
     pred_option is_hex_fingerprint (pc_target_content_fingerprint c) \<and>
     (pc_role c = ExternalTest \<longleftrightarrow> pc_target_content_fingerprint c \<noteq> None) \<and>
     pc_target_names c \<noteq> [] \<and> distinct (pc_target_names c) \<and> \<not> list_ex is_blank (pc_target_names c)"

lemma bs_collect_exact:
  "sorted_wrt (<) ids \<Longrightarrow> (relation_samples rs = bs_collect ids) = (ids = relation_samples rs)"
  "sorted_wrt (<) ids \<Longrightarrow> (relation_origins rs = bs_collect ids) = (ids = relation_origins rs)"
  by (auto simp: bs_collect_sorted)

lemma relation_samples_empty [simp]:
  "relation_samples rs = [] \<longleftrightarrow> rs = []" "relation_origins rs = [] \<longleftrightarrow> rs = []"
  using set_relation_samples[of rs] by (metis image_is_empty set_empty)+

lemma validate_members_ok: "validate_members h c = Inr u \<longleftrightarrow> cohort_members_ok h c"
proof
  assume ok: "validate_members h c = Inr u"
  have sorted: "sorted_wrt (<) (physical_sample_ids c)" "sorted_wrt (<) (origin_sample_ids c)"
      "physical_sample_ids c \<noteq> []"
    using ok by (simp_all add: validate_members_def and_then_ok validate_sorted_unique_ok)
  have exact: "physical_sample_ids c = relation_samples (pc_relations c)"
      "origin_sample_ids c = relation_origins (pc_relations c)"
    using ok sorted by (simp_all add: validate_members_def and_then_ok bs_collect_exact)
  have "pc_relations c \<noteq> []" using exact(1) sorted(3) by simp
  then show "cohort_members_ok h c"
    using ok exact
    by (auto simp: validate_members_def and_then_ok cohort_members_ok_def ok_iff list_ex_iff
      option.pred_set)
next
  assume ok: "cohort_members_ok h c"
  have exact: "physical_sample_ids c = relation_samples (pc_relations c)"
      "origin_sample_ids c = relation_origins (pc_relations c)" "pc_relations c \<noteq> []"
    using ok by (simp_all add: cohort_members_ok_def)
  then show "validate_members h c = Inr u"
    using ok
    by (auto simp: validate_members_def and_then_ok cohort_members_ok_def ok_iff list_ex_iff
      option.pred_set bs_collect_sorted)
qed

lemma cohort_fingerprint_of_ok:
  "cohort_fingerprint_of h c = Inr fp \<longleftrightarrow> cohort_members_ok h c \<and>
     stable_json_fingerprint (cohort_bytes h) (sha256_of h) (cohort_content.truncate c) = Inr fp"
  by (auto simp: cohort_fingerprint_of_def and_then_ok validate_members_ok)

lemma cohort_validate_ok:
  "cohort_validate h c = Inr u \<longleftrightarrow> cohort_members_ok h c \<and> is_hex_fingerprint (cohort_fingerprint c) \<and>
     stable_json_fingerprint (cohort_bytes h) (sha256_of h) (cohort_content.truncate c)
       = Inr (cohort_fingerprint c)"
  by (auto simp: cohort_validate_def and_then_ok validate_members_ok cohort_fingerprint_of_ok
    validate_fingerprint_ok)

lemma validate_against_cv_relations_ok:
  "validate_against_cv_relations h c cv = Inr u \<longleftrightarrow>
     cohort_validate h c = Inr () \<and> relations_validate cv = Inr () \<and>
     (pc_role c = ExternalTest \<longrightarrow> set (cohort_identities c) \<inter> identity_closure cv = {})"
  by (cases "pc_role c")
    (auto simp: validate_against_cv_relations_def and_then_ok try_each_ok)

lemma cohort_identities_set:
  "cohort_members_ok h c \<Longrightarrow>
     set (cohort_identities c) = sr_sample_id ` set (pc_relations c) \<union> effective_origin ` set (pc_relations c)"
  by (simp add: cohort_identities_def cohort_members_ok_def)

lemma effective_origin_closure:
  "sr_sample_id ` set rs \<union> effective_origin ` set rs = identity_closure rs"
proof -
  have "insert (sr_sample_id r) (set_option (origin_sample_id r)) = {sr_sample_id r, effective_origin r}" for r
    by (cases "origin_sample_id r") (auto simp: effective_origin_def unwrap_or_def)
  then show ?thesis unfolding identity_closure_def by auto
qed

lemma cohort_identities_closure:
  "cohort_members_ok h c \<Longrightarrow> set (cohort_identities c) = identity_closure (pc_relations c)"
  by (simp add: cohort_identities_set effective_origin_closure)

end
