(* ===== verification/DataBinding.thy ===== *)
theory DataBinding
  imports Cohort
begin

text \<open>
  \<open>data.rs\<close>, fourth part, and the requests of \<open>runtime/dataview.rs\<close>: the binding of a node input
  to an external data requirement and its agreement with an envelope, the provider view, its output
  provenance, and the receipt of an attested view. Serde's decoder of the provenance is the
  parameter \<open>decode\<close>.
\<close>

section \<open>Data bindings\<close>

record data_binding =
  db_node_id :: node_id
  db_input_name :: string
  db_request_id :: string
  db_schema_fingerprint :: string
  db_plan_fingerprint :: string
  db_relation_fingerprint :: "string option"
  db_output_representation :: string
  db_feature_set_id :: "string option"
  db_source_ids :: "string list"
  require_relations :: bool
  view_policy :: data_view_policy
  db_metadata :: json_map

definition binding_norm :: "data_binding \<Rightarrow> data_binding" where
  "binding_norm b = b\<lparr>db_metadata := json_map_norm (db_metadata b)\<rparr>"

definition data_binding_requirement_key :: "node_id \<Rightarrow> string \<Rightarrow> string" where
  "data_binding_requirement_key node input_name = as_str node @ ''.'' @ input_name"

definition source_index_step ::
  "string \<Rightarrow> 64 word set \<Rightarrow> string \<times> json_value \<Rightarrow> 64 word set result" where
  "source_index_step label seen = (\<lambda>(source, v).
     if is_blank source then data_err (BindingMsg (SourceIndexEmptySource label))
     else case json_as_u64 v of
         None \<Rightarrow> data_err (BindingMsg (SourceIndexNotInteger label source))
       | Some index \<Rightarrow>
           if index \<in> seen then data_err (BindingMsg (SourceIndexDuplicate label (unat index)))
           else Inr (insert index seen))"

definition validate_source_index_metadata ::
  "string \<Rightarrow> json_value option \<Rightarrow> string list \<Rightarrow> unit result" where
  "validate_source_index_metadata label value expected_sources = (case value of
      None \<Rightarrow> Inr ()
    | Some v \<Rightarrow> (case json_as_object v of
        None \<Rightarrow> data_err (BindingMsg (SourceIndexNotObject label))
      | Some source_index \<Rightarrow>
          if source_index = [] then data_err (BindingMsg (SourceIndexEmpty label))
          else and_then (try_fold (source_index_step label) {} source_index) (\<lambda>_.
            refuse (expected_sources \<noteq> [] \<and> fst ` set source_index \<noteq> set expected_sources)
              (BindingMsg (SourceIndexKeys label)))))"

definition axis_check :: "string list \<Rightarrow> string \<times> json_value \<Rightarrow> unit result" where
  "axis_check source_ids = (\<lambda>(source, v). 
     if source \<notin> set source_ids then data_err (BindingMsg (FeatureAxesUnknownSource source))
     else case json_as_array v of
         None \<Rightarrow> data_err (BindingMsg (FeatureAxesNoCoordinates source))
       | Some coordinates \<Rightarrow>
           if coordinates = [] then data_err (BindingMsg (FeatureAxesNoCoordinates source))
           else refuse (list_ex (\<lambda>c. case json_as_str c of None \<Rightarrow> True | Some s \<Rightarrow> is_blank s) coordinates)
             (BindingMsg (FeatureAxesNotStrings source)))"

definition feature_axes_check :: "string list \<Rightarrow> json_value \<Rightarrow> unit result" where
  "feature_axes_check source_ids value = (case json_as_object value of
      None \<Rightarrow> data_err (BindingMsg FeatureAxesNotObject)
    | Some axes \<Rightarrow> if axes = [] then data_err (BindingMsg FeatureAxesEmpty)
        else try_each (axis_check source_ids) axes)"

definition source_index_metadata_key :: string where
  "source_index_metadata_key = ''source_index''"

definition feature_axes_metadata_key :: string where
  "feature_axes_metadata_key = ''feature_axes''"

definition data_binding_validate :: "data_binding \<Rightarrow> unit result" where
  "data_binding_validate b =
     (let node = as_str (db_node_id b); input = db_input_name b;
          label = ''data binding `'' @ input @ ''` on `'' @ node @ ''` '' in checks [
     data_view_policy_validate (view_policy b),
     refuse (is_blank input) (BindingMsg (BindingInputNameEmpty node)),
     refuse (is_blank (db_request_id b)) (BindingMsg (BindingFieldEmpty input node ''request_id'')),
     validate_fingerprint ''schema'' (db_schema_fingerprint b),
     validate_fingerprint ''plan'' (db_plan_fingerprint b),
     (case db_relation_fingerprint b of
        Some fp \<Rightarrow> validate_fingerprint ''relation'' fp
      | None \<Rightarrow> refuse (require_relations b) (BindingMsg (BindingNeedsRelationFingerprint input node))),
     refuse (is_blank (db_output_representation b))
       (BindingMsg (BindingFieldEmpty input node ''output_representation'')),
     refuse (option_ex is_blank (db_feature_set_id b)) (BindingMsg (BindingFieldEmpty input node ''feature_set_id'')),
     try_each (\<lambda>source. refuse (is_blank source) (BindingMsg (BindingFieldEmpty input node ''source id'')))
       (db_source_ids b),
     validate_unique_strings (label @ ''source_ids'') (db_source_ids b),
     validate_source_index_metadata (label @ ''metadata.source_index'')
       (bm_get (db_metadata b) source_index_metadata_key) (db_source_ids b),
     check_option (feature_axes_check (db_source_ids b)) (bm_get (db_metadata b) feature_axes_metadata_key)])"

definition binding_feature_set_id :: "data_binding \<Rightarrow> string" where
  "binding_feature_set_id b = unwrap_or (db_feature_set_id b) (db_input_name b)"

definition validate_envelope :: "hashing \<Rightarrow> data_binding \<Rightarrow> envelope \<Rightarrow> unit result" where
  "validate_envelope h b e =
     (let node = as_str (db_node_id b); input = db_input_name b in checks [
     data_binding_validate b,
     envelope_validate h e,
     refuse (db_schema_fingerprint b \<noteq> en_schema_fingerprint e)
       (BindingMsg (EnvelopeFingerprintMismatch input node ''schema'')),
     refuse (db_plan_fingerprint b \<noteq> en_plan_fingerprint e)
       (BindingMsg (EnvelopeFingerprintMismatch input node ''plan'')),
     refuse (db_relation_fingerprint b \<noteq> en_relation_fingerprint e)
       (BindingMsg (EnvelopeFingerprintMismatch input node ''relation'')),
     refuse (require_relations b \<and> coordinator_relations e = None) (BindingMsg (BindingNeedsRelations input node))])"

section \<open>Output provenance\<close>

abbreviation provider_error :: "provider_msg \<Rightarrow> dag_ml_error failure" where
  "provider_error m \<equiv> Err (RuntimeValidation (ProviderMsg m))"

abbreviation provider_err :: "provider_msg \<Rightarrow> 'a result" where
  "provider_err m \<equiv> Inl (provider_error m)"

record data_output_provenance =
  op_schema_version :: nat
  producer_node :: node_id
  producer_port :: string
  producer_phase :: phase
  op_variant_id :: "variant_id option"
  op_fold_id :: "fold_id option"
  shape_plan_fingerprint :: "string option"
  aggregation_policy_fingerprint :: "string option"
  op_feature_namespace :: "string option"
  op_feature_schema_fingerprint :: "string option"
  op_representation_plan :: "representation_plan option"
  representation_replay_manifest :: "replay_manifest option"
  representation_compatibility :: "compatibility_report option"
  relation_delta_fingerprint :: "string option"
  shape_deltas :: "shape_delta list"

definition data_output_provenance_schema_version :: nat where
  "data_output_provenance_schema_version = 1"

definition validate_optional_fingerprint :: "string \<Rightarrow> string option \<Rightarrow> node_id \<Rightarrow> unit result" where
  "validate_optional_fingerprint label fp node =
     check_option (\<lambda>s. reject_if (\<not> is_hex_fingerprint s)
       (provider_error (ProvenanceMsg (as_str node) (ProvenanceFingerprint label)))) fp"

definition shape_delta_check :: "node_id \<Rightarrow> shape_delta \<Rightarrow> unit result" where
  "shape_delta_check node d = checks [
     shape_delta_validate d,
     reject_if (sd_node_id d \<noteq> node)
       (provider_error (ProvenanceMsg (as_str node) (ProvenanceForeignDelta (as_str (sd_node_id d)))))]"

definition last_feature_delta :: "shape_delta list \<Rightarrow> shape_delta option" where
  "last_feature_delta ds = find (\<lambda>d. sd_kind d = FeatureDelta) (rev ds)"

definition output_provenance_validate :: "data_output_provenance \<Rightarrow> unit result" where
  "output_provenance_validate p =
     (let node = producer_node p; problem = (\<lambda>m. ProviderMsg (ProvenanceMsg (as_str node) m));
          wrap = (\<lambda>m. map_error (\<lambda>_. RuntimeValidation (problem m))) in checks [
     reject_if (op_schema_version p \<noteq> data_output_provenance_schema_version)
       (Err (RuntimeValidation (problem (ProvenanceSchemaVersion (op_schema_version p))))),
     reject_if (is_blank (producer_port p)) (Err (RuntimeValidation (problem ProvenancePortEmpty))),
     validate_optional_fingerprint ''shape_plan_fingerprint'' (shape_plan_fingerprint p) node,
     validate_optional_fingerprint ''aggregation_policy_fingerprint'' (aggregation_policy_fingerprint p) node,
     validate_optional_fingerprint ''feature_schema_fingerprint'' (op_feature_schema_fingerprint p) node,
     validate_optional_fingerprint ''relation_delta_fingerprint'' (relation_delta_fingerprint p) node,
     check_option (\<lambda>r. wrap ProvenanceRepresentationPlan (representation_plan_validate r))
       (op_representation_plan p),
     check_option (\<lambda>r. wrap ProvenanceReplayManifest (replay_manifest_validate r))
       (representation_replay_manifest p),
     check_option (\<lambda>r. wrap ProvenanceCompatibility (compatibility_report_validate r))
       (representation_compatibility p),
     reject_if (option_ex is_blank (op_feature_namespace p))
       (Err (RuntimeValidation (problem ProvenanceNamespaceEmpty))),
     try_each (shape_delta_check node) (shape_deltas p),
     (case (op_feature_schema_fingerprint p, last_feature_delta (shape_deltas p)) of
        (Some fp, Some d) \<Rightarrow> reject_if (after_fingerprint d \<noteq> fp)
          (Err (RuntimeValidation (problem ProvenanceSchemaDiffers)))
      | _ \<Rightarrow> Inr ())])"

section \<open>Provider views\<close>

record provider_view_spec =
  vs_sample_ids :: "sample_id list option"
  vs_partition :: request_partition
  vs_fold_id :: "fold_id option"
  vs_source_ids :: "string list option"
  vs_columns :: "string list option"
  include_augmented :: bool
  vs_include_excluded :: bool
  vs_branch_view :: "branch_view_plan option"
  vs_extra :: json_map

definition data_output_provenance_key :: string where
  "data_output_provenance_key = ''dag_ml_output''"

definition validate_optional_ids :: "string \<Rightarrow> 'k ident list option \<Rightarrow> unit result" where
  "validate_optional_ids label entries = check_option (\<lambda>ids. checks [
     reject_if (ids = []) (provider_error (ViewListEmpty label)),
     check_unique (\<lambda>x. x) (\<lambda>x. provider_error (ViewDuplicate label (as_str x))) ids]) entries"

definition validate_optional_strings :: "string \<Rightarrow> string list option \<Rightarrow> unit result" where
  "validate_optional_strings label entries = check_option (\<lambda>xs. checks [
     reject_if (xs = []) (provider_error (ViewListEmpty label)),
     check_each_unique (\<lambda>x. reject_if (is_blank x) (provider_error (ViewEntryEmpty label))) (\<lambda>x. x)
       (\<lambda>x. provider_error (ViewDuplicate label x)) xs]) entries"

definition output_provenance ::
  "(json_value \<Rightarrow> data_output_provenance result) \<Rightarrow> provider_view_spec
   \<Rightarrow> data_output_provenance option result" where
  "output_provenance decode v = (case bm_get (vs_extra v) data_output_provenance_key of
      None \<Rightarrow> Inr None
    | Some value \<Rightarrow> and_then (decode value) (\<lambda>p.
        and_then (output_provenance_validate p) (\<lambda>_. Inr (Some p))))"

definition view_partition_check :: "provider_view_spec \<Rightarrow> unit result" where
  "view_partition_check v =
     (if vs_partition v = FoldTrainRows \<or> vs_partition v = FoldValidationRows
      then reject_if (vs_sample_ids v \<noteq> None \<and> vs_fold_id v = None) (provider_error ViewNeedsFold)
      else reject_if (vs_fold_id v \<noteq> None) (provider_error ViewCarriesFold))"

definition view_spec_validate ::
  "(json_value \<Rightarrow> data_output_provenance result) \<Rightarrow> provider_view_spec \<Rightarrow> unit result" where
  "view_spec_validate decode v = checks [
     validate_optional_ids ''sample id'' (vs_sample_ids v),
     validate_optional_strings ''source id'' (vs_source_ids v),
     validate_optional_strings ''column'' (vs_columns v),
     view_partition_check v,
     try_each (\<lambda>key. reject_if (is_blank key) (provider_error ViewExtraKeyEmpty)) (bm_keys (vs_extra v)),
     check_option branch_view_validate (vs_branch_view v),
     and_then (output_provenance decode v) (\<lambda>_. Inr ())]"

section \<open>Handles, requests and receipts\<close>

datatype (plugins only: code size) handle_kind =
    DataHandle | DataViewHandle | ModelHandle | ArtifactHandle | PredictionHandle | RelationHandle

record handle_ref =
  handle :: "64 word"
  handle_kind :: handle_kind
  owner_controller :: controller_id

datatype (plugins only: code size) run_k = RunK

type_synonym run_id = "run_k ident"

record materialization_request =
  mr_run_id :: run_id
  mr_node_id :: node_id
  mr_input_name :: string
  mr_phase :: phase
  mr_variant_id :: "variant_id option"
  mr_fold_id :: "fold_id option"
  mr_binding :: data_binding
  mr_predict_cohort :: "predict_cohort option"

record view_request =
  vr_run_id :: run_id
  vr_node_id :: node_id
  vr_input_name :: string
  vr_phase :: phase
  vr_variant_id :: "variant_id option"
  vr_fold_id :: "fold_id option"
  vr_binding :: data_binding
  vr_data_handle :: handle_ref
  vr_view :: provider_view_spec
  vr_view_key :: string
  vr_view_seed :: "64 word option"
  vr_predict_cohort :: "predict_cohort option"

record view_receipt =
  vrc_handle :: handle_ref
  vrc_view_key :: string
  vrc_sample_ids :: "sample_id list"
  vrc_schema_fingerprint :: string
  vrc_content_fingerprint :: string

definition receipt_validate_for :: "view_receipt \<Rightarrow> view_request \<Rightarrow> handle_ref \<Rightarrow> unit result" where
  "receipt_validate_for r request h = checks [
     reject_if (vrc_sample_ids r = []) (provider_error ReceiptNoSamples),
     reject_if (vrc_handle r \<noteq> h \<or> vrc_view_key r \<noteq> vr_view_key request) (provider_error ReceiptHandleMismatch),
     reject_if (vs_sample_ids (vr_view request) \<noteq> Some (vrc_sample_ids r)) (provider_error ReceiptSampleIds),
     try_each (\<lambda>(label, fp). reject_if (\<not> is_hex_fingerprint fp) (provider_error (ReceiptFingerprint label)))
       [(''schema'', vrc_schema_fingerprint r), (''content'', vrc_content_fingerprint r)]]"

record attested_view =
  av_handle :: handle_ref
  av_receipt :: "view_receipt option"

section \<open>Lemmas\<close>

lemma source_index_fold:
  "try_fold (source_index_step label) seen kvs = Inr seen' \<longleftrightarrow>
     (\<forall>kv \<in> set kvs. \<not> is_blank (fst kv) \<and> json_as_u64 (snd kv) \<noteq> None) \<and>
     distinct (map (\<lambda>kv. the (json_as_u64 (snd kv))) kvs) \<and>
     (\<lambda>kv. the (json_as_u64 (snd kv))) ` set kvs \<inter> seen = {} \<and>
     seen' = seen \<union> (\<lambda>kv. the (json_as_u64 (snd kv))) ` set kvs"
proof (induction kvs arbitrary: seen)
  case (Cons kv kvs)
  then show ?case
    by (cases kv; cases "json_as_u64 (snd kv)") (auto simp: source_index_step_def and_then_ok split: if_splits)
qed auto

lemma validate_envelope_ok:
  "validate_envelope h b e = Inr u \<longleftrightarrow>
     data_binding_validate b = Inr () \<and> envelope_validate h e = Inr () \<and>
     db_schema_fingerprint b = en_schema_fingerprint e \<and> db_plan_fingerprint b = en_plan_fingerprint e \<and>
     db_relation_fingerprint b = en_relation_fingerprint e \<and>
     (require_relations b \<longrightarrow> coordinator_relations e \<noteq> None)"
  by (auto simp: validate_envelope_def Let_def and_then_ok)

end
