(* ===== verification/DataProvider.thy ===== *)
theory DataProvider
  imports DataBinding "HOL-Library.Product_Lexorder" "HOL-Library.Option_ord"
begin

text \<open>
  \<open>data.rs\<close>, last part: the in-memory data provider, a state machine that hands out data and view
  handles for registered envelopes, and the explicit-phase provider around it. The operations that
  change state return the new state; a failing one returns no state, since the code changes none
  before its last check. The handle counter is a \<open>u64\<close> whose increment panics at its maximum (the
  crate's builds with overflow checks).
\<close>

section \<open>State\<close>

type_synonym envelope_key = "string \<times> string \<times> string option"

definition key_from_binding :: "data_binding \<Rightarrow> envelope_key" where
  "key_from_binding b = (db_schema_fingerprint b, db_plan_fingerprint b, db_relation_fingerprint b)"

definition key_from_envelope :: "envelope \<Rightarrow> envelope_key" where
  "key_from_envelope e = (en_schema_fingerprint e, en_plan_fingerprint e, en_relation_fingerprint e)"

record data_handle_record =
  dh_handle :: handle_ref
  dh_run_id :: run_id
  dh_node_id :: node_id
  dh_input_name :: string
  dh_phase :: phase
  dh_variant_id :: "variant_id option"
  dh_fold_id :: "fold_id option"
  dh_request_id :: string
  dh_schema_fingerprint :: string
  dh_plan_fingerprint :: string
  dh_relation_fingerprint :: "string option"
  dh_output_representation :: string
  dh_feature_set_id :: "string option"
  dh_source_ids :: "string list"
  relation_record_count :: "nat option"

record view_handle_record =
  vh_handle :: handle_ref
  parent_handle :: handle_ref
  vh_run_id :: run_id
  vh_node_id :: node_id
  vh_input_name :: string
  vh_phase :: phase
  vh_variant_id :: "variant_id option"
  vh_fold_id :: "fold_id option"
  vh_request_id :: string
  vh_feature_set_id :: string
  vh_view :: provider_view_spec

record provider =
  pv_owner :: controller_id
  pv_envelopes :: "(envelope_key, envelope) btree_map"
  pv_next_handle :: "64 word"
  pv_records :: "(64 word, data_handle_record) btree_map"
  pv_view_records :: "(64 word, view_handle_record) btree_map"

section \<open>Operations\<close>

definition provider_new :: "controller_id \<Rightarrow> provider" where
  "provider_new owner = \<lparr>pv_owner = owner, pv_envelopes = [], pv_next_handle = 1,
     pv_records = [], pv_view_records = []\<rparr>"

definition register_envelope :: "hashing \<Rightarrow> envelope \<Rightarrow> provider \<Rightarrow> provider result" where
  "register_envelope h e st =
     and_then (envelope_validate h e) (\<lambda>_.
     let key = key_from_envelope e in
     case bm_get (pv_envelopes st) key of
       Some existing \<Rightarrow> if envelope_norm existing = envelope_norm e then Inr st else provider_err EnvelopeConflict
     | None \<Rightarrow> Inr (st\<lparr>pv_envelopes := bm_insert key e (pv_envelopes st)\<rparr>))"

definition with_envelope :: "hashing \<Rightarrow> controller_id \<Rightarrow> envelope \<Rightarrow> provider result" where
  "with_envelope h owner e = register_envelope h e (provider_new owner)"

definition handle_record :: "provider \<Rightarrow> 64 word \<Rightarrow> data_handle_record option" where
  "handle_record st n = bm_get (pv_records st) n"

definition handle_records :: "provider \<Rightarrow> data_handle_record list" where
  "handle_records st = map snd (pv_records st)"

definition view_record :: "provider \<Rightarrow> 64 word \<Rightarrow> view_handle_record option" where
  "view_record st n = bm_get (pv_view_records st) n"

definition view_records :: "provider \<Rightarrow> view_handle_record list" where
  "view_records st = map snd (pv_view_records st)"

definition discard_view_handle :: "handle_ref \<Rightarrow> provider \<Rightarrow> provider result" where
  "discard_view_handle ref st =
     (if option_ex (\<lambda>r. vh_handle r \<noteq> ref) (bm_get (pv_view_records st) (handle ref))
      then provider_err ViewRollbackMismatch
      else Inr (st\<lparr>pv_view_records := bm_retain (\<lambda>k. k \<noteq> handle ref) (pv_view_records st)\<rparr>))"

definition next_handle :: "provider \<Rightarrow> (64 word \<times> provider) result" where
  "next_handle st =
     (let n = pv_next_handle st in
      if n = - 1 then Inl (Panic AddOverflow) else Inr (n, st\<lparr>pv_next_handle := n + 1\<rparr>))"

definition lookup_envelope :: "provider \<Rightarrow> data_binding \<Rightarrow> envelope result" where
  "lookup_envelope st b =
     ok_or (bm_get (pv_envelopes st) (key_from_binding b))
       (provider_error (NoEnvelope (db_input_name b) (as_str (db_node_id b))))"

definition data_record :: "materialization_request \<Rightarrow> envelope \<Rightarrow> handle_ref \<Rightarrow> data_handle_record" where
  "data_record q e ref = (let b = mr_binding q in
     \<lparr>dh_handle = ref, dh_run_id = mr_run_id q, dh_node_id = mr_node_id q,
      dh_input_name = mr_input_name q, dh_phase = mr_phase q, dh_variant_id = mr_variant_id q,
      dh_fold_id = mr_fold_id q, dh_request_id = db_request_id b,
      dh_schema_fingerprint = db_schema_fingerprint b, dh_plan_fingerprint = db_plan_fingerprint b,
      dh_relation_fingerprint = db_relation_fingerprint b,
      dh_output_representation = db_output_representation b,
      dh_feature_set_id = db_feature_set_id b, dh_source_ids = db_source_ids b,
      relation_record_count = map_option length (coordinator_relations e)\<rparr>)"

definition materialize :: "hashing \<Rightarrow> materialization_request \<Rightarrow> provider \<Rightarrow> (handle_ref \<times> provider) result" where
  "materialize h q st =
     (let b = mr_binding q in
      and_then (checks [
        reject_if (mr_node_id q \<noteq> db_node_id b)
          (provider_error (RequestNodeMismatch (as_str (mr_node_id q)) (as_str (db_node_id b)))),
        reject_if (mr_input_name q \<noteq> db_input_name b)
          (provider_error (RequestInputMismatch (mr_input_name q) (db_input_name b)))]) (\<lambda>_.
      and_then (lookup_envelope st b) (\<lambda>e.
      and_then (validate_envelope h b e) (\<lambda>_.
      and_then (next_handle st) (\<lambda>(n, st).
      let ref = \<lparr>handle = n, handle_kind = DataHandle, owner_controller = pv_owner st\<rparr> in
      Inr (ref, st\<lparr>pv_records := bm_insert n (data_record q e ref) (pv_records st)\<rparr>))))))"

definition view_of_request :: "view_request \<Rightarrow> handle_ref \<Rightarrow> view_handle_record" where
  "view_of_request q ref =
     \<lparr>vh_handle = ref, parent_handle = vr_data_handle q, vh_run_id = vr_run_id q,
      vh_node_id = vr_node_id q, vh_input_name = vr_input_name q, vh_phase = vr_phase q,
      vh_variant_id = vr_variant_id q, vh_fold_id = vr_fold_id q,
      vh_request_id = db_request_id (vr_binding q), vh_feature_set_id = binding_feature_set_id (vr_binding q),
      vh_view = vr_view q\<rparr>"

text \<open>The parent's scope: run, node, input, phase and the three fingerprints of the binding.\<close>

definition parent_scope_matches :: "data_handle_record \<Rightarrow> view_request \<Rightarrow> bool" where
  "parent_scope_matches parent q \<longleftrightarrow>
     dh_run_id parent = vr_run_id q \<and> dh_node_id parent = vr_node_id q \<and>
     dh_input_name parent = vr_input_name q \<and> dh_phase parent = vr_phase q \<and>
     dh_schema_fingerprint parent = db_schema_fingerprint (vr_binding q) \<and>
     dh_plan_fingerprint parent = db_plan_fingerprint (vr_binding q) \<and>
     dh_relation_fingerprint parent = db_relation_fingerprint (vr_binding q)"

type_synonym decoder = "json_value \<Rightarrow> data_output_provenance result"

definition make_view :: "decoder \<Rightarrow> view_request \<Rightarrow> provider \<Rightarrow> (handle_ref \<times> provider) result" where
  "make_view decode q st =
     (let b = vr_binding q; input = vr_input_name q; node = as_str (vr_node_id q);
          n = handle (vr_data_handle q) in
      and_then (checks [
        view_spec_validate decode (vr_view q),
        reject_if (vr_node_id q \<noteq> db_node_id b)
          (provider_error (RequestNodeMismatch node (as_str (db_node_id b)))),
        reject_if (input \<noteq> db_input_name b) (provider_error (RequestInputMismatch input (db_input_name b))),
        reject_if (handle_kind (vr_data_handle q) \<noteq> DataHandle) (provider_error (ParentNotData input node))])
        (\<lambda>_.
      and_then (ok_or (bm_get (pv_records st) n) (provider_error (UnknownDataHandle (unat n) input node)))
        (\<lambda>parent.
      and_then (checks [
        reject_if (dh_handle parent \<noteq> vr_data_handle q) (provider_error (ParentMismatch (unat n))),
        reject_if (\<not> parent_scope_matches parent q) (provider_error ParentScopeMismatch),
        data_binding_validate b]) (\<lambda>_.
      and_then (next_handle st) (\<lambda>(m, st).
      let ref = \<lparr>handle = m, handle_kind = DataViewHandle, owner_controller = pv_owner st\<rparr> in
      Inr (ref, st\<lparr>pv_view_records := bm_insert m (view_of_request q ref) (pv_view_records st)\<rparr>))))))"

section \<open>Read-only operations\<close>

definition provider_coordinator_relations ::
  "hashing \<Rightarrow> provider \<Rightarrow> data_binding \<Rightarrow> sample_relation_set option result" where
  "provider_coordinator_relations h st b =
     and_then (lookup_envelope st b) (\<lambda>e.
     and_then (validate_envelope h b e) (\<lambda>_. Inr (coordinator_relations e)))"

definition provider_predict_cohort ::
  "hashing \<Rightarrow> provider \<Rightarrow> data_binding \<Rightarrow> phase \<Rightarrow> predict_cohort option result" where
  "provider_predict_cohort h st b phase =
     (if phase \<noteq> Predict then provider_err CohortOutsidePredict
      else and_then (lookup_envelope st b) (\<lambda>e.
        and_then (validate_envelope h b e) (\<lambda>_. Inr (en_predict_cohort e))))"

definition provider_cv_test_cohort ::
  "hashing \<Rightarrow> provider \<Rightarrow> data_binding \<Rightarrow> predict_cohort option result" where
  "provider_cv_test_cohort h st b =
     and_then (lookup_envelope st b) (\<lambda>e.
     and_then (validate_envelope h b e) (\<lambda>_.
     Inr (case en_predict_cohort e of
         Some c \<Rightarrow> if pc_role c = ExternalTest then Some c else None
       | None \<Rightarrow> None)))"

section \<open>The explicit-phase provider\<close>

record explicit_provider =
  ep_inner :: provider
  ep_envelope :: envelope
  training_sample_ids :: "sample_id list option"

definition training_ids_check :: "envelope \<Rightarrow> sample_id list \<Rightarrow> unit result" where
  "training_ids_check e ids =
     and_then (ok_or (coordinator_relations e) (provider_error RefitNeedsRelations)) (\<lambda>relations.
       reject_if (ids = [] \<or> card (set ids) \<noteq> length ids \<or> bs_collect ids \<noteq> relation_samples relations)
         (provider_error TrainingIdsNotExact))"

definition explicit_provider_new ::
  "hashing \<Rightarrow> controller_id \<Rightarrow> envelope \<Rightarrow> sample_id list option \<Rightarrow> explicit_provider result" where
  "explicit_provider_new h owner e ids =
     and_then (envelope_validate h e) (\<lambda>_.
     and_then (check_option (training_ids_check e) ids) (\<lambda>_.
     and_then (with_envelope h owner e) (\<lambda>inner.
     Inr \<lparr>ep_inner = inner, ep_envelope = e, training_sample_ids = ids\<rparr>)))"

definition refit_sample_ids ::
  "hashing \<Rightarrow> explicit_provider \<Rightarrow> data_binding \<Rightarrow> sample_id list option result" where
  "refit_sample_ids h p b =
     and_then (validate_envelope h b (ep_envelope p)) (\<lambda>_. Inr (training_sample_ids p))"

section \<open>The operations as steps\<close>

datatype (plugins only: code size) provider_op =
    RegisterEnvelope envelope
  | MaterializeData materialization_request
  | MakeView view_request
  | DiscardView handle_ref

definition run_op ::
  "hashing \<Rightarrow> decoder \<Rightarrow> provider_op \<Rightarrow> provider \<Rightarrow> (handle_ref option \<times> provider) result" where
  "run_op h decode op st = (case op of
      RegisterEnvelope e \<Rightarrow> and_then (register_envelope h e st) (\<lambda>st. Inr (None, st))
    | MaterializeData q \<Rightarrow> and_then (materialize h q st) (\<lambda>(ref, st). Inr (Some ref, st))
    | MakeView q \<Rightarrow> and_then (make_view decode q st) (\<lambda>(ref, st). Inr (Some ref, st))
    | DiscardView ref \<Rightarrow> and_then (discard_view_handle ref st) (\<lambda>st. Inr (None, st)))"

text \<open>A step is one operation that succeeds; a run lists the handles in the order they were given.\<close>

inductive provider_step ::
  "hashing \<Rightarrow> decoder \<Rightarrow> provider \<Rightarrow> handle_ref option \<Rightarrow> provider \<Rightarrow> bool" for h decode where
  registers: "register_envelope h e st = Inr st' \<Longrightarrow> provider_step h decode st None st'"
| materializes: "materialize h q st = Inr (ref, st') \<Longrightarrow> provider_step h decode st (Some ref) st'"
| makes_view: "make_view decode q st = Inr (ref, st') \<Longrightarrow> provider_step h decode st (Some ref) st'"
| discards: "discard_view_handle ref st = Inr st' \<Longrightarrow> provider_step h decode st None st'"

inductive provider_run :: "hashing \<Rightarrow> decoder \<Rightarrow> controller_id \<Rightarrow> handle_ref list \<Rightarrow> provider \<Rightarrow> bool"
  for h decode owner where
  run_new: "provider_run h decode owner [] (provider_new owner)"
| run_step: "provider_run h decode owner refs st \<Longrightarrow> provider_step h decode st given st' \<Longrightarrow>
    provider_run h decode owner (refs @ (case given of None \<Rightarrow> [] | Some ref \<Rightarrow> [ref])) st'"

lemma provider_step_run_op:
  "provider_step h decode st given st' \<longleftrightarrow> (\<exists>op. run_op h decode op st = Inr (given, st'))"
proof
  assume "provider_step h decode st given st'"
  then show "\<exists>op. run_op h decode op st = Inr (given, st')"
  proof cases
    case (registers e)
    then show ?thesis by (intro exI[of _ "RegisterEnvelope e"]) (simp add: run_op_def)
  next
    case (materializes q ref)
    then show ?thesis by (intro exI[of _ "MaterializeData q"]) (simp add: run_op_def)
  next
    case (makes_view q ref)
    then show ?thesis by (intro exI[of _ "MakeView q"]) (simp add: run_op_def)
  next
    case (discards ref)
    then show ?thesis by (intro exI[of _ "DiscardView ref"]) (simp add: run_op_def)
  qed
next
  assume "\<exists>op. run_op h decode op st = Inr (given, st')"
  then obtain op where "run_op h decode op st = Inr (given, st')" by blast
  then show "provider_step h decode st given st'"
    by (cases op) (auto simp: run_op_def and_then_ok intro: provider_step.intros)
qed

section \<open>When the operations succeed\<close>

lemma next_handle_ok:
  "next_handle st = Inr r \<longleftrightarrow>
     pv_next_handle st \<noteq> - 1 \<and> r = (pv_next_handle st, st\<lparr>pv_next_handle := pv_next_handle st + 1\<rparr>)"
  by (auto simp: next_handle_def Let_def)

definition materialize_ready :: "hashing \<Rightarrow> materialization_request \<Rightarrow> provider \<Rightarrow> envelope \<Rightarrow> bool" where
  "materialize_ready h q st e \<longleftrightarrow>
     mr_node_id q = db_node_id (mr_binding q) \<and> mr_input_name q = db_input_name (mr_binding q) \<and>
     bm_get (pv_envelopes st) (key_from_binding (mr_binding q)) = Some e \<and>
     validate_envelope h (mr_binding q) e = Inr ()"

definition data_ref :: "provider \<Rightarrow> handle_ref" where
  "data_ref st = \<lparr>handle = pv_next_handle st, handle_kind = DataHandle, owner_controller = pv_owner st\<rparr>"

definition view_ref :: "provider \<Rightarrow> handle_ref" where
  "view_ref st = \<lparr>handle = pv_next_handle st, handle_kind = DataViewHandle, owner_controller = pv_owner st\<rparr>"

lemma materialize_ok:
  "materialize h q st = Inr (ref, st') \<longleftrightarrow> (\<exists>e. materialize_ready h q st e \<and>
     pv_next_handle st \<noteq> - 1 \<and> ref = data_ref st \<and>
     st' = st\<lparr>pv_next_handle := pv_next_handle st + 1,
       pv_records := bm_insert (pv_next_handle st) (data_record q e ref) (pv_records st)\<rparr>)"
  by (auto simp: materialize_def materialize_ready_def Let_def and_then_ok lookup_envelope_def
    next_handle_ok data_ref_def)

definition view_ready :: "decoder \<Rightarrow> view_request \<Rightarrow> provider \<Rightarrow> data_handle_record \<Rightarrow> bool" where
  "view_ready decode q st parent \<longleftrightarrow>
     view_spec_validate decode (vr_view q) = Inr () \<and>
     vr_node_id q = db_node_id (vr_binding q) \<and> vr_input_name q = db_input_name (vr_binding q) \<and>
     handle_kind (vr_data_handle q) = DataHandle \<and>
     bm_get (pv_records st) (handle (vr_data_handle q)) = Some parent \<and>
     dh_handle parent = vr_data_handle q \<and> parent_scope_matches parent q \<and>
     data_binding_validate (vr_binding q) = Inr ()"

lemma make_view_ok:
  "make_view decode q st = Inr (ref, st') \<longleftrightarrow> (\<exists>parent. view_ready decode q st parent \<and>
     pv_next_handle st \<noteq> - 1 \<and> ref = view_ref st \<and>
     st' = st\<lparr>pv_next_handle := pv_next_handle st + 1,
       pv_view_records := bm_insert (pv_next_handle st) (view_of_request q ref) (pv_view_records st)\<rparr>)"
  by (auto simp: make_view_def view_ready_def Let_def and_then_ok next_handle_ok view_ref_def)

lemma register_envelope_ok:
  "register_envelope h e st = Inr st' \<longleftrightarrow> envelope_validate h e = Inr () \<and>
     (case bm_get (pv_envelopes st) (key_from_envelope e) of
        Some existing \<Rightarrow> envelope_norm existing = envelope_norm e \<and> st' = st
      | None \<Rightarrow> st' = st\<lparr>pv_envelopes := bm_insert (key_from_envelope e) e (pv_envelopes st)\<rparr>)"
  by (auto simp: register_envelope_def and_then_ok Let_def split: option.splits)

lemma discard_view_ok:
  "discard_view_handle ref st = Inr st' \<longleftrightarrow>
     (\<forall>r. bm_get (pv_view_records st) (handle ref) = Some r \<longrightarrow> vh_handle r = ref) \<and>
     st' = st\<lparr>pv_view_records := bm_retain (\<lambda>k. k \<noteq> handle ref) (pv_view_records st)\<rparr>"
  by (cases "bm_get (pv_view_records st) (handle ref)")
    (auto simp: discard_view_handle_def option_ex_def)

end
