(* ===== verification/DataViews.thy ===== *)
theory DataViews
  imports DataProvider
begin

text \<open>
  Which rows a task may read: \<open>runtime/merge.rs\<close> (the partition of a scope, the sample ids of a
  partition, the view a binding requests) and the view derivations of \<open>runtime/dataview.rs\<close>. The
  debug assertion on the refit universe is modelled as a panic. The bytes of the view identity,
  SHA-256 and serde's decoders are parameters.
\<close>

section \<open>Scopes\<close>

record phase_scope =
  sc_phase :: phase
  sc_variant_id :: "variant_id option"
  sc_fold_id :: "fold_id option"
  sc_seed_root :: "64 word option"

datatype (plugins only: code size) data_view_role = FitRole | NonFitRole

abbreviation view_error :: "view_msg \<Rightarrow> dag_ml_error failure" where
  "view_error m \<equiv> Err (RuntimeValidation (ViewMsg m))"

abbreviation view_err :: "view_msg \<Rightarrow> 'a result" where
  "view_err m \<equiv> Inl (view_error m)"

definition data_partition_for_scope :: "data_binding \<Rightarrow> phase_scope \<Rightarrow> request_partition" where
  "data_partition_for_scope b sc = (case sc_phase sc of
      FitCv \<Rightarrow> vp_fit_partition (view_policy b)
    | Refit \<Rightarrow> if vp_fit_partition (view_policy b) = AllObservationRows then AllObservationRows
        else FullTrainRows
    | Predict \<Rightarrow> if sc_fold_id sc = None then PredictRows else vp_predict_partition (view_policy b)
    | Explain \<Rightarrow> if sc_fold_id sc = None then PredictRows else vp_predict_partition (view_policy b)
    | _ \<Rightarrow> FullTrainRows)"

definition fold_for_scope ::
  "fold_set option \<Rightarrow> fold_id option \<Rightarrow> fold_assignment option result" where
  "fold_for_scope fs fold_name = (case fold_name of
      None \<Rightarrow> Inr None
    | Some f \<Rightarrow>
        and_then (ok_or fs (view_error (FoldWithoutFoldSet (as_str f)))) (\<lambda>fs.
        case find (\<lambda>a. fold_id a = f) (folds fs) of
          Some a \<Rightarrow> Inr (Some a)
        | None \<Rightarrow> view_err (FoldNotPresent (as_str f) (fs_id fs))))"

definition nested_fold_set_for_scope ::
  "digest \<Rightarrow> nested_cv_spec option \<Rightarrow> fold_set option \<Rightarrow> nested_cv_spec option \<Rightarrow> phase_scope
   \<Rightarrow> nested_fold_set option result" where
  "nested_fold_set_for_scope h campaign_inner outer_fold_set node_inner sc =
     (if sc_phase sc \<noteq> FitCv then Inr None
      else case resolve_inner_cv node_inner campaign_inner of
        None \<Rightarrow> Inr None
      | Some spec \<Rightarrow> and_then (fold_for_scope outer_fold_set (sc_fold_id sc)) (\<lambda>outer.
          case outer of
            None \<Rightarrow> Inr None
          | Some a \<Rightarrow> (case outer_fold_set of
                None \<Rightarrow> expect_failed ''fold_for_scope returned a fold, so the outer fold set is present''
              | Some fs \<Rightarrow> and_then (fold_set_nested_fold_set h fs spec a) (\<lambda>nested. Inr (Some nested)))))"

definition inner_fold_set_for_scope ::
  "digest \<Rightarrow> nested_cv_spec option \<Rightarrow> fold_set option \<Rightarrow> nested_cv_spec option \<Rightarrow> phase_scope
   \<Rightarrow> fold_set option result" where
  "inner_fold_set_for_scope h campaign_inner outer_fold_set node_inner sc =
     and_then (nested_fold_set_for_scope h campaign_inner outer_fold_set node_inner sc)
       (\<lambda>nested. Inr (map_option inner_fold_set nested))"

text \<open>Every sample of the universe is in some fold's train or validation list.\<close>

definition fold_accounted :: "fold_set \<Rightarrow> bool" where
  "fold_accounted fs \<longleftrightarrow>
     (let in_a_fold = concat (map (\<lambda>f. train_sample_ids f @ validation_sample_ids f) (folds fs))
      in list_all (\<lambda>s. s \<in> set in_a_fold) (sample_ids fs))"

definition sample_ids_for_partition ::
  "request_partition \<Rightarrow> fold_set option \<Rightarrow> fold_assignment option \<Rightarrow> sample_id list option result" where
  "sample_ids_for_partition p fs f = (case p of
      FoldTrainRows \<Rightarrow> Inr (map_option train_sample_ids f)
    | FoldValidationRows \<Rightarrow> Inr (map_option validation_sample_ids f)
    | FullTrainRows \<Rightarrow> (case fs of
          None \<Rightarrow> Inr None
        | Some fs \<Rightarrow> if partition_mode fs = Resampled \<or> fold_accounted fs then Inr (Some (sample_ids fs))
            else Inl (Panic (AssertFailed ''REFIT FullTrain universe must be fully fold-accounted'')))
    | AllObservationRows \<Rightarrow> Inr None
    | PredictRows \<Rightarrow> Inr None)"

section \<open>The view of a partition\<close>

definition source_ids_for_view ::
  "data_binding \<Rightarrow> branch_view_plan option \<Rightarrow> string list option result" where
  "source_ids_for_view b branch =
     (let bound = (if db_source_ids b = [] then None else Some (db_source_ids b)) in
      case branch of
        None \<Rightarrow> Inr bound
      | Some bv \<Rightarrow>
          if bv_mode bv \<noteq> BySource then Inr bound
          else case sel_source_ids (bv_selector bv) of
              [source] \<Rightarrow>
                if db_source_ids b \<noteq> [] \<and> source \<notin> set (db_source_ids b)
                then view_err (BySourceOutsideBinding (bv_view_id bv) source)
                else Inr (Some [source])
            | _ \<Rightarrow> view_err (BySourceCount (bv_view_id bv)))"

definition fold_local_train ::
  "data_view_role \<Rightarrow> phase_scope \<Rightarrow> request_partition \<Rightarrow> fold_assignment option \<Rightarrow> fold_set option \<Rightarrow> bool" where
  "fold_local_train role sc p f fs \<longleftrightarrow>
     role = FitRole \<and> sc_phase sc = FitCv \<and> p = FoldTrainRows \<and> f \<noteq> None \<and>
     option_ex (\<lambda>fs. train_exclusion fs = FoldLocal) fs"

text \<open>The relation-level exclusions of a fit read.\<close>

definition retain_fit_rows ::
  "data_view_role \<Rightarrow> bool \<Rightarrow> data_binding \<Rightarrow> sample_id btree_set \<Rightarrow> sample_id list option
   \<Rightarrow> sample_id list option" where
  "retain_fit_rows role is_local b dropped ids =
     (if role = FitRole \<and> \<not> is_local \<and> \<not> include_excluded (view_policy b) \<and> dropped \<noteq> []
      then map_option (filter (\<lambda>s. s \<notin> set dropped)) ids else ids)"

definition bounded_partition :: "request_partition \<Rightarrow> bool" where
  "bounded_partition p \<longleftrightarrow> p = FoldTrainRows \<or> p = FoldValidationRows \<or> p = FullTrainRows"

definition fold_partition_rows :: "request_partition \<Rightarrow> bool" where
  "fold_partition_rows p \<longleftrightarrow> p = FoldTrainRows \<or> p = FoldValidationRows"

definition view_bounds_check ::
  "data_binding \<Rightarrow> fold_set option \<Rightarrow> phase_scope \<Rightarrow> request_partition \<Rightarrow> sample_id list option \<Rightarrow> unit result" where
  "view_bounds_check b fs sc p ids =
     (let input = db_input_name b; node = as_str (db_node_id b) in checks [
        reject_if (ids = None \<and> bounded_partition p \<and>
            option_ex (\<lambda>fs. target_missing_sample_ids fs \<noteq> []) fs)
          (view_error (UnboundedView input node)),
        reject_if (require_sample_ids (view_policy b) \<and> fold_partition_rows p \<and> sc_fold_id sc \<noteq> None \<and>
            (ids = None \<or> ids = Some []))
          (view_error (ViewNeedsSampleIds input node))])"

definition view_includes_augmented :: "data_binding \<Rightarrow> request_partition \<Rightarrow> bool" where
  "view_includes_augmented b p = (case p of
      FoldTrainRows \<Rightarrow> include_augmented_train (view_policy b)
    | FullTrainRows \<Rightarrow> include_augmented_train (view_policy b)
    | FoldValidationRows \<Rightarrow> include_augmented_validation (view_policy b)
    | PredictRows \<Rightarrow> include_augmented_validation (view_policy b)
    | AllObservationRows \<Rightarrow> include_augmented_train (view_policy b))"

text \<open>The entries of \<open>extra\<close>, inserted in the order of the code.\<close>

definition cv_train_extra :: "data_binding \<Rightarrow> phase_scope \<Rightarrow> json_map \<Rightarrow> json_map result" where
  "cv_train_extra b sc extra =
     (let policy = view_policy b;
          extra = bm_insert ''include_augmented_cv_train_predictions''
            (JBool (include_augmented_cv_train_predictions policy)) extra in
      if \<not> include_augmented_cv_train_predictions policy then Inr extra
      else and_then (ok_or (sc_fold_id sc) (view_error CvPredictionsNeedFold)) (\<lambda>f.
        and_then (ok_or (bm_get (augmented_cv_ids_by_fold policy) f) (view_error (CvPredictionsNoIds (as_str f))))
          (\<lambda>ids. Inr (bm_insert ''augmented_cv_train_prediction_ids''
            (JArray (map (\<lambda>s. JString (as_str s)) ids)) extra))))"

definition copy_metadata :: "data_binding \<Rightarrow> string \<Rightarrow> json_map \<Rightarrow> json_map" where
  "copy_metadata b key extra =
     (case bm_get (db_metadata b) key of Some v \<Rightarrow> bm_insert key v extra | None \<Rightarrow> extra)"

definition view_extra :: "data_binding \<Rightarrow> phase_scope \<Rightarrow> data_view_role \<Rightarrow> json_map result" where
  "view_extra b sc role =
     (let extra = bm_insert ''feature_set_id'' (JString (binding_feature_set_id b)) [];
          extra = (if role = FitRole \<and> sc_phase sc = Refit
            then bm_insert ''include_augmented_refit_predictions''
              (JBool (include_augmented_refit_predictions (view_policy b))) extra else extra) in
      and_then (if role = FitRole \<and> sc_phase sc = FitCv then cv_train_extra b sc extra else Inr extra) (\<lambda>extra.
      let extra = copy_metadata b feature_axes_metadata_key (copy_metadata b source_index_metadata_key extra) in
      Inr (if vp_unsafe_flags (view_policy b) = [] then extra
        else bm_insert ''unsafe_flags'' (JArray (map JString (vp_unsafe_flags (view_policy b)))) extra)))"

definition data_view_for_partition ::
  "decoder \<Rightarrow> data_binding \<Rightarrow> fold_set option \<Rightarrow> phase_scope \<Rightarrow> request_partition
   \<Rightarrow> branch_view_plan option \<Rightarrow> data_view_role \<Rightarrow> sample_id btree_set \<Rightarrow> provider_view_spec result" where
  "data_view_for_partition decode b fs sc p branch role dropped =
     and_then (fold_for_scope fs (sc_fold_id sc)) (\<lambda>f.
     and_then (sample_ids_for_partition p fs f) (\<lambda>all_ids.
     let is_local = fold_local_train role sc p f fs;
         ids = retain_fit_rows role is_local b dropped all_ids in
     and_then (view_bounds_check b fs sc p ids) (\<lambda>_.
     and_then (view_extra b sc role) (\<lambda>extra.
     and_then (source_ids_for_view b branch) (\<lambda>sources.
     let view = \<lparr>vs_sample_ids = ids, vs_partition = p,
         vs_fold_id = (if fold_partition_rows p then sc_fold_id sc else None),
         vs_source_ids = sources, vs_columns = None,
         include_augmented = view_includes_augmented b p,
         vs_include_excluded = (case role of
           FitRole \<Rightarrow> is_local \<or> include_excluded (view_policy b) | NonFitRole \<Rightarrow> True),
         vs_branch_view = branch, vs_extra = extra\<rparr> in
     and_then (view_spec_validate decode view) (\<lambda>_. Inr view))))))"

definition data_view_for_scope ::
  "decoder \<Rightarrow> data_binding \<Rightarrow> fold_set option \<Rightarrow> phase_scope \<Rightarrow> branch_view_plan option
   \<Rightarrow> sample_id btree_set \<Rightarrow> provider_view_spec result" where
  "data_view_for_scope decode b fs sc branch dropped =
     data_view_for_partition decode b fs sc (data_partition_for_scope b sc) branch
       (if is_training (sc_phase sc) then FitRole else NonFitRole) dropped"

definition validation_data_view_for_scope ::
  "decoder \<Rightarrow> data_binding \<Rightarrow> fold_set option \<Rightarrow> phase_scope \<Rightarrow> branch_view_plan option
   \<Rightarrow> sample_id btree_set \<Rightarrow> provider_view_spec option result" where
  "validation_data_view_for_scope decode b fs sc branch dropped =
     (let p = vp_predict_partition (view_policy b) in
      if sc_phase sc \<noteq> FitCv \<or> sc_fold_id sc = None then Inr None
      else if p = data_partition_for_scope b sc then Inr None
      else and_then (data_view_for_partition decode b fs sc p branch NonFitRole dropped) (\<lambda>v. Inr (Some v)))"

section \<open>Cohort views and augmented predictions\<close>

definition bind_predict_cohort_to_view ::
  "decoder \<Rightarrow> hashing \<Rightarrow> provider_view_spec \<Rightarrow> predict_cohort \<Rightarrow> provider_view_spec result" where
  "bind_predict_cohort_to_view decode h v c =
     and_then (cohort_validate h c) (\<lambda>_.
     if vs_partition v \<noteq> PredictRows \<or> vs_fold_id v \<noteq> None then view_err CohortViewPartition
     else let v = v\<lparr>vs_sample_ids := Some (physical_sample_ids c)\<rparr> in
       and_then (view_spec_validate decode v) (\<lambda>_. Inr v))"

definition permitted_child ::
  "sample_id set \<Rightarrow> sample_relation_set \<Rightarrow> sample_id \<Rightarrow> unit result" where
  "permitted_child base_ids rs child =
     (case find (\<lambda>r. as_str (sr_observation_id r) = as_str child) rs of
        None \<Rightarrow> view_err (AugmentedCvNoRelation (as_str child))
      | Some r \<Rightarrow> reject_if (\<not> is_augmented r \<or> excluded r \<or> effective_origin r \<notin> base_ids)
          (view_error (AugmentedCvNotChild (as_str child))))"

definition validate_cv_augmented_train_prediction_view ::
  "(json_value \<Rightarrow> sample_id list result) \<Rightarrow> provider_view_spec \<Rightarrow> sample_relation_set \<Rightarrow> unit result" where
  "validate_cv_augmented_train_prediction_view decode_ids v rs =
     (if bm_get (vs_extra v) ''include_augmented_cv_train_predictions'' \<noteq> Some (JBool True) then Inr ()
      else if vs_partition v \<noteq> FoldTrainRows \<or> \<not> include_augmented v \<or> vs_fold_id v = None
      then view_err AugmentedCvView
      else and_then (ok_or (vs_sample_ids v) (view_error AugmentedCvNoSamples)) (\<lambda>base_ids.
        and_then (ok_or (bm_get (vs_extra v) ''augmented_cv_train_prediction_ids'')
          (view_error AugmentedCvNoIds)) (\<lambda>value.
        and_then (decode_ids value) (\<lambda>declared.
        try_each (permitted_child (set base_ids) rs) declared))))"

section \<open>The scheduler's view handles\<close>

text \<open>The tuple that \<open>data_view_identity\<close> serializes.\<close>

record view_identity_input =
  vi_root_seed :: "64 word option"
  vi_schema_fingerprint :: string
  vi_plan_fingerprint :: string
  vi_relation_fingerprint :: "string option"
  vi_output_representation :: string
  vi_request_id :: string
  vi_input_name :: string
  vi_feature_set_id :: string
  vi_source_ids :: "string list"
  vi_metadata :: json_map
  vi_view :: provider_view_spec
  vi_predict_cohort :: "predict_cohort option"

definition view_identity_of ::
  "64 word option \<Rightarrow> data_binding \<Rightarrow> provider_view_spec \<Rightarrow> predict_cohort option \<Rightarrow> view_identity_input" where
  "view_identity_of root b v cohort =
     \<lparr>vi_root_seed = root, vi_schema_fingerprint = db_schema_fingerprint b,
      vi_plan_fingerprint = db_plan_fingerprint b, vi_relation_fingerprint = db_relation_fingerprint b,
      vi_output_representation = db_output_representation b, vi_request_id = db_request_id b,
      vi_input_name = db_input_name b, vi_feature_set_id = binding_feature_set_id b,
      vi_source_ids = db_source_ids b, vi_metadata = db_metadata b, vi_view = v,
      vi_predict_cohort = cohort\<rparr>"

definition data_view_identity ::
  "(view_identity_input \<Rightarrow> bytes result) \<Rightarrow> digest \<Rightarrow> 64 word option \<Rightarrow> data_binding \<Rightarrow> provider_view_spec
   \<Rightarrow> predict_cohort option \<Rightarrow> (string \<times> 64 word option) result" where
  "data_view_identity to_vec sha256 root b v cohort =
     and_then (stable_json_fingerprint to_vec sha256 (view_identity_of root b v cohort)) (\<lambda>fingerprint.
     let key = ''view:v1:'' @ fingerprint in
     Inr (key, map_option (\<lambda>s. derive_u64 sha256 (seed_child (seed_root s) key) ''materialize'') root))"

text \<open>\<open>make_data_view_handle\<close>: the request, the provider's answer, and its checks. The provider's
  \<open>make_view_attested\<close> is an argument.\<close>

definition make_data_view_handle ::
  "decoder \<Rightarrow> (view_identity_input \<Rightarrow> bytes result) \<Rightarrow> digest
   \<Rightarrow> (view_request \<Rightarrow> 'p \<Rightarrow> (attested_view \<times> 'p) result)
   \<Rightarrow> run_id \<Rightarrow> 64 word option \<Rightarrow> node_id \<Rightarrow> phase_scope \<Rightarrow> data_binding
   \<Rightarrow> handle_ref \<Rightarrow> provider_view_spec \<Rightarrow> predict_cohort option \<Rightarrow> 'p \<Rightarrow> (attested_view \<times> 'p) result" where
  "make_data_view_handle decode to_vec sha256 make_view_attested run root node sc b data_handle v cohort pv =
     and_then (view_spec_validate decode v) (\<lambda>_.
     and_then (data_view_identity to_vec sha256 root b v cohort) (\<lambda>(key, seed).
     let q = \<lparr>vr_run_id = run, vr_node_id = node, vr_input_name = db_input_name b,
         vr_phase = sc_phase sc, vr_variant_id = sc_variant_id sc, vr_fold_id = sc_fold_id sc,
         vr_binding = b, vr_data_handle = data_handle, vr_view = v, vr_view_key = key,
         vr_view_seed = seed, vr_predict_cohort = cohort\<rparr> in
     and_then (make_view_attested q pv) (\<lambda>(attested, pv).
     and_then (checks [
       reject_if (handle_kind (av_handle attested) \<noteq> DataHandle \<and>
           handle_kind (av_handle attested) \<noteq> DataViewHandle)
         (view_error (ViewHandleKind (as_str node) (db_input_name b))),
       check_option (\<lambda>r. receipt_validate_for r q (av_handle attested)) (av_receipt attested)]) (\<lambda>_.
     Inr (attested, pv)))))"

end
