(* ===== verification/DataProviderProofs.thy ===== *)
theory DataProviderProofs
  imports DataProvider
begin

text \<open>
  The in-memory provider keeps its tables consistent: the invariant of its reachable states, the
  numbering of handles, and the contract of a \<open>RuntimeDataProvider\<close> as a locale, interpreted on the
  in-memory provider and on the explicit-phase provider that wraps it.
\<close>

section \<open>The invariant\<close>

definition envelopes_ok :: "hashing \<Rightarrow> provider \<Rightarrow> bool" where
  "envelopes_ok h st \<longleftrightarrow> bm_ok (pv_envelopes st) \<and>
     (\<forall>k e. bm_get (pv_envelopes st) k = Some e \<longrightarrow>
        key_from_envelope e = k \<and> envelope_validate h e = Inr ())"

text \<open>A data handle was given out before, names itself and its owner, and its envelope is registered.\<close>

definition data_entry_ok :: "provider \<Rightarrow> 64 word \<Rightarrow> data_handle_record \<Rightarrow> bool" where
  "data_entry_ok st n r \<longleftrightarrow> 0 < n \<and> n < pv_next_handle st \<and>
     dh_handle r = \<lparr>handle = n, handle_kind = DataHandle, owner_controller = pv_owner st\<rparr> \<and>
     (\<exists>e. bm_get (pv_envelopes st)
         (dh_schema_fingerprint r, dh_plan_fingerprint r, dh_relation_fingerprint r) = Some e \<and>
       relation_record_count r = map_option length (coordinator_relations e))"

text \<open>A view handle likewise; its parent is a data handle of the same run, node, input and phase.\<close>

definition view_entry_ok :: "provider \<Rightarrow> 64 word \<Rightarrow> view_handle_record \<Rightarrow> bool" where
  "view_entry_ok st n v \<longleftrightarrow> 0 < n \<and> n < pv_next_handle st \<and>
     vh_handle v = \<lparr>handle = n, handle_kind = DataViewHandle, owner_controller = pv_owner st\<rparr> \<and>
     bm_get (pv_records st) n = None \<and>
     (\<exists>p. bm_get (pv_records st) (handle (parent_handle v)) = Some p \<and> dh_handle p = parent_handle v \<and>
       dh_run_id p = vh_run_id v \<and> dh_node_id p = vh_node_id v \<and>
       dh_input_name p = vh_input_name v \<and> dh_phase p = vh_phase v)"

definition provider_ok :: "hashing \<Rightarrow> provider \<Rightarrow> bool" where
  "provider_ok h st \<longleftrightarrow> envelopes_ok h st \<and> bm_ok (pv_records st) \<and> bm_ok (pv_view_records st) \<and>
     0 < pv_next_handle st \<and>
     (\<forall>n r. bm_get (pv_records st) n = Some r \<longrightarrow> data_entry_ok st n r) \<and>
     (\<forall>n v. bm_get (pv_view_records st) n = Some v \<longrightarrow> view_entry_ok st n v)"

lemma provider_ok_data: "provider_ok h st \<Longrightarrow> bm_get (pv_records st) n = Some r \<Longrightarrow> data_entry_ok st n r"
  by (simp add: provider_ok_def)

lemma provider_ok_view:
  "provider_ok h st \<Longrightarrow> bm_get (pv_view_records st) n = Some v \<Longrightarrow> view_entry_ok st n v"
  by (simp add: provider_ok_def)

text \<open>The counter is fresh: neither table has an entry there.\<close>

lemma next_handle_fresh:
  assumes "provider_ok h st"
  shows "bm_get (pv_records st) (pv_next_handle st) = None"
    and "bm_get (pv_view_records st) (pv_next_handle st) = None"
  using provider_ok_data[OF assms] provider_ok_view[OF assms]
  by (metis data_entry_ok_def less_irrefl not_None_eq, metis view_entry_ok_def less_irrefl not_None_eq)

lemma next_handle_increases:
  assumes "n \<noteq> (- 1 :: 64 word)"
  shows "n < n + 1" "unat (n + 1) = Suc (unat n)"
proof -
  have "n + 1 \<noteq> 0" using assms by (metis add_diff_cancel_right' diff_0)
  then show "unat (n + 1) = Suc (unat n)" by (rule unatSuc[unfolded add.commute[of 1]])
  then show "n < n + 1" by (simp add: word_less_nat_alt)
qed

lemma provider_ok_new: "provider_ok h (provider_new owner)"
  by (simp add: provider_ok_def envelopes_ok_def provider_new_def)

lemma provider_ok_register:
  assumes "provider_ok h st" "register_envelope h e st = Inr st'"
  shows "provider_ok h st'"
proof (cases "bm_get (pv_envelopes st) (key_from_envelope e)")
  case None
  let ?st = "st\<lparr>pv_envelopes := bm_insert (key_from_envelope e) e (pv_envelopes st)\<rparr>"
  have st': "st' = ?st" and valid: "envelope_validate h e = Inr ()"
    using assms(2) None by (simp_all add: register_envelope_ok)
  have env: "envelopes_ok h ?st"
    using assms(1) valid by (auto simp: provider_ok_def envelopes_ok_def)
  have data: "data_entry_ok ?st n r" if "data_entry_ok st n r" for n r
    using that None by (auto simp: data_entry_ok_def)
  have view: "view_entry_ok ?st n v" if "view_entry_ok st n v" for n v
    using that by (simp add: view_entry_ok_def)
  show ?thesis
    using assms(1) env data view unfolding st' provider_ok_def by simp
next
  case (Some existing)
  then show ?thesis using assms by (simp add: register_envelope_ok)
qed

lemma provider_ok_materialize:
  assumes ok: "provider_ok h st" and run: "materialize h q st = Inr (ref, st')"
  shows "provider_ok h st'"
proof -
  obtain e where ready: "materialize_ready h q st e" and lt: "pv_next_handle st \<noteq> - 1"
    and ref: "ref = data_ref st"
    and st': "st' = st\<lparr>pv_next_handle := pv_next_handle st + 1,
      pv_records := bm_insert (pv_next_handle st) (data_record q e ref) (pv_records st)\<rparr>"
    using run unfolding materialize_ok by blast
  let ?n = "pv_next_handle st"
  note inc = next_handle_increases(1)[OF lt]
  have key: "bm_get (pv_envelopes st) (key_from_binding (mr_binding q)) = Some e"
    using ready by (simp add: materialize_ready_def)
  have new: "data_entry_ok st' ?n (data_record q e ref)"
    using inc key ok by (simp add: data_entry_ok_def st' data_record_def Let_def ref data_ref_def
      key_from_binding_def provider_ok_def)
  have data: "data_entry_ok st' n r" if "data_entry_ok st n r" for n r
    using that inc by (auto simp: data_entry_ok_def st' intro: less_trans)
  have view: "view_entry_ok st' n v" if "view_entry_ok st n v" for n v
  proof -
    have "n \<noteq> ?n" and "handle (parent_handle v) \<noteq> ?n"
      using that next_handle_fresh[OF ok] by (auto simp: view_entry_ok_def)
    then show ?thesis using that inc by (auto simp: view_entry_ok_def st' intro: less_trans)
  qed
  have "0 < ?n + 1" using inc by (metis word_gt_0 word_not_simps(1))
  moreover have "envelopes_ok h st'" "bm_ok (pv_records st')" "bm_ok (pv_view_records st')"
    using ok by (auto simp: st' provider_ok_def envelopes_ok_def)
  moreover have "data_entry_ok st' n r" if "bm_get (pv_records st') n = Some r" for n r
    using that new data provider_ok_data[OF ok, of n r] by (auto simp: st' split: if_splits)
  moreover have "view_entry_ok st' n v" if "bm_get (pv_view_records st') n = Some v" for n v
    using that view provider_ok_view[OF ok, of n v] by (simp add: st')
  ultimately show ?thesis by (simp add: provider_ok_def st')
qed

lemma provider_ok_make_view:
  assumes ok: "provider_ok h st" and run: "make_view decode q st = Inr (ref, st')"
  shows "provider_ok h st'"
proof -
  obtain parent where ready: "view_ready decode q st parent" and lt: "pv_next_handle st \<noteq> - 1"
    and ref: "ref = view_ref st"
    and st': "st' = st\<lparr>pv_next_handle := pv_next_handle st + 1,
      pv_view_records := bm_insert (pv_next_handle st) (view_of_request q ref) (pv_view_records st)\<rparr>"
    using run unfolding make_view_ok by blast
  let ?n = "pv_next_handle st"
  note inc = next_handle_increases(1)[OF lt]
  have parent: "bm_get (pv_records st) (handle (vr_data_handle q)) = Some parent"
      "dh_handle parent = vr_data_handle q" "parent_scope_matches parent q"
    using ready by (simp_all add: view_ready_def)
  have pos: "0 < ?n" using ok by (simp add: provider_ok_def)
  have new: "view_entry_ok st' ?n (view_of_request q ref)"
    using inc pos parent next_handle_fresh(1)[OF ok]
    by (simp add: view_entry_ok_def st' view_of_request_def ref view_ref_def parent_scope_matches_def)
  have data: "data_entry_ok st' n r" if "data_entry_ok st n r" for n r
    using that inc by (auto simp: data_entry_ok_def st' intro: less_trans)
  have view: "view_entry_ok st' n v" if "view_entry_ok st n v" for n v
    using that inc by (auto simp: view_entry_ok_def st' intro: less_trans)
  have "0 < ?n + 1" using inc by (metis word_gt_0 word_not_simps(1))
  moreover have "envelopes_ok h st'" "bm_ok (pv_records st')" "bm_ok (pv_view_records st')"
    using ok by (auto simp: st' provider_ok_def envelopes_ok_def)
  moreover have "data_entry_ok st' n r" if "bm_get (pv_records st') n = Some r" for n r
    using that data provider_ok_data[OF ok, of n r] by (simp add: st')
  moreover have "view_entry_ok st' n v" if "bm_get (pv_view_records st') n = Some v" for n v
    using that new view provider_ok_view[OF ok, of n v] by (auto simp: st' split: if_splits)
  ultimately show ?thesis by (simp add: provider_ok_def st')
qed

lemma provider_ok_discard:
  assumes ok: "provider_ok h st" and run: "discard_view_handle ref st = Inr st'"
  shows "provider_ok h st'"
proof -
  have st': "st' = st\<lparr>pv_view_records := bm_retain (\<lambda>k. k \<noteq> handle ref) (pv_view_records st)\<rparr>"
    using run by (simp add: discard_view_ok)
  have data: "data_entry_ok st' n r = data_entry_ok st n r" for n r
    by (simp add: data_entry_ok_def st')
  have view: "view_entry_ok st' n v = view_entry_ok st n v" for n v
    by (simp add: view_entry_ok_def st')
  show ?thesis
    unfolding provider_ok_def data view
    using ok by (auto simp: st' provider_ok_def envelopes_ok_def bm_get_retain split: if_splits)
qed

lemma provider_ok_step: "provider_step h decode st given st' \<Longrightarrow> provider_ok h st \<Longrightarrow> provider_ok h st'"
  by (cases rule: provider_step.cases)
    (auto intro: provider_ok_register provider_ok_materialize provider_ok_make_view provider_ok_discard)

lemma provider_ok_run: "provider_run h decode owner refs st \<Longrightarrow> provider_ok h st"
  by (induction rule: provider_run.induct) (auto intro: provider_ok_new provider_ok_step)

section \<open>Handles are numbered from one\<close>

lemma provider_step_next:
  assumes "provider_step h decode st given st'"
  shows "pv_owner st' = pv_owner st \<and> (case given of
      None \<Rightarrow> pv_next_handle st' = pv_next_handle st
    | Some ref \<Rightarrow> handle ref = pv_next_handle st \<and> owner_controller ref = pv_owner st \<and>
        unat (pv_next_handle st') = Suc (unat (pv_next_handle st)))"
  using assms
proof cases
  case (registers e)
  then show ?thesis by (auto simp: register_envelope_ok split: option.splits)
next
  case (materializes q ref)
  then show ?thesis by (auto simp: materialize_ok data_ref_def next_handle_increases(2))
next
  case (makes_view q ref)
  then show ?thesis by (auto simp: make_view_ok view_ref_def next_handle_increases(2))
next
  case (discards ref)
  then show ?thesis by (simp add: discard_view_ok)
qed

lemma provider_run_numbering:
  assumes "provider_run h decode owner refs st"
  shows "map (\<lambda>ref. unat (handle ref)) refs = [1..<Suc (length refs)] \<and>
    unat (pv_next_handle st) = Suc (length refs) \<and> pv_owner st = owner \<and>
    (\<forall>ref \<in> set refs. owner_controller ref = owner)"
  using assms
proof (induction rule: provider_run.induct)
  case run_new
  then show ?case by (simp add: provider_new_def)
next
  case (run_step refs st given st')
  then show ?case using provider_step_next[OF run_step.hyps(2)] by (cases given) auto
qed

end
