(* ===== verification/DataViewProofs.thy ===== *)
theory DataViewProofs
  imports DataViews DataProviderProofs
begin

text \<open>
  What a task may read: the rows of the fit view and of its validation companion, the coverage of
  the out-of-fold views, the refit universe against an external-test cohort, and when a view exists.
\<close>

section \<open>The rows of a view\<close>

lemma fold_for_scope_ok:
  "fold_for_scope fs name = Inr r \<longleftrightarrow>
     (case name of None \<Rightarrow> r = None
      | Some f \<Rightarrow> (\<exists>fs' a. fs = Some fs' \<and> find (\<lambda>a. fold_id a = f) (folds fs') = Some a \<and> r = Some a))"
  by (cases name; cases fs) (auto simp: fold_for_scope_def split: option.splits)

lemma data_view_for_partition_ok:
  "data_view_for_partition decode b fs sc p branch role dropped = Inr v \<longleftrightarrow>
     (\<exists>f all_ids extra sources.
        fold_for_scope fs (sc_fold_id sc) = Inr f \<and> sample_ids_for_partition p fs f = Inr all_ids \<and>
        view_bounds_check b fs sc p (retain_fit_rows role (fold_local_train role sc p f fs) b dropped all_ids) = Inr () \<and>
        view_extra b sc role = Inr extra \<and> source_ids_for_view b branch = Inr sources \<and>
        v = \<lparr>vs_sample_ids = retain_fit_rows role (fold_local_train role sc p f fs) b dropped all_ids,
          vs_partition = p, vs_fold_id = (if fold_partition_rows p then sc_fold_id sc else None),
          vs_source_ids = sources, vs_columns = None, include_augmented = view_includes_augmented b p,
          vs_include_excluded = (case role of
            FitRole \<Rightarrow> fold_local_train role sc p f fs \<or> include_excluded (view_policy b) | NonFitRole \<Rightarrow> True),
          vs_branch_view = branch, vs_extra = extra\<rparr> \<and>
        view_spec_validate decode v = Inr ())"
  unfolding data_view_for_partition_def and_then_ok Let_def by fastforce

text \<open>A safe policy: validated, with no unsafe flag raised.\<close>

definition safe_view_policy :: "data_view_policy \<Rightarrow> bool" where
  "safe_view_policy p \<longleftrightarrow> data_view_policy_validate p = Inr () \<and> vp_unsafe_flags p = []"

lemma safe_view_policy_partitions:
  assumes "safe_view_policy p"
  shows "vp_fit_partition p = FoldTrainRows"
    and "vp_predict_partition p = FoldValidationRows \<or> vp_predict_partition p = PredictRows"
    and "\<not> include_augmented_validation p" "\<not> include_excluded p"
proof -
  have ok: "data_view_policy_validate p = Inr ()" and flags: "vp_unsafe_flags p = []"
    using assms by (simp_all add: safe_view_policy_def)
  then have "fit_partition_check p = Inr ()" "predict_partition_check p = Inr ()"
      "\<not> (include_augmented_validation p \<and> \<not> has_flag p allow_augmented_validation_view)"
      "\<not> (include_excluded p \<and> \<not> has_flag p allow_excluded_rows)"
    by (auto simp: data_view_policy_validate_def and_then_ok)
  moreover have "\<not> has_flag p flag" for flag using flags by (simp add: has_flag_def)
  ultimately show "vp_fit_partition p = FoldTrainRows"
      "vp_predict_partition p = FoldValidationRows \<or> vp_predict_partition p = PredictRows"
      "\<not> include_augmented_validation p" "\<not> include_excluded p"
    by (auto simp: fit_partition_check_def predict_partition_check_def split: request_partition.splits)
qed

text \<open>The rows a fit reads in a fold: the training rows, less the relation-level exclusions unless
  the fold set is authoritative.\<close>

definition fit_rows_of :: "fold_set \<Rightarrow> fold_assignment \<Rightarrow> sample_id btree_set \<Rightarrow> sample_id list" where
  "fit_rows_of fs a dropped =
     (if train_exclusion fs = FoldLocal then train_sample_ids a
      else filter (\<lambda>s. s \<notin> set dropped) (train_sample_ids a))"

lemma retain_fit_rows_filter:
  assumes "\<not> include_excluded (view_policy b)"
  shows "retain_fit_rows FitRole is_local b dropped (Some ids) =
    Some (if is_local then ids else filter (\<lambda>s. s \<notin> set dropped) ids)"
  using assms by (cases dropped) (simp_all add: retain_fit_rows_def)

lemma retain_nonfit [simp]: "retain_fit_rows NonFitRole is_local b dropped ids = ids"
  by (simp add: retain_fit_rows_def)

lemma find_fold: "find (\<lambda>a. fold_id a = f) xs = Some a \<Longrightarrow> a \<in> set xs \<and> fold_id a = f"
  by (induction xs) (auto split: if_splits)

lemma fit_view_rows:
  assumes safe: "safe_view_policy (view_policy b)"
    and sc: "sc_phase sc = FitCv" "sc_fold_id sc = Some f"
    and view: "data_view_for_scope decode b (Some fs) sc branch dropped = Inr v"
  obtains a where "a \<in> set (folds fs)" "fold_id a = f" "find (\<lambda>a. fold_id a = f) (folds fs) = Some a"
    "vs_sample_ids v = Some (fit_rows_of fs a dropped)" "vs_partition v = FoldTrainRows" "vs_fold_id v = Some f"
proof -
  have "data_partition_for_scope b sc = FoldTrainRows"
    using safe_view_policy_partitions(1)[OF safe] sc by (simp add: data_partition_for_scope_def)
  then have "data_view_for_partition decode b (Some fs) sc FoldTrainRows branch FitRole dropped = Inr v"
    using view sc by (simp add: data_view_for_scope_def is_training_def)
  then obtain a where a: "find (\<lambda>a. fold_id a = f) (folds fs) = Some a"
    and v: "vs_sample_ids v = retain_fit_rows FitRole (fold_local_train FitRole sc FoldTrainRows (Some a) (Some fs)) b
        dropped (Some (train_sample_ids a))"
      "vs_partition v = FoldTrainRows" "vs_fold_id v = Some f"
    unfolding data_view_for_partition_ok using sc
    by (auto simp: fold_for_scope_ok sample_ids_for_partition_def fold_partition_rows_def)
  have "vs_sample_ids v = Some (fit_rows_of fs a dropped)"
    unfolding v(1) using safe_view_policy_partitions(4)[OF safe] sc
    by (simp add: retain_fit_rows_filter fold_local_train_def option_ex_def fit_rows_of_def)
  moreover have "a \<in> set (folds fs)" "fold_id a = f" using find_fold[OF a] by simp_all
  ultimately show thesis using that a v(2,3) by blast
qed

lemma validation_view_rows:
  assumes safe: "safe_view_policy (view_policy b)"
    and sc: "sc_phase sc = FitCv" "sc_fold_id sc = Some f"
    and view: "validation_data_view_for_scope decode b (Some fs) sc branch dropped = Inr (Some v)"
  obtains a where "a \<in> set (folds fs)" "fold_id a = f" "find (\<lambda>a. fold_id a = f) (folds fs) = Some a"
    "vs_partition v = vp_predict_partition (view_policy b)"
    "vs_sample_ids v = (if vp_predict_partition (view_policy b) = FoldValidationRows
      then Some (validation_sample_ids a) else None)" "\<not> include_augmented v"
proof -
  let ?p = "vp_predict_partition (view_policy b)"
  have "data_view_for_partition decode b (Some fs) sc ?p branch NonFitRole dropped = Inr v"
    using view sc by (auto simp: validation_data_view_for_scope_def Let_def and_then_ok split: if_splits)
  then obtain a where a: "find (\<lambda>a. fold_id a = f) (folds fs) = Some a"
    and v: "sample_ids_for_partition ?p (Some fs) (Some a) = Inr (vs_sample_ids v)"
      "vs_partition v = ?p" "include_augmented v = view_includes_augmented b ?p"
    unfolding data_view_for_partition_ok using sc by (auto simp: fold_for_scope_ok)
  have "a \<in> set (folds fs)" "fold_id a = f" using find_fold[OF a] by simp_all
  moreover have "\<not> include_augmented v" "vs_sample_ids v = (if ?p = FoldValidationRows
      then Some (validation_sample_ids a) else None)"
    using safe_view_policy_partitions[OF safe] v
    by (auto simp: sample_ids_for_partition_def view_includes_augmented_def)
  ultimately show thesis using that a v(2) by blast
qed

lemma fit_rows_subset: "set (fit_rows_of fs a dropped) \<subseteq> set (train_sample_ids a)"
  by (auto simp: fit_rows_of_def)

lemma find_unique_fold:
  "distinct (map fold_id xs) \<Longrightarrow> a \<in> set xs \<Longrightarrow> find (\<lambda>x. fold_id x = fold_id a) xs = Some a"
  by (induction xs) auto

section \<open>Properties\<close>

text \<open>C11: what a model is fitted on and what it is scored on never meet. For a validated fold set and a
  validated view policy that raises no unsafe flag, the fit view of a FIT_CV task names exactly the
  training rows of its fold, less the rows the relations exclude (\<open>dropped\<close>) unless the training lists
  of the fold set are authoritative (\<open>FoldLocal\<close>); its validation companion, when it names its rows,
  names exactly the validation rows of the fold. The two are disjoint, and neither holds a sample
  declared target-missing.\<close>

theorem fit_and_validation_views_disjoint:
  assumes "fold_set_validate fs = Inr ()" and "safe_view_policy (view_policy b)"
    and "sc_phase sc = FitCv" "sc_fold_id sc = Some f"
    and "data_view_for_scope decode b (Some fs) sc branch dropped = Inr fit"
    and "validation_data_view_for_scope decode b (Some fs) sc branch dropped = Inr (Some val)"
  shows "\<exists>a \<in> set (folds fs). \<exists>ids. fold_id a = f \<and> vs_sample_ids fit = Some ids \<and>
      set ids = set (train_sample_ids a) - (if train_exclusion fs = FoldLocal then {} else set dropped) \<and>
      (vs_sample_ids val = None \<or> vs_sample_ids val = Some (validation_sample_ids a)) \<and>
      set ids \<inter> set (validation_sample_ids a) = {} \<and>
      (set ids \<union> set (validation_sample_ids a)) \<inter> set (target_missing_sample_ids fs) = {}"
proof -
  obtain a where a: "a \<in> set (folds fs)" "fold_id a = f" "find (\<lambda>a. fold_id a = f) (folds fs) = Some a"
    "vs_sample_ids fit = Some (fit_rows_of fs a dropped)"
    by (rule fit_view_rows[OF assms(2,3,4,5)])
  obtain c where c: "find (\<lambda>a. fold_id a = f) (folds fs) = Some c"
    "vs_sample_ids val = None \<or> vs_sample_ids val = Some (validation_sample_ids c)"
    by (rule validation_view_rows[OF assms(2,3,4,6)]) (metis (no_types))
  have wf: "fold_ok fs a" "set (target_missing_sample_ids fs) \<inter> set (sample_ids fs) = {}"
    using assms(1) a(1) by (simp_all add: fold_set_validate_ok fold_set_wf_def)
  have "set (train_sample_ids a) \<inter> set (validation_sample_ids a) = {}"
      "set (train_sample_ids a) \<union> set (validation_sample_ids a) \<subseteq> set (sample_ids fs)"
    using wf(1) by (simp_all add: fold_ok_def)
  moreover have "set (fit_rows_of fs a dropped) =
      set (train_sample_ids a) - (if train_exclusion fs = FoldLocal then {} else set dropped)"
    by (auto simp: fit_rows_of_def)
  ultimately show ?thesis
    using a c wf(2) fit_rows_subset[of fs a dropped]
    by (intro bexI[of _ a] exI[of _ "fit_rows_of fs a dropped"] conjI) auto
qed

section \<open>Coverage\<close>

definition named_rows :: "provider_view_spec option \<Rightarrow> sample_id list" where
  "named_rows v = unwrap_or (Option.bind v vs_sample_ids) []"

lemma count_distinct_lists:
  "(\<And>f. f \<in> set fs \<Longrightarrow> distinct (lst f)) \<Longrightarrow>
     count (mset (concat (map lst fs))) s = length (filter (\<lambda>f. s \<in> set (lst f)) fs)"
  by (induction fs) (auto simp: count_mset distinct_count_atmost_1 count_list_eq_length_filter)

lemma validation_rows_partition:
  assumes "fold_set_wf fs" "partition_mode fs = Partition"
  shows "mset (concat (map validation_sample_ids (folds fs))) = mset (sample_ids fs)"
proof (rule multiset_eqI)
  fix s
  have dist: "\<And>f. f \<in> set (folds fs) \<Longrightarrow> distinct (validation_sample_ids f)"
    and sub: "\<And>f. f \<in> set (folds fs) \<Longrightarrow> set (validation_sample_ids f) \<subseteq> set (sample_ids fs)"
    using assms(1) by (auto simp: fold_set_wf_def fold_ok_def)
  have "count (mset (concat (map validation_sample_ids (folds fs)))) s = validation_count (folds fs) s"
    unfolding validation_count_def by (rule count_distinct_lists) (rule dist)
  also have "\<dots> = (if s \<in> set (sample_ids fs) then 1 else 0)"
  proof (cases "s \<in> set (sample_ids fs)")
    case True
    then show ?thesis using assms by (simp add: fold_set_wf_def)
  next
    case False
    then have "filter (\<lambda>f. s \<in> set (validation_sample_ids f)) (folds fs) = []"
      using sub by (auto simp: filter_empty_conv)
    then show ?thesis using False by (simp add: validation_count_def)
  qed
  also have "\<dots> = count (mset (sample_ids fs)) s"
    using assms(1) distinct_count_atmost_1[of "sample_ids fs"] by (simp add: fold_set_wf_def)
  finally show "count (mset (concat (map validation_sample_ids (folds fs)))) s = count (mset (sample_ids fs)) s" .
qed

definition fold_scope :: "phase_scope \<Rightarrow> fold_assignment \<Rightarrow> phase_scope" where
  "fold_scope sc a = sc\<lparr>sc_phase := FitCv, sc_fold_id := Some (fold_id a)\<rparr>"

lemma validation_view_of_fold:
  assumes wf: "fold_set_wf fs" and a: "a \<in> set (folds fs)"
    and safe: "safe_view_policy (view_policy b)" "vp_predict_partition (view_policy b) = FoldValidationRows"
    and view: "validation_data_view_for_scope decode b (Some fs) (fold_scope sc a) branch dropped = Inr v"
  shows "named_rows v = validation_sample_ids a"
proof -
  have fit: "data_partition_for_scope b (fold_scope sc a) = FoldTrainRows"
    using safe_view_policy_partitions(1)[OF safe(1)] by (simp add: data_partition_for_scope_def fold_scope_def)
  have "v \<noteq> None"
    using view safe(2) fit
    by (auto simp: validation_data_view_for_scope_def fold_scope_def Let_def and_then_ok)
  then obtain w where w: "v = Some w" by blast
  have sc: "sc_phase (fold_scope sc a) = FitCv" "sc_fold_id (fold_scope sc a) = Some (fold_id a)"
    by (simp_all add: fold_scope_def)
  obtain c where c: "find (\<lambda>x. fold_id x = fold_id a) (folds fs) = Some c"
      "vs_sample_ids w = Some (validation_sample_ids c)"
    using validation_view_rows[OF safe(1) sc view[unfolded w]] safe(2) by metis
  have "find (\<lambda>x. fold_id x = fold_id a) (folds fs) = Some a"
    using wf a by (intro find_unique_fold) (simp_all add: fold_set_wf_def)
  then have "c = a" using c(1) by simp
  then show ?thesis using c(2) w by (simp add: named_rows_def unwrap_or_def)
qed

text \<open>C17: take a validated fold set in partition mode and a validated view policy that raises no unsafe
  flag and predicts on the fold's validation rows (a policy may also predict on the Predict partition,
  whose views name no rows). If the validation view of every fold can be built, the views read together
  name every sample of the fold set exactly once and no other, so that every sample gets exactly one
  out-of-fold prediction.\<close>

theorem oof_views_cover_once:
  assumes "fold_set_validate fs = Inr ()" "partition_mode fs = Partition"
    and "safe_view_policy (view_policy b)" "vp_predict_partition (view_policy b) = FoldValidationRows"
    and "try_map (\<lambda>a. validation_data_view_for_scope decode b (Some fs) (fold_scope sc a) branch dropped)
      (folds fs) = Inr views"
  shows "mset (concat (map named_rows views)) = mset (sample_ids fs)"
proof -
  have wf: "fold_set_wf fs" using assms(1) by (simp add: fold_set_validate_ok)
  have all: "list_all2 (\<lambda>a v. validation_data_view_for_scope decode b (Some fs) (fold_scope sc a) branch dropped
      = Inr v) (folds fs) views"
    using assms(5) by (simp add: try_map_ok)
  have "list_all2 (\<lambda>a v. named_rows v = validation_sample_ids a) (folds fs) views"
    using all by (rule list.rel_mono_strong) (rule validation_view_of_fold[OF wf _ assms(3,4)])
  then have "map named_rows views = map validation_sample_ids (folds fs)"
    by (induction rule: list_all2_induct) auto
  then show ?thesis using validation_rows_partition[OF wf assms(2)] by simp
qed

section \<open>Refit and external test\<close>

lemma partition_accounted: "fold_set_wf fs \<Longrightarrow> partition_mode fs = Partition \<Longrightarrow> fold_accounted fs"
proof -
  assume wf: "fold_set_wf fs" "partition_mode fs = Partition"
  have "set (sample_ids fs) = set (concat (map validation_sample_ids (folds fs)))"
    using validation_rows_partition[OF wf] by (metis set_mset_mset)
  then show ?thesis by (auto simp: fold_accounted_def Let_def list_all_iff)
qed

lemma sample_ids_for_partition_total:
  assumes "fold_set_wf fs"
  shows "no_panic (sample_ids_for_partition p (Some fs) f)"
  using partition_accounted[OF assms]
  by (cases p; cases "partition_mode fs") (simp_all add: sample_ids_for_partition_def)

lemma refit_view_rows:
  assumes "sc_phase sc = Refit" "sc_fold_id sc = None"
    and "data_view_for_scope decode b (Some fs) sc branch dropped = Inr v"
    and "vs_sample_ids v = Some ids"
  shows "set ids \<subseteq> set (sample_ids fs)"
proof -
  let ?p = "data_partition_for_scope b sc"
  have p: "?p = AllObservationRows \<or> ?p = FullTrainRows"
    using assms(1) by (simp add: data_partition_for_scope_def)
  have "data_view_for_partition decode b (Some fs) sc ?p branch FitRole dropped = Inr v"
    using assms(1,3) by (simp add: data_view_for_scope_def is_training_def)
  then obtain all_ids is_local where all: "sample_ids_for_partition ?p (Some fs) None = Inr all_ids"
      "vs_sample_ids v = retain_fit_rows FitRole is_local b dropped all_ids"
    unfolding data_view_for_partition_ok using assms(2) by (auto simp: fold_for_scope_ok)
  have "all_ids = None \<or> all_ids = Some (sample_ids fs)"
    using all(1) p by (auto simp: sample_ids_for_partition_def split: if_splits)
  then show ?thesis using all(2) assms(4) by (auto simp: retain_fit_rows_def split: if_splits)
qed

lemma validate_against_cv_fold_set_ok:
  "validate_against_cv_fold_set h c fs = Inr u \<longleftrightarrow> cohort_validate h c = Inr () \<and>
     fold_set_validate fs = Inr () \<and>
     (pc_role c = ExternalTest \<longrightarrow>
       set (cohort_identities c) \<inter> (set (sample_ids fs) \<union> set (target_missing_sample_ids fs)) = {})"
proof (cases "pc_role c")
  case ExternalTest
  have "refuse_target_missing c fs = Inr () \<longleftrightarrow>
      set (cohort_identities c) \<inter> set (target_missing_sample_ids fs) = {}"
    using ExternalTest find_None_set[of "\<lambda>s. s \<in> set (target_missing_sample_ids fs)" "cohort_identities c"]
    by (auto simp: refuse_target_missing_def split: option.splits)
  then show ?thesis
    using ExternalTest by (auto simp: validate_against_cv_fold_set_def and_then_ok try_each_ok)
qed (auto simp: validate_against_cv_fold_set_def and_then_ok)

lemma bind_cohort_ok:
  "bind_predict_cohort_to_view decode h v c = Inr w \<longleftrightarrow> cohort_validate h c = Inr () \<and>
     vs_partition v = PredictRows \<and> vs_fold_id v = None \<and>
     w = v\<lparr>vs_sample_ids := Some (physical_sample_ids c)\<rparr> \<and> view_spec_validate decode w = Inr ()"
  by (auto simp: bind_predict_cohort_to_view_def and_then_ok Let_def)


section \<open>When the fit view exists\<close>

definition view_keys :: "string set" where
  "view_keys = {''feature_set_id'', ''include_augmented_refit_predictions'',
     ''include_augmented_cv_train_predictions'', ''augmented_cv_train_prediction_ids'',
     ''source_index'', ''feature_axes'', ''unsafe_flags''}"

lemma view_keys_valid: "k \<in> view_keys \<Longrightarrow> \<not> is_blank k \<and> k \<noteq> data_output_provenance_key"
proof -
  have "\<forall>k \<in> view_keys. (\<forall>c \<in> set k. identifier_byte c) \<and> k \<noteq> [] \<and> k \<noteq> data_output_provenance_key"
    unfolding view_keys_def by code_simp
  then show "k \<in> view_keys \<Longrightarrow> \<not> is_blank k \<and> k \<noteq> data_output_provenance_key"
    using identifier_not_blank by blast
qed

lemma known_view_keys:
  "''feature_set_id'' \<in> view_keys" "''include_augmented_refit_predictions'' \<in> view_keys"
  "''include_augmented_cv_train_predictions'' \<in> view_keys" "''augmented_cv_train_prediction_ids'' \<in> view_keys"
  "source_index_metadata_key \<in> view_keys" "feature_axes_metadata_key \<in> view_keys" "''unsafe_flags'' \<in> view_keys"
  by (simp_all add: view_keys_def source_index_metadata_key_def feature_axes_metadata_key_def)

lemma insert_view_key:
  "k \<in> view_keys \<Longrightarrow> dom (bm_get m) \<subseteq> view_keys \<Longrightarrow> dom (bm_get (bm_insert k v m)) \<subseteq> view_keys"
  by simp

lemma if_view_key:
  "dom (bm_get m) \<subseteq> view_keys \<Longrightarrow> dom (bm_get m') \<subseteq> view_keys \<Longrightarrow>
   dom (bm_get (if c then m else m')) \<subseteq> view_keys"
  by simp

lemma copy_view_key:
  "k \<in> view_keys \<Longrightarrow> dom (bm_get m) \<subseteq> view_keys \<Longrightarrow> dom (bm_get (copy_metadata b k m)) \<subseteq> view_keys"
  unfolding copy_metadata_def by (cases "bm_get (db_metadata b) k") (simp_all add: insert_view_key)

lemma cv_train_extra_ok:
  assumes "cv_train_extra b sc m = Inr m'" "dom (bm_get m) \<subseteq> view_keys"
  shows "dom (bm_get m') \<subseteq> view_keys"
proof -
  let ?m1 = "bm_insert ''include_augmented_cv_train_predictions''
    (JBool (include_augmented_cv_train_predictions (view_policy b))) m"
  have m1: "dom (bm_get ?m1) \<subseteq> view_keys"
    by (rule insert_view_key[OF known_view_keys(3) assms(2)])
  have "m' = ?m1 \<or> (\<exists>v. m' = bm_insert ''augmented_cv_train_prediction_ids'' v ?m1)"
    using assms(1) by (auto simp: cv_train_extra_def Let_def and_then_ok split: if_splits)
  then show ?thesis using m1 insert_view_key[OF known_view_keys(4) m1] by blast
qed

lemma view_extra_keys:
  assumes "view_extra b sc role = Inr extra"
  shows "dom (bm_get extra) \<subseteq> view_keys"
proof -
  let ?m1 = "bm_insert ''feature_set_id'' (JString (binding_feature_set_id b)) []"
  let ?m2 = "if role = FitRole \<and> sc_phase sc = Refit then bm_insert ''include_augmented_refit_predictions''
      (JBool (include_augmented_refit_predictions (view_policy b))) ?m1 else ?m1"
  obtain m3 where m3: "(if role = FitRole \<and> sc_phase sc = FitCv then cv_train_extra b sc ?m2 else Inr ?m2) = Inr m3"
    and extra: "extra = (let m4 = copy_metadata b feature_axes_metadata_key
        (copy_metadata b source_index_metadata_key m3) in
      if vp_unsafe_flags (view_policy b) = [] then m4
      else bm_insert ''unsafe_flags'' (JArray (map JString (vp_unsafe_flags (view_policy b)))) m4)"
    using assms unfolding view_extra_def Let_def and_then_ok by blast
  have m2: "dom (bm_get ?m2) \<subseteq> view_keys"
    by (intro if_view_key insert_view_key known_view_keys) simp_all
  have m3: "dom (bm_get m3) \<subseteq> view_keys"
  proof (cases "role = FitRole \<and> sc_phase sc = FitCv")
    case True
    show ?thesis by (rule cv_train_extra_ok[OF m3[unfolded if_P[OF True]] m2])
  next
    case False
    then have "m3 = ?m2" using m3[unfolded if_not_P[OF False]] by (simp only: sum.inject)
    then show ?thesis using m2 by (simp only:)
  qed
  show ?thesis
    unfolding extra Let_def
    by (intro if_view_key insert_view_key copy_view_key known_view_keys m3)
qed

lemma view_extra_total:
  "(\<exists>extra. view_extra b sc role = Inr extra) \<longleftrightarrow>
     (role = FitRole \<and> sc_phase sc = FitCv \<and> include_augmented_cv_train_predictions (view_policy b) \<longrightarrow>
       (\<exists>f. sc_fold_id sc = Some f \<and> bm_get (augmented_cv_ids_by_fold (view_policy b)) f \<noteq> None))"
  by (auto simp: view_extra_def Let_def and_then_ok cv_train_extra_def)

lemma view_spec_validate_ok:
  assumes "dom (bm_get (vs_extra v)) \<subseteq> view_keys" "vs_columns v = None" "vs_branch_view v = None"
  shows "view_spec_validate decode v = Inr u \<longleftrightarrow>
     (\<forall>ids. vs_sample_ids v = Some ids \<longrightarrow> ids \<noteq> [] \<and> distinct ids) \<and>
     (\<forall>xs. vs_source_ids v = Some xs \<longrightarrow> xs \<noteq> [] \<and> distinct xs \<and> (\<forall>x \<in> set xs. \<not> is_blank x)) \<and>
     view_partition_check v = Inr ()"
proof -
  have keys: "\<forall>k \<in> set (bm_keys (vs_extra v)). \<not> is_blank k"
    using assms(1) view_keys_valid by (auto simp: set_bm_keys)
  have "bm_get (vs_extra v) data_output_provenance_key = None"
    using assms(1) view_keys_valid by blast
  then have "output_provenance decode v = Inr None" by (simp add: output_provenance_def)
  then show ?thesis
    using keys assms(2,3)
    by (auto simp: view_spec_validate_def validate_optional_ids_def validate_optional_strings_def
      and_then_ok try_each_ok check_option_ok check_unique_ok check_each_unique_ok)
qed

lemma binding_sources_ok:
  "data_binding_validate b = Inr () \<Longrightarrow> distinct (db_source_ids b) \<and> (\<forall>x \<in> set (db_source_ids b). \<not> is_blank x)"
  by (simp add: data_binding_validate_def Let_def and_then_ok try_each_ok validate_unique_strings_ok)

definition fit_view_possible :: "fold_set \<Rightarrow> data_binding \<Rightarrow> fold_assignment \<Rightarrow> sample_id btree_set \<Rightarrow> bool" where
  "fit_view_possible fs b a dropped \<longleftrightarrow> fit_rows_of fs a dropped \<noteq> [] \<and>
     (include_augmented_cv_train_predictions (view_policy b) \<longrightarrow>
       bm_get (augmented_cv_ids_by_fold (view_policy b)) (fold_id a) \<noteq> None)"

text \<open>the scheduler is never stuck without a reason: for a validated fold set, a validated binding
  with a safe policy and no branch, the fit view of a fold exists exactly when some training row is
  left after exclusions and, if in-sample predictions of augmented rows were asked for, the policy
  declares their ids for this fold; and it then names exactly those rows.\<close>

theorem fit_view_exists_iff:
  assumes "fold_set_validate fs = Inr ()" "a \<in> set (folds fs)"
    and "data_binding_validate b = Inr ()" "vp_unsafe_flags (view_policy b) = []"
  shows "case data_view_for_scope decode b (Some fs) (fold_scope sc a) None dropped of
      Inr v \<Rightarrow> vs_sample_ids v = Some (fit_rows_of fs a dropped) \<and> fit_view_possible fs b a dropped
    | Inl _ \<Rightarrow> \<not> fit_view_possible fs b a dropped"
proof -
  let ?sc = "fold_scope sc a"
  let ?rows = "fit_rows_of fs a dropped"
  have wf: "fold_set_wf fs" using assms(1) by (simp add: fold_set_validate_ok)
  have safe: "safe_view_policy (view_policy b)"
    using assms(3,4) by (simp add: safe_view_policy_def data_binding_validate_def Let_def and_then_ok)
  have scope: "sc_phase ?sc = FitCv" "sc_fold_id ?sc = Some (fold_id a)"
    by (simp_all add: fold_scope_def)
  have fold: "fold_for_scope (Some fs) (sc_fold_id ?sc) = Inr (Some a)"
    using find_unique_fold[of "folds fs" a] wf assms(2) scope by (simp add: fold_for_scope_def fold_set_wf_def)
  have part: "data_partition_for_scope b ?sc = FoldTrainRows"
    using safe_view_policy_partitions(1)[OF safe] scope by (simp add: data_partition_for_scope_def)
  have retained: "retain_fit_rows FitRole (fold_local_train FitRole ?sc FoldTrainRows (Some a) (Some fs)) b dropped
      (Some (train_sample_ids a)) = Some ?rows"
    using safe_view_policy_partitions(4)[OF safe] scope
    by (simp add: retain_fit_rows_filter fold_local_train_def option_ex_def fit_rows_of_def)
  have dist: "distinct ?rows"
    using wf assms(2) by (auto simp: fold_set_wf_def fold_ok_def fit_rows_of_def)
  have sources: "source_ids_for_view b None = Inr (if db_source_ids b = [] then None else Some (db_source_ids b))"
    by (simp add: source_ids_for_view_def Let_def)
  let ?view = "\<lambda>extra. \<lparr>vs_sample_ids = Some ?rows, vs_partition = FoldTrainRows, vs_fold_id = Some (fold_id a),
      vs_source_ids = (if db_source_ids b = [] then None else Some (db_source_ids b)), vs_columns = None,
      include_augmented = view_includes_augmented b FoldTrainRows,
      vs_include_excluded = fold_local_train FitRole ?sc FoldTrainRows (Some a) (Some fs) \<or> include_excluded (view_policy b),
      vs_branch_view = None, vs_extra = extra\<rparr>"
  have valid: "view_spec_validate decode (?view extra) = Inr () \<longleftrightarrow> ?rows \<noteq> []"
    if "view_extra b ?sc FitRole = Inr extra" for extra
    using view_extra_keys[OF that] dist binding_sources_ok[OF assms(3)]
    by (subst view_spec_validate_ok) (auto simp: view_partition_check_def)
  have bounds: "?rows \<noteq> [] \<Longrightarrow> view_bounds_check b (Some fs) ?sc FoldTrainRows (Some ?rows) = Inr ()"
    by (simp add: view_bounds_check_def Let_def)
  have run: "data_view_for_scope decode b (Some fs) ?sc None dropped = Inr v \<longleftrightarrow>
      (\<exists>extra. view_bounds_check b (Some fs) ?sc FoldTrainRows (Some ?rows) = Inr () \<and>
        view_extra b ?sc FitRole = Inr extra \<and> v = ?view extra \<and> view_spec_validate decode (?view extra) = Inr ())" for v
    unfolding data_view_for_scope_def part
    using scope fold sources retained
    by (auto simp: data_view_for_partition_ok is_training_def sample_ids_for_partition_def fold_partition_rows_def)
  have "(\<exists>extra. view_extra b ?sc FitRole = Inr extra) \<longleftrightarrow>
      (include_augmented_cv_train_predictions (view_policy b) \<longrightarrow>
        bm_get (augmented_cv_ids_by_fold (view_policy b)) (fold_id a) \<noteq> None)"
    using scope by (simp add: view_extra_total)
  then have main: "(\<exists>v. data_view_for_scope decode b (Some fs) ?sc None dropped = Inr v) \<longleftrightarrow>
      fit_view_possible fs b a dropped"
    unfolding run fit_view_possible_def using valid bounds by blast
  have "data_view_for_scope decode b (Some fs) ?sc None dropped = Inr v \<Longrightarrow> vs_sample_ids v = Some ?rows" for v
    unfolding run by auto
  then show ?thesis using main by (cases "data_view_for_scope decode b (Some fs) ?sc None dropped") auto
qed

section \<open>Witnesses\<close>

definition demo_fingerprint :: string where
  "demo_fingerprint = replicate 64 (CHR ''a'')"

definition demo_binding :: data_binding where
  "demo_binding = \<lparr>db_node_id = Ident ''model'', db_input_name = ''x'', db_request_id = ''r1'',
     db_schema_fingerprint = demo_fingerprint, db_plan_fingerprint = demo_fingerprint,
     db_relation_fingerprint = None, db_output_representation = ''dense'', db_feature_set_id = None,
     db_source_ids = [''nir''], require_relations = False, view_policy = default_data_view_policy,
     db_metadata = []\<rparr>"

definition demo_scope :: phase_scope where
  "demo_scope = \<lparr>sc_phase = FitCv, sc_variant_id = None, sc_fold_id = Some (Ident ''f0''), sc_seed_root = None\<rparr>"

definition demo_decode :: decoder where
  "demo_decode _ = fail (Serialization ''not a provenance'')"

lemma demo_binding_valid: "data_binding_validate demo_binding = Inr ()" "safe_view_policy (view_policy demo_binding)"
  by code_simp+

lemma demo_folds_valid: "fold_set_validate demo_folds = Inr ()"
  by code_simp

lemma fit_view_exists_iff_witness:
  "fold_set_validate demo_folds = Inr () \<and> data_binding_validate demo_binding = Inr () \<and>
   \<not> isl (data_view_for_scope demo_decode demo_binding (Some demo_folds) demo_scope None [])"
proof -
  have a: "demo_fold_a \<in> set (folds demo_folds)" by (simp add: demo_folds_def)
  have sc: "fold_scope demo_scope demo_fold_a = demo_scope"
    by (simp add: fold_scope_def demo_scope_def demo_fold_a_def)
  have flags: "vp_unsafe_flags (view_policy demo_binding) = []" by code_simp
  have poss: "fit_view_possible demo_folds demo_binding demo_fold_a []" by code_simp
  show ?thesis
    using fit_view_exists_iff[OF demo_folds_valid a demo_binding_valid(1) flags,
        where decode = demo_decode and sc = demo_scope and dropped = "[]"]
      poss sc demo_folds_valid demo_binding_valid(1)
    by (cases "data_view_for_scope demo_decode demo_binding (Some demo_folds) demo_scope None []") auto
qed

definition demo_views :: "provider_view_spec \<times> provider_view_spec" where
  "demo_views =
     (projr (data_view_for_scope demo_decode demo_binding (Some demo_folds) demo_scope None []),
      the (projr (validation_data_view_for_scope demo_decode demo_binding (Some demo_folds) demo_scope None [])))"

lemma demo_views_run:
  "data_view_for_scope demo_decode demo_binding (Some demo_folds) demo_scope None [] = Inr (fst demo_views)"
  "validation_data_view_for_scope demo_decode demo_binding (Some demo_folds) demo_scope None []
     = Inr (Some (snd demo_views))"
proof -
  have "\<not> isl (data_view_for_scope demo_decode demo_binding (Some demo_folds) demo_scope None [])"
    "\<not> isl (validation_data_view_for_scope demo_decode demo_binding (Some demo_folds) demo_scope None [])"
    "projr (validation_data_view_for_scope demo_decode demo_binding (Some demo_folds) demo_scope None []) \<noteq> None"
    by code_simp+
  then show "data_view_for_scope demo_decode demo_binding (Some demo_folds) demo_scope None [] = Inr (fst demo_views)"
    "validation_data_view_for_scope demo_decode demo_binding (Some demo_folds) demo_scope None []
       = Inr (Some (snd demo_views))"
    by (auto simp: demo_views_def isl_def split: sum.splits)
qed

lemma fit_and_validation_views_disjoint_witness:
  "vs_sample_ids (fst demo_views) = Some [Ident ''b''] \<and> vs_sample_ids (snd demo_views) = Some [Ident ''a''] \<and>
   (\<exists>a \<in> set (folds demo_folds). \<exists>ids. fold_id a = Ident ''f0'' \<and> vs_sample_ids (fst demo_views) = Some ids \<and>
      set ids \<inter> set (validation_sample_ids a) = {})"
proof -
  have sc: "sc_phase demo_scope = FitCv" "sc_fold_id demo_scope = Some (Ident ''f0'')"
    by (simp_all add: demo_scope_def)
  have "vs_sample_ids (fst demo_views) = Some [Ident ''b'']" "vs_sample_ids (snd demo_views) = Some [Ident ''a'']"
    by code_simp+
  then show ?thesis
    using fit_and_validation_views_disjoint[OF demo_folds_valid demo_binding_valid(2) sc demo_views_run] by blast
qed

lemma oof_views_cover_once_witness:
  "mset (concat (map named_rows (projr (try_map (\<lambda>a. validation_data_view_for_scope demo_decode demo_binding
     (Some demo_folds) (fold_scope demo_scope a) None []) (folds demo_folds))))) = mset (sample_ids demo_folds)"
proof -
  let ?r = "try_map (\<lambda>a. validation_data_view_for_scope demo_decode demo_binding (Some demo_folds)
    (fold_scope demo_scope a) None []) (folds demo_folds)"
  have "\<not> isl ?r" by code_simp
  note r = sum.collapse(2)[OF this, symmetric]
  have "partition_mode demo_folds = Partition"
    "vp_predict_partition (view_policy demo_binding) = FoldValidationRows"
    by (simp_all add: demo_folds_def demo_binding_def default_data_view_policy_def)
  then show ?thesis by (rule oof_views_cover_once[OF demo_folds_valid _ demo_binding_valid(2) _ r])
qed

text \<open>An external-test cohort of one new sample.\<close>

definition demo_hashing :: hashing where
  "demo_hashing = \<lparr>relation_bytes = (\<lambda>_. Inr []), cohort_bytes = (\<lambda>_. Inr []),
     sha256_of = (\<lambda>_. replicate 32 0)\<rparr>"

definition demo_cohort :: predict_cohort where
  "demo_cohort = \<lparr>pc_role = ExternalTest, physical_sample_ids = [Ident ''z''], origin_sample_ids = [Ident ''z''],
     pc_target_names = [''y''], pc_relation_fingerprint = replicate 64 (CHR ''0''),
     pc_relations = [demo_row ''o9'' ''z'' None], pc_data_content_fingerprint = demo_fingerprint,
     pc_target_content_fingerprint = Some demo_fingerprint, cohort_fingerprint = replicate 64 (CHR ''0'')\<rparr>"

lemma demo_cohort_valid: "cohort_validate demo_hashing demo_cohort = Inr ()"
proof -
  have hex: "bytes_to_hex (replicate 32 0) = replicate 64 (CHR ''0'')"
    "is_hex_fingerprint (replicate 64 (CHR ''0''))" "is_hex_fingerprint demo_fingerprint" by code_simp+
  have rel: "relations_validate [demo_row ''o9'' ''z'' None] = Inr ()" by code_simp
  have "canonical_records [demo_row ''o9'' ''z'' None] = Inr [(''o9'', demo_row ''o9'' ''z'' None)]" by code_simp
  then have "relation_fingerprint_of demo_hashing [demo_row ''o9'' ''z'' None] = Inr (replicate 64 (CHR ''0''))"
    using rel hex(1) by (simp add: relation_fingerprint_of_def relations_fingerprint_def
      stable_json_fingerprint_def demo_hashing_def)
  moreover have "\<not> is_blank ''y''" by code_simp
  ultimately show ?thesis
    using rel hex by (simp add: cohort_validate_ok cohort_members_ok_def demo_cohort_def relation_samples_def
      relation_origins_def bs_collect_def effective_origin_def demo_row_sel unwrap_or_def
      stable_json_fingerprint_def demo_hashing_def)
qed

definition demo_refit_scope :: phase_scope where
  "demo_refit_scope = \<lparr>sc_phase = Refit, sc_variant_id = None, sc_fold_id = None, sc_seed_root = None\<rparr>"

definition demo_predict_view :: provider_view_spec where
  "demo_predict_view = \<lparr>vs_sample_ids = None, vs_partition = PredictRows, vs_fold_id = None,
     vs_source_ids = None, vs_columns = None, include_augmented = False, vs_include_excluded = True,
     vs_branch_view = None, vs_extra = []\<rparr>"


end
