(* ===== verification/ProviderContract.thy ===== *)
theory ProviderContract
  imports DataViewProofs
begin

text \<open>
  The contract of a \<open>RuntimeDataProvider\<close> (the trait of \<open>runtime/dataview.rs\<close>) as the locale
  \<open>view_provider\<close>, interpreted on the in-memory provider and on the explicit-phase provider that
  delegates to it; the abstract store the in-memory provider refines; and the properties of its runs.
\<close>

section \<open>The contract\<close>

text \<open>What a scheduler relies on: a new view handle is unused, nothing else changes, and discarding a
  view it was given removes that view only.\<close>

locale view_provider =
  fixes invar :: "'p \<Rightarrow> bool"
    and data_at :: "'p \<Rightarrow> 64 word \<Rightarrow> data_handle_record option"
    and view_at :: "'p \<Rightarrow> 64 word \<Rightarrow> view_handle_record option"
    and make :: "view_request \<Rightarrow> 'p \<Rightarrow> (handle_ref \<times> 'p) result"
    and discard :: "handle_ref \<Rightarrow> 'p \<Rightarrow> 'p result"
  assumes make_fresh: "invar st \<Longrightarrow> make q st = Inr (ref, st') \<Longrightarrow>
      view_at st (handle ref) = None \<and> data_at st (handle ref) = None"
    and make_adds: "invar st \<Longrightarrow> make q st = Inr (ref, st') \<Longrightarrow>
      invar st' \<and> data_at st' = data_at st \<and>
      (\<exists>v. vh_handle v = ref \<and> view_at st' = (view_at st)(handle ref \<mapsto> v))"
    and discard_removes: "invar st \<Longrightarrow> view_at st (handle ref) = Some v \<Longrightarrow> vh_handle v = ref \<Longrightarrow>
      \<exists>st'. discard ref st = Inr st' \<and> invar st' \<and> data_at st' = data_at st \<and>
        view_at st' = (view_at st)(handle ref := None)"
begin

text \<open>Rolling back a view that was just made restores both tables.\<close>

lemma rollback:
  assumes "invar st" "make q st = Inr (ref, st1)"
  shows "\<exists>st2. discard ref st1 = Inr st2 \<and> invar st2 \<and> view_at st2 = view_at st \<and> data_at st2 = data_at st"
proof -
  obtain v where v: "invar st1" "data_at st1 = data_at st" "vh_handle v = ref"
      "view_at st1 = (view_at st)(handle ref \<mapsto> v)"
    using make_adds[OF assms] by blast
  then obtain st2 where "discard ref st1 = Inr st2" "invar st2" "data_at st2 = data_at st1"
      "view_at st2 = (view_at st1)(handle ref := None)"
    using discard_removes[of st1 ref v] by auto
  then show ?thesis using v make_fresh[OF assms] by (auto simp: fun_eq_iff)
qed

text \<open>Two views made one after the other have different handles.\<close>

lemma views_differ:
  assumes "invar st" "make q st = Inr (ref, st1)" "make q' st1 = Inr (ref', st2)"
  shows "handle ref \<noteq> handle ref'"
  using make_adds[OF assms(1,2)] make_fresh[of st1 q' ref' st2] assms(3) by fastforce

end

lemma make_view_contract:
  assumes "provider_ok h st" "make_view decode q st = Inr (ref, st')"
  shows "view_record st (handle ref) = None" "handle_record st (handle ref) = None"
    and "handle_record st' = handle_record st"
    and "\<exists>v. vh_handle v = ref \<and> view_record st' = (view_record st)(handle ref \<mapsto> v)"
  using assms(2) next_handle_fresh[OF assms(1)]
  by (auto simp: make_view_ok view_ref_def view_record_def handle_record_def fun_eq_iff view_of_request_def)

interpretation mem: view_provider "provider_ok h" handle_record view_record "make_view decode" discard_view_handle
proof
  fix st q ref st' assume a: "provider_ok h st" "make_view decode q st = Inr (ref, st')"
  show "view_record st (handle ref) = None \<and> handle_record st (handle ref) = None"
    using make_view_contract(1,2)[OF a] by blast
  show "provider_ok h st' \<and> handle_record st' = handle_record st \<and>
      (\<exists>v. vh_handle v = ref \<and> view_record st' = (view_record st)(handle ref \<mapsto> v))"
    using make_view_contract(3,4)[OF a] provider_ok_make_view[OF a] by blast
next
  fix st ref v assume a: "provider_ok h st" "view_record st (handle ref) = Some v" "vh_handle v = ref"
  let ?st = "st\<lparr>pv_view_records := bm_retain (\<lambda>k. k \<noteq> handle ref) (pv_view_records st)\<rparr>"
  have run: "discard_view_handle ref st = Inr ?st"
    using a(2,3) by (simp add: discard_view_ok view_record_def)
  moreover have "view_record ?st = (view_record st)(handle ref := None)" "handle_record ?st = handle_record st"
    by (auto simp: view_record_def handle_record_def bm_get_retain fun_eq_iff)
  ultimately show "\<exists>st'. discard_view_handle ref st = Inr st' \<and> provider_ok h st' \<and>
      handle_record st' = handle_record st \<and> view_record st' = (view_record st)(handle ref := None)"
    using provider_ok_discard[OF a(1) run] by blast
qed

text \<open>The explicit-phase provider delegates every call to its inner provider.\<close>

definition explicit_make_view ::
  "decoder \<Rightarrow> view_request \<Rightarrow> explicit_provider \<Rightarrow> (handle_ref \<times> explicit_provider) result" where
  "explicit_make_view decode q p =
     and_then (make_view decode q (ep_inner p)) (\<lambda>(ref, st). Inr (ref, p\<lparr>ep_inner := st\<rparr>))"

definition explicit_discard_view :: "handle_ref \<Rightarrow> explicit_provider \<Rightarrow> explicit_provider result" where
  "explicit_discard_view ref p =
     and_then (discard_view_handle ref (ep_inner p)) (\<lambda>st. Inr (p\<lparr>ep_inner := st\<rparr>))"

definition explicit_materialize ::
  "hashing \<Rightarrow> materialization_request \<Rightarrow> explicit_provider \<Rightarrow> (handle_ref \<times> explicit_provider) result" where
  "explicit_materialize h q p =
     and_then (materialize h q (ep_inner p)) (\<lambda>(ref, st). Inr (ref, p\<lparr>ep_inner := st\<rparr>))"

interpretation explicit: view_provider "\<lambda>p. provider_ok h (ep_inner p)" "\<lambda>p. handle_record (ep_inner p)"
  "\<lambda>p. view_record (ep_inner p)" "explicit_make_view decode" explicit_discard_view
proof
  fix p q ref and p' :: explicit_provider
  assume ok: "provider_ok h (ep_inner p)" and run: "explicit_make_view decode q p = Inr (ref, p')"
  obtain st where inner: "make_view decode q (ep_inner p) = Inr (ref, st)" "p' = p\<lparr>ep_inner := st\<rparr>"
    using run by (auto simp: explicit_make_view_def and_then_ok)
  show "view_record (ep_inner p) (handle ref) = None \<and> handle_record (ep_inner p) (handle ref) = None"
    by (rule mem.make_fresh[OF ok inner(1)])
  show "provider_ok h (ep_inner p') \<and> handle_record (ep_inner p') = handle_record (ep_inner p) \<and>
      (\<exists>v. vh_handle v = ref \<and> view_record (ep_inner p') = (view_record (ep_inner p))(handle ref \<mapsto> v))"
    using mem.make_adds[OF ok inner(1)] inner(2) by simp
next
  fix p :: explicit_provider and ref v
  assume "provider_ok h (ep_inner p)" "view_record (ep_inner p) (handle ref) = Some v" "vh_handle v = ref"
  from mem.discard_removes[OF this]
  show "\<exists>p'. explicit_discard_view ref p = Inr p' \<and> provider_ok h (ep_inner p') \<and>
      handle_record (ep_inner p') = handle_record (ep_inner p) \<and>
      view_record (ep_inner p') = (view_record (ep_inner p))(handle ref := None)"
    by (auto simp: explicit_discard_view_def and_then_ok)
qed

section \<open>The abstract store\<close>

text \<open>One table of live resources and a counter: data resources live for ever, a view needs a live
  parent and may be closed.\<close>

datatype (plugins only: code size) resource = DataResource data_handle_record | ViewResource view_handle_record

record store =
  so_next :: "64 word"
  so_known :: "envelope_key set"
  so_live :: "64 word \<rightharpoonup> resource"

inductive store_step :: "store \<Rightarrow> store \<Rightarrow> bool" where
  store_idle: "store_step s s"
| store_learn: "store_step s (s\<lparr>so_known := insert k (so_known s)\<rparr>)"
| store_open_data: "so_live s (so_next s) = None \<Longrightarrow>
    (dh_schema_fingerprint r, dh_plan_fingerprint r, dh_relation_fingerprint r) \<in> so_known s \<Longrightarrow>
    handle (dh_handle r) = so_next s \<Longrightarrow>
    store_step s (s\<lparr>so_next := so_next s + 1, so_live := (so_live s)(so_next s \<mapsto> DataResource r)\<rparr>)"
| store_open_view: "so_live s (so_next s) = None \<Longrightarrow>
    so_live s (handle (parent_handle v)) = Some (DataResource p) \<Longrightarrow> dh_run_id p = vh_run_id v \<Longrightarrow>
    dh_node_id p = vh_node_id v \<Longrightarrow> dh_phase p = vh_phase v \<Longrightarrow> handle (vh_handle v) = so_next s \<Longrightarrow>
    store_step s (s\<lparr>so_next := so_next s + 1, so_live := (so_live s)(so_next s \<mapsto> ViewResource v)\<rparr>)"
| store_close_view: "so_live s n = Some (ViewResource v) \<Longrightarrow>
    store_step s (s\<lparr>so_live := (so_live s)(n := None)\<rparr>)"

inductive_cases store_stepE: "store_step s s'"

lemma store_data_stays:
  "store_step s s' \<Longrightarrow> so_live s n = Some (DataResource r) \<Longrightarrow> so_live s' n = Some (DataResource r)"
  by (elim store_stepE) auto

definition store_of :: "provider \<Rightarrow> store" where
  "store_of st = \<lparr>so_next = pv_next_handle st, so_known = dom (bm_get (pv_envelopes st)),
     so_live = (\<lambda>n. case bm_get (pv_records st) n of
         Some r \<Rightarrow> Some (DataResource r)
       | None \<Rightarrow> map_option ViewResource (bm_get (pv_view_records st) n))\<rparr>"

lemma store_of_sel [simp]:
  "so_next (store_of st) = pv_next_handle st" "so_known (store_of st) = dom (bm_get (pv_envelopes st))"
  "so_live (store_of st) n = (case bm_get (pv_records st) n of
      Some r \<Rightarrow> Some (DataResource r) | None \<Rightarrow> map_option ViewResource (bm_get (pv_view_records st) n))"
  by (simp_all add: store_of_def)

lemma store_of_fresh: "provider_ok h st \<Longrightarrow> so_live (store_of st) (pv_next_handle st) = None"
  using next_handle_fresh by simp

lemma register_refines:
  assumes "register_envelope h e st = Inr st'"
  shows "store_step (store_of st) (store_of st')"
proof (cases "bm_get (pv_envelopes st) (key_from_envelope e)")
  case None
  then have "store_of st' = (store_of st)\<lparr>so_known := insert (key_from_envelope e) (so_known (store_of st))\<rparr>"
    using assms by (auto simp: register_envelope_ok store_of_def cong: option.case_cong)
  then show ?thesis by (simp only: store_learn)
next
  case (Some existing)
  then show ?thesis using assms by (simp add: register_envelope_ok store_idle)
qed

lemma materialize_refines:
  assumes ok: "provider_ok h st" and run: "materialize h q st = Inr (ref, st')"
  shows "store_step (store_of st) (store_of st')"
proof -
  obtain e where e: "materialize_ready h q st e" "ref = data_ref st"
    "st' = st\<lparr>pv_next_handle := pv_next_handle st + 1,
      pv_records := bm_insert (pv_next_handle st) (data_record q e ref) (pv_records st)\<rparr>"
    using run unfolding materialize_ok by blast
  let ?s = "store_of st" and ?r = "data_record q e ref"
  have "store_of st' = ?s\<lparr>so_next := so_next ?s + 1, so_live := (so_live ?s)(so_next ?s \<mapsto> DataResource ?r)\<rparr>"
    by (auto simp: e(3) store_of_def fun_eq_iff cong: option.case_cong)
  moreover have "(dh_schema_fingerprint ?r, dh_plan_fingerprint ?r, dh_relation_fingerprint ?r) \<in> so_known ?s"
    "handle (dh_handle ?r) = so_next ?s"
    using e(1,2) by (auto simp: data_record_def Let_def materialize_ready_def key_from_binding_def data_ref_def)
  ultimately show ?thesis
    using store_open_data[of ?s ?r] store_of_fresh[OF ok] by simp
qed

lemma make_view_refines:
  assumes ok: "provider_ok h st" and run: "make_view decode q st = Inr (ref, st')"
  shows "store_step (store_of st) (store_of st')"
proof -
  obtain p where p: "view_ready decode q st p" "ref = view_ref st"
    "st' = st\<lparr>pv_next_handle := pv_next_handle st + 1,
      pv_view_records := bm_insert (pv_next_handle st) (view_of_request q ref) (pv_view_records st)\<rparr>"
    using run unfolding make_view_ok by blast
  let ?s = "store_of st" and ?v = "view_of_request q ref"
  have "store_of st' = ?s\<lparr>so_next := so_next ?s + 1, so_live := (so_live ?s)(so_next ?s \<mapsto> ViewResource ?v)\<rparr>"
    using next_handle_fresh[OF ok] by (auto simp: p(3) store_of_def fun_eq_iff split: option.splits)
  moreover have "so_live ?s (handle (parent_handle ?v)) = Some (DataResource p)" "dh_run_id p = vh_run_id ?v"
    "dh_node_id p = vh_node_id ?v" "dh_phase p = vh_phase ?v" "handle (vh_handle ?v) = so_next ?s"
    using p(1,2) by (auto simp: view_ready_def view_of_request_def parent_scope_matches_def view_ref_def)
  ultimately show ?thesis
    using store_open_view[of ?s ?v p] store_of_fresh[OF ok] by simp
qed

lemma discard_refines:
  assumes ok: "provider_ok h st" and run: "discard_view_handle ref st = Inr st'"
  shows "store_step (store_of st) (store_of st')"
proof -
  have st': "st' = st\<lparr>pv_view_records := bm_retain (\<lambda>k. k \<noteq> handle ref) (pv_view_records st)\<rparr>"
    using run by (simp add: discard_view_ok)
  show ?thesis
  proof (cases "bm_get (pv_view_records st) (handle ref)")
    case None
    then have "store_of st' = store_of st"
      by (auto simp: st' store_of_def bm_get_retain fun_eq_iff split: option.splits)
    then show ?thesis by (simp add: store_idle)
  next
    case (Some v)
    then have free: "bm_get (pv_records st) (handle ref) = None"
      using provider_ok_view[OF ok] by (simp add: view_entry_ok_def)
    then have "so_live (store_of st) (handle ref) = Some (ViewResource v)" using Some by simp
    moreover have "store_of st' = (store_of st)\<lparr>so_live := (so_live (store_of st))(handle ref := None)\<rparr>"
      using free by (auto simp: st' store_of_def bm_get_retain fun_eq_iff split: option.splits)
    ultimately show ?thesis using store_close_view by metis
  qed
qed

lemma provider_step_refines:
  "provider_step h decode st given st' \<Longrightarrow> provider_ok h st \<Longrightarrow> store_step (store_of st) (store_of st')"
  by (cases rule: provider_step.cases)
    (auto intro: register_refines materialize_refines make_view_refines discard_refines)

section \<open>Properties\<close>

text \<open>whatever sequence of calls the provider has served, its tables are consistent: handles are
  below the counter and name their own entry and owner, no handle is both a data and a view handle,
  each data handle's envelope is registered and valid, and each view's parent is a data handle of
  the same run, node, input and phase.\<close>

theorem provider_runs_ok:
  assumes "provider_run h decode owner refs st"
  shows "provider_ok h st"
  using assms by (rule provider_ok_run)

text \<open>C15: the handles of a run are numbered 1, 2, 3, ... in the order they are given, whatever was
  registered or discarded in between: no handle is ever given twice, and all carry the provider's
  owner.\<close>

theorem provider_handles_numbered:
  assumes "provider_run h decode owner refs st"
  shows "map (\<lambda>ref. unat (handle ref)) refs = [1..<Suc (length refs)] \<and>
    distinct (map handle refs) \<and> (\<forall>ref \<in> set refs. owner_controller ref = owner)"
proof -
  have n: "map (\<lambda>ref. unat (handle ref)) refs = [1..<Suc (length refs)]"
    "\<forall>ref \<in> set refs. owner_controller ref = owner"
    using provider_run_numbering[OF assms] by blast+
  then have "distinct (map unat (map handle refs))" by (simp add: comp_def)
  then show ?thesis using n distinct_map by blast
qed

text \<open>C14: the in-memory provider refines the one-table store: every successful call of a run is a step
  of the store (idle, learn a key, open a data resource under a known key, open a view on a live data
  resource of the same run, node and phase, or close a view), so a data resource never disappears and
  only views are closed.\<close>

theorem provider_refines_store:
  assumes "provider_run h decode owner refs st" "provider_step h decode st given st'"
  shows "store_step (store_of st) (store_of st') \<and>
    (\<forall>n r. so_live (store_of st) n = Some (DataResource r) \<longrightarrow> so_live (store_of st') n = Some (DataResource r))"
proof -
  have ok: "provider_ok h st" using assms(1) by (rule provider_ok_run)
  have step: "store_step (store_of st) (store_of st')" using provider_step_refines[OF assms(2) ok] .
  moreover have "so_live (store_of st') n = Some (DataResource r)"
    if "so_live (store_of st) n = Some (DataResource r)" for n r
    using store_data_stays[OF step that] .
  ultimately show ?thesis by blast
qed

text \<open>rolling a view back is exact: discarding the handle that a \<open>make_view\<close> of a reachable
  provider returned succeeds and leaves both tables as they were before it.\<close>

theorem make_view_rollback:
  assumes "provider_run h decode owner refs st" "make_view decode q st = Inr (ref, st1)"
  shows "\<exists>st2. discard_view_handle ref st1 = Inr st2 \<and>
    view_record st2 = view_record st \<and> handle_record st2 = handle_record st"
  using mem.rollback[OF provider_ok_run[OF assms(1)] assms(2)] by blast

text \<open>C16: a well-formed request is always served: once a binding's envelope is registered, the data
  materializes, and every valid view requested on the returned handle in the same scope is made, as
  long as two handles are left.\<close>

theorem provider_serves_requests:
  assumes "materialize_ready h q st e" and "unat (pv_next_handle st) < 2 ^ 64 - 2"
    and "view_spec_validate decode (vr_view w) = Inr ()" and "vr_binding w = mr_binding q"
    and "vr_node_id w = mr_node_id q" "vr_input_name w = mr_input_name q"
    and "vr_run_id w = mr_run_id q" "vr_phase w = mr_phase q"
    and "vr_data_handle w = data_ref st"
  shows "\<exists>st1 st2. materialize h q st = Inr (data_ref st, st1) \<and>
    make_view decode w st1 = Inr (view_ref st1, st2) \<and> handle (view_ref st1) = handle (data_ref st) + 1"
proof -
  have room: "pv_next_handle st \<noteq> - 1" "pv_next_handle st + 1 \<noteq> - 1"
  proof -
    have max: "unat (- 1 :: 64 word) = 2 ^ 64 - 1" by (simp add: unsigned_minus_1_eq_mask mask_eq_exp_minus_1)
    then show "pv_next_handle st \<noteq> - 1" using assms(2) by auto
    from next_handle_increases(2)[OF this] have "unat (pv_next_handle st + 1) \<noteq> unat (- 1 :: 64 word)"
      using assms(2) max by linarith
    then show "pv_next_handle st + 1 \<noteq> - 1" by metis
  qed
  let ?st1 = "st\<lparr>pv_next_handle := pv_next_handle st + 1,
    pv_records := bm_insert (pv_next_handle st) (data_record q e (data_ref st)) (pv_records st)\<rparr>"
  have "materialize h q st = Inr (data_ref st, ?st1)"
    unfolding materialize_ok using assms(1) room(1) by blast
  moreover have "view_ready decode w ?st1 (data_record q e (data_ref st))"
    using assms by (simp add: view_ready_def materialize_ready_def data_ref_def data_record_def Let_def
      parent_scope_matches_def validate_envelope_ok)
  then have "\<exists>st2. make_view decode w ?st1 = Inr (view_ref ?st1, st2)"
    unfolding make_view_ok using room(2) by auto
  moreover have "handle (view_ref ?st1) = handle (data_ref st) + 1" by (simp add: view_ref_def data_ref_def)
  ultimately show ?thesis by blast
qed

section \<open>Witnesses\<close>

definition demo_envelope :: envelope where
  "demo_envelope = \<lparr>en_schema_version = 1, en_schema_fingerprint = demo_fingerprint,
     en_plan_fingerprint = demo_fingerprint, en_relation_fingerprint = None,
     en_data_content_fingerprint = None, en_target_content_fingerprint = None,
     coordinator_relations = None, en_predict_cohort = None\<rparr>"

definition demo_data_request :: materialization_request where
  "demo_data_request = \<lparr>mr_run_id = Ident ''run'', mr_node_id = Ident ''model'', mr_input_name = ''x'',
     mr_phase = FitCv, mr_variant_id = None, mr_fold_id = None, mr_binding = demo_binding,
     mr_predict_cohort = None\<rparr>"

definition demo_provider :: provider where
  "demo_provider = (provider_new (Ident ''host''))
     \<lparr>pv_envelopes := [(key_from_envelope demo_envelope, demo_envelope)]\<rparr>"

definition demo_view_request :: view_request where
  "demo_view_request = \<lparr>vr_run_id = Ident ''run'', vr_node_id = Ident ''model'', vr_input_name = ''x'',
     vr_phase = FitCv, vr_variant_id = None, vr_fold_id = None, vr_binding = demo_binding,
     vr_data_handle = data_ref demo_provider, vr_view = demo_predict_view, vr_view_key = ''k'',
     vr_view_seed = None, vr_predict_cohort = None\<rparr>"

lemma demo_envelope_valid: "envelope_validate demo_hashing demo_envelope = Inr ()"
  by code_simp

lemma demo_ready: "materialize_ready demo_hashing demo_data_request demo_provider demo_envelope"
proof -
  have "validate_envelope demo_hashing demo_binding demo_envelope = Inr ()"
    unfolding validate_envelope_ok using demo_binding_valid(1) demo_envelope_valid
    by (simp add: demo_binding_def demo_envelope_def)
  then show ?thesis
    by (simp add: materialize_ready_def demo_data_request_def demo_provider_def key_from_binding_def
      key_from_envelope_def demo_binding_def demo_envelope_def bm_get_def)
qed

lemma demo_provider_run: "provider_run demo_hashing demo_decode (Ident ''host'') [] demo_provider"
proof -
  have "register_envelope demo_hashing demo_envelope (provider_new (Ident ''host'')) = Inr demo_provider"
    by (simp add: register_envelope_ok demo_envelope_valid provider_new_def demo_provider_def)
  from run_step[OF run_new registers[OF this]] show ?thesis by simp
qed

lemma demo_next: "pv_next_handle demo_provider = 1"
  by (simp add: demo_provider_def provider_new_def)

lemma provider_serves_requests_witness:
  "\<exists>st1 st2. materialize demo_hashing demo_data_request demo_provider = Inr (data_ref demo_provider, st1) \<and>
     make_view demo_decode demo_view_request st1 = Inr (view_ref st1, st2)"
proof -
  have "unat (pv_next_handle demo_provider) < 2 ^ 64 - 2" by (simp add: demo_next)
  moreover have "view_spec_validate demo_decode (vr_view demo_view_request) = Inr ()" by code_simp
  ultimately show ?thesis
    using provider_serves_requests[OF demo_ready, of demo_decode demo_view_request]
    by (auto simp: demo_view_request_def demo_data_request_def)
qed

text \<open>A run that hands out a data handle and a view on it.\<close>

lemma demo_full_run:
  obtains st1 st2 where "materialize demo_hashing demo_data_request demo_provider = Inr (data_ref demo_provider, st1)"
    "provider_run demo_hashing demo_decode (Ident ''host'') [data_ref demo_provider] st1"
    "make_view demo_decode demo_view_request st1 = Inr (view_ref st1, st2)"
    "provider_run demo_hashing demo_decode (Ident ''host'') [data_ref demo_provider, view_ref st1] st2"
proof -
  let ?st1 = "demo_provider\<lparr>pv_next_handle := 2,
    pv_records := bm_insert 1 (data_record demo_data_request demo_envelope (data_ref demo_provider)) []\<rparr>"
  have mat: "materialize demo_hashing demo_data_request demo_provider = Inr (data_ref demo_provider, ?st1)"
    using demo_ready by (auto simp: materialize_ok demo_next demo_provider_def provider_new_def)
  have valid: "view_spec_validate demo_decode demo_predict_view = Inr ()" by code_simp
  have "view_ready demo_decode demo_view_request ?st1
      (data_record demo_data_request demo_envelope (data_ref demo_provider))"
    using valid demo_binding_valid(1)
    by (simp add: view_ready_def demo_view_request_def demo_data_request_def data_record_def Let_def
      parent_scope_matches_def data_ref_def demo_next bm_get_def) (simp add: demo_binding_def)
  then obtain st2 where view: "make_view demo_decode demo_view_request ?st1 = Inr (view_ref ?st1, st2)"
    by (auto simp: make_view_ok)
  have run1: "provider_run demo_hashing demo_decode (Ident ''host'') [data_ref demo_provider] ?st1"
    using run_step[OF demo_provider_run materializes[OF mat]] by simp
  from run_step[OF this makes_view[OF view]]
  have "provider_run demo_hashing demo_decode (Ident ''host'') [data_ref demo_provider, view_ref ?st1] st2"
    by simp
  with mat run1 view show thesis by (rule that)
qed

lemma provider_runs_ok_witness:
  "\<exists>st. provider_run demo_hashing demo_decode (Ident ''host'') [data_ref demo_provider] st \<and> provider_ok demo_hashing st"
  by (rule demo_full_run) (use provider_runs_ok in blast)

lemma provider_handles_numbered_witness:
  "\<exists>refs st. provider_run demo_hashing demo_decode (Ident ''host'') refs st \<and> length refs = 2 \<and>
     map (\<lambda>ref. unat (handle ref)) refs = [1, 2]"
proof (rule demo_full_run)
  fix st1 st2
  assume "provider_run demo_hashing demo_decode (Ident ''host'') [data_ref demo_provider, view_ref st1] st2"
  with provider_handles_numbered[OF this] show ?thesis by (intro exI conjI) auto
qed

lemma provider_refines_store_witness:
  "\<exists>st st'. provider_step demo_hashing demo_decode st (Some (view_ref st)) st' \<and> store_step (store_of st) (store_of st')"
proof (rule demo_full_run)
  fix st1 st2
  assume "provider_run demo_hashing demo_decode (Ident ''host'') [data_ref demo_provider] st1"
    "make_view demo_decode demo_view_request st1 = Inr (view_ref st1, st2)"
  with provider_refines_store[OF this(1) makes_view[OF this(2)]] makes_view[OF this(2), of demo_hashing]
  show ?thesis by blast
qed

lemma make_view_rollback_witness:
  "\<exists>st st1 st2. make_view demo_decode demo_view_request st = Inr (view_ref st, st1) \<and>
     discard_view_handle (view_ref st) st1 = Inr st2 \<and> view_record st2 = view_record st"
proof (rule demo_full_run)
  fix st1 st2
  assume "provider_run demo_hashing demo_decode (Ident ''host'') [data_ref demo_provider] st1"
    "make_view demo_decode demo_view_request st1 = Inr (view_ref st1, st2)"
  with make_view_rollback[OF this] show ?thesis by blast
qed

end
