(* ===== verification/DataProofs.thy ===== *)
theory DataProofs
  imports ProviderContract
begin

text \<open>
  What the data contracts of \<open>data.rs\<close> guarantee: predict cohorts are determined by their relations
  and stay outside the cross-validation universe, a validated data plan runs in order, and a
  compatibility report says what its outcome means.
\<close>

section \<open>Predict cohorts\<close>

text \<open>C23: a cohort is exactly what its constructor derives from its relations: with a 32-byte digest, a
  cohort validates if and only if rebuilding it from its own role, relations, target names and content
  fingerprints gives the same cohort back (so no list can be reordered, dropped or forged).\<close>

theorem cohort_validate_rebuild:
  assumes "\<And>m. length (sha256_of h m) = 32"
  shows "cohort_validate h c = Inr () \<longleftrightarrow>
    from_relations h (pc_role c) (pc_relations c) (pc_target_names c)
      (pc_data_content_fingerprint c) (pc_target_content_fingerprint c) = Inr c"
proof -
  let ?r = "from_relations h (pc_role c) (pc_relations c) (pc_target_names c)
      (pc_data_content_fingerprint c) (pc_target_content_fingerprint c)"
  have ok: "?r = Inr d \<longleftrightarrow> (\<exists>relation_fp fp e. e = \<lparr>pc_role = pc_role c, physical_sample_ids = relation_samples (pc_relations c),
      origin_sample_ids = relation_origins (pc_relations c), pc_target_names = pc_target_names c,
      pc_relation_fingerprint = relation_fp, pc_relations = pc_relations c,
      pc_data_content_fingerprint = pc_data_content_fingerprint c,
      pc_target_content_fingerprint = pc_target_content_fingerprint c, cohort_fingerprint = []\<rparr> \<and>
      relations_validate (pc_relations c) = Inr () \<and> relation_fingerprint_of h (pc_relations c) = Inr relation_fp \<and>
      cohort_members_ok h e \<and>
      stable_json_fingerprint (cohort_bytes h) (sha256_of h) (cohort_content.truncate e) = Inr fp \<and>
      d = e\<lparr>cohort_fingerprint := fp\<rparr>)" for d
    unfolding from_relations_def Let_def and_then_ok validate_members_ok cohort_fingerprint_of_ok by auto
  have hex: "is_hex_fingerprint fp" if "stable_json_fingerprint (cohort_bytes h) (sha256_of h) x = Inr fp" for x fp
    using that assms is_hex_fingerprint_bytes_to_hex by (auto simp: stable_json_fingerprint_def and_then_ok)
  show ?thesis
  proof
    assume valid: "cohort_validate h c = Inr ()"
    let ?e = "c\<lparr>cohort_fingerprint := []\<rparr>"
    have "?e = \<lparr>pc_role = pc_role c, physical_sample_ids = relation_samples (pc_relations c),
        origin_sample_ids = relation_origins (pc_relations c), pc_target_names = pc_target_names c,
        pc_relation_fingerprint = pc_relation_fingerprint c, pc_relations = pc_relations c,
        pc_data_content_fingerprint = pc_data_content_fingerprint c,
        pc_target_content_fingerprint = pc_target_content_fingerprint c, cohort_fingerprint = []\<rparr>"
      using valid by (cases c) (simp add: cohort_validate_ok cohort_members_ok_def)
    moreover have "cohort_members_ok h ?e" "relations_validate (pc_relations c) = Inr ()"
        "relation_fingerprint_of h (pc_relations c) = Inr (pc_relation_fingerprint c)"
      using valid by (simp_all add: cohort_validate_ok cohort_members_ok_def)
    moreover have "stable_json_fingerprint (cohort_bytes h) (sha256_of h) (cohort_content.truncate ?e)
        = Inr (cohort_fingerprint c)"
      using valid by (simp add: cohort_validate_ok cohort_content.truncate_def)
    moreover have "c = ?e\<lparr>cohort_fingerprint := cohort_fingerprint c\<rparr>" by (cases c) simp
    ultimately show "?r = Inr c"
      unfolding ok by blast
  next
    assume "?r = Inr c"
    then obtain e fp where e: "cohort_members_ok h e" "c = e\<lparr>cohort_fingerprint := fp\<rparr>"
      "stable_json_fingerprint (cohort_bytes h) (sha256_of h) (cohort_content.truncate e) = Inr fp"
      unfolding ok by blast
    have "cohort_members_ok h c" "cohort_content.truncate c = cohort_content.truncate e"
      using e(1,2) by (simp_all add: cohort_members_ok_def cohort_content.truncate_def)
    then show "cohort_validate h c = Inr ()"
      unfolding cohort_validate_ok using e(2,3) hex by simp
  qed
qed

lemma cohort_validate_rebuild_witness:
  "cohort_validate demo_hashing demo_cohort = Inr () \<and>
   from_relations demo_hashing ExternalTest [demo_row ''o9'' ''z'' None] [''y''] demo_fingerprint
     (Some demo_fingerprint) = Inr demo_cohort"
proof -
  have "\<And>m. length (sha256_of demo_hashing m) = 32" by (simp add: demo_hashing_def)
  from cohort_validate_rebuild[of demo_hashing demo_cohort, OF this] show ?thesis
    using demo_cohort_valid by (simp add: demo_cohort_def)
qed

lemma envelope_validate_cohort:
  assumes "envelope_validate h e = Inr ()" "en_predict_cohort e = Some c"
  shows "cohort_validate h c = Inr ()"
    and "pc_role c = ExternalTest \<Longrightarrow>
      \<exists>cv. coordinator_relations e = Some cv \<and> validate_against_cv_relations h c cv = Inr ()"
  using assms by (auto simp: envelope_validate_def envelope_cohort_check_def and_then_ok check_option_ok split: if_splits)

text \<open>C12: an envelope cannot smuggle training data into an external test: in a validated envelope that
  carries an external-test cohort, no sample or origin of the cohort is a sample or an origin of the
  coordinator relations, which must be there; the cohort carries target content, and the envelope is
  V2.\<close>

theorem external_test_outside_cv:
  assumes "envelope_validate h e = Inr ()" "en_predict_cohort e = Some c" "pc_role c = ExternalTest"
  shows "en_schema_version e = envelope_v2 \<and> pc_target_content_fingerprint c \<noteq> None \<and>
    (\<exists>cv. coordinator_relations e = Some cv \<and> identity_closure (pc_relations c) \<inter> identity_closure cv = {})"
proof -
  obtain cv where cv: "coordinator_relations e = Some cv" "validate_against_cv_relations h c cv = Inr ()"
    using envelope_validate_cohort(2)[OF assms] by blast
  have members: "cohort_members_ok h c"
    using envelope_validate_cohort(1)[OF assms(1,2)] by (simp add: cohort_validate_ok)
  have "set (cohort_identities c) \<inter> identity_closure cv = {}"
    using cv(2) assms(3) by (simp add: validate_against_cv_relations_ok)
  then have "identity_closure (pc_relations c) \<inter> identity_closure cv = {}"
    by (simp add: cohort_identities_closure[OF members])
  moreover have "envelope_version_check e = Inr ()" using assms(1) by (simp add: envelope_validate_def and_then_ok)
  then have "en_schema_version e = envelope_v2" using assms(2) by (auto simp: envelope_version_check_def and_then_ok)
  moreover have "pc_target_content_fingerprint c \<noteq> None" using members assms(3) by (simp add: cohort_members_ok_def)
  ultimately show ?thesis using cv(1) by blast
qed

definition demo_test_envelope :: envelope where
  "demo_test_envelope = demo_envelope\<lparr>en_schema_version := 2, coordinator_relations := Some demo_relations,
     en_predict_cohort := Some demo_cohort\<rparr>"

lemma external_test_outside_cv_witness:
  "envelope_validate demo_hashing demo_test_envelope = Inr () \<and>
   identity_closure (pc_relations demo_cohort) \<inter> identity_closure demo_relations = {}"
proof -
  have cv: "relations_validate demo_relations = Inr ()" by (simp add: relations_validate_ok demo_relations_wf)
  have disj: "validate_against_cv_relations demo_hashing demo_cohort demo_relations = Inr ()"
    unfolding validate_against_cv_relations_ok using demo_cohort_valid cv
    by (auto simp: cohort_identities_def demo_cohort_def identity_closure_def demo_relations_def demo_row_sel)
  have ok: "envelope_validate demo_hashing demo_test_envelope = Inr ()"
    using demo_envelope_valid demo_cohort_valid disj cv
    by (auto simp: envelope_validate_def demo_test_envelope_def and_then_ok envelope_version_check_def
      envelope_v1_def envelope_v2_def envelope_cohort_check_def demo_envelope_def)
  moreover have "en_predict_cohort demo_test_envelope = Some demo_cohort" "pc_role demo_cohort = ExternalTest"
    by (simp_all add: demo_test_envelope_def demo_cohort_def)
  moreover have "coordinator_relations demo_test_envelope = Some demo_relations" by (simp add: demo_test_envelope_def)
  ultimately show ?thesis using external_test_outside_cv[of demo_hashing demo_test_envelope demo_cohort] by auto
qed

section \<open>Data plans\<close>

text \<open>C24: a data plan validates exactly when it can be run in order: every step other than a
  materialization has inputs and reads only outputs of earlier steps, no output is produced twice, every
  output port names a produced output, and its strings are present; the schema version is 1.\<close>

theorem data_plan_validate_spec:
  "data_plan_validate p = Inr () \<longleftrightarrow>
     dp_schema_version p = 1 \<and> \<not> is_blank (dp_id p) \<and> dp_steps p \<noteq> [] \<and> output_ports p \<noteq> [] \<and>
     runnable {} (dp_steps p) \<and> list_all step_fields_ok (dp_steps p) \<and>
     list_all (\<lambda>(port, output). \<not> is_blank port \<and> \<not> is_blank output \<and>
       output \<in> step_output ` set (dp_steps p)) (output_ports p) \<and>
     \<not> list_ex is_blank (dp_warnings p @ requires_user_choice p @ bm_keys (dp_metadata p))"
proof -
  have port: "output_port_check p produced x = Inr u \<longleftrightarrow>
      \<not> is_blank (fst x) \<and> \<not> is_blank (snd x) \<and> snd x \<in> produced" for produced x u
    by (auto simp: output_port_check_def and_then_ok validate_non_empty_ok case_prod_beta)
  have "data_plan_validate p = Inr () \<longleftrightarrow>
      dp_schema_version p = 1 \<and> \<not> is_blank (dp_id p) \<and> dp_steps p \<noteq> [] \<and>
      (\<exists>produced. try_fold (data_plan_add_step p) {} (dp_steps p) = Inr produced \<and> output_ports p \<noteq> [] \<and>
        (\<forall>x \<in> set (output_ports p). \<not> is_blank (fst x) \<and> \<not> is_blank (snd x) \<and> snd x \<in> produced)) \<and>
      (\<forall>w \<in> set (dp_warnings p). \<not> is_blank w) \<and> (\<forall>w \<in> set (requires_user_choice p). \<not> is_blank w) \<and>
      (\<forall>k \<in> set (bm_keys (dp_metadata p)). \<not> is_blank k)"
    by (auto simp: data_plan_validate_def and_then_ok validate_non_empty_ok validate_string_list_entries_ok
      validate_keys_ok try_each_ok port data_plan_schema_version_def)
  then show ?thesis
    unfolding data_plan_fold_ok by (auto simp: list_all_iff list_ex_iff case_prod_beta)
qed

section \<open>Compatibility reports\<close>

definition units_affected :: "compatibility_report \<Rightarrow> bool" where
  "units_affected r \<longleftrightarrow> affected_source_count r \<noteq> 0 \<or> affected_repetition_count r \<noteq> 0 \<or> affected_sample_count r \<noteq> 0"

text \<open>a validated compatibility report means what its outcome says, whatever the counters (their
  sum saturates and cannot wrap to zero): compatible means no unit is affected, equal relation
  fingerprints and equal unit counts; compatible with fallback means some unit is affected, the policy
  is not strict, a warning level and a fallback are declared; incompatible never declares a fallback.\<close>

theorem compatibility_report_meaning:
  "case compatibility_report_validate r of
     Inl _ \<Rightarrow> True
   | Inr _ \<Rightarrow> (case outcome r of
       Compatible \<Rightarrow> \<not> units_affected r \<and> \<not> relation_fingerprint_changed r \<and> \<not> unit_count_changed r \<and>
         warning_severity r = None
     | CompatibleWithFallback \<Rightarrow> units_affected r \<and> cr_policy r \<noteq> MissStrict \<and>
         warning_severity r \<noteq> None \<and> fallback_used r \<noteq> None
     | Incompatible \<Rightarrow> fallback_used r = None)"
proof (cases "compatibility_report_validate r")
  case (Inr u)
  then have checks: "affected_check r = Inr ()" "\<not> (outcome r = Incompatible \<and> fallback_used r \<noteq> None)"
    by (simp_all add: compatibility_report_validate_def and_then_ok)
  have zero: "affected_total r = 0 \<longleftrightarrow> \<not> units_affected r"
    by (auto simp: affected_total_zero units_affected_def)
  show ?thesis
    using checks Inr unfolding affected_check_def zero
    by (cases "outcome r") (auto simp: and_then_ok split: if_splits)
qed simp

end
