(* ===== verification/KeyedRegistry.thy ===== *)
theory KeyedRegistry
  imports Checks
begin

text \<open>
  Registries that are filled one entry at a time: an entry is checked, its key must be free, and it is
  stored under its key. The laws below hold for every such registry; the attested provider's bindings
  and the controller registry are instances.
\<close>

locale keyed_registry =
  fixes key :: "'e \<Rightarrow> 'k::linorder" and admitted :: "'e \<Rightarrow> bool"
    and add :: "('k, 'e) btree_map \<Rightarrow> 'e \<Rightarrow> 'f + ('k, 'e) btree_map"
  assumes add_ok: "add m x = Inr m' \<longleftrightarrow> admitted x \<and> bm_get m (key x) = None \<and> m' = bm_insert (key x) x m"
begin

definition by_key :: "'e list \<Rightarrow> 'k \<rightharpoonup> 'e" where
  "by_key xs = map_of (map (\<lambda>x. (key x, x)) xs)"

lemma by_key_Cons:
  assumes "key x \<notin> key ` set xs"
  shows "m(key x \<mapsto> x) ++ by_key xs = m ++ by_key (x # xs)"
proof -
  have "map_of (map (\<lambda>x. (key x, x)) xs) (key x) = None" using assms by (auto simp: map_of_eq_None_iff)
  then show ?thesis by (auto simp: by_key_def fun_eq_iff map_add_def split: option.splits)
qed

lemma by_key_SomeD: "by_key xs k = Some x \<Longrightarrow> x \<in> set xs \<and> key x = k"
  using map_of_SomeD[of "map (\<lambda>x. (key x, x)) xs" k x] by (auto simp: by_key_def)

lemma by_key_mem: "distinct (map key xs) \<Longrightarrow> x \<in> set xs \<Longrightarrow> by_key xs (key x) = Some x"
  unfolding by_key_def by (rule map_of_is_SomeI) (auto simp: comp_def)

lemma dom_by_key: "dom (by_key xs) = key ` set xs"
  by (simp add: by_key_def dom_map_of_conv_image_fst image_image)

lemma add_all_ok:
  "bm_ok m \<Longrightarrow> try_fold add m xs = Inr m' \<longleftrightarrow>
     (\<forall>x \<in> set xs. admitted x) \<and> distinct (map key xs) \<and> key ` set xs \<inter> dom (bm_get m) = {} \<and>
     bm_ok m' \<and> bm_get m' = bm_get m ++ by_key xs"
proof (induction xs arbitrary: m)
  case Nil
  then show ?case using bm_ext[of m m'] by (auto simp: by_key_def)
next
  case (Cons x xs)
  let ?m = "bm_insert (key x) x m"
  have dom: "dom ((bm_get m)(key x \<mapsto> x)) = insert (key x) (dom (bm_get m))" by simp
  have "try_fold add m (x # xs) = Inr m' \<longleftrightarrow> admitted x \<and> bm_get m (key x) = None \<and> try_fold add ?m xs = Inr m'"
    by (auto simp: and_then_ok add_ok)
  also have "\<dots> \<longleftrightarrow> admitted x \<and> bm_get m (key x) = None \<and> (\<forall>x \<in> set xs. admitted x) \<and> distinct (map key xs) \<and>
      key ` set xs \<inter> insert (key x) (dom (bm_get m)) = {} \<and> bm_ok m' \<and>
      bm_get m' = (bm_get m)(key x \<mapsto> x) ++ by_key xs"
    unfolding Cons.IH[OF bm_ok_insert[OF Cons.prems]] bm_get_insert dom by (rule refl)
  also have "\<dots> \<longleftrightarrow> (\<forall>y \<in> set (x # xs). admitted y) \<and> distinct (map key (x # xs)) \<and>
      key ` set (x # xs) \<inter> dom (bm_get m) = {} \<and> bm_ok m' \<and> bm_get m' = bm_get m ++ by_key (x # xs)"
    using by_key_Cons[of x xs "bm_get m"] by (cases "key x \<in> key ` set xs") auto
  finally show ?case .
qed

lemma fill_ok:
  "try_fold add [] xs = Inr m \<longleftrightarrow>
     (\<forall>x \<in> set xs. admitted x) \<and> distinct (map key xs) \<and> bm_ok m \<and> bm_get m = by_key xs"
  by (simp add: add_all_ok)

lemma fill_total:
  assumes "\<forall>x \<in> set xs. admitted x" "distinct (map key xs)"
  shows "\<exists>m. try_fold add [] xs = Inr m"
proof -
  have "bm_get (bm_collect (map (\<lambda>x. (key x, x)) xs)) = by_key xs"
    unfolding by_key_def by (rule bm_get_collect_distinct) (simp add: comp_def assms(2))
  then have "try_fold add [] xs = Inr (bm_collect (map (\<lambda>x. (key x, x)) xs))"
    using assms by (simp add: fill_ok)
  then show ?thesis by blast
qed

text \<open>What a filled registry holds.\<close>

lemma fill_entries:
  assumes "try_fold add [] xs = Inr m"
  shows "set m = (\<lambda>x. (key x, x)) ` set xs"
proof -
  have ok: "bm_ok m" "bm_get m = by_key xs" "distinct (map key xs)" using assms by (simp_all add: fill_ok)
  have entry: "(k, x) \<in> set m \<longleftrightarrow> bm_get m k = Some x" for k x
    using bm_ok_distinct[OF ok(1)] by (simp add: bm_get_def)
  have "(k, x) \<in> set m \<longleftrightarrow> (k, x) \<in> (\<lambda>x. (key x, x)) ` set xs" for k x
  proof -
    have "(k, x) \<in> set m \<longleftrightarrow> by_key xs k = Some x" by (simp only: entry ok(2))
    also have "\<dots> \<longleftrightarrow> x \<in> set xs \<and> key x = k" using by_key_SomeD[of xs k x] by_key_mem[OF ok(3), of x] by auto
    finally show ?thesis by auto
  qed
  then show ?thesis by auto
qed

text \<open>The order of the additions is not observable.\<close>

lemma fill_permuted:
  assumes "try_fold add [] xs = Inr m" "mset xs = mset ys"
  shows "try_fold add [] ys = Inr m"
proof -
  have "set xs = set ys" using assms(2) by (rule mset_eq_setD)
  moreover have "distinct (map key ys)"
    using assms by (metis fill_ok mset_map mset_eq_imp_distinct_iff)
  moreover have "by_key xs = by_key ys"
  proof
    fix k
    show "by_key xs k = by_key ys k"
      using calculation assms(1) by_key_SomeD[of xs k] by_key_SomeD[of ys k] by_key_mem
      by (metis fill_ok option.exhaust)
  qed
  ultimately show ?thesis using assms(1) by (simp add: fill_ok)
qed

end

end
