(* ===== verification/AttestedProvider.thy ===== *)
theory AttestedProvider
  imports DataProofs KeyedRegistry
begin

text \<open>
  \<open>EnvelopeAttestedRuntimeDataProvider\<close> (\<open>runtime/dataview.rs\<close>): the wrapper that delegates to a host
  provider only for bindings attested by an envelope; and \<open>TrainingDataIdentity\<close> (\<open>training.rs\<close>), the
  signed content identity it hands out. The host provider's operations are arguments. The JSON text
  of an identity (serde_json) is the parameter \<open>identity_json\<close>.
\<close>

section \<open>Training data identities\<close>

record training_data_identity =
  ti_requirement_key :: string
  ti_schema_fingerprint :: string
  ti_plan_fingerprint :: string
  ti_relation_fingerprint :: string
  ti_data_content_fingerprint :: string
  ti_target_content_fingerprint :: string
  identity_fingerprint :: string

record signing =
  identity_json :: "training_data_identity \<Rightarrow> string result"
  signing_nfc :: "string \<Rightarrow> string"
  signing_sha256 :: digest

abbreviation training_err :: "training_msg \<Rightarrow> 'a result" where
  "training_err m \<equiv> fail (CampaignValidation (TrainingMsg m))"

abbreviation training_error :: "training_msg \<Rightarrow> dag_ml_error failure" where
  "training_error m \<equiv> Err (CampaignValidation (TrainingMsg m))"

definition tcv1_fingerprint_without :: "signing \<Rightarrow> string \<Rightarrow> string \<Rightarrow> string \<Rightarrow> string result" where
  "tcv1_fingerprint_without s json field label =
     map_error (\<lambda>_. RuntimeValidation (OutsideTcv1 label))
       (and_then (parse_typed_json (signing_nfc s) json)
         (\<lambda>v. fingerprint_without (signing_sha256 s) (signing_nfc s) v field))"

definition identity_compute_fingerprint :: "signing \<Rightarrow> training_data_identity \<Rightarrow> string result" where
  "identity_compute_fingerprint s i =
     and_then (identity_json s i) (\<lambda>json.
       tcv1_fingerprint_without s json ''identity_fingerprint'' ''training data identity'')"

definition training_sha256_check :: "string \<Rightarrow> string \<Rightarrow> unit result" where
  "training_sha256_check label value =
     reject_if (\<not> is_hex_fingerprint value) (training_error (TrainingFingerprintInvalid label))"

definition identity_validate :: "signing \<Rightarrow> training_data_identity \<Rightarrow> unit result" where
  "identity_validate s i = checks [
     reject_if (is_blank (ti_requirement_key i)) (training_error (TrainingStringEmpty ''training data requirement_key'')),
     try_each (\<lambda>(label, v). training_sha256_check label v)
       [(''training data schema'', ti_schema_fingerprint i), (''training data plan'', ti_plan_fingerprint i),
        (''training data relation'', ti_relation_fingerprint i),
        (''training data content'', ti_data_content_fingerprint i),
        (''training target content'', ti_target_content_fingerprint i),
        (''training data identity'', identity_fingerprint i)],
     and_then (identity_compute_fingerprint s i) (\<lambda>fp.
       reject_if (identity_fingerprint i \<noteq> fp) (training_error (IdentityFingerprintMismatch (ti_requirement_key i))))]"

definition zero_fingerprint :: string where
  "zero_fingerprint = replicate 64 (CHR ''0'')"

definition from_binding_envelope ::
  "hashing \<Rightarrow> signing \<Rightarrow> data_binding \<Rightarrow> envelope \<Rightarrow> training_data_identity result" where
  "from_binding_envelope h s b e =
     and_then (validate_envelope h b e) (\<lambda>_.
     let key = data_binding_requirement_key (db_node_id b) (db_input_name b) in
     and_then (ok_or (en_relation_fingerprint e) (training_error (IdentityEvidenceMissing key ''relation''))) (\<lambda>relation.
     and_then (ok_or (en_data_content_fingerprint e) (training_error (IdentityEvidenceMissing key ''data content'')))
       (\<lambda>data.
     and_then (ok_or (en_target_content_fingerprint e) (training_error (IdentityEvidenceMissing key ''target content'')))
       (\<lambda>target.
     let i = \<lparr>ti_requirement_key = key, ti_schema_fingerprint = en_schema_fingerprint e,
         ti_plan_fingerprint = en_plan_fingerprint e, ti_relation_fingerprint = relation,
         ti_data_content_fingerprint = data, ti_target_content_fingerprint = target,
         identity_fingerprint = zero_fingerprint\<rparr> in
     and_then (identity_compute_fingerprint s i) (\<lambda>fp.
     let i = i\<lparr>identity_fingerprint := fp\<rparr> in
     and_then (identity_validate s i) (\<lambda>_. Inr i))))))"

text \<open>The in-memory provider's answer: only a complete envelope attests a training identity.\<close>

definition complete_evidence :: "envelope \<Rightarrow> bool" where
  "complete_evidence e \<longleftrightarrow> en_relation_fingerprint e \<noteq> None \<and> en_data_content_fingerprint e \<noteq> None \<and>
     en_target_content_fingerprint e \<noteq> None"

definition provider_training_data_identity ::
  "hashing \<Rightarrow> signing \<Rightarrow> provider \<Rightarrow> data_binding \<Rightarrow> training_data_identity option result" where
  "provider_training_data_identity h s st b =
     and_then (lookup_envelope st b) (\<lambda>e.
     and_then (validate_envelope h b e) (\<lambda>_.
     if \<not> complete_evidence e then Inr None
     else and_then (from_binding_envelope h s b e) (\<lambda>i. Inr (Some i))))"

section \<open>The attested provider\<close>

record attestation =
  at_binding :: data_binding
  at_envelope :: envelope
  at_identity :: "training_data_identity option"

record 'p attested_provider =
  ap_inner :: 'p
  ap_attestations :: "(string, attestation) btree_map"

definition binding_key :: "data_binding \<Rightarrow> string" where
  "binding_key b = data_binding_requirement_key (db_node_id b) (db_input_name b)"

definition collect_binding ::
  "(string, data_binding) btree_map \<Rightarrow> data_binding \<Rightarrow> (string, data_binding) btree_map result" where
  "collect_binding m b =
     and_then (data_binding_validate b) (\<lambda>_.
     let key = binding_key b in
     case bm_get m key of
       Some previous \<Rightarrow>
         if db_node_id previous = db_node_id b \<and> db_input_name previous = db_input_name b
         then provider_err (DuplicateRequirementKey key) else provider_err (CollidingRequirementKey key)
     | None \<Rightarrow> Inr (bm_insert key b m))"

definition attest ::
  "hashing \<Rightarrow> signing \<Rightarrow> (string, envelope) btree_map \<Rightarrow> (string, attestation) btree_map
   \<Rightarrow> string \<times> data_binding \<Rightarrow> (string, attestation) btree_map result" where
  "attest h s envelopes m = (\<lambda>(key, b).
     and_then (case bm_get envelopes key of
         None \<Rightarrow> expect_failed ''exact key coverage was checked above'' | Some e \<Rightarrow> Inr e) (\<lambda>e.
     and_then (if complete_evidence e
         then and_then (from_binding_envelope h s b e) (\<lambda>i. Inr (Some i)) else Inr None) (\<lambda>identity.
     Inr (bm_insert key \<lparr>at_binding = b, at_envelope = e, at_identity = identity\<rparr> m))))"

definition attested_new ::
  "hashing \<Rightarrow> signing \<Rightarrow> 'p \<Rightarrow> data_binding list \<Rightarrow> (string, envelope) btree_map
   \<Rightarrow> 'p attested_provider result" where
  "attested_new h s inner bindings envelopes =
     and_then (try_fold collect_binding [] bindings) (\<lambda>by_key.
     if set (bm_keys by_key) \<noteq> set (bm_keys envelopes)
     then provider_err (EnvelopeCoverage
       (filter (\<lambda>k. k \<notin> set (bm_keys envelopes)) (bm_keys by_key))
       (filter (\<lambda>k. k \<notin> set (bm_keys by_key)) (bm_keys envelopes)))
     else and_then (try_fold (attest h s envelopes) [] by_key) (\<lambda>attestations.
       Inr \<lparr>ap_inner = inner, ap_attestations = attestations\<rparr>))"

definition attestation_for_binding :: "'p attested_provider \<Rightarrow> data_binding \<Rightarrow> attestation result" where
  "attestation_for_binding p b =
     and_then (data_binding_validate b) (\<lambda>_.
     and_then (ok_or (bm_get (ap_attestations p) (binding_key b)) (provider_error (UnattestedBinding (binding_key b))))
       (\<lambda>a. if binding_norm (at_binding a) \<noteq> binding_norm b then provider_err (BindingNotAttested (binding_key b)) else Inr a))"

definition validate_request_binding ::
  "'p attested_provider \<Rightarrow> node_id \<Rightarrow> string \<Rightarrow> data_binding \<Rightarrow> unit result" where
  "validate_request_binding p node input b =
     (if node \<noteq> db_node_id b \<or> input \<noteq> db_input_name b
      then provider_err (RequestCoordinates (as_str node) input)
      else and_then (attestation_for_binding p b) (\<lambda>_. Inr ()))"

definition validate_predict_cohort_request ::
  "hashing \<Rightarrow> 'p attested_provider \<Rightarrow> data_binding \<Rightarrow> phase \<Rightarrow> predict_cohort option \<Rightarrow> unit result" where
  "validate_predict_cohort_request h p b ph supplied =
     and_then (attestation_for_binding p b) (\<lambda>a.
     let attested = en_predict_cohort (at_envelope a); key = binding_key b;
       differs = map_option cohort_norm supplied \<noteq> map_option cohort_norm attested in
     if ph = Predict \<or> ph = FitCv then checks [
       check_option (\<lambda>c. checks [cohort_validate h c,
         reject_if (ph = FitCv \<and> pc_role c \<noteq> ExternalTest) (provider_error FitCvCohortRole)]) supplied,
       reject_if ((ph = Predict \<or> supplied \<noteq> None) \<and> differs) (provider_error (CohortNotAttested key))]
     else if ph = Refit \<and> include_refit_test_view (view_policy b) then
       check_option (\<lambda>c. checks [cohort_validate h c,
         reject_if (pc_role c \<noteq> ExternalTest) (provider_error RefitCohortRole),
         reject_if differs (provider_error (CohortNotAttested key))]) supplied
     else reject_if (supplied \<noteq> None) (provider_error (CohortInOtherPhase key)))"

definition validate_refit_test_view_request :: "view_request \<Rightarrow> unit result" where
  "validate_refit_test_view_request q =
     (if vr_phase q = Refit then check_option (\<lambda>c.
        reject_if (vs_partition (vr_view q) \<noteq> PredictRows \<or>
            vs_sample_ids (vr_view q) \<noteq> Some (physical_sample_ids c) \<or> include_augmented (vr_view q))
          (provider_error RefitCompanionView)) (vr_predict_cohort q)
      else Inr ())"

definition attested_materialize ::
  "hashing \<Rightarrow> (materialization_request \<Rightarrow> 'p \<Rightarrow> (handle_ref \<times> 'p) result) \<Rightarrow> materialization_request
   \<Rightarrow> 'p attested_provider \<Rightarrow> (handle_ref \<times> 'p attested_provider) result" where
  "attested_materialize h inner q p =
     and_then (checks [
       validate_request_binding p (mr_node_id q) (mr_input_name q) (mr_binding q),
       validate_predict_cohort_request h p (mr_binding q) (mr_phase q) (mr_predict_cohort q)]) (\<lambda>_.
     and_then (inner q (ap_inner p)) (\<lambda>(ref, st). Inr (ref, p\<lparr>ap_inner := st\<rparr>)))"

text \<open>The checks \<open>make_view\<close> and \<open>make_view_attested\<close> share.\<close>

definition attested_view_checks ::
  "decoder \<Rightarrow> hashing \<Rightarrow> view_request \<Rightarrow> 'p attested_provider \<Rightarrow> unit result" where
  "attested_view_checks decode h q p = checks [
     view_spec_validate decode (vr_view q),
     validate_request_binding p (vr_node_id q) (vr_input_name q) (vr_binding q),
     validate_predict_cohort_request h p (vr_binding q) (vr_phase q) (vr_predict_cohort q),
     validate_refit_test_view_request q]"

definition attested_make_view ::
  "decoder \<Rightarrow> hashing \<Rightarrow> (view_request \<Rightarrow> 'p \<Rightarrow> ('r \<times> 'p) result) \<Rightarrow> view_request
   \<Rightarrow> 'p attested_provider \<Rightarrow> ('r \<times> 'p attested_provider) result" where
  "attested_make_view decode h inner q p =
     and_then (attested_view_checks decode h q p) (\<lambda>_.
     and_then (inner q (ap_inner p)) (\<lambda>(ref, st). Inr (ref, p\<lparr>ap_inner := st\<rparr>)))"

definition attested_discard_view ::
  "(handle_ref \<Rightarrow> 'p \<Rightarrow> 'p result) \<Rightarrow> handle_ref \<Rightarrow> 'p attested_provider \<Rightarrow> 'p attested_provider result" where
  "attested_discard_view inner ref p = and_then (inner ref (ap_inner p)) (\<lambda>st. Inr (p\<lparr>ap_inner := st\<rparr>))"

definition attested_training_data_identity ::
  "'p attested_provider \<Rightarrow> data_binding \<Rightarrow> training_data_identity option result" where
  "attested_training_data_identity p b = and_then (attestation_for_binding p b) (\<lambda>a. Inr (at_identity a))"

definition attested_coordinator_relations ::
  "'p attested_provider \<Rightarrow> data_binding \<Rightarrow> sample_relation_set option result" where
  "attested_coordinator_relations p b =
     and_then (attestation_for_binding p b) (\<lambda>a. Inr (coordinator_relations (at_envelope a)))"

definition attested_predict_cohort ::
  "'p attested_provider \<Rightarrow> data_binding \<Rightarrow> phase \<Rightarrow> predict_cohort option result" where
  "attested_predict_cohort p b ph =
     (if ph \<noteq> Predict then provider_err CohortOutsidePredict
      else and_then (attestation_for_binding p b) (\<lambda>a. Inr (en_predict_cohort (at_envelope a))))"

definition attested_cv_test_cohort ::
  "'p attested_provider \<Rightarrow> data_binding \<Rightarrow> predict_cohort option result" where
  "attested_cv_test_cohort p b =
     and_then (attestation_for_binding p b) (\<lambda>a.
     Inr (case en_predict_cohort (at_envelope a) of
         Some c \<Rightarrow> if pc_role c = ExternalTest then Some c else None
       | None \<Rightarrow> None))"

section \<open>Construction\<close>

lemma collect_binding_ok:
  "collect_binding m b = Inr m' \<longleftrightarrow>
     data_binding_validate b = Inr () \<and> bm_get m (binding_key b) = None \<and> m' = bm_insert (binding_key b) b m"
  by (auto simp: collect_binding_def and_then_ok Let_def split: option.splits if_splits)

interpretation binding_registry: keyed_registry binding_key "\<lambda>b. data_binding_validate b = Inr ()" collect_binding
  by unfold_locales (rule collect_binding_ok)

text \<open>What an attestation records: a valid binding under its key, its envelope, and an identity exactly
  when the envelope's evidence is complete.\<close>

definition attestation_ok :: "hashing \<Rightarrow> signing \<Rightarrow> attestation \<Rightarrow> bool" where
  "attestation_ok h s a \<longleftrightarrow>
     (if complete_evidence (at_envelope a)
      then map_option Inr (at_identity a) = Some (from_binding_envelope h s (at_binding a) (at_envelope a))
      else at_identity a = None)"

lemma attest_ok:
  "attest h s envelopes m (key, b) = Inr m' \<longleftrightarrow> (\<exists>e i. bm_get envelopes key = Some e \<and>
     attestation_ok h s \<lparr>at_binding = b, at_envelope = e, at_identity = i\<rparr> \<and>
     m' = bm_insert key \<lparr>at_binding = b, at_envelope = e, at_identity = i\<rparr> m)"
proof (cases "bm_get envelopes key")
  case (Some e)
  then show ?thesis
    by (cases "complete_evidence e"; cases "from_binding_envelope h s b e")
      (auto simp: attest_def attestation_ok_def)
qed (simp add: attest_def)

definition attestations_ok ::
  "hashing \<Rightarrow> signing \<Rightarrow> data_binding list \<Rightarrow> (string, envelope) btree_map \<Rightarrow> (string, attestation) btree_map \<Rightarrow> bool" where
  "attestations_ok h s bindings envelopes m \<longleftrightarrow> (\<forall>k a. bm_get m k = Some a \<longrightarrow>
     at_binding a \<in> set bindings \<and> binding_key (at_binding a) = k \<and>
     bm_get envelopes k = Some (at_envelope a) \<and> attestation_ok h s a)"

lemma attest_fold_ok:
  assumes "try_fold (attest h s envelopes) m kbs = Inr m'" "attestations_ok h s bindings envelopes m"
    and "\<forall>(k, b) \<in> set kbs. b \<in> set bindings \<and> binding_key b = k"
  shows "attestations_ok h s bindings envelopes m' \<and> dom (bm_get m') = dom (bm_get m) \<union> fst ` set kbs"
  using assms
proof (induction kbs arbitrary: m)
  case (Cons kb kbs)
  obtain key b where kb: "kb = (key, b)" by (cases kb)
  obtain e i where e: "bm_get envelopes key = Some e"
    "attestation_ok h s \<lparr>at_binding = b, at_envelope = e, at_identity = i\<rparr>"
    "try_fold (attest h s envelopes) (bm_insert key \<lparr>at_binding = b, at_envelope = e, at_identity = i\<rparr> m) kbs = Inr m'"
    using Cons.prems(1) by (auto simp: kb and_then_ok attest_ok)
  have "attestations_ok h s bindings envelopes (bm_insert key \<lparr>at_binding = b, at_envelope = e, at_identity = i\<rparr> m)"
    using Cons.prems(2,3) e(1,2) by (auto simp: attestations_ok_def kb)
  from Cons.IH[OF e(3) this] Cons.prems(3) show ?case by (auto simp: kb)
qed simp

lemma attested_new_ok:
  assumes "attested_new h s inner bindings envelopes = Inr p"
  shows "ap_inner p = inner" "attestations_ok h s bindings envelopes (ap_attestations p)"
    and "distinct (map binding_key bindings)" "\<forall>b \<in> set bindings. data_binding_validate b = Inr ()"
    and "binding_key ` set bindings = set (bm_keys envelopes)"
    and "dom (bm_get (ap_attestations p)) = binding_key ` set bindings"
proof -
  obtain by_key where by_key: "try_fold collect_binding [] bindings = Inr by_key"
    and keys: "set (bm_keys by_key) = set (bm_keys envelopes)"
    and att: "try_fold (attest h s envelopes) [] by_key = Inr (ap_attestations p)" and inner: "ap_inner p = inner"
    using assms by (auto simp: attested_new_def and_then_ok split: if_splits)
  have coll: "\<forall>b \<in> set bindings. data_binding_validate b = Inr ()" "distinct (map binding_key bindings)"
    using by_key by (simp_all add: binding_registry.fill_ok)
  have entries: "set by_key = (\<lambda>b. (binding_key b, b)) ` set bindings"
    by (rule binding_registry.fill_entries[OF by_key])
  then have mem: "\<forall>(k, b) \<in> set by_key. b \<in> set bindings \<and> binding_key b = k" by auto
  have "attestations_ok h s bindings envelopes []" by (simp add: attestations_ok_def)
  from attest_fold_ok[OF att this mem]
  have ok: "attestations_ok h s bindings envelopes (ap_attestations p)"
    and dom: "dom (bm_get (ap_attestations p)) = fst ` set by_key" by simp_all
  have "fst ` set by_key = binding_key ` set bindings" using entries by (simp add: image_image)
  then show "binding_key ` set bindings = set (bm_keys envelopes)"
      "dom (bm_get (ap_attestations p)) = binding_key ` set bindings"
    using keys dom by (simp_all add: bm_keys_def)
  show "ap_inner p = inner" "attestations_ok h s bindings envelopes (ap_attestations p)"
    "distinct (map binding_key bindings)" "\<forall>b \<in> set bindings. data_binding_validate b = Inr ()"
    using inner ok coll by simp_all
qed

lemma binding_norm_fields:
  assumes "binding_norm b = binding_norm c"
  shows "binding_key b = binding_key c \<and> db_schema_fingerprint b = db_schema_fingerprint c \<and>
    db_plan_fingerprint b = db_plan_fingerprint c \<and> db_relation_fingerprint b = db_relation_fingerprint c"
  using assms by (cases b; cases c) (simp add: binding_norm_def binding_key_def)

lemma attestation_for_binding_ok:
  "attestation_for_binding p b = Inr a \<longleftrightarrow> data_binding_validate b = Inr () \<and>
     bm_get (ap_attestations p) (binding_key b) = Some a \<and> binding_norm (at_binding a) = binding_norm b"
  by (auto simp: attestation_for_binding_def and_then_ok split: if_splits)

lemma attestation_from_binding:
  assumes "attestations_ok h s bindings envelopes (ap_attestations p)" "attestation_for_binding p b = Inr a"
  shows "at_binding a \<in> set bindings \<and> binding_norm (at_binding a) = binding_norm b \<and>
    bm_get envelopes (binding_key b) = Some (at_envelope a) \<and> attestation_ok h s a"
proof -
  have get: "bm_get (ap_attestations p) (binding_key b) = Some a" "binding_norm (at_binding a) = binding_norm b"
    using assms(2) by (simp_all add: attestation_for_binding_ok)
  moreover have "binding_key (at_binding a) = binding_key b" using binding_norm_fields[OF get(2)] by simp
  ultimately show ?thesis using assms(1) unfolding attestations_ok_def by metis
qed

lemma attested_cohort_ok:
  assumes "validate_predict_cohort_request h p b ph supplied = Inr u" "attestation_for_binding p b = Inr a"
  shows "(ph = Predict \<or> supplied \<noteq> None \<longrightarrow>
      map_option cohort_norm supplied = map_option cohort_norm (en_predict_cohort (at_envelope a))) \<and>
    (\<forall>c. supplied = Some c \<longrightarrow> cohort_validate h c = Inr () \<and> ph \<in> {Predict, FitCv, Refit} \<and>
      (ph \<noteq> Predict \<longrightarrow> pc_role c = ExternalTest))"
  using assms
  by (cases ph; cases supplied)
    (auto simp: validate_predict_cohort_request_def and_then_ok Let_def split: if_splits)

section \<open>The wrapper keeps the contract of what it wraps\<close>

lemma attested_make_view_ok:
  "attested_make_view decode h inner q p = Inr (ref, p') \<longleftrightarrow>
     attested_view_checks decode h q p = Inr () \<and>
     (\<exists>st. inner q (ap_inner p) = Inr (ref, st) \<and> p' = p\<lparr>ap_inner := st\<rparr>)"
  by (auto simp: attested_make_view_def and_then_ok)

context view_provider
begin

lemma attested_provider:
  "view_provider (\<lambda>p. invar (ap_inner p)) (\<lambda>p. data_at (ap_inner p)) (\<lambda>p. view_at (ap_inner p))
     (attested_make_view decode h make) (attested_discard_view discard)"
proof
  fix p q ref and p' :: "'p attested_provider"
  assume inv: "invar (ap_inner p)" and run: "attested_make_view decode h make q p = Inr (ref, p')"
  obtain st where st: "make q (ap_inner p) = Inr (ref, st)" "p' = p\<lparr>ap_inner := st\<rparr>"
    using run by (auto simp: attested_make_view_ok)
  show "view_at (ap_inner p) (handle ref) = None \<and> data_at (ap_inner p) (handle ref) = None"
    by (rule make_fresh[OF inv st(1)])
  show "invar (ap_inner p') \<and> data_at (ap_inner p') = data_at (ap_inner p) \<and>
      (\<exists>v. vh_handle v = ref \<and> view_at (ap_inner p') = (view_at (ap_inner p))(handle ref \<mapsto> v))"
    using make_adds[OF inv st(1)] st(2) by simp
next
  fix p :: "'p attested_provider" and ref v
  assume "invar (ap_inner p)" "view_at (ap_inner p) (handle ref) = Some v" "vh_handle v = ref"
  from discard_removes[OF this]
  show "\<exists>p'. attested_discard_view discard ref p = Inr p' \<and> invar (ap_inner p') \<and>
      data_at (ap_inner p') = data_at (ap_inner p) \<and> view_at (ap_inner p') = (view_at (ap_inner p))(handle ref := None)"
    by (auto simp: attested_discard_view_def and_then_ok)
qed

end

interpretation attested: view_provider "\<lambda>p. provider_ok h (ap_inner p)" "\<lambda>p. handle_record (ap_inner p)"
  "\<lambda>p. view_record (ap_inner p)" "attested_make_view decode h (make_view decode)" "attested_discard_view discard_view_handle"
  by (rule mem.attested_provider)

section \<open>Properties\<close>

text \<open>C13: nothing reaches the host unattested: if the wrapper lets a view through, the request's binding
  equals one of the bindings it was built with; in PREDICT the cohort the request carries is exactly the
  one of that binding's envelope, so it is left out only where the envelope has none; in any other phase
  a carried cohort is the envelope's, the phase is FIT_CV or REFIT and the cohort an external test; and
  every carried cohort is valid. Equality is the code's, which identifies the two float zeros.\<close>

theorem attested_view_delegation:
  assumes "attested_new h s inner0 bindings envelopes = Inr p0"
    and "ap_attestations p = ap_attestations p0"
    and "attested_make_view decode h inner q p = Inr (r, p')"
  shows "binding_norm (vr_binding q) \<in> binding_norm ` set bindings \<and>
    (let supplied = map_option cohort_norm (vr_predict_cohort q);
         attested = map_option (\<lambda>e. map_option cohort_norm (en_predict_cohort e))
           (bm_get envelopes (binding_key (vr_binding q)))
     in (vr_phase q = Predict \<longrightarrow> attested = Some supplied) \<and>
        (case vr_predict_cohort q of None \<Rightarrow> True
         | Some c \<Rightarrow> attested = Some supplied \<and> cohort_validate h c = Inr () \<and>
             (vr_phase q = Predict \<or> vr_phase q \<in> {FitCv, Refit} \<and> pc_role c = ExternalTest)))"
proof -
  have ok: "attestations_ok h s bindings envelopes (ap_attestations p)"
    using attested_new_ok(2)[OF assms(1)] assms(2) by simp
  have checks: "validate_request_binding p (vr_node_id q) (vr_input_name q) (vr_binding q) = Inr ()"
      "validate_predict_cohort_request h p (vr_binding q) (vr_phase q) (vr_predict_cohort q) = Inr ()"
    using assms(3) by (simp_all add: attested_make_view_def and_then_ok attested_view_checks_def)
  obtain a where a: "attestation_for_binding p (vr_binding q) = Inr a"
    using checks(1) by (auto simp: validate_request_binding_def and_then_ok split: if_splits)
  have env: "at_binding a \<in> set bindings" "binding_norm (at_binding a) = binding_norm (vr_binding q)"
      "bm_get envelopes (binding_key (vr_binding q)) = Some (at_envelope a)"
    using attestation_from_binding[OF ok a] by simp_all
  have mem: "binding_norm (vr_binding q) \<in> binding_norm ` set bindings"
    using env(1) env(2)[symmetric] by simp
  show ?thesis
    using attested_cohort_ok[OF checks(2) a] mem env(3) by (cases "vr_predict_cohort q") auto
qed

lemma demo_attested_new:
  "attested_new demo_hashing s inner [demo_binding] [(binding_key demo_binding, e)] =
     (if complete_evidence e then and_then (from_binding_envelope demo_hashing s demo_binding e) (\<lambda>i.
        Inr \<lparr>ap_inner = inner, ap_attestations =
          [(binding_key demo_binding, \<lparr>at_binding = demo_binding, at_envelope = e, at_identity = Some i\<rparr>)]\<rparr>)
      else Inr \<lparr>ap_inner = inner, ap_attestations =
          [(binding_key demo_binding, \<lparr>at_binding = demo_binding, at_envelope = e, at_identity = None\<rparr>)]\<rparr>)"
  using demo_binding_valid(1)
  by (cases "from_binding_envelope demo_hashing s demo_binding e")
    (simp_all add: attested_new_def collect_binding_def attest_def Let_def bm_get_def bm_keys_def)

theorem attested_view_delegation_witness:
  "\<exists>p (r :: nat) p'. attested_make_view demo_decode demo_hashing (\<lambda>_ n. Inr (n, n + 1)) demo_view_request p = Inr (r, p') \<and>
     binding_norm (vr_binding demo_view_request) \<in> binding_norm ` set [demo_binding]"
proof -
  let ?p = "\<lparr>ap_inner = 0 :: nat, ap_attestations = [(binding_key demo_binding,
      \<lparr>at_binding = demo_binding, at_envelope = demo_envelope, at_identity = None\<rparr>)]\<rparr>"
  have new: "attested_new demo_hashing undefined (0 :: nat) [demo_binding] [(binding_key demo_binding, demo_envelope)] = Inr ?p"
    by (simp add: demo_attested_new complete_evidence_def demo_envelope_def)
  have valid: "view_spec_validate demo_decode demo_predict_view = Inr ()" by code_simp
  have make: "attested_make_view demo_decode demo_hashing (\<lambda>_ n. Inr (n, n + 1)) demo_view_request ?p = Inr (0, ?p\<lparr>ap_inner := 1\<rparr>)"
    using valid demo_binding_valid(1)
    by (simp add: attested_make_view_def attested_view_checks_def demo_view_request_def validate_request_binding_def
      validate_predict_cohort_request_def validate_refit_test_view_request_def attestation_for_binding_def bm_get_def
      demo_envelope_def Let_def) (simp add: demo_binding_def)
  show ?thesis using make attested_view_delegation[OF new _ make] by blast
qed

text \<open>C38: The comment on the wrapper says that construction validates the complete binding and envelope set.
  An envelope with incomplete evidence is not validated at all: here it disagrees with the binding on the
  schema fingerprint, construction succeeds, and its relations are served for the binding.\<close>

theorem attested_new_accepts_mismatched_envelope:
  "let e = demo_envelope\<lparr>en_schema_fingerprint := ''other'', coordinator_relations := r\<rparr> in
   isl (validate_envelope demo_hashing demo_binding e) \<and>
   isl (envelope_validate demo_hashing e) \<and>
   and_then (attested_new demo_hashing s inner [demo_binding] [(binding_key demo_binding, e)])
     (\<lambda>p. attested_coordinator_relations p demo_binding) = Inr r"
proof -
  let ?e = "demo_envelope\<lparr>en_schema_fingerprint := ''other'', coordinator_relations := r\<rparr>"
  have bad: "isl (envelope_validate demo_hashing ?e)"
    by (simp add: demo_envelope_def envelope_validate_def envelope_version_check_def validate_fingerprint_def is_hex_fingerprint_def
      envelope_v1_def envelope_v2_def)
  moreover have "isl (validate_envelope demo_hashing demo_binding ?e)"
    using bad by (cases "validate_envelope demo_hashing demo_binding ?e") (auto simp: validate_envelope_ok)
  ultimately show ?thesis using demo_binding_valid(1)
    by (simp add: demo_attested_new complete_evidence_def demo_envelope_def attested_coordinator_relations_def
      attestation_for_binding_def bm_get_def Let_def)
qed

text \<open>the training identity the wrapper hands out is bound to the request: it is the identity of one of
  its bindings, complete and self-consistent, and carries the key and exactly the schema, plan and
  relation fingerprints of that binding.\<close>

theorem attested_identity_bound:
  assumes "attested_new h s inner bindings envelopes = Inr p"
    and "attested_training_data_identity p b = Inr (Some i)"
  shows "binding_norm b \<in> binding_norm ` set bindings \<and> ti_requirement_key i = binding_key b \<and>
    ti_schema_fingerprint i = db_schema_fingerprint b \<and> ti_plan_fingerprint i = db_plan_fingerprint b \<and>
    db_relation_fingerprint b = Some (ti_relation_fingerprint i) \<and> identity_validate s i = Inr ()"
proof -
  obtain a where a: "attestation_for_binding p b = Inr a" "at_identity a = Some i"
    using assms(2) by (auto simp: attested_training_data_identity_def and_then_ok)
  have mem: "at_binding a \<in> set bindings" and ok: "attestation_ok h s a" and same: "binding_norm (at_binding a) = binding_norm b"
    using attestation_from_binding[OF attested_new_ok(2)[OF assms(1)] a(1)] by simp_all
  have "complete_evidence (at_envelope a)" using ok a(2) by (auto simp: attestation_ok_def split: if_splits)
  then have "from_binding_envelope h s (at_binding a) (at_envelope a) = Inr i"
    using ok a(2) by (simp add: attestation_ok_def)
  then have "ti_requirement_key i = binding_key (at_binding a)" "ti_schema_fingerprint i = db_schema_fingerprint (at_binding a)"
      "ti_plan_fingerprint i = db_plan_fingerprint (at_binding a)"
      "db_relation_fingerprint (at_binding a) = Some (ti_relation_fingerprint i)" "identity_validate s i = Inr ()"
    by (auto simp: from_binding_envelope_def and_then_ok Let_def validate_envelope_ok binding_key_def)
  moreover have "binding_norm b \<in> binding_norm ` set bindings" using mem same[symmetric] by simp
  ultimately show ?thesis using binding_norm_fields[OF same] by simp
qed

end
