(* ===== verification/Controller.thy ===== *)
theory Controller
  imports DataProofs KeyedRegistry
begin

text \<open>
  \<open>controller.rs\<close>: controller manifests and their validation, the registry, and the resolution of a
  graph node to the controller that runs it. The serde decoder of the declared data requirements is
  the parameter \<open>decode_spec\<close>; the label of an operator in an error message is not modelled.
\<close>

section \<open>Manifests\<close>

datatype (plugins only: code size) controller_capability =
    Deterministic | ThreadSafe | ProcessSafe | NeedsPythonGil | EmitsPredictions
  | ConsumesOofPredictions | EmitsArtifacts | Stateful | EmitsRelation | UsesCoreRng | ShapeChanging
  | GeneratesData | GeneratesModel | ExpandsVariants | AggregatesPredictions | SupportsSampleWeights
  | SupportsRowResampling | SupportsBackendLossWeights | SupportsMissingMasks
  | SupportsConfigurableLoss | SupportsCustomLoss | SupportsDifferentiableLoss | UsesTrainingWeights
  | UsesEarlyStopping | PerformsInternalTuning | TrainsAggregation | SupportsPortableFullRefit

datatype (plugins only: code size) controller_fit_scope = StatelessScope | FoldTrainScope | FullTrainScope | InferenceOnlyScope

datatype (plugins only: code size) rng_policy = UsesCoreSeed | IgnoresSeed | ExternallyDeterministic | Nondeterministic

datatype (plugins only: code size) artifact_policy = Serializable | HostOnly | ContentAddressed | ReplayRequired

record operator_selector =
  os_aliases :: "string btree_set"
  os_classes :: "string btree_set"
  os_class_prefixes :: "string btree_set"
  os_functions :: "string btree_set"
  os_refs :: "string btree_set"
  os_types :: "string btree_set"

record controller_manifest =
  cm_controller_id :: controller_id
  controller_version :: string
  operator_kind :: node_kind
  priority :: "32 word"
  supported_phases :: "phase btree_set"
  cm_input_ports :: "port_spec list"
  cm_output_ports :: "port_spec list"
  data_requirements :: "json_value option"
  capabilities :: "controller_capability btree_set"
  operator_selectors :: "operator_selector list"
  fit_scope :: controller_fit_scope
  rng_policy :: rng_policy
  artifact_policy :: artifact_policy

abbreviation controller_error :: "controller_msg \<Rightarrow> dag_ml_error failure" where
  "controller_error m \<equiv> Err (ControllerValidation m)"

abbreviation planning_err :: "planning_msg \<Rightarrow> 'a result" where
  "planning_err m \<equiv> fail (Planning m)"

definition selector_fields :: "operator_selector \<Rightarrow> (string \<times> string btree_set) list" where
  "selector_fields s =
     [(''aliases'', os_aliases s), (''classes'', os_classes s), (''class_prefixes'', os_class_prefixes s),
      (''functions'', os_functions s), (''refs'', os_refs s), (''types'', os_types s)]"

definition operator_selector_validate :: "operator_selector \<Rightarrow> controller_id \<Rightarrow> unit result" where
  "operator_selector_validate s c = checks [
     reject_if (list_all (\<lambda>(_, vs). vs = []) (selector_fields s)) (controller_error (OperatorSelectorEmpty (as_str c))),
     try_each (\<lambda>(field, vs). reject_if (list_ex is_blank vs) (controller_error (SelectorValueEmpty (as_str c) field)))
       (selector_fields s)]"

definition controller_port_step :: "controller_id \<Rightarrow> string \<Rightarrow> string set \<Rightarrow> port_spec \<Rightarrow> string set result" where
  "controller_port_step c direction seen p =
     (if is_blank (ps_name p) then Inl (controller_error (ControllerPortNameEmpty direction (as_str c)))
      else if ps_name p \<in> seen then Inl (controller_error (ControllerDuplicatePort direction (ps_name p) (as_str c)))
      else Inr (insert (ps_name p) seen))"

definition controller_validate_ports :: "controller_id \<Rightarrow> string \<Rightarrow> port_spec list \<Rightarrow> unit result" where
  "controller_validate_ports c direction ports =
     and_then (try_fold (controller_port_step c direction) {} ports) (\<lambda>_. Inr ())"

definition cm_model_input_spec ::
  "(json_value \<Rightarrow> model_input_spec option) \<Rightarrow> controller_manifest \<Rightarrow> model_input_spec option result" where
  "cm_model_input_spec decode_spec m = (case data_requirements m of
       None \<Rightarrow> Inr None
     | Some v \<Rightarrow> and_then (ok_or (decode_spec v)
         (controller_error (RequirementsNotModelInput (as_str (cm_controller_id m))))) (\<lambda>s. Inr (Some s)))"

definition has_capability :: "controller_manifest \<Rightarrow> controller_capability \<Rightarrow> bool" where
  "has_capability m c \<longleftrightarrow> c \<in> set (capabilities m)"

definition supports_phase :: "controller_manifest \<Rightarrow> phase \<Rightarrow> bool" where
  "supports_phase m p \<longleftrightarrow> p \<in> set (supported_phases m)"

definition supports_parallel_invocation :: "controller_manifest \<Rightarrow> bool" where
  "supports_parallel_invocation m \<longleftrightarrow> has_capability m ThreadSafe \<or> has_capability m ProcessSafe"

definition active_influence :: "controller_capability list" where
  "active_influence = [UsesTrainingWeights, UsesEarlyStopping, PerformsInternalTuning, TrainsAggregation]"

definition weighting_mechanism :: "controller_capability \<Rightarrow> bool" where
  "weighting_mechanism c \<longleftrightarrow>
     c = SupportsSampleWeights \<or> c = SupportsRowResampling \<or> c = SupportsBackendLossWeights"

definition scope_checks :: "controller_manifest \<Rightarrow> unit result" where
  "scope_checks m = (let c = as_str (cm_controller_id m) in checks [
     reject_if (rng_policy m = Nondeterministic \<and> has_capability m Deterministic)
       (controller_error (DeterministicNondeterministic c)),
     reject_if (fit_scope m = InferenceOnlyScope \<and> (supports_phase m FitCv \<or> supports_phase m Refit))
       (controller_error (InferenceOnlyTrains c)),
     reject_if (supports_phase m FitCv \<and> (fit_scope m = FullTrainScope \<or> fit_scope m = InferenceOnlyScope))
       (controller_error (FitCvFitScope c))])"

definition emission_checks :: "controller_manifest \<Rightarrow> unit result" where
  "emission_checks m = (let c = as_str (cm_controller_id m) in checks [
     reject_if (list_ex (\<lambda>p. ps_kind p = Prediction) (cm_output_ports m) \<and> \<not> has_capability m EmitsPredictions)
       (controller_error (PredictionsNotEmitted c)),
     reject_if (list_ex (\<lambda>p. ps_kind p = Artifact) (cm_output_ports m) \<and> \<not> has_capability m EmitsArtifacts)
       (controller_error (ArtifactsNotEmitted c))])"

definition influence_checks :: "controller_manifest \<Rightarrow> unit result" where
  "influence_checks m = (let c = as_str (cm_controller_id m) in checks [
     reject_if ((fit_scope m = StatelessScope \<or> fit_scope m = InferenceOnlyScope) \<and>
         list_ex (has_capability m) active_influence)
       (controller_error (ActiveInfluenceFitScope c)),
     reject_if (has_capability m UsesTrainingWeights \<and> \<not> list_ex weighting_mechanism (capabilities m))
       (controller_error (WeightsWithoutMechanism c)),
     reject_if (has_capability m TrainsAggregation \<and> \<not> has_capability m AggregatesPredictions)
       (controller_error (TrainsWithoutAggregating c)),
     reject_if (has_capability m SupportsCustomLoss \<and> \<not> has_capability m SupportsConfigurableLoss)
       (controller_error (CustomLossNotConfigurable c)),
     reject_if (has_capability m SupportsDifferentiableLoss \<and> \<not> has_capability m SupportsConfigurableLoss)
       (controller_error (DifferentiableLossNotConfigurable c))])"

definition manifest_validate ::
  "(json_value \<Rightarrow> model_input_spec option) \<Rightarrow> controller_manifest \<Rightarrow> unit result" where
  "manifest_validate decode_spec m = (let c = as_str (cm_controller_id m) in checks [
     reject_if (is_blank (controller_version m)) (controller_error (ControllerVersionEmpty c)),
     reject_if (supported_phases m = []) (controller_error (ControllerNoPhases c)),
     and_then (cm_model_input_spec decode_spec m) (check_option (\<lambda>spec.
       map_error (\<lambda>_. ControllerValidation (RequirementsInvalid c)) (model_input_spec_validate spec))),
     controller_validate_ports (cm_controller_id m) ''input'' (cm_input_ports m),
     controller_validate_ports (cm_controller_id m) ''output'' (cm_output_ports m),
     try_each (\<lambda>s. operator_selector_validate s (cm_controller_id m)) (operator_selectors m),
     scope_checks m, emission_checks m, influence_checks m])"

definition capabilities_support_fit_influence ::
  "controller_capability btree_set \<Rightarrow> fit_influence_policy \<Rightarrow> bool" where
  "capabilities_support_fit_influence caps p = (case p of
      AutoInfluence \<Rightarrow> True
    | UniformRows \<Rightarrow> True
    | ScorerOnly \<Rightarrow> True
    | EqualSampleInfluence \<Rightarrow> SupportsSampleWeights \<in> set caps
    | ResampleEqualized \<Rightarrow> SupportsRowResampling \<in> set caps
    | BackendLossWeight \<Rightarrow> SupportsBackendLossWeights \<in> set caps
    | StrictWeightSupport \<Rightarrow> SupportsSampleWeights \<in> set caps \<or> SupportsRowResampling \<in> set caps \<or>
        SupportsBackendLossWeights \<in> set caps)"

definition supports_fit_influence_policy :: "controller_manifest \<Rightarrow> fit_influence_policy \<Rightarrow> bool" where
  "supports_fit_influence_policy m p = capabilities_support_fit_influence (capabilities m) p"

section \<open>Trimming and case folding\<close>

text \<open>\<open>str::trim\<close>. A suffix of a string that starts inside a character is never blank, so the end is
  trimmed at the first position from which the rest is blank.\<close>

function trim_start :: "string \<Rightarrow> string" where
  "trim_start s = (let n = ws_len (map byte_of s) in if n = 0 then s else trim_start (drop n s))"
  by pat_completeness auto
termination
proof (relation "measure length")
  fix s :: string and n :: nat
  assume "n = ws_len (map byte_of s)" "n \<noteq> 0"
  then show "(drop n s, s) \<in> measure length" by (cases s) auto
qed simp

declare trim_start.simps [simp del]

fun trim_end :: "string \<Rightarrow> string" where
  "trim_end [] = []"
| "trim_end (c # cs) = (if is_blank (c # cs) then [] else c # trim_end cs)"

definition trim :: "string \<Rightarrow> string" where
  "trim s = trim_end (trim_start s)"

definition to_ascii_lowercase :: "string \<Rightarrow> string" where
  "to_ascii_lowercase s =
     map (\<lambda>c. if 65 \<le> byte_of c \<and> byte_of c \<le> 90 then char_of (byte_of c + 32) else c) s"

definition normalized :: "string \<Rightarrow> string" where
  "normalized s = to_ascii_lowercase (trim s)"

definition normalized_eq :: "string \<Rightarrow> string \<Rightarrow> bool" where
  "normalized_eq x y \<longleftrightarrow> normalized x = normalized y"

definition normalized_starts_with :: "string \<Rightarrow> string \<Rightarrow> bool" where
  "normalized_starts_with value prefix \<longleftrightarrow> is_prefix (normalized prefix) (normalized value)"

section \<open>Operator descriptors and selectors\<close>

record operator_descriptor =
  od_class :: "string option"
  od_function :: "string option"
  od_reference :: "string option"
  od_type :: "string option"
  alias_candidates :: "string list"

text \<open>The alias candidates of a name: itself, and what follows its last dot or colon.\<close>

definition push_alias_candidates :: "string list \<Rightarrow> string \<Rightarrow> string list" where
  "push_alias_candidates aliases value =
     (let short = rev (takeWhile (\<lambda>c. c \<noteq> CHR ''.'' \<and> c \<noteq> CHR '':'') (rev value)) in
      aliases @ [value] @ (if short \<noteq> value then [short] else []))"

definition object_str :: "json_map \<Rightarrow> string \<Rightarrow> string option" where
  "object_str object key = Option.bind (bm_get object key) json_as_str"

definition descriptor_from_value :: "json_value \<Rightarrow> operator_descriptor" where
  "descriptor_from_value v =
     (let empty = \<lparr>od_class = None, od_function = None, od_reference = None, od_type = None, alias_candidates = []\<rparr> in
      case v of
        JString reference \<Rightarrow> empty\<lparr>od_reference := Some reference,
          alias_candidates := push_alias_candidates [] reference\<rparr>
      | JObject object \<Rightarrow>
          let class = object_str object ''class''; function = object_str object ''function'';
              reference = object_str object ''ref''; type = object_str object ''type'' in
          empty\<lparr>od_class := class, od_function := function, od_reference := reference, od_type := type,
            alias_candidates := foldl (\<lambda>aliases value. case value of
              None \<Rightarrow> aliases | Some n \<Rightarrow> push_alias_candidates aliases n) [] [type, reference, class, function]\<rparr>
      | _ \<Rightarrow> empty)"

definition selector_matches_exact :: "string btree_set \<Rightarrow> string \<Rightarrow> bool" where
  "selector_matches_exact vs candidate \<longleftrightarrow> list_ex (\<lambda>v. normalized_eq v candidate) vs"

definition selector_matches_any :: "string btree_set \<Rightarrow> string list \<Rightarrow> bool" where
  "selector_matches_any vs candidates \<longleftrightarrow> list_ex (selector_matches_exact vs) candidates"

definition selector_matches_operator :: "operator_selector \<Rightarrow> json_value \<Rightarrow> bool" where
  "selector_matches_operator s operator \<longleftrightarrow>
     (let d = descriptor_from_value operator in
      selector_matches_any (os_aliases s) (alias_candidates d) \<or>
      option_ex (selector_matches_exact (os_classes s)) (od_class d) \<or>
      option_ex (\<lambda>class. list_ex (normalized_starts_with class) (os_class_prefixes s)) (od_class d) \<or>
      option_ex (selector_matches_exact (os_functions s)) (od_function d) \<or>
      option_ex (selector_matches_exact (os_refs s)) (od_reference d) \<or>
      option_ex (selector_matches_exact (os_types s)) (od_type d))"

section \<open>The registry\<close>

type_synonym controller_registry = "(controller_id, controller_manifest) btree_map"

definition registry_new :: controller_registry where
  "registry_new = []"

definition register_controller ::
  "(json_value \<Rightarrow> model_input_spec option) \<Rightarrow> controller_registry \<Rightarrow> controller_manifest
   \<Rightarrow> controller_registry result" where
  "register_controller decode_spec reg m =
     and_then (manifest_validate decode_spec m) (\<lambda>_.
     if bm_contains_key reg (cm_controller_id m)
     then Inl (controller_error (DuplicateController (as_str (cm_controller_id m))))
     else Inr (bm_insert (cm_controller_id m) m reg))"

definition manifests :: "controller_registry \<Rightarrow> controller_manifest list" where
  "manifests reg = map snd reg"

datatype (plugins only: code size) match_rank = SelectorRank | GenericRank

instantiation match_rank :: linorder
begin

definition less_eq_match_rank :: "match_rank \<Rightarrow> match_rank \<Rightarrow> bool" where
  "less_eq_match_rank x y \<longleftrightarrow> x = SelectorRank \<or> y = GenericRank"

definition less_match_rank :: "match_rank \<Rightarrow> match_rank \<Rightarrow> bool" where
  "less_match_rank x y \<longleftrightarrow> x = SelectorRank \<and> y = GenericRank"

instance
proof
  fix x y z :: match_rank
  show "x < y \<longleftrightarrow> x \<le> y \<and> \<not> y \<le> x" by (cases x; cases y) (simp_all add: less_eq_match_rank_def less_match_rank_def)
  show "x \<le> x" by (cases x) (simp_all add: less_eq_match_rank_def)
  show "x \<le> y \<Longrightarrow> y \<le> z \<Longrightarrow> x \<le> z" by (auto simp: less_eq_match_rank_def)
  show "x \<le> y \<Longrightarrow> y \<le> x \<Longrightarrow> x = y" by (cases x; cases y) (simp_all add: less_eq_match_rank_def)
  show "x \<le> y \<or> y \<le> x" by (cases x; cases y) (simp_all add: less_eq_match_rank_def)
qed

end

record candidate =
  cd_manifest :: controller_manifest
  cd_rank :: match_rank

definition controller_candidate :: "controller_manifest \<Rightarrow> node_spec \<Rightarrow> candidate option" where
  "controller_candidate m n =
     (if operator_kind m \<noteq> ns_kind n then None
      else if operator_selectors m = [] then Some \<lparr>cd_manifest = m, cd_rank = GenericRank\<rparr>
      else case ns_operator n of
          None \<Rightarrow> None
        | Some operator \<Rightarrow>
            if list_ex (\<lambda>s. selector_matches_operator s operator) (operator_selectors m)
            then Some \<lparr>cd_manifest = m, cd_rank = SelectorRank\<rparr> else None)"

definition compare_candidates :: "candidate \<Rightarrow> candidate \<Rightarrow> ordering" where
  "compare_candidates x y =
     then_with (ord_cmp (cd_rank x) (cd_rank y))
       (then_with (ord_cmp (priority (cd_manifest x)) (priority (cd_manifest y)))
         (ord_cmp (cm_controller_id (cd_manifest x)) (cm_controller_id (cd_manifest y))))"

definition requested_controller :: "node_spec \<Rightarrow> controller_id option result" where
  "requested_controller n = (case bm_get (ns_metadata n) ''controller_id'' of
       None \<Rightarrow> Inr None
     | Some v \<Rightarrow> and_then (ok_or (json_as_str v) (Err (Planning (ControllerIdNotString (as_str (node_id n)))))) (\<lambda>s.
         and_then (ident_new s) (\<lambda>c. Inr (Some c))))"

definition best_candidate :: "node_spec \<Rightarrow> candidate list \<Rightarrow> controller_manifest result" where
  "best_candidate n candidates = (case candidates of
       [] \<Rightarrow> planning_err (NoController (as_str (node_id n)))
     | [first] \<Rightarrow> Inr (cd_manifest first)
     | first # second # _ \<Rightarrow>
         if cd_rank second = cd_rank first \<and> priority (cd_manifest second) = priority (cd_manifest first)
         then planning_err (AmbiguousController (as_str (node_id n)))
         else Inr (cd_manifest first))"

definition resolve_for_node :: "controller_registry \<Rightarrow> node_spec \<Rightarrow> controller_manifest result" where
  "resolve_for_node reg n =
     and_then (requested_controller n) (\<lambda>requested.
     case requested of
       Some c \<Rightarrow> and_then (ok_or (bm_get reg c) (Err (Planning (UnknownController (as_str (node_id n)) (as_str c))))) (\<lambda>m.
         if operator_kind m \<noteq> ns_kind n
         then planning_err (ControllerKindMismatch (as_str (node_id n)) (as_str (cm_controller_id m))) else Inr m)
     | None \<Rightarrow> best_candidate n
         (sort_by compare_candidates (List.map_filter (\<lambda>m. controller_candidate m n) (manifests reg))))"

definition infer_operator_kind :: "controller_registry \<Rightarrow> json_value \<Rightarrow> node_kind option result" where
  "infer_operator_kind reg operator =
     (let matches = filter (\<lambda>m. operator_selectors m \<noteq> [] \<and>
          list_ex (\<lambda>s. selector_matches_operator s operator) (operator_selectors m)) (manifests reg) in
      case matches of
        [] \<Rightarrow> Inr None
      | first # _ \<Rightarrow>
          if list_ex (\<lambda>m. operator_kind m \<noteq> operator_kind first) matches
          then planning_err ConflictingOperatorKinds else Inr (Some (operator_kind first)))"

end
