(* ===== verification/ControllerProofs.thy ===== *)
theory ControllerProofs
  imports Controller
begin

text \<open>
  The trimmed comparison of names, what a validated manifest guarantees, the registry as a keyed
  registry, and the specifications of node resolution and operator inference.
\<close>

section \<open>Trimming\<close>

abbreviation leading_ws :: "string \<Rightarrow> nat" where
  "leading_ws s \<equiv> ws_len (map byte_of s)"

lemma is_blank_step: "leading_ws s \<noteq> 0 \<Longrightarrow> is_blank (drop (leading_ws s) s) \<longleftrightarrow> is_blank s"
  unfolding is_blank_def drop_map[symmetric] by (subst (2) blank_bytes.simps) auto

lemma is_blank_stop: "leading_ws s = 0 \<Longrightarrow> is_blank s \<longleftrightarrow> s = []"
  unfolding is_blank_def by (subst blank_bytes.simps) auto

lemma trim_start_step: "leading_ws s \<noteq> 0 \<Longrightarrow> trim_start s = trim_start (drop (leading_ws s) s)"
  by (subst trim_start.simps) (simp only: Let_def if_False)

lemma trim_start_stop: "leading_ws s = 0 \<Longrightarrow> trim_start s = s"
  by (subst trim_start.simps) simp

lemma is_blank_trim_start: "is_blank (trim_start s) \<longleftrightarrow> is_blank s"
proof (induction s rule: trim_start.induct)
  case (1 s)
  then show ?case
    by (cases "leading_ws s = 0") (simp_all only: trim_start_stop trim_start_step is_blank_step not_False_eq_True)
qed

lemma trim_end_blank: "trim_end s = [] \<longleftrightarrow> is_blank s"
  by (cases s) simp_all

text \<open>The blank-string test is \<open>s.trim().is_empty()\<close>.\<close>

lemma trim_empty: "trim s = [] \<longleftrightarrow> is_blank s"
  by (simp add: trim_def trim_end_blank is_blank_trim_start)

section \<open>Validated manifests\<close>

lemma controller_ports_ok [ok_iff]:
  "controller_validate_ports c d ps = Inr u \<longleftrightarrow>
     (\<forall>p \<in> set ps. \<not> is_blank (ps_name p)) \<and> distinct (map ps_name ps)"
proof -
  have "try_fold (controller_port_step c d) seen ps = Inr seen' \<longleftrightarrow>
      (\<forall>p \<in> set ps. \<not> is_blank (ps_name p)) \<and> ps_name ` set ps \<inter> seen = {} \<and>
      distinct (map ps_name ps) \<and> seen' = seen \<union> ps_name ` set ps" for seen seen'
  proof (induction ps arbitrary: seen)
    case (Cons p ps)
    have "try_fold (controller_port_step c d) seen (p # ps) = Inr seen' \<longleftrightarrow> \<not> is_blank (ps_name p) \<and> ps_name p \<notin> seen \<and>
        try_fold (controller_port_step c d) (insert (ps_name p) seen) ps = Inr seen'"
      by (auto simp: controller_port_step_def and_then_ok)
    then show ?case unfolding Cons.IH by (cases "ps_name p \<in> ps_name ` set ps") auto
  qed auto
  then show ?thesis by (auto simp: controller_validate_ports_def and_then_ok)
qed

lemma scope_checks_ok [ok_iff]:
  "scope_checks m = Inr u \<longleftrightarrow>
     \<not> (rng_policy m = Nondeterministic \<and> has_capability m Deterministic) \<and>
     (fit_scope m = InferenceOnlyScope \<longrightarrow> \<not> supports_phase m FitCv \<and> \<not> supports_phase m Refit) \<and>
     (supports_phase m FitCv \<longrightarrow> fit_scope m = StatelessScope \<or> fit_scope m = FoldTrainScope)"
  by (cases "fit_scope m") (auto simp: scope_checks_def Let_def and_then_ok)

lemma emission_checks_ok [ok_iff]:
  "emission_checks m = Inr u \<longleftrightarrow>
     ((\<exists>p \<in> set (cm_output_ports m). ps_kind p = Prediction) \<longrightarrow> has_capability m EmitsPredictions) \<and>
     ((\<exists>p \<in> set (cm_output_ports m). ps_kind p = Artifact) \<longrightarrow> has_capability m EmitsArtifacts)"
  by (auto simp: emission_checks_def Let_def and_then_ok list_ex_iff)

lemma influence_checks_ok [ok_iff]:
  "influence_checks m = Inr u \<longleftrightarrow>
     (fit_scope m = StatelessScope \<or> fit_scope m = InferenceOnlyScope \<longrightarrow>
        (\<forall>c \<in> set active_influence. \<not> has_capability m c)) \<and>
     (has_capability m UsesTrainingWeights \<longrightarrow> (\<exists>c. has_capability m c \<and> weighting_mechanism c)) \<and>
     (has_capability m TrainsAggregation \<longrightarrow> has_capability m AggregatesPredictions) \<and>
     (has_capability m SupportsCustomLoss \<or> has_capability m SupportsDifferentiableLoss \<longrightarrow>
        has_capability m SupportsConfigurableLoss)"
proof -
  have ex: "list_ex weighting_mechanism (capabilities m) \<longleftrightarrow> (\<exists>c. has_capability m c \<and> weighting_mechanism c)"
    by (auto simp: list_ex_iff has_capability_def)
  have act: "list_ex (has_capability m) active_influence \<longleftrightarrow> (\<exists>c \<in> set active_influence. has_capability m c)"
    by (simp add: list_ex_iff)
  show ?thesis unfolding influence_checks_def Let_def ex act by (auto simp: and_then_ok)
qed

lemma operator_selector_ok [ok_iff]:
  "operator_selector_validate s c = Inr u \<longleftrightarrow>
     (\<exists>(f, vs) \<in> set (selector_fields s). vs \<noteq> []) \<and>
     (\<forall>(f, vs) \<in> set (selector_fields s). \<forall>v \<in> set vs. \<not> is_blank v)"
proof -
  have "list_all (\<lambda>(_, vs). vs = []) (selector_fields s) \<longleftrightarrow> \<not> (\<exists>(f, vs) \<in> set (selector_fields s). vs \<noteq> [])"
    by (auto simp: list_all_iff)
  then show ?thesis
    unfolding operator_selector_validate_def
    by (simp add: and_then_ok try_each_ok split_beta list_ex_iff)
qed

section \<open>The registry\<close>

lemma register_controller_ok:
  "register_controller d reg m = Inr reg' \<longleftrightarrow> manifest_validate d m = Inr () \<and>
     bm_get reg (cm_controller_id m) = None \<and> reg' = bm_insert (cm_controller_id m) m reg"
  by (auto simp: register_controller_def and_then_ok bm_contains_key_get)

interpretation controllers: keyed_registry cm_controller_id "\<lambda>m. manifest_validate d m = Inr ()" "register_controller d"
  for d by unfold_locales (rule register_controller_ok)

definition registry_of ::
  "(json_value \<Rightarrow> model_input_spec option) \<Rightarrow> controller_manifest list \<Rightarrow> controller_registry result" where
  "registry_of d ms = try_fold (register_controller d) registry_new ms"

lemma registry_entries:
  assumes "registry_of d ms = Inr reg"
  shows "set (manifests reg) = set ms" "distinct (map cm_controller_id (manifests reg))"
    and "bm_get reg c = Some m \<longleftrightarrow> m \<in> set ms \<and> cm_controller_id m = c"
    and "\<forall>m \<in> set ms. manifest_validate d m = Inr ()"
proof -
  have fill: "try_fold (register_controller d) [] ms = Inr reg" using assms by (simp add: registry_of_def registry_new_def)
  have entries: "set reg = (\<lambda>m. (cm_controller_id m, m)) ` set ms" by (rule controllers.fill_entries[OF fill])
  then show "set (manifests reg) = set ms" by (simp add: manifests_def image_image)
  have ok: "bm_ok reg" using fill by (simp add: controllers.fill_ok)
  have "map cm_controller_id (manifests reg) = map fst reg"
    unfolding manifests_def map_map using entries by (intro map_cong) auto
  then show "distinct (map cm_controller_id (manifests reg))" using bm_ok_distinct[OF ok] by simp
  have "bm_get reg c = Some m \<longleftrightarrow> (c, m) \<in> set reg" using bm_ok_distinct[OF ok] by (simp add: bm_get_def)
  then show "bm_get reg c = Some m \<longleftrightarrow> m \<in> set ms \<and> cm_controller_id m = c" using entries by auto
  show "\<forall>m \<in> set ms. manifest_validate d m = Inr ()" using fill by (simp add: controllers.fill_ok)
qed

section \<open>Resolution\<close>

text \<open>How a manifest matches a node: it claims the operator, it takes every operator of its kind, or
  it does not match.\<close>

definition claims :: "controller_manifest \<Rightarrow> json_value \<Rightarrow> bool" where
  "claims m operator \<longleftrightarrow> (\<exists>s \<in> set (operator_selectors m). selector_matches_operator s operator)"

definition match_of :: "controller_manifest \<Rightarrow> node_spec \<Rightarrow> match_rank option" where
  "match_of m n =
     (if operator_kind m \<noteq> ns_kind n then None
      else if operator_selectors m = [] then Some GenericRank
      else if option_ex (claims m) (ns_operator n) then Some SelectorRank else None)"

definition before :: "match_rank \<times> 32 word \<Rightarrow> match_rank \<times> 32 word \<Rightarrow> bool" where
  "before x y \<longleftrightarrow> fst x < fst y \<or> fst x = fst y \<and> snd x < snd y"

definition weight :: "candidate \<Rightarrow> match_rank \<times> 32 word" where
  "weight c = (cd_rank c, priority (cd_manifest c))"

lemma controller_candidate_match:
  "controller_candidate m n = map_option (\<lambda>r. \<lparr>cd_manifest = m, cd_rank = r\<rparr>) (match_of m n)"
proof -
  have ex: "(\<lambda>op. list_ex (\<lambda>s. selector_matches_operator s op) (operator_selectors m)) = claims m"
    by (simp add: fun_eq_iff claims_def list_ex_iff)
  show ?thesis
    by (cases "ns_operator n") (simp_all add: controller_candidate_def match_of_def option_ex_def fun_cong[OF ex])
qed

lemma before_irrefl: "\<not> before x x"
  by (simp add: before_def)

lemma before_trans: "before x y \<Longrightarrow> before y z \<Longrightarrow> before x z"
  by (auto simp: before_def)

lemma not_greater_candidates:
  "not_greater compare_candidates x y \<longleftrightarrow> before (weight x) (weight y) \<or>
     weight x = weight y \<and> cm_controller_id (cd_manifest x) \<le> cm_controller_id (cd_manifest y)"
  by (auto simp: not_greater_def compare_candidates_def before_def weight_def ord_cmp_def then_with_def
      split: ordering.splits if_splits)

lemma total_preorder_candidates: "total_preorder_on A compare_candidates"
proof -
  have "compare_candidates x y \<noteq> Greater \<Longrightarrow> compare_candidates y z \<noteq> Greater \<Longrightarrow> compare_candidates x z \<noteq> Greater" for x y z
    using not_greater_candidates[of x y] not_greater_candidates[of y z] not_greater_candidates[of x z]
      before_trans[of "weight x" "weight y" "weight z"]
    unfolding not_greater_def by (metis order_trans)
  moreover have "(compare_candidates x y = Greater) = (compare_candidates y x = Less)" for x y
    by (auto simp: compare_candidates_def ord_cmp_def then_with_def split: ordering.splits if_splits)
  ultimately show ?thesis unfolding total_preorder_on_def by blast
qed

lemma best_candidate_sorted:
  assumes "sorted_wrt (not_greater compare_candidates) (first # rest)"
  shows "(if \<forall>c \<in> set rest. before (weight first) (weight c) then Inr (cd_manifest first)
     else planning_err (AmbiguousController (as_str (node_id n)))) = best_candidate n (first # rest)"
proof (cases rest)
  case (Cons second more)
  have le: "before (weight first) (weight second) \<or> weight first = weight second"
    "c \<in> set more \<Longrightarrow> before (weight second) (weight c) \<or> weight second = weight c" for c
    using assms Cons by (auto simp: not_greater_candidates)
  have "before (weight first) (weight second) \<Longrightarrow> c \<in> set more \<Longrightarrow> before (weight first) (weight c)" for c
    using le(2)[of c] by (auto simp: before_def)
  then have all: "(\<forall>c \<in> set rest. before (weight first) (weight c)) \<longleftrightarrow> weight first \<noteq> weight second"
    unfolding Cons using le(1) before_irrefl[of "weight second"] by (metis list.set_intros(1) set_ConsD)
  show ?thesis unfolding all by (auto simp: best_candidate_def Cons weight_def)
qed (simp add: best_candidate_def)

lemma best_candidate_ok:
  assumes "distinct cs"
  shows "best_candidate n (sort_by compare_candidates cs) = Inr m \<longleftrightarrow>
    (\<exists>c \<in> set cs. cd_manifest c = m \<and> (\<forall>c' \<in> set cs. c' \<noteq> c \<longrightarrow> before (weight c) (weight c')))"
proof -
  let ?s = "sort_by compare_candidates cs"
  have s: "sorted_wrt (not_greater compare_candidates) ?s" "distinct ?s" "set ?s = set cs"
    using sorted_sort_by[OF total_preorder_candidates[of UNIV]] assms by simp_all
  show ?thesis
  proof (cases ?s)
    case Nil
    then show ?thesis using s(3) by (simp add: best_candidate_def)
  next
    case (Cons first rest)
    have mem: "set cs = insert first (set rest)" "first \<notin> set rest" using s(2,3) Cons by auto
    have best: "best_candidate n ?s = Inr m \<longleftrightarrow>
        (\<forall>c \<in> set rest. before (weight first) (weight c)) \<and> cd_manifest first = m"
      using best_candidate_sorted[of first rest n] s(1) Cons by (auto split: if_splits)
    have "c = first" if "c \<in> set cs" "\<forall>c' \<in> set cs. c' \<noteq> c \<longrightarrow> before (weight c) (weight c')" for c
    proof (rule ccontr)
      assume "c \<noteq> first"
      then have "before (weight c) (weight first)" "not_greater compare_candidates first c"
        using that s(1) Cons mem by auto
      then show False using not_greater_candidates before_irrefl before_trans by metis
    qed
    moreover have "(\<forall>c' \<in> set cs. c' \<noteq> first \<longrightarrow> before (weight first) (weight c')) \<longleftrightarrow>
        (\<forall>c \<in> set rest. before (weight first) (weight c))"
      unfolding mem(1) using mem(2) by (auto simp del: split_paired_All)
    ultimately show ?thesis unfolding best using mem(1) by blast
  qed
qed

definition candidates_of :: "controller_registry \<Rightarrow> node_spec \<Rightarrow> candidate list" where
  "candidates_of reg n = List.map_filter (\<lambda>m. controller_candidate m n) (manifests reg)"

lemma candidates_of_mem:
  "c \<in> set (candidates_of reg n) \<longleftrightarrow> cd_manifest c \<in> set (manifests reg) \<and> match_of (cd_manifest c) n = Some (cd_rank c)"
  by (cases c) (auto simp: candidates_of_def map_filter_def controller_candidate_match image_iff)

lemma distinct_candidates_of:
  assumes "distinct (manifests reg)"
  shows "distinct (candidates_of reg n)"
proof -
  have "distinct (map cd_manifest (candidates_of reg n))"
  proof -
    have "map cd_manifest (candidates_of reg n) = filter (\<lambda>m. match_of m n \<noteq> None) (manifests reg)"
    proof -
      have "map cd_manifest (List.map_filter (\<lambda>m. controller_candidate m n) ms) = filter (\<lambda>m. match_of m n \<noteq> None) ms" for ms
        by (induction ms) (auto simp: controller_candidate_match map_filter_simps split: option.splits)
      then show ?thesis by (simp add: candidates_of_def)
    qed
    then show ?thesis using assms by simp
  qed
  then show ?thesis by (simp add: distinct_map)
qed

lemma ball_candidates_of:
  "(\<forall>c \<in> set (candidates_of reg n). P c) \<longleftrightarrow>
     (\<forall>m \<in> set (manifests reg). \<forall>r. match_of m n = Some r \<longrightarrow> P \<lparr>cd_manifest = m, cd_rank = r\<rparr>)"
  by (auto simp: candidates_of_def map_filter_def controller_candidate_match)

lemma bex_candidates_of:
  "(\<exists>c \<in> set (candidates_of reg n). P c) \<longleftrightarrow>
     (\<exists>m \<in> set (manifests reg). \<exists>r. match_of m n = Some r \<and> P \<lparr>cd_manifest = m, cd_rank = r\<rparr>)"
  using ball_candidates_of[of reg n "\<lambda>c. \<not> P c"] by blast

text \<open>The manifest wins over every other matching manifest.\<close>

definition wins :: "controller_manifest set \<Rightarrow> node_spec \<Rightarrow> controller_manifest \<Rightarrow> bool" where
  "wins ms n m \<longleftrightarrow> (\<exists>r. match_of m n = Some r \<and>
     (\<forall>m' \<in> ms. \<forall>r'. match_of m' n = Some r' \<longrightarrow> m' \<noteq> m \<longrightarrow> before (r, priority m) (r', priority m')))"

lemma resolve_unrequested:
  assumes "distinct (manifests reg)" "requested_controller n = Inr None"
  shows "resolve_for_node reg n = Inr m \<longleftrightarrow> m \<in> set (manifests reg) \<and> wins (set (manifests reg)) n m"
proof -
  let ?beats = "\<lambda>m r. \<forall>m' \<in> set (manifests reg). \<forall>r'. match_of m' n = Some r' \<longrightarrow>
      m' \<noteq> m \<longrightarrow> before (r, priority m) (r', priority m')"
  have "resolve_for_node reg n = best_candidate n (sort_by compare_candidates (candidates_of reg n))"
    using assms(2) by (simp add: resolve_for_node_def candidates_of_def)
  also have "\<dots> = Inr m \<longleftrightarrow> (\<exists>c \<in> set (candidates_of reg n). cd_manifest c = m \<and>
      (\<forall>c' \<in> set (candidates_of reg n). c' \<noteq> c \<longrightarrow> before (weight c) (weight c')))"
    by (rule best_candidate_ok[OF distinct_candidates_of[OF assms(1)]])
  also have "\<dots> \<longleftrightarrow> m \<in> set (manifests reg) \<and> (\<exists>r. match_of m n = Some r \<and> ?beats m r)"
  proof -
    have eq: "(\<lparr>cd_manifest = m', cd_rank = r'\<rparr> \<noteq> \<lparr>cd_manifest = m, cd_rank = r\<rparr>) = (m' \<noteq> m)"
      if "match_of m n = Some r" "match_of m' n = Some r'" for m m' r r'
      using that by auto
    have "(\<forall>c' \<in> set (candidates_of reg n). c' \<noteq> \<lparr>cd_manifest = m, cd_rank = r\<rparr> \<longrightarrow>
        before (weight \<lparr>cd_manifest = m, cd_rank = r\<rparr>) (weight c')) \<longleftrightarrow> ?beats m r" if "match_of m n = Some r" for m r
      unfolding ball_candidates_of weight_def candidate.select_convs using eq[OF that] by auto
    note this [simp]
    have pick: "(\<exists>m' \<in> M. \<exists>r. match_of m' n = Some r \<and> m' = m \<and> Q m' r) \<longleftrightarrow> m \<in> M \<and> (\<exists>r. match_of m n = Some r \<and> Q m r)"
      for M Q by blast
    show ?thesis unfolding bex_candidates_of candidate.select_convs pick by (simp cong: conj_cong)
  qed
  also have "\<dots> \<longleftrightarrow> m \<in> set (manifests reg) \<and> wins (set (manifests reg)) n m" unfolding wins_def by (rule refl)
  finally show ?thesis .
qed

lemma match_of_kind: "match_of m n = Some r \<Longrightarrow> operator_kind m = ns_kind n"
  by (simp add: match_of_def split: if_splits)

lemma resolve_for_registry:
  assumes "registry_of d ms = Inr reg"
  shows "resolve_for_node reg n = Inr m \<longleftrightarrow> m \<in> set ms \<and>
    (case requested_controller n of
       Inl _ \<Rightarrow> False
     | Inr None \<Rightarrow> wins (set ms) n m
     | Inr (Some c) \<Rightarrow> cm_controller_id m = c \<and> operator_kind m = ns_kind n)"
proof (cases "requested_controller n")
  case (Inl e)
  then show ?thesis by (simp add: resolve_for_node_def)
next
  case (Inr requested)
  show ?thesis
  proof (cases requested)
    case None
    have "distinct (manifests reg)" using registry_entries(2)[OF assms] by (simp add: distinct_map)
    then show ?thesis using resolve_unrequested Inr None registry_entries(1)[OF assms] by simp
  next
    case (Some c)
    then have "resolve_for_node reg n = Inr m \<longleftrightarrow> bm_get reg c = Some m \<and> operator_kind m = ns_kind n"
      using Inr by (auto simp: resolve_for_node_def and_then_ok split: if_splits)
    then show ?thesis unfolding registry_entries(3)[OF assms] using Inr Some by auto
  qed
qed

lemma resolve_unrequested_err:
  assumes "requested_controller n = Inr None" "resolve_for_node reg n = Inl e"
    and "m \<in> set (manifests reg)" "match_of m n = Some r"
  shows "e = Err (Planning (AmbiguousController (as_str (node_id n))))"
proof -
  let ?s = "sort_by compare_candidates (candidates_of reg n)"
  have "\<lparr>cd_manifest = m, cd_rank = r\<rparr> \<in> set ?s" using assms(3,4) by (simp add: candidates_of_mem)
  then obtain first rest where s: "?s = first # rest" by (cases ?s) auto
  have "best_candidate n ?s = Inl e" using assms(1,2) by (simp add: resolve_for_node_def candidates_of_def)
  moreover have "sorted_wrt (not_greater compare_candidates) (first # rest)"
    unfolding s[symmetric] by (rule sorted_sort_by[OF total_preorder_candidates[of UNIV]]) simp
  ultimately show ?thesis using best_candidate_sorted[of first rest n] s by (auto split: if_splits)
qed

lemma infer_ok:
  "infer_operator_kind reg v = Inr r \<longleftrightarrow> (case r of
     None \<Rightarrow> filter (\<lambda>m. claims m v) (manifests reg) = []
   | Some k \<Rightarrow> operator_kind ` {m \<in> set (manifests reg). claims m v} = {k})"
proof -
  have eq: "(\<lambda>m. operator_selectors m \<noteq> [] \<and> list_ex (\<lambda>s. selector_matches_operator s v) (operator_selectors m)) = (\<lambda>m. claims m v)"
    by (auto simp: fun_eq_iff claims_def list_ex_iff)
  let ?ms = "filter (\<lambda>m. claims m v) (manifests reg)"
  have kinds: "operator_kind ` {m \<in> set (manifests reg). claims m v} = operator_kind ` set ?ms" by simp
  show ?thesis
    unfolding infer_operator_kind_def eq Let_def kinds
    by (cases ?ms; cases r) (auto simp: list_ex_iff)
qed

section \<open>Properties\<close>

text \<open>C30: resolution is exact. Over a registry filled with the manifests \<open>ms\<close> a node is given
  \<open>m\<close> exactly when all manifests are valid with distinct ids, and \<open>m\<close> is the one of its kind that the
  node names or, when it names none, the one that beats every other match: a manifest that claims the
  operator before one that takes any, then the smaller priority. The order of registration does not
  matter.\<close>

theorem resolve_for_node_spec:
  "and_then (registry_of d ms) (\<lambda>reg. resolve_for_node reg n) = Inr m \<longleftrightarrow>
     list_all (\<lambda>m. manifest_validate d m = Inr ()) ms \<and> distinct (map cm_controller_id ms) \<and> m \<in> set ms \<and>
     (case requested_controller n of
        Inl _ \<Rightarrow> False
      | Inr None \<Rightarrow> wins (set ms) n m
      | Inr (Some c) \<Rightarrow> cm_controller_id m = c \<and> operator_kind m = ns_kind n)"
proof (cases "list_all (\<lambda>m. manifest_validate d m = Inr ()) ms \<and> distinct (map cm_controller_id ms)")
  case True
  then obtain reg where "registry_of d ms = Inr reg"
    using controllers.fill_total[of ms d] by (auto simp: registry_of_def registry_new_def list_all_iff)
  then show ?thesis using resolve_for_registry True by simp
next
  case False
  then have "registry_of d ms \<noteq> Inr reg" for reg
    by (auto simp: registry_of_def registry_new_def controllers.fill_ok list_all_iff)
  then show ?thesis using False by (auto simp: and_then_ok)
qed

text \<open>inferring the kind of an operator is exact: no kind when no manifest claims it, the common
  kind when the manifests that claim it agree, and no answer otherwise.\<close>

theorem infer_operator_kind_spec:
  "and_then (registry_of d ms) (\<lambda>reg. infer_operator_kind reg v) = Inr r \<longleftrightarrow>
     list_all (\<lambda>m. manifest_validate d m = Inr ()) ms \<and> distinct (map cm_controller_id ms) \<and>
     (case r of None \<Rightarrow> filter (\<lambda>m. claims m v) ms = []
      | Some k \<Rightarrow> operator_kind ` {m \<in> set ms. claims m v} = {k})"
proof (cases "list_all (\<lambda>m. manifest_validate d m = Inr ()) ms \<and> distinct (map cm_controller_id ms)")
  case True
  then obtain reg where reg: "registry_of d ms = Inr reg"
    using controllers.fill_total[of ms d] by (auto simp: registry_of_def registry_new_def list_all_iff)
  show ?thesis using registry_entries(1)[OF reg] True
    by (cases r) (simp_all add: reg infer_ok filter_empty_conv)
next
  case False
  then have "registry_of d ms \<noteq> Inr reg" for reg
    by (auto simp: registry_of_def registry_new_def controllers.fill_ok list_all_iff)
  then show ?thesis using False by (auto simp: and_then_ok)
qed

text \<open>inference and resolution agree: a node built from an inferred kind is given a controller
  that claims its operator, or is refused as ambiguous; it never falls back to a generic controller
  and is never left without one.\<close>

theorem inferred_operator_resolves:
  assumes "registry_of d ms = Inr reg" "infer_operator_kind reg v = Inr (Some k)"
    and "ns_kind n = k" "ns_operator n = Some v" "requested_controller n = Inr None"
  shows "case resolve_for_node reg n of
      Inr m \<Rightarrow> m \<in> set ms \<and> claims m v
    | Inl e \<Rightarrow> e = Err (Planning (AmbiguousController (as_str (node_id n))))"
proof -
  obtain m0 where m0: "m0 \<in> set (manifests reg)" "claims m0 v" "operator_kind m0 = k"
  proof -
    have "k \<in> operator_kind ` {m \<in> set (manifests reg). claims m v}" using assms(2) by (simp add: infer_ok)
    then show thesis using that by blast
  qed
  then have match: "match_of m0 n = Some SelectorRank"
    using assms(3,4) by (auto simp: match_of_def option_ex_def claims_def)
  show ?thesis
  proof (cases "resolve_for_node reg n")
    case (Inl e)
    then show ?thesis using resolve_unrequested_err[OF assms(5) Inl m0(1) match] by simp
  next
    case (Inr m)
    then have m: "m \<in> set ms" "wins (set ms) n m"
      using resolve_for_registry[OF assms(1)] assms(5) by simp_all
    have "claims m v"
    proof (cases "m = m0")
      case False
      then obtain r where r: "match_of m n = Some r" "before (r, priority m) (SelectorRank, priority m0)"
        using m(2) match m0(1) registry_entries(1)[OF assms(1)] unfolding wins_def by blast
      then have "r = SelectorRank" by (cases r) (auto simp: before_def less_match_rank_def)
      then show ?thesis using r(1) assms(4) by (auto simp: match_of_def option_ex_def split: if_splits)
    qed (use m0 in simp)
    then show ?thesis using Inr m(1) by simp
  qed
qed

text \<open>C31: whatever controller a node is given, it has the node's kind and a version, trains in FIT_CV only
  on the fold's training rows (or not at all), does not train when it is inference-only, declares both
  the predictions and the artifacts its output ports emit, is not deterministic when its randomness is
  not, influences training only if it is fitted and, when it uses training weights, has a mechanism to
  apply them, trains an aggregation only if it aggregates, and takes a custom or differentiable loss
  only if its loss is configurable.\<close>

theorem resolved_controller_sound:
  assumes "registry_of d ms = Inr reg" "resolve_for_node reg n = Inr m"
  shows "operator_kind m = ns_kind n \<and> \<not> is_blank (controller_version m) \<and> supported_phases m \<noteq> [] \<and>
    (supports_phase m FitCv \<longrightarrow> fit_scope m = StatelessScope \<or> fit_scope m = FoldTrainScope) \<and>
    (fit_scope m = InferenceOnlyScope \<longrightarrow> \<not> supports_phase m FitCv \<and> \<not> supports_phase m Refit) \<and>
    ((\<exists>p \<in> set (cm_output_ports m). ps_kind p = Prediction) \<longrightarrow> EmitsPredictions \<in> set (capabilities m)) \<and>
    ((\<exists>p \<in> set (cm_output_ports m). ps_kind p = Artifact) \<longrightarrow> EmitsArtifacts \<in> set (capabilities m)) \<and>
    (rng_policy m = Nondeterministic \<longrightarrow> Deterministic \<notin> set (capabilities m)) \<and>
    (set (capabilities m) \<inter> {UsesTrainingWeights, UsesEarlyStopping, PerformsInternalTuning, TrainsAggregation} \<noteq> {} \<longrightarrow>
       fit_scope m = FoldTrainScope \<or> fit_scope m = FullTrainScope) \<and>
    (UsesTrainingWeights \<in> set (capabilities m) \<longrightarrow>
       set (capabilities m) \<inter> {SupportsSampleWeights, SupportsRowResampling, SupportsBackendLossWeights} \<noteq> {}) \<and>
    (TrainsAggregation \<in> set (capabilities m) \<longrightarrow> AggregatesPredictions \<in> set (capabilities m)) \<and>
    (set (capabilities m) \<inter> {SupportsCustomLoss, SupportsDifferentiableLoss} \<noteq> {} \<longrightarrow>
       SupportsConfigurableLoss \<in> set (capabilities m))"
proof -
  have res: "m \<in> set ms \<and> (case requested_controller n of Inl _ \<Rightarrow> False | Inr None \<Rightarrow> wins (set ms) n m
      | Inr (Some c) \<Rightarrow> cm_controller_id m = c \<and> operator_kind m = ns_kind n)"
    using assms(2) unfolding resolve_for_registry[OF assms(1)] .
  then have kind: "operator_kind m = ns_kind n"
    by (auto simp: wins_def match_of_kind split: sum.splits option.splits)
  have "manifest_validate d m = Inr ()" using res registry_entries(4)[OF assms(1)] by blast
  then have checks: "scope_checks m = Inr ()" "emission_checks m = Inr ()" "influence_checks m = Inr ()"
    and head: "\<not> is_blank (controller_version m)" "supported_phases m \<noteq> []"
    by (simp_all add: manifest_validate_def Let_def and_then_ok)
  note C = checks(1)[unfolded scope_checks_def Let_def] checks(2)[unfolded emission_checks_def Let_def]
    checks(3)[unfolded influence_checks_def Let_def active_influence_def]
  show ?thesis
    using C kind head by (cases "fit_scope m")
      (auto simp: ok_iff has_capability_def weighting_mechanism_def list_ex_iff)
qed

section \<open>Witnesses\<close>

definition demo_selector :: operator_selector where
  "demo_selector = \<lparr>os_aliases = [''pls''], os_classes = [], os_class_prefixes = [], os_functions = [],
     os_refs = [], os_types = []\<rparr>"

definition demo_manifest :: "string \<Rightarrow> operator_selector list \<Rightarrow> controller_manifest" where
  "demo_manifest c selectors = \<lparr>cm_controller_id = Ident c, controller_version = ''1'', operator_kind = Model,
     priority = 0, supported_phases = [FitCv, Predict], cm_input_ports = [], cm_output_ports = [],
     data_requirements = None, capabilities = [EmitsPredictions], operator_selectors = selectors,
     fit_scope = FoldTrainScope, rng_policy = UsesCoreSeed, artifact_policy = Serializable\<rparr>"

definition demo_controllers :: "controller_manifest list" where
  "demo_controllers = [demo_manifest ''generic'' [], demo_manifest ''pls'' [demo_selector]]"

definition demo_node :: node_spec where
  "demo_node = \<lparr>node_id = Ident ''model'', ns_kind = Model, ns_operator = Some (JString '' sklearn.PLS ''),
     ns_params = [], ns_ports = \<lparr>inputs = [], outputs = []\<rparr>, ns_metadata = [], ns_seed_label = None\<rparr>"

definition demo_registry :: controller_registry where
  "demo_registry = [(Ident ''generic'', demo_manifest ''generic'' []), (Ident ''pls'', demo_manifest ''pls'' [demo_selector])]"

lemma demo_registry_of: "registry_of (\<lambda>_. None) demo_controllers = Inr demo_registry"
  by code_simp

lemma demo_inferred: "infer_operator_kind demo_registry (JString '' sklearn.PLS '') = Inr (Some Model)"
  by code_simp

lemma demo_resolved: "resolve_for_node demo_registry demo_node = Inr (demo_manifest ''pls'' [demo_selector])"
  by code_simp

theorem inferred_operator_resolves_witness:
  "\<exists>m \<in> set demo_controllers. resolve_for_node demo_registry demo_node = Inr m \<and> claims m (JString '' sklearn.PLS '')"
proof -
  have "ns_kind demo_node = Model" "ns_operator demo_node = Some (JString '' sklearn.PLS '')"
    "requested_controller demo_node = Inr None" by code_simp+
  from inferred_operator_resolves[OF demo_registry_of demo_inferred this]
  show ?thesis unfolding demo_resolved by auto
qed

theorem resolved_controller_sound_witness:
  "supports_phase (demo_manifest ''pls'' [demo_selector]) FitCv \<and>
   (fit_scope (demo_manifest ''pls'' [demo_selector]) = StatelessScope \<or>
    fit_scope (demo_manifest ''pls'' [demo_selector]) = FoldTrainScope)"
proof -
  have "supports_phase (demo_manifest ''pls'' [demo_selector]) FitCv" by code_simp
  then show ?thesis using resolved_controller_sound[OF demo_registry_of demo_resolved] by blast
qed

end
