(* ===== verification/Criteria.thy ===== *)
theory Criteria
  imports Controller
begin

text \<open>
  \<open>criteria.rs\<close>: the contracts of training losses and metrics, their implementation descriptors, the
  roles that bind them to nodes, and the attestations and early-stopping records a run reports. The
  JSON text of a record (serde), Unicode NFC and SHA-256 are the parameters \<open>criteria_env\<close>.
\<close>

section \<open>Semantic contracts\<close>

datatype (plugins only: code size) semantic_spec_kind = BuiltInSpec | CustomSpec

datatype (plugins only: code size) learning_task_kind =
    RegressionTask | BinaryClassification | MulticlassClassification | MultilabelClassification

datatype (plugins only: code size) criterion_input = TargetInput | PredictionInput | SampleWeightInput | MissingMaskInput | GroupInput

datatype (plugins only: code size) loss_reduction = LossMean | LossSum | LossWeightedMean

datatype (plugins only: code size) loss_capability =
    LossDifferentiable | LossDistributedReduction | LossPerOutput | LossSupportsMissingMask
  | LossSupportsSampleWeights

datatype (plugins only: code size) metric_reduction = MetricGlobal | MetricMean | MetricSum | MetricWeightedMean

datatype (plugins only: code size) metric_decomposition = GlobalMetric | PerOutput | PerUnit

datatype (plugins only: code size) metric_capability =
    MetricDecomposable | MetricDistributedReduction | MetricSupportsMissingMask | MetricSupportsSampleWeights

datatype (plugins only: code size) implementation_semantic_kind = LossSemantics | MetricSemantics

datatype (plugins only: code size) implementation_capability =
    ImplDeterministic | ImplDifferentiable | ImplDistributedReduction | ImplNeedsGil | ImplProcessSafe
  | ImplSupportsMissingMask | ImplSupportsSampleWeights | ImplThreadSafe

datatype (plugins only: code size) portability_class = HostLocal | PortableRegistered | PortableBuiltIn

datatype (plugins only: code size) replayability_class = ProcessLocal | RegistryRequired | DetachedReplay

datatype (plugins only: code size) prediction_kind = RegressionPoint | ClassLabel | ClassProbability | DecisionScore

record loss_spec =
  ls_schema_version :: nat
  loss_id :: string
  ls_kind :: semantic_spec_kind
  ls_task_kinds :: "learning_task_kind btree_set"
  ls_prediction_kinds :: "prediction_kind btree_set"
  ls_objective :: metric_objective
  ls_reduction :: loss_reduction
  ls_required_inputs :: "criterion_input btree_set"
  ls_capabilities :: "loss_capability btree_set"
  ls_parameters :: json_value
  ls_fingerprint :: string

record metric_spec =
  ms_schema_version :: nat
  metric_id :: string
  ms_kind :: semantic_spec_kind
  ms_task_kinds :: "learning_task_kind btree_set"
  ms_prediction_kinds :: "prediction_kind btree_set"
  ms_objective :: metric_objective
  supported_levels :: "prediction_level btree_set"
  decomposition :: metric_decomposition
  ms_reduction :: metric_reduction
  ms_required_inputs :: "criterion_input btree_set"
  ms_capabilities :: "metric_capability btree_set"
  ms_parameters :: json_value
  ms_fingerprint :: string

record implementation_descriptor =
  id_schema_version :: nat
  semantic_kind :: implementation_semantic_kind
  semantic_id :: string
  semantic_fingerprint :: string
  provider_id :: string
  binding_id :: string
  implementation_version :: string
  implementation_fingerprint :: string
  supported_controller_families :: "string btree_set"
  runtime_requirements :: "string btree_set"
  id_capabilities :: "implementation_capability btree_set"
  portability :: portability_class
  replayability :: replayability_class
  registry_key :: "string option"
  descriptor_fingerprint :: string

record loss_reference =
  lr_spec :: loss_spec
  lr_implementation :: implementation_descriptor

record metric_reference =
  mf_spec :: metric_spec
  mf_implementation :: implementation_descriptor

record training_loss_role =
  tl_schema_version :: nat
  tl_node_id :: node_id
  tl_output_id :: "string option"
  tl_phases :: "phase btree_set"
  tl_loss :: loss_reference

record loss_attestation =
  la_schema_version :: nat
  la_node_id :: node_id
  la_output_id :: "string option"
  la_phase :: phase
  la_loss_id :: string
  la_semantic_fingerprint :: string
  la_implementation_fingerprint :: string
  la_descriptor_fingerprint :: string
  la_effective_parameters :: json_value
  la_reduction :: loss_reduction
  attestation_fingerprint :: string

datatype (plugins only: code size) metric_role_kind =
    EarlyStoppingRole | SelectionRole | ReportingRole | TuningRole | PruningRole | ThresholdRole
  | EnsembleWeightingRole

datatype (plugins only: code size) missing_metric_policy = MissingError | MissingSkip

record metric_role_reference =
  mr_schema_version :: nat
  mr_role_id :: string
  mr_role :: metric_role_kind
  mr_output_id :: "string option"
  mr_partition :: prediction_partition
  mr_level :: prediction_level
  missing_value_policy :: missing_metric_policy
  mr_metric :: metric_reference

record early_stopping_record =
  es_schema_version :: nat
  es_node_id :: node_id
  es_phase :: phase
  es_fold_id :: "fold_id option"
  es_metric_role :: metric_role_reference
  best_iteration :: "64 word"
  observed_iterations :: "64 word"
  best_value :: f64
  stopped_early :: bool
  es_fingerprint :: string

record criteria_env =
  loss_json :: "loss_spec \<Rightarrow> string result"
  metric_json :: "metric_spec \<Rightarrow> string result"
  descriptor_json :: "implementation_descriptor \<Rightarrow> string result"
  attestation_json :: "loss_attestation \<Rightarrow> string result"
  stopping_json :: "early_stopping_record \<Rightarrow> string result"
  criteria_nfc :: "string \<Rightarrow> string"
  criteria_sha256 :: digest

abbreviation criteria_error :: "criteria_msg \<Rightarrow> dag_ml_error failure" where
  "criteria_error m \<equiv> Err (CampaignValidation (CriteriaMsg m))"

section \<open>Shared checks\<close>

text \<open>White space and control characters anywhere in a string; a pattern of their bytes cannot match
  inside another character.\<close>

fun has_whitespace :: "string \<Rightarrow> bool" where
  "has_whitespace [] = False"
| "has_whitespace (c # cs) = (ws_len (map byte_of (c # cs)) \<noteq> 0 \<or> has_whitespace cs)"

fun has_control :: "nat list \<Rightarrow> bool" where
  "has_control [] = False"
| "has_control (b # bs) =
     (b < 32 \<or> b = 127 \<or> (b = 194 \<and> (case bs of c # _ \<Rightarrow> 128 \<le> c \<and> c \<le> 159 | [] \<Rightarrow> False)) \<or> has_control bs)"

definition validate_token :: "string \<Rightarrow> string \<Rightarrow> unit result" where
  "validate_token label value =
     reject_if (value = [] \<or> trim value \<noteq> value \<or> has_whitespace value \<or> has_control (map byte_of value))
       (criteria_error (TokenInvalid label))"

definition validate_schema_version :: "string \<Rightarrow> nat \<Rightarrow> nat \<Rightarrow> unit result" where
  "validate_schema_version label actual expected =
     reject_if (actual \<noteq> expected) (criteria_error (CriterionSchemaVersion label actual))"

definition validate_versioned_id :: "string \<Rightarrow> string \<Rightarrow> unit result" where
  "validate_versioned_id label value =
     and_then (validate_token (label @ ''_id'') value) (\<lambda>_.
     and_then (ok_or (rsplit_once ''@'' value) (criteria_error (IdNotVersioned label value))) (\<lambda>(base, version).
     reject_if (base = [] \<or> version = [] \<or> is_prefix ''0'' version \<or> \<not> list_all is_ascii_digit version \<or>
         CHR ''@'' \<in> set base)
       (criteria_error (IdVersionSuffix label value))))"

definition validate_string_set :: "string \<Rightarrow> string btree_set \<Rightarrow> unit result" where
  "validate_string_set label vs = try_each (validate_token label) vs"

definition validate_nonempty_set :: "string \<Rightarrow> 'a btree_set \<Rightarrow> unit result" where
  "validate_nonempty_set label vs = reject_if (vs = []) (criteria_error (CriterionSetEmpty label))"

definition validate_required_target_prediction :: "string \<Rightarrow> criterion_input btree_set \<Rightarrow> unit result" where
  "validate_required_target_prediction label ins =
     reject_if (TargetInput \<notin> set ins \<or> PredictionInput \<notin> set ins) (criteria_error (CriterionInputsMissing label))"

definition forbidden_executable_keys :: "string list" where
  "forbidden_executable_keys = [''bytecode'', ''callable'', ''code'', ''function_source'', ''import_path'',
     ''module_path'', ''pickle'', ''serialized_callable'', ''source_code'']"

fun validate_no_executable_payload :: "json_value \<Rightarrow> unit result" where
  "validate_no_executable_payload (JObject kvs) = try_each (\<lambda>kv.
     and_then (reject_if (to_ascii_lowercase (fst kv) \<in> set forbidden_executable_keys)
       (criteria_error (ExecutablePayload (fst kv)))) (\<lambda>_. validate_no_executable_payload (snd kv))) kvs"
| "validate_no_executable_payload (JArray vs) = try_each validate_no_executable_payload vs"
| "validate_no_executable_payload _ = Inr ()"

definition validate_parameters :: "criteria_env \<Rightarrow> string \<Rightarrow> json_value \<Rightarrow> unit result" where
  "validate_parameters env label parameters = checks [
     reject_if (json_as_object parameters = None) (criteria_error (ParametersNotObject label)),
     map_error (\<lambda>_. CampaignValidation (CriteriaMsg (ParametersOutsideTcv1 label)))
       (validate_typed_serde_value (criteria_nfc env) parameters),
     validate_no_executable_payload parameters]"

definition criterion_fingerprint_check :: "string \<Rightarrow> string \<Rightarrow> unit result" where
  "criterion_fingerprint_check label value =
     reject_if (\<not> is_hex_fingerprint value) (criteria_error (CriterionFingerprintInvalid label))"

definition criteria_fingerprint_without ::
  "criteria_env \<Rightarrow> ('r \<Rightarrow> string result) \<Rightarrow> 'r \<Rightarrow> string \<Rightarrow> string \<Rightarrow> string result" where
  "criteria_fingerprint_without env to_json r field label =
     and_then (to_json r) (\<lambda>json.
     map_error (\<lambda>_. CampaignValidation (CriteriaMsg (CriterionNotTcv1 label)))
       (and_then (parse_typed_json (criteria_nfc env) json)
         (\<lambda>v. fingerprint_without (criteria_sha256 env) (criteria_nfc env) v field)))"

text \<open>The last two checks of every self-fingerprinted contract.\<close>

definition self_fingerprint_check :: "string \<Rightarrow> string \<Rightarrow> string result \<Rightarrow> unit result" where
  "self_fingerprint_check label fp computed = checks [
     criterion_fingerprint_check label fp,
     and_then computed (\<lambda>expected. reject_if (fp \<noteq> expected) (criteria_error (CriterionFingerprintDiffers label)))]"

section \<open>Losses\<close>

definition loss_compute_fingerprint :: "criteria_env \<Rightarrow> loss_spec \<Rightarrow> string result" where
  "loss_compute_fingerprint env s =
     criteria_fingerprint_without env (loss_json env) s ''spec_fingerprint'' ''loss spec''"

definition loss_content_check :: "criteria_env \<Rightarrow> loss_spec \<Rightarrow> unit result" where
  "loss_content_check env s = checks [
     validate_schema_version ''loss spec'' (ls_schema_version s) 1,
     validate_versioned_id ''loss'' (loss_id s),
     validate_nonempty_set ''loss task_kinds'' (ls_task_kinds s),
     validate_nonempty_set ''loss prediction_kinds'' (ls_prediction_kinds s),
     reject_if (ls_objective s \<noteq> Minimize) (criteria_error LossObjective),
     validate_required_target_prediction ''loss'' (ls_required_inputs s),
     validate_parameters env ''loss'' (ls_parameters s),
     reject_if (ls_reduction s = LossWeightedMean \<and> SampleWeightInput \<notin> set (ls_required_inputs s))
       (criteria_error (WeightedMeanInput ''loss'')),
     reject_if (SampleWeightInput \<in> set (ls_required_inputs s) \<and> LossSupportsSampleWeights \<notin> set (ls_capabilities s))
       (criteria_error (WeightsUndeclared ''loss'')),
     reject_if (MissingMaskInput \<in> set (ls_required_inputs s) \<and> LossSupportsMissingMask \<notin> set (ls_capabilities s))
       (criteria_error (MasksUndeclared ''loss''))]"

definition loss_validate :: "criteria_env \<Rightarrow> loss_spec \<Rightarrow> unit result" where
  "loss_validate env s = checks [loss_content_check env s,
     self_fingerprint_check ''loss spec'' (ls_fingerprint s) (loss_compute_fingerprint env s)]"

definition loss_new ::
  "criteria_env \<Rightarrow> string \<Rightarrow> semantic_spec_kind \<Rightarrow> learning_task_kind btree_set \<Rightarrow> prediction_kind btree_set
   \<Rightarrow> loss_reduction \<Rightarrow> criterion_input btree_set \<Rightarrow> loss_capability btree_set \<Rightarrow> json_value \<Rightarrow> loss_spec result" where
  "loss_new env i kind tasks kinds reduction ins caps parameters =
     (let s = \<lparr>ls_schema_version = 1, loss_id = i, ls_kind = kind, ls_task_kinds = tasks,
        ls_prediction_kinds = kinds, ls_objective = Minimize, ls_reduction = reduction,
        ls_required_inputs = ins, ls_capabilities = caps, ls_parameters = parameters, ls_fingerprint = ''''\<rparr> in
      and_then (loss_compute_fingerprint env s) (\<lambda>fp.
      let s = s\<lparr>ls_fingerprint := fp\<rparr> in
      and_then (loss_validate env s) (\<lambda>_. Inr s)))"

definition loss_validate_compatibility ::
  "criteria_env \<Rightarrow> loss_spec \<Rightarrow> learning_task_kind \<Rightarrow> prediction_kind \<Rightarrow> unit result" where
  "loss_validate_compatibility env s task kind = checks [loss_validate env s,
     reject_if (task \<notin> set (ls_task_kinds s) \<or> kind \<notin> set (ls_prediction_kinds s))
       (criteria_error (CriterionIncompatible ''loss'' (loss_id s)))]"

section \<open>Metrics\<close>

definition metric_compute_fingerprint :: "criteria_env \<Rightarrow> metric_spec \<Rightarrow> string result" where
  "metric_compute_fingerprint env s =
     criteria_fingerprint_without env (metric_json env) s ''spec_fingerprint'' ''metric spec''"

definition decomposition_check :: "metric_spec \<Rightarrow> unit result" where
  "decomposition_check s =
     (if decomposition s = GlobalMetric
      then reject_if (ms_reduction s \<noteq> MetricGlobal) (criteria_error GlobalReductionRequired)
      else reject_if (ms_reduction s = MetricGlobal) (criteria_error GlobalReductionForbidden))"

definition metric_content_check :: "criteria_env \<Rightarrow> metric_spec \<Rightarrow> unit result" where
  "metric_content_check env s = checks [
     validate_schema_version ''metric spec'' (ms_schema_version s) 1,
     validate_versioned_id ''metric'' (metric_id s),
     validate_nonempty_set ''metric task_kinds'' (ms_task_kinds s),
     validate_nonempty_set ''metric prediction_kinds'' (ms_prediction_kinds s),
     validate_nonempty_set ''metric supported_levels'' (supported_levels s),
     validate_required_target_prediction ''metric'' (ms_required_inputs s),
     validate_parameters env ''metric'' (ms_parameters s),
     decomposition_check s,
     reject_if (ms_reduction s = MetricWeightedMean \<and> SampleWeightInput \<notin> set (ms_required_inputs s))
       (criteria_error (WeightedMeanInput ''metric'')),
     reject_if (ms_reduction s = MetricWeightedMean \<and> decomposition s \<noteq> PerUnit)
       (criteria_error WeightedMeanPerUnit),
     reject_if (decomposition s \<noteq> GlobalMetric \<and> MetricDecomposable \<notin> set (ms_capabilities s))
       (criteria_error DecomposableUndeclared),
     reject_if (SampleWeightInput \<in> set (ms_required_inputs s) \<and> MetricSupportsSampleWeights \<notin> set (ms_capabilities s))
       (criteria_error (WeightsUndeclared ''metric'')),
     reject_if (MissingMaskInput \<in> set (ms_required_inputs s) \<and> MetricSupportsMissingMask \<notin> set (ms_capabilities s))
       (criteria_error (MasksUndeclared ''metric''))]"

definition metric_spec_validate :: "criteria_env \<Rightarrow> metric_spec \<Rightarrow> unit result" where
  "metric_spec_validate env s = checks [metric_content_check env s,
     self_fingerprint_check ''metric spec'' (ms_fingerprint s) (metric_compute_fingerprint env s)]"

definition metric_new :: "criteria_env \<Rightarrow> metric_spec \<Rightarrow> metric_spec result" where
  "metric_new env content =
     (let s = content\<lparr>ms_schema_version := 1, ms_fingerprint := ''''\<rparr> in
      and_then (metric_compute_fingerprint env s) (\<lambda>fp.
      let s = s\<lparr>ms_fingerprint := fp\<rparr> in
      and_then (metric_spec_validate env s) (\<lambda>_. Inr s)))"

definition metric_validate_compatibility ::
  "criteria_env \<Rightarrow> metric_spec \<Rightarrow> learning_task_kind \<Rightarrow> prediction_kind \<Rightarrow> prediction_level \<Rightarrow> unit result" where
  "metric_validate_compatibility env s task kind level = checks [metric_spec_validate env s,
     reject_if (task \<notin> set (ms_task_kinds s) \<or> kind \<notin> set (ms_prediction_kinds s) \<or> level \<notin> set (supported_levels s))
       (criteria_error (CriterionIncompatible ''metric'' (metric_id s)))]"

section \<open>Implementation descriptors\<close>

definition descriptor_compute_fingerprint :: "criteria_env \<Rightarrow> implementation_descriptor \<Rightarrow> string result" where
  "descriptor_compute_fingerprint env d =
     criteria_fingerprint_without env (descriptor_json env) d ''descriptor_fingerprint'' ''implementation descriptor''"

definition portability_check :: "implementation_descriptor \<Rightarrow> unit result" where
  "portability_check d = (case portability d of
      HostLocal \<Rightarrow> checks [
        reject_if (registry_key d = None) (criteria_error HostLocalNeedsKey),
        reject_if (replayability d = DetachedReplay) (criteria_error HostLocalDetached)]
    | PortableRegistered \<Rightarrow> checks [
        reject_if (registry_key d = None) (criteria_error RegisteredNeedsKey),
        reject_if (replayability d \<noteq> RegistryRequired) (criteria_error RegisteredReplay)]
    | PortableBuiltIn \<Rightarrow> checks [
        reject_if (registry_key d \<noteq> None) (criteria_error BuiltInForbidsKey),
        reject_if (replayability d \<noteq> DetachedReplay) (criteria_error BuiltInReplay)])"

definition descriptor_content_check :: "implementation_descriptor \<Rightarrow> unit result" where
  "descriptor_content_check d = checks [
     validate_schema_version ''implementation descriptor'' (id_schema_version d) 1,
     validate_versioned_id ''implementation semantic'' (semantic_id d),
     criterion_fingerprint_check ''implementation semantic'' (semantic_fingerprint d),
     validate_token ''provider_id'' (provider_id d),
     validate_token ''binding_id'' (binding_id d),
     validate_token ''implementation_version'' (implementation_version d),
     criterion_fingerprint_check ''implementation'' (implementation_fingerprint d),
     validate_string_set ''supported_controller_families'' (supported_controller_families d),
     validate_string_set ''runtime_requirements'' (runtime_requirements d),
     check_option (validate_token ''registry_key'') (registry_key d),
     portability_check d]"

definition descriptor_validate :: "criteria_env \<Rightarrow> implementation_descriptor \<Rightarrow> unit result" where
  "descriptor_validate env d = checks [descriptor_content_check d,
     self_fingerprint_check ''implementation descriptor'' (descriptor_fingerprint d) (descriptor_compute_fingerprint env d)]"

definition descriptor_new :: "criteria_env \<Rightarrow> implementation_descriptor \<Rightarrow> implementation_descriptor result" where
  "descriptor_new env content =
     (let d = content\<lparr>id_schema_version := 1, descriptor_fingerprint := ''''\<rparr> in
      and_then (descriptor_compute_fingerprint env d) (\<lambda>fp.
      let d = d\<lparr>descriptor_fingerprint := fp\<rparr> in
      and_then (descriptor_validate env d) (\<lambda>_. Inr d)))"

definition validate_descriptor_semantic ::
  "implementation_descriptor \<Rightarrow> implementation_semantic_kind \<Rightarrow> string \<Rightarrow> string \<Rightarrow> unit result" where
  "validate_descriptor_semantic d kind i fp =
     reject_if (semantic_kind d \<noteq> kind \<or> semantic_id d \<noteq> i \<or> semantic_fingerprint d \<noteq> fp)
       (criteria_error (DescriptorDiffers i))"

definition capability_check :: "string \<Rightarrow> bool \<times> bool \<times> string \<Rightarrow> unit result" where
  "capability_check subject = (\<lambda>(required, provided, label).
     reject_if (required \<and> \<not> provided) (criteria_error (ImplementationLacks subject label)))"

definition loss_reference_validate :: "criteria_env \<Rightarrow> loss_reference \<Rightarrow> unit result" where
  "loss_reference_validate env r = (let s = lr_spec r; d = lr_implementation r in checks [
     loss_validate env s, descriptor_validate env d,
     validate_descriptor_semantic d LossSemantics (loss_id s) (ls_fingerprint s),
     try_each (capability_check ''loss'')
       [(LossDifferentiable \<in> set (ls_capabilities s), ImplDifferentiable \<in> set (id_capabilities d), ''differentiable''),
        (LossSupportsSampleWeights \<in> set (ls_capabilities s), ImplSupportsSampleWeights \<in> set (id_capabilities d),
         ''supports_sample_weights''),
        (LossSupportsMissingMask \<in> set (ls_capabilities s), ImplSupportsMissingMask \<in> set (id_capabilities d),
         ''supports_missing_mask''),
        (LossDistributedReduction \<in> set (ls_capabilities s), ImplDistributedReduction \<in> set (id_capabilities d),
         ''distributed_reduction'')]])"

definition metric_reference_validate :: "criteria_env \<Rightarrow> metric_reference \<Rightarrow> unit result" where
  "metric_reference_validate env r = (let s = mf_spec r; d = mf_implementation r in checks [
     metric_spec_validate env s, descriptor_validate env d,
     validate_descriptor_semantic d MetricSemantics (metric_id s) (ms_fingerprint s),
     try_each (capability_check ''metric'')
       [(MetricSupportsSampleWeights \<in> set (ms_capabilities s), ImplSupportsSampleWeights \<in> set (id_capabilities d),
         ''supports_sample_weights''),
        (MetricSupportsMissingMask \<in> set (ms_capabilities s), ImplSupportsMissingMask \<in> set (id_capabilities d),
         ''supports_missing_mask''),
        (MetricDistributedReduction \<in> set (ms_capabilities s), ImplDistributedReduction \<in> set (id_capabilities d),
         ''distributed_reduction'')]])"

end
