(* ===== verification/CriteriaRoles.thy ===== *)
theory CriteriaRoles
  imports Criteria
begin

text \<open>
  \<open>criteria.rs\<close>, second part: training-loss and metric roles, loss execution attestations,
  early-stopping records, the resolution of a loss among its declared sources, and the built-in
  catalogs.
\<close>

section \<open>Roles\<close>

definition trains :: "phase \<Rightarrow> bool" where
  "trains p \<longleftrightarrow> p = FitCv \<or> p = Refit"

definition loss_role_validate :: "criteria_env \<Rightarrow> training_loss_role \<Rightarrow> unit result" where
  "loss_role_validate env r = checks [
     validate_schema_version ''training loss role'' (tl_schema_version r) 1,
     check_option (validate_token ''loss output_id'') (tl_output_id r),
     reject_if (tl_phases r = [] \<or> list_ex (\<lambda>p. \<not> trains p) (tl_phases r)) (criteria_error LossPhases),
     loss_reference_validate env (tl_loss r)]"

definition metric_role_validate :: "criteria_env \<Rightarrow> metric_role_reference \<Rightarrow> unit result" where
  "metric_role_validate env r = checks [
     validate_schema_version ''metric role'' (mr_schema_version r) 1,
     validate_token ''metric role_id'' (mr_role_id r),
     check_option (validate_token ''metric output_id'') (mr_output_id r),
     reject_if (missing_value_policy r = MissingSkip \<and> mr_role r \<noteq> ReportingRole) (criteria_error SkipNotReporting),
     reject_if (mr_level r \<notin> set (supported_levels (mf_spec (mr_metric r))))
       (criteria_error (MetricLevelUnsupported (metric_id (mf_spec (mr_metric r))))),
     metric_reference_validate env (mr_metric r)]"

section \<open>Attestations\<close>

definition attestation_compute_fingerprint :: "criteria_env \<Rightarrow> loss_attestation \<Rightarrow> string result" where
  "attestation_compute_fingerprint env a =
     criteria_fingerprint_without env (attestation_json env) a ''attestation_fingerprint'' ''loss execution attestation''"

definition attestation_content_check :: "criteria_env \<Rightarrow> loss_attestation \<Rightarrow> unit result" where
  "attestation_content_check env a = checks [
     validate_schema_version ''loss execution attestation'' (la_schema_version a) 1,
     check_option (validate_token ''loss attestation output_id'') (la_output_id a),
     reject_if (\<not> trains (la_phase a)) (criteria_error AttestationPhase),
     validate_versioned_id ''loss attestation'' (la_loss_id a),
     criterion_fingerprint_check ''loss attestation semantic fingerprint'' (la_semantic_fingerprint a),
     criterion_fingerprint_check ''loss attestation implementation fingerprint'' (la_implementation_fingerprint a),
     criterion_fingerprint_check ''loss attestation descriptor fingerprint'' (la_descriptor_fingerprint a),
     validate_parameters env ''loss attestation'' (la_effective_parameters a)]"

definition attestation_validate :: "criteria_env \<Rightarrow> loss_attestation \<Rightarrow> unit result" where
  "attestation_validate env a = checks [attestation_content_check env a,
     self_fingerprint_check ''loss execution attestation'' (attestation_fingerprint a)
       (attestation_compute_fingerprint env a)]"

definition attestation_validate_against ::
  "criteria_env \<Rightarrow> loss_attestation \<Rightarrow> training_loss_role \<Rightarrow> node_id \<Rightarrow> phase \<Rightarrow> unit result" where
  "attestation_validate_against env a r n p = (let s = lr_spec (tl_loss r); d = lr_implementation (tl_loss r) in checks [
     attestation_validate env a, loss_role_validate env r,
     reject_if (la_node_id a \<noteq> n \<or> tl_node_id r \<noteq> n \<or> la_output_id a \<noteq> tl_output_id r \<or> la_phase a \<noteq> p \<or>
         p \<notin> set (tl_phases r) \<or> la_loss_id a \<noteq> loss_id s \<or> la_semantic_fingerprint a \<noteq> ls_fingerprint s \<or>
         la_implementation_fingerprint a \<noteq> implementation_fingerprint d \<or>
         la_descriptor_fingerprint a \<noteq> descriptor_fingerprint d \<or>
         json_norm (la_effective_parameters a) \<noteq> json_norm (ls_parameters s) \<or> la_reduction a \<noteq> ls_reduction s)
       (Err (RuntimeValidation (LossAttestationDiffers (as_str n))))])"

definition attestation_of :: "training_loss_role \<Rightarrow> phase \<Rightarrow> loss_attestation" where
  "attestation_of r p = (let s = lr_spec (tl_loss r); d = lr_implementation (tl_loss r) in
     \<lparr>la_schema_version = 1, la_node_id = tl_node_id r, la_output_id = tl_output_id r, la_phase = p,
      la_loss_id = loss_id s, la_semantic_fingerprint = ls_fingerprint s,
      la_implementation_fingerprint = implementation_fingerprint d,
      la_descriptor_fingerprint = descriptor_fingerprint d,
      la_effective_parameters = ls_parameters s, la_reduction = ls_reduction s, attestation_fingerprint = ''''\<rparr>)"

definition attestation_for_role :: "criteria_env \<Rightarrow> training_loss_role \<Rightarrow> phase \<Rightarrow> loss_attestation result" where
  "attestation_for_role env r p =
     and_then (loss_role_validate env r) (\<lambda>_.
     if p \<notin> set (tl_phases r) then Inl (criteria_error (LossRolePhase (as_str (tl_node_id r))))
     else let a = attestation_of r p in
     and_then (attestation_compute_fingerprint env a) (\<lambda>fp.
     let a = a\<lparr>attestation_fingerprint := fp\<rparr> in
     and_then (attestation_validate_against env a r (la_node_id a) p) (\<lambda>_. Inr a)))"

section \<open>Early stopping\<close>

definition stopping_compute_fingerprint :: "criteria_env \<Rightarrow> early_stopping_record \<Rightarrow> string result" where
  "stopping_compute_fingerprint env e =
     criteria_fingerprint_without env (stopping_json env) e ''record_fingerprint'' ''early stopping record''"

definition stopping_content_check :: "criteria_env \<Rightarrow> early_stopping_record \<Rightarrow> unit result" where
  "stopping_content_check env e = checks [
     validate_schema_version ''early stopping record'' (es_schema_version e) 1,
     reject_if (\<not> trains (es_phase e)) (criteria_error StoppingPhase),
     reject_if (es_phase e = FitCv \<and> es_fold_id e = None) (criteria_error StoppingNeedsFold),
     reject_if (es_phase e = Refit \<and> es_fold_id e \<noteq> None) (criteria_error StoppingHasFold),
     metric_role_validate env (es_metric_role e),
     reject_if (mr_role (es_metric_role e) \<noteq> EarlyStoppingRole) (criteria_error StoppingRole),
     reject_if (mr_partition (es_metric_role e) \<noteq> Validation) (criteria_error StoppingPartition),
     reject_if (observed_iterations e = 0 \<or> observed_iterations e \<le> best_iteration e)
       (criteria_error StoppingIterations),
     reject_if (\<not> f64_is_finite (best_value e)) (criteria_error StoppingNotFinite)]"

definition stopping_validate :: "criteria_env \<Rightarrow> early_stopping_record \<Rightarrow> unit result" where
  "stopping_validate env e = checks [stopping_content_check env e,
     self_fingerprint_check ''early stopping record'' (es_fingerprint e) (stopping_compute_fingerprint env e)]"

definition stopping_new :: "criteria_env \<Rightarrow> early_stopping_record \<Rightarrow> early_stopping_record result" where
  "stopping_new env content =
     (let e = content\<lparr>es_schema_version := 1, es_fingerprint := ''''\<rparr> in
      and_then (stopping_compute_fingerprint env e) (\<lambda>fp.
      let e = e\<lparr>es_fingerprint := fp\<rparr> in
      and_then (stopping_validate env e) (\<lambda>_. Inr e)))"

definition stopping_validate_against ::
  "criteria_env \<Rightarrow> early_stopping_record \<Rightarrow> node_id \<Rightarrow> phase \<Rightarrow> fold_id option \<Rightarrow> unit result" where
  "stopping_validate_against env e n p f = checks [stopping_validate env e,
     reject_if (es_node_id e \<noteq> n \<or> es_phase e \<noteq> p \<or> es_fold_id e \<noteq> f) (criteria_error StoppingScope)]"

section \<open>Resolution of a loss\<close>

datatype (plugins only: code size) loss_resolution_source = ExplicitNodeOutput | ControllerProfile | CampaignDefault | TaskFamilyDefault

record loss_resolution_request =
  lq_task_kind :: learning_task_kind
  lq_prediction_kind :: prediction_kind
  explicit_node_output :: "loss_spec option"
  controller_profile :: "loss_spec option"
  campaign_default :: "loss_spec option"
  task_family_default :: "loss_spec option"

record resolved_loss =
  rl_source :: loss_resolution_source
  rl_spec :: loss_spec

fun first_declared :: "('s \<times> 'a option) list \<Rightarrow> ('s \<times> 'a) option" where
  "first_declared [] = None"
| "first_declared ((s, Some x) # _) = Some (s, x)"
| "first_declared ((s, None) # cs) = first_declared cs"

definition loss_candidates :: "loss_resolution_request \<Rightarrow> (loss_resolution_source \<times> loss_spec option) list" where
  "loss_candidates q = [(ExplicitNodeOutput, explicit_node_output q), (ControllerProfile, controller_profile q),
     (CampaignDefault, campaign_default q), (TaskFamilyDefault, task_family_default q)]"

definition resolve_loss :: "criteria_env \<Rightarrow> loss_resolution_request \<Rightarrow> resolved_loss result" where
  "resolve_loss env q =
     and_then (ok_or (first_declared (loss_candidates q)) (criteria_error NoLossResolves)) (\<lambda>(source, s).
     and_then (loss_validate_compatibility env s (lq_task_kind q) (lq_prediction_kind q)) (\<lambda>_.
     Inr \<lparr>rl_source = source, rl_spec = s\<rparr>))"

section \<open>The built-in catalogs\<close>

definition empty_parameters :: json_value where
  "empty_parameters = JObject []"

definition builtin_loss_catalog :: "criteria_env \<Rightarrow> (string, loss_spec) btree_map result" where
  "builtin_loss_catalog env =
     (let target_prediction = [TargetInput, PredictionInput]; differentiable = [LossDifferentiable] in
      and_then (loss_new env ''dagml.loss.mse@1'' BuiltInSpec [RegressionTask] [RegressionPoint] LossMean
        target_prediction differentiable empty_parameters) (\<lambda>regression.
      and_then (loss_new env ''dagml.loss.binary_cross_entropy@1'' BuiltInSpec
        [BinaryClassification, MultilabelClassification] [ClassLabel, ClassProbability] LossMean
        target_prediction differentiable empty_parameters) (\<lambda>binary.
      and_then (loss_new env ''dagml.loss.sparse_categorical_cross_entropy@1'' BuiltInSpec
        [MulticlassClassification] [ClassLabel, ClassProbability] LossMean
        target_prediction differentiable empty_parameters) (\<lambda>multiclass.
      Inr (bm_collect (map (\<lambda>s. (loss_id s, s)) [regression, binary, multiclass]))))))"

definition builtin_metric_kind ::
  "string \<Rightarrow> (learning_task_kind btree_set \<times> prediction_kind \<times> metric_objective) option" where
  "builtin_metric_kind name =
     (if name = ''mse'' \<or> name = ''rmse'' \<or> name = ''mae'' then Some ([RegressionTask], RegressionPoint, Minimize)
      else if name = ''r2'' then Some ([RegressionTask], RegressionPoint, Maximize)
      else if name = ''accuracy''
      then Some ([BinaryClassification, MulticlassClassification, MultilabelClassification], ClassLabel, Maximize)
      else if name = ''balanced_accuracy'' \<or> name = ''f1''
      then Some ([BinaryClassification, MulticlassClassification], ClassLabel, Maximize)
      else None)"

definition builtin_metric_spec :: "criteria_env \<Rightarrow> string \<Rightarrow> metric_spec result" where
  "builtin_metric_spec env name =
     and_then (ok_or (builtin_metric_kind name) (criteria_error (MetricNotInCatalog name))) (\<lambda>(tasks, kind, direction).
     metric_new env \<lparr>ms_schema_version = 1, metric_id = ''dagml.metric.'' @ name @ ''@1'', ms_kind = BuiltInSpec,
       ms_task_kinds = tasks, ms_prediction_kinds = [kind], ms_objective = direction,
       supported_levels = [ObservationLevel, SampleLevel, TargetLevel, GroupLevel],
       decomposition = PerOutput, ms_reduction = MetricMean,
       ms_required_inputs = [TargetInput, PredictionInput], ms_capabilities = [MetricDecomposable],
       ms_parameters = empty_parameters, ms_fingerprint = ''''\<rparr>)"

definition builtin_metric_catalog :: "criteria_env \<Rightarrow> (string, metric_spec) btree_map result" where
  "builtin_metric_catalog env =
     and_then (try_map (\<lambda>name. and_then (builtin_metric_spec env name) (\<lambda>s. Inr (metric_id s, s)))
       [''mse'', ''rmse'', ''mae'', ''r2'', ''accuracy'', ''balanced_accuracy'', ''f1''])
       (\<lambda>kvs. Inr (bm_collect kvs))"

end
