(* ===== verification/CriteriaProofs.thy ===== *)
theory CriteriaProofs
  imports CriteriaRoles
begin

text \<open>
  Self-fingerprinted records: a record that carries the fingerprint of its own remaining content. The
  locale states what losses, metrics, descriptors, attestations and early-stopping records share, and
  proves once that a constructor and its validator accept the same records.
\<close>

locale signed_record =
  fixes fingerprint_of :: "'r \<Rightarrow> string" and sign :: "string \<Rightarrow> 'r \<Rightarrow> 'r" and label :: string
    and content :: "'r \<Rightarrow> unit result" and compute :: "'r \<Rightarrow> string result" and validate :: "'r \<Rightarrow> unit result"
  assumes validate_checks: "validate r = checks [content r, self_fingerprint_check label (fingerprint_of r) (compute r)]"
    and content_sign: "content (sign f r) = content r"
    and fingerprint_sign: "fingerprint_of (sign f r) = f"
    and sign_fingerprint: "sign (fingerprint_of r) r = r"
    and sign_sign: "sign f (sign g r) = sign f r"
begin

definition make :: "'r \<Rightarrow> 'r result" where
  "make r = and_then (compute (sign '''' r)) (\<lambda>f. and_then (validate (sign f r)) (\<lambda>_. Inr (sign f r)))"

text \<open>The recorded fingerprint is not part of what is hashed.\<close>

definition blind :: "'r \<Rightarrow> bool" where
  "blind r \<longleftrightarrow> (\<forall>f. compute (sign f r) = compute r)"

lemma validate_ok:
  "validate r = Inr () \<longleftrightarrow> content r = Inr () \<and> is_hex_fingerprint (fingerprint_of r) \<and> compute r = Inr (fingerprint_of r)"
  by (cases "compute r")
    (auto simp: validate_checks self_fingerprint_check_def criterion_fingerprint_check_def and_then_ok)

lemma blind_sign: "blind r \<Longrightarrow> compute (sign f r) = compute r"
  by (simp add: blind_def)

lemma make_valid: "make r = Inr r' \<Longrightarrow> validate r' = Inr () \<and> sign f r' = sign f r"
  by (auto simp: make_def and_then_ok sign_sign)

lemma make_fixed: "blind r \<Longrightarrow> validate r = Inr () \<Longrightarrow> make r = Inr r"
proof -
  assume "blind r" "validate r = Inr ()"
  then have "compute (sign '''' r) = Inr (fingerprint_of r)" by (simp add: blind_sign validate_ok)
  then show ?thesis using \<open>validate r = Inr ()\<close> by (simp add: make_def sign_fingerprint)
qed

text \<open>A record is valid exactly when its own content makes it.\<close>

lemma make_iff_valid: "blind r \<Longrightarrow> make r = Inr r \<longleftrightarrow> validate r = Inr ()"
  using make_fixed make_valid by blast

lemma valid_unique:
  assumes "blind r" "validate r = Inr ()" "validate r' = Inr ()" "sign '''' r = sign '''' r'"
  shows "r = r'"
proof -
  have r': "r' = sign (fingerprint_of r') r" using assms(4) by (metis sign_fingerprint sign_sign)
  have "compute r' = compute r" using assms(1) by (metis r' blind_sign)
  then have "fingerprint_of r' = fingerprint_of r" using assms(2,3) by (simp add: validate_ok)
  then show ?thesis using r' by (simp add: sign_fingerprint)
qed

lemma make_ok:
  "make r = Inr r' \<longleftrightarrow> (\<exists>f. compute (sign '''' r) = Inr f \<and> validate (sign f r) = Inr () \<and> r' = sign f r)"
  by (auto simp: make_def and_then_ok)

end

interpretation losses: signed_record ls_fingerprint "\<lambda>f s. s\<lparr>ls_fingerprint := f\<rparr>" "''loss spec''"
  "loss_content_check env" "loss_compute_fingerprint env" "loss_validate env" for env
  by unfold_locales (simp_all add: loss_validate_def loss_content_check_def)

interpretation metrics: signed_record ms_fingerprint "\<lambda>f s. s\<lparr>ms_fingerprint := f\<rparr>" "''metric spec''"
  "metric_content_check env" "metric_compute_fingerprint env" "metric_spec_validate env" for env
  by unfold_locales (simp_all add: metric_spec_validate_def metric_content_check_def decomposition_check_def)

interpretation descriptors: signed_record descriptor_fingerprint "\<lambda>f d. d\<lparr>descriptor_fingerprint := f\<rparr>"
  "''implementation descriptor''" descriptor_content_check "descriptor_compute_fingerprint env" "descriptor_validate env" for env
  by unfold_locales (simp_all add: descriptor_validate_def descriptor_content_check_def portability_check_def
    cong: portability_class.case_cong)

interpretation attestations: signed_record attestation_fingerprint "\<lambda>f a. a\<lparr>attestation_fingerprint := f\<rparr>"
  "''loss execution attestation''" "attestation_content_check env" "attestation_compute_fingerprint env"
  "attestation_validate env" for env
  by unfold_locales (simp_all add: attestation_validate_def attestation_content_check_def)

interpretation stoppings: signed_record es_fingerprint "\<lambda>f e. e\<lparr>es_fingerprint := f\<rparr>" "''early stopping record''"
  "stopping_content_check env" "stopping_compute_fingerprint env" "stopping_validate env" for env
  by unfold_locales (simp_all add: stopping_validate_def stopping_content_check_def)

section \<open>The constructors\<close>

lemma loss_new_make:
  "loss_new env (loss_id s) (ls_kind s) (ls_task_kinds s) (ls_prediction_kinds s) (ls_reduction s)
     (ls_required_inputs s) (ls_capabilities s) (ls_parameters s) =
   losses.make env (s\<lparr>ls_schema_version := 1, ls_objective := Minimize\<rparr>)"
  by (cases s) (simp add: loss_new_def losses.make_def Let_def)

lemma metric_new_make: "metric_new env s = metrics.make env (s\<lparr>ms_schema_version := 1\<rparr>)"
  by (cases s) (simp add: metric_new_def metrics.make_def Let_def)

lemma descriptor_new_make: "descriptor_new env d = descriptors.make env (d\<lparr>id_schema_version := 1\<rparr>)"
  by (cases d) (simp add: descriptor_new_def descriptors.make_def Let_def)

lemma stopping_new_make: "stopping_new env e = stoppings.make env (e\<lparr>es_schema_version := 1\<rparr>)"
  by (cases e) (simp add: stopping_new_def stoppings.make_def Let_def)

lemma schema_version_ok [ok_iff]: "validate_schema_version l a e = Inr u \<longleftrightarrow> a = e"
  by (simp add: validate_schema_version_def)

lemma loss_valid_fixed: "loss_validate env s = Inr () \<Longrightarrow> ls_schema_version s = 1 \<and> ls_objective s = Minimize"
  by (simp add: loss_validate_def loss_content_check_def and_then_ok ok_iff)

section \<open>Attestations\<close>

lemma attestation_against_ok:
  "attestation_validate_against env a r n p = Inr () \<longleftrightarrow>
     attestation_validate env a = Inr () \<and> loss_role_validate env r = Inr () \<and> tl_node_id r = n \<and> p \<in> set (tl_phases r) \<and>
     json_norm (la_effective_parameters a) = json_norm (ls_parameters (lr_spec (tl_loss r))) \<and>
     a\<lparr>attestation_fingerprint := '''', la_schema_version := 1,
       la_effective_parameters := ls_parameters (lr_spec (tl_loss r))\<rparr> = attestation_of r p"
  by (cases a) (auto simp: attestation_validate_against_def Let_def and_then_ok attestation_of_def)

lemma attestation_schema: "attestation_validate env a = Inr () \<Longrightarrow> a\<lparr>la_schema_version := 1\<rparr> = a"
  by (cases a) (simp add: attestation_validate_def attestation_content_check_def and_then_ok ok_iff)

text \<open>An attestation that records the role's parameters as they are is accepted for a role, node and phase
  exactly when it is the one the role determines: no other loss, implementation or fingerprint passes.
  The hypothesis says that the recorded fingerprint is not part of what is hashed.\<close>

lemma attestation_accepted_iff_made:
  assumes "attestations.blind env a"
  shows "attestation_validate_against env a r n p = Inr () \<and>
      la_effective_parameters a = ls_parameters (lr_spec (tl_loss r)) \<longleftrightarrow>
    n = tl_node_id r \<and> attestation_for_role env r p = Inr a"
proof
  assume both: "attestation_validate_against env a r n p = Inr () \<and>
      la_effective_parameters a = ls_parameters (lr_spec (tl_loss r))"
  then have ok: "attestation_validate_against env a r n p = Inr ()" ..
  have effective: "a\<lparr>attestation_fingerprint := '''', la_schema_version := 1,
        la_effective_parameters := ls_parameters (lr_spec (tl_loss r))\<rparr> =
      a\<lparr>attestation_fingerprint := '''', la_schema_version := 1\<rparr>"
    using both by (cases a) simp
  have facts: "attestation_validate env a = Inr ()" "loss_role_validate env r = Inr ()" "tl_node_id r = n"
      "p \<in> set (tl_phases r)" "a\<lparr>attestation_fingerprint := '''', la_schema_version := 1\<rparr> = attestation_of r p"
    using ok unfolding attestation_against_ok effective by simp_all
  have same: "a\<lparr>attestation_fingerprint := ''''\<rparr> = attestation_of r p"
    using facts(5) attestation_schema[OF facts(1)] by (cases a) simp
  have compute: "attestation_compute_fingerprint env (attestation_of r p) = Inr (attestation_fingerprint a)"
    using facts(1) attestations.blind_sign[OF assms] attestations.validate_ok[of env a] by (simp flip: same)
  have whole: "(attestation_of r p)\<lparr>attestation_fingerprint := attestation_fingerprint a\<rparr> = a"
    by (simp flip: same)
  have node: "la_node_id (attestation_of r p) = n" using facts(3) by (simp add: attestation_of_def Let_def)
  have "attestation_for_role env r p = Inr a"
    using facts(2,4) ok by (simp add: attestation_for_role_def compute whole node Let_def)
  then show "n = tl_node_id r \<and> attestation_for_role env r p = Inr a" using facts(3) by simp
next
  assume made: "n = tl_node_id r \<and> attestation_for_role env r p = Inr a"
  then have "attestation_validate_against env a r (la_node_id a) p = Inr ()"
    by (auto simp: attestation_for_role_def and_then_ok Let_def split: if_splits)
  moreover from this have "la_node_id a = tl_node_id r" unfolding attestation_against_ok by simp
  moreover have "la_effective_parameters a = ls_parameters (lr_spec (tl_loss r))"
    using made by (auto simp: attestation_for_role_def and_then_ok Let_def attestation_of_def split: if_splits)
  ultimately show "attestation_validate_against env a r n p = Inr () \<and>
      la_effective_parameters a = ls_parameters (lr_spec (tl_loss r))" using made by simp
qed

text \<open>The loss constructor and validator agree: a loss specification validates exactly when its own
  fields construct it, fingerprint included.\<close>

lemma loss_valid_iff_constructed:
  assumes "losses.blind env s"
  shows "loss_validate env s = Inr () \<longleftrightarrow>
    loss_new env (loss_id s) (ls_kind s) (ls_task_kinds s) (ls_prediction_kinds s) (ls_reduction s)
      (ls_required_inputs s) (ls_capabilities s) (ls_parameters s) = Inr s"
proof
  assume ok: "loss_validate env s = Inr ()"
  then have "s\<lparr>ls_schema_version := 1, ls_objective := Minimize\<rparr> = s"
    using loss_valid_fixed by (cases s) fastforce
  then show "loss_new env (loss_id s) (ls_kind s) (ls_task_kinds s) (ls_prediction_kinds s) (ls_reduction s)
      (ls_required_inputs s) (ls_capabilities s) (ls_parameters s) = Inr s"
    unfolding loss_new_make using losses.make_fixed[OF assms ok] by simp
next
  assume "loss_new env (loss_id s) (ls_kind s) (ls_task_kinds s) (ls_prediction_kinds s) (ls_reduction s)
      (ls_required_inputs s) (ls_capabilities s) (ls_parameters s) = Inr s"
  then show "loss_validate env s = Inr ()" unfolding loss_new_make using losses.make_valid by blast
qed

text \<open>What a valid role says of the fields an attestation copies from it, whatever labels the checks of
  the two records carry.\<close>

lemma token_label: "validate_token l v = Inr () \<Longrightarrow> validate_token l' v = Inr ()"
  by (simp add: validate_token_def split: if_splits)

lemma versioned_id_label: "validate_versioned_id l v = Inr () \<Longrightarrow> validate_versioned_id l' v = Inr ()"
  using token_label[of "l @ ''_id''" v "l' @ ''_id''"]
  by (auto simp: validate_versioned_id_def and_then_ok ok_iff split: if_splits)

lemma fingerprint_label: "is_hex_fingerprint v \<Longrightarrow> criterion_fingerprint_check l v = Inr ()"
  by (simp add: criterion_fingerprint_check_def)

lemma valid_role_fields:
  assumes "loss_role_validate env r = Inr ()" "p \<in> set (tl_phases r)"
  shows "check_option (validate_token l) (tl_output_id r) = Inr ()" "trains p"
    "validate_versioned_id l (loss_id (lr_spec (tl_loss r))) = Inr ()"
    "is_hex_fingerprint (ls_fingerprint (lr_spec (tl_loss r)))"
    "is_hex_fingerprint (implementation_fingerprint (lr_implementation (tl_loss r)))"
    "is_hex_fingerprint (descriptor_fingerprint (lr_implementation (tl_loss r)))"
proof -
  have role: "check_option (validate_token ''loss output_id'') (tl_output_id r) = Inr ()"
      "\<forall>p \<in> set (tl_phases r). trains p" "loss_reference_validate env (tl_loss r) = Inr ()"
    using assms(1) by (auto simp: loss_role_validate_def and_then_ok list_ex_iff split: if_splits)
  have parts: "loss_validate env (lr_spec (tl_loss r)) = Inr ()"
      "descriptor_validate env (lr_implementation (tl_loss r)) = Inr ()"
    using role(3) by (simp_all add: loss_reference_validate_def Let_def and_then_ok)
  show "check_option (validate_token l) (tl_output_id r) = Inr ()"
    using role(1) token_label by (cases "tl_output_id r") auto
  show "trains p" using role(2) assms(2) by blast
  show "validate_versioned_id l (loss_id (lr_spec (tl_loss r))) = Inr ()"
    using parts(1) versioned_id_label by (auto simp: loss_validate_def loss_content_check_def and_then_ok)
  show "is_hex_fingerprint (ls_fingerprint (lr_spec (tl_loss r)))" using parts(1) losses.validate_ok by blast
  show "is_hex_fingerprint (descriptor_fingerprint (lr_implementation (tl_loss r)))"
    using parts(2) descriptors.validate_ok by blast
  show "is_hex_fingerprint (implementation_fingerprint (lr_implementation (tl_loss r)))"
    using parts(2) by (simp add: descriptor_validate_def descriptor_content_check_def and_then_ok
      criterion_fingerprint_check_def split: if_splits)
qed

lemma attestation_content_given_role:
  assumes "loss_role_validate env r = Inr ()" "p \<in> set (tl_phases r)"
  shows "attestation_content_check env ((attestation_of r p)\<lparr>la_effective_parameters := v, attestation_fingerprint := f\<rparr>)
    = validate_parameters env ''loss attestation'' v"
  using valid_role_fields[OF assms]
  by (cases "validate_parameters env ''loss attestation'' v") (simp_all add: attestation_content_check_def attestation_of_def Let_def validate_schema_version_def
    criterion_fingerprint_check_def)

text \<open>C8: an attestation of a loss execution is accepted for a role, node and phase exactly when the
  role is valid, the node is its node, the phase one of its phases, every recorded field the one the
  role determines - the parameters up to the equality of JSON values, which identifies the two zeros -
  the recorded parameters are admissible, and the recorded fingerprint is the fingerprint of the
  attestation's own content.\<close>

theorem attestation_validate_against_spec:
  "attestation_validate_against env a r n p = Inr () \<longleftrightarrow>
     loss_role_validate env r = Inr () \<and> n = tl_node_id r \<and> p \<in> set (tl_phases r) \<and>
     a = (attestation_of r p)\<lparr>la_effective_parameters := la_effective_parameters a,
           attestation_fingerprint := attestation_fingerprint a\<rparr> \<and>
     json_norm (la_effective_parameters a) = json_norm (ls_parameters (lr_spec (tl_loss r))) \<and>
     validate_parameters env ''loss attestation'' (la_effective_parameters a) = Inr () \<and>
     is_hex_fingerprint (attestation_fingerprint a) \<and>
     attestation_compute_fingerprint env a = Inr (attestation_fingerprint a)"
proof -
  have schema: "a = (attestation_of r p)\<lparr>la_effective_parameters := la_effective_parameters a,
        attestation_fingerprint := attestation_fingerprint a\<rparr> \<longleftrightarrow>
      la_schema_version a = 1 \<and> a\<lparr>attestation_fingerprint := '''', la_schema_version := 1,
        la_effective_parameters := ls_parameters (lr_spec (tl_loss r))\<rparr> = attestation_of r p"
    by (cases a) (auto simp: attestation_of_def Let_def)
  have version: "attestation_content_check env a = Inr () \<Longrightarrow> la_schema_version a = 1"
    by (simp add: attestation_content_check_def and_then_ok ok_iff)
  have content: "attestation_content_check env a = Inr () \<longleftrightarrow>
      validate_parameters env ''loss attestation'' (la_effective_parameters a) = Inr ()"
    if "loss_role_validate env r = Inr ()" "p \<in> set (tl_phases r)"
      "a = (attestation_of r p)\<lparr>la_effective_parameters := la_effective_parameters a,
        attestation_fingerprint := attestation_fingerprint a\<rparr>"
    using attestation_content_given_role[OF that(1,2)] that(3) by metis
  have against: "attestation_validate_against env a r n p = Inr () \<longleftrightarrow>
     loss_role_validate env r = Inr () \<and> n = tl_node_id r \<and> p \<in> set (tl_phases r) \<and>
     a = (attestation_of r p)\<lparr>la_effective_parameters := la_effective_parameters a,
           attestation_fingerprint := attestation_fingerprint a\<rparr> \<and>
     json_norm (la_effective_parameters a) = json_norm (ls_parameters (lr_spec (tl_loss r))) \<and>
     attestation_content_check env a = Inr () \<and> is_hex_fingerprint (attestation_fingerprint a) \<and>
     attestation_compute_fingerprint env a = Inr (attestation_fingerprint a)"
    unfolding attestation_against_ok attestations.validate_ok schema using version by (simp (no_asm_use)) blast
  show ?thesis unfolding against using content by blast
qed

end
