(* ===== verification/Campaign.thy ===== *)
theory Campaign
  imports ControllerProofs CriteriaProofs
begin

text \<open>
  \<open>plan.rs\<close>, first part: the split invocation, the campaign specification, its validation, and the
  check of the relations of an external data envelope against the campaign's folds.
\<close>

section \<open>Campaigns\<close>

record split_invocation =
  si_id :: string
  si_controller_id :: "controller_id option"
  si_leakage_policy :: leakage_unit_policy
  si_params :: json_map
  si_fold_set :: "fold_set option"

record campaign_spec =
  campaign_id :: string
  cs_root_seed :: "64 word option"
  cs_leakage_policy :: leakage_unit_policy
  cs_aggregation_policy :: aggregation_policy
  split_invocation :: "split_invocation option"
  generation :: generation_spec
  cs_shape_plans :: "(node_id, data_model_shape_plan) btree_map"
  cs_data_bindings :: "(node_id, data_binding list) btree_map"
  branch_view_plans :: "branch_view_plan list"
  cs_inner_cv :: "nested_cv_spec option"
  cs_metadata :: json_map

abbreviation campaign_error :: "campaign_spec_msg \<Rightarrow> dag_ml_error failure" where
  "campaign_error m \<equiv> Err (CampaignValidation (CampaignMsg m))"

definition split_invocation_validate :: "split_invocation \<Rightarrow> unit result" where
  "split_invocation_validate s = checks [
     reject_if (is_blank (si_id s)) (campaign_error SplitIdEmpty),
     leakage_policy_validate (si_leakage_policy s),
     check_option fold_set_validate (si_fold_set s)]"

definition shape_plan_entry_check :: "node_id \<times> data_model_shape_plan \<Rightarrow> unit result" where
  "shape_plan_entry_check = (\<lambda>(n, shape). checks [
     reject_if (n \<noteq> sh_node_id shape) (campaign_error (ShapePlanKey (as_str n) (as_str (sh_node_id shape)))),
     shape_plan_validate shape])"

definition binding_entry_check :: "node_id \<times> data_binding list \<Rightarrow> unit result" where
  "binding_entry_check = (\<lambda>(n, bindings). try_each (\<lambda>b. checks [
     reject_if (n \<noteq> db_node_id b) (campaign_error (BindingKey (as_str n) (as_str (db_node_id b)))),
     data_binding_validate b]) bindings)"

definition campaign_validate :: "campaign_spec \<Rightarrow> unit result" where
  "campaign_validate c = checks [
     reject_if (is_blank (campaign_id c)) (campaign_error CampaignIdEmpty),
     leakage_policy_validate (cs_leakage_policy c),
     aggregation_policy_validate (cs_aggregation_policy c),
     check_option nested_cv_validate (cs_inner_cv c),
     check_option split_invocation_validate (split_invocation c),
     generation_validate (generation c),
     try_each shape_plan_entry_check (cs_shape_plans c),
     try_each binding_entry_check (cs_data_bindings c),
     check_each_unique branch_view_validate bv_view_id
       (\<lambda>p. campaign_error (CampaignDuplicateView (campaign_id c) (bv_view_id p))) (branch_view_plans c)]"

section \<open>Envelopes against the campaign\<close>

definition declared_folds :: "campaign_spec \<Rightarrow> fold_set option" where
  "declared_folds c = Option.bind (split_invocation c) si_fold_set"

definition validate_data_envelope_relations :: "hashing \<Rightarrow> campaign_spec \<Rightarrow> envelope \<Rightarrow> unit result" where
  "validate_data_envelope_relations h c e =
     and_then (envelope_validate h e) (\<lambda>_.
     case coordinator_relations e of None \<Rightarrow> Inr () | Some relations \<Rightarrow>
     (case split_invocation c of None \<Rightarrow> Inr () | Some split \<Rightarrow>
     (case si_fold_set split of None \<Rightarrow> Inr () | Some fs \<Rightarrow> checks [
       validate_against_fold_set relations fs (cs_leakage_policy c),
       validate_against_fold_set relations fs (si_leakage_policy split),
       check_option (\<lambda>cohort. checks [
         validate_against_cv_fold_set h cohort fs,
         validate_against_cv_relations h cohort relations]) (en_predict_cohort e)])))"

end
