(* ===== verification/Plan.thy ===== *)
theory Plan
  imports Campaign
begin

text \<open>
  \<open>plan.rs\<close>, second part: graph plans, node plans, execution plans and the schedule types. The
  parameters of the plan are gathered in \<open>plan_env\<close>: serialised bytes and SHA-256, the serde
  decoders of node metadata, and the optional profile validators of other modules.
\<close>

section \<open>Graph plans\<close>

type_synonym stacking_decoder = "json_value \<Rightarrow> string + stacking_oof_refit_contract"

record graph_plan =
  gp_graph :: graph_spec
  gp_topological_order :: "node_id list"
  gp_parallel_levels :: "node_id list list"

definition graph_plan_from_graph :: "stacking_decoder \<Rightarrow> graph_spec \<Rightarrow> graph_plan result" where
  "graph_plan_from_graph from_value g =
     and_then (topological_order from_value g) (\<lambda>order.
     and_then (parallel_levels from_value g) (\<lambda>levels.
     Inr \<lparr>gp_graph = g, gp_topological_order = order, gp_parallel_levels = levels\<rparr>))"

definition graph_plan_levels :: "stacking_decoder \<Rightarrow> graph_plan \<Rightarrow> node_id list list result" where
  "graph_plan_levels from_value gp =
     (if gp_parallel_levels gp = [] then parallel_levels from_value (gp_graph gp) else Inr (gp_parallel_levels gp))"

section \<open>Plans\<close>

record node_plan =
  np_node_id :: node_id
  np_kind :: node_kind
  np_controller_id :: controller_id
  np_controller_version :: string
  np_supported_phases :: "phase btree_set"
  np_capabilities :: "controller_capability btree_set"
  np_training_losses :: "training_loss_role list"
  np_fit_scope :: controller_fit_scope
  np_rng_policy :: rng_policy
  np_artifact_policy :: artifact_policy
  np_input_nodes :: "node_id list"
  np_output_nodes :: "node_id list"
  np_shape_plan :: "data_model_shape_plan option"
  np_data_bindings :: "data_binding list"
  np_params :: json_map
  np_inner_cv :: "nested_cv_spec option"
  np_params_fingerprint :: string

record execution_plan =
  plan_id :: string
  plan_graph :: graph_plan
  campaign :: campaign_spec
  node_plans :: "(node_id, node_plan) btree_map"
  controller_manifests :: "(controller_id, controller_manifest) btree_map"
  variants :: "variant_plan list"
  plan_fold_set :: "fold_set option"
  graph_fingerprint :: string
  campaign_fingerprint :: string
  controller_fingerprint :: string

record execution_scope_plan =
  scope_id :: string
  es_phase :: phase
  es_variant_id :: "variant_id option"
  es_variant_seed :: "64 word option"
  es_fold_id :: "fold_id option"
  node_levels :: "node_id list list"

record phase_schedule =
  ph_plan_id :: string
  ph_phase :: phase
  scopes :: "execution_scope_plan list"

text \<open>A host trial's fingerprint covers the base fingerprint, the choices and the objective; a
  native trial's covers its namespace, if any, and its number.\<close>

datatype (plugins only: code size) trial_content =
    HostTrial string choice_map string
  | NativeTrial string choice_map int
  | ScopedTrial string string choice_map int

record plan_env =
  stacking_of :: stacking_decoder
  requirements_of :: "json_value \<Rightarrow> model_input_spec option"
  inner_cv_of :: "json_value \<Rightarrow> nested_cv_spec option"
  branch_view_of :: "json_value \<Rightarrow> branch_view_plan option"
  criteria_of :: criteria_env
  plan_sha256 :: digest
  graph_bytes :: "graph_spec \<Rightarrow> bytes result"
  campaign_bytes :: "campaign_spec \<Rightarrow> bytes result"
  manifests_bytes :: "(controller_id, controller_manifest) btree_map \<Rightarrow> bytes result"
  params_bytes :: "json_map \<Rightarrow> bytes result"
  generation_bytes :: "generation_spec \<Rightarrow> bytes result"
  choices_bytes :: serialize_choices
  trial_bytes :: "trial_content \<Rightarrow> bytes result"
  roles_bytes :: "training_loss_role list \<Rightarrow> bytes result"
  domain_plan_check :: "execution_plan \<Rightarrow> unit result"
  classified_operator :: "json_value \<Rightarrow> bool result"
  profile_checks :: "execution_plan \<Rightarrow> unit result"

abbreviation planning_error :: "planning_msg \<Rightarrow> dag_ml_error failure" where
  "planning_error m \<equiv> Err (Planning m)"

definition plan_fingerprint :: "plan_env \<Rightarrow> ('a \<Rightarrow> bytes result) \<Rightarrow> 'a \<Rightarrow> string result" where
  "plan_fingerprint env to_vec x = stable_json_fingerprint to_vec (plan_sha256 env) x"

definition training_losses_for_phase :: "node_plan \<Rightarrow> phase \<Rightarrow> training_loss_role list" where
  "training_losses_for_phase p ph = filter (\<lambda>r. ph \<in> set (tl_phases r)) (np_training_losses p)"

definition training_loss_fingerprint :: "plan_env \<Rightarrow> node_plan \<Rightarrow> phase \<Rightarrow> string option result" where
  "training_loss_fingerprint env p ph =
     (let roles = training_losses_for_phase p ph in
      if roles = [] then Inr None
      else and_then (plan_fingerprint env (roles_bytes env) roles) (\<lambda>fp. Inr (Some fp)))"

section \<open>Levels of a phase\<close>

definition supports_in :: "execution_plan \<Rightarrow> phase \<Rightarrow> node_id \<Rightarrow> bool" where
  "supports_in p ph n \<longleftrightarrow> option_ex (\<lambda>np. ph \<in> set (np_supported_phases np)) (bm_get (node_plans p) n)"

definition node_parallel_levels_for_phase :: "plan_env \<Rightarrow> execution_plan \<Rightarrow> phase \<Rightarrow> node_id list list result" where
  "node_parallel_levels_for_phase env p ph =
     and_then (graph_plan_levels (stacking_of env) (plan_graph p)) (\<lambda>levels.
     Inr (filter (\<lambda>level. level \<noteq> []) (map (filter (supports_in p ph)) levels)))"

definition parallel_node_check :: "execution_plan \<Rightarrow> node_id \<Rightarrow> unit result" where
  "parallel_node_check p n =
     and_then (ok_or (bm_get (node_plans p) n) (planning_error (MissingNodePlan (as_str n)))) (\<lambda>np.
     and_then (ok_or (bm_get (controller_manifests p) (np_controller_id np))
         (planning_error (ManifestMissing (as_str (np_controller_id np)) (as_str (np_node_id np))))) (\<lambda>m.
     reject_if (\<not> supports_parallel_invocation m)
       (planning_error (ParallelUnsafe (as_str (cm_controller_id m)) (as_str (np_node_id np))))))"

definition validate_parallel_controller_capabilities ::
  "plan_env \<Rightarrow> execution_plan \<Rightarrow> nat \<Rightarrow> phase \<Rightarrow> unit result" where
  "validate_parallel_controller_capabilities env p max_workers ph =
     (if max_workers \<le> 1 then Inr ()
      else and_then (node_parallel_levels_for_phase env p ph) (\<lambda>levels. try_each (parallel_node_check p) (concat levels)))"

section \<open>Branch views\<close>

definition branch_view_for :: "execution_plan \<Rightarrow> string \<Rightarrow> branch_view_plan option" where
  "branch_view_for p branch = find (\<lambda>v. bv_branch_id v = branch) (branch_view_plans (campaign p))"

fun first_branch_view :: "execution_plan \<Rightarrow> string list \<Rightarrow> branch_view_plan option" where
  "first_branch_view p [] = None"
| "first_branch_view p (b # bs) = (case branch_view_for p b of Some v \<Rightarrow> Some v | None \<Rightarrow> first_branch_view p bs)"

definition branch_view_for_path :: "execution_plan \<Rightarrow> string list \<Rightarrow> branch_view_plan option" where
  "branch_view_for_path p path = first_branch_view p (rev path)"

end
