(* ===== verification/PlanChecks.thy ===== *)
theory PlanChecks
  imports Plan
begin

text \<open>
  \<open>plan.rs\<close>, third part: the checks of one node of a plan - its data bindings against the
  controller's data requirements, the named-input profile (\<open>dsl/types.rs\<close>), and its training losses.
\<close>

section \<open>Phases are ordered by declaration\<close>

definition phase_index :: "phase \<Rightarrow> nat" where
  "phase_index p = (case p of Compile \<Rightarrow> 0 | Plan \<Rightarrow> 1 | FitCv \<Rightarrow> 2 | Select \<Rightarrow> 3 | Refit \<Rightarrow> 4 | Predict \<Rightarrow> 5 | Explain \<Rightarrow> 6)"

lemma phase_index_inject: "phase_index p = phase_index q \<longleftrightarrow> p = q"
  by (cases p; cases q) (simp_all add: phase_index_def)

instantiation phase :: linorder
begin

definition less_eq_phase :: "phase \<Rightarrow> phase \<Rightarrow> bool" where
  "less_eq_phase p q \<longleftrightarrow> phase_index p \<le> phase_index q"

definition less_phase :: "phase \<Rightarrow> phase \<Rightarrow> bool" where
  "less_phase p q \<longleftrightarrow> phase_index p < phase_index q"

instance
  by standard (auto simp: less_eq_phase_def less_phase_def phase_index_inject)

end

section \<open>Effective sources\<close>

definition frozen_representation_types :: "(string \<times> string) list" where
  "frozen_representation_types = [
     (''tabular_numeric'', ''table''), (''tabular_mixed'', ''table''),
     (''signal_1d'', ''dense_signal''), (''signal_with_processings'', ''dense_signal''),
     (''feature_block_set'', ''multi_block''),
     (''target_numeric'', ''target''), (''target_categorical'', ''target''),
     (''target_numeric_matrix'', ''target''), (''target_categorical_matrix'', ''target''),
     (''sample_metadata'', ''metadata'')]"

definition representation_type_id :: "string \<Rightarrow> string option" where
  "representation_type_id r = map_of frozen_representation_types r"

definition branch_view_plan_from_node_metadata :: "plan_env \<Rightarrow> node_spec \<Rightarrow> branch_view_plan option result" where
  "branch_view_plan_from_node_metadata env n = (case bm_get (ns_metadata n) ''dsl_branch_view_plan'' of
       None \<Rightarrow> Inr None
     | Some v \<Rightarrow>
         and_then (ok_or (branch_view_of env v) (planning_error (BranchViewMalformed (as_str (node_id n))))) (\<lambda>p.
         and_then (map_error (\<lambda>_. Planning BranchViewInvalid) (branch_view_validate p)) (\<lambda>_. Inr (Some p))))"

definition effective_binding_source_ids :: "data_binding \<Rightarrow> branch_view_plan option \<Rightarrow> string list result" where
  "effective_binding_source_ids b view = (case view of
       None \<Rightarrow> Inr (db_source_ids b)
     | Some v \<Rightarrow>
         let selected = sel_source_ids (bv_selector v) in
         if bv_mode v \<noteq> BySource then Inr (db_source_ids b)
         else if length selected \<noteq> 1
         then planning_err (RequirementRefused ''unsupported_by_source_shape'' (as_str (db_node_id b)))
         else if db_source_ids b \<noteq> [] \<and> list_ex (\<lambda>s. s \<notin> set (db_source_ids b)) selected
         then planning_err (RequirementRefused ''by_source_selector_outside_binding'' (as_str (db_node_id b)))
         else Inr selected)"

definition representation_plan_component_sources :: "representation_plan \<Rightarrow> string list" where
  "representation_plan_component_sources p = (case p of
      Aggregate _ \<Rightarrow> []
    | CartesianProduct r \<Rightarrow> cp_source_ids (pr_combination_plan r)
    | MonteCarloCartesian r \<Rightarrow> cp_source_ids (pr_combination_plan r)
    | StackFixed r \<Rightarrow> sf_source_ids r
    | StackPaddedMasked r \<Rightarrow> sp_source_ids r)"

definition validate_fusion_sources_match_binding ::
  "node_id \<Rightarrow> representation_plan option \<Rightarrow> string list \<Rightarrow> unit result" where
  "validate_fusion_sources_match_binding n plan effective = check_option (\<lambda>p.
     let components = representation_plan_component_sources p in
     reject_if (components \<noteq> [] \<and> set components \<noteq> set effective)
       (planning_error (RequirementRefused ''representation_sources_mismatch'' (as_str n)))) plan"

definition fusion_mode_check :: "node_id \<Rightarrow> data_binding \<Rightarrow> fusion_mode \<Rightarrow> unit result" where
  "fusion_mode_check n b mode = (case mode of
      ConcatenateFeatures \<Rightarrow>
        reject_if (Option.bind (bm_get (db_metadata b) source_index_metadata_key) json_as_object = None)
          (planning_error (RequirementRefused ''source_concat_requires_source_index'' (as_str n)))
    | DictBySource \<Rightarrow> Inr ()
    | CustomFusion \<Rightarrow> Inr ()
    | _ \<Rightarrow> planning_err (RequirementRefused ''unsupported_multisource_fusion_mode'' (as_str n)))"

definition validate_data_binding_source_shape ::
  "node_id \<Rightarrow> data_binding \<Rightarrow> model_input_port \<Rightarrow> model_input_spec \<Rightarrow> branch_view_plan option \<Rightarrow> unit result" where
  "validate_data_binding_source_shape n b port spec view =
     and_then (effective_binding_source_ids b view) (\<lambda>effective.
     if length effective < 2 then Inr ()
     else if \<not> multi_source port
     then planning_err (RequirementRefused ''multi_source_port_not_supported'' (as_str n))
     else case default_fusion spec of
         None \<Rightarrow> planning_err (RequirementRefused ''missing_multisource_fusion'' (as_str n))
       | Some fusion \<Rightarrow> checks [
           validate_fusion_sources_match_binding n (fu_representation_plan fusion) effective,
           fusion_mode_check n b (fu_mode fusion)])"

section \<open>The named-input profile\<close>

definition is_ascii_alphabetic :: "char \<Rightarrow> bool" where
  "is_ascii_alphabetic c \<longleftrightarrow> 65 \<le> byte_of c \<and> byte_of c \<le> 90 \<or> 97 \<le> byte_of c \<and> byte_of c \<le> 122"

definition is_port_identifier :: "string \<Rightarrow> bool" where
  "is_port_identifier s = (case s of
      [] \<Rightarrow> False
    | c # cs \<Rightarrow> (is_ascii_alphabetic c \<or> c = CHR ''_'') \<and>
        list_all (\<lambda>d. is_ascii_alphanumeric d \<or> d = CHR ''_'') cs)"

definition named_representation :: "string \<Rightarrow> (string \<times> nat) option" where
  "named_representation r =
     (if r = ''tabular_numeric'' then Some (''table'', 2)
      else if r = ''signal_1d'' then Some (''dense_signal'', 2)
      else if r = ''gray_image'' then Some (''gray_image'', 3)
      else if r = ''rgb_image'' then Some (''image_rgb'', 4)
      else if r = ''mc_image'' \<or> r = ''multispectral_image'' then Some (''multichannel_image'', 4)
      else if r = ''series_mv'' then Some (''time_series'', 3)
      else None)"

text \<open>The extents multiply without overflow and stay within the bound at every step.\<close>

fun shape_size :: "nat \<Rightarrow> json_value list \<Rightarrow> nat option" where
  "shape_size acc [] = Some acc"
| "shape_size acc (v # vs) = (case json_as_u64 v of
       None \<Rightarrow> None
     | Some w \<Rightarrow>
         if w = 0 then None
         else case checked_mul acc (unat w) of
             None \<Rightarrow> None
           | Some s \<Rightarrow> if s \<le> 16777216 then shape_size s vs else None)"

definition port_metadata_str :: "model_input_port \<Rightarrow> string \<Rightarrow> string option" where
  "port_metadata_str p key = Option.bind (bm_get (mi_metadata p) key) json_as_str"

definition named_shape_ok :: "model_input_port \<Rightarrow> string \<Rightarrow> bool" where
  "named_shape_ok p representation =
     option_ex (\<lambda>shape. option_ex (\<lambda>r. length shape + 1 = r) (rank p) \<and> shape_size 1 shape \<noteq> None \<and>
         (representation \<noteq> ''rgb_image'' \<or> (shape \<noteq> [] \<and> json_as_u64 (last shape) = Some 3)))
       (Option.bind (bm_get (mi_metadata p) ''feature_shape'') json_as_array)"

definition named_port_ok :: "model_input_port \<Rightarrow> bool" where
  "named_port_ok p = (case accepted_representations p of
      [representation] \<Rightarrow>
        option_ex (\<lambda>(type, r). accepted_types p = [type] \<and> rank p = Some r) (named_representation representation) \<and>
        mi_name p \<noteq> ''y'' \<and> is_port_identifier (mi_name p) \<and> \<not> multi_source p \<and> \<not> mi_optional p \<and>
        length (mi_metadata p) = 3 \<and>
        option_ex (\<lambda>s. s \<noteq> [] \<and> trim s = s) (port_metadata_str p ''source_id'') \<and>
        (port_metadata_str p ''dtype'' = Some ''float32'' \<or> port_metadata_str p ''dtype'' = Some ''float64'') \<and>
        named_shape_ok p representation
    | _ \<Rightarrow> False)"

text \<open>Whether \<open>validate_named_model_input_spec\<close> accepts; its message is wrapped by the caller.\<close>

definition named_model_input_spec_ok :: "model_input_spec \<Rightarrow> bool" where
  "named_model_input_spec_ok s \<longleftrightarrow>
     model_input_spec_validate s = Inr () \<and> 2 \<le> length (ms_ports s) \<and> length (ms_ports s) \<le> 4 \<and>
     default_fusion s = None \<and> ms_fit_influence_policy s = None \<and> list_all named_port_ok (ms_ports s) \<and>
     distinct (map (\<lambda>p. port_metadata_str p ''source_id'') (ms_ports s))"

end
