(* ===== verification/PlanNode.thy ===== *)
theory PlanNode
  imports PlanChecks
begin

text \<open>
  \<open>plan.rs\<close>, fourth part: the validation of one node plan against its graph node and its controller
  manifest.
\<close>

section \<open>Named inputs\<close>

abbreviation named_err :: "node_id \<Rightarrow> string \<Rightarrow> 'a result" where
  "named_err n m \<equiv> planning_err (NamedModelInput (as_str n) m)"

definition named_ports_match :: "model_input_spec \<Rightarrow> port_spec list \<Rightarrow> bool" where
  "named_ports_match spec ports =
     (let data_ports = filter (\<lambda>p. ps_kind p = Data) ports in
      length data_ports = length (ms_ports spec) \<and>
      list_all (\<lambda>q. list_ex (\<lambda>p. ps_name p = mi_name q \<and>
          ps_representation p = Some (accepted_representations q ! 0) \<and> ps_cardinality p = One) data_ports)
        (ms_ports spec) \<and>
      list_ex (\<lambda>p. ps_name p = ''y'' \<and> ps_kind p = Target) ports)"

definition named_binding_check ::
  "node_id \<Rightarrow> data_binding list \<Rightarrow> branch_view_plan option \<Rightarrow> model_input_port \<Rightarrow> unit result" where
  "named_binding_check n bindings view p = (case filter (\<lambda>b. db_input_name b = mi_name p) bindings of
       [b] \<Rightarrow>
         and_then (ok_or (port_metadata_str p ''source_id'') (Panic (ExpectFailed ''validated source_id''))) (\<lambda>source.
         and_then (if db_source_ids b \<noteq> [source] then Inr [] else effective_binding_source_ids b view) (\<lambda>effective.
         if effective \<noteq> [source] \<or>
            db_output_representation b \<noteq> accepted_representations p ! 0 \<or> \<not> require_relations b
         then named_err n ''binding differs'' else Inr ()))
     | _ \<Rightarrow> named_err n ''missing or duplicate binding'')"

definition validate_named_model_binding_contract ::
  "plan_env \<Rightarrow> node_id \<Rightarrow> node_plan \<Rightarrow> controller_manifest \<Rightarrow> node_spec \<Rightarrow> branch_view_plan option \<Rightarrow> unit result" where
  "validate_named_model_binding_contract env n plan m node view =
     (case bm_get (ns_metadata node) ''dsl_model_input'' of
        None \<Rightarrow> Inr ()
      | Some v \<Rightarrow>
          if ns_kind node \<noteq> Model \<and> ns_kind node \<noteq> Tuner then named_err n ''kind''
          else
            and_then (ok_or (requirements_of env v) (planning_error (NamedModelInput (as_str n) ''declaration''))) (\<lambda>declared.
            if \<not> named_model_input_spec_ok declared then named_err n ''profile''
            else
              and_then (cm_model_input_spec (requirements_of env) m) (\<lambda>required.
              if map_option model_input_norm required \<noteq> Some (model_input_norm declared) then named_err n ''contract''
              else if \<not> named_ports_match declared (inputs (ns_ports node)) \<or>
                  \<not> named_ports_match declared (cm_input_ports m)
              then named_err n ''ports''
              else if length (np_data_bindings plan) \<noteq> length (ms_ports declared) then named_err n ''binding count''
              else try_each (named_binding_check n (np_data_bindings plan) view) (ms_ports declared))))"

section \<open>Data requirements\<close>

definition binding_requirement_check ::
  "node_id \<Rightarrow> model_input_spec \<Rightarrow> branch_view_plan option \<Rightarrow> data_binding \<Rightarrow> unit result" where
  "binding_requirement_check n spec view b =
     (let input = db_input_name b; output = db_output_representation b in
      and_then (ok_or (find (\<lambda>p. mi_name p = input) (ms_ports spec))
        (planning_error (BindingUndeclared (as_str n) input))) (\<lambda>port. checks [
        reject_if (output \<notin> set (accepted_representations port))
          (planning_error (RepresentationNotAccepted (as_str n) input)),
        check_option (\<lambda>type. reject_if (type \<notin> set (accepted_types port))
          (planning_error (TypeNotAccepted (as_str n) input))) (representation_type_id output),
        validate_data_binding_source_shape n b port spec view]))"

definition unrequired_binding_check :: "node_id \<Rightarrow> branch_view_plan option \<Rightarrow> data_binding \<Rightarrow> unit result" where
  "unrequired_binding_check n view b =
     and_then (effective_binding_source_ids b view) (\<lambda>effective.
     reject_if (1 < length effective)
       (planning_error (RequirementRefused ''missing_data_requirements'' (as_str n))))"

definition validate_data_binding_requirements ::
  "plan_env \<Rightarrow> node_id \<Rightarrow> node_plan \<Rightarrow> controller_manifest \<Rightarrow> node_spec \<Rightarrow> unit result" where
  "validate_data_binding_requirements env n plan m node =
     and_then (branch_view_plan_from_node_metadata env node) (\<lambda>view.
     and_then (validate_named_model_binding_contract env n plan m node view) (\<lambda>_.
     and_then (cm_model_input_spec (requirements_of env) m) (\<lambda>required.
     case required of
       None \<Rightarrow> try_each (unrequired_binding_check n view) (np_data_bindings plan)
     | Some spec \<Rightarrow> try_each (binding_requirement_check n spec view) (np_data_bindings plan))))"

section \<open>Training losses\<close>

type_synonym loss_key = "string option \<times> phase btree_set"

definition loss_key :: "training_loss_role \<Rightarrow> loss_key" where
  "loss_key r = (tl_output_id r, tl_phases r)"

definition loss_phase_step ::
  "node_plan \<Rightarrow> training_loss_role \<Rightarrow> (string option \<times> phase) set \<Rightarrow> phase \<Rightarrow> (string option \<times> phase) set result" where
  "loss_phase_step plan r occupied ph =
     (let n = as_str (np_node_id plan) in
      if ph \<notin> set (np_supported_phases plan) then planning_err (LossPhaseUnsupported n)
      else if (tl_output_id r, ph) \<in> occupied then planning_err (LossesOverlap n)
      else Inr (insert (tl_output_id r, ph) occupied))"

definition loss_capability_check :: "node_plan \<Rightarrow> training_loss_role \<Rightarrow> unit result" where
  "loss_capability_check plan r =
     (let n = as_str (np_node_id plan); caps = set (np_capabilities plan); spec = lr_spec (tl_loss r) in checks [
      reject_if (SupportsConfigurableLoss \<notin> caps) (planning_error (LossNotConfigurable n)),
      reject_if (ls_kind spec = CustomSpec \<and> SupportsCustomLoss \<notin> caps) (planning_error (LossNotCustom n)),
      reject_if (LossDifferentiable \<in> set (ls_capabilities spec) \<and> SupportsDifferentiableLoss \<notin> caps)
        (planning_error (LossNotDifferentiable n)),
      reject_if (SampleWeightInput \<in> set (ls_required_inputs spec) \<and> SupportsSampleWeights \<notin> caps)
        (planning_error (LossNeedsWeights n)),
      reject_if (MissingMaskInput \<in> set (ls_required_inputs spec) \<and> SupportsMissingMasks \<notin> caps)
        (planning_error (LossNeedsMasks n)),
      reject_if (ImplNeedsGil \<in> set (id_capabilities (lr_implementation (tl_loss r))) \<and> NeedsPythonGil \<notin> caps)
        (planning_error (LossNeedsGil n))])"

definition loss_step ::
  "criteria_env \<Rightarrow> node_plan \<Rightarrow> loss_key option \<times> (string option \<times> phase) set \<Rightarrow> training_loss_role
   \<Rightarrow> (loss_key option \<times> (string option \<times> phase) set) result" where
  "loss_step env plan st r =
     and_then (loss_role_validate env r) (\<lambda>_.
     if tl_node_id r \<noteq> np_node_id plan
     then planning_err (ForeignLoss (as_str (np_node_id plan)) (as_str (tl_node_id r)))
     else if option_ex (\<lambda>previous. loss_key r \<le> previous) (fst st)
     then planning_err (LossesNotSorted (as_str (np_node_id plan)))
     else and_then (try_fold (loss_phase_step plan r) (snd st) (tl_phases r)) (\<lambda>occupied.
       and_then (loss_capability_check plan r) (\<lambda>_. Inr (Some (loss_key r), occupied))))"

definition validate_node_training_losses :: "plan_env \<Rightarrow> node_plan \<Rightarrow> unit result" where
  "validate_node_training_losses env plan =
     and_then (try_fold (loss_step (criteria_of env) plan) (None, {}) (np_training_losses plan)) (\<lambda>_. Inr ())"

section \<open>Ports\<close>

definition incoming_count :: "graph_spec \<Rightarrow> node_id \<Rightarrow> string \<Rightarrow> nat" where
  "incoming_count g n name =
     length (filter (\<lambda>e. edge_target_node e = n \<and> pr_port_name (edge_target e) = name) (edges g))"

definition port_name_matches ::
  "controller_manifest \<Rightarrow> string \<Rightarrow> port_spec list \<Rightarrow> port_spec \<Rightarrow> port_spec \<Rightarrow> bool" where
  "port_name_matches m direction implemented port c \<longleftrightarrow>
     ps_name c = ps_name port \<or> ps_cardinality c = Many \<or>
     (direction = ''input'' \<and> has_capability m ConsumesOofPredictions) \<or>
     (direction = ''output'' \<and> ps_kind port = Prediction \<and>
        length (filter (\<lambda>p. ps_kind p = Prediction) implemented) = 1)"

definition port_compatible ::
  "graph_spec \<Rightarrow> node_id \<Rightarrow> controller_manifest \<Rightarrow> string \<Rightarrow> port_spec list \<Rightarrow> port_spec \<Rightarrow> port_spec \<Rightarrow> bool" where
  "port_compatible g n m direction implemented port c \<longleftrightarrow>
     port_name_matches m direction implemented port c \<and>
     (ps_kind c = ps_kind port \<or>
        (direction = ''input'' \<and> ps_kind port = Prediction \<and> ps_kind c = Data \<and>
         has_capability m ConsumesOofPredictions)) \<and>
     (direction \<noteq> ''input'' \<or> ps_cardinality c = Many \<or> incoming_count g n (ps_name port) \<le> 1) \<and>
     (ps_representation c = None \<or> ps_representation port = None \<or> ps_representation c = ps_representation port)"

definition port_check ::
  "plan_env \<Rightarrow> graph_spec \<Rightarrow> node_spec \<Rightarrow> controller_manifest \<Rightarrow> string \<Rightarrow> port_spec list \<Rightarrow> port_spec \<Rightarrow> unit result" where
  "port_check env g node m direction implemented port =
     and_then (if direction = ''input'' \<or> ps_name port = ''oof''
       then classified_operator env (unwrap_or (ns_operator node) JNull) else Inr False) (\<lambda>classified.
     reject_if (\<not> classified \<and> \<not> list_ex (port_compatible g (node_id node) m direction implemented port) implemented)
       (planning_error (PortUnsupported (as_str (node_id node)) direction (ps_name port))))"

definition node_ports_check ::
  "plan_env \<Rightarrow> graph_spec \<Rightarrow> node_spec \<Rightarrow> controller_manifest \<Rightarrow> unit result" where
  "node_ports_check env g node m = try_each (\<lambda>(direction, ports, implemented).
       if implemented = [] then Inr () else try_each (port_check env g node m direction implemented) ports)
     [(''input'', inputs (ns_ports node), cm_input_ports m), (''output'', outputs (ns_ports node), cm_output_ports m)]"

end
