(* ===== verification/PlanValid.thy ===== *)
theory PlanValid
  imports PlanNode
begin

text \<open>
  \<open>plan.rs\<close>, fifth part: the identity of a variant, the targets of the campaign and of the generation,
  the out-of-fold capabilities of the prediction edges, and the validation of the whole plan.
\<close>

section \<open>Variant identity\<close>

definition strip_prefix :: "string \<Rightarrow> string \<Rightarrow> string option" where
  "strip_prefix p s = (if is_prefix p s then Some (drop (length p) s) else None)"

text \<open>\<open>str::parse\<close> for \<open>u32\<close> and \<open>i64\<close>: an optional sign, one or more digits, within the type's range.\<close>

definition parse_u32 :: "string \<Rightarrow> nat option" where
  "parse_u32 s = (case parse_u64 s of Some n \<Rightarrow> if n < 2 ^ 32 then Some n else None | None \<Rightarrow> None)"

definition parse_i64 :: "string \<Rightarrow> int option" where
  "parse_i64 s =
     (let negative = is_prefix ''-'' s; ds = (if negative \<or> is_prefix ''+'' s then tl s else s) in
      if ds = [] \<or> \<not> list_all is_ascii_digit ds then None
      else let v = (if negative then - int (digits_value ds) else int (digits_value ds)) in
        if - (2 ^ 63) \<le> v \<and> v < 2 ^ 63 then Some v else None)"

definition pad10 :: "string \<Rightarrow> string" where
  "pad10 s = replicate (10 - length s) (CHR ''0'') @ s"

definition bm_remove :: "'k \<Rightarrow> ('k, 'v) btree_map \<Rightarrow> ('k, 'v) btree_map" where
  "bm_remove k m = bm_retain (\<lambda>k'. k' \<noteq> k) m"

text \<open>\<open>Value::get\<close> with a string index.\<close>

definition json_get :: "json_value \<Rightarrow> string \<Rightarrow> json_value option" where
  "json_get v key = Option.bind (json_as_object v) (\<lambda>kvs. map_of kvs key)"

text \<open>What the three forms of a variant id determine: the choices without the trial's own, and the
  expected fingerprint.\<close>

abbreviation identity_error :: "variant_plan \<Rightarrow> dag_ml_error failure" where
  "identity_error v \<equiv> planning_error (VariantIdentity (as_str (vp_variant_id v)))"

definition derive_variant :: "plan_env \<Rightarrow> 64 word option \<Rightarrow> choice_map \<Rightarrow> variant_plan result" where
  "derive_variant env root choices = variant_from_choices (choices_bytes env) (plan_sha256 env) root choices"

definition enumerated_identity ::
  "plan_env \<Rightarrow> 64 word option \<Rightarrow> variant_plan \<Rightarrow> (choice_map \<times> string) result" where
  "enumerated_identity env root v =
     and_then (derive_variant env root (vp_choices v)) (\<lambda>derived.
     if variant_norm v \<noteq> variant_norm derived then Inl (identity_error v) else Inr (vp_choices v, vp_fingerprint derived))"

definition seeded_base ::
  "plan_env \<Rightarrow> 64 word option \<Rightarrow> variant_plan \<Rightarrow> choice_map \<Rightarrow> (string \<Rightarrow> trial_content) \<Rightarrow> (choice_map \<times> string) result" where
  "seeded_base env root v base_choices content =
     and_then (derive_variant env root base_choices) (\<lambda>base.
     and_then (plan_fingerprint env (trial_bytes env) (content (vp_fingerprint base))) (\<lambda>fp.
     if vp_seed v \<noteq> vp_seed base then Inl (identity_error v) else Inr (base_choices, fp)))"

definition objective_fingerprint :: "generation_choice \<Rightarrow> string option" where
  "objective_fingerprint c =
     (case Option.bind (json_get (gc_value c) ''objective_fingerprint'') json_as_str of
        Some s \<Rightarrow> if length s = 64 \<and> list_all is_ascii_hexdigit s then Some s else None
      | None \<Rightarrow> None)"

definition host_trial_identity ::
  "plan_env \<Rightarrow> 64 word option \<Rightarrow> variant_plan \<Rightarrow> string \<Rightarrow> (choice_map \<times> string) result" where
  "host_trial_identity env root v index =
     and_then (ok_or (parse_u32 index) (identity_error v)) (\<lambda>trial.
     if as_str (vp_variant_id v) \<noteq> ''host_hpo:trial:'' @ pad10 (show_nat trial) then Inl (identity_error v)
     else and_then (ok_or (bm_get (vp_choices v) ''host_hpo'') (identity_error v)) (\<lambda>choice.
     and_then (ok_or (objective_fingerprint choice) (identity_error v)) (\<lambda>objective.
     if gc_label choice \<noteq> ''trial:'' @ show_nat trial \<or>
        Option.bind (json_get (gc_value choice) ''trial_index'') json_as_u64 \<noteq> Some (of_nat trial) \<or>
        active_subsequence choice \<noteq> None \<or> param_overrides choice = []
     then Inl (identity_error v)
     else seeded_base env root v (bm_remove ''host_hpo'' (vp_choices v))
       (\<lambda>fp. HostTrial fp (vp_choices v) objective))))"

definition native_trial_name :: "variant_plan \<Rightarrow> (string option \<times> string) option" where
  "native_trial_name v = (case strip_prefix ''hpo:trial:'' (as_str (vp_variant_id v)) of
       Some trial \<Rightarrow> Some (None, trial)
     | None \<Rightarrow> (case strip_prefix ''hpo:scope:'' (as_str (vp_variant_id v)) of
         Some scoped \<Rightarrow> (case rsplit_once '':trial:'' scoped of
             Some (namespace, trial) \<Rightarrow> if namespace = [] then None else Some (Some namespace, trial)
           | None \<Rightarrow> None)
       | None \<Rightarrow> None))"

definition native_trial_identity ::
  "plan_env \<Rightarrow> 64 word option \<Rightarrow> variant_plan \<Rightarrow> (choice_map \<times> string) result" where
  "native_trial_identity env root v =
     and_then (ok_or (native_trial_name v) (identity_error v)) (\<lambda>(namespace, trial).
     and_then (ok_or (parse_i64 trial) (identity_error v)) (\<lambda>n.
     if n < 0 \<or> trial \<noteq> show_nat (nat n) then Inl (identity_error v)
     else and_then (ok_or (bm_get (vp_choices v) ''native_methods_hpo'') (identity_error v)) (\<lambda>choice.
     if gc_label choice \<noteq> ''trial:'' @ show_nat (nat n) \<or>
        gc_value choice \<noteq> JObject [(''trial_id'', JNumber (PosInt (of_int n)))] \<or>
        active_subsequence choice \<noteq> None \<or> length (param_overrides choice) \<noteq> 1
     then Inl (identity_error v)
     else seeded_base env root v (bm_remove ''native_methods_hpo'' (vp_choices v))
       (\<lambda>fp. case namespace of Some ns \<Rightarrow> ScopedTrial fp ns (vp_choices v) n
         | None \<Rightarrow> NativeTrial fp (vp_choices v) n))))"

definition expected_identity ::
  "plan_env \<Rightarrow> 64 word option \<Rightarrow> variant_plan \<Rightarrow> (choice_map \<times> string) result" where
  "expected_identity env root v =
     (let id = as_str (vp_variant_id v) in
      if is_prefix ''variant:'' id then enumerated_identity env root v
      else case strip_prefix ''host_hpo:trial:'' id of
          Some index \<Rightarrow> host_trial_identity env root v index
        | None \<Rightarrow> native_trial_identity env root v)"

definition is_operator_choice :: "variant_plan \<Rightarrow> bool" where
  "is_operator_choice v \<longleftrightarrow> vp_choices v \<noteq> [] \<and>
     list_all (\<lambda>(_, c). active_subsequence c \<noteq> None \<and> param_overrides c = []) (vp_choices v)"

definition validate_variant_identity ::
  "plan_env \<Rightarrow> 64 word option \<Rightarrow> variant_plan list \<Rightarrow> variant_plan \<Rightarrow> unit result" where
  "validate_variant_identity env root canonical v =
     and_then (expected_identity env root v) (\<lambda>(base_choices, expected).
     if vp_fingerprint v \<noteq> expected then Inl (identity_error v)
     else and_then (derive_variant env root base_choices) (\<lambda>base.
     reject_if (variant_norm base \<notin> variant_norm ` set canonical \<and> \<not> is_operator_choice base)
       (planning_error (VariantOutsideGeneration (as_str (vp_variant_id v))))))"

section \<open>Targets of the campaign and the generation\<close>

definition validate_search_space_fingerprint :: "plan_env \<Rightarrow> graph_spec \<Rightarrow> campaign_spec \<Rightarrow> unit result" where
  "validate_search_space_fingerprint env g c = check_option (\<lambda>expected.
     if is_blank expected then planning_err (SearchSpaceEmpty (graph_id g))
     else and_then (generation_spec_fingerprint (generation_bytes env) (plan_sha256 env) (generation c)) (\<lambda>actual.
       reject_if (expected \<noteq> actual) (planning_error (SearchSpaceDiffers (graph_id g))))) (search_space_fingerprint g)"

definition override_targets_check :: "graph_spec \<Rightarrow> variant_plan \<Rightarrow> unit result" where
  "override_targets_check g v =
     and_then (param_override_targets v) (try_each (\<lambda>n. reject_if (n \<notin> graph_nodes g)
       (planning_error (OverrideUnknownNode (as_str (vp_variant_id v)) (as_str n)))))"

definition validate_generation_override_targets :: "graph_spec \<Rightarrow> variant_plan list \<Rightarrow> unit result" where
  "validate_generation_override_targets g vs = try_each (override_targets_check g) vs"

definition validate_campaign_node_targets :: "graph_spec \<Rightarrow> campaign_spec \<Rightarrow> unit result" where
  "validate_campaign_node_targets g c = checks [
     try_each (\<lambda>n. reject_if (n \<notin> graph_nodes g) (planning_error (ShapePlanUnknownNode (as_str n))))
       (bm_keys (cs_shape_plans c)),
     try_each (\<lambda>n. reject_if (n \<notin> graph_nodes g) (planning_error (BindingUnknownNode (as_str n))))
       (bm_keys (cs_data_bindings c))]"

section \<open>Out-of-fold edges\<close>

definition fits :: "node_plan \<Rightarrow> bool" where
  "fits np \<longleftrightarrow> (np_fit_scope np = FoldTrainScope \<or> np_fit_scope np = FullTrainScope) \<and>
     list_ex is_training (np_supported_phases np)"

definition oof_edge_check :: "execution_plan \<Rightarrow> edge_spec \<Rightarrow> unit result" where
  "oof_edge_check p e =
     (if ec_kind (contract e) \<noteq> Prediction then Inr ()
      else
        and_then (ok_or (bm_get (node_plans p) (edge_target_node e))
          (planning_error (EdgeTargetUnplanned (as_str (edge_target_node e))))) (\<lambda>target.
        if fits target \<and> \<not> requires_oof (contract e)
        then planning_err (EdgeMustRequireOof (as_str (edge_source_node e)) (as_str (edge_target_node e)))
        else if \<not> requires_oof (contract e) then Inr ()
        else
          and_then (ok_or (bm_get (node_plans p) (edge_source_node e))
            (planning_error (EdgeSourceUnplanned (as_str (edge_source_node e))))) (\<lambda>source. checks [
            reject_if (EmitsPredictions \<notin> set (np_capabilities source))
              (planning_error (SourceNotEmitting (as_str (np_controller_id source)))),
            reject_if (ConsumesOofPredictions \<notin> set (np_capabilities target))
              (planning_error (TargetNotConsuming (as_str (np_controller_id target))))])))"

definition validate_oof_controller_capabilities :: "plan_env \<Rightarrow> execution_plan \<Rightarrow> unit result" where
  "validate_oof_controller_capabilities env p = checks [
     try_each (oof_edge_check p) (edges (gp_graph (plan_graph p))), profile_checks env p]"

end
