(* ===== verification/PlanValidate.thy ===== *)
theory PlanValidate
  imports PlanValid
begin

text \<open>
  \<open>plan.rs\<close>, sixth part: \<open>ExecutionPlan::validate\<close>, the builder, the training losses, and the schedule
  of a phase.
\<close>

section \<open>Validation of a plan\<close>

definition fingerprint_matches ::
  "plan_env \<Rightarrow> ('a \<Rightarrow> bytes result) \<Rightarrow> 'a \<Rightarrow> string \<Rightarrow> dag_ml_error failure \<Rightarrow> unit result" where
  "fingerprint_matches env to_vec x recorded e =
     and_then (plan_fingerprint env to_vec x) (\<lambda>fp. reject_if (fp \<noteq> recorded) e)"

definition levels_check :: "plan_env \<Rightarrow> execution_plan \<Rightarrow> unit result" where
  "levels_check env p =
     (if gp_parallel_levels (plan_graph p) = [] then Inr ()
      else and_then (parallel_levels (stacking_of env) (gp_graph (plan_graph p))) (\<lambda>levels.
        reject_if (gp_parallel_levels (plan_graph p) \<noteq> levels) (planning_error LevelsDiffer)))"

definition manifest_entry_check :: "plan_env \<Rightarrow> controller_id \<times> controller_manifest \<Rightarrow> unit result" where
  "manifest_entry_check env = (\<lambda>(c, m). checks [
     manifest_validate (requirements_of env) m,
     reject_if (c \<noteq> cm_controller_id m) (planning_error (ManifestKeyDiffers (as_str c) (as_str (cm_controller_id m))))])"

definition fingerprints_check :: "plan_env \<Rightarrow> execution_plan \<Rightarrow> unit result" where
  "fingerprints_check env p = checks [
     fingerprint_matches env (graph_bytes env) (gp_graph (plan_graph p)) (graph_fingerprint p)
       (planning_error GraphFingerprintDiffers),
     fingerprint_matches env (campaign_bytes env) (campaign p) (campaign_fingerprint p)
       (planning_error CampaignFingerprintDiffers),
     fingerprint_matches env (manifests_bytes env) (controller_manifests p) (controller_fingerprint p)
       (planning_error ControllerFingerprintDiffers)]"

definition coverage_check :: "plan_env \<Rightarrow> execution_plan \<Rightarrow> unit result" where
  "coverage_check env p = checks [
     try_each (\<lambda>(n, np). reject_if (n \<noteq> np_node_id np)
       (planning_error (NodePlanKeyDiffers (as_str n) (as_str (np_node_id np))))) (node_plans p),
     reject_if (set (bm_keys (node_plans p)) \<noteq> graph_nodes (gp_graph (plan_graph p)))
       (planning_error NodePlansNotCovering),
     and_then (topological_order (stacking_of env) (gp_graph (plan_graph p))) (\<lambda>order.
       reject_if (gp_topological_order (plan_graph p) \<noteq> order) (planning_error TopologicalOrderDiffers))]"

definition manifest_agrees :: "controller_manifest \<Rightarrow> node_plan \<Rightarrow> bool" where
  "manifest_agrees m np \<longleftrightarrow>
     operator_kind m = np_kind np \<and> controller_version m = np_controller_version np \<and>
     supported_phases m = np_supported_phases np \<and> capabilities m = np_capabilities np \<and>
     fit_scope m = np_fit_scope np \<and> rng_policy m = np_rng_policy np \<and> artifact_policy m = np_artifact_policy np"

definition node_contract_check ::
  "plan_env \<Rightarrow> execution_plan \<Rightarrow> node_id \<Rightarrow> node_plan \<Rightarrow> node_spec \<Rightarrow> controller_manifest \<Rightarrow> unit result" where
  "node_contract_check env p n np node m = (let c = campaign p in checks [
     reject_if (\<not> manifest_agrees m np) (planning_error (ManifestDiffers (as_str n) (as_str (cm_controller_id m)))),
     node_ports_check env (gp_graph (plan_graph p)) node m,
     reject_if (map binding_norm (np_data_bindings np) \<noteq>
           map binding_norm (unwrap_or (bm_get (cs_data_bindings c) n) []) \<or>
         map_option shape_plan_norm (np_shape_plan np) \<noteq> map_option shape_plan_norm (bm_get (cs_shape_plans c) n))
       (planning_error (CampaignContractDiffers (as_str n))),
     check_option shape_plan_validate (np_shape_plan np),
     try_each (\<lambda>b. checks [
       reject_if (db_node_id b \<noteq> n) (planning_error (ForeignBinding (as_str n) (as_str (db_node_id b)))),
       data_binding_validate b]) (np_data_bindings np),
     validate_data_binding_requirements env n np m node,
     validate_node_training_losses env np,
     fingerprint_matches env (params_bytes env) (np_params np) (np_params_fingerprint np)
       (planning_error (ParamsFingerprintDiffers (as_str n))),
     check_option (\<lambda>spec. map_error (\<lambda>_. Planning (InnerCvInvalid (as_str n))) (nested_cv_validate spec))
       (np_inner_cv np)])"

definition node_entry_check :: "plan_env \<Rightarrow> execution_plan \<Rightarrow> node_id \<times> node_plan \<Rightarrow> unit result" where
  "node_entry_check env p = (\<lambda>(n, np). let g = gp_graph (plan_graph p) in
     and_then (ok_or (bm_get (bm_collect (map (\<lambda>x. (node_id x, x)) (nodes g))) n)
       (Panic (ExpectFailed ''node_plans keys equal graph node ids''))) (\<lambda>node.
     if np_kind np \<noteq> ns_kind node then planning_err (NodeKindDiffers (as_str n))
     else if np_input_nodes np \<noteq> upstream_nodes g n \<or> np_output_nodes np \<noteq> downstream_nodes g n
     then planning_err (AdjacencyDiffers (as_str n))
     else and_then (ok_or (bm_get (controller_manifests p) (np_controller_id np))
         (planning_error (ManifestMissing (as_str (np_controller_id np)) (as_str n)))) (\<lambda>m.
       node_contract_check env p n np node m)))"

text \<open>An all-observations fit view would read the samples declared without a target.\<close>

definition all_observations_binding :: "execution_plan \<Rightarrow> data_binding option" where
  "all_observations_binding p =
     find (\<lambda>b. vp_fit_partition (view_policy b) = AllObservationRows)
       (concat (map (np_data_bindings \<circ> snd)
         (filter (\<lambda>(_, np). list_ex is_training (np_supported_phases np)) (node_plans p))))"

definition plan_folds_check :: "execution_plan \<Rightarrow> unit result" where
  "plan_folds_check p = check_option (\<lambda>fs.
     and_then (fold_set_validate fs) (\<lambda>_.
     if target_missing_sample_ids fs = [] then Inr ()
     else case all_observations_binding p of
         Some b \<Rightarrow> planning_err (AllObservationsFit (as_str (db_node_id b)) (fs_id fs))
       | None \<Rightarrow> Inr ())) (plan_fold_set p)"

definition variant_entry_check ::
  "plan_env \<Rightarrow> execution_plan \<Rightarrow> variant_plan list \<Rightarrow> variant_id set \<Rightarrow> variant_plan \<Rightarrow> variant_id set result" where
  "variant_entry_check env p canonical ids v =
     and_then (variant_validate v) (\<lambda>_.
     if vp_variant_id v \<in> ids then planning_err (RepeatedVariant (as_str (vp_variant_id v)))
     else and_then (validate_variant_identity env (cs_root_seed (campaign p)) canonical v) (\<lambda>_.
       Inr (insert (vp_variant_id v) ids)))"

definition variants_check :: "plan_env \<Rightarrow> execution_plan \<Rightarrow> unit result" where
  "variants_check env p =
     (if variants p = [] then planning_err NoVariants
      else
        and_then (enumerate_variants (choices_bytes env) (plan_sha256 env) (generation (campaign p))
            (cs_root_seed (campaign p))) (\<lambda>canonical.
        and_then (try_fold (variant_entry_check env p canonical) {} (variants p)) (\<lambda>_. Inr ())))"

definition plan_validate :: "plan_env \<Rightarrow> execution_plan \<Rightarrow> unit result" where
  "plan_validate env p = checks [
     graph_validate (stacking_of env) (gp_graph (plan_graph p)),
     campaign_validate (campaign p),
     domain_plan_check env p,
     levels_check env p,
     try_each (manifest_entry_check env) (controller_manifests p),
     fingerprints_check env p,
     coverage_check env p,
     try_each (node_entry_check env p) (node_plans p),
     validate_oof_controller_capabilities env p,
     reject_if (map_option fold_set_norm (plan_fold_set p) \<noteq>
         map_option fold_set_norm (declared_folds (campaign p))) (planning_error FoldSetDiffers),
     validate_search_space_fingerprint env (gp_graph (plan_graph p)) (campaign p),
     validate_generation_override_targets (gp_graph (plan_graph p)) (variants p),
     plan_folds_check p,
     variants_check env p]"

section \<open>The builder\<close>

definition inner_cv_from_metadata :: "plan_env \<Rightarrow> node_spec \<Rightarrow> nested_cv_spec option result" where
  "inner_cv_from_metadata env node = (case bm_get (ns_metadata node) ''dsl_inner_cv'' of
       None \<Rightarrow> Inr None
     | Some v \<Rightarrow> (let e = InnerCvMetadataInvalid (as_str (node_id node)) in
         and_then (ok_or (inner_cv_of env v) (planning_error e)) (\<lambda>spec.
         and_then (map_error (\<lambda>_. Planning e) (nested_cv_validate spec)) (\<lambda>_. Inr (Some spec)))))"

definition node_plan_of ::
  "graph_spec \<Rightarrow> campaign_spec \<Rightarrow> node_spec \<Rightarrow> controller_manifest \<Rightarrow> string \<Rightarrow> nested_cv_spec option \<Rightarrow> node_plan" where
  "node_plan_of g c node m fp inner_cv =
     \<lparr>np_node_id = node_id node, np_kind = ns_kind node, np_controller_id = cm_controller_id m,
      np_controller_version = controller_version m, np_supported_phases = supported_phases m,
      np_capabilities = capabilities m, np_training_losses = [], np_fit_scope = fit_scope m,
      np_rng_policy = rng_policy m, np_artifact_policy = artifact_policy m,
      np_input_nodes = upstream_nodes g (node_id node), np_output_nodes = downstream_nodes g (node_id node),
      np_shape_plan = bm_get (cs_shape_plans c) (node_id node),
      np_data_bindings = unwrap_or (bm_get (cs_data_bindings c) (node_id node)) [],
      np_params = ns_params node, np_inner_cv = inner_cv, np_params_fingerprint = fp\<rparr>"

type_synonym planned_nodes = "(node_id, node_plan) btree_map \<times> (controller_id, controller_manifest) btree_map"

definition plan_node ::
  "plan_env \<Rightarrow> graph_spec \<Rightarrow> campaign_spec \<Rightarrow> controller_registry \<Rightarrow> planned_nodes \<Rightarrow> node_id \<Rightarrow> planned_nodes result" where
  "plan_node env g c reg st n =
     and_then (ok_or (find (\<lambda>x. node_id x = n) (nodes g)) (Panic (ExpectFailed ''topological node exists''))) (\<lambda>node.
     and_then (resolve_for_node reg node) (\<lambda>m.
     and_then (plan_fingerprint env (params_bytes env) (ns_params node)) (\<lambda>fp.
     and_then (inner_cv_from_metadata env node) (\<lambda>inner_cv.
     Inr (bm_insert (node_id node) (node_plan_of g c node m fp inner_cv) (fst st),
       bm_insert (cm_controller_id m) m (snd st))))))"

definition build_execution_plan ::
  "plan_env \<Rightarrow> string \<Rightarrow> graph_spec \<Rightarrow> campaign_spec \<Rightarrow> controller_registry \<Rightarrow> execution_plan result" where
  "build_execution_plan env name g c reg =
     and_then (reject_if (is_blank name) (planning_error PlanIdEmpty)) (\<lambda>_.
     and_then (campaign_validate c) (\<lambda>_.
     and_then (graph_plan_from_graph (stacking_of env) g) (\<lambda>gp.
     and_then (validate_campaign_node_targets g c) (\<lambda>_.
     and_then (try_fold (plan_node env g c reg) ([], []) (gp_topological_order gp)) (\<lambda>(nps, manifests).
     and_then (validate_search_space_fingerprint env g c) (\<lambda>_.
     and_then (enumerate_variants (choices_bytes env) (plan_sha256 env) (generation c) (cs_root_seed c)) (\<lambda>vs.
     and_then (validate_generation_override_targets g vs) (\<lambda>_.
     and_then (plan_fingerprint env (graph_bytes env) g) (\<lambda>graph_fp.
     and_then (plan_fingerprint env (campaign_bytes env) c) (\<lambda>campaign_fp.
     and_then (plan_fingerprint env (manifests_bytes env) manifests) (\<lambda>controller_fp.
     let p = \<lparr>plan_id = name, plan_graph = gp, campaign = c, node_plans = nps, controller_manifests = manifests,
       variants = vs, plan_fold_set = declared_folds c, graph_fingerprint = graph_fp,
       campaign_fingerprint = campaign_fp, controller_fingerprint = controller_fp\<rparr>
     in and_then (plan_validate env p) (\<lambda>_. Inr p))))))))))))"

section \<open>Training losses\<close>

definition add_role ::
  "plan_env \<Rightarrow> execution_plan \<Rightarrow> (node_id, training_loss_role list) btree_map \<Rightarrow> training_loss_role
   \<Rightarrow> (node_id, training_loss_role list) btree_map result" where
  "add_role env p m r =
     and_then (loss_role_validate (criteria_of env) r) (\<lambda>_.
     if \<not> bm_contains_key (node_plans p) (tl_node_id r) then planning_err (LossUnknownNode (as_str (tl_node_id r)))
     else Inr (bm_insert (tl_node_id r) (unwrap_or (bm_get m (tl_node_id r)) [] @ [r]) m))"

definition compare_roles :: "training_loss_role \<Rightarrow> training_loss_role \<Rightarrow> ordering" where
  "compare_roles r s = ord_cmp (loss_key r) (loss_key s)"

definition with_training_losses :: "plan_env \<Rightarrow> execution_plan \<Rightarrow> training_loss_role list \<Rightarrow> execution_plan result" where
  "with_training_losses env p roles =
     and_then (plan_validate env p) (\<lambda>_.
     and_then (try_fold (add_role env p) [] roles) (\<lambda>by_node.
     let p' = p\<lparr>node_plans := map (\<lambda>(n, np). (n, np\<lparr>np_training_losses :=
         sort_by compare_roles (unwrap_or (bm_get by_node n) [])\<rparr>)) (node_plans p)\<rparr>
     in and_then (plan_validate env p') (\<lambda>_. Inr p')))"

section \<open>The schedule of a phase\<close>

definition phase_scope_label :: "phase \<Rightarrow> string" where
  "phase_scope_label p = (case p of
      Compile \<Rightarrow> ''COMPILE'' | Plan \<Rightarrow> ''PLAN'' | FitCv \<Rightarrow> ''FIT_CV'' | Select \<Rightarrow> ''SELECT''
    | Refit \<Rightarrow> ''REFIT'' | Predict \<Rightarrow> ''PREDICT'' | Explain \<Rightarrow> ''EXPLAIN'')"

definition execution_scope_id :: "phase \<Rightarrow> variant_id option \<Rightarrow> fold_id option \<Rightarrow> string" where
  "execution_scope_id p v f =
     ''scope:'' @ phase_scope_label p @ '':'' @ (case v of Some i \<Rightarrow> as_str i | None \<Rightarrow> ''base'') @ '':'' @
     (case f of Some i \<Rightarrow> as_str i | None \<Rightarrow> ''nofold'')"

definition phase_folds :: "execution_plan \<Rightarrow> phase \<Rightarrow> fold_id option list" where
  "phase_folds p ph =
     (if ph = FitCv
      then (case plan_fold_set p of Some fs \<Rightarrow> map (\<lambda>f. Some (fold_id f)) (folds fs) | None \<Rightarrow> [None])
      else [None])"

definition scope_of :: "phase \<Rightarrow> node_id list list \<Rightarrow> variant_plan \<Rightarrow> fold_id option \<Rightarrow> execution_scope_plan" where
  "scope_of ph levels v f =
     \<lparr>scope_id = execution_scope_id ph (Some (vp_variant_id v)) f, es_phase = ph,
      es_variant_id = Some (vp_variant_id v), es_variant_seed = vp_seed v, es_fold_id = f, node_levels = levels\<rparr>"

definition campaign_phase_schedule :: "plan_env \<Rightarrow> execution_plan \<Rightarrow> phase \<Rightarrow> phase_schedule result" where
  "campaign_phase_schedule env p ph =
     and_then (plan_validate env p) (\<lambda>_.
     and_then (node_parallel_levels_for_phase env p ph) (\<lambda>levels.
     Inr \<lparr>ph_plan_id = plan_id p, ph_phase = ph,
       scopes = concat (map (\<lambda>v. map (scope_of ph levels v) (phase_folds p ph)) (variants p))\<rparr>))"

end
