(* ===== verification/PlanPrune.thy ===== *)
theory PlanPrune
  imports PlanValidate "HOL-Library.While_Combinator"
begin

text \<open>
  \<open>plan.rs\<close>, last part: pruning a plan that holds every operator choice down to one choice. The
  ancestors of the active nodes are found with a work list; the loop is \<open>while_option\<close>, so that its
  termination is a theorem.
\<close>

section \<open>The ancestors of the active nodes\<close>

text \<open>One \<open>pop\<close>: the new upstream nodes are pushed in order, so the last one is popped next.\<close>

definition push_upstream ::
  "node_id list \<times> node_id set \<Rightarrow> node_id \<Rightarrow> node_id list \<times> node_id set" where
  "push_upstream st u = (if u \<in> snd st then st else (u # fst st, insert u (snd st)))"

definition ancestors_step :: "graph_spec \<Rightarrow> node_id list \<times> node_id set \<Rightarrow> node_id list \<times> node_id set" where
  "ancestors_step g st = foldl push_upstream (tl (fst st), snd st) (upstream_nodes g (hd (fst st)))"

definition ancestors_loop :: "graph_spec \<Rightarrow> node_id list \<Rightarrow> (node_id list \<times> node_id set) option" where
  "ancestors_loop g work = while_option (\<lambda>st. fst st \<noteq> []) (ancestors_step g) (work, {})"

section \<open>Pruning\<close>

definition keep_of :: "node_id set \<Rightarrow> node_id btree_set \<Rightarrow> node_id btree_set \<Rightarrow> node_id set" where
  "keep_of ancestors active choices = (ancestors - set choices) \<union> set active"

definition pruned_graph :: "graph_spec \<Rightarrow> node_id set \<Rightarrow> graph_spec" where
  "pruned_graph g keep = g\<lparr>nodes := filter (\<lambda>n. node_id n \<in> keep) (nodes g),
     edges := filter (\<lambda>e. edge_source_node e \<in> keep \<and> edge_target_node e \<in> keep) (edges g)\<rparr>"

definition pruned_node_plans ::
  "graph_spec \<Rightarrow> node_id set \<Rightarrow> (node_id, node_plan) btree_map \<Rightarrow> (node_id, node_plan) btree_map" where
  "pruned_node_plans g keep nps = map (\<lambda>(n, np).
     (n, np\<lparr>np_input_nodes := upstream_nodes g n, np_output_nodes := downstream_nodes g n\<rparr>))
     (filter (\<lambda>(n, np). n \<in> keep) nps)"

type_synonym input_port = "node_id \<times> string"

definition input_port_of :: "edge_spec \<Rightarrow> input_port" where
  "input_port_of e = (edge_target_node e, pr_port_name (edge_target e))"

definition count_source :: "(input_port, nat) btree_map \<Rightarrow> edge_spec \<Rightarrow> (input_port, nat) btree_map" where
  "count_source m e = bm_insert (input_port_of e) (unwrap_or (bm_get m (input_port_of e)) 0 + 1) m"

definition port_sources :: "edge_spec list \<Rightarrow> (input_port, nat) btree_map" where
  "port_sources es = foldl count_source [] es"

definition surviving_source_check :: "(input_port, nat) btree_map \<Rightarrow> input_port \<times> nat \<Rightarrow> unit result" where
  "surviving_source_check pruned = (\<lambda>(port, union_count).
     let pruned_count = unwrap_or (bm_get pruned port) 0; n = as_str (fst port) in
     if 1 \<le> union_count \<and> pruned_count = 0 then planning_err (PruneDangling n (snd port))
     else if 1 < pruned_count then planning_err (PruneAmbiguous n (snd port))
     else Inr ())"

definition validate_active_inputs :: "execution_plan \<Rightarrow> graph_spec \<Rightarrow> unit result" where
  "validate_active_inputs p union_graph =
     (let g = gp_graph (plan_graph p);
          kept = graph_nodes g;
          union_sources = port_sources (filter (\<lambda>e. edge_target_node e \<in> kept) (edges union_graph))
      in try_each (surviving_source_check (port_sources (edges g))) union_sources)"

definition active_known_check :: "execution_plan \<Rightarrow> node_id btree_set \<Rightarrow> unit result" where
  "active_known_check p active = checks [
     try_each (\<lambda>n. reject_if (\<not> bm_contains_key (node_plans p) n) (planning_error (PruneUnknownActive (as_str n)))) active,
     reject_if (active = []) (planning_error PruneNothingActive)]"

text \<open>The rest of the prune, for the ancestors the work list returned.\<close>

definition prune_to ::
  "plan_env \<Rightarrow> execution_plan \<Rightarrow> node_id set \<Rightarrow> variant_plan \<Rightarrow> execution_plan result" where
  "prune_to env p keep v =
     (let g = gp_graph (plan_graph p) in
      and_then (graph_plan_from_graph (stacking_of env) (pruned_graph g keep)) (\<lambda>gp.
      and_then (plan_fingerprint env (graph_bytes env) (gp_graph gp)) (\<lambda>fp.
      let p' = p\<lparr>plan_graph := gp, node_plans := pruned_node_plans (gp_graph gp) keep (node_plans p),
        variants := [v], graph_fingerprint := fp\<rparr>
      in and_then (plan_validate env p') (\<lambda>_.
         and_then (validate_active_inputs p' g) (\<lambda>_. Inr p')))))"

definition prune_plan_to_active ::
  "plan_env \<Rightarrow> execution_plan \<Rightarrow> node_id btree_set \<Rightarrow> node_id btree_set \<Rightarrow> variant_plan
   \<Rightarrow> execution_plan result option" where
  "prune_plan_to_active env p active choices v =
     (case and_then (plan_validate env p) (\<lambda>_. and_then (variant_validate v) (\<lambda>_. active_known_check p active)) of
        Inl f \<Rightarrow> Some (Inl f)
      | Inr _ \<Rightarrow> map_option (\<lambda>(_, ancestors). prune_to env p (keep_of ancestors active choices) v)
          (ancestors_loop (gp_graph (plan_graph p)) (rev active)))"

end
