(* ===== verification/PruneProofs.thy ===== *)
theory PruneProofs
  imports PlanPrune
begin

text \<open>
  The prune of an operator choice: the work list ends with exactly the ancestors of the active nodes,
  and an accepted prune keeps every fed input port fed by exactly one edge.
\<close>

section \<open>The work list\<close>

lemma foldl_push_upstream:
  "foldl push_upstream (w, A) us = (w', A') \<Longrightarrow>
     A' = A \<union> set us \<and> set w' = set w \<union> (set us - A) \<and> length w' = length w + card (set us - A)"
proof (induction us arbitrary: w A)
  case (Cons u us)
  show ?case
  proof (cases "u \<in> A")
    case True
    then have "push_upstream (w, A) u = (w, A)" by (simp add: push_upstream_def)
    then have "foldl push_upstream (w, A) us = (w', A')" using Cons.prems by simp
    moreover have "set (u # us) - A = set us - A" using True by auto
    ultimately show ?thesis using Cons.IH True by auto
  next
    case False
    then have "push_upstream (w, A) u = (u # w, insert u A)" by (simp add: push_upstream_def)
    then have IH: "A' = insert u A \<union> set us \<and> set w' = set (u # w) \<union> (set us - insert u A) \<and>
        length w' = length (u # w) + card (set us - insert u A)"
      using Cons.IH[of "u # w" "insert u A"] Cons.prems by simp
    have "set (u # us) - A = insert u (set us - insert u A)" using False by auto
    then have "card (set (u # us) - A) = Suc (card (set us - insert u A))" by simp
    then show ?thesis using IH False by auto
  qed
qed simp

definition ancestors_of :: "graph_spec \<Rightarrow> node_id set \<Rightarrow> node_id set" where
  "ancestors_of g ns = {u. \<exists>n \<in> ns. (u, n) \<in> (graph_edges g)\<^sup>+}"

text \<open>What the loop keeps: every node found is an ancestor, and a node whose upstream nodes were not
  all found yet is still in the work list.\<close>

definition ancestors_invariant :: "graph_spec \<Rightarrow> node_id set \<Rightarrow> node_id list \<times> node_id set \<Rightarrow> bool" where
  "ancestors_invariant g start st \<longleftrightarrow>
     snd st \<subseteq> ancestors_of g start \<and> set (fst st) \<subseteq> start \<union> snd st \<and>
     (\<forall>n \<in> start \<union> snd st. n \<in> set (fst st) \<or> {u. (u, n) \<in> graph_edges g} \<subseteq> snd st)"

lemma upstream_set: "set (upstream_nodes g n) = {u. (u, n) \<in> graph_edges g}"
  using neighbours_spec by blast

lemma ancestors_step_result:
  assumes "fst st = n # w" "ancestors_step g st = (w', A')"
  shows "A' = snd st \<union> {u. (u, n) \<in> graph_edges g}" "set w' = set w \<union> ({u. (u, n) \<in> graph_edges g} - snd st)"
    "length w' = length w + card ({u. (u, n) \<in> graph_edges g} - snd st)"
  using foldl_push_upstream[of w "snd st" "upstream_nodes g n" w' A'] assms
  by (simp_all add: ancestors_step_def upstream_set)

lemma ancestors_step_invariant:
  assumes inv: "ancestors_invariant g start st" and work: "fst st \<noteq> []"
  shows "ancestors_invariant g start (ancestors_step g st)"
proof -
  obtain n w where n: "fst st = n # w" using work by (cases "fst st") auto
  obtain w' A' where step: "ancestors_step g st = (w', A')" by fastforce
  note result = ancestors_step_result[OF n step]
  have "n \<in> start \<union> ancestors_of g start" using inv n by (auto simp: ancestors_invariant_def)
  then have "{u. (u, n) \<in> graph_edges g} \<subseteq> ancestors_of g start"
    by (auto simp: ancestors_of_def intro: trancl_into_trancl2)
  then have up: "A' \<subseteq> ancestors_of g start" using inv result(1) by (auto simp: ancestors_invariant_def)
  have work': "set w' \<subseteq> start \<union> A'" using inv n result by (auto simp: ancestors_invariant_def)
  have "m \<in> set w' \<or> {u. (u, m) \<in> graph_edges g} \<subseteq> A'" if "m \<in> start \<union> A'" for m
  proof (cases "m = n \<or> m \<in> {u. (u, n) \<in> graph_edges g} - snd st")
    case True
    then show ?thesis using result by auto
  next
    case False
    then have "m \<in> start \<union> snd st" using that result(1) by auto
    then have "m \<in> set (fst st) \<or> {u. (u, m) \<in> graph_edges g} \<subseteq> snd st" using inv unfolding ancestors_invariant_def by blast
    then show ?thesis using False n result by auto
  qed
  then show ?thesis using up work' by (simp add: ancestors_invariant_def step)
qed

lemma ancestors_step_decreases:
  assumes "fst st \<noteq> []"
  shows "2 * card (fst ` graph_edges g - snd (ancestors_step g st)) + length (fst (ancestors_step g st))
     < 2 * card (fst ` graph_edges g - snd st) + length (fst st)"
proof -
  obtain n w where n: "fst st = n # w" using assms by (cases "fst st") auto
  obtain w' A' where step: "ancestors_step g st = (w', A')" by fastforce
  note result = ancestors_step_result[OF n step]
  let ?S = "fst ` graph_edges g" and ?new = "{u. (u, n) \<in> graph_edges g} - snd st"
  have fin: "finite (graph_edges g)" by (simp add: graph_edges_def)
  have new: "?new \<subseteq> ?S - snd st" by (auto intro: rev_image_eqI)
  then have "card (?S - A') = card (?S - snd st) - card ?new"
    using fin by (simp add: result(1) card_Diff_subset[symmetric] finite_subset Diff_Diff_Int set_diff_eq)
      (rule arg_cong[where f = card], blast)
  moreover have "card ?new \<le> card (?S - snd st)" using new fin by (simp add: card_mono)
  ultimately show ?thesis using n by (simp add: step result(3))
qed

lemma ancestors_closed:
  assumes "ancestors_invariant g start ([], A)"
  shows "A = ancestors_of g start"
proof
  show "A \<subseteq> ancestors_of g start" using assms by (simp add: ancestors_invariant_def)
  have closed: "u \<in> A" if "(u, n) \<in> graph_edges g" "n \<in> start \<union> A" for u n
    using assms that by (auto simp: ancestors_invariant_def)
  show "ancestors_of g start \<subseteq> A"
  proof
    fix u assume "u \<in> ancestors_of g start"
    then obtain n where "n \<in> start" "(u, n) \<in> (graph_edges g)\<^sup>+" by (auto simp: ancestors_of_def)
    from this(2,1) show "u \<in> A" by (induction rule: converse_trancl_induct) (auto intro: closed)
  qed
qed

lemma ancestors_loop_result: "ancestors_loop g work = Some ([], ancestors_of g (set work))"
proof -
  let ?I = "ancestors_invariant g (set work)"
  have init: "?I (work, {})" by (simp add: ancestors_invariant_def)
  have "\<exists>st. ancestors_loop g work = Some st"
    unfolding ancestors_loop_def
    by (rule measure_while_option_Some[where P = ?I
          and f = "\<lambda>st. 2 * card (fst ` graph_edges g - snd st) + length (fst st)"])
      (use init ancestors_step_invariant ancestors_step_decreases in blast)+
  then obtain w A where loop: "ancestors_loop g work = Some (w, A)" by auto
  have "w = []" using while_option_stop loop unfolding ancestors_loop_def by fastforce
  moreover have "?I (w, A)"
    using while_option_rule[where P = ?I, OF _ loop[unfolded ancestors_loop_def] init] ancestors_step_invariant by blast
  ultimately show ?thesis using loop ancestors_closed by blast
qed

section \<open>Fed ports\<close>

definition fed_by :: "edge_spec list \<Rightarrow> input_port \<Rightarrow> nat" where
  "fed_by es q = length (filter (\<lambda>e. input_port_of e = q) es)"

lemma port_sources_get: "bm_get (port_sources es) q = (if fed_by es q = 0 then None else Some (fed_by es q))"
  unfolding port_sources_def
  by (induction es rule: rev_induct) (auto simp: count_source_def fed_by_def unwrap_or_def)

lemma port_sources_ok: "bm_ok (port_sources es)"
  unfolding port_sources_def
  by (induction es rule: rev_induct) (simp add: bm_ok_def, simp add: count_source_def bm_ok_insert)

lemma port_sources_all:
  "(\<forall>x \<in> set (port_sources es). P x) \<longleftrightarrow> (\<forall>e \<in> set es. P (input_port_of e, fed_by es (input_port_of e)))"
proof -
  have fed: "fed_by es q = 0 \<longleftrightarrow> q \<notin> input_port_of ` set es" for q
    by (auto simp: fed_by_def filter_empty_conv)
  have "distinct (map fst (port_sources es))"
    using port_sources_ok[of es] unfolding bm_ok_def by (rule strict_sorted_iff[THEN iffD1, THEN conjunct2])
  then have "x \<in> set (port_sources es) \<longleftrightarrow> bm_get (port_sources es) (fst x) = Some (snd x)" for x
    by (cases x) (simp add: bm_get_def)
  then have mem: "x \<in> set (port_sources es) \<longleftrightarrow> fst x \<in> input_port_of ` set es \<and> snd x = fed_by es (fst x)" for x
    by (auto simp: port_sources_get fed split: if_splits)
  show ?thesis
  proof
    assume all: "\<forall>x \<in> set (port_sources es). P x"
    show "\<forall>e \<in> set es. P (input_port_of e, fed_by es (input_port_of e))"
    proof
      fix e assume "e \<in> set es"
      then have "(input_port_of e, fed_by es (input_port_of e)) \<in> set (port_sources es)" unfolding mem by simp
      then show "P (input_port_of e, fed_by es (input_port_of e))" using all by blast
    qed
  next
    assume all: "\<forall>e \<in> set es. P (input_port_of e, fed_by es (input_port_of e))"
    show "\<forall>x \<in> set (port_sources es). P x"
    proof
      fix x assume "x \<in> set (port_sources es)"
      then obtain e where "e \<in> set es" "fst x = input_port_of e" "snd x = fed_by es (input_port_of e)"
        using mem[of x] by auto
      then show "P x" using all by (metis prod.collapse)
    qed
  qed
qed

lemma validate_active_inputs_ok [ok_iff]:
  "validate_active_inputs p g = Inr u \<longleftrightarrow>
     list_all (\<lambda>e. fed_by (edges (gp_graph (plan_graph p))) (input_port_of e) = 1)
       (filter (\<lambda>e. edge_target_node e \<in> graph_nodes (gp_graph (plan_graph p))) (edges g))"
proof -
  let ?es = "filter (\<lambda>e. edge_target_node e \<in> graph_nodes (gp_graph (plan_graph p))) (edges g)"
  let ?m = "port_sources (edges (gp_graph (plan_graph p)))"
  have check: "surviving_source_check ?m (q, c) = Inr () \<longleftrightarrow> fed_by (edges (gp_graph (plan_graph p))) q = 1"
    if "c \<noteq> 0" for q c
    using that by (auto simp: surviving_source_check_def port_sources_get unwrap_or_def Let_def split: if_splits)
  have "fed_by ?es (input_port_of e) \<noteq> 0" if "e \<in> set ?es" for e
    using that unfolding fed_by_def by (auto simp: filter_empty_conv)
  then show ?thesis
    unfolding validate_active_inputs_def Let_def try_each_ok port_sources_all
    by (simp add: check list_all_iff)
qed

section \<open>The prune\<close>

lemma only_result:
  assumes "\<And>x. f x = y \<longleftrightarrow> x = k \<and> y = f k" "\<And>x. A \<Longrightarrow> I (f x) \<longleftrightarrow> L"
  shows "(\<exists>x. A \<and> F x \<and> V (f x) \<and> I (f x) \<and> f x = y) \<longleftrightarrow> A \<and> F k \<and> y = f k \<and> V y \<and> L"
  using assms by metis

text \<open>C4: the prune always returns: its work list terminates, and what is kept is the active nodes
  together with all their ancestors that belong to no choice.\<close>

theorem prune_plan_terminates:
  "prune_plan_to_active env p active choices v =
     Some (and_then (plan_validate env p) (\<lambda>_. and_then (variant_validate v) (\<lambda>_. and_then (active_known_check p active)
       (\<lambda>_. prune_to env p ((ancestors_of (gp_graph (plan_graph p)) (set active) - set choices) \<union> set active) v))))"
  by (simp add: prune_plan_to_active_def ancestors_loop_result keep_of_def and_then_def split: sum.splits)

text \<open>C5: a prune is accepted exactly when plan and variant are valid, the active nodes are known, the
  graph restricted to the kept nodes has a plan that validates, and every input port of a kept node
  that any edge of the whole graph fed is fed by exactly one kept edge.\<close>

theorem prune_to_spec:
  "prune_to env p keep v = Inr p' \<longleftrightarrow>
     (\<exists>gp. graph_plan_from_graph (stacking_of env) (pruned_graph (gp_graph (plan_graph p)) keep) = Inr gp \<and>
       plan_fingerprint env (graph_bytes env) (gp_graph gp) = Inr (graph_fingerprint p') \<and>
       p' = p\<lparr>plan_graph := gp, node_plans := pruned_node_plans (gp_graph gp) keep (node_plans p),
         variants := [v], graph_fingerprint := graph_fingerprint p'\<rparr> \<and>
       plan_validate env p' = Inr () \<and>
       list_all (\<lambda>e. fed_by (filter (\<lambda>e. edge_source_node e \<in> keep \<and> edge_target_node e \<in> keep)
           (edges (gp_graph (plan_graph p)))) (input_port_of e) = 1)
         (filter (\<lambda>e. edge_target_node e \<in> keep \<inter> graph_nodes (gp_graph (plan_graph p))) (edges (gp_graph (plan_graph p)))))"
proof -
  let ?g = "gp_graph (plan_graph p)"
  have graph: "gp_graph gp = pruned_graph ?g keep"
    if "graph_plan_from_graph (stacking_of env) (pruned_graph ?g keep) = Inr gp" for gp
    using that by (auto simp: graph_plan_from_graph_def and_then_ok)
  have kept: "n \<in> graph_nodes (pruned_graph ?g keep) \<longleftrightarrow> n \<in> keep \<inter> graph_nodes ?g" for n
    by (auto simp: graph_nodes_def pruned_graph_def)
  have fed: "edges (pruned_graph ?g keep) = filter (\<lambda>e. edge_source_node e \<in> keep \<and> edge_target_node e \<in> keep) (edges ?g)"
    by (simp add: pruned_graph_def)
  let ?new = "\<lambda>gp fp. p\<lparr>plan_graph := gp, node_plans := pruned_node_plans (gp_graph gp) keep (node_plans p),
      variants := [v], graph_fingerprint := fp\<rparr>"
  have split: "prune_to env p keep v = Inr p' \<longleftrightarrow>
      (\<exists>gp fp. graph_plan_from_graph (stacking_of env) (pruned_graph ?g keep) = Inr gp \<and>
        plan_fingerprint env (graph_bytes env) (gp_graph gp) = Inr fp \<and> plan_validate env (?new gp fp) = Inr () \<and>
        validate_active_inputs (?new gp fp) ?g = Inr () \<and> ?new gp fp = p')"
    by (simp add: prune_to_def Let_def and_then_ok)
  have fps: "?new gp fp = p' \<longleftrightarrow> fp = graph_fingerprint p' \<and> p' = ?new gp (graph_fingerprint p')" for gp fp
    by (cases p; cases p') auto
  have inputs_ok: "validate_active_inputs (?new gp fp) ?g = Inr () \<longleftrightarrow>
      list_all (\<lambda>e. fed_by (filter (\<lambda>e. edge_source_node e \<in> keep \<and> edge_target_node e \<in> keep) (edges ?g)) (input_port_of e) = 1)
         (filter (\<lambda>e. edge_target_node e \<in> keep \<inter> graph_nodes ?g) (edges ?g))"
    if "graph_plan_from_graph (stacking_of env) (pruned_graph ?g keep) = Inr gp" for gp fp
    unfolding validate_active_inputs_ok using graph[OF that] by (simp add: kept fed del: Int_iff)
  have each: "(\<exists>fp. graph_plan_from_graph (stacking_of env) (pruned_graph ?g keep) = Inr gp \<and>
        plan_fingerprint env (graph_bytes env) (gp_graph gp) = Inr fp \<and> plan_validate env (?new gp fp) = Inr () \<and>
        validate_active_inputs (?new gp fp) ?g = Inr () \<and> ?new gp fp = p') \<longleftrightarrow>
      graph_plan_from_graph (stacking_of env) (pruned_graph ?g keep) = Inr gp \<and>
        plan_fingerprint env (graph_bytes env) (gp_graph gp) = Inr (graph_fingerprint p') \<and>
        p' = ?new gp (graph_fingerprint p') \<and> plan_validate env p' = Inr () \<and>
        list_all (\<lambda>e. fed_by (filter (\<lambda>e. edge_source_node e \<in> keep \<and> edge_target_node e \<in> keep) (edges ?g)) (input_port_of e) = 1)
         (filter (\<lambda>e. edge_target_node e \<in> keep \<inter> graph_nodes ?g) (edges ?g))" for gp
    by (rule only_result) (use fps inputs_ok in blast)+
  show ?thesis unfolding split each ..
qed

end
