(* ===== verification/PlanProofs.thy ===== *)
theory PlanProofs
  imports PlanValidate
begin

text \<open>
  What a validated plan guarantees: the prediction edges that enter a fitting node carry out-of-fold
  predictions, the training losses of a node do not overlap, and the schedule of a phase runs every
  variant on every fold once, in dependency order.
\<close>

section \<open>Out-of-fold edges\<close>

definition oof_edge_ok :: "execution_plan \<Rightarrow> edge_spec \<Rightarrow> bool" where
  "oof_edge_ok p e \<longleftrightarrow> option_ex (\<lambda>target.
     if requires_oof (contract e)
     then ConsumesOofPredictions \<in> set (np_capabilities target) \<and>
       option_ex (\<lambda>source. EmitsPredictions \<in> set (np_capabilities source)) (bm_get (node_plans p) (edge_source_node e))
     else \<not> fits target) (bm_get (node_plans p) (edge_target_node e))"

lemma oof_edge_check_ok:
  "oof_edge_check p e = Inr () \<longleftrightarrow> (ec_kind (contract e) = Prediction \<longrightarrow> oof_edge_ok p e)"
  by (auto simp: oof_edge_check_def oof_edge_ok_def option_ex_def and_then_ok ok_iff split: option.splits)

section \<open>Training losses\<close>

definition loss_slots :: "training_loss_role \<Rightarrow> (string option \<times> phase) list" where
  "loss_slots r = map (Pair (tl_output_id r)) (tl_phases r)"

text \<open>The controller capabilities a loss calls for.\<close>

definition loss_needs :: "training_loss_role \<Rightarrow> controller_capability set" where
  "loss_needs r = (let spec = lr_spec (tl_loss r) in {SupportsConfigurableLoss} \<union>
     (if ls_kind spec = CustomSpec then {SupportsCustomLoss} else {}) \<union>
     (if LossDifferentiable \<in> set (ls_capabilities spec) then {SupportsDifferentiableLoss} else {}) \<union>
     (if SampleWeightInput \<in> set (ls_required_inputs spec) then {SupportsSampleWeights} else {}) \<union>
     (if MissingMaskInput \<in> set (ls_required_inputs spec) then {SupportsMissingMasks} else {}) \<union>
     (if ImplNeedsGil \<in> set (id_capabilities (lr_implementation (tl_loss r))) then {NeedsPythonGil} else {}))"

lemma loss_capability_ok: "loss_capability_check plan r = Inr () \<longleftrightarrow> loss_needs r \<subseteq> set (np_capabilities plan)"
  by (auto simp: loss_capability_check_def loss_needs_def Let_def and_then_ok)

definition loss_admitted :: "criteria_env \<Rightarrow> node_plan \<Rightarrow> training_loss_role \<Rightarrow> bool" where
  "loss_admitted env plan r \<longleftrightarrow> loss_role_validate env r = Inr () \<and> tl_node_id r = np_node_id plan \<and>
     set (tl_phases r) \<subseteq> set (np_supported_phases plan) \<and> loss_needs r \<subseteq> set (np_capabilities plan)"

lemma loss_phases_ok:
  "try_fold (loss_phase_step plan r) occupied phases = Inr occupied' \<longleftrightarrow>
     set phases \<subseteq> set (np_supported_phases plan) \<and> distinct phases \<and>
     Pair (tl_output_id r) ` set phases \<inter> occupied = {} \<and> occupied' = occupied \<union> Pair (tl_output_id r) ` set phases"
proof (induction phases arbitrary: occupied)
  case (Cons ph phases)
  show ?case
  proof (cases "ph \<in> set (np_supported_phases plan) \<and> (tl_output_id r, ph) \<notin> occupied")
    case True
    then have eq: "try_fold (loss_phase_step plan r) occupied (ph # phases) =
        try_fold (loss_phase_step plan r) (insert (tl_output_id r, ph) occupied) phases"
      by (simp add: loss_phase_step_def Let_def)
    show ?thesis unfolding eq Cons.IH using True by auto
  next
    case False
    then show ?thesis by (auto simp: loss_phase_step_def Let_def)
  qed
qed auto

lemma loss_fold_ok:
  "(\<exists>st'. try_fold (loss_step env plan) (previous, occupied) roles = Inr st') \<longleftrightarrow>
     list_all (loss_admitted env plan) roles \<and>
     sorted_wrt (<) ((case previous of None \<Rightarrow> [] | Some k \<Rightarrow> [k]) @ map loss_key roles) \<and>
     distinct (concat (map loss_slots roles)) \<and> set (concat (map loss_slots roles)) \<inter> occupied = {}"
proof (induction roles arbitrary: previous occupied)
  case Nil
  then show ?case by (cases previous) auto
next
  case (Cons r roles)
  let ?slots = "Pair (tl_output_id r) ` set (tl_phases r)"
  have slots: "set (loss_slots r) = ?slots" "distinct (loss_slots r) \<longleftrightarrow> distinct (tl_phases r)"
    by (auto simp: loss_slots_def distinct_map intro: inj_onI)
  have step: "loss_step env plan (previous, occupied) r = Inr st \<longleftrightarrow>
      loss_admitted env plan r \<and> \<not> option_ex (\<lambda>k. loss_key r \<le> k) previous \<and> distinct (tl_phases r) \<and>
      ?slots \<inter> occupied = {} \<and> st = (Some (loss_key r), occupied \<union> ?slots)" for st
    by (auto simp: loss_step_def loss_admitted_def and_then_ok loss_phases_ok loss_capability_ok)
  have trans: "sorted_wrt (<) (k # map loss_key (r # roles)) \<longleftrightarrow>
      k < loss_key r \<and> sorted_wrt (<) (loss_key r # map loss_key roles)" for k
    by (auto intro: less_trans)
  have order: "sorted_wrt (<) ((case previous of None \<Rightarrow> [] | Some k \<Rightarrow> [k]) @ map loss_key (r # roles)) \<longleftrightarrow>
      \<not> option_ex (\<lambda>k. loss_key r \<le> k) previous \<and> sorted_wrt (<) (loss_key r # map loss_key roles)"
    using trans by (cases previous) (simp_all add: option_ex_def not_le)
  have "(\<exists>st'. try_fold (loss_step env plan) (previous, occupied) (r # roles) = Inr st') \<longleftrightarrow>
      loss_admitted env plan r \<and> \<not> option_ex (\<lambda>k. loss_key r \<le> k) previous \<and> distinct (tl_phases r) \<and>
      ?slots \<inter> occupied = {} \<and> (\<exists>st'. try_fold (loss_step env plan) (Some (loss_key r), occupied \<union> ?slots) roles = Inr st')"
    by (simp add: and_then_ok step)
  also have "\<dots> \<longleftrightarrow> list_all (loss_admitted env plan) (r # roles) \<and>
     sorted_wrt (<) ((case previous of None \<Rightarrow> [] | Some k \<Rightarrow> [k]) @ map loss_key (r # roles)) \<and>
     distinct (concat (map loss_slots (r # roles))) \<and> set (concat (map loss_slots (r # roles))) \<inter> occupied = {}"
    unfolding Cons.IH order by (auto simp: slots)
  finally show ?case .
qed

text \<open>C7: the training losses of a node plan validate exactly when every role is valid, belongs to the
  node, names phases and capabilities its controller has, the roles are strictly ordered by output and
  phases, and no output has two losses in one phase.\<close>

theorem training_losses_spec:
  "validate_node_training_losses env plan = Inr () \<longleftrightarrow>
     list_all (loss_admitted (criteria_of env) plan) (np_training_losses plan) \<and>
     sorted_wrt (<) (map loss_key (np_training_losses plan)) \<and>
     distinct (concat (map loss_slots (np_training_losses plan)))"
  using loss_fold_ok[of "criteria_of env" plan None "{}" "np_training_losses plan"]
  by (simp add: validate_node_training_losses_def and_then_ok)

section \<open>The schedule\<close>

text \<open>Every level only needs what an earlier level provides.\<close>

fun levels_respect :: "(node_id \<times> node_id) set \<Rightarrow> node_id set \<Rightarrow> node_id set \<Rightarrow> node_id list list \<Rightarrow> bool" where
  "levels_respect E S done [] = True"
| "levels_respect E S done (l # ls) \<longleftrightarrow>
     list_all (\<lambda>v. {u \<in> S. (u, v) \<in> E} \<subseteq> done) l \<and> levels_respect E S (done \<union> set l) ls"

lemma levels_respect_nonempty: "levels_respect E S D (filter (\<lambda>l. l \<noteq> []) ls) = levels_respect E S D ls"
  by (induction ls arbitrary: D) auto

lemma layered_respects:
  assumes "layered E (pre @ ls)"
  shows "levels_respect E {n. P n} (set (filter P (concat pre))) (map (filter P) ls)"
  using assms
proof (induction ls arbitrary: pre)
  case (Cons l ls)
  have "{u. (u, v) \<in> E} \<subseteq> set (concat pre)" if "v \<in> set l" for v
    using Cons.prems that unfolding layered_def by (auto dest!: spec[of _ "length pre"])
  moreover have "levels_respect E {n. P n} (set (filter P (concat (pre @ [l])))) (map (filter P) ls)"
    using Cons.IH[of "pre @ [l]"] Cons.prems by simp
  ultimately show ?case by (auto simp: list_all_iff)
qed simp

lemma phase_levels:
  assumes "levels_check env p = Inr ()" "node_parallel_levels_for_phase env p ph = Inr ls"
  shows "distinct (concat ls) \<and> set (concat ls) = {n \<in> graph_nodes (gp_graph (plan_graph p)). supports_in p ph n} \<and>
    levels_respect (graph_edges (gp_graph (plan_graph p))) {n. supports_in p ph n} {} ls"
proof -
  obtain levels where levels: "parallel_levels (stacking_of env) (gp_graph (plan_graph p)) = Inr levels"
    "ls = filter (\<lambda>l. l \<noteq> []) (map (filter (supports_in p ph)) levels)"
    using assms by (auto simp: levels_check_def node_parallel_levels_for_phase_def graph_plan_levels_def
      and_then_ok ok_iff split: if_splits)
  note result = parallel_levels_result[OF levels(1)]
  have concat: "concat ls = filter (supports_in p ph) (concat levels)"
    unfolding levels(2) by (induction levels) auto
  have "levels_respect (graph_edges (gp_graph (plan_graph p))) {n. supports_in p ph n} {} ls"
    using layered_respects[of _ "[]" levels "supports_in p ph"] result unfolding levels(2) levels_respect_nonempty by simp
  then show ?thesis using result unfolding concat by auto
qed

lemma variants_distinct:
  assumes "variants_check env p = Inr ()"
  shows "distinct (map vp_variant_id (variants p))"
proof -
  have "try_fold (variant_entry_check env p canonical) ids vs = Inr ids' \<Longrightarrow>
      distinct (map vp_variant_id vs) \<and> vp_variant_id ` set vs \<inter> ids = {}" for canonical ids vs ids'
  proof (induction vs arbitrary: ids)
    case (Cons v vs)
    then show ?case by (force simp: variant_entry_check_def and_then_ok split: if_splits)
  qed simp
  then show ?thesis using assms by (fastforce simp: variants_check_def and_then_ok split: if_splits)
qed

definition scope_key :: "execution_scope_plan \<Rightarrow> variant_id option \<times> fold_id option" where
  "scope_key sc = (es_variant_id sc, es_fold_id sc)"

text \<open>C2: the schedule of a phase has one scope for every variant and fold - no pair twice, none left
  out - and in every scope each supporting node runs once, after every supporting node it depends on.\<close>

theorem phase_schedule_sound:
  assumes "campaign_phase_schedule env p ph = Inr s"
  shows "distinct (map scope_key (scopes s)) \<and>
    set (map scope_key (scopes s)) = (Some \<circ> vp_variant_id) ` set (variants p) \<times> set (phase_folds p ph) \<and>
    list_all (\<lambda>sc. distinct (concat (node_levels sc)) \<and>
      set (concat (node_levels sc)) = {n \<in> graph_nodes (gp_graph (plan_graph p)). supports_in p ph n} \<and>
      levels_respect (graph_edges (gp_graph (plan_graph p))) {n. supports_in p ph n} {} (node_levels sc)) (scopes s)"
proof -
  have valid: "plan_validate env p = Inr ()" and "\<exists>ls. node_parallel_levels_for_phase env p ph = Inr ls \<and>
      scopes s = concat (map (\<lambda>v. map (scope_of ph ls v) (phase_folds p ph)) (variants p))"
    using assms by (auto simp: campaign_phase_schedule_def and_then_ok)
  then obtain ls where ls: "node_parallel_levels_for_phase env p ph = Inr ls"
    "scopes s = concat (map (\<lambda>v. map (scope_of ph ls v) (phase_folds p ph)) (variants p))" by blast
  have checked: "levels_check env p = Inr ()" "plan_folds_check p = Inr ()" "variants_check env p = Inr ()"
    using valid by (simp_all add: plan_validate_def and_then_ok)
  have folds: "distinct (phase_folds p ph)"
  proof (cases "plan_fold_set p")
    case (Some fs)
    then have "fold_set_wf fs" using checked(2) by (auto simp: plan_folds_check_def and_then_ok fold_set_validate_ok)
    then have "distinct (map fold_id (folds fs))" by (simp add: fold_set_wf_def)
    then show ?thesis using Some by (simp add: phase_folds_def distinct_map inj_on_def)
  qed (simp add: phase_folds_def)
  have keys: "map scope_key (scopes s) = List.product (map (Some \<circ> vp_variant_id) (variants p)) (phase_folds p ph)"
    unfolding ls(2) by (simp add: List.product_concat_map map_concat comp_def scope_key_def scope_of_def)
  have "distinct (map (Some \<circ> vp_variant_id) (variants p))"
    using variants_distinct[OF checked(3)] by (simp add: distinct_map inj_on_def)
  then have "distinct (map scope_key (scopes s))" unfolding keys using folds by (simp add: distinct_product)
  moreover have "\<forall>sc \<in> set (scopes s). node_levels sc = ls" unfolding ls(2) by (auto simp: scope_of_def)
  ultimately show ?thesis using phase_levels[OF checked(1) ls(1)] unfolding keys by (auto simp: list_all_iff)
qed

section \<open>The builder\<close>

lemma find_sat: "find P xs = Some x \<Longrightarrow> P x"
  by (induction xs) (auto split: if_splits)

lemma find_key: "distinct (map key xs) \<Longrightarrow> x \<in> set xs \<Longrightarrow> find (\<lambda>y. key y = key x) xs = Some x"
  by (induction xs) (auto simp: rev_image_eqI)

lemma plan_nodes_fold:
  assumes "try_fold (plan_node env g c reg) st order = Inr st'" "distinct order"
  shows "(\<forall>n \<in> set order. \<exists>node m fp inner_cv. find (\<lambda>x. node_id x = n) (nodes g) = Some node \<and>
      resolve_for_node reg node = Inr m \<and> bm_get (fst st') n = Some (node_plan_of g c node m fp inner_cv)) \<and>
    (\<forall>n. n \<notin> set order \<longrightarrow> bm_get (fst st') n = bm_get (fst st) n)"
  using assms
proof (induction order arbitrary: st)
  case (Cons n order)
  then obtain st1 where step: "plan_node env g c reg st n = Inr st1" and rest: "try_fold (plan_node env g c reg) st1 order = Inr st'"
    by (auto simp: and_then_ok)
  then obtain node m fp inner_cv where found: "find (\<lambda>x. node_id x = n) (nodes g) = Some node"
    "resolve_for_node reg node = Inr m" "fst st1 = bm_insert (node_id node) (node_plan_of g c node m fp inner_cv) (fst st)"
    by (auto simp: plan_node_def and_then_ok)
  have id: "node_id node = n" using find_sat[OF found(1)] by simp
  have "\<forall>k. k \<notin> set order \<longrightarrow> bm_get (fst st') k = bm_get (fst st1) k" using Cons.IH[OF rest] Cons.prems by simp
  moreover have "n \<notin> set order" using Cons.prems by simp
  ultimately show ?case using Cons.IH[OF rest] Cons.prems found id by auto
qed simp

text \<open>What the builder leaves behind: the validated plan of the given graph and campaign, each node
  planned from the controller the registry resolves.\<close>

lemma built_plan:
  assumes "build_execution_plan env name g c reg = Inr p"
  shows "plan_validate env p = Inr ()" "plan_id p = name" "gp_graph (plan_graph p) = g" "campaign p = c"
    "set (bm_keys (node_plans p)) = graph_nodes g" "graph_ok (stacking_of env) g"
    "\<And>node. node \<in> set (nodes g) \<Longrightarrow> \<exists>m fp inner_cv. resolve_for_node reg node = Inr m \<and>
      bm_get (node_plans p) (node_id node) = Some (node_plan_of g c node m fp inner_cv)"
proof -
  obtain gp nps manifests where gp: "graph_plan_from_graph (stacking_of env) g = Inr gp"
    and fold: "try_fold (plan_node env g c reg) ([], []) (gp_topological_order gp) = Inr (nps, manifests)"
    and p: "plan_id p = name" "plan_graph p = gp" "campaign p = c" "node_plans p = nps"
    and valid: "plan_validate env p = Inr ()"
    using assms by (auto simp: build_execution_plan_def and_then_ok Let_def)
  have g: "gp_graph gp = g" "topological_order (stacking_of env) g = Inr (gp_topological_order gp)"
    using gp by (auto simp: graph_plan_from_graph_def and_then_ok)
  note order = topological_order_result[OF g(2)]
  show "plan_validate env p = Inr ()" "plan_id p = name" "gp_graph (plan_graph p) = g" "campaign p = c"
    "graph_ok (stacking_of env) g" using valid p g order by simp_all
  have dist: "distinct (map node_id (nodes g))" using order by (simp add: graph_ok_def)
  show "set (bm_keys (node_plans p)) = graph_nodes g"
    using valid p g by (simp add: plan_validate_def coverage_check_def and_then_ok)
  fix node assume mem: "node \<in> set (nodes g)"
  then have "node_id node \<in> set (gp_topological_order gp)" using order by (auto simp: graph_nodes_def)
  then show "\<exists>m fp inner_cv. resolve_for_node reg node = Inr m \<and>
      bm_get (node_plans p) (node_id node) = Some (node_plan_of g c node m fp inner_cv)"
    using plan_nodes_fold[OF fold] order find_key[OF dist mem] p by fastforce
qed

lemma edge_between_nodes:
  assumes "graph_ok fv g" "e \<in> set (edges g)"
  obtains source target where "source \<in> set (nodes g)" "node_id source = edge_source_node e"
    "target \<in> set (nodes g)" "node_id target = edge_target_node e"
proof -
  have "edge_source_node e \<in> graph_nodes g \<and> edge_target_node e \<in> graph_nodes g"
    using assms edges_ok_endpoints[of g "edges g"] by (simp add: graph_ok_def)
  then show thesis using that unfolding graph_nodes_def by force
qed

lemma valid_plan_edge:
  assumes "plan_validate env p = Inr ()" "e \<in> set (edges (gp_graph (plan_graph p)))" "ec_kind (contract e) = Prediction"
  shows "oof_edge_ok p e"
  using assms by (auto simp: plan_validate_def validate_oof_controller_capabilities_def and_then_ok try_each_ok
    oof_edge_check_ok list_all_iff ok_iff)

text \<open>C6: in a built plan no node learns from in-fold predictions. Every edge of the graph joins two of its
  nodes, whose controllers the registry resolves; a prediction edge into a controller that fits on folds
  or on all rows and runs in FIT_CV or REFIT is declared out-of-fold; and only prediction edges are,
  each from a controller that emits predictions to one that consumes out-of-fold predictions.\<close>

theorem built_plan_edges_out_of_fold:
  assumes "build_execution_plan env name g c reg = Inr p" and "e \<in> set (edges g)"
  shows "\<exists>source target ms mt. source \<in> set (nodes g) \<and> node_id source = edge_source_node e \<and>
    target \<in> set (nodes g) \<and> node_id target = edge_target_node e \<and>
    resolve_for_node reg source = Inr ms \<and> resolve_for_node reg target = Inr mt \<and>
    (ec_kind (contract e) = Prediction \<and> fit_scope mt \<in> {FoldTrainScope, FullTrainScope} \<and>
      set (supported_phases mt) \<inter> {FitCv, Refit} \<noteq> {} \<longrightarrow> requires_oof (contract e)) \<and>
    (requires_oof (contract e) \<longrightarrow> ec_kind (contract e) = Prediction \<and>
      EmitsPredictions \<in> set (capabilities ms) \<and> ConsumesOofPredictions \<in> set (capabilities mt))"
proof -
  note built = built_plan[OF assms(1)]
  obtain source target where ends: "source \<in> set (nodes g)" "node_id source = edge_source_node e"
      "target \<in> set (nodes g)" "node_id target = edge_target_node e"
    using edge_between_nodes[OF built(6) assms(2)] .
  obtain ms fs ics where ms: "resolve_for_node reg source = Inr ms"
      "bm_get (node_plans p) (edge_source_node e) = Some (node_plan_of g c source ms fs ics)"
    using built(7)[OF ends(1)] ends(2) by auto
  obtain mt ft ict where mt: "resolve_for_node reg target = Inr mt"
      "bm_get (node_plans p) (edge_target_node e) = Some (node_plan_of g c target mt ft ict)"
    using built(7)[OF ends(3)] ends(4) by auto
  have kind: "requires_oof (contract e) \<longrightarrow> ec_kind (contract e) = Prediction"
    using built(6) assms(2) by (auto simp: graph_ok_def edges_ok_def edge_ok_def list_all_iff)
  have "oof_edge_ok p e" if "ec_kind (contract e) = Prediction"
    using valid_plan_edge[OF built(1)] built(3) assms(2) that by simp
  then have "ec_kind (contract e) = Prediction \<longrightarrow>
      (if requires_oof (contract e)
       then ConsumesOofPredictions \<in> set (capabilities mt) \<and> EmitsPredictions \<in> set (capabilities ms)
       else \<not> fits (node_plan_of g c target mt ft ict))"
    by (cases "requires_oof (contract e)") (simp_all add: oof_edge_ok_def option_ex_def ms mt node_plan_of_def)
  then have "(ec_kind (contract e) = Prediction \<and> fit_scope mt \<in> {FoldTrainScope, FullTrainScope} \<and>
      set (supported_phases mt) \<inter> {FitCv, Refit} \<noteq> {} \<longrightarrow> requires_oof (contract e)) \<and>
    (requires_oof (contract e) \<longrightarrow> ec_kind (contract e) = Prediction \<and>
      EmitsPredictions \<in> set (capabilities ms) \<and> ConsumesOofPredictions \<in> set (capabilities mt))"
    using kind by (auto simp: fits_def node_plan_of_def is_training_def list_ex_iff split: if_splits)
  then show ?thesis using ends ms(1) mt(1) by blast
qed

text \<open>C3: a built plan is the plan of the given graph and campaign, it validates, and every node of the
  graph is planned with the controller the registry resolves for it, without training losses.\<close>

theorem build_execution_plan_sound:
  assumes "build_execution_plan env name g c reg = Inr p"
  shows "plan_validate env p = Inr () \<and> plan_id p = name \<and> gp_graph (plan_graph p) = g \<and> campaign p = c \<and>
    set (bm_keys (node_plans p)) = graph_nodes g \<and>
    list_all (\<lambda>node. \<exists>m fp inner_cv. resolve_for_node reg node = Inr m \<and>
      bm_get (node_plans p) (node_id node) = Some (node_plan_of g c node m fp inner_cv)) (nodes g)"
  using built_plan[OF assms] by (simp add: list_all_iff)

end
