(* ===== verification/PlanDemo.thy ===== *)
theory PlanDemo
  imports PlanProofs
begin

text \<open>
  Plans of two nodes, built by the model of the builder: a transform that feeds a model, and a model whose
  out-of-fold predictions feed a meta-model. They show that the hypotheses of the plan properties can
  hold.
\<close>

definition plain_port :: "string \<Rightarrow> port_kind \<Rightarrow> port_spec" where
  "plain_port name kind = \<lparr>ps_name = name, ps_kind = kind, ps_representation = None, ps_cardinality = One,
     ps_unit_level = None, ps_alignment_key = None, ps_target_level = None, ps_description = ''''\<rparr>"

definition plain_node :: "string \<Rightarrow> node_kind \<Rightarrow> port_spec list \<Rightarrow> port_spec list \<Rightarrow> node_spec" where
  "plain_node name kind ins outs = \<lparr>node_id = Ident name, ns_kind = kind, ns_operator = None, ns_params = [],
     ns_ports = \<lparr>inputs = ins, outputs = outs\<rparr>, ns_metadata = [], ns_seed_label = None\<rparr>"

definition two_node_graph :: graph_spec where
  "two_node_graph = \<lparr>graph_id = ''g'', interface = \<lparr>gi_inputs = [], gi_outputs = []\<rparr>,
     nodes = [plain_node ''model'' Model [plain_port ''x'' Data] [],
       plain_node ''prep'' Transform [] [plain_port ''x'' Data]],
     edges = [\<lparr>edge_source = \<lparr>pr_node_id = Ident ''prep'', pr_port_name = ''x''\<rparr>,
       edge_target = \<lparr>pr_node_id = Ident ''model'', pr_port_name = ''x''\<rparr>,
       contract = edge_contract_new Data None\<rparr>],
     search_space_fingerprint = None, graph_metadata = []\<rparr>"

definition plain_campaign :: campaign_spec where
  "plain_campaign = \<lparr>campaign_id = ''c'', cs_root_seed = None, cs_leakage_policy = default_leakage_unit_policy,
     cs_aggregation_policy = default_aggregation_policy, split_invocation = None,
     generation = default_generation_spec, cs_shape_plans = [], cs_data_bindings = [], branch_view_plans = [],
     cs_inner_cv = None, cs_metadata = []\<rparr>"

definition plain_manifest :: "string \<Rightarrow> node_kind \<Rightarrow> controller_manifest" where
  "plain_manifest name kind = \<lparr>cm_controller_id = Ident name, controller_version = ''1'', operator_kind = kind,
     priority = 0, supported_phases = [FitCv, Refit, Predict], cm_input_ports = [], cm_output_ports = [],
     data_requirements = None, capabilities = [Deterministic], operator_selectors = [],
     fit_scope = FoldTrainScope, rng_policy = UsesCoreSeed, artifact_policy = Serializable\<rparr>"

definition plain_registry :: controller_registry where
  "plain_registry = [(Ident ''pls'', plain_manifest ''pls'' Model), (Ident ''snv'', plain_manifest ''snv'' Transform)]"

definition plain_env :: plan_env where
  "plain_env = \<lparr>stacking_of = (\<lambda>_. Inl ''none''), requirements_of = (\<lambda>_. None), inner_cv_of = (\<lambda>_. None),
     branch_view_of = (\<lambda>_. None),
     criteria_of = \<lparr>loss_json = (\<lambda>_. Inr ''''), metric_json = (\<lambda>_. Inr ''''), descriptor_json = (\<lambda>_. Inr ''''),
       attestation_json = (\<lambda>_. Inr ''''), stopping_json = (\<lambda>_. Inr ''''), criteria_nfc = (\<lambda>s. s),
       criteria_sha256 = (\<lambda>_. replicate 32 0)\<rparr>,
     plan_sha256 = (\<lambda>_. [0]), graph_bytes = (\<lambda>_. Inr []), campaign_bytes = (\<lambda>_. Inr []),
     manifests_bytes = (\<lambda>_. Inr []), params_bytes = (\<lambda>_. Inr []), generation_bytes = (\<lambda>_. Inr []),
     choices_bytes = (\<lambda>_. Inr []), trial_bytes = (\<lambda>_. Inr []), roles_bytes = (\<lambda>_. Inr []),
     domain_plan_check = (\<lambda>_. Inr ()), classified_operator = (\<lambda>_. Inr False), profile_checks = (\<lambda>_. Inr ())\<rparr>"

definition zero_fingerprint :: string where
  "zero_fingerprint = ''00''"

definition base_variant :: variant_plan where
  "base_variant = \<lparr>vp_variant_id = Ident ''variant:base'', vp_choices = [], vp_fingerprint = zero_fingerprint, vp_seed = None\<rparr>"

definition plain_node_plan :: "string \<Rightarrow> string \<Rightarrow> node_kind \<Rightarrow> node_id list \<Rightarrow> node_id list \<Rightarrow> node_plan" where
  "plain_node_plan name controller kind ins outs = \<lparr>np_node_id = Ident name, np_kind = kind,
     np_controller_id = Ident controller, np_controller_version = ''1'', np_supported_phases = [FitCv, Refit, Predict],
     np_capabilities = [Deterministic], np_training_losses = [], np_fit_scope = FoldTrainScope,
     np_rng_policy = UsesCoreSeed, np_artifact_policy = Serializable, np_input_nodes = ins, np_output_nodes = outs,
     np_shape_plan = None, np_data_bindings = [], np_params = [], np_inner_cv = None,
     np_params_fingerprint = zero_fingerprint\<rparr>"

definition two_node_plan :: execution_plan where
  "two_node_plan = \<lparr>plan_id = ''p'', plan_graph = \<lparr>gp_graph = two_node_graph,
       gp_topological_order = [Ident ''prep'', Ident ''model''],
       gp_parallel_levels = [[Ident ''prep''], [Ident ''model'']]\<rparr>,
     campaign = plain_campaign,
     node_plans = [(Ident ''model'', plain_node_plan ''model'' ''pls'' Model [Ident ''prep''] []),
       (Ident ''prep'', plain_node_plan ''prep'' ''snv'' Transform [] [Ident ''model''])],
     controller_manifests = plain_registry, variants = [base_variant], plan_fold_set = None,
     graph_fingerprint = zero_fingerprint, campaign_fingerprint = zero_fingerprint,
     controller_fingerprint = zero_fingerprint\<rparr>"

lemma two_node_run:
  "build_execution_plan plain_env ''p'' two_node_graph plain_campaign plain_registry = Inr two_node_plan"
  by code_simp

theorem build_execution_plan_sound_witness:
  "plan_validate plain_env two_node_plan = Inr () \<and>
   (\<exists>m fp inner_cv. bm_get (node_plans two_node_plan) (Ident ''model'') = Some (node_plan_of two_node_graph
     plain_campaign (plain_node ''model'' Model [plain_port ''x'' Data] []) m fp inner_cv))"
proof -
  have "node_id (plain_node ''model'' Model [plain_port ''x'' Data] []) = Ident ''model''" by (simp add: plain_node_def)
  then show ?thesis
    using build_execution_plan_sound[OF two_node_run] by (auto simp: two_node_graph_def)
qed

lemma two_node_valid: "plan_validate plain_env two_node_plan = Inr ()"
  using two_node_run by (auto simp: build_execution_plan_def and_then_ok Let_def)

theorem phase_schedule_sound_witness:
  "\<exists>s. campaign_phase_schedule plain_env two_node_plan FitCv = Inr s \<and>
     set (map scope_key (scopes s)) = {(Some (Ident ''variant:base''), None)} \<and>
     list_all (\<lambda>sc. set (concat (node_levels sc)) = {Ident ''prep'', Ident ''model''}) (scopes s)"
proof -
  have "node_parallel_levels_for_phase plain_env two_node_plan FitCv = Inr [[Ident ''prep''], [Ident ''model'']]"
    by (simp add: node_parallel_levels_for_phase_def graph_plan_levels_def two_node_plan_def supports_in_def
      plain_node_plan_def bm_get_def option_ex_def)
  then obtain s where s: "campaign_phase_schedule plain_env two_node_plan FitCv = Inr s"
    using two_node_valid by (simp add: campaign_phase_schedule_def)
  have "{n \<in> graph_nodes (gp_graph (plan_graph two_node_plan)). supports_in two_node_plan FitCv n} =
      {Ident ''prep'', Ident ''model''}"
    by (auto simp: graph_nodes_def two_node_plan_def two_node_graph_def plain_node_def supports_in_def
      plain_node_plan_def bm_get_def option_ex_def)
  then show ?thesis using s phase_schedule_sound[OF s]
    by (auto simp: two_node_plan_def base_variant_def phase_folds_def list_all_iff)
qed

section \<open>A stack\<close>

definition stacked_edge :: edge_spec where
  "stacked_edge = \<lparr>edge_source = \<lparr>pr_node_id = Ident ''base'', pr_port_name = ''oof''\<rparr>,
     edge_target = \<lparr>pr_node_id = Ident ''meta'', pr_port_name = ''x''\<rparr>,
     contract = (edge_contract_new Prediction None)\<lparr>requires_oof := True, requires_fold_alignment := True\<rparr>\<rparr>"

definition stacked_graph :: graph_spec where
  "stacked_graph = two_node_graph\<lparr>
     nodes := [plain_node ''base'' Model [] [plain_port ''oof'' Prediction],
       plain_node ''meta'' Model [plain_port ''x'' Prediction] []],
     edges := [stacked_edge]\<rparr>"

definition stacked_manifest :: controller_manifest where
  "stacked_manifest = (plain_manifest ''stack'' Model)\<lparr>
     capabilities := [Deterministic, EmitsPredictions, ConsumesOofPredictions]\<rparr>"

lemma stacked_run:
  "\<not> isl (build_execution_plan plain_env ''p'' stacked_graph plain_campaign [(Ident ''stack'', stacked_manifest)])"
  by code_simp

theorem built_plan_edges_out_of_fold_witness:
  "\<exists>p. build_execution_plan plain_env ''p'' stacked_graph plain_campaign [(Ident ''stack'', stacked_manifest)] = Inr p \<and>
     (\<exists>target \<in> set (nodes stacked_graph). \<exists>mt. node_id target = Ident ''meta'' \<and>
       resolve_for_node [(Ident ''stack'', stacked_manifest)] target = Inr mt \<and>
       ConsumesOofPredictions \<in> set (capabilities mt))"
proof -
  let ?reg = "[(Ident ''stack'', stacked_manifest)]"
  obtain p where p: "build_execution_plan plain_env ''p'' stacked_graph plain_campaign ?reg = Inr p"
    using stacked_run by (cases "build_execution_plan plain_env ''p'' stacked_graph plain_campaign ?reg") auto
  have edge: "stacked_edge \<in> set (edges stacked_graph)" by (simp add: stacked_graph_def)
  have meta: "edge_target_node stacked_edge = Ident ''meta''" "requires_oof (contract stacked_edge)"
    by (simp_all add: stacked_edge_def edge_target_node_def)
  obtain target mt where "target \<in> set (nodes stacked_graph)" "node_id target = Ident ''meta''"
      "resolve_for_node ?reg target = Inr mt" "ConsumesOofPredictions \<in> set (capabilities mt)"
    using built_plan_edges_out_of_fold[OF p edge] meta by auto
  then show ?thesis using p by blast
qed

end
