(* ===== verification/KeyedFill.thy ===== *)
theory KeyedFill
  imports KeyedRegistry Cohort
begin

text \<open>
  Maps that a loop fills from a list, refusing a key it has already seen: the entry stored under the
  key is a projection of the element. A keyed registry is the case that stores the element itself.
\<close>

locale keyed_fill =
  fixes key :: "'e \<Rightarrow> 'k::linorder" and val :: "'e \<Rightarrow> 'v" and admitted :: "'e \<Rightarrow> bool"
    and add :: "('k, 'v) btree_map \<Rightarrow> 'e \<Rightarrow> 'f + ('k, 'v) btree_map"
  assumes add_ok: "add m x = Inr m' \<longleftrightarrow> admitted x \<and> bm_get m (key x) = None \<and> m' = bm_insert (key x) (val x) m"
begin

definition entries :: "'e list \<Rightarrow> ('k \<times> 'v) list" where
  "entries xs = map (\<lambda>x. (key x, val x)) xs"

lemma keys_entries [simp]: "map fst (entries xs) = map key xs"
  by (simp add: entries_def comp_def)

lemma dom_entries [simp]: "dom (map_of (entries xs)) = key ` set xs"
  by (simp add: entries_def dom_map_of_conv_image_fst image_image)

lemma fill_from:
  "bm_ok m \<Longrightarrow> try_fold add m xs = Inr m' \<longleftrightarrow>
     list_all admitted xs \<and> distinct (map key xs) \<and> key ` set xs \<inter> dom (bm_get m) = {} \<and>
     bm_ok m' \<and> bm_get m' = bm_get m ++ map_of (entries xs)"
proof (induction xs arbitrary: m)
  case Nil
  then show ?case using bm_ext[of m m'] by (auto simp: entries_def)
next
  case (Cons x xs)
  let ?m = "bm_insert (key x) (val x) m"
  have shift: "(bm_get m)(key x \<mapsto> val x) ++ map_of (entries xs) = bm_get m ++ map_of (entries (x # xs))"
    if "key x \<notin> key ` set xs"
  proof -
    have "map_of (entries xs) (key x) = None" using that unfolding dom_entries[symmetric] by blast
    then show ?thesis by (auto simp: entries_def fun_eq_iff map_add_def split: option.splits)
  qed
  have "try_fold add m (x # xs) = Inr m' \<longleftrightarrow> admitted x \<and> bm_get m (key x) = None \<and> try_fold add ?m xs = Inr m'"
    by (auto simp: and_then_ok add_ok)
  also have "\<dots> \<longleftrightarrow> admitted x \<and> bm_get m (key x) = None \<and> list_all admitted xs \<and> distinct (map key xs) \<and>
      key ` set xs \<inter> insert (key x) (dom (bm_get m)) = {} \<and> bm_ok m' \<and>
      bm_get m' = (bm_get m)(key x \<mapsto> val x) ++ map_of (entries xs)"
    unfolding Cons.IH[OF bm_ok_insert[OF Cons.prems]] bm_get_insert by simp
  also have "\<dots> \<longleftrightarrow> list_all admitted (x # xs) \<and> distinct (map key (x # xs)) \<and>
      key ` set (x # xs) \<inter> dom (bm_get m) = {} \<and> bm_ok m' \<and> bm_get m' = bm_get m ++ map_of (entries (x # xs))"
    using shift by (cases "key x \<in> key ` set xs") auto
  finally show ?case .
qed

lemma fill_ok:
  "try_fold add [] xs = Inr m \<longleftrightarrow>
     list_all admitted xs \<and> distinct (map key xs) \<and> bm_ok m \<and> bm_get m = map_of (entries xs)"
  by (simp add: fill_from)

lemma fill_exists:
  assumes "list_all admitted xs" "distinct (map key xs)"
  shows "\<exists>m. try_fold add [] xs = Inr m"
proof -
  have "bm_get (bm_collect (entries xs)) = map_of (entries xs)"
    by (rule bm_get_collect_distinct) (simp add: assms(2))
  then have "try_fold add [] xs = Inr (bm_collect (entries xs))" using assms by (simp add: fill_ok)
  then show ?thesis by blast
qed

end

sublocale keyed_registry \<subseteq> stored: keyed_fill key "\<lambda>x. x" admitted add
  by unfold_locales (rule add_ok)

text \<open>\<open>map[key]\<close>: the \<open>Index\<close> of a \<open>BTreeMap\<close> panics when the key is absent.\<close>

definition index_map :: "('k, 'v) btree_map \<Rightarrow> 'k \<Rightarrow> 'v result" where
  "index_map m k = ok_or (bm_get m k) (Panic (ExpectFailed ''no entry found for key''))"

lemma index_map_ok [ok_iff]: "index_map m k = Inr v \<longleftrightarrow> bm_get m k = Some v"
  by (simp add: index_map_def)

lemma length_bs_collect: "length (bs_collect xs) = length xs \<longleftrightarrow> distinct xs"
  by (auto simp: bs_collect_def distinct_card card_distinct)

lemma bm_keys_eq_collect: "bm_ok m \<Longrightarrow> bm_keys m = bs_collect xs \<longleftrightarrow> dom (bm_get m) = set xs"
proof -
  assume "bm_ok m"
  then have "bs_collect (bm_keys m) = bm_keys m"
    by (simp add: bs_collect_sorted bm_keys_def bm_ok_def)
  then show ?thesis using set_bm_keys[of m] by (metis bs_collect_cong set_bs_collect)
qed

end
