(* ===== verification/SourceAlignment.thy ===== *)
theory SourceAlignment
  imports KeyedFill
begin

text \<open>
  \<open>source_alignment.rs\<close>: named sources that present the same samples in their own order are aligned by
  sample id. The result is a row permutation per source; no buffer is touched. An index into a map is
  a panic when the key is absent, as \<open>BTreeMap\<close>'s \<open>Index\<close> is.
\<close>

record source_order =
  so_source_id :: string
  so_sample_ids :: "sample_id list"

record alignment_request =
  ar_sample_ids :: "sample_id list"
  ar_required :: "string list"
  ar_sources :: "source_order list"

record row_selection =
  rs_source_id :: string
  row_indices :: "nat list"

record source_alignment =
  al_sample_ids :: "sample_id list"
  al_sources :: "row_selection list"

abbreviation alignment_error :: "alignment_msg \<Rightarrow> dag_ml_error failure" where
  "alignment_error m \<equiv> Err (RuntimeValidation (AlignmentMsg m))"

definition supply_step ::
  "(string, sample_id list) btree_map \<Rightarrow> source_order \<Rightarrow> (string, sample_id list) btree_map result" where
  "supply_step m s =
     (if is_blank (so_source_id s) \<or> bm_get m (so_source_id s) \<noteq> None
      then Inl (alignment_error (AlignmentSourceId (so_source_id s)))
      else Inr (bm_insert (so_source_id s) (so_sample_ids s) m))"

definition position_step ::
  "string \<Rightarrow> (sample_id, nat) btree_map \<Rightarrow> nat \<times> sample_id \<Rightarrow> (sample_id, nat) btree_map result" where
  "position_step source m = (\<lambda>(index, s).
     if bm_get m s \<noteq> None then Inl (alignment_error (AlignmentDuplicateSamples source))
     else Inr (bm_insert s index m))"

definition align_source ::
  "sample_id list \<Rightarrow> (string, sample_id list) btree_map \<Rightarrow> string \<Rightarrow> row_selection result" where
  "align_source requested supplied source =
     and_then (index_map supplied source) (\<lambda>ids.
     and_then (try_fold (position_step source) [] (enumerate 0 ids)) (\<lambda>positions.
     if bm_keys positions \<noteq> bs_collect requested
     then Inl (alignment_error (AlignmentSamplesDiffer source))
     else and_then (try_map (index_map positions) requested) (\<lambda>picked.
       Inr \<lparr>rs_source_id = source, row_indices = picked\<rparr>)))"

definition align_named_source_rows :: "alignment_request \<Rightarrow> source_alignment result" where
  "align_named_source_rows r =
     (if ar_sample_ids r = [] \<or> length (bs_collect (ar_sample_ids r)) \<noteq> length (ar_sample_ids r)
      then Inl (alignment_error AlignmentSamples)
      else if ar_required r = [] \<or> list_ex is_blank (ar_required r) \<or>
        length (bs_collect (ar_required r)) \<noteq> length (ar_required r)
      then Inl (alignment_error AlignmentRequiredSources)
      else and_then (try_fold supply_step [] (ar_sources r)) (\<lambda>supplied.
        if bm_keys supplied \<noteq> bs_collect (ar_required r) then Inl (alignment_error AlignmentSourceSet)
        else and_then (try_map (align_source (ar_sample_ids r) supplied) (ar_required r)) (\<lambda>selections.
          Inr \<lparr>al_sample_ids = ar_sample_ids r, al_sources = selections\<rparr>)))"

section \<open>The two loops\<close>

interpretation supplies: keyed_fill so_source_id so_sample_ids "\<lambda>s. \<not> is_blank (so_source_id s)" supply_step
  by unfold_locales (auto simp: supply_step_def split: if_splits)

interpretation positions: keyed_fill snd fst "\<lambda>_. True" "position_step source" for source
  by unfold_locales (auto simp: position_step_def split: if_splits)

lemma entries_enumerate: "positions.entries (enumerate 0 ids) = map (\<lambda>(i, s). (s, i)) (enumerate 0 ids)"
  by (simp add: positions.entries_def case_prod_beta)

lemma position_of:
  assumes "distinct ids" "i < length ids"
  shows "map_of (positions.entries (enumerate 0 ids)) (ids ! i) = Some i"
proof (rule map_of_is_SomeI)
  show "distinct (map fst (positions.entries (enumerate 0 ids)))" using assms(1) by simp
  have "(i, ids ! i) \<in> set (enumerate 0 ids)" using assms(2) by (simp add: in_set_enumerate_eq)
  then show "(ids ! i, i) \<in> set (positions.entries (enumerate 0 ids))"
    by (force simp: positions.entries_def)
qed

text \<open>A selection reads its source in the requested order, each row once.\<close>

definition selects :: "sample_id list \<Rightarrow> sample_id list \<Rightarrow> nat list \<Rightarrow> bool" where
  "selects requested ids picked \<longleftrightarrow> map ((!) ids) picked = requested \<and> mset picked = mset [0..<length ids]"

lemma selects_iff:
  assumes "distinct requested"
  shows "selects requested ids picked \<longleftrightarrow>
     distinct ids \<and> set ids = set requested \<and> list_all2 (\<lambda>s i. i < length ids \<and> ids ! i = s) requested picked"
    (is "_ \<longleftrightarrow> ?rhs")
proof
  assume s: "selects requested ids picked"
  then have "mset requested = image_mset ((!) ids) (mset [0..<length ids])"
    by (auto simp: selects_def)
  then have m: "mset requested = mset ids" by (metis map_nth mset_map)
  then have "distinct ids" "set ids = set requested" using assms by (metis mset_eq_imp_distinct_iff, metis mset_eq_setD)
  moreover have "set picked = {0..<length ids}" using s by (metis selects_def mset_eq_setD set_upt)
  ultimately show ?rhs using s by (auto simp: selects_def list_all2_conv_all_nth)
next
  assume r: ?rhs
  then have picked: "map ((!) ids) picked = requested" and lt: "set picked \<subseteq> {0..<length ids}"
    by (auto simp: list_all2_conv_all_nth in_set_conv_nth intro!: nth_equalityI)
  have "distinct picked" using picked assms by (metis distinct_map)
  moreover have "length picked = length ids"
    using r assms picked by (metis distinct_card length_map)
  ultimately have "set picked = {0..<length ids}"
    using lt by (simp add: card_subset_eq distinct_card)
  then show "selects requested ids picked"
    using picked \<open>distinct picked\<close> by (simp add: selects_def mset_set_set[symmetric])
qed

lemma positions_lookup:
  assumes "distinct ids" "bm_get m = map_of (positions.entries (enumerate 0 ids))"
  shows "bm_get m s = Some i \<longleftrightarrow> i < length ids \<and> ids ! i = s"
proof
  assume "bm_get m s = Some i"
  then have "(s, i) \<in> set (positions.entries (enumerate 0 ids))" using assms(2) by (metis map_of_SomeD)
  then show "i < length ids \<and> ids ! i = s" by (auto simp: positions.entries_def in_set_enumerate_eq)
next
  assume "i < length ids \<and> ids ! i = s"
  then show "bm_get m s = Some i" using position_of[OF assms(1)] assms(2) by auto
qed

lemma align_source_ok:
  assumes "distinct requested"
  shows "align_source requested supplied source = Inr r \<longleftrightarrow>
     (\<exists>ids. bm_get supplied source = Some ids \<and> rs_source_id r = source \<and> selects requested ids (row_indices r))"
proof -
  have "(\<exists>m. try_fold (position_step source) [] (enumerate 0 ids) = Inr m \<and> bm_keys m = bs_collect requested \<and>
      (\<exists>picked. list_all2 (\<lambda>s i. bm_get m s = Some i) requested picked \<and> \<lparr>rs_source_id = source, row_indices = picked\<rparr> = r)) \<longleftrightarrow>
    rs_source_id r = source \<and> selects requested ids (row_indices r)" (is "?l \<longleftrightarrow> ?r") for ids
  proof
    assume ?l
    then obtain m picked where m: "distinct ids" "bm_ok m" "bm_get m = map_of (positions.entries (enumerate 0 ids))"
      "bm_keys m = bs_collect requested" "list_all2 (\<lambda>s i. bm_get m s = Some i) requested picked"
      "\<lparr>rs_source_id = source, row_indices = picked\<rparr> = r"
      by (auto simp: positions.fill_ok)
    have "set ids = set requested"
      using m(4) by (simp add: bm_keys_eq_collect[OF m(2)] m(3) image_set del: set_map flip: set_map)
    then show ?r using m(1,5) unfolding selects_iff[OF assms] positions_lookup[OF m(1,3)] m(6)[symmetric] by simp
  next
    assume ?r
    then have r: "distinct ids" "set ids = set requested" "rs_source_id r = source"
      "list_all2 (\<lambda>s i. i < length ids \<and> ids ! i = s) requested (row_indices r)"
      by (simp_all add: selects_iff[OF assms])
    obtain m where "try_fold (position_step source) [] (enumerate 0 ids) = Inr m"
      using positions.fill_exists[of "enumerate 0 ids" source] r(1) by (auto simp: list_all_iff)
    moreover from this have m: "bm_ok m" "bm_get m = map_of (positions.entries (enumerate 0 ids))"
      by (simp_all add: positions.fill_ok)
    moreover have "bm_keys m = bs_collect requested"
      using r(2) by (simp add: bm_keys_eq_collect[OF m(1)] m(2) image_set del: set_map flip: set_map)
    moreover have "list_all2 (\<lambda>s i. bm_get m s = Some i) requested (row_indices r)"
      using r(4) by (simp add: positions_lookup[OF r(1) m(2)])
    ultimately show ?l using r(3) by (cases r) auto
  qed
  then show ?thesis by (fastforce simp: align_source_def and_then_ok ok_iff split: if_splits)
qed

section \<open>The alignment\<close>

definition request_ok :: "alignment_request \<Rightarrow> bool" where
  "request_ok r \<longleftrightarrow> ar_sample_ids r \<noteq> [] \<and> distinct (ar_sample_ids r) \<and>
     ar_required r \<noteq> [] \<and> \<not> list_ex is_blank (ar_required r) \<and> distinct (ar_required r) \<and>
     distinct (map so_source_id (ar_sources r)) \<and> so_source_id ` set (ar_sources r) = set (ar_required r)"

definition rows_of_source :: "alignment_request \<Rightarrow> string \<Rightarrow> sample_id list option" where
  "rows_of_source r = map_of (map (\<lambda>s. (so_source_id s, so_sample_ids s)) (ar_sources r))"

lemma supplied_ok:
  "(\<exists>m. try_fold supply_step [] (ar_sources r) = Inr m \<and> bm_keys m = bs_collect (ar_required r) \<and> P (bm_get m)) \<and>
     \<not> list_ex is_blank (ar_required r) \<longleftrightarrow>
   distinct (map so_source_id (ar_sources r)) \<and> so_source_id ` set (ar_sources r) = set (ar_required r) \<and>
     P (rows_of_source r) \<and> \<not> list_ex is_blank (ar_required r)" (is "?l \<longleftrightarrow> ?r")
proof
  assume ?l
  then obtain m where m: "distinct (map so_source_id (ar_sources r))" "bm_ok m"
    "bm_get m = map_of (supplies.entries (ar_sources r))" "bm_keys m = bs_collect (ar_required r)" "P (bm_get m)"
    by (auto simp: supplies.fill_ok)
  have "so_source_id ` set (ar_sources r) = set (ar_required r)"
    using m(4) by (simp add: bm_keys_eq_collect[OF m(2)] m(3))
  then show ?r using m \<open>?l\<close> by (simp add: rows_of_source_def supplies.entries_def)
next
  assume r: ?r
  then have "list_all (\<lambda>s. \<not> is_blank (so_source_id s)) (ar_sources r)"
    by (auto simp: list_all_iff list_ex_iff)
  then obtain m where fill: "try_fold supply_step [] (ar_sources r) = Inr m"
    using r supplies.fill_exists by blast
  then have m: "bm_ok m" "bm_get m = map_of (supplies.entries (ar_sources r))" by (simp_all add: supplies.fill_ok)
  have "bm_keys m = bs_collect (ar_required r)" using r by (simp add: bm_keys_eq_collect[OF m(1)] m(2))
  moreover have "P (bm_get m)" using r by (simp add: m(2) rows_of_source_def supplies.entries_def)
  ultimately show ?l using r fill by blast
qed

text \<open>C21: the alignment of named sources succeeds exactly for a request whose sample ids and source ids
  are non-empty and unique, whose sources are exactly the required ones, and whose every source holds
  exactly the requested samples; it then lists the sources in the required order, and applying the
  row indices of a source to its sample ids gives the requested order, every row used once.\<close>

theorem align_named_source_rows_spec:
  "align_named_source_rows r = Inr a \<longleftrightarrow>
     request_ok r \<and> al_sample_ids a = ar_sample_ids r \<and>
     list_all2 (\<lambda>k sel. rs_source_id sel = k \<and>
         (\<exists>ids. rows_of_source r k = Some ids \<and>
            map ((!) ids) (row_indices sel) = ar_sample_ids r \<and>
            mset (row_indices sel) = mset [0..<length ids]))
       (ar_required r) (al_sources a)"
proof (cases "distinct (ar_sample_ids r)")
  case True
  define Q where "Q look \<longleftrightarrow> (\<exists>sels. list_all2 (\<lambda>k sel. \<exists>ids. look k = Some ids \<and> rs_source_id sel = k \<and>
      selects (ar_sample_ids r) ids (row_indices sel)) (ar_required r) sels \<and>
    \<lparr>al_sample_ids = ar_sample_ids r, al_sources = sels\<rparr> = a)" for look
  have one_point: "Q look \<longleftrightarrow> al_sample_ids a = ar_sample_ids r \<and>
     list_all2 (\<lambda>k sel. \<exists>ids. look k = Some ids \<and> rs_source_id sel = k \<and>
      selects (ar_sample_ids r) ids (row_indices sel)) (ar_required r) (al_sources a)" for look
    unfolding Q_def by (cases a) auto
  have "align_named_source_rows r = Inr a \<longleftrightarrow>
      ar_sample_ids r \<noteq> [] \<and> ar_required r \<noteq> [] \<and> distinct (ar_required r) \<and>
      ((\<exists>m. try_fold supply_step [] (ar_sources r) = Inr m \<and> bm_keys m = bs_collect (ar_required r) \<and>
         Q (bm_get m)) \<and> \<not> list_ex is_blank (ar_required r))"
    using True unfolding align_named_source_rows_def length_bs_collect Q_def
    by (simp add: and_then_ok try_map_ok align_source_ok[OF True] split: if_splits) blast
  then show ?thesis unfolding supplied_ok unfolding one_point using True
    by (simp add: request_ok_def selects_def conj_ac cong: conj_cong)
next
  case False
  then show ?thesis by (simp add: align_named_source_rows_def length_bs_collect request_ok_def)
qed

end
