(* ===== verification/ImplementationRegistry.thy ===== *)
theory ImplementationRegistry
  imports CriteriaProofs
begin

text \<open>
  \<open>implementation_registry.rs\<close>: the process-local registry of executable implementations. An entry is
  a validated descriptor and the object a binding registered for it, of any type; it is stored under
  the dispatch key of the descriptor, and resolution asks for the whole descriptor.
\<close>

record 'i registered =
  ri_descriptor :: implementation_descriptor
  ri_implementation :: 'i

type_synonym 'i implementation_registry = "(string, 'i registered) btree_map"

abbreviation registration_error :: "registration_msg \<Rightarrow> dag_ml_error failure" where
  "registration_error m \<equiv> Err (CampaignValidation (RegistrationMsg m))"

abbreviation resolution_error :: "resolution_msg \<Rightarrow> dag_ml_error failure" where
  "resolution_error m \<equiv> Err (RuntimeValidation (ResolutionMsg m))"

definition implementation_dispatch_key :: "criteria_env \<Rightarrow> implementation_descriptor \<Rightarrow> string result" where
  "implementation_dispatch_key env d =
     and_then (descriptor_validate env d) (\<lambda>_. case registry_key d of
         Some key \<Rightarrow> Inr key
       | None \<Rightarrow> if portability d = PortableBuiltIn
           then Inr (''portable_builtin:'' @ descriptor_fingerprint d)
           else Inl (registration_error RegistryKeyMissing))"

definition implementations_new :: "'i implementation_registry" where
  "implementations_new = []"

definition register_implementation ::
  "criteria_env \<Rightarrow> implementation_descriptor \<Rightarrow> 'i \<Rightarrow> 'i implementation_registry \<Rightarrow> 'i implementation_registry result" where
  "register_implementation env d i reg =
     and_then (implementation_dispatch_key env d) (\<lambda>key.
     if bm_contains_key reg key then Inl (registration_error (RegistryKeyTaken key))
     else Inr (bm_insert key \<lparr>ri_descriptor = d, ri_implementation = i\<rparr> reg))"

definition register_loss ::
  "criteria_env \<Rightarrow> loss_reference \<Rightarrow> 'i \<Rightarrow> 'i implementation_registry \<Rightarrow> 'i implementation_registry result" where
  "register_loss env r i reg =
     and_then (loss_reference_validate env r) (\<lambda>_. register_implementation env (lr_implementation r) i reg)"

definition register_metric ::
  "criteria_env \<Rightarrow> metric_reference \<Rightarrow> 'i \<Rightarrow> 'i implementation_registry \<Rightarrow> 'i implementation_registry result" where
  "register_metric env r i reg =
     and_then (metric_reference_validate env r) (\<lambda>_. register_implementation env (mf_implementation r) i reg)"

definition resolve_implementation ::
  "criteria_env \<Rightarrow> 'i implementation_registry \<Rightarrow> implementation_descriptor \<Rightarrow> 'i result" where
  "resolve_implementation env reg d =
     and_then (implementation_dispatch_key env d) (\<lambda>key.
     and_then (ok_or (bm_get reg key) (resolution_error (ImplementationMissing key))) (\<lambda>entry.
     if ri_descriptor entry \<noteq> d then Inl (resolution_error (ImplementationDiffers key))
     else Inr (ri_implementation entry)))"

definition resolve_loss :: "criteria_env \<Rightarrow> 'i implementation_registry \<Rightarrow> loss_reference \<Rightarrow> 'i result" where
  "resolve_loss env reg r =
     and_then (loss_reference_validate env r) (\<lambda>_.
     if semantic_kind (lr_implementation r) \<noteq> LossSemantics then Inl (resolution_error NotALoss)
     else resolve_implementation env reg (lr_implementation r))"

definition resolve_metric :: "criteria_env \<Rightarrow> 'i implementation_registry \<Rightarrow> metric_reference \<Rightarrow> 'i result" where
  "resolve_metric env reg r =
     and_then (metric_reference_validate env r) (\<lambda>_.
     if semantic_kind (mf_implementation r) \<noteq> MetricSemantics then Inl (resolution_error NotAMetric)
     else resolve_implementation env reg (mf_implementation r))"

text \<open>The removed entry's implementation, and the registry without it.\<close>

definition unregister_implementation ::
  "criteria_env \<Rightarrow> implementation_descriptor \<Rightarrow> 'i implementation_registry \<Rightarrow> ('i \<times> 'i implementation_registry) result" where
  "unregister_implementation env d reg =
     and_then (implementation_dispatch_key env d) (\<lambda>key.
     and_then (ok_or (bm_get reg key) (resolution_error (ImplementationMissing key))) (\<lambda>entry.
     if ri_descriptor entry \<noteq> d then Inl (resolution_error (ImplementationDiffers key))
     else and_then (ok_or (bm_get reg key) (Panic (ExpectFailed ''entry checked above''))) (\<lambda>removed.
       Inr (ri_implementation removed, bm_retain (\<lambda>k. k \<noteq> key) reg))))"

definition registered_descriptors :: "'i implementation_registry \<Rightarrow> implementation_descriptor list" where
  "registered_descriptors reg = map (ri_descriptor \<circ> snd) reg"

definition implementations_len :: "'i implementation_registry \<Rightarrow> nat" where
  "implementations_len reg = length reg"

definition implementations_empty :: "'i implementation_registry \<Rightarrow> bool" where
  "implementations_empty reg \<longleftrightarrow> reg = []"

definition implementations_clear :: "'i implementation_registry \<Rightarrow> 'i implementation_registry" where
  "implementations_clear reg = []"

section \<open>The registry as a map from descriptors to implementations\<close>

definition implementations_of ::
  "criteria_env \<Rightarrow> 'i implementation_registry \<Rightarrow> implementation_descriptor \<rightharpoonup> 'i" where
  "implementations_of env reg d =
     (case resolve_implementation env reg d of Inr i \<Rightarrow> Some i | Inl _ \<Rightarrow> None)"

lemma resolve_ok:
  "resolve_implementation env reg d = Inr i \<longleftrightarrow>
     (\<exists>key. implementation_dispatch_key env d = Inr key \<and>
        bm_get reg key = Some \<lparr>ri_descriptor = d, ri_implementation = i\<rparr>)"
proof -
  have one: "(\<exists>e. bm_get reg key = Some e \<and> ri_descriptor e = d \<and> ri_implementation e = i) \<longleftrightarrow>
      bm_get reg key = Some \<lparr>ri_descriptor = d, ri_implementation = i\<rparr>" for key
    by (auto intro: registered.equality)
  show ?thesis unfolding one[symmetric] by (auto simp: resolve_implementation_def and_then_ok split: if_splits)
qed

lemma register_ok:
  "register_implementation env d i reg = Inr reg' \<longleftrightarrow>
     (\<exists>key. implementation_dispatch_key env d = Inr key \<and> bm_get reg key = None \<and>
        reg' = bm_insert key \<lparr>ri_descriptor = d, ri_implementation = i\<rparr> reg)"
  by (auto simp: register_implementation_def and_then_ok bm_contains_key_get split: if_splits)

lemma unregister_ok:
  "unregister_implementation env d reg = Inr (i, reg') \<longleftrightarrow>
     (\<exists>key. implementation_dispatch_key env d = Inr key \<and>
        bm_get reg key = Some \<lparr>ri_descriptor = d, ri_implementation = i\<rparr> \<and> reg' = bm_retain (\<lambda>k. k \<noteq> key) reg)"
proof -
  have one: "(\<exists>e. bm_get reg key = Some e \<and> ri_descriptor e = d \<and> ri_implementation e = i) \<longleftrightarrow>
      bm_get reg key = Some \<lparr>ri_descriptor = d, ri_implementation = i\<rparr>" for key
    by (auto intro: registered.equality)
  show ?thesis unfolding one[symmetric] by (auto simp: unregister_implementation_def and_then_ok split: if_splits)
qed

lemma implementations_of_key:
  "implementation_dispatch_key env e = Inr key \<Longrightarrow> implementations_of env reg e =
     (case bm_get reg key of None \<Rightarrow> None
      | Some r \<Rightarrow> if ri_descriptor r = e then Some (ri_implementation r) else None)"
  by (simp add: implementations_of_def resolve_implementation_def split: option.split)

lemma implementations_of_invalid:
  "implementation_dispatch_key env e = Inl f \<Longrightarrow> implementations_of env reg e = None"
  by (simp add: implementations_of_def resolve_implementation_def)

lemma register_map:
  assumes "register_implementation env d i reg = Inr reg'"
  shows "implementations_of env reg d = None" "implementations_of env reg' = (implementations_of env reg)(d \<mapsto> i)"
proof -
  obtain key where k: "implementation_dispatch_key env d = Inr key" "bm_get reg key = None"
    "reg' = bm_insert key \<lparr>ri_descriptor = d, ri_implementation = i\<rparr> reg"
    using assms by (auto simp: register_ok)
  then show "implementations_of env reg d = None" by (simp add: implementations_of_key)
  show "implementations_of env reg' = (implementations_of env reg)(d \<mapsto> i)"
  proof
    fix e
    show "implementations_of env reg' e = ((implementations_of env reg)(d \<mapsto> i)) e"
      using k by (cases "implementation_dispatch_key env e")
        (auto simp: implementations_of_key implementations_of_invalid)
  qed
qed

lemma unregister_map:
  assumes "unregister_implementation env d reg = Inr (i, reg')"
  shows "implementations_of env reg d = Some i" "implementations_of env reg' = (implementations_of env reg)(d := None)"
proof -
  obtain key where k: "implementation_dispatch_key env d = Inr key"
    "bm_get reg key = Some \<lparr>ri_descriptor = d, ri_implementation = i\<rparr>" "reg' = bm_retain (\<lambda>k. k \<noteq> key) reg"
    using assms by (auto simp: unregister_ok)
  then show "implementations_of env reg d = Some i" by (simp add: implementations_of_key)
  show "implementations_of env reg' = (implementations_of env reg)(d := None)"
  proof
    fix e
    show "implementations_of env reg' e = ((implementations_of env reg)(d := None)) e"
      using k by (cases "implementation_dispatch_key env e")
        (auto simp: implementations_of_key implementations_of_invalid bm_get_retain)
  qed
qed

section \<open>Refinement of the map by the registry\<close>

datatype (plugins only: code size) 'i registry_call =
    CallRegister implementation_descriptor 'i | CallUnregister implementation_descriptor | CallClear

definition registry_step ::
  "criteria_env \<Rightarrow> 'i implementation_registry \<Rightarrow> 'i registry_call \<Rightarrow> 'i implementation_registry result" where
  "registry_step env reg c = (case c of
       CallRegister d i \<Rightarrow> register_implementation env d i reg
     | CallUnregister d \<Rightarrow> and_then (unregister_implementation env d reg) (\<lambda>(_, reg'). Inr reg')
     | CallClear \<Rightarrow> Inr (implementations_clear reg))"

definition map_step :: "(implementation_descriptor \<rightharpoonup> 'i) \<Rightarrow> 'i registry_call \<Rightarrow> (implementation_descriptor \<rightharpoonup> 'i)" where
  "map_step m c = (case c of CallRegister d i \<Rightarrow> m(d \<mapsto> i) | CallUnregister d \<Rightarrow> m(d := None) | CallClear \<Rightarrow> Map.empty)"

lemma implementations_of_Nil [simp]: "implementations_of env [] = Map.empty"
  by (rule ext) (auto simp: implementations_of_def resolve_implementation_def and_then_def ok_or_def split: sum.splits)

lemma registry_step_map:
  "registry_step env reg c = Inr reg' \<Longrightarrow> implementations_of env reg' = map_step (implementations_of env reg) c"
  by (cases c) (auto simp: registry_step_def map_step_def implementations_clear_def and_then_ok register_map
      dest: unregister_map(2))

text \<open>C22: whatever sequence of registrations, removals and clears succeeds on a fresh registry, the
  registry then resolves exactly as the map from whole descriptors to implementations that the same
  calls build: a shared registry key never resolves a descriptor to another's object.\<close>

theorem registry_refines_map:
  "case try_fold (registry_step env) implementations_new calls of
     Inl _ \<Rightarrow> True
   | Inr reg \<Rightarrow> implementations_of env reg = foldl map_step Map.empty calls"
proof -
  have run: "try_fold (registry_step env) reg0 calls = Inr reg \<Longrightarrow>
      implementations_of env reg = foldl map_step (implementations_of env reg0) calls" for reg0 reg
  proof (induction calls arbitrary: reg0)
    case (Cons c calls)
    then obtain reg1 where "registry_step env reg0 c = Inr reg1" "try_fold (registry_step env) reg1 calls = Inr reg"
      by (auto simp: and_then_ok)
    then show ?case using Cons.IH registry_step_map by (metis foldl_Cons)
  qed simp
  show ?thesis using run[of implementations_new] by (simp add: implementations_new_def split: sum.split)
qed

end
