(* ===== verification/CacheRecords.thy ===== *)
theory CacheRecords
  imports KeyedFill ProviderContract
begin

text \<open>
  \<open>bundle.rs\<close> and \<open>aggregation.rs\<close>, the contracts of cached out-of-fold predictions: prediction units and
  aggregated blocks, the requirement of a consumer, the record of a cache and of its blocks, and the
  families of cache formats. Serialised bytes and SHA-256 are the parameters \<open>cache_env\<close>.
\<close>

abbreviation cache_error :: "cache_msg \<Rightarrow> dag_ml_error failure" where
  "cache_error m \<equiv> Err (RuntimeValidation (CacheMsg m))"

section \<open>Units and aggregated blocks\<close>

datatype (plugins only: code size) prediction_unit = SampleUnit sample_id | TargetUnit target_id | GroupUnit group_id

definition unit_level :: "prediction_unit \<Rightarrow> prediction_level" where
  "unit_level u = (case u of SampleUnit _ \<Rightarrow> SampleLevel | TargetUnit _ \<Rightarrow> TargetLevel | GroupUnit _ \<Rightarrow> GroupLevel)"

definition unit_display :: "prediction_unit \<Rightarrow> string" where
  "unit_display u = (case u of
      SampleUnit i \<Rightarrow> ''sample:'' @ as_str i
    | TargetUnit i \<Rightarrow> ''target:'' @ as_str i
    | GroupUnit i \<Rightarrow> ''group:'' @ as_str i)"

text \<open>The derived \<open>Ord\<close>: the variants in order, then the identifier.\<close>

definition unit_rank :: "prediction_unit \<Rightarrow> nat \<times> string" where
  "unit_rank u = (case u of SampleUnit i \<Rightarrow> (0, as_str i) | TargetUnit i \<Rightarrow> (1, as_str i) | GroupUnit i \<Rightarrow> (2, as_str i))"

lemma unit_rank_inj: "unit_rank u = unit_rank v \<Longrightarrow> u = v"
  by (cases u; cases v) (simp_all add: unit_rank_def ident.expand)

instantiation prediction_unit :: linorder
begin

definition less_eq_prediction_unit :: "prediction_unit \<Rightarrow> prediction_unit \<Rightarrow> bool" where
  "less_eq_prediction_unit u v \<longleftrightarrow>
     fst (unit_rank u) < fst (unit_rank v) \<or>
     fst (unit_rank u) = fst (unit_rank v) \<and> snd (unit_rank u) \<le> snd (unit_rank v)"

definition less_prediction_unit :: "prediction_unit \<Rightarrow> prediction_unit \<Rightarrow> bool" where
  "less_prediction_unit u v \<longleftrightarrow>
     fst (unit_rank u) < fst (unit_rank v) \<or>
     fst (unit_rank u) = fst (unit_rank v) \<and> snd (unit_rank u) < snd (unit_rank v)"

instance
proof
  fix u v w :: prediction_unit
  show "u < v \<longleftrightarrow> u \<le> v \<and> \<not> v \<le> u" by (auto simp: less_eq_prediction_unit_def less_prediction_unit_def)
  show "u \<le> u" by (simp add: less_eq_prediction_unit_def)
  show "u \<le> v \<Longrightarrow> v \<le> w \<Longrightarrow> u \<le> w" by (auto simp: less_eq_prediction_unit_def)
  show "u \<le> v \<Longrightarrow> v \<le> u \<Longrightarrow> u = v"
    by (rule unit_rank_inj) (auto simp: less_eq_prediction_unit_def prod_eq_iff)
  show "u \<le> v \<or> v \<le> u" by (auto simp: less_eq_prediction_unit_def)
qed

end

record aggregated_block =
  ab_prediction_id :: "string option"
  ab_producer_node :: node_id
  ab_producer_port :: "string option"
  ab_partition :: prediction_partition
  ab_fold_id :: "fold_id option"
  ab_level :: prediction_level
  ab_unit_ids :: "prediction_unit list"
  ab_values :: "f64 list list"
  ab_target_names :: "string list"

definition aggregated_validate_shape :: "aggregated_block \<Rightarrow> nat result" where
  "aggregated_validate_shape b =
     (let producer = as_str (ab_producer_node b);
          width = (case ab_values b of [] \<Rightarrow> 0 | row # _ \<Rightarrow> length row)
      in if length (ab_unit_ids b) \<noteq> length (ab_values b)
         then oof_err (AggregatedRowCount producer (length (ab_unit_ids b)) (length (ab_values b)))
         else if list_ex (\<lambda>u. unit_level u \<noteq> ab_level b) (ab_unit_ids b) then oof_err (AggregatedOutsideLevel producer)
         else if length (bs_collect (ab_unit_ids b)) \<noteq> length (ab_unit_ids b)
         then oof_err (DuplicateAggregatedUnits producer)
         else if width = 0 then oof_err (EmptyAggregatedRows producer)
         else if list_ex (\<lambda>row. length row \<noteq> width) (ab_values b) then oof_err (RaggedAggregatedRows producer)
         else if list_ex (list_ex (\<lambda>v. \<not> f64_is_finite v)) (ab_values b) then oof_err (NonFiniteAggregated producer)
         else if ab_target_names b \<noteq> [] \<and> length (ab_target_names b) \<noteq> width
         then oof_err (AggregatedTargetCount producer (length (ab_target_names b)) width)
         else Inr width)"

section \<open>Parameters and shared checks\<close>

record cache_env =
  blocks_bytes :: "prediction_block list \<Rightarrow> bytes result"
  block_bytes :: "prediction_block \<Rightarrow> bytes result"
  aggregated_bytes :: "aggregated_block list \<Rightarrow> bytes result"
  aggregated_block_bytes :: "aggregated_block \<Rightarrow> bytes result"
  cache_sha256 :: digest

definition blocks_fingerprint :: "cache_env \<Rightarrow> prediction_block list \<Rightarrow> string result" where
  "blocks_fingerprint env bs = stable_json_fingerprint (blocks_bytes env) (cache_sha256 env) bs"

definition block_fingerprint :: "cache_env \<Rightarrow> prediction_block \<Rightarrow> string result" where
  "block_fingerprint env b = stable_json_fingerprint (block_bytes env) (cache_sha256 env) b"

definition aggregated_fingerprint :: "cache_env \<Rightarrow> aggregated_block list \<Rightarrow> string result" where
  "aggregated_fingerprint env bs = stable_json_fingerprint (aggregated_bytes env) (cache_sha256 env) bs"

definition aggregated_block_fingerprint :: "cache_env \<Rightarrow> aggregated_block \<Rightarrow> string result" where
  "aggregated_block_fingerprint env b = stable_json_fingerprint (aggregated_block_bytes env) (cache_sha256 env) b"

definition is_hex_digest :: "string \<Rightarrow> bool" where
  "is_hex_digest s \<longleftrightarrow> length s = 64 \<and> list_all is_ascii_hexdigit s"

definition cache_fingerprint_check :: "string \<Rightarrow> string \<Rightarrow> unit result" where
  "cache_fingerprint_check label value =
     reject_if (\<not> is_hex_digest value) (cache_error (CacheFingerprintInvalid label))"

definition cache_text_check :: "string \<Rightarrow> string \<Rightarrow> unit result" where
  "cache_text_check label value = reject_if (is_blank value) (cache_error (CacheTextEmpty label))"

definition validate_unique_ids :: "string \<Rightarrow> ('a \<Rightarrow> string) \<Rightarrow> 'a list \<Rightarrow> unit result" where
  "validate_unique_ids label to_string values =
     check_unique (\<lambda>x. x) (\<lambda>x. cache_error (CacheDuplicateId label (to_string x))) values"

definition validate_prediction_units :: "string \<Rightarrow> prediction_level \<Rightarrow> prediction_unit list \<Rightarrow> unit result" where
  "validate_prediction_units label level units = checks [
     validate_unique_ids label unit_display units,
     try_each (\<lambda>u. reject_if (unit_level u \<noteq> level) (cache_error (CacheUnitLevel label (unit_display u)))) units]"

definition validate_prediction_cache_namespace_fingerprints :: "string \<Rightarrow> string list \<Rightarrow> unit result" where
  "validate_prediction_cache_namespace_fingerprints cache_id fps =
     and_then (try_fold (\<lambda>seen fp.
         and_then (cache_fingerprint_check ''prediction cache namespace'' fp) (\<lambda>_.
         if fp \<in> seen then Inl (cache_error (CacheRecordMsg cache_id (CacheNamespaceDuplicate fp)))
         else Inr (insert fp seen))) {} fps) (\<lambda>_. Inr ())"

definition sample_prediction_units :: "sample_id list \<Rightarrow> prediction_unit list" where
  "sample_prediction_units ids = map SampleUnit ids"

section \<open>Formats and schema versions\<close>

definition legacy_cache_format :: string where
  "legacy_cache_format = ''dag-ml-json-prediction-blocks-v1''"

definition cache_format :: string where
  "cache_format = ''dag-ml-json-prediction-blocks-v2''"

definition supported_prediction_cache_format :: "string \<Rightarrow> bool" where
  "supported_prediction_cache_format f \<longleftrightarrow> f = legacy_cache_format \<or> f = cache_format"

definition prediction_cache_schema_version_for_format :: "string \<Rightarrow> string \<Rightarrow> nat result" where
  "prediction_cache_schema_version_for_format f owner =
     (if f = legacy_cache_format then Inr 1 else if f = cache_format then Inr 2
      else Inl (cache_error (UnsupportedFormat owner f)))"

definition expected_prediction_cache_format_for_schema_version :: "nat \<Rightarrow> string \<Rightarrow> string result" where
  "expected_prediction_cache_format_for_schema_version v owner =
     (if v = 1 then Inr legacy_cache_format else if v = 2 then Inr cache_format
      else Inl (cache_error (UnsupportedFamily owner v)))"

definition validate_prediction_cache_format_for_schema_version :: "string \<Rightarrow> nat \<Rightarrow> string \<Rightarrow> unit result" where
  "validate_prediction_cache_format_for_schema_version f v owner =
     and_then (expected_prediction_cache_format_for_schema_version v owner) (\<lambda>expected.
     reject_if (f \<noteq> expected) (cache_error (FormatForVersion owner f v)))"

definition validate_prediction_block_port_family :: "string option \<Rightarrow> nat \<Rightarrow> string \<Rightarrow> unit result" where
  "validate_prediction_block_port_family port v owner = (case port of
       Some p \<Rightarrow> if v = 1 then Inl (cache_error (PortInV1 owner))
         else reject_if (v = 2 \<and> is_blank p) (cache_error (PortEmptyInV2 owner))
     | None \<Rightarrow> reject_if (v = 2) (cache_error (PortMissingInV2 owner)))"

record schema_migration_policy =
  sm_artifact :: string
  sm_current_version :: nat
  sm_min_readable :: nat
  sm_min_writable :: nat
  sm_migrations :: "(nat, nat) btree_map"

abbreviation migration_error :: "migration_msg \<Rightarrow> dag_ml_error failure" where
  "migration_error m \<equiv> cache_error (MigrationMsg m)"

definition migration_check :: "schema_migration_policy \<Rightarrow> nat \<times> nat \<Rightarrow> unit result" where
  "migration_check p = (\<lambda>(v, w). let a = sm_artifact p in checks [
     reject_if (v = 0 \<or> w = 0) (migration_error (MigrationVersionZero a)),
     reject_if (v = w) (migration_error (MigrationNoOp a v)),
     reject_if (sm_current_version p < w) (migration_error (MigrationToFuture a w))])"

definition migration_policy_validate :: "schema_migration_policy \<Rightarrow> unit result" where
  "migration_policy_validate p = (let a = sm_artifact p in checks [
     cache_text_check ''schema migration artifact'' a,
     reject_if (sm_current_version p = 0 \<or> sm_min_readable p = 0 \<or> sm_min_writable p = 0)
       (migration_error (VersionBoundaryZero a)),
     reject_if (sm_current_version p < sm_min_readable p) (migration_error (MinReadableAboveCurrent a)),
     reject_if (sm_current_version p < sm_min_writable p) (migration_error (MinWritableAboveCurrent a)),
     try_each (migration_check p) (sm_migrations p)])"

definition validate_read_version :: "schema_migration_policy \<Rightarrow> nat \<Rightarrow> string \<Rightarrow> unit result" where
  "validate_read_version p v owner = checks [
     migration_policy_validate p,
     reject_if (v < sm_min_readable p) (migration_error (VersionBelowReadable owner v)),
     reject_if (sm_current_version p < v) (migration_error (VersionInFuture owner v)),
     reject_if (v \<noteq> sm_current_version p \<and> \<not> bm_contains_key (sm_migrations p) v) (migration_error (NoMigration owner v))]"

definition execution_bundle_schema_migration_policy :: schema_migration_policy where
  "execution_bundle_schema_migration_policy = \<lparr>sm_artifact = ''execution_bundle'', sm_current_version = 2,
     sm_min_readable = 1, sm_min_writable = 2, sm_migrations = [(1, 2)]\<rparr>"

definition prediction_cache_payload_schema_migration_policy :: schema_migration_policy where
  "prediction_cache_payload_schema_migration_policy = \<lparr>sm_artifact = ''prediction_cache_payload'', sm_current_version = 2,
     sm_min_readable = 1, sm_min_writable = 2, sm_migrations = [(1, 2)]\<rparr>"

section \<open>Requirements\<close>

record prediction_requirement =
  pq_producer_node :: node_id
  pq_source_port :: string
  pq_consumer_node :: node_id
  pq_target_port :: string
  pq_partition :: prediction_partition
  pq_level :: prediction_level
  pq_fold_ids :: "fold_id list"
  pq_unit_ids :: "prediction_unit list"
  pq_sample_ids :: "sample_id list"
  pq_width :: nat
  pq_target_names :: "string list"

definition bundle_prediction_requirement_key :: "node_id \<Rightarrow> string \<Rightarrow> node_id \<Rightarrow> string \<Rightarrow> string" where
  "bundle_prediction_requirement_key producer source consumer target =
     as_str producer @ ''.'' @ source @ ''->'' @ as_str consumer @ ''.'' @ target"

definition requirement_key :: "prediction_requirement \<Rightarrow> string" where
  "requirement_key q =
     bundle_prediction_requirement_key (pq_producer_node q) (pq_source_port q) (pq_consumer_node q) (pq_target_port q)"

abbreviation requirement_error :: "(string \<Rightarrow> requirement_msg) \<Rightarrow> prediction_requirement \<Rightarrow> dag_ml_error failure" where
  "requirement_error m q \<equiv> cache_error (RequirementMsg (m (requirement_key q)))"

definition validate_prediction_requirement_units :: "prediction_requirement \<Rightarrow> unit result" where
  "validate_prediction_requirement_units q = (case pq_level q of
       ObservationLevel \<Rightarrow> Inl (requirement_error RequirementObservations q)
     | SampleLevel \<Rightarrow> checks [
         validate_unique_ids ''sample id'' as_str (pq_sample_ids q),
         reject_if (pq_sample_ids q = []) (requirement_error RequirementNoSamples q),
         reject_if (pq_unit_ids q \<noteq> [] \<and> pq_unit_ids q \<noteq> sample_prediction_units (pq_sample_ids q))
           (requirement_error RequirementSampleUnits q)]
     | _ \<Rightarrow> checks [
         reject_if (pq_sample_ids q \<noteq> []) (requirement_error RequirementCarriesSamples q),
         validate_prediction_units ''bundle prediction requirement unit'' (pq_level q) (pq_unit_ids q),
         reject_if (pq_unit_ids q = []) (requirement_error RequirementNoUnits q)])"

definition requirement_validate :: "prediction_requirement \<Rightarrow> unit result" where
  "requirement_validate q = checks [
     cache_text_check ''source_port'' (pq_source_port q),
     cache_text_check ''target_port'' (pq_target_port q),
     reject_if (pq_partition q \<noteq> Validation) (requirement_error RequirementPartition q),
     validate_unique_ids ''fold id'' as_str (pq_fold_ids q),
     validate_prediction_requirement_units q,
     reject_if (pq_width q = 0) (requirement_error RequirementWidthZero q),
     reject_if (length (pq_target_names q) \<noteq> pq_width q) (requirement_error RequirementTargetCount q),
     try_each (cache_text_check ''target_name'') (pq_target_names q)]"

section \<open>Records\<close>

record block_record =
  br_prediction_id :: "string option"
  br_fold_id :: "fold_id option"
  br_level :: prediction_level
  br_row_count :: nat
  br_unit_ids :: "prediction_unit list"
  br_sample_ids :: "sample_id list"
  br_fingerprint :: string

abbreviation block_record_error :: "block_record_msg \<Rightarrow> dag_ml_error failure" where
  "block_record_error m \<equiv> cache_error (BlockRecordMsg m)"

definition validate_prediction_cache_block_record_units :: "block_record \<Rightarrow> unit result" where
  "validate_prediction_cache_block_record_units b = (case br_level b of
       ObservationLevel \<Rightarrow> Inl (block_record_error BlockObservations)
     | SampleLevel \<Rightarrow> checks [
         validate_unique_ids ''sample id'' as_str (br_sample_ids b),
         reject_if (br_row_count b \<noteq> length (br_sample_ids b))
           (block_record_error (BlockSampleCount (br_row_count b) (length (br_sample_ids b)))),
         reject_if (br_unit_ids b \<noteq> [] \<and> br_unit_ids b \<noteq> sample_prediction_units (br_sample_ids b))
           (block_record_error BlockSampleUnits)]
     | _ \<Rightarrow> checks [
         reject_if (br_sample_ids b \<noteq> []) (block_record_error BlockCarriesSamples),
         validate_prediction_units ''prediction block cache record unit'' (br_level b) (br_unit_ids b),
         reject_if (br_row_count b \<noteq> length (br_unit_ids b))
           (block_record_error (BlockUnitCount (br_row_count b) (length (br_unit_ids b))))])"

definition block_record_validate :: "block_record \<Rightarrow> unit result" where
  "block_record_validate b = checks [
     check_option (cache_text_check ''prediction_id'') (br_prediction_id b),
     reject_if (br_row_count b = 0) (block_record_error BlockRowsZero),
     validate_prediction_cache_block_record_units b,
     cache_fingerprint_check ''prediction block cache content'' (br_fingerprint b)]"

record cache_record =
  cr_requirement_key :: string
  cr_cache_id :: string
  cr_namespaces :: "string list"
  cr_format :: string
  cr_partition :: prediction_partition
  cr_level :: prediction_level
  cr_fold_ids :: "fold_id list"
  cr_unit_ids :: "prediction_unit list"
  cr_sample_ids :: "sample_id list"
  cr_width :: nat
  cr_target_names :: "string list"
  cr_block_count :: nat
  cr_row_count :: nat
  cr_fingerprint :: string
  cr_blocks :: "block_record list"

abbreviation record_error :: "cache_record_msg \<Rightarrow> cache_record \<Rightarrow> dag_ml_error failure" where
  "record_error m c \<equiv> cache_error (CacheRecordMsg (cr_cache_id c) m)"

definition validate_prediction_cache_record_units :: "cache_record \<Rightarrow> unit result" where
  "validate_prediction_cache_record_units c = (case cr_level c of
       ObservationLevel \<Rightarrow> Inl (record_error CacheObservations c)
     | SampleLevel \<Rightarrow> checks [
         validate_unique_ids ''sample id'' as_str (cr_sample_ids c),
         reject_if (cr_row_count c < length (cr_sample_ids c)) (record_error CacheRowsBelowSamples c),
         reject_if (cr_unit_ids c \<noteq> [] \<and> cr_unit_ids c \<noteq> sample_prediction_units (cr_sample_ids c))
           (record_error CacheSampleUnits c)]
     | _ \<Rightarrow> checks [
         reject_if (cr_sample_ids c \<noteq> []) (record_error CacheCarriesSamples c),
         validate_prediction_units ''prediction cache unit'' (cr_level c) (cr_unit_ids c),
         reject_if (cr_row_count c < length (cr_unit_ids c)) (record_error CacheRowsBelowUnits c)])"

text \<open>The rows of one block, each new in its fold: the rows seen so far, and their folds.\<close>

type_synonym 'a cover = "'a set \<times> (fold_id option \<times> 'a) set"

definition cover_row :: "('a \<Rightarrow> dag_ml_error failure) \<Rightarrow> fold_id option \<Rightarrow> 'a cover \<Rightarrow> 'a \<Rightarrow> 'a cover result" where
  "cover_row e fid = (\<lambda>(seen, fold_rows) x.
     if (fid, x) \<in> fold_rows then Inl (e x) else Inr (insert x seen, insert (fid, x) fold_rows))"

definition record_block_step ::
  "cache_record \<Rightarrow> nat \<times> sample_id cover \<times> prediction_unit cover \<Rightarrow> block_record \<Rightarrow>
   (nat \<times> sample_id cover \<times> prediction_unit cover) result" where
  "record_block_step c = (\<lambda>(row_count, samples, units) b.
     and_then (block_record_validate b) (\<lambda>_.
     if br_level b \<noteq> cr_level c then Inl (record_error CacheMixesLevels c)
     else case cr_level c of
       SampleLevel \<Rightarrow>
         and_then (try_fold (cover_row (\<lambda>s. record_error (CacheDuplicateSample (as_str s)) c) (br_fold_id b))
             samples (br_sample_ids b)) (\<lambda>samples.
         Inr (row_count + br_row_count b, samples, units))
     | ObservationLevel \<Rightarrow> Inl (Panic (AssertFailed ''record unit validation rejects observation''))
     | _ \<Rightarrow>
         and_then (try_fold (cover_row (\<lambda>u. record_error (CacheDuplicateUnit (unit_display u)) c) (br_fold_id b))
             units (br_unit_ids b)) (\<lambda>units.
         Inr (row_count + br_row_count b, samples, units))))"

definition validate_prediction_cache_record_blocks :: "cache_record \<Rightarrow> unit result" where
  "validate_prediction_cache_record_blocks c =
     and_then (try_fold (record_block_step c) (0, ({}, {}), ({}, {})) (cr_blocks c)) (\<lambda>(row_count, samples, units).
     checks [
       reject_if (cr_row_count c = 0 \<or> cr_row_count c \<noteq> row_count) (record_error CacheRowCount c),
       if cr_level c = SampleLevel
       then reject_if (fst samples \<noteq> set (cr_sample_ids c)) (record_error CacheBlockSamples c)
       else reject_if (fst units \<noteq> set (cr_unit_ids c)) (record_error CacheBlockUnits c)])"

definition cache_record_validate :: "cache_record \<Rightarrow> unit result" where
  "cache_record_validate c = checks [
     cache_text_check ''requirement_key'' (cr_requirement_key c),
     cache_text_check ''cache_id'' (cr_cache_id c),
     validate_prediction_cache_namespace_fingerprints (cr_cache_id c) (cr_namespaces c),
     cache_text_check ''format'' (cr_format c),
     reject_if (\<not> supported_prediction_cache_format (cr_format c)) (record_error (CacheFormat (cr_format c)) c),
     reject_if (cr_partition c \<noteq> Validation) (record_error CachePartition c),
     validate_unique_ids ''fold id'' as_str (cr_fold_ids c),
     validate_prediction_cache_record_units c,
     reject_if (cr_width c = 0) (record_error CacheWidthZero c),
     reject_if (length (cr_target_names c) \<noteq> cr_width c) (record_error CacheTargetCount c),
     try_each (cache_text_check ''target_name'') (cr_target_names c),
     reject_if (cr_block_count c = 0 \<or> cr_block_count c \<noteq> length (cr_blocks c)) (record_error CacheBlockCount c),
     reject_if (cr_namespaces c \<noteq> [] \<and> length (cr_namespaces c) \<noteq> cr_block_count c)
       (record_error CacheNamespaceCount c),
     validate_prediction_cache_record_blocks c,
     cache_fingerprint_check ''prediction cache content'' (cr_fingerprint c)]"

end
