(* ===== verification/CachePayloads.thy ===== *)
theory CachePayloads
  imports CacheRecords
begin

text \<open>
  \<open>bundle.rs\<close>, cache payloads: their validation and that of a payload set, the agreement of a payload
  with the record a bundle keeps, and the builders that select the blocks of a requirement.
\<close>

section \<open>Payloads\<close>

record cache_payload =
  pp_requirement_key :: string
  pp_cache_id :: string
  pp_namespaces :: "string list"
  pp_format :: string
  pp_partition :: prediction_partition
  pp_level :: prediction_level
  pp_block_count :: nat
  pp_row_count :: nat
  pp_fingerprint :: string
  pp_blocks :: "prediction_block list"
  pp_aggregated :: "aggregated_block list"

abbreviation payload_error :: "payload_msg \<Rightarrow> cache_payload \<Rightarrow> dag_ml_error failure" where
  "payload_error m p \<equiv> cache_error (PayloadMsg (pp_cache_id p) m)"

definition fold_row ::
  "('a \<Rightarrow> dag_ml_error failure) \<Rightarrow> fold_id option \<Rightarrow> (fold_id option \<times> 'a) set \<Rightarrow> 'a \<Rightarrow> (fold_id option \<times> 'a) set result" where
  "fold_row e fid fold_rows x = (if (fid, x) \<in> fold_rows then Inl (e x) else Inr (insert (fid, x) fold_rows))"

definition sample_block_step ::
  "cache_payload \<Rightarrow> nat \<times> (fold_id option \<times> sample_id) set \<Rightarrow> prediction_block \<Rightarrow>
   (nat \<times> (fold_id option \<times> sample_id) set) result" where
  "sample_block_step p = (\<lambda>(row_count, fold_samples) b.
     and_then (validate_shape b) (\<lambda>_.
     if pb_partition b \<noteq> pp_partition p then Inl (payload_error PayloadBlockPartition p)
     else and_then (try_fold (fold_row (\<lambda>s. payload_error (PayloadDuplicateSample (as_str s)) p) (pb_fold_id b))
         fold_samples (pb_sample_ids b)) (\<lambda>fold_samples.
       Inr (row_count + length (pb_sample_ids b), fold_samples))))"

definition validate_sample_prediction_cache_payload_blocks :: "cache_payload \<Rightarrow> nat result" where
  "validate_sample_prediction_cache_payload_blocks p =
     and_then (try_fold (sample_block_step p) (0, {}) (pp_blocks p)) (\<lambda>(row_count, _). Inr row_count)"

definition aggregated_block_step ::
  "cache_payload \<Rightarrow> nat \<times> (fold_id option \<times> prediction_unit) set \<Rightarrow> aggregated_block \<Rightarrow>
   (nat \<times> (fold_id option \<times> prediction_unit) set) result" where
  "aggregated_block_step p = (\<lambda>(row_count, fold_units) b.
     and_then (aggregated_validate_shape b) (\<lambda>_.
     if ab_partition b \<noteq> pp_partition p then Inl (payload_error PayloadAggregatedPartition p)
     else if ab_level b \<noteq> pp_level p then Inl (payload_error PayloadBlockLevel p)
     else and_then (try_fold (fold_row (\<lambda>u. payload_error (PayloadDuplicateUnit (unit_display u)) p) (ab_fold_id b))
         fold_units (ab_unit_ids b)) (\<lambda>fold_units.
       Inr (row_count + length (ab_unit_ids b), fold_units))))"

definition validate_aggregated_prediction_cache_payload_blocks :: "cache_payload \<Rightarrow> nat result" where
  "validate_aggregated_prediction_cache_payload_blocks p =
     and_then (try_fold (aggregated_block_step p) (0, {}) (pp_aggregated p)) (\<lambda>(row_count, _). Inr row_count)"

definition validate_prediction_cache_payload_blocks :: "cache_payload \<Rightarrow> nat result" where
  "validate_prediction_cache_payload_blocks p = (case pp_level p of
       ObservationLevel \<Rightarrow> Inl (payload_error PayloadObservations p)
     | SampleLevel \<Rightarrow> validate_sample_prediction_cache_payload_blocks p
     | _ \<Rightarrow> validate_aggregated_prediction_cache_payload_blocks p)"

definition validate_prediction_cache_payload_block_family :: "cache_payload \<Rightarrow> nat \<Rightarrow> unit result" where
  "validate_prediction_cache_payload_block_family p v = checks [
     try_each (\<lambda>b. validate_prediction_block_port_family (prediction_block.producer_port b) v (pp_cache_id p)) (pp_blocks p),
     try_each (\<lambda>b. validate_prediction_block_port_family (ab_producer_port b) v (pp_cache_id p)) (pp_aggregated p)]"

definition payload_block_count :: "cache_payload \<Rightarrow> nat result" where
  "payload_block_count p =
     (if pp_level p = SampleLevel
      then if pp_aggregated p \<noteq> [] then Inl (payload_error PayloadMixesAggregated p) else Inr (length (pp_blocks p))
      else if pp_blocks p \<noteq> [] then Inl (payload_error PayloadMixesSamples p) else Inr (length (pp_aggregated p)))"

definition payload_actual_fingerprint :: "cache_env \<Rightarrow> cache_payload \<Rightarrow> string result" where
  "payload_actual_fingerprint env p =
     (if pp_level p = SampleLevel then blocks_fingerprint env (pp_blocks p)
      else aggregated_fingerprint env (pp_aggregated p))"

definition payload_validate :: "cache_env \<Rightarrow> cache_payload \<Rightarrow> unit result" where
  "payload_validate env p = checks [
     cache_text_check ''requirement_key'' (pp_requirement_key p),
     cache_text_check ''cache_id'' (pp_cache_id p),
     validate_prediction_cache_namespace_fingerprints (pp_cache_id p) (pp_namespaces p),
     cache_text_check ''format'' (pp_format p),
     reject_if (\<not> supported_prediction_cache_format (pp_format p)) (payload_error (PayloadFormat (pp_format p)) p),
     and_then (prediction_cache_schema_version_for_format (pp_format p) (pp_cache_id p)) (\<lambda>version. checks [
       reject_if (pp_partition p \<noteq> Validation) (payload_error PayloadPartition p),
       and_then (payload_block_count p) (\<lambda>expected.
         reject_if (pp_block_count p = 0 \<or> pp_block_count p \<noteq> expected) (payload_error PayloadBlockCount p)),
       reject_if (pp_namespaces p \<noteq> [] \<and> length (pp_namespaces p) \<noteq> pp_block_count p)
         (payload_error PayloadNamespaceCount p),
       and_then (validate_prediction_cache_payload_blocks p) (\<lambda>row_count.
         reject_if (pp_row_count p = 0 \<or> pp_row_count p \<noteq> row_count) (payload_error PayloadRowCount p)),
       validate_prediction_cache_payload_block_family p version]),
     cache_fingerprint_check ''prediction cache payload content'' (pp_fingerprint p),
     and_then (payload_actual_fingerprint env p) (\<lambda>actual.
       reject_if (actual \<noteq> pp_fingerprint p) (payload_error PayloadFingerprintDiffers p))]"

section \<open>Payload and record\<close>

definition sample_block_record :: "cache_env \<Rightarrow> prediction_block \<Rightarrow> block_record result" where
  "sample_block_record env b =
     and_then (block_fingerprint env b) (\<lambda>fp.
     Inr \<lparr>br_prediction_id = prediction_id b, br_fold_id = pb_fold_id b, br_level = SampleLevel,
       br_row_count = length (pb_sample_ids b), br_unit_ids = [], br_sample_ids = pb_sample_ids b,
       br_fingerprint = fp\<rparr>)"

definition aggregated_block_record :: "cache_env \<Rightarrow> aggregated_block \<Rightarrow> block_record result" where
  "aggregated_block_record env b =
     and_then (aggregated_block_fingerprint env b) (\<lambda>fp.
     Inr \<lparr>br_prediction_id = ab_prediction_id b, br_fold_id = ab_fold_id b, br_level = ab_level b,
       br_row_count = length (ab_unit_ids b), br_unit_ids = ab_unit_ids b, br_sample_ids = [],
       br_fingerprint = fp\<rparr>)"

definition payload_header_matches :: "cache_payload \<Rightarrow> cache_record \<Rightarrow> bool" where
  "payload_header_matches p c \<longleftrightarrow>
     pp_requirement_key p = cr_requirement_key c \<and> pp_cache_id p = cr_cache_id c \<and>
     pp_namespaces p = cr_namespaces c \<and> pp_format p = cr_format c \<and> pp_partition p = cr_partition c \<and>
     pp_level p = cr_level c \<and> pp_block_count p = cr_block_count c \<and> pp_row_count p = cr_row_count c \<and>
     pp_fingerprint p = cr_fingerprint c"

definition payload_block_records :: "cache_env \<Rightarrow> cache_payload \<Rightarrow> block_record list result" where
  "payload_block_records env p =
     (if pp_level p = SampleLevel then try_map (sample_block_record env) (pp_blocks p)
      else try_map (aggregated_block_record env) (pp_aggregated p))"

definition validate_prediction_cache_payload_matches_record :: "cache_env \<Rightarrow> cache_payload \<Rightarrow> cache_record \<Rightarrow> unit result" where
  "validate_prediction_cache_payload_matches_record env p c = checks [
     payload_validate env p,
     cache_record_validate c,
     reject_if (\<not> payload_header_matches p c) (payload_error (PayloadRecordDiffers (cr_cache_id c)) p),
     and_then (payload_block_records env p) (\<lambda>records.
       reject_if (records \<noteq> cr_blocks c) (payload_error PayloadBlockFingerprints p))]"

section \<open>Payload sets\<close>

datatype (plugins only: code size) bundle_k = BundleK

type_synonym bundle_id = "bundle_k ident"

record payload_set =
  ps_bundle_id :: bundle_id
  ps_schema_version :: nat
  ps_caches :: "cache_payload list"

abbreviation set_error :: "payload_set_msg \<Rightarrow> payload_set \<Rightarrow> dag_ml_error failure" where
  "set_error m s \<equiv> cache_error (PayloadSetMsg (as_str (ps_bundle_id s)) m)"

definition payload_set_step ::
  "cache_env \<Rightarrow> payload_set \<Rightarrow> string set \<times> string set \<Rightarrow> cache_payload \<Rightarrow> (string set \<times> string set) result" where
  "payload_set_step env s = (\<lambda>(keys, ids) p.
     and_then (payload_validate env p) (\<lambda>_.
     and_then (validate_prediction_cache_format_for_schema_version (pp_format p) (ps_schema_version s) (pp_cache_id p)) (\<lambda>_.
     and_then (validate_prediction_cache_payload_block_family p (ps_schema_version s)) (\<lambda>_.
     if pp_requirement_key p \<in> keys then Inl (set_error (SetDuplicateRequirement (pp_requirement_key p)) s)
     else if pp_cache_id p \<in> ids then Inl (set_error (SetDuplicateCache (pp_cache_id p)) s)
     else Inr (insert (pp_requirement_key p) keys, insert (pp_cache_id p) ids)))))"

definition payload_set_validate :: "cache_env \<Rightarrow> payload_set \<Rightarrow> unit result" where
  "payload_set_validate env s = checks [
     validate_read_version prediction_cache_payload_schema_migration_policy (ps_schema_version s)
       (as_str (ps_bundle_id s)),
     and_then (try_fold (payload_set_step env s) ({}, {}) (ps_caches s)) (\<lambda>_. Inr ())]"

section \<open>Building a cache\<close>

abbreviation build_error :: "(string \<Rightarrow> cache_build_msg) \<Rightarrow> prediction_requirement \<Rightarrow> dag_ml_error failure" where
  "build_error m q \<equiv> cache_error (CacheBuildMsg (m (requirement_key q)))"

text \<open>\<open>Option<String>\<close> orders \<open>None\<close> first; the sort key of a block is its fold, then its prediction id.\<close>

definition option_cmp :: "string option \<Rightarrow> string option \<Rightarrow> ordering" where
  "option_cmp x y = (case (x, y) of
      (None, None) \<Rightarrow> Equal | (None, Some _) \<Rightarrow> Less | (Some _, None) \<Rightarrow> Greater | (Some s, Some t) \<Rightarrow> ord_cmp s t)"

definition cache_key_cmp ::
  "fold_id option \<times> string option \<Rightarrow> fold_id option \<times> string option \<Rightarrow> ordering" where
  "cache_key_cmp = (\<lambda>(f, p) (g, q).
     then_with (option_cmp (map_option as_str f) (map_option as_str g)) (option_cmp p q))"

definition block_in_scope :: "prediction_requirement \<Rightarrow> prediction_block \<Rightarrow> bool" where
  "block_in_scope q b \<longleftrightarrow> prediction_block.producer_node b = pq_producer_node q \<and> pb_partition b = pq_partition q \<and>
     option_ex (\<lambda>f. f \<in> set (pq_fold_ids q)) (pb_fold_id b)"

text \<open>A block without a port is taken when no block of the requirement's scope names another port.\<close>

definition port_selected :: "bool \<Rightarrow> prediction_requirement \<Rightarrow> string option \<Rightarrow> bool" where
  "port_selected unambiguous q port \<longleftrightarrow> port = Some (pq_source_port q) \<or> port = None \<and> unambiguous"

definition absent_port_is_unambiguous :: "prediction_requirement \<Rightarrow> string option list \<Rightarrow> bool" where
  "absent_port_is_unambiguous q ports \<longleftrightarrow> list_all (\<lambda>port. port = None \<or> port = Some (pq_source_port q)) ports"

definition select_prediction_cache_blocks ::
  "prediction_requirement \<Rightarrow> prediction_block list \<Rightarrow> prediction_block list result" where
  "select_prediction_cache_blocks q blocks =
     and_then (requirement_validate q) (\<lambda>_.
     let unambiguous = absent_port_is_unambiguous q (map prediction_block.producer_port (filter (block_in_scope q) blocks));
         selected = filter (\<lambda>b. block_in_scope q b \<and> port_selected unambiguous q (prediction_block.producer_port b)) blocks
     in if selected = [] then Inl (build_error NoMatchingBlocks q)
        else Inr (sort_by (\<lambda>l r. cache_key_cmp (pb_fold_id l, prediction_id l) (pb_fold_id r, prediction_id r)) selected))"

definition aggregated_in_scope :: "prediction_requirement \<Rightarrow> aggregated_block \<Rightarrow> bool" where
  "aggregated_in_scope q b \<longleftrightarrow> ab_producer_node b = pq_producer_node q \<and> ab_partition b = pq_partition q \<and>
     ab_level b = pq_level q \<and> option_ex (\<lambda>f. f \<in> set (pq_fold_ids q)) (ab_fold_id b)"

definition select_aggregated_prediction_cache_blocks ::
  "prediction_requirement \<Rightarrow> aggregated_block list \<Rightarrow> aggregated_block list result" where
  "select_aggregated_prediction_cache_blocks q blocks =
     and_then (requirement_validate q) (\<lambda>_.
     if pq_level q = SampleLevel then Inl (build_error AggregatedLevelRequired q)
     else let unambiguous = absent_port_is_unambiguous q (map ab_producer_port (filter (aggregated_in_scope q) blocks));
         selected = filter (\<lambda>b. aggregated_in_scope q b \<and> port_selected unambiguous q (ab_producer_port b)) blocks
     in if selected = [] then Inl (build_error NoMatchingBlocks q)
        else Inr (sort_by (\<lambda>l r. cache_key_cmp (ab_fold_id l, ab_prediction_id l) (ab_fold_id r, ab_prediction_id r)) selected))"

definition normalized_prediction_targets :: "string list \<Rightarrow> nat \<Rightarrow> string list" where
  "normalized_prediction_targets names width =
     (if names = [] then map (\<lambda>i. ''p'' @ show_nat i) [0..<width] else names)"

text \<open>What the loops over the selected blocks collect: the width and target names of the blocks so far,
  the folds, the rows and the block records.\<close>

record 'u gathered =
  ga_folds :: "fold_id list"
  ga_ids :: "'u list"
  ga_targets :: "string list option"
  ga_width :: "nat option"
  ga_rows :: nat
  ga_records :: "block_record list"

definition gathered_empty :: "'u gathered" where
  "gathered_empty = \<lparr>ga_folds = [], ga_ids = [], ga_targets = None, ga_width = None, ga_rows = 0, ga_records = []\<rparr>"

definition gather_row ::
  "prediction_requirement \<Rightarrow> 'u gathered \<Rightarrow> nat \<Rightarrow> string list \<Rightarrow> fold_id option \<Rightarrow> 'u list \<Rightarrow> block_record result \<Rightarrow> 'u gathered result" where
  "gather_row q g width names fid ids rec =
     (if option_ex (\<lambda>w. w \<noteq> width) (ga_width g) then Inl (build_error WidthInconsistent q)
      else let targets = normalized_prediction_targets names width in
      if option_ex (\<lambda>t. t \<noteq> targets) (ga_targets g) then Inl (build_error TargetsInconsistent q)
      else and_then rec (\<lambda>r.
        Inr \<lparr>ga_folds = ga_folds g @ (case fid of None \<Rightarrow> [] | Some f \<Rightarrow> [f]), ga_ids = ga_ids g @ ids,
          ga_targets = Some targets, ga_width = Some width, ga_rows = ga_rows g + length ids,
          ga_records = ga_records g @ [r]\<rparr>))"

definition gather_block :: "cache_env \<Rightarrow> prediction_requirement \<Rightarrow> sample_id gathered \<Rightarrow> prediction_block \<Rightarrow> sample_id gathered result" where
  "gather_block env q g b =
     (if prediction_block.producer_node b \<noteq> pq_producer_node q \<or> pb_partition b \<noteq> pq_partition q then Inl (build_error BlockOutsideScope q)
      else and_then (validate_shape b) (\<lambda>width.
        gather_row q g width (target_names b) (pb_fold_id b) (pb_sample_ids b) (sample_block_record env b)))"

definition gather_aggregated ::
  "cache_env \<Rightarrow> prediction_requirement \<Rightarrow> prediction_unit gathered \<Rightarrow> aggregated_block \<Rightarrow> prediction_unit gathered result" where
  "gather_aggregated env q g b =
     (if ab_producer_node b \<noteq> pq_producer_node q \<or> ab_partition b \<noteq> pq_partition q \<or> ab_level b \<noteq> pq_level q
      then Inl (build_error BlockOutsideScope q)
      else and_then (aggregated_validate_shape b) (\<lambda>width.
        gather_row q g width (ab_target_names b) (ab_fold_id b) (ab_unit_ids b) (aggregated_block_record env b)))"

definition validate_prediction_cache_matches_requirement :: "cache_record \<Rightarrow> prediction_requirement \<Rightarrow> unit result" where
  "validate_prediction_cache_matches_requirement c q =
     reject_if (cr_requirement_key c \<noteq> requirement_key q \<or> cr_partition c \<noteq> pq_partition q \<or>
         cr_level c \<noteq> pq_level q \<or> cr_fold_ids c \<noteq> pq_fold_ids q \<or> cr_unit_ids c \<noteq> pq_unit_ids q \<or>
         cr_sample_ids c \<noteq> pq_sample_ids q \<or> cr_width c \<noteq> pq_width q \<or> cr_target_names c \<noteq> pq_target_names q)
       (build_error (CacheRequirementDiffers (cr_cache_id c)) q)"

definition cache_id_of :: "prediction_requirement \<Rightarrow> string" where
  "cache_id_of q = ''prediction-cache:'' @ requirement_key q"

definition record_of ::
  "prediction_requirement \<Rightarrow> 'u gathered \<Rightarrow> prediction_unit list \<Rightarrow> sample_id list \<Rightarrow> string \<Rightarrow> cache_record" where
  "record_of q g units samples fp =
     \<lparr>cr_requirement_key = requirement_key q, cr_cache_id = cache_id_of q, cr_namespaces = [],
      cr_format = cache_format, cr_partition = pq_partition q, cr_level = pq_level q,
      cr_fold_ids = bs_collect (ga_folds g), cr_unit_ids = units, cr_sample_ids = samples,
      cr_width = unwrap_or (ga_width g) 0, cr_target_names = unwrap_or (ga_targets g) [],
      cr_block_count = length (ga_records g), cr_row_count = ga_rows g, cr_fingerprint = fp,
      cr_blocks = ga_records g\<rparr>"

definition checked_record :: "prediction_requirement \<Rightarrow> cache_record \<Rightarrow> cache_record result" where
  "checked_record q c =
     and_then (validate_prediction_cache_matches_requirement c q) (\<lambda>_.
     and_then (cache_record_validate c) (\<lambda>_. Inr c))"

definition build_prediction_cache_record_from_selected ::
  "cache_env \<Rightarrow> prediction_requirement \<Rightarrow> prediction_block list \<Rightarrow> cache_record result" where
  "build_prediction_cache_record_from_selected env q selected =
     and_then (requirement_validate q) (\<lambda>_.
     if selected = [] then Inl (build_error NoMatchingBlocks q)
     else and_then (try_fold (gather_block env q) gathered_empty selected) (\<lambda>g.
       and_then (blocks_fingerprint env selected) (\<lambda>fp.
       checked_record q (record_of q g (pq_unit_ids q) (bs_collect (ga_ids g)) fp))))"

definition build_aggregated_prediction_cache_record_from_selected ::
  "cache_env \<Rightarrow> prediction_requirement \<Rightarrow> aggregated_block list \<Rightarrow> cache_record result" where
  "build_aggregated_prediction_cache_record_from_selected env q selected =
     and_then (requirement_validate q) (\<lambda>_.
     if pq_level q = SampleLevel then Inl (build_error AggregatedLevelRequired q)
     else if selected = [] then Inl (build_error NoMatchingBlocks q)
     else and_then (try_fold (gather_aggregated env q) gathered_empty selected) (\<lambda>g.
       and_then (aggregated_fingerprint env selected) (\<lambda>fp.
       checked_record q (record_of q g (bs_collect (ga_ids g)) [] fp))))"

definition build_prediction_cache_record ::
  "cache_env \<Rightarrow> prediction_requirement \<Rightarrow> prediction_block list \<Rightarrow> cache_record result" where
  "build_prediction_cache_record env q blocks =
     and_then (select_prediction_cache_blocks q blocks) (build_prediction_cache_record_from_selected env q)"

definition build_aggregated_prediction_cache_record ::
  "cache_env \<Rightarrow> prediction_requirement \<Rightarrow> aggregated_block list \<Rightarrow> cache_record result" where
  "build_aggregated_prediction_cache_record env q blocks =
     and_then (select_aggregated_prediction_cache_blocks q blocks)
       (build_aggregated_prediction_cache_record_from_selected env q)"

definition payload_of ::
  "prediction_requirement \<Rightarrow> nat \<Rightarrow> nat \<Rightarrow> string \<Rightarrow> prediction_block list \<Rightarrow> aggregated_block list \<Rightarrow> cache_payload" where
  "payload_of q block_count row_count fp blocks aggregated =
     \<lparr>pp_requirement_key = requirement_key q, pp_cache_id = cache_id_of q, pp_namespaces = [],
      pp_format = cache_format, pp_partition = pq_partition q, pp_level = pq_level q,
      pp_block_count = block_count, pp_row_count = row_count, pp_fingerprint = fp,
      pp_blocks = blocks, pp_aggregated = aggregated\<rparr>"

definition build_prediction_cache_payload ::
  "cache_env \<Rightarrow> prediction_requirement \<Rightarrow> prediction_block list \<Rightarrow> cache_payload result" where
  "build_prediction_cache_payload env q blocks =
     and_then (select_prediction_cache_blocks q blocks) (\<lambda>selected.
     and_then (blocks_fingerprint env selected) (\<lambda>fp.
     let p = payload_of q (length selected) (sum_list (map (length \<circ> pb_sample_ids) selected)) fp selected [] in
     and_then (payload_validate env p) (\<lambda>_.
     and_then (build_prediction_cache_record env q (pp_blocks p)) (\<lambda>r.
     and_then (validate_prediction_cache_payload_matches_record env p r) (\<lambda>_. Inr p)))))"

definition build_aggregated_prediction_cache_payload ::
  "cache_env \<Rightarrow> prediction_requirement \<Rightarrow> aggregated_block list \<Rightarrow> cache_payload result" where
  "build_aggregated_prediction_cache_payload env q blocks =
     and_then (select_aggregated_prediction_cache_blocks q blocks) (\<lambda>selected.
     and_then (aggregated_fingerprint env selected) (\<lambda>fp.
     let p = payload_of q (length selected) (sum_list (map (length \<circ> ab_unit_ids) selected)) fp [] selected in
     and_then (payload_validate env p) (\<lambda>_.
     and_then (build_aggregated_prediction_cache_record env q (pp_aggregated p)) (\<lambda>r.
     and_then (validate_prediction_cache_payload_matches_record env p r) (\<lambda>_. Inr p)))))"

end
