(* ===== verification/CacheProofs.thy ===== *)
theory CacheProofs
  imports CachePayloads
begin

text \<open>
  What the builders of a prediction cache promise: selecting the blocks of a requirement is
  idempotent, so the payload that is persisted and the record a bundle keeps describe the same blocks.
\<close>

section \<open>Selection is idempotent\<close>

lemma sort_by_sorted: "sorted_wrt (not_greater c) xs \<Longrightarrow> sort_by c xs = xs"
proof (induction xs)
  case (Cons x xs)
  then show ?case by (cases xs) (simp_all add: not_greater_def)
qed simp

lemma cache_key_total: "total_preorder_on UNIV cache_key_cmp"
  unfolding total_preorder_on_def cache_key_cmp_def option_cmp_def then_with_def ord_cmp_def
  by (auto split: option.splits if_splits)

lemma sort_by_keys_again:
  "sort_by (\<lambda>l r. cache_key_cmp (key l) (key r)) (sort_by (\<lambda>l r. cache_key_cmp (key l) (key r)) xs) =
   sort_by (\<lambda>l r. cache_key_cmp (key l) (key r)) xs"
proof (rule sort_by_sorted, rule sorted_sort_by[where A = UNIV])
  show "total_preorder_on UNIV (\<lambda>l r. cache_key_cmp (key l) (key r))"
    using cache_key_total unfolding total_preorder_on_def by blast
qed simp

text \<open>Keeping the blocks of a scope and an unambiguous port, twice, keeps what the first pass kept.\<close>

definition keeps ::
  "('b \<Rightarrow> bool) \<Rightarrow> ('b \<Rightarrow> string option) \<Rightarrow> prediction_requirement \<Rightarrow> 'b list \<Rightarrow> 'b \<Rightarrow> bool" where
  "keeps scope port q blocks b \<longleftrightarrow> scope b \<and>
     port_selected (absent_port_is_unambiguous q (map port (filter scope blocks))) q (port b)"

lemma port_filter_again:
  assumes "set ys = set (filter (keeps scope port q xs) xs)"
  shows "filter (keeps scope port q ys) ys = ys"
proof -
  have in_xs: "scope b" "port_selected (absent_port_is_unambiguous q (map port (filter scope xs))) q (port b)"
    if "b \<in> set ys" for b using that assms by (auto simp: keeps_def)
  have "port b = None \<or> port b = Some (pq_source_port q)" if "b \<in> set ys" for b
    using in_xs(2)[OF that] by (auto simp: port_selected_def)
  then have "absent_port_is_unambiguous q (map port (filter scope ys))"
    by (auto simp: absent_port_is_unambiguous_def list_all_iff)
  then have "keeps scope port q ys b" if "b \<in> set ys" for b
    using in_xs[OF that] by (auto simp: keeps_def port_selected_def)
  then show ?thesis by (simp add: filter_id_conv)
qed

definition selected_blocks :: "prediction_requirement \<Rightarrow> prediction_block list \<Rightarrow> prediction_block list" where
  "selected_blocks q blocks = filter (keeps (block_in_scope q) prediction_block.producer_port q blocks) blocks"

lemma select_ok:
  "select_prediction_cache_blocks q blocks = Inr sel \<longleftrightarrow>
     requirement_validate q = Inr () \<and> selected_blocks q blocks \<noteq> [] \<and>
     sel = sort_by (\<lambda>l r. cache_key_cmp (pb_fold_id l, prediction_id l) (pb_fold_id r, prediction_id r)) (selected_blocks q blocks)"
  by (auto simp: select_prediction_cache_blocks_def selected_blocks_def keeps_def[abs_def] and_then_ok Let_def split: if_splits)

lemma select_again:
  assumes "select_prediction_cache_blocks q blocks = Inr sel"
  shows "select_prediction_cache_blocks q sel = Inr sel"
proof -
  have sel: "requirement_validate q = Inr ()" "selected_blocks q blocks \<noteq> []"
    "sel = sort_by (\<lambda>l r. cache_key_cmp (pb_fold_id l, prediction_id l) (pb_fold_id r, prediction_id r)) (selected_blocks q blocks)"
    using assms by (simp_all add: select_ok)
  have "set sel = set (selected_blocks q blocks)" by (simp add: sel(3))
  then have same: "selected_blocks q sel = sel"
    unfolding selected_blocks_def by (rule port_filter_again)
  have "sel \<noteq> []" using sel(2) unfolding sel(3) length_0_conv[symmetric] by simp
  moreover have "sort_by (\<lambda>l r. cache_key_cmp (pb_fold_id l, prediction_id l) (pb_fold_id r, prediction_id r)) sel = sel"
    unfolding sel(3) by (rule sort_by_keys_again[of "\<lambda>b. (pb_fold_id b, prediction_id b)"])
  ultimately show ?thesis unfolding select_ok same using sel(1) by (intro conjI) simp_all
qed

section \<open>The payload and its record\<close>

lemma payload_family:
  assumes "payload_validate env p = Inr ()" "pp_format p = cache_format"
  shows "\<forall>b \<in> set (pp_blocks p). prediction_block.producer_port b \<noteq> None"
proof -
  have version: "prediction_cache_schema_version_for_format (pp_format p) l = Inr 2" for l
    by (simp add: assms(2) prediction_cache_schema_version_for_format_def cache_format_def legacy_cache_format_def)
  then have "validate_prediction_cache_payload_block_family p 2 = Inr ()"
    using assms(1) by (simp add: payload_validate_def and_then_ok)
  then show ?thesis
    by (auto simp: validate_prediction_cache_payload_block_family_def and_then_ok try_each_ok
        validate_prediction_block_port_family_def split: option.splits)
qed

text \<open>C19: when the payload of a requirement is built from the blocks of a run, the record built from the
  same blocks exists and matches it; the payload holds exactly the blocks of the requirement's producer,
  partition and folds that carry its source port. A block that names no port is never persisted,
  although selection accepts one: the written format requires a port.\<close>

theorem built_payload_matches_record:
  assumes "build_prediction_cache_payload env q blocks = Inr p"
  shows "(\<exists>c. build_prediction_cache_record env q blocks = Inr c \<and>
           validate_prediction_cache_payload_matches_record env p c = Inr ()) \<and>
         mset (pp_blocks p) =
           mset (filter (\<lambda>b. block_in_scope q b \<and> prediction_block.producer_port b = Some (pq_source_port q)) blocks)"
proof -
  obtain sel fp where sel: "select_prediction_cache_blocks q blocks = Inr sel" and p: "pp_blocks p = sel"
    "pp_format p = cache_format"
    and ok: "payload_validate env p = Inr ()" "\<exists>c. build_prediction_cache_record env q sel = Inr c \<and>
      validate_prediction_cache_payload_matches_record env p c = Inr ()"
    using assms by (auto simp: build_prediction_cache_payload_def and_then_ok Let_def payload_of_def)
  have "build_prediction_cache_record env q sel = build_prediction_cache_record env q blocks"
    by (simp add: build_prediction_cache_record_def sel select_again[OF sel])
  moreover have "mset (pp_blocks p) =
      mset (filter (\<lambda>b. block_in_scope q b \<and> prediction_block.producer_port b = Some (pq_source_port q)) blocks)"
  proof -
    have named: "prediction_block.producer_port b \<noteq> None" if "b \<in> set (selected_blocks q blocks)" for b
      using payload_family[OF ok(1) p(2)] sel that by (auto simp: p(1) select_ok)
    have "selected_blocks q blocks =
        filter (\<lambda>b. block_in_scope q b \<and> prediction_block.producer_port b = Some (pq_source_port q)) blocks"
      unfolding selected_blocks_def
    proof (rule filter_cong)
      fix b assume "b \<in> set blocks"
      then show "keeps (block_in_scope q) prediction_block.producer_port q blocks b \<longleftrightarrow>
          block_in_scope q b \<and> prediction_block.producer_port b = Some (pq_source_port q)"
        using named[of b] by (auto simp: selected_blocks_def keeps_def port_selected_def)
    qed simp
    then show ?thesis using sel by (simp add: p(1) select_ok)
  qed
  ultimately show ?thesis using ok(2) by simp
qed


definition cache_demo_env :: cache_env where
  "cache_demo_env = \<lparr>blocks_bytes = (\<lambda>_. Inr []), block_bytes = (\<lambda>_. Inr []), aggregated_bytes = (\<lambda>_. Inr []),
     aggregated_block_bytes = (\<lambda>_. Inr []), cache_sha256 = (\<lambda>_. replicate 32 171)\<rparr>"

definition cache_demo_requirement :: prediction_requirement where
  "cache_demo_requirement = \<lparr>pq_producer_node = Ident ''m'', pq_source_port = ''y'', pq_consumer_node = Ident ''n'',
     pq_target_port = ''x'', pq_partition = Validation, pq_level = SampleLevel, pq_fold_ids = [Ident ''f''],
     pq_unit_ids = [], pq_sample_ids = [Ident ''s''], pq_width = 1, pq_target_names = [''p0'']\<rparr>"

definition cache_demo_block :: prediction_block where
  "cache_demo_block = \<lparr>prediction_id = None, producer_node = Ident ''m'', producer_port = Some ''y'',
     pb_partition = Validation, pb_fold_id = Some (Ident ''f''), pb_sample_ids = [Ident ''s''], pb_values = [[0]], target_names = []\<rparr>"

lemma cache_demo_payload:
  "build_prediction_cache_payload cache_demo_env cache_demo_requirement [cache_demo_block] =
   Inr (payload_of cache_demo_requirement 1 1 (concat (replicate 32 ''ab'')) [cache_demo_block] [])"
  by code_simp

lemma built_payload_matches_record_witness:
  "(\<exists>c. build_prediction_cache_record cache_demo_env cache_demo_requirement [cache_demo_block] = Inr c \<and>
      validate_prediction_cache_payload_matches_record cache_demo_env
        (payload_of cache_demo_requirement 1 1 (concat (replicate 32 ''ab'')) [cache_demo_block] []) c = Inr ()) \<and>
   mset (pp_blocks (payload_of cache_demo_requirement 1 1 (concat (replicate 32 ''ab'')) [cache_demo_block] [])) =
     mset (filter (\<lambda>b. block_in_scope cache_demo_requirement b \<and>
       prediction_block.producer_port b = Some (pq_source_port cache_demo_requirement)) [cache_demo_block])"
  by (rule built_payload_matches_record[OF cache_demo_payload])

end
