(* ===== verification/Columns.thy ===== *)
theory Columns
  imports CachePayloads
begin

text \<open>
  \<open>runtime/prediction_store.rs\<close>, the columnar form of cached predictions: a block stored column by
  column and back, and the entry that holds the blocks of one cache record.
\<close>

abbreviation store_error :: "store_msg \<Rightarrow> dag_ml_error failure" where
  "store_error m \<equiv> Err (RuntimeValidation (StoreMsg m))"

section \<open>Columns\<close>

record column_block =
  cb_prediction_id :: "string option"
  cb_producer_node :: node_id
  cb_producer_port :: "string option"
  cb_partition :: prediction_partition
  cb_fold_id :: "fold_id option"
  cb_level :: prediction_level
  cb_unit_ids :: "prediction_unit list"
  cb_sample_ids :: "sample_id list"
  cb_target_names :: "string list"
  cb_width :: nat
  cb_columns :: "f64 list list"

abbreviation column_error :: "column_msg \<Rightarrow> node_id \<Rightarrow> dag_ml_error failure" where
  "column_error m n \<equiv> store_error (ColumnMsg (as_str n) m)"

text \<open>\<open>columns[column_idx].push(*value)\<close> for every value of every row; an index past the width panics.\<close>

definition push_value :: "f64 list list \<Rightarrow> nat \<times> f64 \<Rightarrow> f64 list list result" where
  "push_value columns = (\<lambda>(j, v).
     if j < length columns then Inr (columns[j := columns ! j @ [v]]) else Inl (Panic IndexOutOfRange))"

definition push_row :: "f64 list list \<Rightarrow> f64 list \<Rightarrow> f64 list list result" where
  "push_row columns row = try_fold push_value columns (enumerate 0 row)"

definition columns_of :: "nat \<Rightarrow> f64 list list \<Rightarrow> f64 list list result" where
  "columns_of width vals = try_fold push_row (replicate width []) vals"

definition from_prediction_block :: "prediction_block \<Rightarrow> column_block result" where
  "from_prediction_block b =
     and_then (validate_shape b) (\<lambda>width.
     and_then (columns_of width (pb_values b)) (\<lambda>columns.
     Inr \<lparr>cb_prediction_id = prediction_id b, cb_producer_node = prediction_block.producer_node b,
       cb_producer_port = prediction_block.producer_port b, cb_partition = pb_partition b, cb_fold_id = pb_fold_id b,
       cb_level = SampleLevel, cb_unit_ids = [], cb_sample_ids = pb_sample_ids b, cb_target_names = target_names b,
       cb_width = width, cb_columns = columns\<rparr>))"

definition from_aggregated_prediction_block :: "aggregated_block \<Rightarrow> column_block result" where
  "from_aggregated_prediction_block b =
     and_then (aggregated_validate_shape b) (\<lambda>width.
     if ab_level b = SampleLevel then Inl (column_error ColumnAggregatedSamples (ab_producer_node b))
     else and_then (columns_of width (ab_values b)) (\<lambda>columns.
     Inr \<lparr>cb_prediction_id = ab_prediction_id b, cb_producer_node = ab_producer_node b,
       cb_producer_port = ab_producer_port b, cb_partition = ab_partition b, cb_fold_id = ab_fold_id b,
       cb_level = ab_level b, cb_unit_ids = ab_unit_ids b, cb_sample_ids = [], cb_target_names = ab_target_names b,
       cb_width = width, cb_columns = columns\<rparr>))"

definition cb_row_count :: "column_block \<Rightarrow> nat" where
  "cb_row_count b = (case cb_level b of
      SampleLevel \<Rightarrow> length (cb_sample_ids b) | ObservationLevel \<Rightarrow> 0 | _ \<Rightarrow> length (cb_unit_ids b))"

definition cb_value_count :: "column_block \<Rightarrow> nat" where
  "cb_value_count b = sum_list (map length (cb_columns b))"

definition column_level_check :: "column_block \<Rightarrow> unit result" where
  "column_level_check b = (let n = cb_producer_node b in case cb_level b of
       ObservationLevel \<Rightarrow> Inl (column_error ColumnObservations n)
     | SampleLevel \<Rightarrow> checks [
         reject_if (cb_sample_ids b = []) (column_error ColumnNoSamples n),
         reject_if (cb_unit_ids b \<noteq> []) (column_error ColumnSampleUnits n)]
     | _ \<Rightarrow> checks [
         reject_if (cb_sample_ids b \<noteq> []) (column_error ColumnCarriesSamples n),
         reject_if (cb_unit_ids b = []) (column_error ColumnNoUnits n),
         reject_if (list_ex (\<lambda>u. unit_level u \<noteq> cb_level b) (cb_unit_ids b)) (column_error ColumnUnitLevel n)])"

definition column_block_validate :: "column_block \<Rightarrow> unit result" where
  "column_block_validate b = (let n = cb_producer_node b in checks [
     column_level_check b,
     reject_if (cb_width b = 0) (column_error ColumnWidthZero n),
     reject_if (length (cb_columns b) \<noteq> cb_width b) (column_error (ColumnCount (length (cb_columns b)) (cb_width b)) n),
     try_each (\<lambda>(j, column). reject_if (length column \<noteq> cb_row_count b)
       (column_error (ColumnLength j (length column) (cb_row_count b)) n)) (enumerate 0 (cb_columns b)),
     reject_if (cb_target_names b \<noteq> [] \<and> length (cb_target_names b) \<noteq> cb_width b)
       (column_error (ColumnTargetCount (length (cb_target_names b)) (cb_width b)) n)])"

definition index_list :: "nat \<Rightarrow> 'a list \<Rightarrow> 'a result" where
  "index_list i xs = (if i < length xs then Inr (xs ! i) else Inl (Panic IndexOutOfRange))"

definition rows_of_columns :: "column_block \<Rightarrow> f64 list list result" where
  "rows_of_columns b = try_map (\<lambda>i. try_map (index_list i) (cb_columns b)) [0..<cb_row_count b]"

definition to_prediction_block :: "column_block \<Rightarrow> prediction_block result" where
  "to_prediction_block b =
     and_then (column_block_validate b) (\<lambda>_.
     if cb_level b \<noteq> SampleLevel then Inl (column_error ColumnNotSamples (cb_producer_node b))
     else and_then (rows_of_columns b) (\<lambda>vals.
       let p = \<lparr>prediction_id = cb_prediction_id b, producer_node = cb_producer_node b,
         producer_port = cb_producer_port b, pb_partition = cb_partition b, pb_fold_id = cb_fold_id b,
         pb_sample_ids = cb_sample_ids b, pb_values = vals, target_names = cb_target_names b\<rparr> in
       and_then (validate_shape p) (\<lambda>_. Inr p)))"

definition to_aggregated_prediction_block :: "column_block \<Rightarrow> aggregated_block result" where
  "to_aggregated_prediction_block b =
     and_then (column_block_validate b) (\<lambda>_.
     if cb_level b = SampleLevel then Inl (column_error ColumnNotAggregated (cb_producer_node b))
     else and_then (rows_of_columns b) (\<lambda>vals.
       let p = \<lparr>ab_prediction_id = cb_prediction_id b, ab_producer_node = cb_producer_node b,
         ab_producer_port = cb_producer_port b, ab_partition = cb_partition b, ab_fold_id = cb_fold_id b,
         ab_level = cb_level b, ab_unit_ids = cb_unit_ids b, ab_values = vals, ab_target_names = cb_target_names b\<rparr> in
       and_then (aggregated_validate_shape p) (\<lambda>_. Inr p)))"

section \<open>Entries\<close>

record column_entry =
  ce_cache :: cache_record
  ce_blocks :: "column_block list"

abbreviation entry_error :: "column_entry_msg \<Rightarrow> cache_record \<Rightarrow> dag_ml_error failure" where
  "entry_error m c \<equiv> store_error (ColumnEntryMsg (cr_cache_id c) m)"

definition entry_block_step :: "cache_record \<Rightarrow> nat \<times> nat \<Rightarrow> column_block \<Rightarrow> (nat \<times> nat) result" where
  "entry_block_step c = (\<lambda>(row_count, value_count) b.
     and_then (column_block_validate b) (\<lambda>_.
     if cb_level b \<noteq> cr_level c then Inl (entry_error EntryBlockLevel c)
     else if cb_partition b \<noteq> cr_partition c then Inl (entry_error EntryBlockPartition c)
     else Inr (row_count + cb_row_count b, value_count + cb_value_count b)))"

text \<open>\<open>checked_mul\<close> of \<open>usize\<close> refuses a product that does not fit 64 bits.\<close>

definition column_entry_validate :: "column_entry \<Rightarrow> unit result" where
  "column_entry_validate e = (let c = ce_cache e in checks [
     cache_record_validate c,
     reject_if (length (ce_blocks e) \<noteq> cr_block_count c)
       (entry_error (EntryBlockCount (length (ce_blocks e)) (cr_block_count c)) c),
     and_then (try_fold (entry_block_step c) (0, 0) (ce_blocks e)) (\<lambda>(row_count, value_count). checks [
       reject_if (row_count \<noteq> cr_row_count c) (entry_error (EntryRowCount row_count (cr_row_count c)) c),
       reject_if (2 ^ 64 \<le> cr_row_count c * cr_width c) (entry_error EntryValueOverflow c),
       reject_if (value_count \<noteq> cr_row_count c * cr_width c)
         (entry_error (EntryValueCount value_count (cr_row_count c * cr_width c)) c)])])"

definition entry_from_payload :: "cache_env \<Rightarrow> cache_payload \<Rightarrow> cache_record \<Rightarrow> column_entry result" where
  "entry_from_payload env p c =
     and_then (validate_prediction_cache_payload_matches_record env p c) (\<lambda>_.
     and_then (case pp_level p of
         SampleLevel \<Rightarrow> try_map from_prediction_block (pp_blocks p)
       | ObservationLevel \<Rightarrow> Inl (entry_error EntryObservations c)
       | _ \<Rightarrow> try_map from_aggregated_prediction_block (pp_aggregated p)) (\<lambda>blocks.
     let e = \<lparr>ce_cache = c, ce_blocks = blocks\<rparr> in
     and_then (column_entry_validate e) (\<lambda>_. Inr e)))"

definition entry_to_blocks :: "column_entry \<Rightarrow> prediction_block list result" where
  "entry_to_blocks e = and_then (column_entry_validate e) (\<lambda>_. try_map to_prediction_block (ce_blocks e))"

definition entry_to_aggregated_blocks :: "column_entry \<Rightarrow> aggregated_block list result" where
  "entry_to_aggregated_blocks e =
     and_then (column_entry_validate e) (\<lambda>_. try_map to_aggregated_prediction_block (ce_blocks e))"

definition payload_of_record :: "cache_record \<Rightarrow> prediction_block list \<Rightarrow> aggregated_block list \<Rightarrow> cache_payload" where
  "payload_of_record c blocks aggregated =
     \<lparr>pp_requirement_key = cr_requirement_key c, pp_cache_id = cr_cache_id c, pp_namespaces = cr_namespaces c,
      pp_format = cr_format c, pp_partition = cr_partition c, pp_level = cr_level c,
      pp_block_count = cr_block_count c, pp_row_count = cr_row_count c, pp_fingerprint = cr_fingerprint c,
      pp_blocks = blocks, pp_aggregated = aggregated\<rparr>"

definition validate_against_cache_record :: "cache_env \<Rightarrow> column_entry \<Rightarrow> cache_record \<Rightarrow> unit result" where
  "validate_against_cache_record env e c =
     (if ce_cache e \<noteq> c then Inl (entry_error EntryRecordDiffers c)
      else and_then (case cr_level (ce_cache e) of
          SampleLevel \<Rightarrow> and_then (entry_to_blocks e) (\<lambda>blocks. Inr (blocks, []))
        | ObservationLevel \<Rightarrow> Inl (entry_error EntryObservations (ce_cache e))
        | _ \<Rightarrow> and_then (entry_to_aggregated_blocks e) (\<lambda>aggregated. Inr ([], aggregated))) (\<lambda>(blocks, aggregated).
        validate_prediction_cache_payload_matches_record env (payload_of_record (ce_cache e) blocks aggregated) c))"

record column_manifest =
  cm_requirement_key :: string
  cm_cache_id :: string
  cm_namespaces :: "string list"
  cm_level :: prediction_level
  cm_block_count :: nat
  cm_row_count :: nat
  cm_width :: nat
  cm_value_count :: nat
  cm_estimated_bytes :: nat
  cm_fingerprint :: string

definition entry_manifest :: "column_entry \<Rightarrow> column_manifest" where
  "entry_manifest e = (let c = ce_cache e; value_count = sum_list (map cb_value_count (ce_blocks e)) in
     \<lparr>cm_requirement_key = cr_requirement_key c, cm_cache_id = cr_cache_id c, cm_namespaces = cr_namespaces c,
      cm_level = cr_level c, cm_block_count = cr_block_count c, cm_row_count = cr_row_count c, cm_width = cr_width c,
      cm_value_count = value_count, cm_estimated_bytes = value_count * 8, cm_fingerprint = cr_fingerprint c\<rparr>)"

section \<open>A block survives its columnar form\<close>

lemma and_then_Inr [simp]: "and_then r Inr = r"
  by (cases r) simp_all

lemma push_row_ok:
  "length row \<le> length columns \<Longrightarrow>
   push_row columns row = Inr (map (\<lambda>j. if j < length row then columns ! j @ [row ! j] else columns ! j) [0..<length columns])"
proof (induction row rule: rev_induct)
  case Nil
  then show ?case by (simp add: push_row_def map_nth)
next
  case (snoc v row)
  then have IH: "push_row columns row = Inr (map (\<lambda>j. if j < length row then columns ! j @ [row ! j] else columns ! j) [0..<length columns])"
    by simp
  have "push_row columns (row @ [v]) = and_then (push_row columns row) (\<lambda>cs. push_value cs (length row, v))"
    by (cases "push_row columns row") (simp_all add: push_row_def enumerate_append_eq try_fold_append)
  also have "\<dots> = push_value (map (\<lambda>j. if j < length row then columns ! j @ [row ! j] else columns ! j) [0..<length columns]) (length row, v)"
    by (simp add: IH)
  also have "\<dots> = Inr ((map (\<lambda>j. if j < length row then columns ! j @ [row ! j] else columns ! j)
      [0..<length columns])[length row := columns ! length row @ [v]])"
    using snoc.prems by (simp add: push_value_def)
  also have "(map (\<lambda>j. if j < length row then columns ! j @ [row ! j] else columns ! j) [0..<length columns])
      [length row := columns ! length row @ [v]] =
    map (\<lambda>j. if j < length (row @ [v]) then columns ! j @ [(row @ [v]) ! j] else columns ! j) [0..<length columns]"
    by (rule nth_equalityI) (auto simp: nth_list_update nth_append less_Suc_eq)
  finally show ?case .
qed

lemma columns_of_ok:
  "list_all (\<lambda>row. length row = width) vals \<Longrightarrow>
   columns_of width vals = Inr (map (\<lambda>j. map (\<lambda>row. row ! j) vals) [0..<width])"
proof (induction vals rule: rev_induct)
  case Nil
  then show ?case by (simp add: columns_of_def list_eq_iff_nth_eq)
next
  case (snoc row vals)
  then have IH: "columns_of width vals = Inr (map (\<lambda>j. map (\<lambda>row. row ! j) vals) [0..<width])" by simp
  have "columns_of width (vals @ [row]) = and_then (columns_of width vals) (\<lambda>cs. push_row cs row)"
    by (cases "columns_of width vals") (simp_all add: columns_of_def try_fold_append)
  then show ?case using snoc.prems by (auto simp: IH push_row_ok list_eq_iff_nth_eq)
qed

lemma try_map_Inr: "try_map (\<lambda>x. Inr (f x)) xs = Inr (map f xs)"
  by (rule try_map_total) simp

lemma rows_of_columns_ok:
  assumes "cb_columns b = map (\<lambda>j. map (\<lambda>row. row ! j) vals) [0..<width]"
    "list_all (\<lambda>row. length row = width) vals" "cb_row_count b = length vals"
  shows "rows_of_columns b = Inr vals"
proof -
  have "try_map (index_list i) (cb_columns b) = Inr (vals ! i)" if "i \<in> set [0..<cb_row_count b]" for i
  proof -
    have "try_map (index_list i) (cb_columns b) = Inr (map (\<lambda>c. c ! i) (cb_columns b))"
      using that by (intro try_map_total) (auto simp: assms(1,3) index_list_def)
    also have "map (\<lambda>c. c ! i) (cb_columns b) = map ((!) (vals ! i)) [0..<width]"
      using that by (simp add: assms(1,3))
    also have "\<dots> = vals ! i" using that assms(2) map_nth[of "vals ! i"] by (simp add: assms(3) list_all_length)
    finally show ?thesis .
  qed
  then have "rows_of_columns b = Inr (map ((!) vals) [0..<cb_row_count b])"
    unfolding rows_of_columns_def by (intro try_map_total) simp
  then show ?thesis by (simp add: assms(3) map_nth)
qed

lemma validate_shape_facts:
  assumes "validate_shape b = Inr width"
  shows "list_all (\<lambda>row. length row = width) (pb_values b)" "length (pb_sample_ids b) = length (pb_values b)"
    "width \<noteq> 0" "pb_values b \<noteq> []" "target_names b = [] \<or> length (target_names b) = width"
  using assms by (auto simp: validate_shape_def Let_def list_ex_iff list_all_iff split: if_splits list.splits)

lemma aggregated_shape_facts:
  assumes "aggregated_validate_shape b = Inr width"
  shows "list_all (\<lambda>row. length row = width) (ab_values b)" "length (ab_unit_ids b) = length (ab_values b)"
    "width \<noteq> 0" "ab_values b \<noteq> []" "ab_target_names b = [] \<or> length (ab_target_names b) = width"
    "\<not> list_ex (\<lambda>u. unit_level u \<noteq> ab_level b) (ab_unit_ids b)"
  using assms by (auto simp: aggregated_validate_shape_def Let_def list_ex_iff list_all_iff split: if_splits list.splits)


lemma prediction_block_again:
  "\<lparr>prediction_id = prediction_id b, producer_node = prediction_block.producer_node b,
     producer_port = prediction_block.producer_port b, pb_partition = pb_partition b, pb_fold_id = pb_fold_id b,
     pb_sample_ids = pb_sample_ids b, pb_values = pb_values b, target_names = target_names b\<rparr> = b"
  by (cases b) simp

lemma aggregated_block_again:
  "\<lparr>ab_prediction_id = ab_prediction_id b, ab_producer_node = ab_producer_node b,
     ab_producer_port = ab_producer_port b, ab_partition = ab_partition b, ab_fold_id = ab_fold_id b,
     ab_level = ab_level b, ab_unit_ids = ab_unit_ids b, ab_values = ab_values b, ab_target_names = ab_target_names b\<rparr> = b"
  by (cases b) simp

lemma from_to_prediction_block:
  assumes "from_prediction_block b = Inr c"
  shows "to_prediction_block c = Inr b" "column_block_validate c = Inr ()"
proof -
  obtain width columns where w: "validate_shape b = Inr width" "columns_of width (pb_values b) = Inr columns"
    and c: "c = \<lparr>cb_prediction_id = prediction_id b, cb_producer_node = prediction_block.producer_node b,
       cb_producer_port = prediction_block.producer_port b, cb_partition = pb_partition b, cb_fold_id = pb_fold_id b,
       cb_level = SampleLevel, cb_unit_ids = [], cb_sample_ids = pb_sample_ids b, cb_target_names = target_names b,
       cb_width = width, cb_columns = columns\<rparr>"
    using assms by (auto simp: from_prediction_block_def and_then_ok)
  note facts = validate_shape_facts[OF w(1)]
  have columns: "columns = map (\<lambda>j. map (\<lambda>row. row ! j) (pb_values b)) [0..<width]"
    using w(2) columns_of_ok[OF facts(1)] by simp
  have count: "cb_row_count c = length (pb_values b)" using facts(2) by (simp add: c cb_row_count_def)
  have "pb_sample_ids b \<noteq> []" using facts(2,4) by auto
  then show valid: "column_block_validate c = Inr ()"
    using facts(3,5) count
    by (auto simp: column_block_validate_def column_level_check_def c columns Let_def and_then_ok try_each_ok
        in_set_enumerate_eq)
  have "rows_of_columns c = Inr (pb_values b)"
    by (rule rows_of_columns_ok[OF _ facts(1) count]) (simp add: c columns)
  then show "to_prediction_block c = Inr b"
    using valid w(1) by (simp add: to_prediction_block_def c Let_def prediction_block_again)
qed

lemma from_to_aggregated_block:
  assumes "from_aggregated_prediction_block b = Inr c" "ab_level b \<noteq> ObservationLevel"
  shows "to_aggregated_prediction_block c = Inr b" "column_block_validate c = Inr ()"
proof -
  obtain width columns where w: "aggregated_validate_shape b = Inr width" "columns_of width (ab_values b) = Inr columns"
    and level: "ab_level b \<noteq> SampleLevel"
    and c: "c = \<lparr>cb_prediction_id = ab_prediction_id b, cb_producer_node = ab_producer_node b,
       cb_producer_port = ab_producer_port b, cb_partition = ab_partition b, cb_fold_id = ab_fold_id b,
       cb_level = ab_level b, cb_unit_ids = ab_unit_ids b, cb_sample_ids = [], cb_target_names = ab_target_names b,
       cb_width = width, cb_columns = columns\<rparr>"
    using assms(1) by (auto simp: from_aggregated_prediction_block_def and_then_ok split: if_splits)
  note facts = aggregated_shape_facts[OF w(1)]
  have columns: "columns = map (\<lambda>j. map (\<lambda>row. row ! j) (ab_values b)) [0..<width]"
    using w(2) columns_of_ok[OF facts(1)] by simp
  have count: "cb_row_count c = length (ab_values b)"
    using facts(2) level assms(2) by (cases "ab_level b") (simp_all add: c cb_row_count_def)
  have "column_level_check c = Inr ()"
    using facts(2,4,6) level assms(2) by (cases "ab_level b") (auto simp: column_level_check_def c Let_def and_then_ok)
  then show valid: "column_block_validate c = Inr ()"
    using facts(3,5) count by (auto simp: column_block_validate_def c columns Let_def and_then_ok try_each_ok in_set_enumerate_eq)
  have "rows_of_columns c = Inr (ab_values b)"
    by (rule rows_of_columns_ok[OF _ facts(1) count]) (simp add: c columns)
  then show "to_aggregated_prediction_block c = Inr b"
    using valid w(1) level by (simp add: to_aggregated_prediction_block_def c Let_def aggregated_block_again)
qed

end
