(* ===== verification/Artifacts.thy ===== *)
theory Artifacts
  imports CachePayloads Criteria
begin

text \<open>
  \<open>runtime/artifact.rs\<close>, \<open>n4m_roles.rs\<close> and the refit records of \<open>bundle.rs\<close>: references to fitted
  artifacts, the descriptors of native predictors and estimators, the safety of artifact URIs, the
  in-memory artifact store and the manifest of a file store. The JSON text of a descriptor, NFC and
  SHA-256 are the parameters \<open>artifact_env\<close>.
\<close>

datatype (plugins only: code size) artifact_k = ArtifactK

type_synonym artifact_id = "artifact_k ident"

datatype (plugins only: code size) artifact_backend = Joblib | Rds | Mat | Torch | Tensorflow | Onnx | Safetensors | JsonFile | RawBytes

section \<open>Native predictors\<close>

record predictor_pipeline =
  npp_type :: string
  npp_schema_version :: nat
  npp_operator_count :: nat
  npp_raw_features :: int
  npp_model_features :: int
  npp_fingerprint_algorithm :: string
  npp_native_fingerprint :: string
  npp_window :: int
  npp_degree :: int

record predictor_descriptor =
  npd_type :: string
  npd_schema_version :: nat
  npd_artifact_sha256 :: string
  npd_owner :: controller_id
  npd_format :: string
  npd_format_version :: nat
  npd_abi_major :: nat
  npd_abi_minor :: nat
  npd_abi_patch :: nat
  npd_algorithm :: int
  npd_capabilities :: "64 word"
  npd_samples :: int
  npd_features :: int
  npd_targets :: int
  npd_components :: int
  npd_pipeline :: "predictor_pipeline option"
  npd_fingerprint :: string

datatype (plugins only: code size) n4m_role =
    N4mTransformer | N4mSelector | N4mRegressor | N4mClassifier | N4mSampleFilter | N4mSplitter | N4mAugmenter | N4mGeneric

record estimator_descriptor =
  ned_type :: string
  ned_schema_version :: nat
  ned_artifact_sha256 :: string
  ned_owner :: controller_id
  ned_format :: string
  ned_method_id :: string
  ned_roles :: "n4m_role list"
  ned_capabilities :: "string list"
  ned_fingerprint :: string

record artifact_env =
  predictor_json :: "predictor_descriptor \<Rightarrow> string result"
  estimator_json :: "estimator_descriptor \<Rightarrow> string result"
  artifact_nfc :: "string \<Rightarrow> string"
  artifact_sha256 :: digest

abbreviation native_error :: "native_msg \<Rightarrow> dag_ml_error failure" where
  "native_error m \<equiv> Err (RuntimeValidation (NativeMsg m))"

definition validate_runtime_fingerprint :: "string \<Rightarrow> string \<Rightarrow> unit result" where
  "validate_runtime_fingerprint label value =
     reject_if (\<not> is_hex_digest value) (cache_error (CacheFingerprintInvalid label))"

definition native_fingerprint :: "artifact_env \<Rightarrow> string result \<Rightarrow> string result" where
  "native_fingerprint env text =
     and_then text (\<lambda>json.
     map_error (\<lambda>_. RuntimeValidation (NativeMsg NativeOutsideTcv1))
       (and_then (parse_typed_json (artifact_nfc env) json)
         (\<lambda>v. fingerprint_without (artifact_sha256 env) (artifact_nfc env) v ''descriptor_fingerprint'')))"

definition pipeline_validate :: "predictor_pipeline \<Rightarrow> unit result" where
  "pipeline_validate p = checks [
     reject_if (npp_type p \<noteq> ''n4m.snv_savgol_smooth.v1'' \<or> npp_schema_version p \<noteq> 1 \<or> npp_operator_count p \<noteq> 2)
       (native_error PipelineUnsupported),
     reject_if (npp_raw_features p \<le> 0 \<or> npp_model_features p \<le> 0) (native_error PipelineDimensions),
     reject_if (npp_fingerprint_algorithm p \<noteq> ''fnv1a64.v1'' \<or> length (npp_native_fingerprint p) \<noteq> 16 \<or>
         \<not> list_all (\<lambda>c. is_ascii_digit c \<or> 97 \<le> byte_of c \<and> byte_of c \<le> 102) (npp_native_fingerprint p))
       (native_error PipelineFingerprint),
     reject_if (\<not> (3 \<le> npp_window p \<and> npp_window p \<le> 501) \<or> npp_window p mod 2 = 0 \<or> npp_degree p < 0 \<or>
         npp_window p \<le> npp_degree p)
       (native_error PipelineParameters)]"

definition has_capability :: "predictor_descriptor \<Rightarrow> nat \<Rightarrow> bool" where
  "has_capability d n \<longleftrightarrow> and (npd_capabilities d) (push_bit n 1) \<noteq> 0"

definition pls_supported :: "predictor_descriptor \<Rightarrow> bool" where
  "pls_supported d \<longleftrightarrow>
     npd_algorithm d = 0 \<and> has_capability d 0 \<and> 0 < npd_components d \<and>
     (case npd_pipeline d of
        None \<Rightarrow> (npd_format_version d = 1 \<or> npd_format_version d = 3) \<and> \<not> has_capability d 3
      | Some p \<Rightarrow> (npd_format_version d = 2 \<or> npd_format_version d = 3) \<and> has_capability d 3 \<and>
          pipeline_validate p = Inr () \<and> npp_raw_features p = npd_features d \<and> npp_model_features p = npd_features d) \<and>
     (npd_format_version d \<noteq> 3 \<or> npd_abi_major d = 2 \<and> 20 \<le> npd_abi_minor d)"

definition ridge_supported :: "predictor_descriptor \<Rightarrow> bool" where
  "ridge_supported d \<longleftrightarrow>
     npd_algorithm d = 11 \<and> has_capability d 0 \<and> has_capability d 2 \<and> npd_components d = 0 \<and>
     npd_format_version d = 1 \<and> \<not> has_capability d 3 \<and> npd_pipeline d = None"

definition product_supported :: "predictor_descriptor \<Rightarrow> bool" where
  "product_supported d \<longleftrightarrow>
     (if as_str (npd_owner d) = ''controller:methods.pls'' then pls_supported d
      else if as_str (npd_owner d) = ''controller:methods.ridge'' then ridge_supported d
      else False)"

definition predictor_compute_fingerprint :: "artifact_env \<Rightarrow> predictor_descriptor \<Rightarrow> string result" where
  "predictor_compute_fingerprint env d = native_fingerprint env (predictor_json env d)"

definition predictor_validate :: "artifact_env \<Rightarrow> predictor_descriptor \<Rightarrow> unit result" where
  "predictor_validate env d = checks [
     reject_if (npd_type d \<noteq> ''dagml.native_predictor_descriptor.v1'' \<or> npd_schema_version d \<noteq> 1)
       (native_error PredictorUnsupported),
     validate_runtime_fingerprint ''native predictor artifact'' (npd_artifact_sha256 d),
     validate_runtime_fingerprint ''native predictor descriptor'' (npd_fingerprint d),
     reject_if (npd_format d \<noteq> ''N4MM'' \<or> npd_format_version d = 0) (native_error PredictorFormat),
     reject_if (npd_abi_major d = 0) (native_error PredictorAbi),
     reject_if (npd_samples d \<le> 0 \<or> npd_features d \<le> 0 \<or> npd_targets d \<le> 0 \<or> npd_components d < 0)
       (native_error PredictorDimensions),
     reject_if (and (npd_capabilities d) (not 15) \<noteq> 0) (native_error PredictorCapabilities),
     reject_if (\<not> product_supported d) (native_error PredictorNotProduct),
     and_then (predictor_compute_fingerprint env d) (\<lambda>fp.
       reject_if (npd_fingerprint d \<noteq> fp) (native_error PredictorFingerprint))]"

section \<open>Native estimators\<close>

definition n4m_controller_id :: "n4m_role \<Rightarrow> string option" where
  "n4m_controller_id r = (case r of
      N4mTransformer \<Rightarrow> Some ''controller:n4m.transformer''
    | N4mSelector \<Rightarrow> Some ''controller:n4m.selector''
    | N4mRegressor \<Rightarrow> Some ''controller:n4m.regressor''
    | N4mClassifier \<Rightarrow> Some ''controller:n4m.classifier''
    | N4mSampleFilter \<Rightarrow> Some ''controller:n4m.sample_filter''
    | N4mSplitter \<Rightarrow> Some ''controller:n4m.splitter''
    | N4mAugmenter \<Rightarrow> Some ''controller:n4m.augmenter''
    | N4mGeneric \<Rightarrow> None)"

definition n4m_graph_roles :: "n4m_role list" where
  "n4m_graph_roles =
     [N4mTransformer, N4mSelector, N4mRegressor, N4mClassifier, N4mSampleFilter, N4mSplitter, N4mAugmenter]"

definition n4m_role_of_controller :: "string \<Rightarrow> n4m_role option" where
  "n4m_role_of_controller c = find (\<lambda>r. n4m_controller_id r = Some c) n4m_graph_roles"

definition estimator_compute_fingerprint :: "artifact_env \<Rightarrow> estimator_descriptor \<Rightarrow> string result" where
  "estimator_compute_fingerprint env d = native_fingerprint env (estimator_json env d)"

definition estimator_validate :: "artifact_env \<Rightarrow> estimator_descriptor \<Rightarrow> unit result" where
  "estimator_validate env d = checks [
     reject_if (ned_type d \<noteq> ''dagml.native_estimator_descriptor.v1'' \<or> ned_schema_version d \<noteq> 1 \<or> ned_format d \<noteq> ''N4ME'')
       (native_error EstimatorUnsupported),
     validate_runtime_fingerprint ''native estimator artifact'' (ned_artifact_sha256 d),
     validate_runtime_fingerprint ''native estimator descriptor'' (ned_fingerprint d),
     reject_if (is_blank (ned_method_id d) \<or> ned_method_id d \<noteq> trim (ned_method_id d)) (native_error EstimatorMethodBlank),
     reject_if (\<not> option_ex (\<lambda>r. r \<in> set (ned_roles d)) (n4m_role_of_controller (as_str (ned_owner d))))
       (native_error EstimatorOwner),
     reject_if (ned_capabilities d = [] \<or> list_ex (\<lambda>(a, b). b \<le> a) (zip (ned_capabilities d) (tl (ned_capabilities d))) \<or>
         list_ex is_blank (ned_capabilities d))
       (native_error EstimatorCapabilities),
     and_then (estimator_compute_fingerprint env d) (\<lambda>fp.
       reject_if (ned_fingerprint d \<noteq> fp) (native_error EstimatorFingerprint))]"

section \<open>References\<close>

record artifact_ref =
  ar_id :: artifact_id
  ar_kind :: string
  ar_controller_id :: controller_id
  ar_backend :: "artifact_backend option"
  ar_uri :: "string option"
  ar_content_fingerprint :: "string option"
  ar_size_bytes :: "nat option"
  ar_plugin :: "string option"
  ar_plugin_version :: "string option"
  ar_abi_major :: "nat option"
  ar_abi_min_minor :: "nat option"
  ar_predictor :: "predictor_descriptor option"
  ar_estimator :: "estimator_descriptor option"

abbreviation artifact_error :: "artifact_msg \<Rightarrow> artifact_id \<Rightarrow> dag_ml_error failure" where
  "artifact_error m i \<equiv> Err (RuntimeValidation (ArtifactMsg (as_str i) m))"

definition validate_artifact_optional_text :: "string \<Rightarrow> string option \<Rightarrow> artifact_id \<Rightarrow> unit result" where
  "validate_artifact_optional_text label value i = check_option (\<lambda>s. checks [
     reject_if (is_blank s) (artifact_error (ArtifactTextEmpty label) i),
     reject_if (has_control (map byte_of s)) (artifact_error (ArtifactTextControl label) i)]) value"

definition predictor_agrees :: "artifact_ref \<Rightarrow> predictor_descriptor \<Rightarrow> bool" where
  "predictor_agrees a d \<longleftrightarrow>
     npd_owner d = ar_controller_id a \<and> ar_backend a = Some RawBytes \<and> ar_kind a = ''n4m_model'' \<and>
     ar_content_fingerprint a = Some (npd_artifact_sha256 d) \<and> ar_abi_major a = Some (npd_abi_major d)"

definition estimator_agrees :: "artifact_ref \<Rightarrow> estimator_descriptor \<Rightarrow> bool" where
  "estimator_agrees a d \<longleftrightarrow>
     ned_owner d = ar_controller_id a \<and> ar_backend a = Some RawBytes \<and> ar_predictor a = None \<and>
     ar_content_fingerprint a = Some (ned_artifact_sha256 d) \<and> ar_abi_major a \<noteq> None"

definition artifact_validate :: "artifact_env \<Rightarrow> artifact_ref \<Rightarrow> unit result" where
  "artifact_validate env a = (let i = ar_id a in checks [
     reject_if (is_blank (ar_kind a)) (artifact_error ArtifactKindEmpty i),
     validate_artifact_optional_text ''uri'' (ar_uri a) i,
     validate_artifact_optional_text ''plugin'' (ar_plugin a) i,
     validate_artifact_optional_text ''plugin_version'' (ar_plugin_version a) i,
     reject_if (ar_plugin_version a \<noteq> None \<and> ar_plugin a = None) (artifact_error ArtifactPluginVersion i),
     reject_if ((ar_abi_major a = None) \<noteq> (ar_abi_min_minor a = None) \<or> ar_abi_major a = Some 0) (artifact_error ArtifactAbi i),
     check_option (validate_runtime_fingerprint ''artifact content'') (ar_content_fingerprint a),
     check_option (\<lambda>d. checks [predictor_validate env d,
       reject_if (\<not> predictor_agrees a d) (artifact_error PredictorDiffers i)]) (ar_predictor a),
     reject_if ((ar_kind a = ''n4m_estimator'') \<noteq> (ar_estimator a \<noteq> None)) (artifact_error EstimatorPresence i),
     check_option (\<lambda>d. checks [estimator_validate env d,
       reject_if (\<not> estimator_agrees a d) (artifact_error EstimatorDiffers i)]) (ar_estimator a),
     reject_if (ar_uri a \<noteq> None \<and> ar_backend a = None) (artifact_error UriWithoutBackend i),
     reject_if (ar_uri a \<noteq> None \<and> ar_content_fingerprint a = None) (artifact_error UriWithoutFingerprint i)])"

text \<open>The segments between slashes and backslashes.\<close>

definition is_separator :: "char \<Rightarrow> bool" where
  "is_separator c \<longleftrightarrow> c = CHR ''/'' \<or> byte_of c = 92"

fun uri_segments :: "string \<Rightarrow> string list" where
  "uri_segments [] = [[]]"
| "uri_segments (c # cs) = (if is_separator c then [] # uri_segments cs
     else (case uri_segments cs of [] \<Rightarrow> [[c]] | s # ss \<Rightarrow> (c # s) # ss))"

definition is_ascii_alphabetic :: "char \<Rightarrow> bool" where
  "is_ascii_alphabetic c \<longleftrightarrow> 65 \<le> byte_of c \<and> byte_of c \<le> 90 \<or> 97 \<le> byte_of c \<and> byte_of c \<le> 122"

definition drive_prefix :: "string \<Rightarrow> bool" where
  "drive_prefix s \<longleftrightarrow> (case s of c # d # _ \<Rightarrow> is_ascii_alphabetic c \<and> d = CHR '':'' | _ \<Rightarrow> False)"

definition validate_relative_artifact_uri :: "artifact_id \<Rightarrow> string \<Rightarrow> unit result" where
  "validate_relative_artifact_uri i uri = checks [
     reject_if (uri = []) (artifact_error UriEmpty i),
     reject_if (has_control (map byte_of uri)) (artifact_error UriControl i),
     reject_if (is_separator (hd uri)) (artifact_error UriNotRelative i),
     reject_if (drive_prefix uri) (artifact_error UriNotRelative i),
     reject_if (CHR '':'' \<in> set (hd (uri_segments uri))) (artifact_error UriScheme i),
     try_each (\<lambda>segment. reject_if (segment = ''..'') (artifact_error UriTraversal i)) (uri_segments uri)]"

definition validate_portable :: "artifact_env \<Rightarrow> artifact_ref \<Rightarrow> unit result" where
  "validate_portable env a =
     and_then (artifact_validate env a) (\<lambda>_. case ar_uri a of
         None \<Rightarrow> Inl (artifact_error NotPortable (ar_id a))
       | Some uri \<Rightarrow> validate_relative_artifact_uri (ar_id a) uri)"

section \<open>Refit records\<close>

record refit_record =
  ra_node_id :: node_id
  ra_controller_id :: controller_id
  ra_artifact :: artifact_ref
  ra_params_fingerprint :: string
  ra_loss_fingerprint :: "string option"
  ra_data_keys :: "string list"
  ra_prediction_keys :: "string list"

abbreviation refit_error :: "refit_record_msg \<Rightarrow> refit_record \<Rightarrow> dag_ml_error failure" where
  "refit_error m r \<equiv> Err (RuntimeValidation (RefitRecordMsg (as_str (ar_id (ra_artifact r))) m))"

definition requirement_keys_check :: "string \<Rightarrow> refit_record \<Rightarrow> string list \<Rightarrow> unit result" where
  "requirement_keys_check label r keys =
     and_then (try_fold (\<lambda>seen key.
         if is_blank key then Inl (refit_error (RefitKeyEmpty label) r)
         else if key \<in> seen then Inl (refit_error (RefitDuplicateKey label key) r)
         else Inr (insert key seen)) {} keys) (\<lambda>_. Inr ())"

definition refit_record_validate :: "artifact_env \<Rightarrow> refit_record \<Rightarrow> unit result" where
  "refit_record_validate env r = (let a = ra_artifact r in checks [
     artifact_validate env a,
     reject_if (as_str (ar_id a) = []) (refit_error RefitArtifactIdEmpty r),
     reject_if (is_blank (ar_kind a)) (artifact_error ArtifactKindEmpty (ar_id a)),
     reject_if (ar_controller_id a \<noteq> ra_controller_id r) (artifact_error RecordControllerDiffers (ar_id a)),
     cache_fingerprint_check ''params'' (ra_params_fingerprint r),
     check_option (cache_fingerprint_check ''training loss'') (ra_loss_fingerprint r),
     requirement_keys_check ''data'' r (ra_data_keys r),
     requirement_keys_check ''prediction'' r (ra_prediction_keys r)])"

section \<open>The in-memory store\<close>

record artifact_handle_record =
  ah_handle :: handle_ref
  ah_node_id :: node_id
  ah_controller_id :: controller_id
  ah_artifact :: artifact_ref
  ah_params_fingerprint :: string
  ah_loss_fingerprint :: "string option"

definition handle_record_validate :: "artifact_env \<Rightarrow> artifact_handle_record \<Rightarrow> unit result" where
  "handle_record_validate env r = (let a = ah_artifact r; i = ar_id a in checks [
     artifact_validate env a,
     reject_if (handle_kind (ah_handle r) \<notin> {ModelHandle, ArtifactHandle}) (artifact_error HandleNotArtifact i),
     reject_if (owner_controller (ah_handle r) \<noteq> ah_controller_id r) (artifact_error HandleOwnerDiffers i),
     reject_if (ar_controller_id a \<noteq> ah_controller_id r) (artifact_error RecordControllerDiffers i),
     reject_if (is_blank (ah_params_fingerprint r)) (artifact_error RecordParamsEmpty i),
     check_option (validate_runtime_fingerprint ''artifact training loss'') (ah_loss_fingerprint r)])"

record artifact_store =
  as_records :: "(artifact_id, artifact_handle_record) btree_map"
  as_refits :: "(artifact_id, refit_record) btree_map"

definition artifact_store_new :: artifact_store where
  "artifact_store_new = \<lparr>as_records = [], as_refits = []\<rparr>"

definition handle_record_of :: "refit_record \<Rightarrow> handle_ref \<Rightarrow> artifact_handle_record" where
  "handle_record_of r h = \<lparr>ah_handle = h, ah_node_id = ra_node_id r, ah_controller_id = ra_controller_id r,
     ah_artifact = ra_artifact r, ah_params_fingerprint = ra_params_fingerprint r, ah_loss_fingerprint = ra_loss_fingerprint r\<rparr>"

definition artifact_register :: "artifact_env \<Rightarrow> refit_record \<Rightarrow> handle_ref \<Rightarrow> artifact_store \<Rightarrow> artifact_store result" where
  "artifact_register env r h s =
     and_then (refit_record_validate env r) (\<lambda>_.
     let record = handle_record_of r h; i = ar_id (ra_artifact r) in
     and_then (handle_record_validate env record) (\<lambda>_.
     if bm_contains_key (as_records s) i \<or> bm_contains_key (as_refits s) i then Inl (artifact_error ArtifactRegistered i)
     else Inr \<lparr>as_records = bm_insert i record (as_records s), as_refits = bm_insert i r (as_refits s)\<rparr>))"

definition artifact_get :: "artifact_store \<Rightarrow> artifact_id \<Rightarrow> artifact_handle_record option" where
  "artifact_get s i = bm_get (as_records s) i"

definition artifact_store_len :: "artifact_store \<Rightarrow> nat" where
  "artifact_store_len s = length (as_records s)"

definition refit_artifacts :: "artifact_store \<Rightarrow> refit_record list" where
  "refit_artifacts s = map snd (as_refits s)"

record artifact_request =
  am_run_id :: run_id
  am_bundle_id :: bundle_id
  am_node_id :: node_id
  am_phase :: phase
  am_variant_id :: "variant_id option"
  am_controller_id :: controller_id
  am_artifact :: artifact_ref
  am_params_fingerprint :: string
  am_loss_fingerprint :: "string option"

definition artifact_materialize :: "artifact_env \<Rightarrow> artifact_store \<Rightarrow> artifact_request \<Rightarrow> handle_ref result" where
  "artifact_materialize env s q = (let i = ar_id (am_artifact q) in
     and_then (ok_or (bm_get (as_records s) i) (artifact_error ArtifactMissing i)) (\<lambda>r.
     and_then (checks [
       reject_if (ah_node_id r \<noteq> am_node_id q) (artifact_error ArtifactNodeDiffers i),
       reject_if (ah_controller_id r \<noteq> am_controller_id q) (artifact_error ArtifactControllerDiffers i),
       reject_if (ah_artifact r \<noteq> am_artifact q) (artifact_error ArtifactMetadataDiffers i),
       reject_if (ah_params_fingerprint r \<noteq> am_params_fingerprint q) (artifact_error ArtifactParamsDiffer i),
       reject_if (ah_loss_fingerprint r \<noteq> am_loss_fingerprint q) (artifact_error ArtifactLossDiffers i),
       handle_record_validate env r]) (\<lambda>_. Inr (ah_handle r))))"

end
