(* ===== verification/ArtifactProofs.thy ===== *)
theory ArtifactProofs
  imports Artifacts
begin

text \<open>
  The in-memory artifact store of \<open>runtime/artifact.rs\<close> over its whole history: what a store filled by
  registrations holds, and which requests it serves.
\<close>

section \<open>One registration\<close>

definition admitted_artifact :: "artifact_env \<Rightarrow> refit_record \<times> handle_ref \<Rightarrow> bool" where
  "admitted_artifact env c \<longleftrightarrow>
     refit_record_validate env (fst c) = Inr () \<and> handle_record_validate env (handle_record_of (fst c) (snd c)) = Inr ()"

abbreviation call_id :: "refit_record \<times> handle_ref \<Rightarrow> artifact_id" where
  "call_id c \<equiv> ar_id (ra_artifact (fst c))"

lemma artifact_register_ok:
  "artifact_register env r h s = Inr s' \<longleftrightarrow>
     admitted_artifact env (r, h) \<and> call_id (r, h) \<notin> dom (bm_get (as_records s)) \<union> dom (bm_get (as_refits s)) \<and>
     s' = \<lparr>as_records = bm_insert (call_id (r, h)) (handle_record_of r h) (as_records s),
           as_refits = bm_insert (call_id (r, h)) r (as_refits s)\<rparr>"
  by (auto simp: artifact_register_def admitted_artifact_def and_then_ok Let_def bm_contains_key_get)

section \<open>A run of registrations\<close>

definition register_all :: "artifact_env \<Rightarrow> (refit_record \<times> handle_ref) list \<Rightarrow> artifact_store result" where
  "register_all env calls = try_fold (\<lambda>s c. artifact_register env (fst c) (snd c) s) artifact_store_new calls"

definition filled_with :: "(refit_record \<times> handle_ref) list \<Rightarrow> artifact_store \<Rightarrow> bool" where
  "filled_with calls s \<longleftrightarrow>
     bm_ok (as_records s) \<and> bm_ok (as_refits s) \<and> distinct (map call_id calls) \<and>
     bm_get (as_records s) = map_of (map (\<lambda>c. (call_id c, handle_record_of (fst c) (snd c))) calls) \<and>
     bm_get (as_refits s) = map_of (map (\<lambda>c. (call_id c, fst c)) calls)"

lemma map_of_snoc:
  assumes "k \<notin> fst ` set xs"
  shows "map_of (xs @ [(k, v)]) = (map_of xs)(k \<mapsto> v)"
proof -
  have "map_of xs k = None" using assms by (simp add: map_of_eq_None_iff)
  then show ?thesis by (auto simp: map_add_def fun_eq_iff split: option.split)
qed

lemma register_all_filled:
  "register_all env calls = Inr s \<Longrightarrow> filled_with calls s \<and> list_all (admitted_artifact env) calls"
proof (induction calls arbitrary: s rule: rev_induct)
  case Nil
  then show ?case by (auto simp: register_all_def filled_with_def artifact_store_new_def)
next
  case (snoc c calls)
  obtain s0 where s0: "register_all env calls = Inr s0" "artifact_register env (fst c) (snd c) s0 = Inr s"
    using snoc.prems by (auto simp: register_all_def try_fold_append and_then_ok)
  have IH: "filled_with calls s0" "list_all (admitted_artifact env) calls" using snoc.IH[OF s0(1)] by auto
  have c: "admitted_artifact env c" "call_id c \<notin> dom (bm_get (as_records s0)) \<union> dom (bm_get (as_refits s0))"
    "s = \<lparr>as_records = bm_insert (call_id c) (handle_record_of (fst c) (snd c)) (as_records s0),
          as_refits = bm_insert (call_id c) (fst c) (as_refits s0)\<rparr>"
    using s0(2) by (simp_all add: artifact_register_ok)
  have fresh: "call_id c \<notin> call_id ` set calls"
    using c(2) IH(1) by (auto simp: filled_with_def dom_map_of_conv_image_fst image_image)
  then have "filled_with (calls @ [c]) s"
    using IH(1) by (auto simp: filled_with_def c(3) map_of_snoc[of _ _ "handle_record_of (fst c) (snd c)"]
      map_of_snoc[of _ _ "fst c"] image_image bm_ok_insert simp del: map_of_append)
  then show ?case using IH(2) c(1) by simp
qed

lemma filled_get:
  assumes "filled_with calls s"
  shows "bm_get (as_records s) i = Some rec \<longleftrightarrow>
    (\<exists>c \<in> set calls. call_id c = i \<and> rec = handle_record_of (fst c) (snd c))"
proof -
  let ?kvs = "map (\<lambda>c. (call_id c, handle_record_of (fst c) (snd c))) calls"
  have "distinct (map fst ?kvs)" using assms by (simp add: filled_with_def comp_def)
  then have "map_of ?kvs i = Some rec \<longleftrightarrow> (i, rec) \<in> set ?kvs" by simp
  then show ?thesis using assms by (auto simp: filled_with_def)
qed

lemma filled_length:
  assumes "filled_with calls s"
  shows "artifact_store_len s = length calls"
proof -
  have "dom (bm_get (as_records s)) = call_id ` set calls"
    using assms by (simp add: filled_with_def dom_map_of_conv_image_fst image_image)
  moreover have "length (as_records s) = card (dom (bm_get (as_records s)))"
    using distinct_card[OF bm_ok_distinct[of "as_records s"]] assms
    unfolding dom_bm_get by (simp add: filled_with_def)
  ultimately have "length (as_records s) = card (call_id ` set calls)" by simp
  also have "\<dots> = length calls"
    using assms by (simp add: filled_with_def distinct_card flip: set_map)
  finally show ?thesis by (simp add: artifact_store_len_def)
qed

lemma filled_refits:
  assumes "filled_with calls s"
  shows "refit_artifacts s = map fst (sort_key call_id calls)"
proof -
  let ?kvs = "map (\<lambda>c. (call_id c, fst c))"
  let ?m = "?kvs (sort_key call_id calls)"
  have d: "distinct (map call_id calls)" and get: "bm_get (as_refits s) = map_of (?kvs calls)"
    and ok: "bm_ok (as_refits s)" using assms by (auto simp: filled_with_def)
  have keys: "map fst ?m = map call_id (sort_key call_id calls)" by (simp add: comp_def)
  have "distinct (map call_id (sort_key call_id calls))"
    using d by (metis distinct_map distinct_sort set_sort)
  then have dm: "distinct (map fst ?m)" and okm: "bm_ok ?m"
    unfolding keys bm_ok_def by (simp_all add: strict_sorted_iff)
  have "map_of ?m = map_of (?kvs calls)"
    by (rule map_of_inject_set[THEN iffD2]) (use dm d in \<open>simp_all add: comp_def\<close>)
  then have "as_refits s = ?m"
    using get by (intro bm_ext ok okm) (simp add: bm_get_def[abs_def])
  then show ?thesis by (simp add: refit_artifacts_def comp_def)
qed

section \<open>Serving requests\<close>

definition request_names :: "artifact_request \<Rightarrow> refit_record \<Rightarrow> bool" where
  "request_names q r \<longleftrightarrow>
     am_node_id q = ra_node_id r \<and> am_controller_id q = ra_controller_id r \<and> am_artifact q = ra_artifact r \<and>
     am_params_fingerprint q = ra_params_fingerprint r \<and> am_loss_fingerprint q = ra_loss_fingerprint r"

lemma artifact_materialize_ok:
  "artifact_materialize env s q = Inr h \<longleftrightarrow>
     (\<exists>r. bm_get (as_records s) (ar_id (am_artifact q)) = Some r \<and> ah_node_id r = am_node_id q \<and>
        ah_controller_id r = am_controller_id q \<and> ah_artifact r = am_artifact q \<and>
        ah_params_fingerprint r = am_params_fingerprint q \<and> ah_loss_fingerprint r = am_loss_fingerprint q \<and>
        handle_record_validate env r = Inr () \<and> ah_handle r = h)"
  by (auto simp: artifact_materialize_def and_then_ok Let_def)

lemma serves_call:
  assumes "admitted_artifact env c"
  shows "(let r = handle_record_of (fst c) (snd c) in
      ah_node_id r = am_node_id q \<and> ah_controller_id r = am_controller_id q \<and> ah_artifact r = am_artifact q \<and>
      ah_params_fingerprint r = am_params_fingerprint q \<and> ah_loss_fingerprint r = am_loss_fingerprint q \<and>
      handle_record_validate env r = Inr () \<and> ah_handle r = h) \<longleftrightarrow> request_names q (fst c) \<and> snd c = h"
proof -
  have "handle_record_validate env (handle_record_of (fst c) (snd c)) = Inr ()"
    using assms by (simp add: admitted_artifact_def)
  then show ?thesis unfolding Let_def request_names_def by (auto simp: handle_record_of_def)
qed

lemma filled_serves:
  assumes "filled_with calls s" "list_all (admitted_artifact env) calls"
  shows "artifact_materialize env s q = Inr h \<longleftrightarrow> (\<exists>c \<in> set calls. request_names q (fst c) \<and> snd c = h)"
proof -
  have "artifact_materialize env s q = Inr h \<longleftrightarrow>
      (\<exists>c \<in> set calls. call_id c = ar_id (am_artifact q) \<and> request_names q (fst c) \<and> snd c = h)"
    unfolding artifact_materialize_ok filled_get[OF assms(1)]
    using serves_call[of env _ q h] assms(2) unfolding list_all_iff Let_def by blast
  moreover have "request_names q (fst c) \<Longrightarrow> call_id c = ar_id (am_artifact q)" for c
    by (simp add: request_names_def)
  ultimately show ?thesis by blast
qed

text \<open>C20: a store that was filled by a sequence of accepted registrations holds one artifact per
  registration, no two of the same id, and serves a request exactly with the handle that was registered
  with a refit record of the requested node, controller, artifact reference, parameters and loss: a
  request whose reference differs in any field from the registered one gets an error, never another
  artifact's handle.\<close>

theorem artifact_store_serves:
  assumes "register_all env calls = Inr s"
  shows "artifact_store_len s = length calls \<and> distinct (map (\<lambda>c. ar_id (ra_artifact (fst c))) calls) \<and>
    refit_artifacts s = map fst (sort_key (\<lambda>c. ar_id (ra_artifact (fst c))) calls) \<and>
    (artifact_materialize env s q = Inr h \<longleftrightarrow> (\<exists>r. (r, h) \<in> set calls \<and> request_names q r))"
proof -
  have f: "filled_with calls s" and a: "list_all (admitted_artifact env) calls"
    using register_all_filled[OF assms] by auto
  have "artifact_materialize env s q = Inr h \<longleftrightarrow> (\<exists>r. (r, h) \<in> set calls \<and> request_names q r)"
    unfolding filled_serves[OF f a] by force
  then show ?thesis using f filled_length[OF f] filled_refits[OF f] by (simp add: filled_with_def)
qed

definition artifact_demo_env :: artifact_env where
  "artifact_demo_env = \<lparr>predictor_json = (\<lambda>_. Inr []), estimator_json = (\<lambda>_. Inr []), artifact_nfc = (\<lambda>s. s),
     artifact_sha256 = (\<lambda>_. [])\<rparr>"

definition artifact_demo_ref :: "string \<Rightarrow> artifact_ref" where
  "artifact_demo_ref i = \<lparr>ar_id = Ident i, ar_kind = ''model'', ar_controller_id = Ident ''c'', ar_backend = None, ar_uri = None,
     ar_content_fingerprint = None, ar_size_bytes = None, ar_plugin = None, ar_plugin_version = None, ar_abi_major = None,
     ar_abi_min_minor = None, ar_predictor = None, ar_estimator = None\<rparr>"

definition artifact_demo_record :: "string \<Rightarrow> refit_record" where
  "artifact_demo_record i = \<lparr>ra_node_id = Ident ''m'', ra_controller_id = Ident ''c'', ra_artifact = artifact_demo_ref i,
     ra_params_fingerprint = replicate 64 (CHR ''a''), ra_loss_fingerprint = None, ra_data_keys = [], ra_prediction_keys = []\<rparr>"

definition artifact_demo_handle :: "64 word \<Rightarrow> handle_ref" where
  "artifact_demo_handle n = \<lparr>handle = n, handle_kind = ModelHandle, owner_controller = Ident ''c''\<rparr>"

definition artifact_demo_request :: "string \<Rightarrow> artifact_request" where
  "artifact_demo_request i = \<lparr>am_run_id = Ident ''r'', am_bundle_id = Ident ''b'', am_node_id = Ident ''m'', am_phase = Predict,
     am_variant_id = None, am_controller_id = Ident ''c'', am_artifact = artifact_demo_ref i,
     am_params_fingerprint = replicate 64 (CHR ''a''), am_loss_fingerprint = None\<rparr>"

definition artifact_demo_calls :: "(refit_record \<times> handle_ref) list" where
  "artifact_demo_calls =
     [(artifact_demo_record ''b'', artifact_demo_handle 1), (artifact_demo_record ''a'', artifact_demo_handle 2)]"

lemma artifact_demo_fingerprint: "is_hex_digest (replicate 64 (CHR ''a''))" "\<not> is_blank (replicate 64 (CHR ''a''))"
  "\<not> is_blank ''model''"
  by code_simp+

lemma artifact_demo_admitted:
  "i \<noteq> [] \<Longrightarrow> admitted_artifact artifact_demo_env (artifact_demo_record i, artifact_demo_handle n)"
  by (simp add: admitted_artifact_def refit_record_validate_def handle_record_validate_def artifact_validate_def Let_def
      artifact_demo_record_def artifact_demo_ref_def artifact_demo_handle_def handle_record_of_def
      validate_artifact_optional_text_def requirement_keys_check_def cache_fingerprint_check_def artifact_demo_fingerprint)

lemma artifact_demo_id: "ar_id (ra_artifact (artifact_demo_record i)) = Ident i"
  by (simp add: artifact_demo_record_def artifact_demo_ref_def)

lemma artifact_demo_registers: "\<exists>s. register_all artifact_demo_env artifact_demo_calls = Inr s"
  by (simp add: register_all_def artifact_demo_calls_def and_then_ok artifact_register_ok artifact_demo_admitted
      artifact_store_new_def artifact_demo_id domIff bm_get_def)

lemma artifact_store_serves_witness:
  "\<exists>s. register_all artifact_demo_env artifact_demo_calls = Inr s \<and>
     map (\<lambda>r. as_str (ar_id (ra_artifact r))) (refit_artifacts s) = [''a'', ''b''] \<and>
     artifact_materialize artifact_demo_env s (artifact_demo_request ''a'') = Inr (artifact_demo_handle 2)"
proof -
  obtain s where s: "register_all artifact_demo_env artifact_demo_calls = Inr s"
    using artifact_demo_registers by blast
  have sorted: "map (\<lambda>r. as_str (ar_id (ra_artifact r)))
      (map fst (sort_key (\<lambda>c. ar_id (ra_artifact (fst c))) artifact_demo_calls)) = [''a'', ''b'']"
    by code_simp
  have named: "request_names (artifact_demo_request ''a'') (artifact_demo_record ''a'')"
    by (simp add: request_names_def artifact_demo_request_def artifact_demo_record_def artifact_demo_ref_def)
  have "artifact_materialize artifact_demo_env s (artifact_demo_request ''a'') = Inr (artifact_demo_handle 2)"
    using artifact_store_serves[OF s, of "artifact_demo_request ''a''" "artifact_demo_handle 2"] named
    by (auto simp: artifact_demo_calls_def)
  moreover have "refit_artifacts s = map fst (sort_key (\<lambda>c. ar_id (ra_artifact (fst c))) artifact_demo_calls)"
    using artifact_store_serves[OF s] by blast
  ultimately show ?thesis using s sorted by auto
qed

end
