(* ===== verification/Spec2Isabelle.thy ===== *)
theory Spec2Isabelle
  imports AttestedProvider PruneProofs PlanDemo SourceAlignment ImplementationRegistry CacheProofs Columns ArtifactProofs
begin

text \<open>
  \<^bold>\<open>dag-ml: a verification development for the control core.\<close>

  dag-ml executes machine-learning pipelines as graphs over cross-validation folds. Its core crate
  (\<open>crates/dag-ml-core\<close>) owns the contracts that keep such a run sound: the fold sets and the
  out-of-fold predictions may not leak, the graph must be an acyclic well-typed port graph, the
  variants of a campaign are enumerated reproducibly, the best candidate is selected
  deterministically, and every document is fingerprinted canonically. This development models those
  modules and proves what they promise. The crates around the core (Python, C, WASM and command
  line bindings, Arrow and result files) only call it and are not modelled.

  \<^bold>\<open>Conventions.\<close> Rust strings are byte lists (\<open>string\<close>, one \<open>char\<close> per UTF-8 byte), so that
  equality, order and length are those of \<open>str\<close>. A fallible function returns \<open>Inl (Err e)\<close> for
  \<open>Err(e)\<close>, \<open>Inl (Panic w)\<close> where the code would panic (a failed \<open>expect\<close>, an underflow, an index or
  slice out of range) and \<open>Inr x\<close> for \<open>Ok(x)\<close>; \<open>and_then\<close> is the \<open>?\<close> operator, and \<open>try_each\<close>,
  \<open>try_fold\<close>, \<open>try_map\<close> are the loops that stop at the first error. \<open>BTreeMap\<close> and \<open>BTreeSet\<close> are
  their entries in key order. \<open>f64\<close> values are their 64 bits with the comparisons of the standard
  library; no float arithmetic is modelled. \<open>sort_by\<close> is the stable sort; where the comparator is
  not a total preorder the Rust result is unspecified, and no theorem relies on it there:
  \<open>select_candidate_spec\<close> assumes ids on which the order is total. A derived \<open>==\<close> over records that hold
  \<open>serde_json::Value\<close>s is equality of their representatives (\<open>json_norm\<close> in \<open>Json\<close> and the \<open>_norm\<close> beside
  each such record), because Rust identifies the two float zeros; a weight in a compared record is a
  number, as its validation demands. Wording of
  error messages is not modelled: one constructor per format string carries the values it prints.

  \<^bold>\<open>Parameters\<close> stand for code outside the repository: SHA-256 (\<open>digest\<close>), Unicode NFC, the JSON text or
  bytes the derived \<open>Serialize\<close> implementations produce, and the serde decoders. They are gathered in
  the records \<open>hashing\<close> (data contracts), \<open>signing\<close> (data identities), \<open>criteria_env\<close> (criteria),
  \<open>cache_env\<close> (prediction caches), \<open>artifact_env\<close> (artifacts) and \<open>plan_env\<close> (plans), or passed as the
  arguments \<open>decode\<close> and \<open>decode_spec\<close>. \<open>plan_env\<close> also holds the optional profile validators of modules
  that are not modelled: \<open>domain_plan_check\<close> for target domains, and \<open>profile_checks\<close> for Methods
  classification, Torch, prediction availability and experimental units. The plan properties only use
  that these may refuse a plan. A host data provider is a function argument of the attested provider.
  Theorems need no law of a parameter except where a hypothesis names it.

  \<^bold>\<open>Bounds.\<close> The strict JSON parser nests at most 128 deep and reads at most 2 to the 64 minus 1
  nodes; it terminates because every step moves the offset forward. Handles are 64-bit words: the
  counter's overflow is a panic, as in a build with overflow checks. No definition uses fuel: the loops
  are structural, carry a measure, or are \<open>while_option\<close> with a termination theorem (the work list of the
  prune).

  \<^bold>\<open>Theories.\<close>
  \<^item> \<open>Prelude\<close>, \<open>BTree\<close>, \<open>Strings\<close>, \<open>F64\<close>, \<open>Json\<close>: what the modules use of the standard library and of
    \<open>serde_json::Value\<close>; results and loops, the stable sort, ordered maps behind the locale
    \<open>ordered_map\<close>, white space, decimal text, binary64 by its bits.
  \<^item> \<open>Errors\<close> (\<open>error.rs\<close>), \<open>Ids\<close> (\<open>ids.rs\<close>, \<open>phase.rs\<close>, \<open>rng.rs\<close>): the error taxonomy and its packed
    codes, identifiers, phases, seed derivation.
  \<^item> \<open>Fold\<close>, \<open>Splitters\<close>, \<open>SplitterProofs\<close>, \<open>GroupSplit\<close>, \<open>NestedCv\<close> (\<open>fold.rs\<close>): fold sets and their
    validation, target-missing exclusion, the K-fold, stratified and group splitters (the locale
    \<open>splitter\<close> is the contract the three share) and nested cross-validation.
  \<^item> \<open>Oof\<close>, \<open>OofProofs\<close>, \<open>OofJoin\<close>, \<open>OofLeak\<close> (\<open>oof.rs\<close>): prediction blocks, their gates, the feature
    joins, and the theorem that a validated campaign has no leak.
  \<^item> \<open>Graph\<close>, \<open>Kahn\<close>, \<open>GraphProofs\<close> (\<open>graph.rs\<close>): ports and contracts, validation, topological order
    and levels. The Kahn loops are total functions: each iteration removes a node or lowers the total
    in-degree.
  \<^item> \<open>Selection\<close>, \<open>SelectionProofs\<close> (\<open>selection.rs\<close>): policies, decisions, ranking.
  \<^item> \<open>Generation\<close>, \<open>GenerationProofs\<close>, \<open>VariantProofs\<close>, \<open>OperatorProofs\<close> (\<open>generation.rs\<close>): the
    enumeration of variants under the limit of 10000 and the checked product of \<open>usize\<close>, constraints,
    overrides, operator models, the random subset.
  \<^item> \<open>Policy\<close> (\<open>policy.rs\<close>), \<open>Relations\<close>, \<open>RelationProofs\<close>, \<open>RelationLeak\<close>, \<open>RelationGroups\<close>
    (\<open>relation.rs\<close> and the grouping index): policies, sample relations, the leakage check against a
    fold set, canonical order, statistical groups.
  \<^item> \<open>Utf8\<close>, \<open>Decimal\<close>, \<open>Canonical\<close>, \<open>CanonicalProofs\<close>, \<open>CanonicalParser\<close>, \<open>CanonicalReads\<close>,
    \<open>CanonicalBudget\<close>, \<open>CanonicalSafety\<close> (\<open>canonical.rs\<close>): the typed canonical encoding and its
    fingerprints, the strict JSON parser, a big-step semantics the parser agrees with, its node budget,
    and the absence of panics on any bytes.
  \<^item> \<open>Checks\<close>, \<open>Representation\<close>, \<open>DataPlan\<close>, \<open>Cohort\<close>, \<open>DataBinding\<close>, \<open>DataProofs\<close> (\<open>data.rs\<close>): branch
    views, representation plans, model inputs, data plans, view policies, prediction cohorts, envelopes
    and bindings.
  \<^item> \<open>DataProvider\<close>, \<open>DataProviderProofs\<close>, \<open>ProviderContract\<close> (\<open>data.rs\<close>, \<open>runtime/artifact.rs\<close>): the
    in-memory provider as a step relation, its invariant, and its refinement of an abstract store of
    fresh handles, the locale \<open>view_provider\<close>.
  \<^item> \<open>DataViews\<close>, \<open>DataViewProofs\<close> (\<open>runtime/dataview.rs\<close>, parts of \<open>runtime/merge.rs\<close> and
    \<open>runtime/scheduler.rs\<close>): which rows a node sees in a phase and fold.
  \<^item> \<open>KeyedRegistry\<close>: the locale of a registry that is filled once under distinct keys; its two
    providers are the bindings of \<open>AttestedProvider\<close> (\<open>runtime/dataview.rs\<close>, \<open>training.rs\<close>) and the
    manifests of \<open>Controller\<close>, \<open>ControllerProofs\<close> (\<open>controller.rs\<close>).
  \<^item> \<open>Criteria\<close>, \<open>CriteriaRoles\<close>, \<open>CriteriaProofs\<close> (\<open>criteria.rs\<close>): losses, metrics, implementation
    descriptors, roles, attestations. The locale \<open>signed_record\<close> is what the five self-fingerprinted
    records share.
  \<^item> \<open>Campaign\<close>, \<open>Plan\<close>, \<open>PlanChecks\<close>, \<open>PlanNode\<close>, \<open>PlanValid\<close>, \<open>PlanValidate\<close>, \<open>PlanProofs\<close>, \<open>PlanDemo\<close>
    (\<open>plan.rs\<close>, the named-input profile of \<open>dsl/types.rs\<close>): campaigns, plan validation, the builder, the
    schedule of a phase; \<open>PlanPrune\<close>, \<open>PruneProofs\<close>: the prune to one operator choice.
  \<^item> \<open>KeyedFill\<close>: the locale of a map filled from a list under distinct keys, the general form of
    \<open>KeyedRegistry\<close>; \<open>SourceAlignment\<close> (\<open>source_alignment.rs\<close>): the row permutations that align named
    sources; \<open>ImplementationRegistry\<close> (\<open>implementation_registry.rs\<close>): the process-local registry and its
    refinement of a map.
  \<^item> \<open>CacheRecords\<close>, \<open>CachePayloads\<close>, \<open>CacheProofs\<close> (\<open>bundle.rs\<close>, the block types of \<open>aggregation.rs\<close>):
    cached out-of-fold predictions, their records, payloads and builders; \<open>Columns\<close>
    (\<open>runtime/prediction_store.rs\<close>): their columnar form, from which every block is recovered.
  \<^item> \<open>Artifacts\<close>, \<open>ArtifactProofs\<close> (\<open>runtime/artifact.rs\<close>, \<open>n4m_roles.rs\<close>, the refit records of
    \<open>bundle.rs\<close>): artifact references, native descriptors, artifact URIs and the in-memory artifact store.

  \<^bold>\<open>How the parts meet.\<close> The builder of a plan orders the graph (\<open>Graph\<close>), resolves a controller for
  every node (\<open>Controller\<close>), enumerates the variants (\<open>Generation\<close>) and validates the result against the
  campaign's folds, bindings and policies (\<open>Fold\<close>, \<open>DataBinding\<close>, \<open>Policy\<close>, \<open>CriteriaRoles\<close>). The
  schedule of a plan gives the scopes in which \<open>DataViews\<close> picks the rows and a provider serves them;
  \<open>Oof\<close> checks the predictions that come back, and \<open>Selection\<close> picks the candidate.

  \<^bold>\<open>Lemma groups.\<close> For every operation the collection \<open>ok_iff\<close> says exactly when it returns \<open>Ok\<close> and
  with what; \<open>no_panic\<close> lemmas say that its panics are unreachable; the properties compose them.

  \<^bold>\<open>Findings.\<close> \<open>compare_scores_cycle\<close>: the tie-break of candidates is not transitive.
  \<open>target_for_sample_misses_target\<close>: the aggregation lookup misses a target the splitters see.
  \<open>attested_new_accepts_mismatched_envelope\<close>: the attested provider accepts an envelope that
  contradicts its binding when the evidence is incomplete. \<open>check_origin\<close>: a row is compared with its
  origin only where the fold holds the origin, so \<open>validated_relations_no_leak\<close> speaks of those origins.

  \<^bold>\<open>Not modelled.\<close> Float arithmetic (aggregation, metrics, conformal quantiles, native estimators); the
  phase scheduler and the training runtime, which drive host callbacks over shared mutable stores;
  the file stores of predictions and artifacts, execution bundles beyond their caches and refit
  records, provenance and replay; hyper-parameter search; the pipeline DSL compiler apart from the
  named-input profile; the optional plan profiles (target domains, Methods classification, Torch,
  prediction availability, experimental units), which are parameters of the plan; the decoding of
  serde documents into records; tracing and file input/output; the bindings for other languages.
\<close>

end
